(* ===== verification/Prelude.thy ===== *)
theory Prelude
  imports Main "HOL-Library.Word" "HOL-Library.Finite_Map" "HOL-Library.List_Lexorder"
    "HOL-Library.Char_ord"
begin

text \<open>
  Shared vocabulary of the development: fallible computations, Go's early-return validation
  style, order-preserving deduplication, stable sorting, big-endian byte strings, and the
  generic interfaces (normal forms, invariants of step functions) that several components
  instantiate.

  A Go function \<open>func f(...) (T, error)\<close> becomes a function into \<open>'e + 'a\<close> (\<open>Inl\<close> the error);
  a Go function \<open>func f(...) error\<close> becomes a function into \<open>'e option\<close> (\<open>None\<close> is \<open>nil\<close>).
\<close>

named_theorems res_simps \<open>rewrite rules for fallible computations\<close>
named_theorems wire_simps \<open>rewrite rules for byte strings and big-endian fields\<close>
named_theorems go_eval \<open>definitions unfolded when a closed term is evaluated\<close>

type_synonym byte = "8 word"
type_synonym bytes = "8 word list"
type_synonym u8 = "8 word"
type_synonym u16 = "16 word"
type_synonym u32 = "32 word"
type_synonym u64 = "64 word"

section \<open>Fallible computations\<close>

text \<open>\<open>x, err := m; if err != nil { return err }; k(x)\<close>\<close>

definition res_bind :: "'e + 'a \<Rightarrow> ('a \<Rightarrow> 'e + 'b) \<Rightarrow> 'e + 'b" where
  "res_bind m k = (case m of Inl e \<Rightarrow> Inl e | Inr x \<Rightarrow> k x)"

text \<open>\<open>if err := c; err != nil { return err }; k\<close>, once for results and once for checks.\<close>

definition guard_res :: "'e option \<Rightarrow> 'e + 'a \<Rightarrow> 'e + 'a" where
  "guard_res c k = (case c of Some e \<Rightarrow> Inl e | None \<Rightarrow> k)"

definition then_check :: "'e option \<Rightarrow> 'e option \<Rightarrow> 'e option" where
  "then_check c d = (case c of Some e \<Rightarrow> Some e | None \<Rightarrow> d)"

text \<open>\<open>for _, x := range xs { if err := f(x); err != nil { return err } }\<close>\<close>

fun check_all :: "('a \<Rightarrow> 'e option) \<Rightarrow> 'a list \<Rightarrow> 'e option" where
  "check_all f [] = None"
| "check_all f (x # xs) = then_check (f x) (check_all f xs)"

text \<open>The same loop when its body also computes a new state.\<close>

fun res_fold :: "('s \<Rightarrow> 'a \<Rightarrow> 'e + 's) \<Rightarrow> 's \<Rightarrow> 'a list \<Rightarrow> 'e + 's" where
  "res_fold f s [] = Inr s"
| "res_fold f s (x # xs) = res_bind (f s x) (\<lambda>t. res_fold f t xs)"

text \<open>The error of a result, as a check.\<close>

definition err_of :: "'e + 'a \<Rightarrow> 'e option" where
  "err_of r = (case r of Inl e \<Rightarrow> Some e | Inr _ \<Rightarrow> None)"

lemma res_bind_simps [simp, res_simps]:
  "res_bind (Inl e) k = Inl e"
  "res_bind (Inr x) k = k x"
  by (simp_all add: res_bind_def)

lemma res_bind_Inr [res_simps]: "res_bind m k = Inr y \<longleftrightarrow> (\<exists>x. m = Inr x \<and> k x = Inr y)"
  by (cases m) simp_all

lemma res_bind_Inl [res_simps]:
  "res_bind m k = Inl e \<longleftrightarrow> m = Inl e \<or> (\<exists>x. m = Inr x \<and> k x = Inl e)"
  by (cases m) simp_all

lemma guard_res_simps [simp, res_simps]:
  "guard_res (Some e) k = Inl e"
  "guard_res None k = k"
  by (simp_all add: guard_res_def)

lemma guard_res_Inr [res_simps]: "guard_res c k = Inr y \<longleftrightarrow> c = None \<and> k = Inr y"
  by (cases c) simp_all

lemma then_check_simps [simp, res_simps]:
  "then_check (Some e) d = Some e"
  "then_check None d = d"
  by (simp_all add: then_check_def)

lemma then_check_None [res_simps]: "then_check c d = None \<longleftrightarrow> c = None \<and> d = None"
  by (cases c) simp_all

lemma then_check_Some [res_simps]:
  "then_check c d = Some e \<longleftrightarrow> c = Some e \<or> (c = None \<and> d = Some e)"
  by (cases c) simp_all

lemma check_all_None [res_simps]: "check_all f xs = None \<longleftrightarrow> (\<forall>x\<in>set xs. f x = None)"
  by (induction xs) (auto simp: then_check_None)

lemma check_all_SomeD: "check_all f xs = Some e \<Longrightarrow> \<exists>x\<in>set xs. f x = Some e"
  by (induction xs) (auto simp: then_check_Some)

lemma err_of_None [res_simps]: "err_of r = None \<longleftrightarrow> (\<exists>x. r = Inr x)"
  by (cases r) (simp_all add: err_of_def)

lemma err_of_simps [simp]: "err_of (Inl e) = Some e" "err_of (Inr x) = None"
  by (simp_all add: err_of_def)

text \<open>The invariant rule of a fallible loop.\<close>

lemma res_fold_inv:
  assumes "res_fold f s xs = Inr t" and "P s"
    and "\<And>s x t. x \<in> set xs \<Longrightarrow> P s \<Longrightarrow> f s x = Inr t \<Longrightarrow> P t"
  shows "P t"
  using assms
proof (induction xs arbitrary: s)
  case Nil
  then show ?case by simp
next
  case (Cons x xs)
  from Cons.prems(1) obtain u where u: "f s x = Inr u" and rest: "res_fold f u xs = Inr t"
    by (auto simp: res_bind_Inr)
  have "P u" using Cons.prems(2,3) u by auto
  then show ?case using Cons.IH [OF rest] Cons.prems(3) by auto
qed

lemma res_fold_append:
  "res_fold f s (xs @ ys) = res_bind (res_fold f s xs) (\<lambda>t. res_fold f t ys)"
  by (induction xs arbitrary: s) (auto simp: res_bind_def split: sum.splits)

section \<open>Lists\<close>

text \<open>
  The deduplication loops of the SDK keep the first occurrence of every value that is not
  skipped: \<open>seen\<close> is the set of values already copied.
\<close>

fun unique_from :: "'a list \<Rightarrow> ('a \<Rightarrow> bool) \<Rightarrow> 'a list \<Rightarrow> 'a list" where
  "unique_from seen skip [] = []"
| "unique_from seen skip (x # xs) =
     (if skip x \<or> x \<in> set seen then unique_from seen skip xs
      else x # unique_from (x # seen) skip xs)"

lemma set_unique_from: "set (unique_from seen skip xs) = {x \<in> set xs. \<not> skip x \<and> x \<notin> set seen}"
  by (induction seen skip xs rule: unique_from.induct) auto

lemma distinct_unique_from: "distinct (unique_from seen skip xs)"
  by (induction seen skip xs rule: unique_from.induct) (auto simp: set_unique_from)

lemma unique_from_id:
  "distinct xs \<Longrightarrow> (\<And>x. x \<in> set xs \<Longrightarrow> \<not> skip x \<and> x \<notin> set seen) \<Longrightarrow> unique_from seen skip xs = xs"
  by (induction seen skip xs rule: unique_from.induct) auto

lemma unique_from_idem:
  "unique_from [] skip (unique_from [] skip xs) = unique_from [] skip xs"
  by (rule unique_from_id) (auto simp: distinct_unique_from set_unique_from)

text \<open>
  \<open>sort.Slice\<close> with a key comparison. Go does not fix the order of elements with equal keys;
  \<open>sort_key\<close> is the stable choice.
\<close>

lemma sort_key_idem [simp]: "sort_key f (sort_key f xs) = sort_key f xs"
  by (simp add: sort_key_id_if_sorted)

section \<open>Generic interfaces\<close>

text \<open>
  A normaliser maps every value to a normal form and leaves normal forms alone. Comparing
  two normalised values is then a sound change test: normalising again changes nothing.
\<close>

locale normaliser =
  fixes norm :: "'a \<Rightarrow> 'a"
  assumes norm_idem: "norm (norm x) = norm x"
begin

definition normal :: "'a \<Rightarrow> bool" where
  "normal x \<longleftrightarrow> norm x = x"

lemma normal_norm: "normal (norm x)"
  by (simp add: normal_def norm_idem)

lemma norm_same_iff: "norm x = norm y \<longleftrightarrow> norm (norm x) = norm y"
  by (simp add: norm_idem)

lemma norm_range_iff: "(\<exists>y. x = norm y) \<longleftrightarrow> normal x"
  by (metis normal_def norm_idem)

end

text \<open>
  A component with a state invariant: a set of operations, each total on states, and the
  invariant every one of them keeps. Every run from a good state stays good.
\<close>

locale invariant_system =
  fixes step :: "'s \<Rightarrow> 'o \<Rightarrow> 's"
    and inv :: "'s \<Rightarrow> bool"
  assumes step_inv: "inv s \<Longrightarrow> inv (step s a)"
begin

lemma run_inv: "inv s \<Longrightarrow> inv (foldl step s as)"
  by (induction as arbitrary: s) (auto intro: step_inv)

lemma prefix_inv: "inv s \<Longrightarrow> inv (foldl step s (take n as))"
  by (rule run_inv)

end

end
