(* ===== verification/Go_Strings.thy ===== *)
theory Go_Strings
  imports Prelude
begin

text \<open>
  The parts of Go's \<open>strings\<close> and \<open>strconv\<close> packages that the SDK uses.
  A Go string is a sequence of bytes; \<^typ>\<open>string\<close> is a list of 8-bit characters, and the order
  on strings (List_Lexorder over Char_ord) is Go's bytewise order.
\<close>

section \<open>Prefixes, substrings, splitting\<close>

definition strings_HasPrefix :: "string \<Rightarrow> string \<Rightarrow> bool" where
  "strings_HasPrefix s p \<longleftrightarrow> length p \<le> length s \<and> take (length p) s = p"

definition strings_TrimPrefix :: "string \<Rightarrow> string \<Rightarrow> string" where
  "strings_TrimPrefix s p = (if strings_HasPrefix s p then drop (length p) s else s)"

fun strings_Contains :: "string \<Rightarrow> string \<Rightarrow> bool" where
  "strings_Contains [] p \<longleftrightarrow> p = []"
| "strings_Contains (c # s) p \<longleftrightarrow> strings_HasPrefix (c # s) p \<or> strings_Contains s p"

text \<open>\<open>strings.Split\<close> with a separator of one byte.\<close>

fun strings_Split :: "char \<Rightarrow> string \<Rightarrow> string list" where
  "strings_Split sep [] = [[]]"
| "strings_Split sep (c # s) =
     (if c = sep then [] # strings_Split sep s
      else (case strings_Split sep s of [] \<Rightarrow> [[c]] | w # ws \<Rightarrow> (c # w) # ws))"

lemma strings_HasPrefix_append [simp]: "strings_HasPrefix (p @ s) p"
  by (simp add: strings_HasPrefix_def)

lemma strings_TrimPrefix_append [simp]: "strings_TrimPrefix (p @ s) p = s"
  by (simp add: strings_TrimPrefix_def)

lemma strings_HasPrefix_iff: "strings_HasPrefix s p \<longleftrightarrow> (\<exists>t. s = p @ t)"
  by (metis append_take_drop_id strings_HasPrefix_append strings_HasPrefix_def)

lemma strings_Contains_iff: "strings_Contains s p \<longleftrightarrow> (\<exists>u v. s = u @ p @ v)"
proof (induction s)
  case Nil
  then show ?case by simp
next
  case (Cons c s)
  show ?case
    by (auto simp: Cons.IH strings_HasPrefix_iff Cons_eq_append_conv)
qed

section \<open>White space\<close>

text \<open>
  \<open>strings.TrimSpace\<close> cuts the runes of Unicode's White\_Space property at both ends; these are
  their UTF-8 encodings.
\<close>

definition space_runes :: "string list" where
  "space_runes =
     [[CHR 0x09], [CHR 0x0A], [CHR 0x0B], [CHR 0x0C], [CHR 0x0D], [CHR 0x20],
      [CHR 0xC2, CHR 0x85], [CHR 0xC2, CHR 0xA0], [CHR 0xE1, CHR 0x9A, CHR 0x80]] @
     map (\<lambda>n. [CHR 0xE2, CHR 0x80, char_of (0x80 + n)]) [0..<11::nat] @
     [[CHR 0xE2, CHR 0x80, CHR 0xA8], [CHR 0xE2, CHR 0x80, CHR 0xA9],
      [CHR 0xE2, CHR 0x80, CHR 0xAF], [CHR 0xE2, CHR 0x81, CHR 0x9F],
      [CHR 0xE3, CHR 0x80, CHR 0x80]]"

definition lead_len :: "string list \<Rightarrow> string \<Rightarrow> nat" where
  "lead_len qs s = (case find (strings_HasPrefix s) qs of None \<Rightarrow> 0 | Some q \<Rightarrow> length q)"

function strip_lead :: "string list \<Rightarrow> string \<Rightarrow> string" where
  "strip_lead qs s = (if lead_len qs s = 0 then s else strip_lead qs (drop (lead_len qs s) s))"
  by pat_completeness auto
termination
proof (relation "measure (\<lambda>(qs, s). length s)", goal_cases)
  case 1
  show ?case by simp
next
  case (2 qs s)
  then have "s \<noteq> []"
    by (auto simp: lead_len_def strings_HasPrefix_def find_Some_iff split: option.splits)
  with 2 show ?case by simp
qed

declare strip_lead.simps [simp del]

definition strings_TrimSpace :: "string \<Rightarrow> string" where
  "strings_TrimSpace s = rev (strip_lead (map rev space_runes) (rev (strip_lead space_runes s)))"

text \<open>\<open>strings.TrimSpace(s) == ""\<close>\<close>

definition blank :: "string \<Rightarrow> bool" where
  "blank s \<longleftrightarrow> strings_TrimSpace s = []"

lemma strip_lead_stop: "lead_len qs s = 0 \<Longrightarrow> strip_lead qs s = s"
  by (simp add: strip_lead.simps)

lemma strip_lead_go:
  "lead_len qs s \<noteq> 0 \<Longrightarrow> strip_lead qs s = strip_lead qs (drop (lead_len qs s) s)"
  by (simp add: strip_lead.simps [of qs s])

lemma lead_len_prefix:
  assumes "lead_len qs s \<noteq> 0"
  shows "\<exists>q t. q \<in> set qs \<and> s = q @ t \<and> lead_len qs s = length q"
proof -
  obtain q where q: "find (strings_HasPrefix s) qs = Some q"
    using assms by (auto simp: lead_len_def split: option.splits)
  then have "q \<in> set qs" "strings_HasPrefix s q"
    by (auto simp: find_Some_iff dest: nth_mem)
  with q show ?thesis by (auto simp: lead_len_def strings_HasPrefix_iff)
qed

lemma strip_lead_Nil [simp]: "strip_lead qs [] = []"
  by (rule strip_lead_stop) (use lead_len_prefix [of qs "[]"] in auto)

lemma strip_lead_length: "length (strip_lead qs s) \<le> length s"
proof (induction qs s rule: strip_lead.induct)
  case (1 qs s)
  then show ?case
    by (cases "lead_len qs s = 0") (auto simp: strip_lead_stop strip_lead_go)
qed

text \<open>A byte that starts no white-space rune and ends none: every printable ASCII byte.\<close>

definition plain_byte :: "char \<Rightarrow> bool" where
  "plain_byte c \<longleftrightarrow> 0x20 < (of_char c :: nat) \<and> (of_char c :: nat) < 0x80"

lemma lead_len_plain:
  assumes "plain_byte c" and "\<And>q. q \<in> set qs \<Longrightarrow> q \<noteq> [] \<and> \<not> plain_byte (hd q)"
  shows "lead_len qs (c # s) = 0"
proof -
  have "find (strings_HasPrefix (c # s)) qs = None"
    unfolding find_None_iff
  proof
    assume "\<exists>q. q \<in> set qs \<and> strings_HasPrefix (c # s) q"
    then obtain q t where q: "q \<in> set qs" "c # s = q @ t"
      by (auto simp: strings_HasPrefix_iff)
    with assms(2) [OF q(1)] assms(1) show False by (cases q) auto
  qed
  then show ?thesis by (simp add: lead_len_def)
qed

lemma space_runes_not_plain:
  "q \<in> set space_runes \<Longrightarrow> q \<noteq> [] \<and> \<not> plain_byte (hd q)"
  by (auto simp: space_runes_def plain_byte_def)

lemma rev_space_runes_not_plain:
  "q \<in> set (map rev space_runes) \<Longrightarrow> q \<noteq> [] \<and> \<not> plain_byte (hd q)"
  by (auto simp: space_runes_def plain_byte_def)

lemma TrimSpace_plain:
  assumes "s \<noteq> []" and "plain_byte (hd s)" and "plain_byte (last s)"
  shows "strings_TrimSpace s = s"
proof -
  have "lead_len space_runes (hd s # tl s) = 0"
    by (rule lead_len_plain [OF assms(2) space_runes_not_plain])
  then have 1: "strip_lead space_runes s = s" using assms(1) by (simp add: strip_lead_stop)
  obtain t where s: "s = t @ [last s]" using assms(1) by (metis append_butlast_last_id)
  define c where "c = last s"
  have rs: "rev s = c # rev t" unfolding c_def by (subst s) simp
  have "lead_len (map rev space_runes) (c # rev t) = 0"
    by (rule lead_len_plain [OF _ rev_space_runes_not_plain]) (use assms(3) c_def in simp)
  then have "strip_lead (map rev space_runes) (rev s) = rev s"
    by (simp add: rs strip_lead_stop)
  then show ?thesis using 1 by (simp add: strings_TrimSpace_def)
qed

text \<open>One plain byte anywhere is enough for a name not to be blank.\<close>

lemma strip_lead_keeps_plain:
  assumes "\<And>q. q \<in> set qs \<Longrightarrow> \<not> (\<exists>x\<in>set q. plain_byte x)"
  shows "x \<in> set s \<Longrightarrow> plain_byte x \<Longrightarrow> x \<in> set (strip_lead qs s)"
  using assms
proof (induction qs s rule: strip_lead.induct)
  case (1 qs s)
  show ?case
  proof (cases "lead_len qs s = 0")
    case True
    with 1 show ?thesis by (simp add: strip_lead_stop)
  next
    case False
    then obtain q t where q: "q \<in> set qs" "s = q @ t" "lead_len qs s = length q"
      using lead_len_prefix by blast
    with 1 False show ?thesis by (auto simp: strip_lead_go)
  qed
qed

lemma space_runes_no_plain: "q \<in> set space_runes \<Longrightarrow> \<not> (\<exists>x\<in>set q. plain_byte x)"
  by (auto simp: space_runes_def plain_byte_def)

lemma not_blank_plain: "x \<in> set s \<Longrightarrow> plain_byte x \<Longrightarrow> \<not> blank s"
proof -
  assume x: "x \<in> set s" "plain_byte x"
  have "x \<in> set (strip_lead space_runes s)"
    by (rule strip_lead_keeps_plain [OF space_runes_no_plain x])
  then have "x \<in> set (strip_lead (map rev space_runes) (rev (strip_lead space_runes s)))"
    by (intro strip_lead_keeps_plain) (use x space_runes_no_plain in auto)
  then show ?thesis by (auto simp: blank_def strings_TrimSpace_def)
qed

lemma blank_Nil [simp]: "blank []"
  by (simp add: blank_def strings_TrimSpace_def)

lemma not_blank_notempty: "\<not> blank s \<Longrightarrow> s \<noteq> []"
  by auto

section \<open>Letter case\<close>

text \<open>
  \<open>strings.ToLower\<close> and \<open>strings.EqualFold\<close> on ASCII strings (bytes from 128 are left alone). The
  SDK folds against the literal \<open>"hub"\<close>, to whose letters no rune outside ASCII folds.
\<close>

definition lower_char :: "char \<Rightarrow> char" where
  "lower_char c = (let n = (of_char c :: nat) in if 65 \<le> n \<and> n \<le> 90 then char_of (n + 32) else c)"

definition strings_ToLower :: "string \<Rightarrow> string" where
  "strings_ToLower s = map lower_char s"

definition strings_EqualFold :: "string \<Rightarrow> string \<Rightarrow> bool" where
  "strings_EqualFold s t \<longleftrightarrow> strings_ToLower s = strings_ToLower t"

section \<open>Decimal numbers\<close>

definition digit_char :: "nat \<Rightarrow> char" where
  "digit_char n = char_of (48 + n)"

definition is_digit :: "char \<Rightarrow> bool" where
  "is_digit c \<longleftrightarrow> 48 \<le> (of_char c :: nat) \<and> (of_char c :: nat) \<le> 57"

definition digit_val :: "char \<Rightarrow> nat" where
  "digit_val c = of_char c - 48"

fun nat_dec :: "nat \<Rightarrow> string" where
  "nat_dec n = (if n < 10 then [digit_char n] else nat_dec (n div 10) @ [digit_char (n mod 10)])"

declare nat_dec.simps [simp del]

lemma is_digit_digit_char [simp]: "n < 10 \<Longrightarrow> is_digit (digit_char n)"
  by (simp add: is_digit_def digit_char_def)

lemma digit_val_digit_char [simp]: "n < 10 \<Longrightarrow> digit_val (digit_char n) = n"
  by (simp add: digit_val_def digit_char_def)

lemma nat_dec_nonempty [simp]: "nat_dec n \<noteq> []"
  by (subst nat_dec.simps) simp

lemma nat_dec_digits: "c \<in> set (nat_dec n) \<Longrightarrow> is_digit c"
proof (induction n rule: nat_dec.induct)
  case (1 n)
  then show ?case
    by (cases "n < 10") (auto simp: nat_dec.simps [of n])
qed

end
