(* ===== verification/Errors.thy ===== *)
theory Errors
  imports Go_Strings
begin

text \<open>
  \<^verbatim>\<open>src/errors.go\<close> and the error classification of \<^verbatim>\<open>src/util.go\<close>: typed errors, their text,
  unwrapping, \<open>KindOf\<close>, the classification of context and transaction errors, and the
  checks on the result vector of an OVSDB transaction.
\<close>

section \<open>Typed errors\<close>

datatype ErrorKind =
    ErrorAlreadyExists | ErrorNotFound | ErrorConflict | ErrorUnavailable | ErrorInvalidSchema
  | ErrorTimeout | ErrorCanceled | ErrorPartial | ErrorValidation | ErrorUnsupported
  | ErrorPermissionDenied | ErrorAmbiguous | ErrorOwnershipViolation | ErrorBackendUnavailable

fun kind_string :: "ErrorKind \<Rightarrow> string" where
  "kind_string ErrorAlreadyExists = ''already_exists''"
| "kind_string ErrorNotFound = ''not_found''"
| "kind_string ErrorConflict = ''conflict''"
| "kind_string ErrorUnavailable = ''unavailable''"
| "kind_string ErrorInvalidSchema = ''invalid_schema''"
| "kind_string ErrorTimeout = ''timeout''"
| "kind_string ErrorCanceled = ''canceled''"
| "kind_string ErrorPartial = ''partial_success''"
| "kind_string ErrorValidation = ''validation''"
| "kind_string ErrorUnsupported = ''unsupported''"
| "kind_string ErrorPermissionDenied = ''permission_denied''"
| "kind_string ErrorAmbiguous = ''ambiguous''"
| "kind_string ErrorOwnershipViolation = ''ownership_violation''"
| "kind_string ErrorBackendUnavailable = ''backend_unavailable''"

text \<open>
  An error value. \<open>OvnError\<close> is the SDK's \<open>*Error\<close> with its seven fields; the two context
  sentinels are the values the code compares with; \<open>NetError\<close> is any error that implements
  \<open>net.Error\<close>, \<open>ForeignError\<close> any other error of the standard library or of a dependency, both
  known by their text.
\<close>

datatype go_error =
    OvnError (err_Kind: ErrorKind) (err_Database: string) (err_Table: string)
      (err_Operation: string) (err_Object: string) (err_Message: string)
      (err_Err: "go_error option")
  | ContextCanceled
  | ContextDeadlineExceeded
  | NetError string
  | ForeignError string

type_synonym 'a res = "go_error + 'a"
type_synonym check = "go_error option"

definition space_if :: "string \<Rightarrow> string" where
  "space_if s = (if s \<noteq> [] then '' '' @ s else [])"

fun Error_text :: "go_error \<Rightarrow> string" where
  "Error_text (OvnError k db tab oper obj msg cause) =
     kind_string k @ space_if oper @ space_if tab @ space_if obj @
     (if msg \<noteq> [] then '': '' @ msg else []) @
     (case cause of None \<Rightarrow> [] | Some e \<Rightarrow> '': '' @ Error_text e)"
| "Error_text ContextCanceled = ''context canceled''"
| "Error_text ContextDeadlineExceeded = ''context deadline exceeded''"
| "Error_text (NetError t) = t"
| "Error_text (ForeignError t) = t"

fun Unwrap :: "go_error \<Rightarrow> go_error option" where
  "Unwrap (OvnError k db tab oper obj msg cause) = cause"
| "Unwrap _ = None"

text \<open>The method \<open>(e *Error) Is\<close>: only the kind is compared.\<close>

fun Error_Is :: "go_error \<Rightarrow> go_error \<Rightarrow> bool" where
  "Error_Is (OvnError k _ _ _ _ _ _) (OvnError k' _ _ _ _ _ _) \<longleftrightarrow> k = k'"
| "Error_Is _ _ \<longleftrightarrow> False"

text \<open>\<open>errors.Is\<close>: the chain of causes is searched for the target, or for an error whose \<open>Is\<close> accepts it.\<close>

fun errors_Is :: "go_error \<Rightarrow> go_error \<Rightarrow> bool" where
  "errors_Is (OvnError k db tab oper obj msg cause) target \<longleftrightarrow>
     OvnError k db tab oper obj msg cause = target
     \<or> Error_Is (OvnError k db tab oper obj msg cause) target
     \<or> (case cause of None \<Rightarrow> False | Some e \<Rightarrow> errors_Is e target)"
| "errors_Is e target \<longleftrightarrow> e = target"

text \<open>\<open>errors.As\<close> with a \<open>*Error\<close> target and with a \<open>net.Error\<close> target. \<open>context.DeadlineExceeded\<close> implements \<open>net.Error\<close>.\<close>

fun errors_As_Error :: "go_error \<Rightarrow> go_error option" where
  "errors_As_Error (OvnError k db tab oper obj msg cause) =
     Some (OvnError k db tab oper obj msg cause)"
| "errors_As_Error _ = None"

fun errors_As_NetError :: "go_error \<Rightarrow> bool" where
  "errors_As_NetError (OvnError k db tab oper obj msg cause) \<longleftrightarrow>
     (case cause of None \<Rightarrow> False | Some e \<Rightarrow> errors_As_NetError e)"
| "errors_As_NetError ContextCanceled \<longleftrightarrow> False"
| "errors_As_NetError ContextDeadlineExceeded \<longleftrightarrow> True"
| "errors_As_NetError (NetError _) \<longleftrightarrow> True"
| "errors_As_NetError (ForeignError _) \<longleftrightarrow> False"

text \<open>\<open>KindOf\<close>: the empty kind is \<open>None\<close>; a nil error has no kind.\<close>

definition KindOf :: "go_error option \<Rightarrow> ErrorKind option" where
  "KindOf err = (case err of None \<Rightarrow> None | Some e \<Rightarrow>
     (case errors_As_Error e of
        Some oe \<Rightarrow> Some (err_Kind oe)
      | None \<Rightarrow>
          if errors_Is e ContextCanceled then Some ErrorCanceled
          else if errors_Is e ContextDeadlineExceeded then Some ErrorTimeout
          else None))"

definition IsKind :: "go_error option \<Rightarrow> ErrorKind \<Rightarrow> bool" where
  "IsKind err kind \<longleftrightarrow> KindOf err = Some kind"

definition wrap_err ::
  "ErrorKind \<Rightarrow> string \<Rightarrow> string \<Rightarrow> string \<Rightarrow> string \<Rightarrow> string \<Rightarrow> go_error option \<Rightarrow> go_error" where
  "wrap_err kind database tab oper object message err =
     OvnError kind database tab oper object
       (if err = None \<and> message = [] then oper @ '' failed'' else message) err"

definition ErrBackendUnavailable :: go_error where
  "ErrBackendUnavailable = OvnError ErrorBackendUnavailable [] [] [] [] [] None"

definition classifyContext :: "go_error option \<Rightarrow> string \<Rightarrow> string \<Rightarrow> string \<Rightarrow> string \<Rightarrow> check" where
  "classifyContext err database tab oper object =
     (case err of None \<Rightarrow> None | Some e \<Rightarrow>
        if errors_Is e ContextCanceled
        then Some (wrap_err ErrorCanceled database tab oper object [] err)
        else if errors_Is e ContextDeadlineExceeded
        then Some (wrap_err ErrorTimeout database tab oper object [] err)
        else Some (wrap_err ErrorUnavailable database tab oper object [] err))"

text \<open>The two name checks of \<^verbatim>\<open>src/util.go\<close>.\<close>

definition validateName :: "string \<Rightarrow> string \<Rightarrow> check" where
  "validateName kind name =
     (if blank name
      then Some (wrap_err ErrorValidation [] [] ''validate'' kind ''name must not be empty'' None)
      else None)"

definition validateExternalID :: "string \<Rightarrow> check" where
  "validateExternalID key =
     (if blank key
      then Some (wrap_err ErrorValidation [] [] ''validate'' [] ''external id key must not be empty'' None)
      else None)"

section \<open>Transaction errors\<close>

definition disconnect_phrases :: "string list" where
  "disconnect_phrases =
     [''not connected'', ''connection refused'', ''connection reset'', ''connection aborted'',
      ''broken pipe'', ''transport is closing'', ''use of closed network connection'',
      ''client is closed'', ''server closed'', ''no route to host'']"

definition isDisconnectError :: "go_error option \<Rightarrow> bool" where
  "isDisconnectError err = (case err of None \<Rightarrow> False | Some e \<Rightarrow>
     errors_As_NetError e
     \<or> list_ex (strings_Contains (strings_ToLower (Error_text e))) disconnect_phrases)"

definition classifyTransactError ::
  "go_error option \<Rightarrow> string \<Rightarrow> string \<Rightarrow> string \<Rightarrow> string \<Rightarrow> check" where
  "classifyTransactError err database tab oper object =
     (case err of None \<Rightarrow> None | Some e \<Rightarrow>
        if errors_Is e ContextCanceled \<or> errors_Is e ContextDeadlineExceeded
        then classifyContext err database tab oper object
        else let msg = Error_text e; w = (\<lambda>k. Some (wrap_err k database tab oper object [] err)) in
          if isDisconnectError err then w ErrorUnavailable
          else if strings_Contains msg ''constraint violation'' \<or> strings_Contains msg ''duplicate''
          then w ErrorAlreadyExists
          else if strings_Contains msg ''not found'' \<or> strings_Contains msg ''not exist''
          then w ErrorNotFound
          else if strings_Contains msg ''referential integrity'' then w ErrorConflict
          else if errors_As_NetError e then w ErrorUnavailable
          else w ErrorConflict)"

text \<open>The fields of libovsdb's \<open>OperationResult\<close> and \<open>Operation\<close> that the SDK reads.\<close>

record OperationResult =
  Count :: int
  ErrorField :: string
  Details :: string

definition result_message :: "OperationResult \<Rightarrow> string" where
  "result_message r = (if Details r \<noteq> [] then ErrorField r @ '': '' @ Details r else ErrorField r)"

definition result_kind :: "string \<Rightarrow> ErrorKind" where
  "result_kind msg =
     (if strings_Contains msg ''not found'' \<or> strings_Contains msg ''not exist'' then ErrorNotFound
      else if strings_Contains msg ''constraint'' \<or> strings_Contains msg ''duplicate''
      then ErrorAlreadyExists else ErrorConflict)"

fun checkOperationResults ::
  "OperationResult list \<Rightarrow> string \<Rightarrow> string \<Rightarrow> string \<Rightarrow> string \<Rightarrow> check" where
  "checkOperationResults [] database tab oper object = None"
| "checkOperationResults (r # rs) database tab oper object =
     (if ErrorField r = [] then checkOperationResults rs database tab oper object
      else let msg = result_message r in
        Some (wrap_err (result_kind msg) database tab oper object msg None))"

fun checkAffected ::
  "OperationResult list \<Rightarrow> int list \<Rightarrow> string \<Rightarrow> string \<Rightarrow> string \<Rightarrow> string \<Rightarrow> check" where
  "checkAffected results [] database tab oper object = None"
| "checkAffected results (index # rest) database tab oper object =
     (if index < 0 \<or> index \<ge> int (length results)
      then Some (wrap_err ErrorConflict database tab oper object ''operation result missing'' None)
      else if Count (results ! nat index) = 0
      then Some (wrap_err ErrorNotFound database tab oper object ''operation did not affect any rows'' None)
      else checkAffected results rest database tab oper object)"

definition ensureAffected ::
  "OperationResult list \<Rightarrow> int list \<Rightarrow> string \<Rightarrow> string \<Rightarrow> string \<Rightarrow> string \<Rightarrow> check" where
  "ensureAffected results opIndexes database tab oper object =
     then_check (checkOperationResults results database tab oper object)
       (checkAffected results opIndexes database tab oper object)"

text \<open>\<open>mustAffectNonInsertOps\<close>: the positions of the delete, mutate and update operations.\<close>

definition mustAffectNonInsertOps :: "string list \<Rightarrow> int list" where
  "mustAffectNonInsertOps ops =
     map (int \<circ> fst) (filter (\<lambda>(i, oper). oper \<in> {''delete'', ''mutate'', ''update''})
       (enumerate 0 ops))"

section \<open>Lemmas\<close>

lemma wrap_err_sel [simp, res_simps]:
  "err_Kind (wrap_err k db tab oper obj msg e) = k"
  "err_Err (wrap_err k db tab oper obj msg e) = e"
  "err_Operation (wrap_err k db tab oper obj msg e) = oper"
  "err_Object (wrap_err k db tab oper obj msg e) = obj"
  by (simp_all add: wrap_err_def)

lemma KindOf_wrap [simp, res_simps]: "KindOf (Some (wrap_err k db tab oper obj msg e)) = Some k"
  by (simp add: KindOf_def wrap_err_def)

lemma IsKind_wrap [simp, res_simps]:
  "IsKind (Some (wrap_err k db tab oper obj msg e)) k' \<longleftrightarrow> k = k'"
  by (simp add: IsKind_def)

lemma KindOf_None [simp]: "KindOf None = None"
  by (simp add: KindOf_def)

lemma IsKind_unique: "IsKind e k \<Longrightarrow> IsKind e k' \<Longrightarrow> k = k'"
  by (simp add: IsKind_def)

lemma validateName_None [simp, res_simps]: "validateName kind name = None \<longleftrightarrow> \<not> blank name"
  by (simp add: validateName_def)

lemma checkOperationResults_None:
  "checkOperationResults rs db tab oper obj = None \<longleftrightarrow> (\<forall>r\<in>set rs. ErrorField r = [])"
  by (induction rs) (auto simp: Let_def)

lemma checkAffected_None:
  "checkAffected rs idx db tab oper obj = None \<longleftrightarrow>
     (\<forall>i\<in>set idx. 0 \<le> i \<and> i < int (length rs) \<and> Count (rs ! nat i) \<noteq> 0)"
  by (induction idx) auto

lemma set_mustAffectNonInsertOps:
  "set (mustAffectNonInsertOps ops) =
     {int i | i. i < length ops \<and> ops ! i \<in> {''delete'', ''mutate'', ''update''}}"
  by (auto simp: mustAffectNonInsertOps_def in_set_enumerate_eq image_iff)

lemma classifyTransactError_cause:
  "classifyTransactError (Some e) db tab oper obj = Some e' \<Longrightarrow> Unwrap e' = Some e"
  by (auto simp: classifyTransactError_def classifyContext_def Let_def wrap_err_def
      split: if_splits)

end
