(* ===== verification/Go_Binary.thy ===== *)
theory Go_Binary
  imports Prelude
begin

unbundle bit_operations_syntax

text \<open>
  Go's \<open>encoding/binary\<close> big-endian helpers. A reader takes a slice of the right length; every
  caller in the SDK checks the length first, so the branch for a short slice is never
  taken (it would be an index panic).
\<close>

definition put_be16 :: "u16 \<Rightarrow> bytes" where
  "put_be16 w = [ucast (drop_bit 8 w), ucast w]"

definition put_be32 :: "u32 \<Rightarrow> bytes" where
  "put_be32 w = [ucast (drop_bit 24 w), ucast (drop_bit 16 w), ucast (drop_bit 8 w), ucast w]"

definition put_be64 :: "u64 \<Rightarrow> bytes" where
  "put_be64 w = put_be32 (ucast (drop_bit 32 w)) @ put_be32 (ucast w)"

fun get_be16 :: "bytes \<Rightarrow> u16" where
  "get_be16 (a # b # _) = push_bit 8 (ucast a) OR ucast b"
| "get_be16 _ = 0"

fun get_be32 :: "bytes \<Rightarrow> u32" where
  "get_be32 (a # b # c # d # _) =
     push_bit 24 (ucast a) OR push_bit 16 (ucast b) OR push_bit 8 (ucast c) OR ucast d"
| "get_be32 _ = 0"

definition get_be64 :: "bytes \<Rightarrow> u64" where
  "get_be64 bs = push_bit 32 (ucast (get_be32 bs)) OR ucast (get_be32 (drop 4 bs))"

text \<open>A Go slice expression \<open>data[i:j]\<close>.\<close>

definition slice :: "nat \<Rightarrow> nat \<Rightarrow> 'a list \<Rightarrow> 'a list" where
  "slice i j xs = take (j - i) (drop i xs)"

lemma length_put_be [simp, wire_simps]:
  "length (put_be16 w) = 2" "length (put_be32 v) = 4" "length (put_be64 u) = 8"
  by (simp_all add: put_be16_def put_be32_def put_be64_def)

lemma get_put_be16 [simp, wire_simps]: "get_be16 (put_be16 w @ r) = w"
  by (rule bit_word_eqI) (auto simp: put_be16_def bit_simps)

lemma get_put_be32 [simp, wire_simps]: "get_be32 (put_be32 w @ r) = w"
proof (rule bit_word_eqI)
  fix n assume "n < LENGTH(32)"
  then consider "n < 8" | "8 \<le> n" "n < 16" | "16 \<le> n" "n < 24" | "24 \<le> n" "n < 32"
    by fastforce
  then show "bit (get_be32 (put_be32 w @ r)) n = bit w n"
    by cases (auto simp: put_be32_def bit_simps)
qed

lemma get_put_be64 [simp, wire_simps]: "get_be64 (put_be64 w @ r) = w"
proof -
  have "drop 4 (put_be64 w @ r) = put_be32 (ucast w) @ r"
    by (simp add: put_be64_def)
  moreover have "get_be32 (put_be64 w @ r) = ucast (drop_bit 32 w)"
    by (simp add: put_be64_def)
  ultimately show ?thesis
    unfolding get_be64_def by (intro bit_word_eqI) (auto simp: bit_simps)
qed

lemma get_put_be_nil [simp, wire_simps]:
  "get_be16 (put_be16 w) = w" "get_be32 (put_be32 v) = v" "get_be64 (put_be64 u) = u"
  using get_put_be16 [of w "[]"] get_put_be32 [of v "[]"] get_put_be64 [of u "[]"] by simp_all

lemma bit_byte_high: "8 \<le> k \<Longrightarrow> \<not> bit (b :: byte) k"
  by (auto dest: bit_imp_le_length)

lemma put_get_be16: "length bs = 2 \<Longrightarrow> put_be16 (get_be16 bs) = bs"
  by (cases bs rule: get_be16.cases)
    (auto simp: put_be16_def bit_simps bit_byte_high intro!: bit_word_eqI)

lemma put_get_be32: "length bs = 4 \<Longrightarrow> put_be32 (get_be32 bs) = bs"
  by (cases bs rule: get_be32.cases)
    (auto simp: put_be32_def bit_simps bit_byte_high intro!: bit_word_eqI)

lemma get_be16_take [simp]: "2 \<le> n \<Longrightarrow> get_be16 (take n bs) = get_be16 bs"
  by (cases bs rule: get_be16.cases) (auto simp: take_Cons' )

lemma get_be32_take [simp]: "4 \<le> n \<Longrightarrow> get_be32 (take n bs) = get_be32 bs"
  by (cases bs rule: get_be32.cases) (auto simp: take_Cons')

end
