(* ===== verification/Netip.thy ===== *)
theory Netip
  imports Errors Go_Binary
begin

unbundle bit_operations_syntax

text \<open>
  The parts of Go's \<open>net/netip\<close> and \<open>net\<close> packages that the SDK uses: parsing and printing of IPv4
  addresses and prefixes, recognition of IPv6 text (which the SDK rejects as unsupported, as
  opposed to invalid), prefix masking and membership, and hardware addresses.
\<close>

section \<open>Address text\<close>

datatype netip_addr = Addr4 u32 | Addr6 "nat list" string

text \<open>
  \<open>parseIPv4Fields\<close>: \<open>fresh\<close> says that the previous byte is a dot or that there is none, \<open>val\<close> and
  \<open>digLen\<close> are the value and the length of the current octet.
\<close>

fun parse4_loop :: "string \<Rightarrow> bool \<Rightarrow> nat \<Rightarrow> nat \<Rightarrow> nat list \<Rightarrow> nat list option" where
  "parse4_loop [] fresh val digLen fs = (if length fs < 3 then None else Some (fs @ [val]))"
| "parse4_loop (c # cs) fresh val digLen fs =
     (if is_digit c then
        (if digLen = 1 \<and> val = 0 then None
         else if val * 10 + digit_val c > 255 then None
         else parse4_loop cs False (val * 10 + digit_val c) (Suc digLen) fs)
      else if c = CHR ''.'' then
        (if fresh \<or> cs = [] then None
         else if length fs = 3 then None
         else parse4_loop cs True 0 0 (fs @ [val]))
      else None)"

definition parseIPv4Fields :: "string \<Rightarrow> nat list option" where
  "parseIPv4Fields s = parse4_loop s True 0 0 []"

definition u32_of_octets :: "nat list \<Rightarrow> u32" where
  "u32_of_octets os = get_be32 (map of_nat os)"

definition octets_of_u32 :: "u32 \<Rightarrow> nat list" where
  "octets_of_u32 w = map unat (put_be32 w)"

definition hex_val :: "char \<Rightarrow> nat option" where
  "hex_val c = (let n = (of_char c :: nat) in
     if 48 \<le> n \<and> n \<le> 57 then Some (n - 48)
     else if 97 \<le> n \<and> n \<le> 102 then Some (n - 87)
     else if 65 \<le> n \<and> n \<le> 70 then Some (n - 55)
     else None)"

fun hex_run :: "string \<Rightarrow> nat \<Rightarrow> nat \<Rightarrow> (nat \<times> nat \<times> string) option" where
  "hex_run [] off acc = Some (off, acc, [])"
| "hex_run (c # cs) off acc =
     (case hex_val c of None \<Rightarrow> Some (off, acc, c # cs)
      | Some d \<Rightarrow> if off > 3 \<or> acc * 16 + d > 65535 then None
                  else hex_run cs (Suc off) (acc * 16 + d))"

text \<open>The group loop of \<open>parseIPv6\<close>: \<open>k\<close> groups are still free, \<open>gs\<close> are the groups read, \<open>ell\<close> is the position of the ellipsis.\<close>

fun parse6_loop :: "nat \<Rightarrow> nat list \<Rightarrow> nat option \<Rightarrow> string \<Rightarrow> (nat list \<times> nat option \<times> string) option" where
  "parse6_loop 0 gs ell s = Some (gs, ell, s)"
| "parse6_loop (Suc k) gs ell s =
     (case hex_run s 0 0 of None \<Rightarrow> None
      | Some (off, acc, rest) \<Rightarrow>
          if off = 0 then None
          else (case rest of
              [] \<Rightarrow> Some (gs @ [acc], ell, [])
            | c # cs \<Rightarrow>
                if c = CHR ''.'' then
                  (if ell = None \<and> length gs \<noteq> 6 then None
                   else if 2 * length gs + 4 > 16 then None
                   else (case parseIPv4Fields s of
                       Some [a, b, x, d] \<Rightarrow> Some (gs @ [a * 256 + b, x * 256 + d], ell, [])
                     | _ \<Rightarrow> None))
                else if c \<noteq> CHR '':'' then None
                else (case cs of
                    [] \<Rightarrow> None
                  | d # ds \<Rightarrow>
                      if d = CHR '':'' then
                        (if ell \<noteq> None then None
                         else if ds = [] then Some (gs @ [acc], Some (Suc (length gs)), [])
                         else parse6_loop k (gs @ [acc]) (Some (Suc (length gs))) ds)
                      else parse6_loop k (gs @ [acc]) ell cs)))"

definition expand6 :: "nat list \<times> nat option \<times> string \<Rightarrow> nat list option" where
  "expand6 r = (case r of (gs, ell, rest) \<Rightarrow>
     if rest \<noteq> [] then None
     else if length gs < 8 then
       (case ell of None \<Rightarrow> None
        | Some e \<Rightarrow> Some (take e gs @ replicate (8 - length gs) 0 @ drop e gs))
     else if ell \<noteq> None then None
     else Some gs)"

definition parseIPv6 :: "string \<Rightarrow> netip_addr option" where
  "parseIPv6 inp =
     (let s = takeWhile (\<lambda>c. c \<noteq> CHR ''%'') inp; zone = drop (Suc (length s)) inp in
      if length s < length inp \<and> zone = [] then None
      else if strings_HasPrefix s ''::'' then
        (if length s = 2 then Some (Addr6 (replicate 8 0) zone)
         else map_option (\<lambda>gs. Addr6 gs zone)
                (Option.bind (parse6_loop 8 [] (Some 0) (drop 2 s)) expand6))
      else map_option (\<lambda>gs. Addr6 gs zone) (Option.bind (parse6_loop 8 [] None s) expand6))"

definition netip_ParseAddr :: "string \<Rightarrow> netip_addr option" where
  "netip_ParseAddr s =
     (case find (\<lambda>c. c \<in> {CHR ''.'', CHR '':'', CHR ''%''}) s of
        None \<Rightarrow> None
      | Some c \<Rightarrow>
          if c = CHR ''.'' then map_option (Addr4 \<circ> u32_of_octets) (parseIPv4Fields s)
          else if c = CHR '':'' then parseIPv6 s
          else None)"

section \<open>Prefixes\<close>

text \<open>An IPv4 or IPv6 prefix: address and number of bits.\<close>

datatype netip_prefix = NetPrefix netip_addr nat

definition last_slash :: "string \<Rightarrow> (string \<times> string) option" where
  "last_slash s = (let b = takeWhile (\<lambda>c. c \<noteq> CHR ''/'') (rev s) in
     if length b = length s then None
     else Some (take (length s - length b - 1) s, drop (length s - length b) s))"

definition dec_value :: "string \<Rightarrow> nat" where
  "dec_value s = foldl (\<lambda>v c. v * 10 + digit_val c) 0 s"

definition parse_bits :: "string \<Rightarrow> nat option" where
  "parse_bits b =
     (if b = [] \<or> \<not> list_all is_digit b then None
      else if length b > 1 \<and> hd b = CHR ''0'' then None
      else Some (dec_value b))"

definition netip_ParsePrefix :: "string \<Rightarrow> netip_prefix option" where
  "netip_ParsePrefix s =
     (case last_slash s of None \<Rightarrow> None
      | Some (a, b) \<Rightarrow>
          (case netip_ParseAddr a of
             None \<Rightarrow> None
           | Some (Addr4 w) \<Rightarrow>
               (case parse_bits b of None \<Rightarrow> None
                | Some n \<Rightarrow> if n > 32 then None else Some (NetPrefix (Addr4 w) n))
           | Some (Addr6 gs zone) \<Rightarrow>
               if zone \<noteq> [] then None
               else (case parse_bits b of None \<Rightarrow> None
                | Some n \<Rightarrow> if n > 128 then None else Some (NetPrefix (Addr6 gs zone) n))))"

text \<open>
  Every address and prefix that the SDK keeps is IPv4 (it checks \<open>Is4\<close> right after parsing), so
  from there on an address is its 32-bit value and a prefix a value with a length.
\<close>

record prefix4 =
  pfx_Addr :: u32
  pfx_Bits :: nat

definition host_mask :: "nat \<Rightarrow> u32" where
  "host_mask bits = mask (32 - bits)"

definition prefix4_Masked :: "prefix4 \<Rightarrow> prefix4" where
  "prefix4_Masked p = p\<lparr>pfx_Addr := pfx_Addr p AND NOT (host_mask (pfx_Bits p))\<rparr>"

definition prefix4_Contains :: "prefix4 \<Rightarrow> u32 \<Rightarrow> bool" where
  "prefix4_Contains p ip \<longleftrightarrow> drop_bit (32 - pfx_Bits p) (ip XOR pfx_Addr p) = 0"

text \<open>What parsing and masking guarantee of a prefix.\<close>

definition valid_prefix4 :: "prefix4 \<Rightarrow> bool" where
  "valid_prefix4 p \<longleftrightarrow> pfx_Bits p \<le> 32 \<and> pfx_Addr p AND host_mask (pfx_Bits p) = 0"

definition dotted :: "nat list \<Rightarrow> string" where
  "dotted os = concat (case os of [] \<Rightarrow> [] | a # r \<Rightarrow> nat_dec a # map (\<lambda>n. CHR ''.'' # nat_dec n) r)"

definition addr4_String :: "u32 \<Rightarrow> string" where
  "addr4_String w = dotted (octets_of_u32 w)"

definition prefix4_String :: "prefix4 \<Rightarrow> string" where
  "prefix4_String p = addr4_String (pfx_Addr p) @ ''/'' @ nat_dec (pfx_Bits p)"

section \<open>Text round trips\<close>

lemma nat_dec_1: "x < 10 \<Longrightarrow> nat_dec x = [digit_char x]"
  by (simp add: nat_dec.simps [of x])

lemma nat_dec_snoc: "0 < w \<Longrightarrow> z < 10 \<Longrightarrow> nat_dec (10 * w + z) = nat_dec w @ [digit_char z]"
  by (subst nat_dec.simps) simp

lemma byte_lt: "unat (b :: byte) < 256"
  using unsigned_less [where ?'b = 8 and ?'a = nat, of b] by simp

lemma parse4_digit:
  "v < 10 \<Longrightarrow> \<not> (digLen = 1 \<and> val = 0) \<Longrightarrow> val * 10 + v \<le> 255 \<Longrightarrow>
   parse4_loop (digit_char v # cs) fresh val digLen fs = parse4_loop cs False (val * 10 + v) (Suc digLen) fs"
  by auto

lemma parse4_dec:
  assumes "x < 10" "y < 10" "z < 10" "10 * (10 * x + y) + z < 256" and n: "n = 10 * (10 * x + y) + z"
  shows "parse4_loop (nat_dec n @ rest) fresh 0 0 fs = parse4_loop rest False n (length (nat_dec n)) fs"
proof -
  consider "x = 0" "y = 0" | "x = 0" "0 < y" | "0 < x" by blast
  then show ?thesis
  proof cases
    case 1
    then have "nat_dec n = [digit_char z]" "n = z" using assms by (simp_all add: nat_dec_1)
    then show ?thesis using assms by (simp add: parse4_digit del: parse4_loop.simps)
  next
    case 2
    then have d: "nat_dec n = [digit_char y, digit_char z]" and n': "n = y * 10 + z"
      using assms nat_dec_snoc [of y z] by (simp_all add: nat_dec_1)
    show ?thesis unfolding d unfolding n' using 2 assms by (simp add: parse4_digit del: parse4_loop.simps)
  next
    case 3
    then have d: "nat_dec n = [digit_char x, digit_char y, digit_char z]"
      using assms nat_dec_snoc [of "10 * x + y" z] nat_dec_snoc [of x y] by (simp add: nat_dec_1)
    have n': "n = (x * 10 + y) * 10 + z" using n by simp
    show ?thesis unfolding d unfolding n' using 3 assms by (simp add: parse4_digit del: parse4_loop.simps)
  qed
qed

lemma parse4_nat_dec:
  assumes "n < 256"
  shows "parse4_loop (nat_dec n @ rest) fresh 0 0 fs = parse4_loop rest False n (length (nat_dec n)) fs"
proof -
  define x y z where "x = n div 10 div 10" and "y = n div 10 mod 10" and "z = n mod 10"
  have n: "n = 10 * (10 * x + y) + z"
    by (simp only: x_def y_def z_def mult_div_mod_eq)
  have "x < 10" "y < 10" "z < 10" using assms by (simp_all add: x_def y_def z_def)
  then show ?thesis using parse4_dec [OF _ _ _ _ n] assms n by simp
qed

lemma digit_not_sep: "is_digit c \<Longrightarrow> c \<notin> {CHR ''.'', CHR '':'', CHR ''%'', CHR ''/''}"
  by (auto simp: is_digit_def)

lemma parseIPv4Fields_dotted:
  assumes "a < 256" "b < 256" "c < 256" "d < 256"
  shows "parseIPv4Fields (dotted [a, b, c, d]) = Some [a, b, c, d]"
  using assms digit_not_sep is_digit_def
  by (simp add: parseIPv4Fields_def dotted_def parse4_nat_dec
      parse4_nat_dec [where rest = "[]", simplified])

lemma octets_of_u32_eq:
  "\<exists>a b c d. octets_of_u32 w = [a, b, c, d] \<and> a < 256 \<and> b < 256 \<and> c < 256 \<and> d < 256"
  using byte_lt by (simp add: octets_of_u32_def put_be32_def)

lemma u32_octets_roundtrip [simp]: "u32_of_octets (octets_of_u32 w) = w"
  by (simp add: u32_of_octets_def octets_of_u32_def comp_def)

lemma find_sep_digits:
  "list_all is_digit ds \<Longrightarrow> find (\<lambda>c. c \<in> {CHR ''.'', CHR '':'', CHR ''%''}) (ds @ CHR ''.'' # r) = Some (CHR ''.'')"
  by (induction ds) (auto simp: is_digit_def)

lemma nat_dec_all_digits [simp]: "list_all is_digit (nat_dec n)"
  using nat_dec_digits by (auto simp: list_all_iff)

lemma ParseAddr_String [simp]: "netip_ParseAddr (addr4_String w) = Some (Addr4 w)"
proof -
  obtain a b c d where o: "octets_of_u32 w = [a, b, c, d]" and
    l: "a < 256" "b < 256" "c < 256" "d < 256" using octets_of_u32_eq by blast
  have "find (\<lambda>c. c \<in> {CHR ''.'', CHR '':'', CHR ''%''}) (dotted [a, b, c, d]) = Some (CHR ''.'')"
    using find_sep_digits [of "nat_dec a"] by (simp add: dotted_def)
  then show ?thesis
    using parseIPv4Fields_dotted [OF l] u32_octets_roundtrip [of w]
    by (simp add: netip_ParseAddr_def addr4_String_def o)
qed

lemma dec_value_snoc: "dec_value (s @ [c]) = dec_value s * 10 + digit_val c"
  by (simp add: dec_value_def)

lemma dec_value_nat_dec [simp]: "dec_value (nat_dec n) = n"
proof (induction n rule: nat_dec.induct)
  case (1 n)
  show ?case
  proof (cases "n < 10")
    case True
    then show ?thesis by (simp add: nat_dec_1 dec_value_def)
  next
    case False
    then show ?thesis using 1 by (simp add: nat_dec.simps [of n] dec_value_snoc)
  qed
qed

lemma hd_nat_dec: "0 < n \<Longrightarrow> hd (nat_dec n) \<noteq> CHR ''0''"
proof (induction n rule: nat_dec.induct)
  case (1 n)
  show ?case
  proof (cases "n < 10")
    case True
    with 1(2) show ?thesis
      by (auto simp: nat_dec_1 digit_char_def dest!: arg_cong [where f = "of_char :: char \<Rightarrow> nat"])
  next
    case False
    then show ?thesis using 1 by (simp add: nat_dec.simps [of n])
  qed
qed

lemma parse_bits_nat_dec [simp]: "parse_bits (nat_dec n) = Some n"
proof (cases "n = 0")
  case True
  then show ?thesis by (simp add: parse_bits_def nat_dec_1 dec_value_def)
next
  case False
  then show ?thesis by (simp add: parse_bits_def hd_nat_dec)
qed

lemma last_slash_append:
  assumes "CHR ''/'' \<notin> set b"
  shows "last_slash (a @ CHR ''/'' # b) = Some (a, b)"
proof -
  have "takeWhile (\<lambda>c. c \<noteq> CHR ''/'') (rev (a @ CHR ''/'' # b)) = rev b"
    using assms by (simp add: takeWhile_append)
  then show ?thesis by (simp add: last_slash_def Let_def)
qed

lemma ParsePrefix_String:
  assumes "pfx_Bits p \<le> 32"
  shows "netip_ParsePrefix (prefix4_String p) = Some (NetPrefix (Addr4 (pfx_Addr p)) (pfx_Bits p))"
proof -
  have "CHR ''/'' \<notin> set (nat_dec (pfx_Bits p))"
    using nat_dec_digits digit_not_sep by blast
  then show ?thesis using assms
    by (simp add: netip_ParsePrefix_def prefix4_String_def last_slash_append)
qed

section \<open>Prefixes as address ranges\<close>

lemma mask_zero_iff: "(a :: u32) AND mask m = 0 \<longleftrightarrow> unat a mod 2 ^ m = 0"
proof -
  have "unat (take_bit m a) = take_bit m (unat a)"
    by (rule unsigned_take_bit_eq)
  then show ?thesis by (metis take_bit_eq_mask take_bit_eq_mod unat_eq_zero)
qed

lemma Masked_valid: "pfx_Bits p \<le> 32 \<Longrightarrow> valid_prefix4 (prefix4_Masked p)"
  by (simp add: valid_prefix4_def prefix4_Masked_def host_mask_def and.assoc)

lemma Masked_id: "valid_prefix4 p \<Longrightarrow> prefix4_Masked p = p"
proof -
  assume "valid_prefix4 p"
  then have "pfx_Addr p AND NOT (host_mask (pfx_Bits p)) = pfx_Addr p"
    unfolding valid_prefix4_def by (intro bit_word_eqI) (auto simp: bit_simps bit_eq_iff)
  then show ?thesis by (simp add: prefix4_Masked_def)
qed

end
