(* ===== verification/Util.thy ===== *)
theory Util
  imports Errors
begin

text \<open>
  The map and slice helpers of \<^verbatim>\<open>src/util.go\<close>. A Go map with string keys is a finite map; a nil
  map and an empty map read the same everywhere, and the cloning helpers turn an empty map
  into nil before maps are compared, so both are the empty finite map. Iterating a Go map
  visits its keys in an unspecified order; the model visits them in increasing order.
\<close>

type_synonym string_map = "(string, string) fmap"

text \<open>\<open>m[k]\<close> on a map of strings: the zero value for a missing key.\<close>

definition go_get :: "string_map \<Rightarrow> string \<Rightarrow> string" where
  "go_get m k = (case fmlookup m k of None \<Rightarrow> [] | Some v \<Rightarrow> v)"

definition range_keys :: "('k::linorder, 'v) fmap \<Rightarrow> 'k list" where
  "range_keys m = sorted_list_of_fset (fmdom m)"

definition range_values :: "('k::linorder, 'v) fmap \<Rightarrow> 'v list" where
  "range_values m = map (\<lambda>k. the (fmlookup m k)) (range_keys m)"

definition cloneStringMap :: "string_map \<Rightarrow> string_map" where
  "cloneStringMap m = foldl (\<lambda>out k. fmupd k (the (fmlookup m k)) out) fmempty (range_keys m)"

definition mergeStringMaps :: "string_map \<Rightarrow> string_map \<Rightarrow> string_map" where
  "mergeStringMaps base overlay =
     foldl (\<lambda>out k. fmupd k (the (fmlookup overlay k)) out) (cloneStringMap base) (range_keys overlay)"

definition containsString :: "string list \<Rightarrow> string \<Rightarrow> bool" where
  "containsString values want \<longleftrightarrow> list_ex (\<lambda>v. v = want) values"

definition uniqueStrings :: "string list \<Rightarrow> string list" where
  "uniqueStrings values = unique_from [] (\<lambda>v. v = []) values"

section \<open>Lemmas\<close>

lemma set_range_keys [simp]: "set (range_keys m) = fmdom' m"
  by (simp add: range_keys_def fmdom'_alt_def)

lemma distinct_range_keys [simp]: "distinct (range_keys m)"
  by (simp add: range_keys_def sorted_list_of_fset.rep_eq)

lemma range_keys_empty [simp]: "range_keys fmempty = []"
  by (simp add: range_keys_def sorted_list_of_fset.rep_eq)

lemma foldl_fmupd_lookup:
  "fmlookup (foldl (\<lambda>out k. fmupd k (f k) out) base ks) x =
     (if x \<in> set ks then Some (f x) else fmlookup base x)"
  by (induction ks arbitrary: base) auto

lemma cloneStringMap_id [simp]: "cloneStringMap m = m"
  by (rule fmap_ext) (auto simp: cloneStringMap_def foldl_fmupd_lookup fmdom'I fmlookup_dom'_iff)

lemma mergeStringMaps_fmadd [simp]: "mergeStringMaps base overlay = base ++\<^sub>f overlay"
proof (rule fmap_ext)
  fix x show "fmlookup (mergeStringMaps base overlay) x = fmlookup (base ++\<^sub>f overlay) x"
    by (auto simp: mergeStringMaps_def foldl_fmupd_lookup fmlookup_dom'_iff fmlookup_dom_iff)
qed

lemma containsString_iff [simp]: "containsString vs w \<longleftrightarrow> w \<in> set vs"
  by (auto simp: containsString_def list_ex_iff)

lemma set_uniqueStrings [simp]: "set (uniqueStrings vs) = set vs - {[]}"
  by (auto simp: uniqueStrings_def set_unique_from)

lemma distinct_uniqueStrings [simp]: "distinct (uniqueStrings vs)"
  by (simp add: uniqueStrings_def distinct_unique_from)

lemma uniqueStrings_idem [simp]: "uniqueStrings (uniqueStrings vs) = uniqueStrings vs"
  by (simp add: uniqueStrings_def unique_from_idem)

interpretation unique_strings: normaliser uniqueStrings
  by unfold_locales simp

end
