(* ===== verification/Ipam.thy ===== *)
theory Ipam
  imports Netip Util "HOL-Library.Product_Lexorder"
begin

unbundle bit_operations_syntax

text \<open>
  \<^verbatim>\<open>src/ipam.go\<close>: the in-memory IPv4 address pool. The pool holds text; every operation parses
  it into an \<open>ipamState\<close>, checks it, and works on 32-bit values with Go's wrap-around. A Go map
  used as a set of addresses is the list of its keys in insertion order (the order matters
  only for which of several conflicting addresses an error names).
\<close>

section \<open>Data\<close>

definition ipamTable :: string where
  "ipamTable = ''ipam''"

record IPAMPool =
  pool_CIDR :: string
  pool_Gateway :: string
  pool_Reserved :: "string list"
  pool_Allocated :: "string list"
  pool_Excluded :: "string list"

record IPAllocationPlan =
  plan_PoolCIDR :: string
  plan_Gateway :: string
  plan_Reserved :: "string list"
  plan_Allocated :: "string list"
  plan_Excluded :: "string list"
  plan_Available :: int
  plan_Next :: string

record ipamState =
  st_prefix :: prefix4
  st_gateway :: u32
  st_reserved :: "u32 list"
  st_allocated :: "u32 list"
  st_excluded :: "prefix4 list"

record ipRange =
  rng_start :: u32
  rng_end :: u32

definition NewIPAMPool :: "string \<Rightarrow> IPAMPool" where
  "NewIPAMPool cidr = \<lparr>pool_CIDR = cidr, pool_Gateway = [], pool_Reserved = [],
     pool_Allocated = [], pool_Excluded = []\<rparr>"

definition ipam_err :: "ErrorKind \<Rightarrow> string \<Rightarrow> string \<Rightarrow> string \<Rightarrow> go_error" where
  "ipam_err kind oper object message = wrap_err kind [] ipamTable oper object message None"

section \<open>Addresses and ranges\<close>

definition parseIPv4Prefix :: "string \<Rightarrow> string \<Rightarrow> prefix4 res" where
  "parseIPv4Prefix raw oper =
     (case netip_ParsePrefix raw of
        None \<Rightarrow> Inl (wrap_err ErrorValidation [] ipamTable oper raw ''invalid CIDR''
                 (Some (ForeignError ''netip.ParsePrefix'')))
      | Some (NetPrefix (Addr4 w) n) \<Rightarrow> Inr (prefix4_Masked \<lparr>pfx_Addr = w, pfx_Bits = n\<rparr>)
      | Some (NetPrefix (Addr6 gs zone) n) \<Rightarrow>
          Inl (ipam_err ErrorUnsupported oper raw ''IPv6 IPAM is not supported''))"

definition parseIPv4Addr :: "string \<Rightarrow> string \<Rightarrow> u32 res" where
  "parseIPv4Addr raw oper =
     (case netip_ParseAddr raw of
        None \<Rightarrow> Inl (wrap_err ErrorValidation [] ipamTable oper raw ''invalid IP''
                 (Some (ForeignError ''netip.ParseAddr'')))
      | Some (Addr4 w) \<Rightarrow> Inr w
      | Some (Addr6 gs zone) \<Rightarrow>
          Inl (ipam_err ErrorUnsupported oper raw ''IPv6 IPAM is not supported''))"

definition addrToUint32 :: "u32 \<Rightarrow> u32" where
  "addrToUint32 ip = (let bytes = put_be32 ip in
     push_bit 24 (ucast (bytes ! 0)) OR push_bit 16 (ucast (bytes ! 1)) OR
     push_bit 8 (ucast (bytes ! 2)) OR ucast (bytes ! 3))"

definition uint32ToAddr :: "u32 \<Rightarrow> u32" where
  "uint32ToAddr ip =
     get_be32 [ucast (drop_bit 24 ip), ucast (drop_bit 16 ip), ucast (drop_bit 8 ip), ucast ip]"

definition prefixRange :: "prefix4 \<Rightarrow> u32 \<times> u32" where
  "prefixRange prefix =
     (let start = addrToUint32 (pfx_Addr prefix);
          hostBits = 32 - pfx_Bits prefix;
          size = push_bit hostBits (1 :: u64);
          end' = start + ucast (size - 1)
      in (start, end'))"

definition usableRange :: "prefix4 \<Rightarrow> u32 \<times> u32" where
  "usableRange prefix =
     (let (start, end') = prefixRange prefix in
      if end' - start + 1 \<le> 2 then (1, 0) else (start + 1, end' - 1))"

definition prefixesOverlap :: "prefix4 \<Rightarrow> prefix4 \<Rightarrow> bool" where
  "prefixesOverlap a b =
     (let (aStart, aEnd) = prefixRange a; (bStart, bEnd) = prefixRange b
      in aStart \<le> bEnd \<and> bStart \<le> aEnd)"

definition validateUsable :: "prefix4 \<Rightarrow> u32 \<Rightarrow> string \<Rightarrow> string \<Rightarrow> check" where
  "validateUsable prefix ip oper label =
     (if \<not> prefix4_Contains prefix ip
      then Some (ipam_err ErrorValidation oper (addr4_String ip) (label @ '' is outside pool CIDR''))
      else let (start, end') = usableRange prefix; v = addrToUint32 ip in
        if v < start \<or> v > end'
        then Some (ipam_err ErrorValidation oper (addr4_String ip) (label @ '' is not a usable host address''))
        else None)"

definition min32 :: "u32 \<Rightarrow> u32 \<Rightarrow> u32" where
  "min32 a b = (if a < b then a else b)"

definition max32 :: "u32 \<Rightarrow> u32 \<Rightarrow> u32" where
  "max32 a b = (if a > b then a else b)"

fun merge_from :: "ipRange \<Rightarrow> ipRange list \<Rightarrow> ipRange list" where
  "merge_from lst [] = [lst]"
| "merge_from lst (item # rest) =
     (if rng_start item \<le> rng_end lst + 1
      then merge_from (if rng_end item > rng_end lst then lst\<lparr>rng_end := rng_end item\<rparr> else lst) rest
      else lst # merge_from item rest)"

definition mergeRanges :: "ipRange list \<Rightarrow> ipRange list" where
  "mergeRanges ranges =
     (case sort_key (\<lambda>r. (rng_start r, rng_end r)) ranges of
        [] \<Rightarrow> []
      | r # rs \<Rightarrow> merge_from r rs)"

section \<open>Pool state\<close>

definition isReserved :: "ipamState \<Rightarrow> u32 \<Rightarrow> bool" where
  "isReserved state ip \<longleftrightarrow> ip = st_gateway state \<or> ip \<in> set (st_reserved state)"

definition isAllocated :: "ipamState \<Rightarrow> u32 \<Rightarrow> bool" where
  "isAllocated state ip \<longleftrightarrow> ip \<in> set (st_allocated state)"

definition inExcluded :: "ipamState \<Rightarrow> u32 \<Rightarrow> bool" where
  "inExcluded state ip \<longleftrightarrow> list_ex (\<lambda>excluded. prefix4_Contains excluded ip) (st_excluded state)"

definition isAvailable :: "ipamState \<Rightarrow> u32 \<Rightarrow> bool" where
  "isAvailable state ip \<longleftrightarrow>
     validateUsable (st_prefix state) ip ''allocate'' ''IP'' = None
     \<and> \<not> isReserved state ip \<and> \<not> inExcluded state ip \<and> \<not> isAllocated state ip"

text \<open>The loops of \<open>state\<close> over \<open>Reserved\<close>, \<open>Allocated\<close> and \<open>Excluded\<close>, one body each.\<close>

definition add_reserved :: "string \<Rightarrow> ipamState \<Rightarrow> string \<Rightarrow> ipamState res" where
  "add_reserved oper state raw =
     res_bind (parseIPv4Addr raw oper) (\<lambda>ip.
       guard_res (validateUsable (st_prefix state) ip oper ''reserved IP'')
         (Inr (state\<lparr>st_reserved := List.insert ip (st_reserved state)\<rparr>)))"

definition add_allocated :: "string \<Rightarrow> ipamState \<Rightarrow> string \<Rightarrow> ipamState res" where
  "add_allocated oper state raw =
     res_bind (parseIPv4Addr raw oper) (\<lambda>ip.
       guard_res (validateUsable (st_prefix state) ip oper ''allocated IP'')
         (if isAllocated state ip
          then Inl (ipam_err ErrorConflict oper (addr4_String ip) ''IP is allocated more than once'')
          else if isReserved state ip
          then Inl (ipam_err ErrorConflict oper (addr4_String ip) ''allocated IP is reserved'')
          else Inr (state\<lparr>st_allocated := st_allocated state @ [ip]\<rparr>)))"

definition add_excluded :: "string \<Rightarrow> ipamState \<Rightarrow> string \<Rightarrow> ipamState res" where
  "add_excluded oper state raw =
     res_bind (parseIPv4Prefix raw oper) (\<lambda>excluded.
       if \<not> prefixesOverlap (st_prefix state) excluded
       then Inl (ipam_err ErrorConflict oper (prefix4_String excluded) ''excluded CIDR does not overlap pool'')
       else Inr (state\<lparr>st_excluded := st_excluded state @ [excluded]\<rparr>))"

definition pool_gateway :: "IPAMPool \<Rightarrow> string \<Rightarrow> prefix4 \<Rightarrow> u32 res" where
  "pool_gateway pool oper prefix =
     (if pool_Gateway pool = [] then Inr (uint32ToAddr (fst (usableRange prefix)))
      else res_bind (parseIPv4Addr (pool_Gateway pool) oper) (\<lambda>gw.
        guard_res (validateUsable prefix gw oper ''gateway'') (Inr gw)))"

definition excluded_check :: "string \<Rightarrow> string \<Rightarrow> ipamState \<Rightarrow> u32 \<Rightarrow> check" where
  "excluded_check oper message state ip =
     (if inExcluded state ip then Some (ipam_err ErrorConflict oper (addr4_String ip) message) else None)"

definition pool_state :: "IPAMPool \<Rightarrow> string \<Rightarrow> ipamState res" where
  "pool_state pool oper =
     res_bind (parseIPv4Prefix (pool_CIDR pool) oper) (\<lambda>prefix.
       let (start, end') = usableRange prefix in
       if start > end'
       then Inl (ipam_err ErrorConflict oper (prefix4_String prefix) ''pool has no usable IPv4 addresses'')
       else
       res_bind (pool_gateway pool oper prefix) (\<lambda>gateway.
       res_bind (res_fold (add_reserved oper)
         \<lparr>st_prefix = prefix, st_gateway = gateway, st_reserved = [], st_allocated = [], st_excluded = []\<rparr>
         (pool_Reserved pool)) (\<lambda>state.
       res_bind (res_fold (add_allocated oper) state (pool_Allocated pool)) (\<lambda>state.
       res_bind (res_fold (add_excluded oper) state (pool_Excluded pool)) (\<lambda>state.
       guard_res (excluded_check oper ''gateway IP is excluded'' state (st_gateway state))
       (guard_res (check_all (excluded_check oper ''reserved IP is excluded'' state) (st_reserved state))
       (guard_res (check_all (excluded_check oper ''allocated IP is excluded'' state) (st_allocated state))
       (Inr state))))))))"

lemma unat_succ32: "x \<noteq> - 1 \<Longrightarrow> unat (x + 1 :: u32) = Suc (unat x)"
  using unat_plus_if' [of x 1] unsigned_less [where ?'a = nat, of x]
  by (auto simp: word_unat_eq_iff unsigned_minus_1_eq_mask mask_eq_exp_minus_1)

function next_loop :: "ipamState \<Rightarrow> u32 \<Rightarrow> u32 \<Rightarrow> u32 option" where
  "next_loop state end' current =
     (if current \<le> end' then
        (if isAvailable state (uint32ToAddr current) then Some (uint32ToAddr current)
         else if current = NOT 0 then None
         else next_loop state end' (current + 1))
      else None)"
  by pat_completeness auto
termination
proof (relation "measure (\<lambda>(state, end', current). 2 ^ 32 - unat current)", goal_cases)
  case (2 state end' current)
  then have "unat (current + 1) = Suc (unat current)"
    by (simp add: unat_succ32)
  then show ?case
    using unsigned_less [where ?'a = nat, of "current + 1"] by simp
qed simp

declare next_loop.simps [simp del]

definition nextAvailable :: "ipamState \<Rightarrow> u32 res" where
  "nextAvailable state =
     (let (start, end') = usableRange (st_prefix state) in
      case next_loop state end' start of
        Some ip \<Rightarrow> Inr ip
      | None \<Rightarrow> Inl (ipam_err ErrorNotFound ''allocate'' (prefix4_String (st_prefix state)) ''pool exhausted''))"

definition ensureAvailable :: "ipamState \<Rightarrow> u32 \<Rightarrow> check" where
  "ensureAvailable state ip =
     then_check (validateUsable (st_prefix state) ip ''allocate'' ''requested IP'')
       (if isReserved state ip
        then Some (ipam_err ErrorConflict ''allocate'' (addr4_String ip) ''IP is reserved'')
        else if isAllocated state ip
        then Some (ipam_err ErrorConflict ''allocate'' (addr4_String ip) ''IP is already allocated'')
        else if inExcluded state ip
        then Some (ipam_err ErrorConflict ''allocate'' (addr4_String ip) ''IP is excluded'')
        else None)"

definition point_range :: "u32 \<Rightarrow> ipRange" where
  "point_range ip = \<lparr>rng_start = addrToUint32 ip, rng_end = addrToUint32 ip\<rparr>"

definition excluded_range :: "u32 \<Rightarrow> u32 \<Rightarrow> prefix4 \<Rightarrow> ipRange list" where
  "excluded_range start end' excluded =
     (let (exStart, exEnd) = prefixRange excluded in
      if exEnd < start \<or> exStart > end' then []
      else [\<lparr>rng_start = max32 start exStart, rng_end = min32 end' exEnd\<rparr>])"

definition blocked_ranges :: "ipamState \<Rightarrow> ipRange list" where
  "blocked_ranges state =
     (let (start, end') = usableRange (st_prefix state) in
      [point_range (st_gateway state)] @ map point_range (st_reserved state) @
      map point_range (st_allocated state) @ concat (map (excluded_range start end') (st_excluded state)))"

definition state_available :: "ipamState \<Rightarrow> int res" where
  "state_available state =
     (let (start, end') = usableRange (st_prefix state) in
      if start > end' then Inr 0
      else let merged = mergeRanges (blocked_ranges state);
               total = foldl (\<lambda>t item. t - (ucast (rng_end item) - ucast (rng_start item) + 1))
                         (ucast end' - ucast start + 1 :: u64) merged
        in if total > drop_bit 1 (NOT 0)
           then Inl (ipam_err ErrorConflict ''available'' (prefix4_String (st_prefix state))
                  ''available count exceeds int range'')
           else Inr (uint total))"

section \<open>Operations of the pool\<close>

text \<open>\<open>netip.Addr.String\<close> on the zero address, which \<open>nextAvailable\<close> returns next to its error.\<close>

definition addr_opt_String :: "u32 option \<Rightarrow> string" where
  "addr_opt_String a = (case a of None \<Rightarrow> ''invalid IP'' | Some ip \<Rightarrow> addr4_String ip)"

text \<open>
  \<open>PlanIPAllocation\<close>: the error of \<open>nextAvailable\<close> is overwritten by that of \<open>available\<close> before the
  last test \<open>err == nil\<close>, which therefore always holds.
\<close>

definition PlanIPAllocation :: "IPAMPool \<Rightarrow> IPAllocationPlan res" where
  "PlanIPAllocation pool =
     res_bind (pool_state pool ''plan'') (\<lambda>state.
       let (next', err) = (case nextAvailable state of Inl e \<Rightarrow> (None, Some e) | Inr ip \<Rightarrow> (Some ip, None)) in
       if err \<noteq> None \<and> \<not> IsKind err ErrorNotFound then Inl (the err)
       else res_bind (state_available state) (\<lambda>available.
         Inr \<lparr>plan_PoolCIDR = prefix4_String (st_prefix state),
              plan_Gateway = addr4_String (st_gateway state),
              plan_Reserved = pool_Reserved pool,
              plan_Allocated = pool_Allocated pool,
              plan_Excluded = pool_Excluded pool,
              plan_Available = available,
              plan_Next = addr_opt_String next'\<rparr>))"

text \<open>The pool is a pointer that may be nil; a successful call returns the updated pool.\<close>

definition Allocate :: "IPAMPool option \<Rightarrow> string list \<Rightarrow> (IPAMPool \<times> string) res" where
  "Allocate pool requested =
     (case pool of
        None \<Rightarrow> Inl (ipam_err ErrorValidation ''allocate'' [] ''pool must not be nil'')
      | Some p \<Rightarrow>
          if length requested > 1
          then Inl (ipam_err ErrorValidation ''allocate'' [] ''at most one requested IP is supported'')
          else res_bind (pool_state p ''allocate'') (\<lambda>state.
            res_bind
              (case requested of
                 [] \<Rightarrow> nextAvailable state
               | r # _ \<Rightarrow>
                   if r = [] then nextAvailable state
                   else res_bind (parseIPv4Addr r ''allocate'') (\<lambda>ip.
                     guard_res (ensureAvailable state ip) (Inr ip)))
              (\<lambda>ip. Inr (p\<lparr>pool_Allocated := pool_Allocated p @ [addr4_String ip]\<rparr>, addr4_String ip))))"

fun release_loop :: "u32 \<Rightarrow> string list \<Rightarrow> string list option res" where
  "release_loop parsed [] = Inr None"
| "release_loop parsed (a # as) =
     res_bind (parseIPv4Addr a ''release'') (\<lambda>current.
       if current = parsed then Inr (Some as)
       else res_bind (release_loop parsed as) (\<lambda>r. Inr (map_option ((#) a) r)))"

definition Release :: "IPAMPool option \<Rightarrow> string \<Rightarrow> IPAMPool res" where
  "Release pool ip =
     (case pool of
        None \<Rightarrow> Inl (ipam_err ErrorValidation ''release'' [] ''pool must not be nil'')
      | Some p \<Rightarrow>
          res_bind (parseIPv4Addr ip ''release'') (\<lambda>parsed.
          res_bind (release_loop parsed (pool_Allocated p)) (\<lambda>r.
            case r of
              Some rest \<Rightarrow> Inr (p\<lparr>pool_Allocated := rest\<rparr>)
            | None \<Rightarrow> Inl (ipam_err ErrorNotFound ''release'' (addr4_String parsed) ''IP is not allocated''))))"

definition Contains :: "IPAMPool \<Rightarrow> string \<Rightarrow> bool res" where
  "Contains pool ip =
     res_bind (pool_state pool ''contains'') (\<lambda>state.
     res_bind (parseIPv4Addr ip ''contains'') (\<lambda>parsed.
       Inr (prefix4_Contains (st_prefix state) parsed)))"

definition Available :: "IPAMPool \<Rightarrow> int res" where
  "Available pool = res_bind (pool_state pool ''available'') state_available"

definition Overlaps :: "IPAMPool \<Rightarrow> string \<Rightarrow> bool res" where
  "Overlaps pool cidr =
     res_bind (pool_state pool ''overlaps'') (\<lambda>state.
     res_bind (parseIPv4Prefix cidr ''overlaps'') (\<lambda>other.
       Inr (prefixesOverlap (st_prefix state) other)))"

end
