(* ===== verification/Ipam_Ranges.thy ===== *)
theory Ipam_Ranges
  imports Ipam
begin

unbundle bit_operations_syntax

text \<open>
  Arithmetic of the address pool: prefixes as ranges of 32-bit values without wrap-around, the
  usable range, and the interval counting of \<open>available\<close> as the cardinality of a set.
\<close>

section \<open>Conversions\<close>

lemma addrToUint32_id [simp]: "addrToUint32 ip = ip"
  using get_put_be_nil(2) [of ip] by (simp add: addrToUint32_def Let_def put_be32_def)

lemma uint32ToAddr_id [simp]: "uint32ToAddr ip = ip"
  using get_put_be_nil(2) [of ip] by (simp add: uint32ToAddr_def put_be32_def)

lemma u32_less: "unat (x :: u32) < 4294967296"
  using unsigned_less [where ?'a = nat, of x] by simp

lemma unat_drop_bit32: "unat (drop_bit m (x :: u32)) = unat x div 2 ^ m"
proof -
  have "unat (drop_bit m x) = drop_bit m (unat x)"
    using u32_less [of x] by (simp add: unsigned_drop_bit_eq take_bit_nat_eq_self)
  then show ?thesis by (simp only: drop_bit_eq_div)
qed

section \<open>Prefixes as ranges\<close>

definition pfx_size :: "prefix4 \<Rightarrow> nat" where
  "pfx_size p = 2 ^ (32 - pfx_Bits p)"

lemma pfx_size_pos [simp]: "0 < pfx_size p"
  by (simp add: pfx_size_def)

lemma pfx_size_le: "pfx_size p \<le> 4294967296"
  using power_increasing [of "32 - pfx_Bits p" 32 "2 :: nat"] by (simp add: pfx_size_def)

lemma valid_prefix4_mod: "valid_prefix4 p \<longleftrightarrow> pfx_Bits p \<le> 32 \<and> unat (pfx_Addr p) mod pfx_size p = 0"
  by (auto simp: valid_prefix4_def host_mask_def mask_zero_iff pfx_size_def)

lemma valid_prefix4_multiple: "valid_prefix4 p \<Longrightarrow> \<exists>k. unat (pfx_Addr p) = k * pfx_size p"
  by (metis dvd_def mod_0_imp_dvd mult.commute valid_prefix4_mod)

lemma valid_prefix4_top:
  assumes "valid_prefix4 p"
  shows "unat (pfx_Addr p) + pfx_size p \<le> 4294967296"
proof -
  obtain k where k: "unat (pfx_Addr p) = k * pfx_size p"
    using valid_prefix4_multiple [OF assms] by blast
  have n: "4294967296 = 2 ^ pfx_Bits p * pfx_size p"
    using assms by (simp add: pfx_size_def valid_prefix4_mod flip: power_add)
  have "k < 2 ^ pfx_Bits p"
    using u32_less [of "pfx_Addr p"] by (simp add: k n)
  then have "Suc k * pfx_size p \<le> 2 ^ pfx_Bits p * pfx_size p"
    by (intro mult_right_mono) auto
  then show ?thesis by (simp add: k n)
qed

lemma prefixRange_eq:
  assumes "valid_prefix4 p"
  shows "prefixRange p = (pfx_Addr p, pfx_Addr p + of_nat (pfx_size p - 1))"
proof -
  have "push_bit (32 - pfx_Bits p) (1 :: u64) = of_nat (pfx_size p)"
    by (simp add: pfx_size_def push_bit_eq_mult)
  moreover have "(of_nat (pfx_size p) :: u64) - 1 = of_nat (pfx_size p - 1)"
    by (simp add: of_nat_diff Suc_leI)
  moreover have "(ucast (of_nat (pfx_size p - 1) :: u64) :: u32) = of_nat (pfx_size p - 1)"
    using pfx_size_le [of p] by (simp add: unsigned_of_nat take_bit_nat_eq_self)
  ultimately show ?thesis by (simp add: prefixRange_def Let_def)
qed

lemma prefixRange_unat:
  assumes "valid_prefix4 p"
  shows "unat (snd (prefixRange p)) = unat (pfx_Addr p) + (pfx_size p - 1)"
proof -
  have b: "unat (pfx_Addr p) + (pfx_size p - 1) < 4294967296"
    using valid_prefix4_top [OF assms] pfx_size_pos [of p] by linarith
  then have "unat (of_nat (pfx_size p - 1) :: u32) = pfx_size p - 1"
    by (simp add: unat_of_nat)
  then show ?thesis using b by (simp add: prefixRange_eq [OF assms] unat_plus_if')
qed

lemma Contains_unat:
  assumes "valid_prefix4 p"
  shows "prefix4_Contains p ip \<longleftrightarrow>
    unat (pfx_Addr p) \<le> unat ip \<and> unat ip < unat (pfx_Addr p) + pfx_size p"
proof -
  let ?m = "32 - pfx_Bits p"
  have "prefix4_Contains p ip \<longleftrightarrow> drop_bit ?m ip = drop_bit ?m (pfx_Addr p)"
    by (auto simp: prefix4_Contains_def bit_eq_iff [where ?'a = "32 word"] bit_simps)
  also have "\<dots> \<longleftrightarrow> unat ip div pfx_size p = unat (pfx_Addr p) div pfx_size p"
    by (simp only: word_unat_eq_iff unat_drop_bit32 pfx_size_def)
  also have "\<dots> \<longleftrightarrow> unat (pfx_Addr p) \<le> unat ip \<and> unat ip < unat (pfx_Addr p) + pfx_size p"
  proof -
    obtain k where k: "unat (pfx_Addr p) = k * pfx_size p"
      using valid_prefix4_multiple [OF assms] by blast
    show ?thesis
      by (auto simp: k div_nat_eqI algebra_simps dividend_less_times_div
          intro: div_times_less_eq_dividend)
  qed
  finally show ?thesis .
qed

lemma Contains_range:
  assumes "valid_prefix4 p"
  shows "prefix4_Contains p ip \<longleftrightarrow> fst (prefixRange p) \<le> ip \<and> ip \<le> snd (prefixRange p)"
proof -
  have "unat ip < unat (pfx_Addr p) + pfx_size p \<longleftrightarrow> unat ip \<le> unat (snd (prefixRange p))"
    using pfx_size_pos [of p] unfolding prefixRange_unat [OF assms] by linarith
  then show ?thesis
    by (simp add: Contains_unat [OF assms] word_le_nat_alt prefixRange_eq [OF assms])
qed

section \<open>The usable range\<close>

lemma usableRange_eq:
  assumes "valid_prefix4 p"
  shows "usableRange p =
    (if pfx_size p \<le> 2 \<or> pfx_size p = 4294967296 then (1, 0)
     else (pfx_Addr p + 1, snd (prefixRange p) - 1))"
proof -
  have "snd (prefixRange p) - fst (prefixRange p) + 1 = of_nat (pfx_size p)"
    using pfx_size_pos [of p] by (simp add: prefixRange_eq [OF assms] of_nat_diff Suc_leI)
  moreover have "(of_nat (pfx_size p) :: u32) \<le> 2 \<longleftrightarrow> pfx_size p \<le> 2 \<or> pfx_size p = 4294967296"
    using pfx_size_le [of p]
    by (auto simp: word_le_nat_alt unat_of_nat take_bit_nat_eq_self mod_if)
  ultimately show ?thesis
    by (simp add: usableRange_def case_prod_unfold Let_def) (simp add: prefixRange_eq [OF assms])
qed

lemma usable_unat:
  assumes "valid_prefix4 p" and "usableRange p = (s, e)" and "s \<le> e"
  shows "unat s = unat (pfx_Addr p) + 1" "unat e = unat (pfx_Addr p) + pfx_size p - 2"
    "unat e \<le> 4294967294" "2 < pfx_size p"
proof -
  have c: "2 < pfx_size p" "pfx_size p \<noteq> 4294967296"
    and se: "s = pfx_Addr p + 1" "e = snd (prefixRange p) - 1"
    using assms usableRange_eq [OF assms(1)] by (auto split: if_splits)
  have top: "unat (pfx_Addr p) + pfx_size p \<le> 4294967296" by (rule valid_prefix4_top [OF assms(1)])
  have end_: "unat (snd (prefixRange p)) = unat (pfx_Addr p) + (pfx_size p - 1)"
    by (rule prefixRange_unat [OF assms(1)])
  show "unat s = unat (pfx_Addr p) + 1"
    using c top by (simp add: se unat_plus_if')
  show e: "unat e = unat (pfx_Addr p) + pfx_size p - 2"
    using c top end_ by (simp add: se unat_sub_if') arith
  show "2 < pfx_size p" by (rule c)
  show "unat e \<le> 4294967294"
    using e top c by linarith
qed

section \<open>Counting with merged ranges\<close>

definition rset :: "ipRange \<Rightarrow> nat set" where
  "rset r = {unat (rng_start r)..unat (rng_end r)}"

text \<open>A range that is not empty and whose end is not the last 32-bit value, so that \<open>end + 1\<close> does not wrap.\<close>

definition good_range :: "ipRange \<Rightarrow> bool" where
  "good_range r \<longleftrightarrow> rng_start r \<le> rng_end r \<and> unat (rng_end r) < 4294967295"

lemma finite_rset [simp]: "finite (rset r)"
  by (simp add: rset_def)

lemma card_rset: "card (rset r) = unat (rng_end r) + 1 - unat (rng_start r)"
  by (simp add: rset_def)

lemma merge_step:
  assumes "good_range r" "good_range i" "rng_start r \<le> rng_start i"
    and "rng_start i \<le> rng_end r + 1"
  shows "rset (if rng_end i > rng_end r then r\<lparr>rng_end := rng_end i\<rparr> else r) = rset r \<union> rset i"
    and "good_range (if rng_end i > rng_end r then r\<lparr>rng_end := rng_end i\<rparr> else r)"
proof -
  have "unat (rng_end r + 1) = unat (rng_end r) + 1"
    using assms(1) by (simp add: good_range_def unat_plus_if')
  then have "unat (rng_start i) \<le> unat (rng_end r) + 1"
    using assms(4) by (simp add: word_le_nat_alt)
  then show "rset (if rng_end i > rng_end r then r\<lparr>rng_end := rng_end i\<rparr> else r) = rset r \<union> rset i"
    using assms(1-3) by (auto simp: rset_def good_range_def word_le_nat_alt word_less_nat_alt)
  show "good_range (if rng_end i > rng_end r then r\<lparr>rng_end := rng_end i\<rparr> else r)"
    using assms by (auto simp: good_range_def word_le_nat_alt word_less_nat_alt)
qed

lemma merge_from_card:
  assumes "good_range r" "\<And>x. x \<in> set rs \<Longrightarrow> good_range x \<and> rng_start r \<le> rng_start x"
    and "sorted (map rng_start rs)"
  shows "(\<Sum>x\<leftarrow>merge_from r rs. card (rset x)) = card (rset r \<union> (\<Union>x\<in>set rs. rset x))
    \<and> (\<forall>x\<in>set (merge_from r rs). good_range x)"
  using assms
proof (induction rs arbitrary: r)
  case Nil
  then show ?case by simp
next
  case (Cons i rs)
  show ?case
  proof (cases "rng_start i \<le> rng_end r + 1")
    case True
    let ?r = "if rng_end i > rng_end r then r\<lparr>rng_end := rng_end i\<rparr> else r"
    have m: "rset ?r = rset r \<union> rset i" "good_range ?r"
      using merge_step Cons.prems True by auto
    moreover have "rng_start ?r = rng_start r" by simp
    ultimately show ?thesis
      using Cons.IH [of ?r] Cons.prems True by (simp add: Un_assoc del: if_split)
  next
    case False
    have "unat (rng_end r) + 1 < unat (rng_start i)"
      using False Cons.prems(1) by (simp add: good_range_def unat_plus_if' word_le_nat_alt not_le)
    then have "rset r \<inter> (rset i \<union> (\<Union>x\<in>set rs. rset x)) = {}"
      using Cons.prems(3) by (fastforce simp: rset_def word_le_nat_alt)
    then have "card (rset r \<union> (rset i \<union> (\<Union>x\<in>set rs. rset x))) =
        card (rset r) + card (rset i \<union> (\<Union>x\<in>set rs. rset x))"
      by (intro card_Un_disjoint) auto
    then show ?thesis using Cons.IH [of i] Cons.prems False by auto
  qed
qed

lemma sorted_fst_lex: "sorted (map (\<lambda>r. (f r, g r)) xs) \<Longrightarrow> sorted (map f xs)"
  by (induction xs) (auto simp: less_eq_prod_def)

lemma mergeRanges_card:
  assumes "\<And>x. x \<in> set rs \<Longrightarrow> good_range x"
  shows "(\<Sum>x\<leftarrow>mergeRanges rs. card (rset x)) = card (\<Union>x\<in>set rs. rset x)
    \<and> (\<forall>x\<in>set (mergeRanges rs). good_range x)"
proof (cases "sort_key (\<lambda>r. (rng_start r, rng_end r)) rs")
  case Nil
  then have "length rs = 0" by (simp flip: length_sort [of "\<lambda>r. (rng_start r, rng_end r)" rs])
  then show ?thesis by (simp add: mergeRanges_def)
next
  case (Cons a as)
  have "sorted (map rng_start (a # as))"
    by (rule sorted_fst_lex [of _ rng_end]) (unfold Cons [symmetric], rule sorted_sort_key)
  moreover have "set rs = set (a # as)"
    unfolding Cons [symmetric] by (rule set_sort [symmetric])
  ultimately show ?thesis
    using assms merge_from_card [of a as] by (simp add: mergeRanges_def Cons)
qed

lemma range_len64:
  assumes "s \<le> e"
  shows "(ucast (e :: u32) - ucast (s :: u32) + 1 :: u64) = of_nat (unat e + 1 - unat s)"
proof -
  have "(ucast x :: u64) = of_nat (unat x)" for x :: u32
    by (simp add: word_unat_eq_iff unat_of_nat take_bit_nat_eq_self unsigned_ucast_eq)
  then show ?thesis using assms by (simp add: word_le_nat_alt of_nat_diff)
qed

lemma foldl_minus:
  "foldl (\<lambda>t i. t - f i) (t :: 'a::ab_group_add) xs = t - (\<Sum>i\<leftarrow>xs. f i)"
  by (induction xs arbitrary: t) (auto simp: algebra_simps)

end
