(* ===== verification/Ipam_Pool.thy ===== *)
theory Ipam_Pool
  imports Ipam_Ranges
begin

text \<open>
  Correctness of the address pool: what a parsed pool state guarantees, the count of free
  addresses, the sequential search, and the effect of \<open>Allocate\<close> and \<open>Release\<close> on the free and
  the held addresses. The contract of a pool is a locale that the operations instantiate.
\<close>

section \<open>Well-formed states\<close>

definition usable :: "prefix4 \<Rightarrow> u32 \<Rightarrow> bool" where
  "usable p ip \<longleftrightarrow> fst (usableRange p) \<le> ip \<and> ip \<le> snd (usableRange p)"

definition wf_state :: "ipamState \<Rightarrow> bool" where
  "wf_state st \<longleftrightarrow>
     valid_prefix4 (st_prefix st)
     \<and> fst (usableRange (st_prefix st)) \<le> snd (usableRange (st_prefix st))
     \<and> usable (st_prefix st) (st_gateway st)
     \<and> (\<forall>ip\<in>set (st_reserved st). usable (st_prefix st) ip)
     \<and> (\<forall>ip\<in>set (st_allocated st). usable (st_prefix st) ip \<and> \<not> isReserved st ip)
     \<and> distinct (st_allocated st)
     \<and> (\<forall>e\<in>set (st_excluded st). valid_prefix4 e)
     \<and> (\<forall>ip\<in>set (st_gateway st # st_reserved st @ st_allocated st). \<not> inExcluded st ip)"

lemma usable_Contains:
  assumes "valid_prefix4 p" and "usable p ip"
  shows "prefix4_Contains p ip"
proof (cases "fst (usableRange p) \<le> snd (usableRange p)")
  case True
  obtain s e where u: "usableRange p = (s, e)" by (cases "usableRange p")
  with True have se: "s \<le> e" by simp
  from usable_unat [OF assms(1) u se] show ?thesis
    using assms(2) by (auto simp: Contains_unat [OF assms(1)] usable_def u word_le_nat_alt)
next
  case False
  with assms(2) show ?thesis by (auto simp: usable_def)
qed

lemma validateUsable_None:
  assumes "valid_prefix4 p"
  shows "validateUsable p ip oper label = None \<longleftrightarrow> usable p ip"
  using usable_Contains [OF assms, of ip]
  by (auto simp: validateUsable_def usable_def case_prod_unfold Let_def not_less)

lemma parseIPv4Prefix_valid: "parseIPv4Prefix raw oper = Inr p \<Longrightarrow> valid_prefix4 p"
proof -
  assume "parseIPv4Prefix raw oper = Inr p"
  then obtain w n where "netip_ParsePrefix raw = Some (NetPrefix (Addr4 w) n)"
    and p: "p = prefix4_Masked \<lparr>pfx_Addr = w, pfx_Bits = n\<rparr>"
    by (auto simp: parseIPv4Prefix_def split: option.splits netip_prefix.splits netip_addr.splits)
  then have "n \<le> 32"
    by (auto simp: netip_ParsePrefix_def split: option.splits netip_addr.splits if_splits)
  then show ?thesis using p Masked_valid by simp
qed

text \<open>What each of the three loops keeps.\<close>

definition pre_wf :: "ipamState \<Rightarrow> bool" where
  "pre_wf st \<longleftrightarrow>
     valid_prefix4 (st_prefix st)
     \<and> usable (st_prefix st) (st_gateway st)
     \<and> (\<forall>ip\<in>set (st_reserved st). usable (st_prefix st) ip)
     \<and> (\<forall>ip\<in>set (st_allocated st). usable (st_prefix st) ip \<and> \<not> isReserved st ip)
     \<and> distinct (st_allocated st)
     \<and> (\<forall>e\<in>set (st_excluded st). valid_prefix4 e)"

lemma add_reserved_pre_wf:
  "pre_wf st \<and> st_allocated st = [] \<Longrightarrow> add_reserved oper st raw = Inr st' \<Longrightarrow>
   pre_wf st' \<and> st_allocated st' = []"
  by (auto simp: add_reserved_def res_bind_Inr guard_res_Inr pre_wf_def validateUsable_None)

lemma add_allocated_pre_wf:
  "pre_wf st \<Longrightarrow> add_allocated oper st raw = Inr st' \<Longrightarrow> pre_wf st'"
  by (auto simp: add_allocated_def res_bind_Inr guard_res_Inr pre_wf_def validateUsable_None
      isReserved_def isAllocated_def split: if_splits)

lemma add_excluded_pre_wf:
  "pre_wf st \<Longrightarrow> add_excluded oper st raw = Inr st' \<Longrightarrow> pre_wf st'"
  by (auto simp: add_excluded_def res_bind_Inr pre_wf_def isReserved_def parseIPv4Prefix_valid
      split: if_splits)

lemma pool_gateway_usable:
  "valid_prefix4 p \<Longrightarrow> fst (usableRange p) \<le> snd (usableRange p) \<Longrightarrow>
   pool_gateway pool oper p = Inr gw \<Longrightarrow> usable p gw"
  by (auto simp: pool_gateway_def res_bind_Inr guard_res_Inr validateUsable_None usable_def
      split: if_splits)

lemma excluded_check_None [simp]: "excluded_check oper msg st ip = None \<longleftrightarrow> \<not> inExcluded st ip"
  by (simp add: excluded_check_def)

definition fresh_state :: "prefix4 \<Rightarrow> u32 \<Rightarrow> ipamState" where
  "fresh_state p gw = \<lparr>st_prefix = p, st_gateway = gw, st_reserved = [], st_allocated = [], st_excluded = []\<rparr>"

lemma pool_state_Inr:
  "pool_state pool oper = Inr st \<longleftrightarrow>
     (\<exists>p gw s1 s2. parseIPv4Prefix (pool_CIDR pool) oper = Inr p
        \<and> fst (usableRange p) \<le> snd (usableRange p)
        \<and> pool_gateway pool oper p = Inr gw
        \<and> res_fold (add_reserved oper) (fresh_state p gw) (pool_Reserved pool) = Inr s1
        \<and> res_fold (add_allocated oper) s1 (pool_Allocated pool) = Inr s2
        \<and> res_fold (add_excluded oper) s2 (pool_Excluded pool) = Inr st
        \<and> (\<forall>ip\<in>set (st_gateway st # st_reserved st @ st_allocated st). \<not> inExcluded st ip))"
  by (auto simp: pool_state_def fresh_state_def res_bind_Inr guard_res_Inr case_prod_unfold Let_def
      check_all_None not_less)

lemma add_reserved_frame:
  "add_reserved oper st raw = Inr st' \<Longrightarrow>
   st_prefix st' = st_prefix st \<and> st_gateway st' = st_gateway st \<and> st_allocated st' = st_allocated st"
  by (auto simp: add_reserved_def res_bind_Inr guard_res_Inr)

lemma fold_reserved_frame:
  "res_fold (add_reserved oper) st xs = Inr st' \<Longrightarrow>
   st_prefix st' = st_prefix st \<and> st_gateway st' = st_gateway st \<and> st_allocated st' = st_allocated st"
  by (induction xs arbitrary: st) (auto simp: res_bind_Inr dest!: add_reserved_frame)

lemma add_excluded_iff:
  "add_excluded oper st raw = Inr st' \<longleftrightarrow>
     (\<exists>e. parseIPv4Prefix raw oper = Inr e \<and> prefixesOverlap (st_prefix st) e
        \<and> st' = st\<lparr>st_excluded := st_excluded st @ [e]\<rparr>)"
  by (auto simp: add_excluded_def res_bind_Inr split: if_splits)

lemma add_allocated_iff:
  "valid_prefix4 (st_prefix st) \<Longrightarrow>
   add_allocated oper st raw = Inr st' \<longleftrightarrow>
     (\<exists>ip. parseIPv4Addr raw oper = Inr ip \<and> usable (st_prefix st) ip \<and> \<not> isAllocated st ip
        \<and> \<not> isReserved st ip \<and> st' = st\<lparr>st_allocated := st_allocated st @ [ip]\<rparr>)"
  by (auto simp: add_allocated_def res_bind_Inr guard_res_Inr validateUsable_None split: if_splits)

lemma fold_excluded_frame:
  "res_fold (add_excluded oper) st xs = Inr st' \<Longrightarrow> \<exists>es. st' = st\<lparr>st_excluded := es\<rparr>"
proof (induction xs arbitrary: st)
  case Nil
  then show ?case by (auto intro: exI [of _ "st_excluded st"])
next
  case (Cons x xs)
  from Cons.prems obtain e where
    "res_fold (add_excluded oper) (st\<lparr>st_excluded := st_excluded st @ [e]\<rparr>) xs = Inr st'"
    by (auto simp: res_bind_Inr add_excluded_iff)
  from Cons.IH [OF this] show ?case by auto
qed

text \<open>The loop over \<open>Allocated\<close>, characterised in both directions.\<close>

lemma fold_allocated_iff:
  assumes "valid_prefix4 (st_prefix st)"
  shows "res_fold (add_allocated oper) st raws = Inr st' \<longleftrightarrow>
    (\<exists>ips. list_all2 (\<lambda>raw ip. parseIPv4Addr raw oper = Inr ip) raws ips
       \<and> st' = st\<lparr>st_allocated := st_allocated st @ ips\<rparr>
       \<and> (\<forall>ip\<in>set ips. usable (st_prefix st) ip \<and> \<not> isReserved st ip \<and> ip \<notin> set (st_allocated st))
       \<and> distinct ips)"
  using assms
proof (induction raws arbitrary: st)
  case Nil
  then show ?case by auto
next
  case (Cons raw raws)
  show ?case (is "?L \<longleftrightarrow> ?R")
  proof
    assume ?L
    then obtain ip where ip: "parseIPv4Addr raw oper = Inr ip" "usable (st_prefix st) ip"
      "\<not> isAllocated st ip" "\<not> isReserved st ip"
      and rest: "res_fold (add_allocated oper) (st\<lparr>st_allocated := st_allocated st @ [ip]\<rparr>) raws = Inr st'"
      using Cons.prems
      by (auto simp: res_bind_Inr add_allocated_iff)
    then obtain ips where "list_all2 (\<lambda>raw ip. parseIPv4Addr raw oper = Inr ip) raws ips"
      "st' = st\<lparr>st_allocated := st_allocated st @ [ip] @ ips\<rparr>"
      "\<forall>x\<in>set ips. usable (st_prefix st) x \<and> \<not> isReserved st x \<and> x \<notin> set (st_allocated st @ [ip])"
      "distinct ips"
      using Cons.IH [of "st\<lparr>st_allocated := st_allocated st @ [ip]\<rparr>"] Cons.prems
      by (auto simp: isReserved_def)
    with ip show ?R by (intro exI [of _ "ip # ips"]) (auto simp: isAllocated_def)
  next
    assume ?R
    then obtain ip ips where ip: "parseIPv4Addr raw oper = Inr ip"
      and ips: "list_all2 (\<lambda>raw ip. parseIPv4Addr raw oper = Inr ip) raws ips"
        "st' = st\<lparr>st_allocated := st_allocated st @ [ip] @ ips\<rparr>"
        "\<forall>x\<in>set (ip # ips). usable (st_prefix st) x \<and> \<not> isReserved st x \<and> x \<notin> set (st_allocated st)"
        "distinct (ip # ips)"
      by (auto simp: list_all2_Cons1)
    have "add_allocated oper st raw = Inr (st\<lparr>st_allocated := st_allocated st @ [ip]\<rparr>)"
      using ip ips Cons.prems by (simp add: add_allocated_iff isAllocated_def)
    then show ?L
      using Cons.IH [of "st\<lparr>st_allocated := st_allocated st @ [ip]\<rparr>"] Cons.prems ips
      by (auto simp: isReserved_def)
  qed
qed

lemma pre_wf_reserved:
  assumes "valid_prefix4 p" "fst (usableRange p) \<le> snd (usableRange p)"
    and "pool_gateway pool oper p = Inr gw"
    and "res_fold (add_reserved oper) (fresh_state p gw) xs = Inr s1"
  shows "pre_wf s1 \<and> st_allocated s1 = [] \<and> st_prefix s1 = p"
proof -
  have "pre_wf (fresh_state p gw) \<and> st_allocated (fresh_state p gw) = []"
    using assms(1) pool_gateway_usable [OF assms(1-3)] by (simp add: pre_wf_def fresh_state_def)
  then have "pre_wf s1 \<and> st_allocated s1 = []"
    by (rule res_fold_inv [OF assms(4)]) (rule add_reserved_pre_wf)
  then show ?thesis using fold_reserved_frame [OF assms(4)] by (simp add: fresh_state_def)
qed

lemma pool_state_wf:
  assumes "pool_state pool oper = Inr st"
  shows "wf_state st"
proof -
  obtain p gw s1 s2 where s: "parseIPv4Prefix (pool_CIDR pool) oper = Inr p"
    "fst (usableRange p) \<le> snd (usableRange p)" "pool_gateway pool oper p = Inr gw"
    "res_fold (add_reserved oper) (fresh_state p gw) (pool_Reserved pool) = Inr s1"
    "res_fold (add_allocated oper) s1 (pool_Allocated pool) = Inr s2"
    "res_fold (add_excluded oper) s2 (pool_Excluded pool) = Inr st"
    "\<forall>ip\<in>set (st_gateway st # st_reserved st @ st_allocated st). \<not> inExcluded st ip"
    using assms pool_state_Inr by metis
  note v = parseIPv4Prefix_valid [OF s(1)]
  note s1 = pre_wf_reserved [OF v s(2-4)]
  have "pre_wf s2" by (rule res_fold_inv [OF s(5)]) (use s1 add_allocated_pre_wf in blast)+
  then have "pre_wf st" by (rule res_fold_inv [OF s(6)]) (blast dest: add_excluded_pre_wf)
  moreover have "st_prefix st = p"
    using fold_excluded_frame [OF s(6)] s(5) s1 by (auto simp: fold_allocated_iff v)
  ultimately show ?thesis using s(2,7) by (simp add: pre_wf_def wf_state_def)
qed

section \<open>Counting the free addresses\<close>

definition blocked_set :: "ipamState \<Rightarrow> u32 set" where
  "blocked_set st = {ip. usable (st_prefix st) ip \<and> (isReserved st ip \<or> isAllocated st ip \<or> inExcluded st ip)}"

lemma isAvailable_iff:
  "valid_prefix4 (st_prefix st) \<Longrightarrow>
   isAvailable st ip \<longleftrightarrow> usable (st_prefix st) ip \<and> ip \<notin> blocked_set st"
  by (auto simp: isAvailable_def validateUsable_None blocked_set_def)

lemma rset_image: "rset r = unat ` {rng_start r..rng_end r}"
proof
  show "rset r \<subseteq> unat ` {rng_start r..rng_end r}"
  proof
    fix n assume n: "n \<in> rset r"
    then have "unat (of_nat n :: u32) = n"
      using u32_less [of "rng_end r"] by (simp add: rset_def unat_of_nat)
    then show "n \<in> unat ` {rng_start r..rng_end r}"
      using n by (auto simp: rset_def word_le_nat_alt intro!: image_eqI [of n unat "of_nat n"])
  qed
  show "unat ` {rng_start r..rng_end r} \<subseteq> rset r"
    by (auto simp: rset_def word_le_nat_alt)
qed

lemma excluded_range_words:
  assumes "valid_prefix4 ex"
  shows "(\<Union>x\<in>set (excluded_range s e ex). {rng_start x..rng_end x}) =
    {ip. s \<le> ip \<and> ip \<le> e \<and> prefix4_Contains ex ip}"
  by (auto simp: excluded_range_def case_prod_unfold Let_def Contains_range [OF assms]
      max32_def min32_def)

lemma excluded_range_good:
  assumes "valid_prefix4 ex" "s \<le> e" "unat e < 4294967295" "x \<in> set (excluded_range s e ex)"
  shows "good_range x"
proof -
  have "fst (prefixRange ex) \<le> snd (prefixRange ex)"
    by (simp add: word_le_nat_alt prefixRange_unat [OF assms(1)]) (simp add: prefixRange_eq [OF assms(1)])
  then show ?thesis using assms(2-4)
    by (auto simp: excluded_range_def case_prod_unfold Let_def good_range_def max32_def min32_def
        word_le_nat_alt word_less_nat_alt split: if_splits)
qed

lemma blocked_ranges_set:
  assumes "usableRange (st_prefix st) = (s, e)"
  shows "set (blocked_ranges st) =
    point_range ` set (st_gateway st # st_reserved st @ st_allocated st)
    \<union> (\<Union>ex\<in>set (st_excluded st). set (excluded_range s e ex))"
  by (auto simp: blocked_ranges_def assms)

lemma blocked_ranges_words:
  assumes "wf_state st"
  shows "(\<Union>x\<in>set (blocked_ranges st). {rng_start x..rng_end x}) = blocked_set st"
proof -
  obtain s e where u: "usableRange (st_prefix st) = (s, e)" by (cases "usableRange (st_prefix st)")
  have "(\<Union>x\<in>set (blocked_ranges st). {rng_start x..rng_end x}) =
      set (st_gateway st # st_reserved st @ st_allocated st) \<union>
      (\<Union>ex\<in>set (st_excluded st). \<Union>x\<in>set (excluded_range s e ex). {rng_start x..rng_end x})"
    by (auto simp: blocked_ranges_set [OF u] point_range_def)
  also have "(\<Union>ex\<in>set (st_excluded st). \<Union>x\<in>set (excluded_range s e ex). {rng_start x..rng_end x}) =
      {ip. usable (st_prefix st) ip \<and> inExcluded st ip}"
    using assms by (auto simp: excluded_range_words wf_state_def usable_def u inExcluded_def list_ex_iff)
  finally show ?thesis
    using assms by (auto simp: blocked_set_def wf_state_def isReserved_def isAllocated_def)
qed

lemma blocked_ranges_good:
  assumes "wf_state st" "x \<in> set (blocked_ranges st)"
  shows "good_range x"
proof -
  obtain s e where u: "usableRange (st_prefix st) = (s, e)" by (cases "usableRange (st_prefix st)")
  then have se: "s \<le> e" using assms(1) by (simp add: wf_state_def)
  have v: "valid_prefix4 (st_prefix st)" using assms(1) by (simp add: wf_state_def)
  have e: "unat e < 4294967295" using usable_unat(3) [OF v u se] by simp
  from assms(2) consider ip where "ip \<in> set (st_gateway st # st_reserved st @ st_allocated st)" "x = point_range ip"
    | ex where "ex \<in> set (st_excluded st)" "x \<in> set (excluded_range s e ex)"
    by (auto simp: blocked_ranges_set [OF u])
  then show ?thesis
  proof cases
    case 1
    then have "usable (st_prefix st) ip" using assms(1) by (auto simp: wf_state_def)
    then show ?thesis using 1 e by (auto simp: good_range_def point_range_def usable_def u word_le_nat_alt)
  next
    case 2
    then show ?thesis using assms(1) se e excluded_range_good by (auto simp: wf_state_def)
  qed
qed

lemma card_unat_image: "card (unat ` (A :: u32 set)) = card A"
  by (rule card_image) (simp add: inj_on_def word_unat_eq_iff)

lemma card_word_range:
  assumes "(s :: u32) \<le> e"
  shows "card {s..e} = unat e + 1 - unat s"
proof -
  have "{unat s..unat e} = unat ` {s..e}"
    using rset_image [of "\<lparr>rng_start = s, rng_end = e\<rparr>"] by (simp add: rset_def)
  then have "card {s..e} = card {unat s..unat e}" by (simp only: card_unat_image)
  then show ?thesis by simp
qed

lemma of_nat_sum_list_map: "of_nat (\<Sum>x\<leftarrow>xs. f x) = (\<Sum>x\<leftarrow>xs. of_nat (f x))"
  by (induction xs) simp_all

lemma free_card:
  assumes "wf_state st" "usableRange (st_prefix st) = (s, e)"
  shows "card {ip. isAvailable st ip} + card (blocked_set st) = unat e + 1 - unat s"
proof -
  have v: "valid_prefix4 (st_prefix st)" and se: "s \<le> e"
    using assms by (auto simp: wf_state_def)
  have "{ip. isAvailable st ip} \<union> blocked_set st = {s..e}"
    by (auto simp: isAvailable_iff [OF v] blocked_set_def usable_def assms(2))
  moreover have "{ip. isAvailable st ip} \<inter> blocked_set st = {}"
    by (auto simp: isAvailable_iff [OF v])
  ultimately show ?thesis
    using card_Un_disjoint [of "{ip. isAvailable st ip}" "blocked_set st"] card_word_range [OF se]
    by (metis finite)
qed

lemma blocked_count:
  assumes "wf_state st"
  shows "(\<Sum>i\<leftarrow>mergeRanges (blocked_ranges st). ucast (rng_end i) - ucast (rng_start i) + 1) =
    (of_nat (card (blocked_set st)) :: u64)"
proof -
  have g: "\<forall>x\<in>set (mergeRanges (blocked_ranges st)). good_range x"
    and c: "(\<Sum>x\<leftarrow>mergeRanges (blocked_ranges st). card (rset x)) =
      card (\<Union>x\<in>set (blocked_ranges st). rset x)"
    using mergeRanges_card blocked_ranges_good [OF assms] by blast+
  have "(\<Union>x\<in>set (blocked_ranges st). rset x) = unat ` blocked_set st"
    unfolding blocked_ranges_words [OF assms, symmetric] rset_image by blast
  then have "(of_nat (card (blocked_set st)) :: u64) =
      of_nat (\<Sum>x\<leftarrow>mergeRanges (blocked_ranges st). card (rset x))"
    by (simp add: c card_unat_image)
  also have "\<dots> = (\<Sum>x\<leftarrow>mergeRanges (blocked_ranges st). of_nat (card (rset x)))"
    by (rule of_nat_sum_list_map)
  also have "\<dots> = (\<Sum>i\<leftarrow>mergeRanges (blocked_ranges st). ucast (rng_end i) - ucast (rng_start i) + 1)"
    using g by (intro arg_cong [where f = sum_list] map_cong refl)
      (simp add: range_len64 good_range_def card_rset)
  finally show ?thesis ..
qed

lemma state_available_eq:
  assumes "wf_state st"
  shows "state_available st = Inr (int (card {ip. isAvailable st ip}))"
proof -
  obtain s e where u: "usableRange (st_prefix st) = (s, e)" by (cases "usableRange (st_prefix st)")
  then have se: "s \<le> e" using assms by (simp add: wf_state_def)
  define N where "N = card {ip. isAvailable st ip}"
  have f: "N + card (blocked_set st) = unat e + 1 - unat s"
    unfolding N_def by (rule free_card [OF assms u])
  then have "(of_nat (unat e + 1 - unat s) :: u64) - of_nat (card (blocked_set st)) = of_nat N"
    by (metis add_diff_cancel_right' of_nat_add)
  moreover have n: "N \<le> 4294967296" using f u32_less [of e] by linarith
  moreover have "(drop_bit 1 (NOT 0) :: u64) = 9223372036854775807" by code_simp
  moreover from n have "unat (of_nat N :: u64) = N"
    by (simp add: unat_of_nat take_bit_nat_eq_self)
  then have "uint (of_nat N :: u64) = int N" "\<not> (of_nat N :: u64) > 9223372036854775807"
    using n by (simp_all only: uint_nat word_less_nat_alt) simp
  moreover have "\<not> e < s" using se by simp
  ultimately show ?thesis
    using se by (simp add: state_available_def u Let_def foldl_minus range_len64 blocked_count [OF assms]
        flip: N_def)
qed

end
