(* ===== verification/Ipam_Ops.thy ===== *)
theory Ipam_Ops
  imports Ipam_Pool
begin

text \<open>
  The operations of the pool on top of its states: the sequential search finds the least free
  address, \<open>Allocate\<close> and \<open>Release\<close> move one address between the free and the held ones and
  are inverse, and no sequence of calls loses or duplicates an address. The contract is the
  locale \<open>address_pool\<close>, instantiated with the operations of \<^verbatim>\<open>src/ipam.go\<close>.
\<close>

section \<open>A state does not depend on the operation that asks for it\<close>

lemma parseIPv4Addr_Inr: "parseIPv4Addr raw oper = Inr ip \<longleftrightarrow> netip_ParseAddr raw = Some (Addr4 ip)"
  by (auto simp: parseIPv4Addr_def split: option.splits netip_addr.splits)

lemma parseIPv4Prefix_Inr:
  "parseIPv4Prefix raw oper = Inr p \<longleftrightarrow>
     (\<exists>w n. netip_ParsePrefix raw = Some (NetPrefix (Addr4 w) n)
        \<and> p = prefix4_Masked \<lparr>pfx_Addr = w, pfx_Bits = n\<rparr>)"
  by (auto simp: parseIPv4Prefix_def split: option.splits netip_prefix.splits netip_addr.splits)

lemma validateUsable_oper:
  "validateUsable p ip oper label = None \<longleftrightarrow> validateUsable p ip oper' label' = None"
  by (auto simp: validateUsable_def case_prod_unfold Let_def)

lemma res_fold_cong_Inr:
  "(\<And>s x t. f s x = Inr t \<longleftrightarrow> g s x = Inr t) \<Longrightarrow> res_fold f s xs = Inr t \<longleftrightarrow> res_fold g s xs = Inr t"
  by (induction xs arbitrary: s) (simp_all add: res_bind_Inr)

lemma add_reserved_oper: "add_reserved oper s raw = Inr t \<longleftrightarrow> add_reserved oper' s raw = Inr t"
  using validateUsable_oper [of "st_prefix s" _ oper "''reserved IP''" oper']
  by (auto simp: add_reserved_def res_bind_Inr guard_res_Inr parseIPv4Addr_Inr)

lemma add_allocated_oper: "add_allocated oper s raw = Inr t \<longleftrightarrow> add_allocated oper' s raw = Inr t"
  using validateUsable_oper [of "st_prefix s" _ oper "''allocated IP''" oper']
  by (auto simp: add_allocated_def res_bind_Inr guard_res_Inr parseIPv4Addr_Inr split: if_splits)

lemma add_excluded_oper: "add_excluded oper s raw = Inr t \<longleftrightarrow> add_excluded oper' s raw = Inr t"
  by (simp add: add_excluded_iff parseIPv4Prefix_Inr)

lemma pool_gateway_oper: "pool_gateway pool oper p = Inr g \<longleftrightarrow> pool_gateway pool oper' p = Inr g"
  using validateUsable_oper [of p _ oper "''gateway''" oper']
  by (auto simp: pool_gateway_def res_bind_Inr guard_res_Inr parseIPv4Addr_Inr)

lemma pool_state_oper: "pool_state pool oper = Inr st \<longleftrightarrow> pool_state pool oper' = Inr st"
  by (simp add: pool_state_Inr parseIPv4Prefix_Inr pool_gateway_oper [of pool oper _ _ oper']
      res_fold_cong_Inr [OF add_reserved_oper [of oper _ _ _ oper']]
      res_fold_cong_Inr [OF add_allocated_oper [of oper _ _ _ oper']]
      res_fold_cong_Inr [OF add_excluded_oper [of oper _ _ _ oper']])

section \<open>Changing the allocated addresses of a pool\<close>

lemma fold_excluded_allocated:
  "res_fold (add_excluded oper) st xs = Inr st' \<Longrightarrow>
   res_fold (add_excluded oper) (st\<lparr>st_allocated := a\<rparr>) xs = Inr (st'\<lparr>st_allocated := a\<rparr>)"
proof (induction xs arbitrary: st)
  case (Cons x xs)
  then obtain e where e: "parseIPv4Prefix x oper = Inr e" "prefixesOverlap (st_prefix st) e"
    and rest: "res_fold (add_excluded oper) (st\<lparr>st_excluded := st_excluded st @ [e]\<rparr>) xs = Inr st'"
    by (auto simp: res_bind_Inr add_excluded_iff)
  have "add_excluded oper (st\<lparr>st_allocated := a\<rparr>) x =
      Inr (st\<lparr>st_excluded := st_excluded st @ [e], st_allocated := a\<rparr>)"
    using e by (simp add: add_excluded_iff)
  then show ?case using Cons.IH [OF rest] by simp
qed simp

text \<open>A pool whose state parses: what is in the state, and which other lists would parse.\<close>

lemma pool_state_allocated:
  assumes "pool_state pool oper = Inr st"
  shows "list_all2 (\<lambda>raw ip. netip_ParseAddr raw = Some (Addr4 ip)) (pool_Allocated pool) (st_allocated st)"
proof -
  from assms obtain p gw s1 s2 where s: "parseIPv4Prefix (pool_CIDR pool) oper = Inr p"
      "fst (usableRange p) \<le> snd (usableRange p)" "pool_gateway pool oper p = Inr gw"
      "res_fold (add_reserved oper) (fresh_state p gw) (pool_Reserved pool) = Inr s1"
      "res_fold (add_allocated oper) s1 (pool_Allocated pool) = Inr s2"
      "res_fold (add_excluded oper) s2 (pool_Excluded pool) = Inr st"
    by (auto simp: pool_state_Inr)
  have v: "valid_prefix4 (st_prefix s1)" and n: "st_allocated s1 = []"
    using pre_wf_reserved [OF parseIPv4Prefix_valid [OF s(1)] s(2-4)] by (auto simp: pre_wf_def)
  show ?thesis
    using s(5) fold_excluded_frame [OF s(6)] n by (auto simp: fold_allocated_iff [OF v] parseIPv4Addr_Inr)
qed

lemma pool_state_with_allocated:
  assumes st: "pool_state pool oper = Inr st"
    and raws: "list_all2 (\<lambda>raw ip. netip_ParseAddr raw = Some (Addr4 ip)) raws ips"
    and ips: "distinct ips"
      "\<forall>ip\<in>set ips. usable (st_prefix st) ip \<and> \<not> isReserved st ip \<and> \<not> inExcluded st ip"
  shows "pool_state (pool\<lparr>pool_Allocated := raws\<rparr>) oper = Inr (st\<lparr>st_allocated := ips\<rparr>)"
proof -
  from st obtain p gw s1 s2 where s: "parseIPv4Prefix (pool_CIDR pool) oper = Inr p"
      "fst (usableRange p) \<le> snd (usableRange p)" "pool_gateway pool oper p = Inr gw"
      "res_fold (add_reserved oper) (fresh_state p gw) (pool_Reserved pool) = Inr s1"
      "res_fold (add_allocated oper) s1 (pool_Allocated pool) = Inr s2"
      "res_fold (add_excluded oper) s2 (pool_Excluded pool) = Inr st"
    and ex: "\<forall>ip\<in>set (st_gateway st # st_reserved st @ st_allocated st). \<not> inExcluded st ip"
    by (auto simp: pool_state_Inr)
  have v: "valid_prefix4 (st_prefix s1)" and n: "st_allocated s1 = []"
    using pre_wf_reserved [OF parseIPv4Prefix_valid [OF s(1)] s(2-4)] by (auto simp: pre_wf_def)
  obtain ips0 where s2: "s2 = s1\<lparr>st_allocated := ips0\<rparr>"
    using s(5) by (auto simp: fold_allocated_iff [OF v])
  obtain es where st': "st = s1\<lparr>st_allocated := ips0, st_excluded := es\<rparr>"
    using fold_excluded_frame [OF s(6)] by (auto simp: s2)
  have "res_fold (add_allocated oper) s1 raws = Inr (s1\<lparr>st_allocated := ips\<rparr>)"
    using raws ips by (auto simp: fold_allocated_iff [OF v] parseIPv4Addr_Inr n st' isReserved_def)
  moreover have "res_fold (add_excluded oper) (s1\<lparr>st_allocated := ips\<rparr>) (pool_Excluded pool) =
      Inr (st\<lparr>st_allocated := ips\<rparr>)"
    using fold_excluded_allocated [OF s(6), of ips] by (simp add: s2)
  moreover have "pool_gateway (pool\<lparr>pool_Allocated := raws\<rparr>) oper p = Inr gw"
    using s(3) by (simp add: pool_gateway_def split: if_splits)
  ultimately show ?thesis
    using s ex ips(2) by (auto simp: pool_state_Inr inExcluded_def)
qed

section \<open>The sequential search\<close>

lemma next_loop_correct:
  "next_loop st end' current = Some ip \<longleftrightarrow>
    current \<le> ip \<and> ip \<le> end' \<and> isAvailable st ip \<and> (\<forall>j. current \<le> j \<and> j < ip \<longrightarrow> \<not> isAvailable st j)"
proof (induction st end' current rule: next_loop.induct)
  case (1 st end' current)
  consider (out) "\<not> current \<le> end'" | (hit) "current \<le> end'" "isAvailable st current"
    | (last) "current \<le> end'" "\<not> isAvailable st current" "current = NOT 0"
    | (rec) "current \<le> end'" "\<not> isAvailable st current" "current \<noteq> NOT 0" by blast
  then show ?case
  proof cases
    case out
    then show ?thesis by (subst next_loop.simps) auto
  next
    case hit
    then show ?thesis by (subst next_loop.simps) (auto simp: not_less order.antisym dest: leD)
  next
    case last
    then have "current \<le> j \<longleftrightarrow> j = current" for j
      by (simp add: word_order.extremum_unique)
    then show ?thesis using last by (subst next_loop.simps) auto
  next
    case rec
    have step: "current + 1 \<le> j \<longleftrightarrow> current \<le> j \<and> j \<noteq> current" for j
      using rec(3) by (auto simp: word_le_nat_alt unat_succ32 word_unat_eq_iff)
    show ?thesis
      using 1 rec(1,2) rec(3) by (subst next_loop.simps) (auto simp: step dest: leD)
  qed
qed

lemma isAvailable_usable: "wf_state st \<Longrightarrow> isAvailable st ip \<Longrightarrow> usable (st_prefix st) ip"
  by (auto simp: isAvailable_iff wf_state_def)

lemma nextAvailable_Inr:
  assumes "wf_state st"
  shows "nextAvailable st = Inr ip \<longleftrightarrow> isAvailable st ip \<and> (\<forall>j. isAvailable st j \<longrightarrow> ip \<le> j)"
proof -
  obtain s e where u: "usableRange (st_prefix st) = (s, e)" by (cases "usableRange (st_prefix st)")
  have in_range: "s \<le> j \<and> j \<le> e" if "isAvailable st j" for j
    using isAvailable_usable [OF assms that] by (simp add: usable_def u)
  have "nextAvailable st = Inr ip \<longleftrightarrow> next_loop st e s = Some ip"
    by (simp add: nextAvailable_def u split: option.splits)
  then show ?thesis
    unfolding next_loop_correct using in_range by (metis not_le)
qed

lemma nextAvailable_Min:
  assumes "wf_state st"
  shows "nextAvailable st =
    (if {ip. isAvailable st ip} = {}
     then Inl (ipam_err ErrorNotFound ''allocate'' (prefix4_String (st_prefix st)) ''pool exhausted'')
     else Inr (Min {ip. isAvailable st ip}))"
proof (cases "{ip. isAvailable st ip} = {}")
  case True
  then have "nextAvailable st \<noteq> Inr ip" for ip using nextAvailable_Inr [OF assms] by blast
  then have "next_loop st (snd (usableRange (st_prefix st))) (fst (usableRange (st_prefix st))) = None"
    by (cases "next_loop st (snd (usableRange (st_prefix st))) (fst (usableRange (st_prefix st)))")
      (auto simp: nextAvailable_def case_prod_unfold)
  then show ?thesis
    using True by (simp add: nextAvailable_def case_prod_unfold)
next
  case False
  then have "isAvailable st (Min {ip. isAvailable st ip})" using Min_in [of "{ip. isAvailable st ip}"] by simp
  moreover have "\<forall>j. isAvailable st j \<longrightarrow> Min {ip. isAvailable st ip} \<le> j" by simp
  ultimately have "nextAvailable st = Inr (Min {ip. isAvailable st ip})"
    using nextAvailable_Inr [OF assms] by blast
  then show ?thesis using False by simp
qed

lemma ensureAvailable_None:
  "wf_state st \<Longrightarrow> ensureAvailable st ip = None \<longleftrightarrow> isAvailable st ip"
  by (auto simp: ensureAvailable_def then_check_None isAvailable_def validateUsable_None wf_state_def
      split: if_splits)

section \<open>Allocate and Release\<close>

definition pool_ok :: "IPAMPool \<Rightarrow> bool" where
  "pool_ok pool \<longleftrightarrow> (case pool_state pool ''plan'' of Inr st \<Rightarrow> True | Inl e \<Rightarrow> False)"

definition pool_free :: "IPAMPool \<Rightarrow> u32 set" where
  "pool_free pool = (case pool_state pool ''plan'' of Inr st \<Rightarrow> {ip. isAvailable st ip} | Inl e \<Rightarrow> {})"

definition pool_held :: "IPAMPool \<Rightarrow> u32 set" where
  "pool_held pool = (case pool_state pool ''plan'' of Inr st \<Rightarrow> set (st_allocated st) | Inl e \<Rightarrow> {})"

lemma pool_okE:
  assumes "pool_ok pool"
  obtains st where "pool_state pool oper = Inr st" "wf_state st"
    "pool_free pool = {ip. isAvailable st ip}" "pool_held pool = set (st_allocated st)"
proof -
  from assms obtain st where st: "pool_state pool ''plan'' = Inr st"
    by (auto simp: pool_ok_def split: sum.splits)
  then have "pool_state pool oper = Inr st" by (simp only: pool_state_oper [of pool oper st "''plan''"])
  then show thesis
    using that st pool_state_wf by (auto simp: pool_free_def pool_held_def)
qed

lemma pool_okI:
  assumes "pool_state pool oper = Inr st"
  shows "pool_ok pool" "pool_free pool = {ip. isAvailable st ip}" "pool_held pool = set (st_allocated st)"
    "wf_state st"
proof -
  have "pool_state pool ''plan'' = Inr st"
    using assms by (simp only: pool_state_oper [of pool oper st "''plan''"])
  then show "pool_ok pool" "pool_free pool = {ip. isAvailable st ip}" "pool_held pool = set (st_allocated st)"
    "wf_state st"
    using pool_state_wf by (auto simp: pool_ok_def pool_free_def pool_held_def)
qed

lemma Allocate_state:
  assumes "pool_state p oper = Inr st"
  shows "pool_state (p\<lparr>pool_Allocated := pool_Allocated p @ [addr4_String ip]\<rparr>) oper =
    Inr (st\<lparr>st_allocated := st_allocated st @ [ip]\<rparr>) \<or> \<not> isAvailable st ip"
proof (cases "isAvailable st ip")
  case True
  have wf: "wf_state st" using pool_okI [OF assms] by simp
  have "usable (st_prefix st) ip \<and> \<not> isReserved st ip \<and> \<not> inExcluded st ip \<and> ip \<notin> set (st_allocated st)"
    using True isAvailable_usable [OF wf True] by (auto simp: isAvailable_def isAllocated_def)
  then show ?thesis
    using pool_state_allocated [OF assms] wf
    by (intro disjI1 pool_state_with_allocated [OF assms])
      (auto simp: list_all2_appendI ParseAddr_String wf_state_def)
qed simp

lemma isAvailable_alloc:
  "isAvailable (st\<lparr>st_allocated := as\<rparr>) ip \<longleftrightarrow>
     isAvailable (st\<lparr>st_allocated := []\<rparr>) ip \<and> ip \<notin> set as"
  by (auto simp: isAvailable_def isReserved_def inExcluded_def isAllocated_def)

lemma Allocate_Inr:
  assumes "Allocate (Some p) requested = Inr (p', s)"
  obtains st ip where "pool_state p ''allocate'' = Inr st" "wf_state st" "isAvailable st ip"
    "s = addr4_String ip" "p' = p\<lparr>pool_Allocated := pool_Allocated p @ [addr4_String ip]\<rparr>"
    "requested = [] \<or> hd requested = [] \<longrightarrow> nextAvailable st = Inr ip"
    "requested \<noteq> [] \<and> hd requested \<noteq> [] \<longrightarrow> netip_ParseAddr (hd requested) = Some (Addr4 ip)"
proof -
  from assms obtain st ip where st: "pool_state p ''allocate'' = Inr st"
    and ip: "(case requested of [] \<Rightarrow> nextAvailable st | r # _ \<Rightarrow> if r = [] then nextAvailable st
        else res_bind (parseIPv4Addr r ''allocate'') (\<lambda>ip. guard_res (ensureAvailable st ip) (Inr ip))) = Inr ip"
    and p': "s = addr4_String ip" "p' = p\<lparr>pool_Allocated := pool_Allocated p @ [addr4_String ip]\<rparr>"
    by (auto simp: Allocate_def res_bind_Inr split: if_splits)
  have wf: "wf_state st" using pool_okI [OF st] by simp
  have "isAvailable st ip"
    using ip nextAvailable_Inr [OF wf, of ip] ensureAvailable_None [OF wf]
    by (auto simp: res_bind_Inr guard_res_Inr split: list.splits if_splits)
  then show thesis
    using ip by (intro that [OF st wf _ p'])
      (auto simp: res_bind_Inr guard_res_Inr parseIPv4Addr_Inr split: list.splits if_splits)
qed

lemma Allocate_moves:
  assumes "Allocate (Some p) requested = Inr (p', s)"
  obtains ip where "s = addr4_String ip" "pool_ok p" "pool_ok p'" "ip \<in> pool_free p"
    "pool_free p' = pool_free p - {ip}" "pool_held p' = insert ip (pool_held p)"
proof (rule Allocate_Inr [OF assms])
  fix st ip
  assume st: "pool_state p ''allocate'' = Inr st" "isAvailable st ip" "s = addr4_String ip"
    and p': "p' = p\<lparr>pool_Allocated := pool_Allocated p @ [addr4_String ip]\<rparr>"
  have st': "pool_state p' ''allocate'' = Inr (st\<lparr>st_allocated := st_allocated st @ [ip]\<rparr>)"
    using Allocate_state [OF st(1), of ip] st(2) p' by blast
  have "pool_free p' = pool_free p - {ip}"
    unfolding pool_okI(2) [OF st(1)] pool_okI(2) [OF st']
    using isAvailable_alloc [of "st_allocated st" st] isAvailable_alloc [of "st_allocated st @ [ip]" st]
    by auto
  then show thesis
    using that [of ip] st pool_okI [OF st(1)] pool_okI [OF st'] by auto
qed

lemma release_loop_parsed:
  assumes "list_all2 (\<lambda>raw ip. netip_ParseAddr raw = Some (Addr4 ip)) raws ips"
  shows "release_loop ip raws \<noteq> Inl e"
    and "release_loop ip raws = Inr None \<longleftrightarrow> ip \<notin> set ips"
    and "release_loop ip raws = Inr (Some rest) \<Longrightarrow>
      list_all2 (\<lambda>raw ip. netip_ParseAddr raw = Some (Addr4 ip)) rest (remove1 ip ips)"
proof -
  have "\<exists>r. release_loop ip raws = Inr r \<and> (r = None \<longleftrightarrow> ip \<notin> set ips) \<and>
      (\<forall>rest. r = Some rest \<longrightarrow>
        list_all2 (\<lambda>raw ip. netip_ParseAddr raw = Some (Addr4 ip)) rest (remove1 ip ips))"
    using assms
  proof (induction rule: list_all2_induct)
    case (Cons x xs y ys)
    then have "parseIPv4Addr x ''release'' = Inr y" by (simp add: parseIPv4Addr_Inr)
    then show ?case using Cons by auto
  qed simp
  then show "release_loop ip raws \<noteq> Inl e" "release_loop ip raws = Inr None \<longleftrightarrow> ip \<notin> set ips"
    "release_loop ip raws = Inr (Some rest) \<Longrightarrow>
      list_all2 (\<lambda>raw ip. netip_ParseAddr raw = Some (Addr4 ip)) rest (remove1 ip ips)"
    by auto
qed

lemma Release_moves:
  assumes "pool_ok p" and "Release (Some p) raw = Inr p'"
  obtains ip where "netip_ParseAddr raw = Some (Addr4 ip)" "pool_ok p'" "ip \<in> pool_held p"
    "pool_free p' = insert ip (pool_free p)" "pool_held p' = pool_held p - {ip}"
proof -
  obtain st where st: "pool_state p ''release'' = Inr st" and wf: "wf_state st"
    and fh: "pool_free p = {ip. isAvailable st ip}" "pool_held p = set (st_allocated st)"
    using pool_okE [OF assms(1), of "''release''"] by blast
  from assms(2) obtain ip rest where ip: "netip_ParseAddr raw = Some (Addr4 ip)"
    and rest: "release_loop ip (pool_Allocated p) = Inr (Some rest)"
    and p': "p' = p\<lparr>pool_Allocated := rest\<rparr>"
    by (auto simp: Release_def res_bind_Inr parseIPv4Addr_Inr split: option.splits)
  note rl = release_loop_parsed [OF pool_state_allocated [OF st], of ip]
  have held: "ip \<in> set (st_allocated st)" using rl(2) rest by auto
  have d: "distinct (st_allocated st)" using wf by (simp add: wf_state_def)
  have st': "pool_state p' ''release'' = Inr (st\<lparr>st_allocated := remove1 ip (st_allocated st)\<rparr>)"
    unfolding p' using wf d
    by (intro pool_state_with_allocated [OF st rl(3) [OF rest]]) (auto simp: wf_state_def dest: set_remove1_subset [THEN subsetD])
  have av: "isAvailable (st\<lparr>st_allocated := []\<rparr>) ip"
    using wf held by (auto simp: wf_state_def isAvailable_def validateUsable_None isReserved_def inExcluded_def
        isAllocated_def)
  have "pool_free p' = insert ip (pool_free p)"
    unfolding fh pool_okI(2) [OF st'] using av held d
      isAvailable_alloc [of "st_allocated st" st] isAvailable_alloc [of "remove1 ip (st_allocated st)" st]
    by auto
  then show thesis
    using that [OF ip] held pool_okI [OF st'] d fh by auto
qed

section \<open>The contract of an address pool\<close>

text \<open>
  What a client of a pool relies on: taking removes one free address and holds it, giving
  back is the reverse, and no address is free and held. A failed call changes nothing.
\<close>

locale address_pool =
  fixes good :: "'s \<Rightarrow> bool"
    and free held :: "'s \<Rightarrow> 'a set"
    and take_op :: "'s \<Rightarrow> 'q \<Rightarrow> ('s \<times> 'r) option"
    and give_op :: "'s \<Rightarrow> 'r \<Rightarrow> 's option"
    and addr :: "'r \<Rightarrow> 'a"
  assumes disjoint: "good s \<Longrightarrow> free s \<inter> held s = {}"
    and take_ok: "good s \<Longrightarrow> take_op s q = Some (s', r) \<Longrightarrow>
      good s' \<and> addr r \<in> free s \<and> free s' = free s - {addr r} \<and> held s' = insert (addr r) (held s)"
    and give_ok: "good s \<Longrightarrow> give_op s r = Some s' \<Longrightarrow>
      good s' \<and> addr r \<in> held s \<and> free s' = insert (addr r) (free s) \<and> held s' = held s - {addr r}"
begin

definition step :: "'s \<Rightarrow> 'q + 'r \<Rightarrow> 's" where
  "step s c = (case c of
     Inl q \<Rightarrow> (case take_op s q of Some (s', r) \<Rightarrow> s' | None \<Rightarrow> s)
   | Inr r \<Rightarrow> (case give_op s r of Some s' \<Rightarrow> s' | None \<Rightarrow> s))"

lemma step_cases:
  obtains "step s c = s"
  | q r where "take_op s q = Some (step s c, r)"
  | r where "give_op s r = Some (step s c)"
proof -
  have "step s c = s \<or> (\<exists>q r. take_op s q = Some (step s c, r)) \<or> (\<exists>r. give_op s r = Some (step s c))"
    unfolding step_def by (cases c) (auto split: option.splits)
  then show thesis using that by blast
qed

lemma step_good: "good s \<Longrightarrow> good (step s c)"
  by (rule step_cases [of s c]) (auto dest: take_ok give_ok)

lemma step_conserves: "good s \<Longrightarrow> free (step s c) \<union> held (step s c) = free s \<union> held s"
  by (rule step_cases [of s c]) (auto dest: take_ok give_ok)

lemma run_conserves:
  "good s \<Longrightarrow> good (foldl step s cs) \<and> free (foldl step s cs) \<union> held (foldl step s cs) = free s \<union> held s
     \<and> free (foldl step s cs) \<inter> held (foldl step s cs) = {}"
proof (induction cs arbitrary: s)
  case Nil
  then show ?case by (simp add: disjoint)
next
  case (Cons c cs)
  then show ?case
    using step_good [OF Cons.prems, of c] step_conserves [OF Cons.prems, of c] Cons.IH [of "step s c"] by simp
qed

text \<open>The addresses handed out by a run of takes are distinct and were all free before it.\<close>

fun takes :: "'s \<Rightarrow> 'q list \<Rightarrow> 'r list" where
  "takes s [] = []"
| "takes s (q # qs) = (case take_op s q of Some (s', r) \<Rightarrow> r # takes s' qs | None \<Rightarrow> takes s qs)"

lemma takes_distinct:
  "good s \<Longrightarrow> distinct (map addr (takes s qs)) \<and> addr ` set (takes s qs) \<subseteq> free s"
proof (induction s qs rule: takes.induct)
  case (2 s q qs)
  show ?case
  proof (cases "take_op s q")
    case None
    then show ?thesis using 2 by simp
  next
    case (Some x)
    then obtain s' r where x: "take_op s q = Some (s', r)" by (cases x) simp
    have ok: "good s'" "addr r \<in> free s" "free s' = free s - {addr r}" using take_ok [OF 2(3) x] by auto
    have ih: "distinct (map addr (takes s' qs)) \<and> addr ` set (takes s' qs) \<subseteq> free s'"
      using 2(2) [OF x refl] ok(1) by simp
    then have "addr r \<notin> set (map addr (takes s' qs))" using ok(3) by (auto simp: image_subset_iff)
    then show ?thesis using ih ok x by auto
  qed
qed simp

end

text \<open>
  \<open>Allocate\<close> and \<open>Release\<close> as the operations of such a pool. An address travels as text;
  \<open>text_addr\<close> reads it.
\<close>

definition text_addr :: "string \<Rightarrow> u32" where
  "text_addr s = (case netip_ParseAddr s of Some (Addr4 ip) \<Rightarrow> ip | _ \<Rightarrow> 0)"

definition pool_take :: "IPAMPool \<Rightarrow> string list \<Rightarrow> (IPAMPool \<times> string) option" where
  "pool_take p requested = (case Allocate (Some p) requested of Inr r \<Rightarrow> Some r | Inl e \<Rightarrow> None)"

definition pool_give :: "IPAMPool \<Rightarrow> string \<Rightarrow> IPAMPool option" where
  "pool_give p ip = (case Release (Some p) ip of Inr r \<Rightarrow> Some r | Inl e \<Rightarrow> None)"

lemma pool_disjoint: "pool_ok p \<Longrightarrow> pool_free p \<inter> pool_held p = {}"
  by (erule pool_okE) (auto simp: isAvailable_def isAllocated_def)

interpretation ipam: address_pool pool_ok pool_free pool_held pool_take pool_give text_addr
proof
  show "pool_free p \<inter> pool_held p = {}" if "pool_ok p" for p
    using that by (rule pool_disjoint)
next
  fix p requested p' s
  assume "pool_take p requested = Some (p', s)"
  then have "Allocate (Some p) requested = Inr (p', s)"
    by (simp add: pool_take_def split: sum.splits)
  then show "pool_ok p' \<and> text_addr s \<in> pool_free p \<and> pool_free p' = pool_free p - {text_addr s}
      \<and> pool_held p' = insert (text_addr s) (pool_held p)"
    by (rule Allocate_moves) (simp add: text_addr_def ParseAddr_String)
next
  fix p raw p'
  assume ok: "pool_ok p" and "pool_give p raw = Some p'"
  then have "Release (Some p) raw = Inr p'"
    by (simp add: pool_give_def split: sum.splits)
  with ok show "pool_ok p' \<and> text_addr raw \<in> pool_held p \<and> pool_free p' = insert (text_addr raw) (pool_free p)
      \<and> pool_held p' = pool_held p - {text_addr raw}"
    by (rule Release_moves) (simp add: text_addr_def)
qed

end
