(* ===== verification/Ipam_Props.thy ===== *)
theory Ipam_Props
  imports Ipam_Ops
begin

text \<open>The correctness statements of the address pool, each with a concrete run of it.\<close>

definition pool_step :: "IPAMPool \<Rightarrow> string list + string \<Rightarrow> IPAMPool" where
  "pool_step p c = (case c of
     Inl requested \<Rightarrow> (case pool_take p requested of Some (p', ip) \<Rightarrow> p' | None \<Rightarrow> p)
   | Inr ip \<Rightarrow> (case pool_give p ip of Some p' \<Rightarrow> p' | None \<Rightarrow> p))"

lemma pool_step_eq: "pool_step = ipam.step"
  by (intro ext) (simp add: pool_step_def ipam.step_def)

definition demo_pool :: IPAMPool where
  "demo_pool = (NewIPAMPool ''10.0.0.0/29'')\<lparr>pool_Reserved := [''10.0.0.3''],
     pool_Excluded := [''10.0.0.4/31'']\<rparr>"

definition demo_state :: ipamState where
  "demo_state = \<lparr>st_prefix = \<lparr>pfx_Addr = 167772160, pfx_Bits = 29\<rparr>, st_gateway = 167772161,
     st_reserved = [167772163], st_allocated = [],
     st_excluded = [\<lparr>pfx_Addr = 167772164, pfx_Bits = 31\<rparr>]\<rparr>"

lemma demo_pool_state: "pool_state demo_pool ''plan'' = Inr demo_state"
  by code_simp

lemma demo_pool_ok: "pool_ok demo_pool"
  by (rule pool_okI(1) [OF demo_pool_state])

text \<open>
  C1: In any sequence of \<open>Allocate\<close> and \<open>Release\<close> calls on a valid pool, whatever the requested
  addresses and whichever calls fail, the pool stays valid, the free and the held addresses
  together stay the same set, and no address is both free and held.
\<close>

theorem ipam_conservation:
  assumes "pool_ok p"
  shows "pool_ok (foldl pool_step p cs)
    \<and> pool_free (foldl pool_step p cs) \<union> pool_held (foldl pool_step p cs) = pool_free p \<union> pool_held p
    \<and> pool_free (foldl pool_step p cs) \<inter> pool_held (foldl pool_step p cs) = {}"
  unfolding pool_step_eq by (rule ipam.run_conserves [OF assms])

theorem ipam_conservation_witness:
  "pool_ok (foldl pool_step demo_pool [Inl [], Inl [''10.0.0.6''], Inr ''10.0.0.2'', Inl [''10.0.0.3'']])"
  using ipam_conservation [OF demo_pool_ok] by blast

text \<open>
  C26: \<open>Available\<close> computes exactly the number of addresses that \<open>Allocate\<close> could hand out. The
  64-bit subtraction over merged blocked ranges agrees with counting them one by one, and
  never wraps.
\<close>

theorem Available_counts_free:
  assumes "pool_ok p"
  shows "Available p = Inr (int (card (pool_free p)))"
proof -
  obtain st where "pool_state p ''available'' = Inr st" "wf_state st" "pool_free p = {ip. isAvailable st ip}"
    using pool_okE [OF assms] by blast
  then show ?thesis by (simp add: Available_def state_available_eq)
qed

theorem Available_counts_free_witness: "Available demo_pool = Inr (int (card (pool_free demo_pool)))"
  by (rule Available_counts_free [OF demo_pool_ok])

text \<open>
  C27: \<open>Allocate\<close> without a request returns the smallest free address and appends it to the
  pool's list, and it fails, with a NotFound error, exactly when no address is free.
\<close>

theorem Allocate_least:
  assumes "pool_ok p"
  shows "Allocate (Some p) [] =
    (if pool_free p = {}
     then Inl (ipam_err ErrorNotFound ''allocate'' (prefix4_String (st_prefix (projr (pool_state p ''allocate''))))
            ''pool exhausted'')
     else Inr (p\<lparr>pool_Allocated := pool_Allocated p @ [addr4_String (Min (pool_free p))]\<rparr>,
           addr4_String (Min (pool_free p))))"
proof -
  obtain st where st: "pool_state p ''allocate'' = Inr st" "wf_state st" "pool_free p = {ip. isAvailable st ip}"
    using pool_okE [OF assms] by blast
  then show ?thesis by (simp add: Allocate_def nextAvailable_Min)
qed

theorem Allocate_least_witness:
  "Allocate (Some demo_pool) [] =
     Inr (demo_pool\<lparr>pool_Allocated := pool_Allocated demo_pool @ [addr4_String (Min (pool_free demo_pool))]\<rparr>,
          addr4_String (Min (pool_free demo_pool)))"
proof -
  have "isAvailable demo_state 167772162" by code_simp
  then have "pool_free demo_pool \<noteq> {}" unfolding pool_okI(2) [OF demo_pool_state] by blast
  then show ?thesis using Allocate_least [OF demo_pool_ok] by simp
qed

text \<open>
  \<open>Allocate\<close> with a requested address succeeds exactly when the text parses as an IPv4
  address that is free, and then returns that address in canonical text.
\<close>

theorem Allocate_request:
  assumes "pool_ok p" and "raw \<noteq> []"
  shows "Allocate (Some p) [raw] = Inr (p', s) \<longleftrightarrow>
    (\<exists>ip\<in>pool_free p. netip_ParseAddr raw = Some (Addr4 ip) \<and> s = addr4_String ip
       \<and> p' = p\<lparr>pool_Allocated := pool_Allocated p @ [s]\<rparr>)"
proof -
  obtain st where st: "pool_state p ''allocate'' = Inr st" "wf_state st" "pool_free p = {ip. isAvailable st ip}"
    using pool_okE [OF assms(1)] by blast
  then show ?thesis
    using assms(2) by (auto simp: Allocate_def res_bind_Inr guard_res_Inr parseIPv4Addr_Inr ensureAvailable_None)
qed

theorem Allocate_request_witness:
  "Allocate (Some demo_pool) [''10.0.0.6''] =
     Inr (demo_pool\<lparr>pool_Allocated := [''10.0.0.6'']\<rparr>, ''10.0.0.6'')"
proof -
  have "isAvailable demo_state 167772166" "netip_ParseAddr ''10.0.0.6'' = Some (Addr4 167772166)"
    "addr4_String 167772166 = ''10.0.0.6''" "pool_Allocated demo_pool = []" by code_simp+
  then show ?thesis
    using Allocate_request [OF demo_pool_ok, of "''10.0.0.6''"] pool_okI(2) [OF demo_pool_state] by auto
qed

lemma release_loop_last:
  assumes "list_all2 (\<lambda>raw ip. netip_ParseAddr raw = Some (Addr4 ip)) raws ips" "ip \<notin> set ips"
  shows "release_loop ip (raws @ [addr4_String ip]) = Inr (Some raws)"
  using assms by (induction rule: list_all2_induct) (auto simp: parseIPv4Addr_def ParseAddr_String)

text \<open>
  Releasing the address a call of \<open>Allocate\<close> returned restores the pool as it was before
  that call, field by field.
\<close>

theorem Release_Allocate:
  assumes "Allocate (Some p) requested = Inr (p', s)"
  shows "Release (Some p') s = Inr p"
proof (rule Allocate_Inr [OF assms])
  fix st ip
  assume st: "pool_state p ''allocate'' = Inr st" "isAvailable st ip" "s = addr4_String ip"
    and p': "p' = p\<lparr>pool_Allocated := pool_Allocated p @ [addr4_String ip]\<rparr>"
  have "release_loop ip (pool_Allocated p') = Inr (Some (pool_Allocated p))"
    using release_loop_last [OF pool_state_allocated [OF st(1)]] st(2) p'
    by (simp add: isAvailable_def isAllocated_def)
  then show ?thesis
    by (simp add: Release_def st(3) parseIPv4Addr_def ParseAddr_String p')
qed

theorem Release_Allocate_witness:
  "Release (Some (demo_pool\<lparr>pool_Allocated := [''10.0.0.2'']\<rparr>)) ''10.0.0.2'' = Inr demo_pool"
  by (rule Release_Allocate [where requested = "[]"]) code_simp

lemma ranges_meet:
  fixes a a' b b' :: "'a :: linorder"
  assumes "a \<le> a'" "b \<le> b'"
  shows "a \<le> b' \<and> b \<le> a' \<longleftrightarrow> (\<exists>x. (a \<le> x \<and> x \<le> a') \<and> b \<le> x \<and> x \<le> b')"
  using assms by (auto intro!: exI [of _ "max a b"])

text \<open>
  The range comparison behind \<open>Overlaps\<close> and the check of excluded CIDRs holds exactly
  when the two prefixes have an address in common.
\<close>

theorem prefixesOverlap_common:
  assumes "valid_prefix4 a" and "valid_prefix4 b"
  shows "prefixesOverlap a b \<longleftrightarrow> (\<exists>ip. prefix4_Contains a ip \<and> prefix4_Contains b ip)"
proof -
  have "fst (prefixRange a) \<le> snd (prefixRange a)" "fst (prefixRange b) \<le> snd (prefixRange b)"
    using assms by (simp_all add: word_le_nat_alt prefixRange_unat) (simp_all add: prefixRange_eq)
  then show ?thesis
    unfolding prefixesOverlap_def Contains_range [OF assms(1)] Contains_range [OF assms(2)]
    unfolding case_prod_unfold Let_def by (rule ranges_meet)
qed

theorem prefixesOverlap_common_witness:
  "\<exists>ip. prefix4_Contains \<lparr>pfx_Addr = 167772160, pfx_Bits = 29\<rparr> ip
     \<and> prefix4_Contains \<lparr>pfx_Addr = 167772164, pfx_Bits = 31\<rparr> ip"
proof -
  have "valid_prefix4 \<lparr>pfx_Addr = 167772160, pfx_Bits = 29\<rparr>" "valid_prefix4 \<lparr>pfx_Addr = 167772164, pfx_Bits = 31\<rparr>"
    "prefixesOverlap \<lparr>pfx_Addr = 167772160, pfx_Bits = 29\<rparr> \<lparr>pfx_Addr = 167772164, pfx_Bits = 31\<rparr>"
    by code_simp+
  then show ?thesis using prefixesOverlap_common by blast
qed

text \<open>
  The plan of a valid pool reports the exact number of free addresses and the address
  \<open>Allocate\<close> would return next; on an exhausted pool \<open>Next\<close> is the text \<open>invalid IP\<close>, because
  the NotFound error of the search is overwritten before it is tested.
\<close>

theorem PlanIPAllocation_reports:
  assumes "pool_ok p"
  shows "\<exists>plan. PlanIPAllocation p = Inr plan \<and> plan_Available plan = int (card (pool_free p))
    \<and> plan_Next plan = (if pool_free p = {} then ''invalid IP'' else addr4_String (Min (pool_free p)))"
proof -
  obtain st where st: "pool_state p ''plan'' = Inr st" "wf_state st" "pool_free p = {ip. isAvailable st ip}"
    using pool_okE [OF assms] by blast
  then show ?thesis
    by (auto simp: PlanIPAllocation_def nextAvailable_Min state_available_eq addr_opt_String_def
        ipam_err_def IsKind_def)
qed

theorem PlanIPAllocation_reports_witness:
  "\<exists>plan. PlanIPAllocation ((NewIPAMPool ''10.0.0.0/30'')\<lparr>pool_Reserved := [''10.0.0.2'']\<rparr>) = Inr plan
     \<and> plan_Available plan = 0 \<and> plan_Next plan = ''invalid IP''"
proof -
  let ?p = "(NewIPAMPool ''10.0.0.0/30'')\<lparr>pool_Reserved := [''10.0.0.2'']\<rparr>"
  have ok: "pool_ok ?p" by code_simp
  have "plan_Available (projr (PlanIPAllocation ?p)) = 0" by code_simp
  then have "card (pool_free ?p) = 0" using PlanIPAllocation_reports [OF ok] by auto
  then have "pool_free ?p = {}" by simp
  then show ?thesis using PlanIPAllocation_reports [OF ok] by auto
qed

end
