(* ===== verification/Go_Net.thy ===== *)
theory Go_Net
  imports Netip
begin

unbundle bit_operations_syntax

text \<open>
  Go's \<open>net\<close> and \<open>strconv\<close> helpers behind the OpenFlow client: hardware addresses
  (\<open>net.ParseMAC\<close>, \<open>HardwareAddr.String\<close>), host:port text (\<open>net.JoinHostPort\<close>,
  \<open>net.SplitHostPort\<close>) and \<open>strconv.Atoi\<close>. A failing parser is \<open>None\<close>; the SDK never looks at the
  text of these errors.
\<close>

section \<open>Hardware addresses\<close>

definition hex_digit :: "nat \<Rightarrow> char" where
  "hex_digit n = (if n < 10 then char_of (48 + n) else char_of (87 + n))"

definition byte_hex :: "byte \<Rightarrow> string" where
  "byte_hex b = [hex_digit (unat b div 16), hex_digit (unat b mod 16)]"

fun HardwareAddr_String :: "bytes \<Rightarrow> string" where
  "HardwareAddr_String [] = []"
| "HardwareAddr_String [b] = byte_hex b"
| "HardwareAddr_String (b # c # bs) = byte_hex b @ '':'' @ HardwareAddr_String (c # bs)"

text \<open>\<open>xtoi2\<close>: two hex digits, then the end of the text or the separator (\<open>None\<close> stands for the byte 0).\<close>

fun xtoi2 :: "string \<Rightarrow> char option \<Rightarrow> byte option" where
  "xtoi2 (a # b # rest) sep =
     (if rest \<noteq> [] \<and> Some (hd rest) \<noteq> sep \<and> \<not> (sep = None \<and> hd rest = CHR 0x00) then None
      else case (hex_val a, hex_val b) of
        (Some x, Some y) \<Rightarrow> Some (of_nat (16 * x + y))
      | _ \<Rightarrow> None)"
| "xtoi2 _ sep = None"

fun mac_pairs :: "nat \<Rightarrow> char \<Rightarrow> string \<Rightarrow> bytes option" where
  "mac_pairs 0 sep s = Some []"
| "mac_pairs (Suc n) sep s =
     (case xtoi2 s (Some sep) of None \<Rightarrow> None
      | Some b \<Rightarrow> map_option ((#) b) (mac_pairs n sep (drop 3 s)))"

fun mac_quads :: "nat \<Rightarrow> string \<Rightarrow> bytes option" where
  "mac_quads 0 s = Some []"
| "mac_quads (Suc n) s =
     (case (xtoi2 (take 2 s) None, xtoi2 (drop 2 s) (Some (CHR ''.''))) of
        (Some a, Some b) \<Rightarrow> map_option (\<lambda>r. a # b # r) (mac_quads n (drop 5 s))
      | _ \<Rightarrow> None)"

definition net_ParseMAC :: "string \<Rightarrow> bytes option" where
  "net_ParseMAC s =
     (if length s < 14 then None
      else if s ! 2 = CHR '':'' \<or> s ! 2 = CHR ''-'' then
        (if (length s + 1) mod 3 \<noteq> 0 then None
         else let n = (length s + 1) div 3 in
           if n \<notin> set [6, 8, 20] then None else mac_pairs n (s ! 2) s)
      else if s ! 4 = CHR ''.'' then
        (if (length s + 1) mod 5 \<noteq> 0 then None
         else let n = 2 * (length s + 1) div 5 in
           if n \<notin> set [6, 8, 20] then None else mac_quads (n div 2) s)
      else None)"

lemma hex_val_digit [simp]: "n < 16 \<Longrightarrow> hex_val (hex_digit n) = Some n"
  by (auto simp: hex_val_def hex_digit_def Let_def)

lemma hex_digit_not_sep [simp]: "n < 16 \<Longrightarrow> hex_digit n \<noteq> CHR '':''"
  using hex_val_digit [of n] by (auto simp: hex_val_def Let_def)

lemma xtoi2_byte_hex [simp]:
  "xtoi2 (byte_hex b) (Some c) = Some b" "xtoi2 (byte_hex b @ c # r) (Some c) = Some b"
proof -
  have "unat b div 16 < 16" using byte_lt [of b] by linarith
  moreover have "(of_nat (16 * (unat b div 16) + unat b mod 16) :: byte) = b"
    by (simp only: mult_div_mod_eq) simp
  ultimately show "xtoi2 (byte_hex b) (Some c) = Some b" "xtoi2 (byte_hex b @ c # r) (Some c) = Some b"
    by (simp_all add: byte_hex_def)
qed

lemma length_byte_hex [simp]: "length (byte_hex b) = 2"
  by (simp add: byte_hex_def)

lemma length_HardwareAddr: "bs \<noteq> [] \<Longrightarrow> length (HardwareAddr_String bs) + 1 = 3 * length bs"
  by (induction bs rule: HardwareAddr_String.induct) auto

lemma mac_pairs_String: "mac_pairs (length bs) (CHR '':'') (HardwareAddr_String bs) = Some bs"
  by (induction bs rule: HardwareAddr_String.induct) simp_all

text \<open>The two directions of the hardware address text.\<close>

lemma ParseMAC_String:
  assumes "length bs \<in> {6, 8, 20}"
  shows "net_ParseMAC (HardwareAddr_String bs) = Some bs"
proof -
  obtain b c r where bs: "bs = b # c # r" using assms by (cases bs rule: HardwareAddr_String.cases) auto
  have l: "length (HardwareAddr_String bs) + 1 = 3 * length bs"
    using bs by (intro length_HardwareAddr) simp
  moreover have "HardwareAddr_String bs ! 2 = CHR '':''" by (simp add: bs byte_hex_def)
  ultimately show ?thesis
    using assms mac_pairs_String [of bs] by (auto simp: net_ParseMAC_def Let_def)
qed

lemma mac_pairs_length: "mac_pairs n sep s = Some bs \<Longrightarrow> length bs = n"
  by (induction n arbitrary: s bs) (auto split: option.splits)

lemma mac_quads_length: "mac_quads n s = Some bs \<Longrightarrow> length bs = 2 * n"
  by (induction n arbitrary: s bs) (auto split: option.splits)

lemma ParseMAC_length: "net_ParseMAC s = Some bs \<Longrightarrow> length bs \<in> {6, 8, 20}"
  by (auto simp: net_ParseMAC_def Let_def split: if_splits dest!: mac_pairs_length mac_quads_length)

section \<open>Host and port\<close>

definition net_JoinHostPort :: "string \<Rightarrow> string \<Rightarrow> string" where
  "net_JoinHostPort host port =
     (if CHR '':'' \<in> set host then ''['' @ host @ '']:'' @ port else host @ '':'' @ port)"

text \<open>The text before and after the last colon, and the text before the first \<open>]\<close>.\<close>

definition last_colon :: "string \<Rightarrow> (string \<times> string) option" where
  "last_colon s = (if CHR '':'' \<in> set s
     then Some (rev (tl (dropWhile (\<lambda>c. c \<noteq> CHR '':'') (rev s))), rev (takeWhile (\<lambda>c. c \<noteq> CHR '':'') (rev s)))
     else None)"

definition net_SplitHostPort :: "string \<Rightarrow> (string \<times> string) option" where
  "net_SplitHostPort hostport =
     (case last_colon hostport of
        None \<Rightarrow> None
      | Some (before, port) \<Rightarrow>
          if strings_HasPrefix hostport ''['' then
            (if CHR '']'' \<notin> set hostport then None
             else let host = takeWhile (\<lambda>c. c \<noteq> CHR '']'') (tl hostport);
                      end' = length host + 1
               in if end' + 1 \<noteq> length before then None
                  else if CHR ''['' \<in> set (tl hostport) then None
                  else if CHR '']'' \<in> set (drop (end' + 1) hostport) then None
                  else Some (host, port))
          else if CHR '':'' \<in> set before then None
          else if CHR ''['' \<in> set hostport then None
          else if CHR '']'' \<in> set hostport then None
          else Some (before, port))"

section \<open>strconv.Atoi\<close>

definition strconv_Atoi :: "string \<Rightarrow> int option" where
  "strconv_Atoi s =
     (let neg = strings_HasPrefix s ''-'';
          ds = (if neg \<or> strings_HasPrefix s ''+'' then tl s else s);
          v = int (dec_value ds)
      in if ds = [] \<or> \<not> list_all is_digit ds then None
         else if neg then (if v \<le> 2 ^ 63 then Some (- v) else None)
         else if v < 2 ^ 63 then Some v else None)"

end
