(* ===== verification/Ownership.thy ===== *)
theory Ownership
  imports Util
begin

text \<open>
  \<^verbatim>\<open>src/ownership.go\<close>: owner references, labels, their encoding into the reserved
  \<open>external_ids\<close> keys of an OVSDB row, and the ownership test that guards every destructive
  operation. Label keys are encoded with the raw URL-safe base64 of the standard library,
  modelled here.
\<close>

section \<open>Raw URL-safe base64\<close>

definition b64_alphabet :: string where
  "b64_alphabet = ''ABCDEFGHIJKLMNOPQRSTUVWXYZabcdefghijklmnopqrstuvwxyz0123456789-_''"

definition b64_char :: "nat \<Rightarrow> char" where
  "b64_char n = b64_alphabet ! n"

definition b64_val :: "char \<Rightarrow> nat option" where
  "b64_val c = map_of (zip b64_alphabet [0..<64]) c"

fun b64_sextets :: "nat list \<Rightarrow> nat list" where
  "b64_sextets [] = []"
| "b64_sextets [a] = [a div 4, (a mod 4) * 16]"
| "b64_sextets [a, b] = [a div 4, (a mod 4) * 16 + b div 16, (b mod 16) * 4]"
| "b64_sextets (a # b # c # r) =
     [a div 4, (a mod 4) * 16 + b div 16, (b mod 16) * 4 + c div 64, c mod 64] @ b64_sextets r"

fun b64_octets :: "nat list \<Rightarrow> nat list option" where
  "b64_octets [] = Some []"
| "b64_octets [s] = None"
| "b64_octets [s, t] = Some [s * 4 + t div 16]"
| "b64_octets [s, t, u] = Some [s * 4 + t div 16, (t mod 16) * 16 + u div 4]"
| "b64_octets (s # t # u # v # r) =
     map_option (\<lambda>os. [s * 4 + t div 16, (t mod 16) * 16 + u div 4, (u mod 4) * 64 + v] @ os)
       (b64_octets r)"

definition base64_EncodeToString :: "string \<Rightarrow> string" where
  "base64_EncodeToString s = map b64_char (b64_sextets (map of_char s))"

text \<open>The decoder skips line breaks and refuses every other byte outside the alphabet.\<close>

definition base64_DecodeString :: "string \<Rightarrow> string option" where
  "base64_DecodeString s =
     (let ts = filter (\<lambda>c. c \<notin> {CHR 0x0A, CHR 0x0D}) s; vs = map b64_val ts in
      if None \<in> set vs then None
      else map_option (map char_of) (b64_octets (map the vs)))"

section \<open>Owners and labels\<close>

definition ExternalIDPrefix :: string where
  "ExternalIDPrefix = ''ovnflow.io/''"

definition ExternalIDManagedByKey :: string where
  "ExternalIDManagedByKey = ExternalIDPrefix @ ''managed-by''"

definition ExternalIDAPIVersionKey :: string where
  "ExternalIDAPIVersionKey = ExternalIDPrefix @ ''api-version''"

definition ExternalIDKindKey :: string where
  "ExternalIDKindKey = ExternalIDPrefix @ ''kind''"

definition ExternalIDNameKey :: string where
  "ExternalIDNameKey = ExternalIDPrefix @ ''name''"

definition ExternalIDOwnerKindKey :: string where
  "ExternalIDOwnerKindKey = ExternalIDPrefix @ ''owner-kind''"

definition ExternalIDOwnerNameKey :: string where
  "ExternalIDOwnerNameKey = ExternalIDPrefix @ ''owner-name''"

definition ExternalIDOwnerIDKey :: string where
  "ExternalIDOwnerIDKey = ExternalIDPrefix @ ''owner-id''"

definition ExternalIDLabelPrefix :: string where
  "ExternalIDLabelPrefix = ExternalIDPrefix @ ''label/''"

lemmas external_id_keys =
  ExternalIDPrefix_def ExternalIDManagedByKey_def ExternalIDAPIVersionKey_def
  ExternalIDKindKey_def ExternalIDNameKey_def ExternalIDOwnerKindKey_def
  ExternalIDOwnerNameKey_def ExternalIDOwnerIDKey_def ExternalIDLabelPrefix_def

record OwnerRef =
  owner_Kind :: string
  owner_Name :: string
  owner_ID :: string

type_synonym Labels = string_map

definition OwnerRef_Validate :: "OwnerRef \<Rightarrow> check" where
  "OwnerRef_Validate o' =
     (if blank (owner_Kind o')
      then Some (wrap_err ErrorValidation [] [] ''validate'' ''owner'' ''owner kind must not be empty'' None)
      else if blank (owner_Name o') \<and> blank (owner_ID o')
      then Some (wrap_err ErrorValidation [] [] ''validate'' ''owner'' ''owner name or id is required'' None)
      else None)"

definition Labels_Validate :: "Labels \<Rightarrow> check" where
  "Labels_Validate l =
     check_all (\<lambda>key. if blank key
       then Some (wrap_err ErrorValidation [] [] ''validate'' ''labels'' ''label key must not be empty'' None)
       else None) (range_keys l)"

definition ExternalIDLabelKey :: "string \<Rightarrow> string" where
  "ExternalIDLabelKey labelKey = ExternalIDLabelPrefix @ base64_EncodeToString labelKey"

definition DecodeExternalIDLabelKey :: "string \<Rightarrow> string option" where
  "DecodeExternalIDLabelKey externalIDKey =
     (if \<not> strings_HasPrefix externalIDKey ExternalIDLabelPrefix then None
      else base64_DecodeString (strings_TrimPrefix externalIDKey ExternalIDLabelPrefix))"

definition IsReservedExternalIDKey :: "string \<Rightarrow> bool" where
  "IsReservedExternalIDKey key \<longleftrightarrow> strings_HasPrefix key ExternalIDPrefix"

definition owner_ids :: "OwnerRef \<Rightarrow> string_map" where
  "owner_ids o' =
     (let out = fmupd ExternalIDOwnerKindKey (owner_Kind o')
                  (fmupd ExternalIDAPIVersionKey ''v2'' (fmupd ExternalIDManagedByKey ''ovnflow'' fmempty));
          out = (if owner_Name o' \<noteq> [] then fmupd ExternalIDOwnerNameKey (owner_Name o') out else out)
      in if owner_ID o' \<noteq> [] then fmupd ExternalIDOwnerIDKey (owner_ID o') out else out)"

definition ExternalIDs :: "OwnerRef \<Rightarrow> Labels \<Rightarrow> string_map res" where
  "ExternalIDs o' labels =
     guard_res (OwnerRef_Validate o')
       (guard_res (Labels_Validate labels)
         (Inr (foldl (\<lambda>out key. fmupd (ExternalIDLabelKey key) (the (fmlookup labels key)) out)
            (owner_ids o') (range_keys labels))))"

definition OwnershipMatches :: "string_map \<Rightarrow> OwnerRef \<Rightarrow> bool" where
  "OwnershipMatches externalIDs owner \<longleftrightarrow>
     OwnerRef_Validate owner = None
     \<and> go_get externalIDs ExternalIDOwnerKindKey = owner_Kind owner
     \<and> (owner_Name owner \<noteq> [] \<longrightarrow> go_get externalIDs ExternalIDOwnerNameKey = owner_Name owner)
     \<and> (owner_ID owner \<noteq> [] \<longrightarrow> go_get externalIDs ExternalIDOwnerIDKey = owner_ID owner)"

section \<open>Lemmas\<close>

lemma b64_table: "list_all (\<lambda>n. b64_val (b64_char n) = Some n \<and> b64_char n \<notin> {CHR 0x0A, CHR 0x0D}) [0..<64]"
  by code_simp

lemma b64_val_char: "n < 64 \<Longrightarrow> b64_val (b64_char n) = Some n"
  and b64_char_no_break: "n < 64 \<Longrightarrow> b64_char n \<notin> {CHR 0x0A, CHR 0x0D}"
  using b64_table by (auto simp: list_all_iff)

lemma b64_sextets_bound: "(\<forall>x\<in>set os. x < 256) \<Longrightarrow> s \<in> set (b64_sextets os) \<Longrightarrow> s < 64"
  by (induction os rule: b64_sextets.induct) (auto; linarith)+

lemma b64_octets_sextets: "(\<forall>x\<in>set os. x < 256) \<Longrightarrow> b64_octets (b64_sextets os) = Some os"
proof (induction os rule: b64_sextets.induct)
  case (4 a b c r)
  have "((a mod 4) * 16 + b div 16) div 16 = a mod 4" "((b mod 16) * 4 + c div 64) div 4 = b mod 16"
    "((b mod 16) * 4 + c div 64) mod 4 = c div 64" "((a mod 4) * 16 + b div 16) mod 16 = b div 16"
    using 4(2) by auto
  then show ?case using 4 by simp
qed auto

lemma of_char_bound: "x \<in> set (map of_char s) \<Longrightarrow> x < (256::nat)"
  by auto

lemma base64_roundtrip: "base64_DecodeString (base64_EncodeToString s) = Some s"
proof -
  let ?ss = "b64_sextets (map of_char s :: nat list)"
  have b: "t \<in> set ?ss \<Longrightarrow> t < 64" for t
    using b64_sextets_bound of_char_bound by blast
  have fil: "filter (\<lambda>c. c \<notin> {CHR 0x0A, CHR 0x0D}) (map b64_char ?ss) = map b64_char ?ss"
    by (rule filter_True) (use b b64_char_no_break in auto)
  have vals: "map b64_val (map b64_char ?ss) = map Some ?ss"
    using b b64_val_char by simp
  have "map char_of (map of_char s :: nat list) = s"
    by (simp add: comp_def)
  then show ?thesis
    unfolding base64_DecodeString_def base64_EncodeToString_def Let_def fil vals
    using b64_octets_sextets [of "map of_char s"] by (auto simp: comp_def)
qed

lemma DecodeExternalIDLabelKey_encode: "DecodeExternalIDLabelKey (ExternalIDLabelKey k) = Some k"
  by (simp add: DecodeExternalIDLabelKey_def ExternalIDLabelKey_def base64_roundtrip)

lemma ExternalIDLabelKey_inj: "ExternalIDLabelKey k = ExternalIDLabelKey k' \<longleftrightarrow> k = k'"
  by (metis DecodeExternalIDLabelKey_encode option.inject)

lemma Labels_Validate_None: "Labels_Validate l = None \<longleftrightarrow> (\<forall>k\<in>fmdom' l. \<not> blank k)"
  by (auto simp: Labels_Validate_def check_all_None)

lemma owner_ids_lookup:
  "fmlookup (owner_ids o') k =
     (if k = ExternalIDOwnerIDKey \<and> owner_ID o' \<noteq> [] then Some (owner_ID o')
      else if k = ExternalIDOwnerNameKey \<and> owner_Name o' \<noteq> [] then Some (owner_Name o')
      else if k = ExternalIDOwnerKindKey then Some (owner_Kind o')
      else if k = ExternalIDAPIVersionKey then Some ''v2''
      else if k = ExternalIDManagedByKey then Some ''ovnflow''
      else None)"
  by (auto simp: owner_ids_def Let_def external_id_keys)

text \<open>The five owner keys are reserved and none of them is the key of a label.\<close>

lemma owner_key_not_label:
  "ExternalIDLabelKey k \<notin> {ExternalIDOwnerIDKey, ExternalIDOwnerNameKey, ExternalIDOwnerKindKey,
     ExternalIDAPIVersionKey, ExternalIDManagedByKey}"
  by (simp add: ExternalIDLabelKey_def external_id_keys)

lemma foldl_label_lookup:
  "fmlookup (foldl (\<lambda>out key. fmupd (ExternalIDLabelKey key) (f key) out) base ks)
     (ExternalIDLabelKey k) = (if k \<in> set ks then Some (f k) else fmlookup base (ExternalIDLabelKey k))"
  by (induction ks arbitrary: base) (auto simp: ExternalIDLabelKey_inj)

lemma foldl_label_other:
  "x \<notin> range ExternalIDLabelKey \<Longrightarrow>
   fmlookup (foldl (\<lambda>out key. fmupd (ExternalIDLabelKey key) (f key) out) base ks) x = fmlookup base x"
  by (induction ks arbitrary: base) auto

lemma ExternalIDs_Inr:
  "ExternalIDs o' labels = Inr m \<Longrightarrow>
     OwnerRef_Validate o' = None \<and> Labels_Validate labels = None \<and>
     m = foldl (\<lambda>out key. fmupd (ExternalIDLabelKey key) (the (fmlookup labels key)) out)
           (owner_ids o') (range_keys labels)"
  by (auto simp: ExternalIDs_def guard_res_Inr)

lemma ExternalIDs_label:
  assumes "ExternalIDs o' labels = Inr m"
  shows "fmlookup m (ExternalIDLabelKey k) = fmlookup labels k"
proof -
  have "fmlookup (owner_ids o') (ExternalIDLabelKey k) = None"
    using owner_key_not_label [of k] by (simp add: owner_ids_lookup)
  then show ?thesis
    using ExternalIDs_Inr [OF assms] by (auto simp: foldl_label_lookup fmlookup_dom'_iff)
qed

lemma ExternalIDs_other:
  assumes "ExternalIDs o' labels = Inr m" and "x \<notin> range ExternalIDLabelKey"
  shows "fmlookup m x = fmlookup (owner_ids o') x"
  using ExternalIDs_Inr [OF assms(1)] assms(2) by (simp add: foldl_label_other)

lemma ExternalIDs_owner_keys:
  assumes "ExternalIDs o' labels = Inr m"
    and "k \<in> {ExternalIDOwnerIDKey, ExternalIDOwnerNameKey, ExternalIDOwnerKindKey}"
  shows "fmlookup m k = fmlookup (owner_ids o') k"
  by (rule ExternalIDs_other [OF assms(1)]) (use assms(2) owner_key_not_label in blast)

lemma ExternalIDs_go_get:
  assumes "ExternalIDs o' labels = Inr m"
  shows "go_get m ExternalIDOwnerKindKey = owner_Kind o'"
    "go_get m ExternalIDOwnerNameKey = owner_Name o'"
    "go_get m ExternalIDOwnerIDKey = owner_ID o'"
  by (simp_all add: go_get_def ExternalIDs_owner_keys [OF assms] owner_ids_lookup external_id_keys)

lemma ExternalIDs_match:
  assumes "ExternalIDs o' labels = Inr m"
  shows "OwnershipMatches m o'"
  using ExternalIDs_Inr [OF assms, THEN conjunct1]
  by (simp add: OwnershipMatches_def ExternalIDs_go_get [OF assms])

section \<open>Properties\<close>

text \<open>The external ids built for an owner and its labels are recognised by the ownership test as
  belonging to that owner, give every label back under its encoded key, and use reserved keys only.\<close>

theorem ExternalIDs_sound:
  assumes "ExternalIDs o' labels = Inr m"
  shows "OwnershipMatches m o' \<and> (\<forall>k. fmlookup m (ExternalIDLabelKey k) = fmlookup labels k)
    \<and> (\<forall>k. k \<in> fmdom' m \<longrightarrow> IsReservedExternalIDKey k)"
proof (intro conjI allI impI)
  show "OwnershipMatches m o'"
    by (rule ExternalIDs_match [OF assms])
  fix k
  show "fmlookup m (ExternalIDLabelKey k) = fmlookup labels k"
    by (rule ExternalIDs_label [OF assms])
  assume k: "k \<in> fmdom' m"
  show "IsReservedExternalIDKey k"
  proof (cases "k \<in> range ExternalIDLabelKey")
    case True
    then show ?thesis
      by (auto simp: IsReservedExternalIDKey_def strings_HasPrefix_iff ExternalIDLabelKey_def
          ExternalIDLabelPrefix_def)
  next
    case False
    with k have "fmlookup (owner_ids o') k \<noteq> None"
      by (auto simp: fmlookup_dom'_iff ExternalIDs_other [OF assms])
    then show ?thesis
      by (auto simp: owner_ids_lookup IsReservedExternalIDKey_def external_id_keys
          strings_HasPrefix_def split: if_splits)
  qed
qed

definition example_owner :: OwnerRef where
  "example_owner = \<lparr>owner_Kind = ''project'', owner_Name = ''alpha'', owner_ID = []\<rparr>"

definition example_labels :: Labels where
  "example_labels = fmupd ''env'' ''prod'' fmempty"

lemma example_owner_ids: "\<exists>m. ExternalIDs example_owner example_labels = Inr m"
proof -
  have "\<not> blank ''project''" "\<not> blank ''alpha''" "\<not> blank ''env''"
    by (rule not_blank_plain [of "CHR ''p''"] not_blank_plain [of "CHR ''a''"]
        not_blank_plain [of "CHR ''e''"]; simp add: plain_byte_def)+
  then have "OwnerRef_Validate example_owner = None" "Labels_Validate example_labels = None"
    by (simp_all add: OwnerRef_Validate_def Labels_Validate_None example_owner_def example_labels_def)
  then show ?thesis by (simp add: ExternalIDs_def)
qed

theorem ExternalIDs_sound_witness:
  "\<exists>m. ExternalIDs example_owner example_labels = Inr m \<and> OwnershipMatches m example_owner
     \<and> fmlookup m (ExternalIDLabelKey ''env'') = Some ''prod''"
  using example_owner_ids ExternalIDs_sound [of example_owner example_labels]
  by (auto simp: example_labels_def)

text \<open>Rows written for one owner are never taken for another's: whoever passes the ownership test
  on them names the same kind, and the same name and id wherever it gives one.\<close>

theorem OwnershipMatches_exclusive:
  assumes "ExternalIDs o' labels = Inr m" and "OwnershipMatches m p"
  shows "owner_Kind p = owner_Kind o' \<and> owner_Name p \<in> {[], owner_Name o'}
    \<and> owner_ID p \<in> {[], owner_ID o'}"
  using assms(2) by (auto simp: OwnershipMatches_def ExternalIDs_go_get [OF assms(1)])

theorem OwnershipMatches_exclusive_witness:
  "\<exists>m. ExternalIDs example_owner example_labels = Inr m \<and> OwnershipMatches m example_owner
     \<and> owner_Name example_owner \<in> {[], ''alpha''}"
proof -
  obtain m where m: "ExternalIDs example_owner example_labels = Inr m"
    using example_owner_ids by blast
  have "OwnershipMatches m example_owner"
    by (rule ExternalIDs_match [OF m])
  with m OwnershipMatches_exclusive [OF m this] show ?thesis
    by (auto simp: example_owner_def)
qed

text \<open>Encoding a label key as an external id and decoding it again gives the key back, whatever
  its bytes, so two labels never share a key.\<close>

theorem label_key_roundtrip:
  "DecodeExternalIDLabelKey (ExternalIDLabelKey k) = Some k
   \<and> (ExternalIDLabelKey k = ExternalIDLabelKey k' \<longleftrightarrow> k = k')"
  by (simp add: DecodeExternalIDLabelKey_encode ExternalIDLabelKey_inj)

end
