(* ===== verification/Openflow_Protocol.thy ===== *)
theory Openflow_Protocol
  imports Go_Net Ownership
begin

unbundle bit_operations_syntax

text \<open>
  \<^verbatim>\<open>src/openflow_protocol.go\<close>: the OpenFlow 1.3/1.5 wire format. Integers keep their width, a byte
  buffer is a list of bytes, a pointer field is an option, a MAC or CIDR is text as in the
  source. An \<open>io.Reader\<close> is the list of bytes still to come; reading returns the rest.
\<close>

section \<open>Constants and data\<close>

definition OpenFlow13 :: u8 where "OpenFlow13 = 0x04"
definition OpenFlow15 :: u8 where "OpenFlow15 = 0x06"

definition openFlowTypeHello :: u8 where "openFlowTypeHello = 0"
definition openFlowTypeError :: u8 where "openFlowTypeError = 1"
definition openFlowTypeFeaturesRequest :: u8 where "openFlowTypeFeaturesRequest = 5"
definition openFlowTypeFeaturesReply :: u8 where "openFlowTypeFeaturesReply = 6"
definition openFlowTypeFlowMod :: u8 where "openFlowTypeFlowMod = 14"
definition openFlowTypeMultipartRequest :: u8 where "openFlowTypeMultipartRequest = 18"
definition openFlowTypeMultipartReply :: u8 where "openFlowTypeMultipartReply = 19"
definition openFlowHeaderLen :: nat where "openFlowHeaderLen = 8"

definition openFlowOXMClassBasic :: u16 where "openFlowOXMClassBasic = 0x8000"
definition openFlowMatchOXM :: u16 where "openFlowMatchOXM = 1"

definition openFlowInstructionGotoTable :: u16 where "openFlowInstructionGotoTable = 1"
definition openFlowInstructionWriteMetadata :: u16 where "openFlowInstructionWriteMetadata = 2"
definition openFlowInstructionApplyActions :: u16 where "openFlowInstructionApplyActions = 4"
definition openFlowInstructionClearActions :: u16 where "openFlowInstructionClearActions = 5"

definition openFlowActionOutput :: u16 where "openFlowActionOutput = 0"
definition openFlowActionSetField :: u16 where "openFlowActionSetField = 25"
definition openFlowMultipartFlow :: u16 where "openFlowMultipartFlow = 1"

definition openFlowFlowCommandAdd :: u8 where "openFlowFlowCommandAdd = 0"
definition openFlowFlowCommandModifyStrict :: u8 where "openFlowFlowCommandModifyStrict = 2"
definition openFlowFlowCommandDelete :: u8 where "openFlowFlowCommandDelete = 3"

definition OpenFlowPortAny :: u32 where "OpenFlowPortAny = 0xffffffff"
definition OpenFlowGroupAny :: u32 where "OpenFlowGroupAny = 0xffffffff"

definition openFlowOFBInPort :: u8 where "openFlowOFBInPort = 0"
definition openFlowOFBMetadata :: u8 where "openFlowOFBMetadata = 2"
definition openFlowOFBEthDst :: u8 where "openFlowOFBEthDst = 3"
definition openFlowOFBEthSrc :: u8 where "openFlowOFBEthSrc = 4"
definition openFlowOFBEthType :: u8 where "openFlowOFBEthType = 5"
definition openFlowOFBVLANVID :: u8 where "openFlowOFBVLANVID = 6"
definition openFlowOFBIPProto :: u8 where "openFlowOFBIPProto = 10"
definition openFlowOFBIPv4Src :: u8 where "openFlowOFBIPv4Src = 11"
definition openFlowOFBIPv4Dst :: u8 where "openFlowOFBIPv4Dst = 12"
definition openFlowOFBTCPSrc :: u8 where "openFlowOFBTCPSrc = 13"
definition openFlowOFBTCPDst :: u8 where "openFlowOFBTCPDst = 14"
definition openFlowOFBUDPSrc :: u8 where "openFlowOFBUDPSrc = 15"
definition openFlowOFBUDPDst :: u8 where "openFlowOFBUDPDst = 16"

lemmas oxm_field_defs =
  openFlowOFBInPort_def openFlowOFBMetadata_def openFlowOFBEthDst_def openFlowOFBEthSrc_def
  openFlowOFBEthType_def openFlowOFBVLANVID_def openFlowOFBIPProto_def openFlowOFBIPv4Src_def
  openFlowOFBIPv4Dst_def openFlowOFBTCPSrc_def openFlowOFBTCPDst_def openFlowOFBUDPSrc_def
  openFlowOFBUDPDst_def

record OpenFlowMessage =
  msg_Version :: u8
  msg_Type :: u8
  msg_XID :: u32
  msg_Body :: bytes

record OpenFlowFeatures =
  feat_Version :: u8
  feat_XID :: u32
  feat_DatapathID :: u64
  feat_Buffers :: u32
  feat_Tables :: u8
  feat_AuxiliaryID :: u8
  feat_Capabilities :: u32

record OpenFlowProtocolError =
  perr_Version :: u8
  perr_XID :: u32
  perr_Type :: u16
  perr_Code :: u16
  perr_Data :: bytes

text \<open>An action's type is text in the source; only two values are understood.\<close>

definition OpenFlowActionOutput :: string where "OpenFlowActionOutput = ''output''"
definition OpenFlowActionSetField :: string where "OpenFlowActionSetField = ''set_field''"

record OpenFlowAction =
  act_Type :: string
  act_Port :: u32
  act_Field :: string
  act_Value :: string

record OpenFlowMetadata =
  md_Value :: u64
  md_Mask :: u64

record OpenFlowInstruction =
  ins_GotoTable :: "u8 option"
  ins_ClearActions :: bool
  ins_WriteMetadata :: "OpenFlowMetadata option"
  ins_Actions :: "OpenFlowAction list"

record OpenFlowMatch =
  m_InPort :: "u32 option"
  m_Metadata :: "OpenFlowMetadata option"
  m_EthSrc :: string
  m_EthDst :: string
  m_EthType :: "u16 option"
  m_VLANVID :: "u16 option"
  m_IPProto :: "u8 option"
  m_IPv4Src :: string
  m_IPv4Dst :: string
  m_TCPSrc :: "u16 option"
  m_TCPDst :: "u16 option"
  m_UDPSrc :: "u16 option"
  m_UDPDst :: "u16 option"

definition empty_match :: OpenFlowMatch where
  "empty_match = \<lparr>m_InPort = None, m_Metadata = None, m_EthSrc = [], m_EthDst = [], m_EthType = None,
     m_VLANVID = None, m_IPProto = None, m_IPv4Src = [], m_IPv4Dst = [], m_TCPSrc = None,
     m_TCPDst = None, m_UDPSrc = None, m_UDPDst = None\<rparr>"

record OpenFlowFlow =
  flow_Name :: string
  flow_Bridge :: string
  flow_Cookie :: u64
  flow_CookieMask :: u64
  flow_TableID :: u8
  flow_Priority :: u16
  flow_IdleTimeout :: u16
  flow_HardTimeout :: u16
  flow_Importance :: u16
  flow_Match :: OpenFlowMatch
  flow_Instructions :: "OpenFlowInstruction list"
  flow_Actions :: "OpenFlowAction list"
  flow_Owner :: OwnerRef
  flow_Labels :: Labels

record OpenFlowFlowStatsRequest =
  fsr_TableID :: "u8 option"
  fsr_OutPort :: u32
  fsr_OutGroup :: u32
  fsr_Cookie :: u64
  fsr_CookieMask :: u64
  fsr_Match :: OpenFlowMatch

definition of_err :: "ErrorKind \<Rightarrow> string \<Rightarrow> string \<Rightarrow> string \<Rightarrow> go_error" where
  "of_err kind oper object message = wrap_err kind [] [] oper object message None"

definition ProtocolError_text :: "OpenFlowProtocolError \<Rightarrow> string" where
  "ProtocolError_text e = ''openflow error type='' @ nat_dec (unat (perr_Type e)) @
     '' code='' @ nat_dec (unat (perr_Code e)) @ '' xid='' @ nat_dec (unat (perr_XID e))"

section \<open>Messages\<close>

definition validateOpenFlowVersion :: "u8 \<Rightarrow> check" where
  "validateOpenFlowVersion version =
     (if version = OpenFlow13 \<or> version = OpenFlow15 then None
      else Some (of_err ErrorUnsupported ''validate'' ''openflow-version'' ''unsupported OpenFlow version''))"

definition MarshalOpenFlowMessage :: "OpenFlowMessage \<Rightarrow> bytes res" where
  "MarshalOpenFlowMessage msg =
     guard_res (validateOpenFlowVersion (msg_Version msg))
     (let length' = openFlowHeaderLen + length (msg_Body msg) in
      if length' > 0xffff then Inl (of_err ErrorValidation ''marshal'' ''openflow'' ''message is too large'')
      else Inr ([msg_Version msg, msg_Type msg] @ put_be16 (of_nat length') @ put_be32 (msg_XID msg)
        @ msg_Body msg))"

definition ParseOpenFlowMessage :: "bytes \<Rightarrow> OpenFlowMessage res" where
  "ParseOpenFlowMessage data =
     (if length data < openFlowHeaderLen
      then Inl (of_err ErrorValidation ''parse'' ''openflow'' ''short OpenFlow header'')
      else let version = data ! 0 in
        guard_res (validateOpenFlowVersion version)
        (let length' = unat (get_be16 (slice 2 4 data)) in
         if length' < openFlowHeaderLen
         then Inl (of_err ErrorValidation ''parse'' ''openflow'' ''invalid OpenFlow message length'')
         else if length' > length data
         then Inl (of_err ErrorValidation ''parse'' ''openflow'' ''truncated OpenFlow message'')
         else Inr \<lparr>msg_Version = version, msg_Type = data ! 1, msg_XID = get_be32 (slice 4 8 data),
                   msg_Body = slice 8 length' data\<rparr>))"

text \<open>
  \<open>io.ReadFull\<close>: the bytes read and the rest of the stream; a stream that ends first is
  consumed and gives \<open>io.EOF\<close> (nothing read) or \<open>io.ErrUnexpectedEOF\<close>.
\<close>

definition io_ReadFull :: "nat \<Rightarrow> bytes \<Rightarrow> bytes res \<times> bytes" where
  "io_ReadFull n r =
     (if n \<le> length r then (Inr (take n r), drop n r)
      else (Inl (ForeignError (if r = [] then ''EOF'' else ''unexpected EOF'')), []))"

definition ReadOpenFlowMessage :: "bytes \<Rightarrow> OpenFlowMessage res \<times> bytes" where
  "ReadOpenFlowMessage r =
     (case io_ReadFull openFlowHeaderLen r of
        (Inl e, r) \<Rightarrow> (Inl e, r)
      | (Inr header, r) \<Rightarrow>
          let length' = unat (get_be16 (slice 2 4 header)) in
          if length' < openFlowHeaderLen
          then (Inl (of_err ErrorValidation ''read'' ''openflow'' ''invalid OpenFlow message length''), r)
          else (case io_ReadFull (length' - 8) r of
              (Inl e, r) \<Rightarrow> (Inl e, r)
            | (Inr rest, r) \<Rightarrow> (ParseOpenFlowMessage (header @ rest), r)))"

text \<open>
  An \<open>io.Writer\<close> is its \<open>Write\<close> method: it takes the bytes and the writer's state, and gives the
  error, if any, and the state after it. A \<open>bytes.Buffer\<close> is a writer that never fails.
\<close>

type_synonym 'w io_Writer = "bytes \<Rightarrow> 'w \<Rightarrow> check \<times> 'w"

definition buffer_Write :: "bytes io_Writer" where
  "buffer_Write data buf = (None, buf @ data)"

definition WriteOpenFlowMessage :: "'w io_Writer \<Rightarrow> OpenFlowMessage \<Rightarrow> 'w \<Rightarrow> check \<times> 'w" where
  "WriteOpenFlowMessage io msg w =
     (case MarshalOpenFlowMessage msg of
        Inl e \<Rightarrow> (Some e, w)
      | Inr data \<Rightarrow> io data w)"

definition hello_bit :: "u32 \<Rightarrow> u8 \<Rightarrow> u32 res" where
  "hello_bit bitmap v = guard_res (validateOpenFlowVersion v)
     (Inr (if v < 32 then bitmap OR push_bit (unat v) 1 else bitmap))"

definition OpenFlowHelloMessage :: "u8 \<Rightarrow> u32 \<Rightarrow> u8 list \<Rightarrow> OpenFlowMessage res" where
  "OpenFlowHelloMessage version xid versions =
     guard_res (validateOpenFlowVersion version)
     (if versions = [] then Inr \<lparr>msg_Version = version, msg_Type = openFlowTypeHello, msg_XID = xid, msg_Body = []\<rparr>
      else res_bind (res_fold hello_bit 0 versions) (\<lambda>bitmap.
        Inr \<lparr>msg_Version = version, msg_Type = openFlowTypeHello, msg_XID = xid,
             msg_Body = put_be16 1 @ put_be16 8 @ put_be32 bitmap\<rparr>))"

definition OpenFlowFeaturesRequest :: "u8 \<Rightarrow> u32 \<Rightarrow> OpenFlowMessage res" where
  "OpenFlowFeaturesRequest version xid =
     guard_res (validateOpenFlowVersion version)
     (Inr \<lparr>msg_Version = version, msg_Type = openFlowTypeFeaturesRequest, msg_XID = xid, msg_Body = []\<rparr>)"

definition ParseOpenFlowFeatures :: "OpenFlowMessage \<Rightarrow> OpenFlowFeatures res" where
  "ParseOpenFlowFeatures msg =
     (if msg_Type msg \<noteq> openFlowTypeFeaturesReply
      then Inl (of_err ErrorValidation ''parse'' ''features'' ''message is not a features reply'')
      else if length (msg_Body msg) < 24
      then Inl (of_err ErrorValidation ''parse'' ''features'' ''short features reply'')
      else let b = msg_Body msg in
        Inr \<lparr>feat_Version = msg_Version msg, feat_XID = msg_XID msg,
             feat_DatapathID = get_be64 (slice 0 8 b), feat_Buffers = get_be32 (slice 8 12 b),
             feat_Tables = b ! 12, feat_AuxiliaryID = b ! 13, feat_Capabilities = get_be32 (slice 16 20 b)\<rparr>)"

definition ParseOpenFlowProtocolError :: "OpenFlowMessage \<Rightarrow> OpenFlowProtocolError res" where
  "ParseOpenFlowProtocolError msg =
     (if msg_Type msg \<noteq> openFlowTypeError
      then Inl (of_err ErrorValidation ''parse'' ''error'' ''message is not an error'')
      else if length (msg_Body msg) < 4
      then Inl (of_err ErrorValidation ''parse'' ''error'' ''short OpenFlow error'')
      else let b = msg_Body msg in
        Inr \<lparr>perr_Version = msg_Version msg, perr_XID = msg_XID msg, perr_Type = get_be16 (slice 0 2 b),
             perr_Code = get_be16 (slice 2 4 b), perr_Data = drop 4 b\<rparr>)"

definition ParseOpenFlowMultipartReply :: "OpenFlowMessage \<Rightarrow> (u16 \<times> u16 \<times> bytes) res" where
  "ParseOpenFlowMultipartReply msg =
     (if msg_Type msg \<noteq> openFlowTypeMultipartReply
      then Inl (of_err ErrorValidation ''parse'' ''multipart'' ''message is not a multipart reply'')
      else if length (msg_Body msg) < 8
      then Inl (of_err ErrorValidation ''parse'' ''multipart'' ''short multipart reply'')
      else let b = msg_Body msg in
        Inr (get_be16 (slice 0 2 b), get_be16 (slice 2 4 b), drop 8 b))"

section \<open>Versions\<close>

definition highestOpenFlowVersion :: "u8 list \<Rightarrow> u8" where
  "highestOpenFlowVersion versions =
     (case versions of [] \<Rightarrow> OpenFlow15
      | v # vs \<Rightarrow> foldl (\<lambda>out version. if version > out then version else out) v vs)"

definition add_version :: "u8 list \<Rightarrow> u8 \<Rightarrow> u8 list res" where
  "add_version out version =
     guard_res (validateOpenFlowVersion version)
     (Inr (if version \<in> set out then out else out @ [version]))"

definition normalizeOpenFlowVersions :: "u8 list \<Rightarrow> u8 list res" where
  "normalizeOpenFlowVersions versions =
     (let versions = (if versions = [] then [OpenFlow15, OpenFlow13] else versions) in
      res_bind (res_fold add_version [] versions) (\<lambda>out. Inr (rev (sort out))))"

section \<open>Padding\<close>

function padTo :: "bytes \<Rightarrow> nat \<Rightarrow> bytes" where
  "padTo buf alignment =
     (if alignment = 0 then buf
      else if length buf mod alignment \<noteq> 0 then padTo (buf @ [0]) alignment
      else buf)"
  by pat_completeness auto
termination
  by (relation "measure (\<lambda>(buf, alignment). (alignment - length buf mod alignment) mod alignment)")
    (auto simp: mod_Suc intro!: diff_less_mono2 mod_less_divisor)

declare padTo.simps [simp del]

definition alignOpenFlowLength :: "nat \<Rightarrow> nat \<Rightarrow> nat" where
  "alignOpenFlowLength length' alignment =
     (if alignment = 0 then length'
      else if length' mod alignment \<noteq> 0 then length' + (alignment - length' mod alignment)
      else length')"

section \<open>Matches\<close>

definition marshalOXM :: "u8 \<Rightarrow> bool \<Rightarrow> bytes \<Rightarrow> bytes \<Rightarrow> bytes" where
  "marshalOXM field masked value msk =
     (let length' = (if masked then length value + length msk else length value) in
      put_be16 openFlowOXMClassBasic
      @ [if masked then push_bit 1 field OR 1 else push_bit 1 field, of_nat length']
      @ value @ (if masked then msk else []))"

definition parseOpenFlowIPv4Prefix :: "string \<Rightarrow> prefix4 res" where
  "parseOpenFlowIPv4Prefix raw =
     (case netip_ParsePrefix raw of
        Some (NetPrefix (Addr4 w) n) \<Rightarrow> Inr (prefix4_Masked \<lparr>pfx_Addr = w, pfx_Bits = n\<rparr>)
      | Some (NetPrefix (Addr6 gs zone) n) \<Rightarrow>
          Inl (of_err ErrorUnsupported ''parse'' raw ''only IPv4 OpenFlow matches are supported'')
      | None \<Rightarrow>
          (case netip_ParseAddr raw of
             None \<Rightarrow> Inl (wrap_err ErrorValidation [] [] ''parse'' raw ''invalid IPv4 address or CIDR''
                      (Some (ForeignError ''netip.ParseAddr'')))
           | Some (Addr6 gs zone) \<Rightarrow>
               Inl (of_err ErrorUnsupported ''parse'' raw ''only IPv4 OpenFlow matches are supported'')
           | Some (Addr4 w) \<Rightarrow> Inr \<lparr>pfx_Addr = w, pfx_Bits = 32\<rparr>))"

text \<open>The loop \<open>mask[i/8] |= 1 << (7 - i%8)\<close>.\<close>

definition ipv4_mask :: "nat \<Rightarrow> bytes" where
  "ipv4_mask bits = fold (\<lambda>i msk. msk[i div 8 := msk ! (i div 8) OR push_bit (7 - i mod 8) 1])
     [0..<bits] [0, 0, 0, 0]"

definition ipv4OXM :: "string \<Rightarrow> (bytes \<times> bytes \<times> bool) res" where
  "ipv4OXM raw =
     res_bind (parseOpenFlowIPv4Prefix raw) (\<lambda>prefix.
       if pfx_Bits prefix = 32 then Inr (put_be32 (pfx_Addr prefix), [], False)
       else Inr (put_be32 (pfx_Addr prefix), ipv4_mask (pfx_Bits prefix), True))"

text \<open>The \<open>if\<close> blocks of \<open>marshalOpenFlowMatch\<close>, by the kind of field they write.\<close>

definition u32_oxm :: "u8 \<Rightarrow> u32 option \<Rightarrow> bytes res" where
  "u32_oxm field v = (case v of None \<Rightarrow> Inr [] | Some x \<Rightarrow> Inr (marshalOXM field False (put_be32 x) []))"

definition u16_oxm :: "u8 \<Rightarrow> u16 option \<Rightarrow> bytes res" where
  "u16_oxm field v = (case v of None \<Rightarrow> Inr [] | Some x \<Rightarrow> Inr (marshalOXM field False (put_be16 x) []))"

definition u8_oxm :: "u8 \<Rightarrow> u8 option \<Rightarrow> bytes res" where
  "u8_oxm field v = (case v of None \<Rightarrow> Inr [] | Some x \<Rightarrow> Inr (marshalOXM field False [x] []))"

definition metadata_oxm :: "OpenFlowMetadata option \<Rightarrow> bytes res" where
  "metadata_oxm v = (case v of None \<Rightarrow> Inr []
     | Some md \<Rightarrow> Inr (marshalOXM openFlowOFBMetadata True (put_be64 (md_Value md)) (put_be64 (md_Mask md))))"

definition mac_oxm :: "u8 \<Rightarrow> string \<Rightarrow> string \<Rightarrow> bytes res" where
  "mac_oxm field label v =
     (if v = [] then Inr []
      else case net_ParseMAC v of
        None \<Rightarrow> Inl (wrap_err ErrorValidation [] [] ''marshal'' label ''invalid MAC address''
                 (Some (ForeignError ''net.ParseMAC'')))
      | Some mac \<Rightarrow> Inr (marshalOXM field False mac []))"

definition ipv4_oxm :: "u8 \<Rightarrow> string \<Rightarrow> bytes res" where
  "ipv4_oxm field v =
     (if v = [] then Inr []
      else res_bind (ipv4OXM v) (\<lambda>(value, msk, masked). Inr (marshalOXM field masked value msk)))"

definition match_blocks :: "OpenFlowMatch \<Rightarrow> bytes res list" where
  "match_blocks match =
     [u32_oxm openFlowOFBInPort (m_InPort match),
      metadata_oxm (m_Metadata match),
      mac_oxm openFlowOFBEthDst ''eth_dst'' (m_EthDst match),
      mac_oxm openFlowOFBEthSrc ''eth_src'' (m_EthSrc match),
      u16_oxm openFlowOFBEthType (m_EthType match),
      u16_oxm openFlowOFBVLANVID (m_VLANVID match),
      u8_oxm openFlowOFBIPProto (m_IPProto match),
      ipv4_oxm openFlowOFBIPv4Src (m_IPv4Src match),
      ipv4_oxm openFlowOFBIPv4Dst (m_IPv4Dst match),
      u16_oxm openFlowOFBTCPSrc (m_TCPSrc match),
      u16_oxm openFlowOFBTCPDst (m_TCPDst match),
      u16_oxm openFlowOFBUDPSrc (m_UDPSrc match),
      u16_oxm openFlowOFBUDPDst (m_UDPDst match)]"

text \<open>Write the blocks one after another; the first error stops.\<close>

definition write_blocks :: "bytes res list \<Rightarrow> bytes res" where
  "write_blocks blocks = res_fold (\<lambda>fields b. res_bind b (\<lambda>bs. Inr (fields @ bs))) [] blocks"

definition marshalOpenFlowMatch :: "OpenFlowMatch \<Rightarrow> bytes res" where
  "marshalOpenFlowMatch match =
     res_bind (write_blocks (match_blocks match)) (\<lambda>fields.
       Inr (padTo (put_be16 openFlowMatchOXM @ put_be16 (of_nat (4 + length fields)) @ fields) 8))"

definition invalidOXMLength :: "u8 \<Rightarrow> go_error" where
  "invalidOXMLength field = of_err ErrorValidation ''parse'' ''match''
     (''invalid OXM field '' @ nat_dec (unat field) @ '' length'')"

text \<open>The bit loop of \<open>formatParsedIPv4\<close>: the number of leading one bits, \<open>None\<close> when all are set.\<close>

fun mask_bits :: "bool list \<Rightarrow> nat \<Rightarrow> nat option" where
  "mask_bits [] bits = None"
| "mask_bits (b # bs) bits = (if \<not> b then Some bits else mask_bits bs (Suc bits))"

definition byte_bits :: "byte \<Rightarrow> bool list" where
  "byte_bits b = map (\<lambda>i. b AND push_bit i 1 \<noteq> 0) [7, 6, 5, 4, 3, 2, 1, 0]"

definition formatParsedIPv4 :: "bytes \<Rightarrow> bytes \<Rightarrow> string res" where
  "formatParsedIPv4 value msk =
     (if length value \<noteq> 4 then Inl (invalidOXMLength openFlowOFBIPv4Dst)
      else let addr = get_be32 value in
        if msk = [] then Inr (addr4_String addr)
        else if length msk \<noteq> 4
        then Inl (of_err ErrorValidation ''parse'' ''match'' ''invalid IPv4 mask length'')
        else case mask_bits (concat (map byte_bits msk)) 0 of
          Some bits \<Rightarrow> Inr (prefix4_String (prefix4_Masked \<lparr>pfx_Addr = addr, pfx_Bits = bits\<rparr>))
        | None \<Rightarrow> Inr (prefix4_String \<lparr>pfx_Addr = addr, pfx_Bits = 32\<rparr>))"

text \<open>The length check every fixed-size case of \<open>applyParsedOXM\<close> starts with.\<close>

definition sized :: "u8 \<Rightarrow> nat \<Rightarrow> bytes \<Rightarrow> OpenFlowMatch \<Rightarrow> OpenFlowMatch res" where
  "sized field n value m = (if length value \<noteq> n then Inl (invalidOXMLength field) else Inr m)"

definition applyParsedOXM :: "OpenFlowMatch \<Rightarrow> u8 \<Rightarrow> bytes \<Rightarrow> bytes \<Rightarrow> OpenFlowMatch res" where
  "applyParsedOXM match field value msk =
     (if field = openFlowOFBInPort then sized field 4 value (match\<lparr>m_InPort := Some (get_be32 value)\<rparr>)
      else if field = openFlowOFBMetadata then
        sized field 8 value (match\<lparr>m_Metadata := Some \<lparr>md_Value = get_be64 value,
          md_Mask = (if length msk = 8 then get_be64 msk else 0)\<rparr>\<rparr>)
      else if field = openFlowOFBEthDst then sized field 6 value (match\<lparr>m_EthDst := HardwareAddr_String value\<rparr>)
      else if field = openFlowOFBEthSrc then sized field 6 value (match\<lparr>m_EthSrc := HardwareAddr_String value\<rparr>)
      else if field = openFlowOFBEthType then sized field 2 value (match\<lparr>m_EthType := Some (get_be16 value)\<rparr>)
      else if field = openFlowOFBVLANVID then sized field 2 value (match\<lparr>m_VLANVID := Some (get_be16 value)\<rparr>)
      else if field = openFlowOFBIPProto then sized field 1 value (match\<lparr>m_IPProto := Some (value ! 0)\<rparr>)
      else if field = openFlowOFBIPv4Src then
        res_bind (formatParsedIPv4 value msk) (\<lambda>cidr. Inr (match\<lparr>m_IPv4Src := cidr\<rparr>))
      else if field = openFlowOFBIPv4Dst then
        res_bind (formatParsedIPv4 value msk) (\<lambda>cidr. Inr (match\<lparr>m_IPv4Dst := cidr\<rparr>))
      else if field = openFlowOFBTCPSrc then sized field 2 value (match\<lparr>m_TCPSrc := Some (get_be16 value)\<rparr>)
      else if field = openFlowOFBTCPDst then sized field 2 value (match\<lparr>m_TCPDst := Some (get_be16 value)\<rparr>)
      else if field = openFlowOFBUDPSrc then sized field 2 value (match\<lparr>m_UDPSrc := Some (get_be16 value)\<rparr>)
      else if field = openFlowOFBUDPDst then sized field 2 value (match\<lparr>m_UDPDst := Some (get_be16 value)\<rparr>)
      else Inl (of_err ErrorUnsupported ''parse'' ''match'' (''unsupported OXM field '' @ nat_dec (unat field))))"

text \<open>
  The loop of \<open>ParseOpenFlowMatch\<close>; its argument is \<open>data[offset:length]\<close>, so that
  \<open>offset < length\<close> is "not empty".
\<close>

function parse_oxms :: "bytes \<Rightarrow> OpenFlowMatch \<Rightarrow> OpenFlowMatch res" where
  "parse_oxms data match =
     (if data = [] then Inr match
      else if length data < 4 then Inl (of_err ErrorValidation ''parse'' ''match'' ''truncated OXM header'')
      else if get_be16 (slice 0 2 data) \<noteq> openFlowOXMClassBasic
      then Inl (of_err ErrorUnsupported ''parse'' ''match'' ''unsupported OXM class'')
      else let fieldMask = data ! 2; size' = unat (data ! 3); rest = drop 4 data in
        if length rest < size'
        then Inl (of_err ErrorValidation ''parse'' ''match'' ''truncated OXM value'')
        else let field = drop_bit 1 fieldMask; hasMask = (fieldMask AND 1 = 1); raw = take size' rest in
          if hasMask \<and> size' mod 2 \<noteq> 0
          then Inl (of_err ErrorValidation ''parse'' ''match'' ''invalid masked OXM length'')
          else res_bind
            (applyParsedOXM match field (if hasMask then take (size' div 2) raw else raw)
              (if hasMask then drop (size' div 2) raw else []))
            (parse_oxms (drop size' rest)))"
  by pat_completeness auto
termination
  by (relation "measure (\<lambda>(data, match). length data)") auto

declare parse_oxms.simps [simp del]

definition ParseOpenFlowMatch :: "bytes \<Rightarrow> OpenFlowMatch res" where
  "ParseOpenFlowMatch data =
     (if length data < 4 then Inl (of_err ErrorValidation ''parse'' ''match'' ''short OpenFlow match'')
      else if get_be16 (slice 0 2 data) \<noteq> openFlowMatchOXM
      then Inl (of_err ErrorUnsupported ''parse'' ''match'' ''only OXM match is supported'')
      else let length' = unat (get_be16 (slice 2 4 data)) in
        if length' < 4 \<or> length' > length data
        then Inl (of_err ErrorValidation ''parse'' ''match'' ''invalid OpenFlow match length'')
        else parse_oxms (slice 4 length' data) empty_match)"

section \<open>Flow modifications and statistics requests\<close>

definition marshalSetField :: "string \<Rightarrow> string \<Rightarrow> bytes res" where
  "marshalSetField field value =
     (if field = ''eth_src'' \<or> field = ''eth_dst'' then
        (case net_ParseMAC value of
           None \<Rightarrow> Inl (wrap_err ErrorValidation [] [] ''marshal'' field ''invalid MAC address''
                    (Some (ForeignError ''net.ParseMAC'')))
         | Some mac \<Rightarrow> Inr (marshalOXM (if field = ''eth_src'' then openFlowOFBEthSrc else openFlowOFBEthDst)
                    False mac []))
      else Inl (of_err ErrorUnsupported ''marshal'' field ''unsupported set_field target''))"

definition marshal_action :: "OpenFlowAction \<Rightarrow> bytes res" where
  "marshal_action action =
     (if act_Type action = OpenFlowActionOutput then
        Inr (put_be16 openFlowActionOutput @ put_be16 16 @ put_be32 (act_Port action) @ put_be16 0xffff
          @ [0, 0, 0, 0, 0, 0])
      else if act_Type action = OpenFlowActionSetField then
        res_bind (marshalSetField (act_Field action) (act_Value action)) (\<lambda>field.
          let length' = alignOpenFlowLength (4 + length field) 8 in
          Inr (put_be16 openFlowActionSetField @ put_be16 (of_nat length') @ field
            @ replicate (length' - 4 - length field) 0))
      else Inl (of_err ErrorUnsupported ''marshal'' ''openflow-action'' ''unsupported OpenFlow action''))"

definition marshalOpenFlowActions :: "OpenFlowAction list \<Rightarrow> bytes res" where
  "marshalOpenFlowActions actions = write_blocks (map marshal_action actions)"

text \<open>One turn of the instruction loop: \<open>out\<close> is the buffer; an empty instruction writes nothing.\<close>

definition marshal_instruction :: "bytes \<Rightarrow> OpenFlowInstruction \<Rightarrow> bytes res" where
  "marshal_instruction out instruction =
     (case ins_GotoTable instruction of
        Some t \<Rightarrow> Inr (out @ put_be16 openFlowInstructionGotoTable @ put_be16 8 @ [t] @ [0, 0, 0])
      | None \<Rightarrow>
     if ins_ClearActions instruction
     then Inr (out @ put_be16 openFlowInstructionClearActions @ put_be16 8 @ [0, 0, 0, 0])
     else case ins_WriteMetadata instruction of
        Some md \<Rightarrow> Inr (out @ put_be16 openFlowInstructionWriteMetadata @ put_be16 24 @ [0, 0, 0, 0]
          @ put_be64 (md_Value md) @ put_be64 (md_Mask md))
      | None \<Rightarrow>
     if ins_Actions instruction \<noteq> []
     then res_bind (marshalOpenFlowActions (ins_Actions instruction)) (\<lambda>actions.
       Inr (padTo (out @ put_be16 openFlowInstructionApplyActions @ put_be16 (of_nat (8 + length actions))
         @ [0, 0, 0, 0] @ actions) 8))
     else Inr out)"

definition flow_instructions :: "OpenFlowFlow \<Rightarrow> OpenFlowInstruction list" where
  "flow_instructions flow = flow_Instructions flow @
     (if flow_Actions flow \<noteq> []
      then [\<lparr>ins_GotoTable = None, ins_ClearActions = False, ins_WriteMetadata = None, ins_Actions = flow_Actions flow\<rparr>]
      else [])"

definition marshalOpenFlowInstructions :: "OpenFlowFlow \<Rightarrow> bytes res" where
  "marshalOpenFlowInstructions flow = res_fold marshal_instruction [] (flow_instructions flow)"

definition flow_mod_header :: "u8 \<Rightarrow> u8 \<Rightarrow> OpenFlowFlow \<Rightarrow> bytes" where
  "flow_mod_header version command flow =
     put_be64 (flow_Cookie flow) @ put_be64 (flow_CookieMask flow) @ [flow_TableID flow, command]
     @ put_be16 (flow_IdleTimeout flow) @ put_be16 (flow_HardTimeout flow) @ put_be16 (flow_Priority flow)
     @ put_be32 0xffffffff @ put_be32 OpenFlowPortAny @ put_be32 OpenFlowGroupAny @ put_be16 0
     @ put_be16 (if version = OpenFlow15 then flow_Importance flow else 0)"

definition MarshalOpenFlowFlowMod :: "u8 \<Rightarrow> u32 \<Rightarrow> u8 \<Rightarrow> OpenFlowFlow \<Rightarrow> OpenFlowMessage res" where
  "MarshalOpenFlowFlowMod version xid command flow =
     guard_res (validateOpenFlowVersion version)
     (res_bind (marshalOpenFlowMatch (flow_Match flow)) (\<lambda>match.
      res_bind (marshalOpenFlowInstructions flow) (\<lambda>instructions.
        Inr \<lparr>msg_Version = version, msg_Type = openFlowTypeFlowMod, msg_XID = xid,
             msg_Body = flow_mod_header version command flow @ match @ instructions\<rparr>)))"

definition MarshalOpenFlowFlowStatsRequest ::
  "u8 \<Rightarrow> u32 \<Rightarrow> OpenFlowFlowStatsRequest \<Rightarrow> OpenFlowMessage res" where
  "MarshalOpenFlowFlowStatsRequest version xid request =
     guard_res (validateOpenFlowVersion version)
     (res_bind (marshalOpenFlowMatch (fsr_Match request)) (\<lambda>match.
        let tableID = (case fsr_TableID request of None \<Rightarrow> 0xff | Some t \<Rightarrow> t);
            outPort = (if fsr_OutPort request = 0 then OpenFlowPortAny else fsr_OutPort request);
            outGroup = (if fsr_OutGroup request = 0 then OpenFlowGroupAny else fsr_OutGroup request);
            flowBody = [tableID] @ [0, 0, 0] @ put_be32 outPort @ put_be32 outGroup @ put_be32 0
              @ put_be64 (fsr_Cookie request) @ put_be64 (fsr_CookieMask request) @ match
        in Inr \<lparr>msg_Version = version, msg_Type = openFlowTypeMultipartRequest, msg_XID = xid,
             msg_Body = put_be16 openFlowMultipartFlow @ put_be16 0 @ put_be32 0 @ flowBody\<rparr>))"

end
