(* ===== verification/Openflow_Codec.thy ===== *)
theory Openflow_Codec
  imports Openflow_Protocol
begin

unbundle bit_operations_syntax

text \<open>
  The OpenFlow wire format is a codec: what is written is read back, message by message from
  one stream, and field by field in a match. A codec is a locale; messages and OXM fields
  instantiate it.
\<close>

section \<open>Codecs\<close>

text \<open>
  An encoder that may refuse and a decoder that splits one item off the front of a byte
  stream. The law: a decoder started at an encoded item returns the item (up to \<open>canon\<close>) and
  stops exactly at its end.
\<close>

locale codec =
  fixes encode :: "'m \<Rightarrow> bytes option"
    and decode :: "bytes \<Rightarrow> ('m \<times> bytes) option"
  assumes decode_encode: "encode m = Some bs \<Longrightarrow> decode (bs @ rest) = Some (m, rest)"
begin

fun encode_all :: "'m list \<Rightarrow> bytes option" where
  "encode_all [] = Some []"
| "encode_all (m # ms) =
     (case encode m of None \<Rightarrow> None | Some bs \<Rightarrow> map_option ((@) bs) (encode_all ms))"

fun decode_n :: "nat \<Rightarrow> bytes \<Rightarrow> ('m list \<times> bytes) option" where
  "decode_n 0 r = Some ([], r)"
| "decode_n (Suc n) r =
     (case decode r of None \<Rightarrow> None
      | Some (m, r) \<Rightarrow> map_option (\<lambda>(ms, r). (m # ms, r)) (decode_n n r))"

lemma decode_n_encode_all:
  "encode_all ms = Some bs \<Longrightarrow> decode_n (length ms) (bs @ rest) = Some (ms, rest)"
  by (induction ms arbitrary: bs) (auto simp: decode_encode split: option.splits)

lemma encode_inj: "encode m = Some bs \<Longrightarrow> encode m' = Some bs \<Longrightarrow> m = m'"
  using decode_encode [of m bs "[]"] decode_encode [of m' bs "[]"] by simp

text \<open>No encoding is a proper prefix of another: the stream can be cut in one way only.\<close>

lemma encode_prefix_free:
  assumes "encode m = Some bs" "encode m' = Some bs'" "bs' = bs @ rest"
  shows "m = m' \<and> rest = []"
  using decode_encode [OF assms(1), of rest] decode_encode [OF assms(2), of "[]"] assms(3) by simp

end

section \<open>Messages\<close>

lemma slice_simps [simp, wire_simps]:
  "slice 0 n xs = take n xs"
  "slice (Suc i) (Suc j) (x # xs) = slice i j xs"
  by (simp_all add: slice_def)

lemma length_slice [simp]: "length (slice i j xs) = min (j - i) (length xs - i)"
  by (simp add: slice_def)

lemma u16_of_nat: "n < 65536 \<Longrightarrow> unat (of_nat n :: u16) = n"
  by (simp add: unat_of_nat)

lemma Marshal_Inr:
  "MarshalOpenFlowMessage m = Inr bs \<longleftrightarrow>
     validateOpenFlowVersion (msg_Version m) = None \<and> 8 + length (msg_Body m) < 65536
     \<and> bs = [msg_Version m, msg_Type m] @ put_be16 (of_nat (8 + length (msg_Body m)))
          @ put_be32 (msg_XID m) @ msg_Body m"
  by (auto simp: MarshalOpenFlowMessage_def guard_res_Inr openFlowHeaderLen_def Let_def split: if_splits)

lemma Marshal_length: "MarshalOpenFlowMessage m = Inr bs \<Longrightarrow> length bs = 8 + length (msg_Body m)"
  by (simp add: Marshal_Inr)

lemma Marshal_fields:
  assumes "MarshalOpenFlowMessage m = Inr bs"
  shows "get_be16 (slice 2 4 (bs @ rest)) = of_nat (length bs)"
    "get_be32 (slice 4 8 (bs @ rest)) = msg_XID m"
    "bs ! 0 = msg_Version m" "bs ! 1 = msg_Type m" "drop 8 bs = msg_Body m"
proof -
  have bs: "bs = [msg_Version m, msg_Type m] @ put_be16 (of_nat (length bs)) @ put_be32 (msg_XID m) @ msg_Body m"
    and l: "length bs = 8 + length (msg_Body m)"
    using assms Marshal_length [OF assms] by (simp_all add: Marshal_Inr)
  show "get_be16 (slice 2 4 (bs @ rest)) = of_nat (length bs)"
    by (subst bs) (simp add: slice_def numeral_2_eq_2)
  have "drop 4 (bs @ rest) = put_be32 (msg_XID m) @ msg_Body m @ rest" by (subst bs) simp
  then show "get_be32 (slice 4 8 (bs @ rest)) = msg_XID m" by (simp add: slice_def)
  show "bs ! 0 = msg_Version m" "bs ! 1 = msg_Type m" "drop 8 bs = msg_Body m"
    by (subst bs, simp)+
qed

lemma Parse_Marshal:
  assumes "MarshalOpenFlowMessage m = Inr bs"
  shows "ParseOpenFlowMessage (bs @ rest) = Inr m"
proof -
  have v: "validateOpenFlowVersion (msg_Version m) = None" "length bs = 8 + length (msg_Body m)" "length bs < 65536"
    using assms Marshal_length [OF assms] by (simp_all add: Marshal_Inr)
  have n: "unat (of_nat (length bs) :: u16) = length bs" by (rule u16_of_nat) fact
  have "slice 8 (length bs) (bs @ rest) = msg_Body m"
    using Marshal_fields(5) [OF assms] v(2) by (simp add: slice_def)
  moreover have "(bs @ rest) ! 0 = msg_Version m" "(bs @ rest) ! 1 = msg_Type m"
    using Marshal_fields(3,4) [OF assms] v(2) by (simp_all add: nth_append)
  moreover have "unat (get_be16 (slice 2 4 (bs @ rest))) = length bs"
    unfolding Marshal_fields(1) [OF assms] by (rule n)
  moreover have "8 \<le> length bs" using v(2) by simp
  ultimately show ?thesis
    using v(1) Marshal_fields(2) [OF assms, of rest]
    by (simp add: ParseOpenFlowMessage_def openFlowHeaderLen_def Let_def)
qed

text \<open>Reading one message from a stream is parsing its prefix, whenever the prefix is complete.\<close>

lemma Read_Marshal:
  assumes "MarshalOpenFlowMessage m = Inr bs"
  shows "ReadOpenFlowMessage (bs @ rest) = (Inr m, rest)"
proof -
  have l: "length bs = 8 + length (msg_Body m)" "length bs < 65536"
    using assms Marshal_length [OF assms] by (simp_all add: Marshal_Inr)
  have n: "unat (of_nat (length bs) :: u16) = length bs" by (rule u16_of_nat) fact
  have "slice 2 4 (take 8 bs) = slice 2 4 bs" by (simp add: slice_def drop_take min_def)
  then have "get_be16 (slice 2 4 (take 8 bs)) = of_nat (length bs)"
    using Marshal_fields(1) [OF assms, of "[]"] by simp
  moreover have "take 8 bs @ drop 8 bs = bs" by simp
  ultimately show ?thesis
    using l Parse_Marshal [OF assms, of "[]"] n
    by (simp add: ReadOpenFlowMessage_def io_ReadFull_def openFlowHeaderLen_def Let_def)
qed

definition encode_message :: "OpenFlowMessage \<Rightarrow> bytes option" where
  "encode_message m = (case MarshalOpenFlowMessage m of Inr bs \<Rightarrow> Some bs | Inl e \<Rightarrow> None)"

definition decode_message :: "bytes \<Rightarrow> (OpenFlowMessage \<times> bytes) option" where
  "decode_message r = (case ReadOpenFlowMessage r of (Inr m, r') \<Rightarrow> Some (m, r') | (Inl e, r') \<Rightarrow> None)"

interpretation message: codec encode_message decode_message
proof
  fix m bs rest assume "encode_message m = Some bs"
  then have "MarshalOpenFlowMessage m = Inr bs" by (simp add: encode_message_def split: sum.splits)
  then show "decode_message (bs @ rest) = Some (m, rest)"
    by (simp add: decode_message_def Read_Marshal)
qed

text \<open>
  Writing and reading whole conversations with the functions of the source: the messages are
  written to one buffer, and the first error stops.
\<close>

definition write_next :: "bytes \<Rightarrow> OpenFlowMessage \<Rightarrow> bytes res" where
  "write_next buf msg =
     (case WriteOpenFlowMessage buffer_Write msg buf of
        (Some e, buf) \<Rightarrow> Inl e
      | (None, buf) \<Rightarrow> Inr buf)"

definition write_all :: "OpenFlowMessage list \<Rightarrow> bytes res" where
  "write_all ms = res_fold write_next [] ms"

fun read_n :: "nat \<Rightarrow> bytes \<Rightarrow> OpenFlowMessage list res \<times> bytes" where
  "read_n 0 r = (Inr [], r)"
| "read_n (Suc n) r =
     (case ReadOpenFlowMessage r of
        (Inl e, r) \<Rightarrow> (Inl e, r)
      | (Inr m, r) \<Rightarrow> (case read_n n r of (Inl e, r) \<Rightarrow> (Inl e, r) | (Inr ms, r) \<Rightarrow> (Inr (m # ms), r)))"

lemma write_all_encode:
  "res_fold write_next w ms = Inr bs \<longleftrightarrow>
     (\<exists>bs'. message.encode_all ms = Some bs' \<and> bs = w @ bs')"
  by (induction ms arbitrary: w)
    (auto simp: write_next_def WriteOpenFlowMessage_def buffer_Write_def encode_message_def res_bind_Inr split: option.splits sum.splits)

lemma read_n_decode: "message.decode_n n r = Some (ms, r') \<Longrightarrow> read_n n r = (Inr ms, r')"
  by (induction n arbitrary: r ms) (auto simp: decode_message_def split: prod.splits sum.splits option.splits)

end
