(* ===== verification/Openflow_Match.thy ===== *)
theory Openflow_Match
  imports Openflow_Codec
begin

unbundle bit_operations_syntax

text \<open>
  Encoding and decoding of OpenFlow matches. The decoder applied to an encoded match returns
  the match with its MAC and CIDR text in canonical form; on canonical matches the two are
  inverse.
\<close>

section \<open>Padding\<close>

lemma padTo_8: "\<exists>k. padTo buf 8 = buf @ replicate k 0 \<and> (length buf + k) mod 8 = 0 \<and> k < 8"
proof (induction buf "8 :: nat" rule: padTo.induct)
  case (1 buf)
  show ?case
  proof (cases "length buf mod 8 = 0")
    case True
    then show ?thesis by (subst padTo.simps) (auto intro: exI [of _ 0])
  next
    case False
    with 1 obtain k where k: "padTo (buf @ [0]) 8 = (buf @ [0]) @ replicate k 0"
        "(length (buf @ [0]) + k) mod 8 = 0" "k < 8" by auto
    have "Suc k < 8" using False k(2,3) by (cases "k = 7") auto
    then show ?thesis
      using False k by (subst padTo.simps) (auto intro!: exI [of _ "Suc k"])
  qed
qed

lemma padTo_length: "length (padTo buf 8) mod 8 = 0"
  using padTo_8 [of buf] by auto

lemma padTo_aligned: "length buf mod 8 = 0 \<Longrightarrow> padTo buf 8 = buf"
  by (subst padTo.simps) simp

section \<open>One OXM field\<close>

lemma length_marshalOXM [simp]:
  "length (marshalOXM f masked v k) = 4 + length v + (if masked then length k else 0)"
  by (simp add: marshalOXM_def Let_def)

lemma field_bits:
  assumes "f < (128 :: u8)"
  shows "drop_bit 1 (push_bit 1 f) = f" "drop_bit 1 (push_bit 1 f OR 1) = f"
    "(push_bit 1 f) AND 1 \<noteq> 1" "(push_bit 1 f OR 1) AND 1 = 1"
proof -
  have "take_bit 7 f = f"
    using assms by (simp add: word_less_nat_alt unsigned_take_bit_eq word_unat_eq_iff take_bit_nat_eq_self)
  then have h: "\<not> bit f n" if "7 \<le> n" for n
    using that by (metis bit_take_bit_iff not_le)
  show "drop_bit 1 (push_bit 1 f) = f" "drop_bit 1 (push_bit 1 f OR 1) = f"
    using h by (auto intro!: bit_word_eqI simp: bit_simps bit_double_iff mult.commute [of f 2] not_le [symmetric])
  show "(push_bit 1 f) AND 1 \<noteq> 1" "(push_bit 1 f OR 1) AND 1 = 1"
    by (simp_all add: and_one_eq even_or_iff mod_2_eq_odd)
qed

lemma parse_marshalOXM:
  assumes "f < 128" and "length v + (if masked then length k else 0) < 256" and "masked \<Longrightarrow> length k = length v"
  shows "parse_oxms (marshalOXM f masked v k @ rest) acc =
    res_bind (applyParsedOXM acc f v (if masked then k else [])) (parse_oxms rest)"
proof -
  define l where "l = (if masked then length v + length k else length v)"
  define fm where "fm = (if masked then push_bit 1 f OR 1 else push_bit 1 f)"
  define raw where "raw = v @ (if masked then k else [])"
  let ?d = "marshalOXM f masked v k @ rest"
  have d: "?d = put_be16 openFlowOXMClassBasic @ [fm, of_nat l] @ raw @ rest"
    by (simp add: marshalOXM_def l_def fm_def raw_def Let_def)
  have l: "unat (of_nat l :: byte) = l" "length raw = l"
    using assms(2) by (auto simp: l_def raw_def unat_of_nat)
  have cls: "get_be16 (slice 0 2 ?d) = openFlowOXMClassBasic" unfolding d by simp
  have hdr: "?d \<noteq> []" "\<not> length ?d < 4" "?d ! 2 = fm" "?d ! 3 = of_nat l" "drop 4 ?d = raw @ rest"
    unfolding d by (simp_all add: put_be16_def)
  have parts: "drop_bit 1 fm = f" "fm AND 1 = 1 \<longleftrightarrow> masked"
    using field_bits [OF assms(1)] by (auto simp: fm_def)
  have "masked \<Longrightarrow> l mod 2 = 0 \<and> take (l div 2) raw = v \<and> drop (l div 2) raw = k"
    using assms(3) by (simp add: l_def raw_def)
  moreover have "\<not> masked \<Longrightarrow> raw = v" by (simp add: raw_def)
  ultimately show ?thesis
    using cls hdr l parts by (subst parse_oxms.simps) (auto simp: Let_def)
qed

section \<open>Canonical text\<close>

definition canon_mac :: "string \<Rightarrow> string" where
  "canon_mac s = (case net_ParseMAC s of None \<Rightarrow> s | Some mac \<Rightarrow> HardwareAddr_String mac)"

definition canon_ipv4 :: "string \<Rightarrow> string" where
  "canon_ipv4 s = (case parseOpenFlowIPv4Prefix s of Inl e \<Rightarrow> s
     | Inr p \<Rightarrow> if pfx_Bits p = 32 then addr4_String (pfx_Addr p) else prefix4_String p)"

definition canonical_match :: "OpenFlowMatch \<Rightarrow> OpenFlowMatch" where
  "canonical_match m = m\<lparr>m_EthSrc := canon_mac (m_EthSrc m), m_EthDst := canon_mac (m_EthDst m),
     m_IPv4Src := canon_ipv4 (m_IPv4Src m), m_IPv4Dst := canon_ipv4 (m_IPv4Dst m)\<rparr>"

text \<open>The MAC text of a match is absent or a 48-bit address (\<open>net.ParseMAC\<close> also accepts 8 and 20 bytes).\<close>

definition mac48 :: "string \<Rightarrow> bool" where
  "mac48 s \<longleftrightarrow> s = [] \<or> (case net_ParseMAC s of None \<Rightarrow> False | Some mac \<Rightarrow> length mac = 6)"

lemma ipv4_mask_bits:
  assumes "n < 32"
  shows "mask_bits (concat (map byte_bits (ipv4_mask n))) 0 = Some n \<and> length (ipv4_mask n) = 4"
proof -
  have "list_all (\<lambda>n. mask_bits (concat (map byte_bits (ipv4_mask n))) 0 = Some n \<and> length (ipv4_mask n) = 4)
      [0..<32]" by code_simp
  then show ?thesis using assms unfolding list_all_iff by simp
qed

lemma parseOpenFlowIPv4Prefix_valid: "parseOpenFlowIPv4Prefix s = Inr p \<Longrightarrow> valid_prefix4 p"
  by (auto simp: parseOpenFlowIPv4Prefix_def netip_ParsePrefix_def valid_prefix4_def host_mask_def
      split: option.splits netip_prefix.splits netip_addr.splits if_splits
      intro!: Masked_valid [unfolded valid_prefix4_def host_mask_def])

section \<open>Each block of the encoder against the decoder\<close>

lemma canon_Nil [simp]: "canon_mac [] = []" "canon_ipv4 [] = []"
  by code_simp+

lemma oxm_small:
  "openFlowOFBInPort < 128" "openFlowOFBMetadata < 128" "openFlowOFBEthDst < 128" "openFlowOFBEthSrc < 128"
  "openFlowOFBEthType < 128" "openFlowOFBVLANVID < 128" "openFlowOFBIPProto < 128" "openFlowOFBIPv4Src < 128"
  "openFlowOFBIPv4Dst < 128" "openFlowOFBTCPSrc < 128" "openFlowOFBTCPDst < 128" "openFlowOFBUDPSrc < 128"
  "openFlowOFBUDPDst < 128"
  by (simp_all add: oxm_field_defs)

lemma ParseMAC_Nil: "net_ParseMAC [] = None"
  by (simp add: net_ParseMAC_def)

lemma same_field:
  "m_InPort acc = None \<Longrightarrow> acc\<lparr>m_InPort := None\<rparr> = acc"
  "m_Metadata acc = None \<Longrightarrow> acc\<lparr>m_Metadata := None\<rparr> = acc"
  "m_EthSrc acc = [] \<Longrightarrow> acc\<lparr>m_EthSrc := []\<rparr> = acc"
  "m_EthDst acc = [] \<Longrightarrow> acc\<lparr>m_EthDst := []\<rparr> = acc"
  "m_EthType acc = None \<Longrightarrow> acc\<lparr>m_EthType := None\<rparr> = acc"
  "m_VLANVID acc = None \<Longrightarrow> acc\<lparr>m_VLANVID := None\<rparr> = acc"
  "m_IPProto acc = None \<Longrightarrow> acc\<lparr>m_IPProto := None\<rparr> = acc"
  "m_IPv4Src acc = [] \<Longrightarrow> acc\<lparr>m_IPv4Src := []\<rparr> = acc"
  "m_IPv4Dst acc = [] \<Longrightarrow> acc\<lparr>m_IPv4Dst := []\<rparr> = acc"
  "m_TCPSrc acc = None \<Longrightarrow> acc\<lparr>m_TCPSrc := None\<rparr> = acc"
  "m_TCPDst acc = None \<Longrightarrow> acc\<lparr>m_TCPDst := None\<rparr> = acc"
  "m_UDPSrc acc = None \<Longrightarrow> acc\<lparr>m_UDPSrc := None\<rparr> = acc"
  "m_UDPDst acc = None \<Longrightarrow> acc\<lparr>m_UDPDst := None\<rparr> = acc"
  by (cases acc, simp)+

lemma record_eta [simp]:
  "\<lparr>md_Value = md_Value x, md_Mask = md_Mask x\<rparr> = x"
  "\<lparr>pfx_Addr = pfx_Addr p, pfx_Bits = pfx_Bits p\<rparr> = p"
  by simp_all

lemmas block_simps = parse_marshalOXM oxm_small applyParsedOXM_def sized_def oxm_field_defs same_field

lemma u32_block:
  "u32_oxm openFlowOFBInPort v = Inr bs \<Longrightarrow> m_InPort acc = None \<Longrightarrow>
   parse_oxms (bs @ rest) acc = parse_oxms rest (acc\<lparr>m_InPort := v\<rparr>)"
  by (auto simp: u32_oxm_def block_simps split: option.splits)

lemma u8_block:
  "u8_oxm openFlowOFBIPProto v = Inr bs \<Longrightarrow> m_IPProto acc = None \<Longrightarrow>
   parse_oxms (bs @ rest) acc = parse_oxms rest (acc\<lparr>m_IPProto := v\<rparr>)"
  by (auto simp: u8_oxm_def block_simps split: option.splits)

lemma metadata_block:
  "metadata_oxm v = Inr bs \<Longrightarrow> m_Metadata acc = None \<Longrightarrow>
   parse_oxms (bs @ rest) acc = parse_oxms rest (acc\<lparr>m_Metadata := v\<rparr>)"
  by (auto simp: metadata_oxm_def block_simps split: option.splits)

lemma u16_block:
  "u16_oxm openFlowOFBEthType v = Inr bs \<Longrightarrow> m_EthType acc = None \<Longrightarrow>
   parse_oxms (bs @ rest) acc = parse_oxms rest (acc\<lparr>m_EthType := v\<rparr>)"
  "u16_oxm openFlowOFBVLANVID v = Inr bs \<Longrightarrow> m_VLANVID acc = None \<Longrightarrow>
   parse_oxms (bs @ rest) acc = parse_oxms rest (acc\<lparr>m_VLANVID := v\<rparr>)"
  "u16_oxm openFlowOFBTCPSrc v = Inr bs \<Longrightarrow> m_TCPSrc acc = None \<Longrightarrow>
   parse_oxms (bs @ rest) acc = parse_oxms rest (acc\<lparr>m_TCPSrc := v\<rparr>)"
  "u16_oxm openFlowOFBTCPDst v = Inr bs \<Longrightarrow> m_TCPDst acc = None \<Longrightarrow>
   parse_oxms (bs @ rest) acc = parse_oxms rest (acc\<lparr>m_TCPDst := v\<rparr>)"
  "u16_oxm openFlowOFBUDPSrc v = Inr bs \<Longrightarrow> m_UDPSrc acc = None \<Longrightarrow>
   parse_oxms (bs @ rest) acc = parse_oxms rest (acc\<lparr>m_UDPSrc := v\<rparr>)"
  "u16_oxm openFlowOFBUDPDst v = Inr bs \<Longrightarrow> m_UDPDst acc = None \<Longrightarrow>
   parse_oxms (bs @ rest) acc = parse_oxms rest (acc\<lparr>m_UDPDst := v\<rparr>)"
  by (auto simp: u16_oxm_def block_simps split: option.splits)

lemma mac_block:
  "mac_oxm openFlowOFBEthDst label v = Inr bs \<Longrightarrow> mac48 v \<Longrightarrow> m_EthDst acc = [] \<Longrightarrow>
   parse_oxms (bs @ rest) acc = parse_oxms rest (acc\<lparr>m_EthDst := canon_mac v\<rparr>)"
  "mac_oxm openFlowOFBEthSrc label v = Inr bs \<Longrightarrow> mac48 v \<Longrightarrow> m_EthSrc acc = [] \<Longrightarrow>
   parse_oxms (bs @ rest) acc = parse_oxms rest (acc\<lparr>m_EthSrc := canon_mac v\<rparr>)"
  by (auto simp: mac_oxm_def mac48_def canon_mac_def ParseMAC_Nil block_simps split: option.splits if_splits)

lemma formatParsedIPv4_ipv4OXM:
  assumes "ipv4OXM s = Inr (v, k, masked)"
  shows "formatParsedIPv4 v (if masked then k else []) = Inr (canon_ipv4 s)"
    and "length v = 4" "length k = (if masked then 4 else 0)"
proof -
  from assms obtain p where p: "parseOpenFlowIPv4Prefix s = Inr p" and v: "v = put_be32 (pfx_Addr p)"
    and k: "k = (if pfx_Bits p = 32 then [] else ipv4_mask (pfx_Bits p))" "masked \<longleftrightarrow> pfx_Bits p \<noteq> 32"
    by (auto simp: ipv4OXM_def res_bind_Inr split: if_splits)
  have valid: "valid_prefix4 p" by (rule parseOpenFlowIPv4Prefix_valid [OF p])
  then have "pfx_Bits p \<noteq> 32 \<Longrightarrow> pfx_Bits p < 32" by (simp add: valid_prefix4_def)
  note m = ipv4_mask_bits [OF this]
  show "length v = 4" "length k = (if masked then 4 else 0)" using k v m by auto
  show "formatParsedIPv4 v (if masked then k else []) = Inr (canon_ipv4 s)"
    using k m Masked_id [OF valid] by (auto simp: formatParsedIPv4_def canon_ipv4_def p v Let_def)
qed

lemma ipv4_block:
  "ipv4_oxm openFlowOFBIPv4Src v = Inr bs \<Longrightarrow> m_IPv4Src acc = [] \<Longrightarrow>
   parse_oxms (bs @ rest) acc = parse_oxms rest (acc\<lparr>m_IPv4Src := canon_ipv4 v\<rparr>)"
  "ipv4_oxm openFlowOFBIPv4Dst v = Inr bs \<Longrightarrow> m_IPv4Dst acc = [] \<Longrightarrow>
   parse_oxms (bs @ rest) acc = parse_oxms rest (acc\<lparr>m_IPv4Dst := canon_ipv4 v\<rparr>)"
  by (auto simp: ipv4_oxm_def res_bind_Inr formatParsedIPv4_ipv4OXM block_simps split: if_splits)

lemmas match_block_simps = u32_block u8_block metadata_block u16_block mac_block ipv4_block

lemma write_blocks_from:
  "res_fold (\<lambda>flds b. res_bind b (\<lambda>bs. Inr (flds @ bs))) acc bs =
   res_bind (write_blocks bs) (\<lambda>out. Inr (acc @ out))"
  unfolding write_blocks_def
proof (induction bs arbitrary: acc)
  case (Cons b bs)
  show ?case
  proof (cases b)
    case (Inr x)
    then show ?thesis using Cons [of "acc @ x"] Cons [of x]
      by (cases "res_fold (\<lambda>flds b. res_bind b (\<lambda>bs. Inr (flds @ bs))) [] bs") simp_all
  qed simp
qed simp

lemma write_blocks_Inr:
  "write_blocks (b # bs) = Inr out \<longleftrightarrow> (\<exists>x rest. b = Inr x \<and> write_blocks bs = Inr rest \<and> out = x @ rest)"
  "write_blocks [] = Inr out \<longleftrightarrow> out = []"
proof -
  have "write_blocks (b # bs) = res_bind b (\<lambda>x. res_bind (write_blocks bs) (\<lambda>rest. Inr (x @ rest)))"
    unfolding write_blocks_from [symmetric] by (cases b) (simp_all add: write_blocks_def)
  then show "write_blocks (b # bs) = Inr out \<longleftrightarrow> (\<exists>x rest. b = Inr x \<and> write_blocks bs = Inr rest \<and> out = x @ rest)"
    by (auto simp: res_bind_Inr)
  show "write_blocks [] = Inr out \<longleftrightarrow> out = []" by (auto simp: write_blocks_def)
qed

lemma block_length:
  "u32_oxm f v32 = Inr bs \<Longrightarrow> length bs \<le> 24" "u16_oxm f v16 = Inr bs \<Longrightarrow> length bs \<le> 24"
  "u8_oxm f v8 = Inr bs \<Longrightarrow> length bs \<le> 24" "metadata_oxm md = Inr bs \<Longrightarrow> length bs \<le> 24"
  "mac_oxm f label s = Inr bs \<Longrightarrow> length bs \<le> 24" "ipv4_oxm f s = Inr bs \<Longrightarrow> length bs \<le> 24"
  by (auto simp: u32_oxm_def u16_oxm_def u8_oxm_def metadata_oxm_def mac_oxm_def ipv4_oxm_def res_bind_Inr
      formatParsedIPv4_ipv4OXM split: option.splits if_splits dest!: ParseMAC_length)

lemma write_blocks_length:
  "write_blocks bs = Inr out \<Longrightarrow> (\<And>b x. b \<in> set bs \<Longrightarrow> b = Inr x \<Longrightarrow> length x \<le> n) \<Longrightarrow> length out \<le> n * length bs"
  by (induction bs arbitrary: out) (fastforce simp: write_blocks_Inr)+

lemma match_fields_length:
  assumes "write_blocks (match_blocks m) = Inr flds"
  shows "length flds \<le> 312"
proof -
  have "length flds \<le> 24 * length (match_blocks m)"
    by (rule write_blocks_length [OF assms]) (auto simp: match_blocks_def block_length)
  then show ?thesis by (simp add: match_blocks_def)
qed

lemma parse_match_fields:
  assumes "write_blocks (match_blocks m) = Inr flds" "mac48 (m_EthSrc m)" "mac48 (m_EthDst m)"
  shows "parse_oxms flds empty_match = Inr (canonical_match m)"
proof -
  have end': "parse_oxms [] acc = Inr acc" for acc by (simp add: parse_oxms.simps)
  from assms(1) show ?thesis
    using assms(2,3) unfolding match_blocks_def write_blocks_Inr
    by (elim exE conjE) (simp add: match_block_simps u16_block(6) [where rest = "[]", simplified] empty_match_def end' canonical_match_def)
qed

lemma Parse_marshalMatch:
  assumes "marshalOpenFlowMatch m = Inr bs" "mac48 (m_EthSrc m)" "mac48 (m_EthDst m)"
  shows "ParseOpenFlowMatch (bs @ rest) = Inr (canonical_match m)"
proof -
  from assms(1) obtain flds where f: "write_blocks (match_blocks m) = Inr flds"
    and bs: "bs = padTo (put_be16 openFlowMatchOXM @ put_be16 (of_nat (4 + length flds)) @ flds) 8"
    by (auto simp: marshalOpenFlowMatch_def res_bind_Inr)
  obtain k where k: "bs = put_be16 openFlowMatchOXM @ put_be16 (of_nat (4 + length flds)) @ flds @ replicate k 0"
    using padTo_8 [of "put_be16 openFlowMatchOXM @ put_be16 (of_nat (4 + length flds)) @ flds"] bs by auto
  have n: "unat (of_nat (4 + length flds) :: u16) = 4 + length flds"
    using match_fields_length [OF f] by (intro u16_of_nat) simp
  have "slice 2 4 (bs @ rest) = put_be16 (of_nat (4 + length flds))"
    by (simp add: k slice_def numeral_2_eq_2 put_be16_def)
  then have len: "unat (get_be16 (slice 2 4 (bs @ rest))) = 4 + length flds" using n by simp
  have "take 2 (bs @ rest) = put_be16 openFlowMatchOXM" by (simp add: k)
  moreover have "slice 4 (4 + length flds) (bs @ rest) = flds" by (simp add: k slice_def)
  moreover have "4 + length flds \<le> length (bs @ rest)" by (simp add: k)
  ultimately show ?thesis
    using parse_match_fields [OF f assms(2,3)] len by (simp add: ParseOpenFlowMatch_def Let_def)
qed

end
