(* ===== verification/Openflow_FlowMod.thy ===== *)
theory Openflow_FlowMod
  imports Openflow_Match
begin

unbundle bit_operations_syntax

text \<open>
  Flow modifications as a switch receives them. \<open>decode_flow_mod\<close> is a reference receiver written
  from the OpenFlow framing rules: the message header, a 40-byte header whose fields are read
  at their offsets, an aligned match, then a sequence of type-length-value instructions, the
  actions of an apply-actions instruction being such a sequence again. It shares no definition
  with the encoder; what it recovers is compared with what the flow means, field by field.
\<close>

section \<open>A reference receiver\<close>

function split_tlvs :: "bytes \<Rightarrow> bytes list option" where
  "split_tlvs bs =
     (if bs = [] then Some []
      else let l = unat (get_be16 (slice 2 4 bs)) in
        if length bs < 4 \<or> l < 4 \<or> l > length bs then None
        else map_option ((#) (take l bs)) (split_tlvs (drop l bs)))"
  by pat_completeness auto
termination
  by (relation "measure length") auto

declare split_tlvs.simps [simp del]

text \<open>
  What the receiver recovers: the fields of the fixed header at their offsets in the
  specification of the protocol, the match, and the instructions with their actions. Types and
  lengths are the numbers of that specification, not the names of the encoder.
\<close>

datatype wire_action =
    Wire_Output u32 u16
  | Wire_SetField u8 bytes

datatype wire_instruction =
    Wire_Goto u8
  | Wire_Metadata u64 u64
  | Wire_Apply "wire_action list"
  | Wire_Clear

record wire_flow_mod =
  fm_Version :: u8
  fm_XID :: u32
  fm_Cookie :: u64
  fm_CookieMask :: u64
  fm_Table :: u8
  fm_Command :: u8
  fm_Idle :: u16
  fm_Hard :: u16
  fm_Priority :: u16
  fm_Buffer :: u32
  fm_OutPort :: u32
  fm_OutGroup :: u32
  fm_Flags :: u16
  fm_Importance :: u16
  fm_Match :: OpenFlowMatch
  fm_Instructions :: "wire_instruction list"

definition decode_action :: "bytes \<Rightarrow> wire_action option" where
  "decode_action t =
     (let ty = get_be16 t in
      if ty = 0 \<and> length t = 16 then Some (Wire_Output (get_be32 (drop 4 t)) (get_be16 (drop 8 t)))
      else if ty = 25 \<and> get_be16 (drop 4 t) = 0x8000 \<and> t ! 6 AND 1 = 0 \<and> 8 + unat (t ! 7) \<le> length t
      then Some (Wire_SetField (drop_bit 1 (t ! 6)) (take (unat (t ! 7)) (drop 8 t)))
      else None)"

definition decode_instruction :: "bytes \<Rightarrow> wire_instruction option" where
  "decode_instruction t =
     (let ty = get_be16 t in
      if ty = 1 \<and> length t = 8 then Some (Wire_Goto (t ! 4))
      else if ty = 2 \<and> length t = 24 then Some (Wire_Metadata (get_be64 (drop 8 t)) (get_be64 (drop 16 t)))
      else if ty = 4 then map_option Wire_Apply
        (Option.bind (split_tlvs (drop 8 t)) (\<lambda>ts. those (map decode_action ts)))
      else if ty = 5 \<and> length t = 8 then Some Wire_Clear
      else None)"

definition decode_flow_mod :: "bytes \<Rightarrow> wire_flow_mod option" where
  "decode_flow_mod data =
     (if length data < 52 \<or> data ! 1 \<noteq> 14 \<or> unat (get_be16 (drop 2 data)) \<noteq> length data then None
      else let body = drop 8 data; l = unat (get_be16 (drop 42 body)) in
        case ParseOpenFlowMatch (drop 40 body) of
          Inl e \<Rightarrow> None
        | Inr m \<Rightarrow>
            Option.bind (split_tlvs (drop (40 + 8 * ((l + 7) div 8)) body)) (\<lambda>ts.
            map_option (\<lambda>ins.
              \<lparr>fm_Version = data ! 0, fm_XID = get_be32 (drop 4 data),
               fm_Cookie = get_be64 body, fm_CookieMask = get_be64 (drop 8 body), fm_Table = body ! 16,
               fm_Command = body ! 17, fm_Idle = get_be16 (drop 18 body), fm_Hard = get_be16 (drop 20 body),
               fm_Priority = get_be16 (drop 22 body), fm_Buffer = get_be32 (drop 24 body),
               fm_OutPort = get_be32 (drop 28 body), fm_OutGroup = get_be32 (drop 32 body),
               fm_Flags = get_be16 (drop 36 body), fm_Importance = get_be16 (drop 38 body),
               fm_Match = m, fm_Instructions = ins\<rparr>)
             (those (map decode_instruction ts))))"

text \<open>
  What a flow asks for, in the same terms. An output action sends whole packets to the
  controller (maximal length \<open>0xffff\<close>); of an instruction only its first part is meant, an empty
  one means nothing; the actions of the flow itself are one more apply-actions instruction.
\<close>

definition meant_action :: "OpenFlowAction \<Rightarrow> wire_action" where
  "meant_action a =
     (if act_Type a = ''output'' then Wire_Output (act_Port a) 0xffff
      else Wire_SetField (if act_Field a = ''eth_src'' then 4 else 3)
        (case net_ParseMAC (act_Value a) of None \<Rightarrow> [] | Some mac \<Rightarrow> mac))"

definition meant_instruction :: "OpenFlowInstruction \<Rightarrow> wire_instruction list" where
  "meant_instruction i =
     (case ins_GotoTable i of
        Some t \<Rightarrow> [Wire_Goto t]
      | None \<Rightarrow>
     if ins_ClearActions i then [Wire_Clear]
     else case ins_WriteMetadata i of
        Some md \<Rightarrow> [Wire_Metadata (md_Value md) (md_Mask md)]
      | None \<Rightarrow> if ins_Actions i = [] then [] else [Wire_Apply (map meant_action (ins_Actions i))])"

definition meant_instructions :: "OpenFlowFlow \<Rightarrow> wire_instruction list" where
  "meant_instructions flow =
     concat (map meant_instruction (flow_Instructions flow))
     @ (if flow_Actions flow = [] then [] else [Wire_Apply (map meant_action (flow_Actions flow))])"

definition meant_flow_mod :: "u8 \<Rightarrow> u32 \<Rightarrow> u8 \<Rightarrow> OpenFlowFlow \<Rightarrow> wire_flow_mod" where
  "meant_flow_mod version xid command flow =
     \<lparr>fm_Version = version, fm_XID = xid, fm_Cookie = flow_Cookie flow, fm_CookieMask = flow_CookieMask flow,
      fm_Table = flow_TableID flow, fm_Command = command, fm_Idle = flow_IdleTimeout flow,
      fm_Hard = flow_HardTimeout flow, fm_Priority = flow_Priority flow, fm_Buffer = 0xffffffff,
      fm_OutPort = 0xffffffff, fm_OutGroup = 0xffffffff, fm_Flags = 0,
      fm_Importance = (if version = 6 then flow_Importance flow else 0),
      fm_Match = canonical_match (flow_Match flow), fm_Instructions = meant_instructions flow\<rparr>"

text \<open>A byte string that starts with its own length, a multiple of eight.\<close>

definition tlv :: "bytes \<Rightarrow> bool" where
  "tlv t \<longleftrightarrow> 8 \<le> length t \<and> length t mod 8 = 0 \<and> get_be16 (slice 2 4 t) = of_nat (length t)"

lemma tlvI:
  "bs = put_be16 ty @ put_be16 (of_nat (length bs)) @ r \<Longrightarrow> 8 \<le> length bs \<Longrightarrow> length bs mod 8 = 0 \<Longrightarrow> tlv bs"
proof -
  assume bs: "bs = put_be16 ty @ put_be16 (of_nat (length bs)) @ r" and l: "8 \<le> length bs" "length bs mod 8 = 0"
  have "drop 2 bs = put_be16 (of_nat (length bs)) @ r" by (subst bs) simp
  then have "get_be16 (slice 2 4 bs) = of_nat (length bs)" by (simp add: slice_def)
  then show "tlv bs" using l by (simp add: tlv_def)
qed

lemma split_tlvs_Cons:
  assumes "tlv t" "length t < 65536"
  shows "split_tlvs (t @ rest) = map_option ((#) t) (split_tlvs rest)"
proof -
  have "unat (of_nat (length t) :: u16) = length t" by (rule u16_of_nat) fact
  moreover have "slice 2 4 (t @ rest) = slice 2 4 t" using assms(1) by (simp add: slice_def tlv_def)
  ultimately show ?thesis
    using assms by (subst split_tlvs.simps) (auto simp: tlv_def Let_def)
qed

lemma split_tlvs_concat:
  "list_all tlv ts \<Longrightarrow> length (concat ts) < 65536 \<Longrightarrow> split_tlvs (concat ts) = Some ts"
  by (induction ts) (auto simp: split_tlvs_Cons, simp add: split_tlvs.simps)

section \<open>Actions and instructions\<close>

lemma align_8: "alignOpenFlowLength n 8 mod 8 = 0" "n \<le> alignOpenFlowLength n 8" "alignOpenFlowLength n 8 < n + 8"
  unfolding alignOpenFlowLength_def by (auto split: if_splits) presburger+

lemma align_aligned: "n mod 8 = 0 \<Longrightarrow> alignOpenFlowLength n 8 = n"
  by (simp add: alignOpenFlowLength_def)

lemma marshal_action_tlv:
  assumes "marshal_action a = Inr t"
  shows "tlv t \<and> decode_action t = Some (meant_action a)"
proof -
  from assms consider "act_Type a = ''output''" "t = put_be16 0 @ put_be16 16 @ put_be32 (act_Port a) @ put_be16 0xffff @ [0, 0, 0, 0, 0, 0]"
    | fld where "act_Type a \<noteq> ''output''"
        "t = put_be16 25 @ put_be16 (of_nat (alignOpenFlowLength (4 + length fld) 8)) @ fld
          @ replicate (alignOpenFlowLength (4 + length fld) 8 - 4 - length fld) 0"
        "marshalSetField (act_Field a) (act_Value a) = Inr fld"
    by (auto simp: marshal_action_def res_bind_Inr Let_def OpenFlowActionOutput_def openFlowActionOutput_def
        openFlowActionSetField_def split: if_splits)
  then show ?thesis
  proof cases
    case 1
    have "tlv t" by (rule tlvI [of _ 0 "put_be32 (act_Port a) @ put_be16 0xffff @ [0, 0, 0, 0, 0, 0]"]) (simp_all add: 1)
    then show ?thesis by (simp add: 1 decode_action_def meant_action_def Let_def)
  next
    case 2
    obtain mac and f :: u8 where mac: "net_ParseMAC (act_Value a) = Some mac" "f = (if act_Field a = ''eth_src'' then 4 else 3)"
      and fld: "fld = put_be16 0x8000 @ [push_bit 1 f, of_nat (length mac)] @ mac"
      using 2(3) by (auto simp: marshalSetField_def marshalOXM_def Let_def oxm_field_defs openFlowOXMClassBasic_def
          split: if_splits option.splits)
    define k where "k = alignOpenFlowLength (4 + length fld) 8"
    have k: "k mod 8 = 0" "4 + length fld \<le> k" using align_8 [of "4 + length fld"] by (simp_all add: k_def)
    have t: "t = put_be16 25 @ put_be16 (of_nat k) @ put_be16 0x8000 @ [push_bit 1 f, of_nat (length mac)] @ mac
        @ replicate (k - 4 - length fld) 0"
      unfolding 2(2) k_def fld by simp
    have l: "length t = k" using k(2) by (simp add: t fld)
    have "tlv t" by (rule tlvI [of _ 25]) (use k in \<open>simp_all add: l t [symmetric], simp_all add: t fld\<close>)
    moreover have "unat (of_nat (length mac) :: byte) = length mac"
      using ParseMAC_length [OF mac(1)] by (auto simp: unat_of_nat)
    moreover have "f < 128" by (simp add: mac(2))
    then have "drop_bit 1 (push_bit 1 f) = f" "push_bit 1 f AND 1 = 0"
      using field_bits [of f] by (simp_all add: and_one_eq)
    moreover have "get_be16 t = 25" "get_be16 (drop 4 t) = 0x8000" "t ! 6 = push_bit 1 f" "t ! 7 = of_nat (length mac)"
      "take (length mac) (drop 8 t) = mac" "8 + length mac \<le> length t"
      unfolding l using k(2) by (simp_all add: t nth_append fld)
    ultimately show ?thesis
      using mac(1) 2(1) by (simp add: decode_action_def meant_action_def Let_def mac(2) [symmetric])
  qed
qed

lemma write_blocks_map:
  "write_blocks (map f xs) = Inr out \<longleftrightarrow> (\<exists>ts. list_all2 (\<lambda>x t. f x = Inr t) xs ts \<and> out = concat ts)"
  by (induction xs arbitrary: out) (auto simp: write_blocks_Inr list_all2_Cons1, force+)

lemma marshalActions_tlvs:
  assumes "marshalOpenFlowActions as = Inr bs"
  obtains ts where "bs = concat ts" "list_all tlv ts" "map decode_action ts = map Some (map meant_action as)"
proof -
  from assms obtain ts where ts: "list_all2 (\<lambda>a t. marshal_action a = Inr t) as ts" "bs = concat ts"
    by (auto simp: marshalOpenFlowActions_def write_blocks_map)
  from ts(1) have "list_all tlv ts \<and> map decode_action ts = map Some (map meant_action as)"
    by (induction rule: list_all2_induct) (simp_all add: marshal_action_tlv)
  with ts that show thesis by blast
qed

lemma those_map_Some: "those (map Some xs) = Some xs"
  by (induction xs) simp_all

lemma concat_tlvs_aligned: "list_all tlv ts \<Longrightarrow> length (concat ts) mod 8 = 0"
  by (induction ts) (auto simp: tlv_def mod_eq_0_iff_dvd)

text \<open>
  How one instruction looks on the wire: no record for an empty instruction, otherwise one,
  and the receiver recovers from it what was meant.
\<close>

definition on_wire :: "wire_instruction list \<Rightarrow> bytes list \<Rightarrow> bool" where
  "on_wire is ts \<longleftrightarrow> list_all tlv ts
     \<and> (length (concat ts) < 65536 \<longrightarrow> map decode_instruction ts = map Some is)"

lemma on_wire_Nil: "on_wire [] []"
  by (simp add: on_wire_def)

lemma on_wire_append: "on_wire is ts \<Longrightarrow> on_wire js us \<Longrightarrow> on_wire (is @ js) (ts @ us)"
  by (auto simp: on_wire_def)

lemma on_wire_one: "tlv t \<Longrightarrow> (length t < 65536 \<Longrightarrow> decode_instruction t = Some i) \<Longrightarrow> on_wire [i] [t]"
  by (simp add: on_wire_def)

lemma marshal_instruction_ok:
  assumes "marshal_instruction out i = Inr out'" and "length out mod 8 = 0"
  shows "\<exists>ts. out' = out @ concat ts \<and> on_wire (meant_instruction i) ts"
proof -
  consider (goto) x where "ins_GotoTable i = Some x"
    | (clear) "ins_GotoTable i = None" "ins_ClearActions i"
    | (meta) md where "ins_GotoTable i = None" "\<not> ins_ClearActions i" "ins_WriteMetadata i = Some md"
    | (acts) "ins_GotoTable i = None" "\<not> ins_ClearActions i" "ins_WriteMetadata i = None" "ins_Actions i \<noteq> []"
    | (none) "ins_GotoTable i = None" "\<not> ins_ClearActions i" "ins_WriteMetadata i = None" "ins_Actions i = []"
    by (cases "ins_GotoTable i"; cases "ins_WriteMetadata i") auto
  then show ?thesis
  proof cases
    case goto
    let ?t = "put_be16 1 @ put_be16 8 @ [x] @ [0, 0, 0]"
    have "on_wire [Wire_Goto x] [?t]"
      by (rule on_wire_one, rule tlvI) (simp_all add: decode_instruction_def Let_def nth_append)
    then show ?thesis using assms goto
      by (auto simp: marshal_instruction_def meant_instruction_def openFlowInstructionGotoTable_def intro!: exI [of _ "[?t]"])
  next
    case clear
    let ?t = "put_be16 5 @ put_be16 8 @ [0, 0, 0, 0]"
    have "on_wire [Wire_Clear] [?t]" by (rule on_wire_one, rule tlvI) (simp_all add: decode_instruction_def Let_def)
    then show ?thesis using assms clear
      by (auto simp: marshal_instruction_def meant_instruction_def openFlowInstructionClearActions_def intro!: exI [of _ "[?t]"])
  next
    case meta
    let ?t = "put_be16 2 @ put_be16 24 @ [0, 0, 0, 0] @ put_be64 (md_Value md) @ put_be64 (md_Mask md)"
    have "on_wire [Wire_Metadata (md_Value md) (md_Mask md)] [?t]"
      by (rule on_wire_one, rule tlvI) (simp_all add: decode_instruction_def Let_def)
    then show ?thesis using assms meta
      by (auto simp: marshal_instruction_def meant_instruction_def openFlowInstructionWriteMetadata_def intro!: exI [of _ "[?t]"])
  next
    case acts
    with assms(1) obtain actions where a: "marshalOpenFlowActions (ins_Actions i) = Inr actions"
      and o': "out' = padTo (out @ put_be16 4 @ put_be16 (of_nat (8 + length actions)) @ [0, 0, 0, 0] @ actions) 8"
      by (auto simp: marshal_instruction_def res_bind_Inr openFlowInstructionApplyActions_def)
    obtain ts where ts: "actions = concat ts" "list_all tlv ts"
      "map decode_action ts = map Some (map meant_action (ins_Actions i))"
      by (rule marshalActions_tlvs [OF a])
    let ?t = "put_be16 4 @ put_be16 (of_nat (8 + length actions)) @ [0, 0, 0, 0] @ actions"
    have l: "length actions mod 8 = 0" using ts concat_tlvs_aligned by simp
    have "tlv ?t" by (rule tlvI) (use l in simp_all)
    moreover have "decode_instruction ?t = Some (Wire_Apply (map meant_action (ins_Actions i)))" if "length ?t < 65536"
    proof -
      have "split_tlvs actions = Some ts" using split_tlvs_concat [OF ts(2)] that by (simp add: ts(1))
      then show ?thesis using ts(3) by (simp add: decode_instruction_def Let_def those_map_Some del: map_map)
    qed
    ultimately have "on_wire [Wire_Apply (map meant_action (ins_Actions i))] [?t]" by (rule on_wire_one)
    moreover have "out' = out @ ?t"
      unfolding o' using l assms(2) by (subst padTo_aligned) (simp_all add: mod_eq_0_iff_dvd)
    ultimately show ?thesis using acts by (auto simp: meant_instruction_def intro!: exI [of _ "[?t]"])
  next
    case none
    then show ?thesis using assms
      by (auto simp: marshal_instruction_def meant_instruction_def on_wire_Nil intro!: exI [of _ "[]"])
  qed
qed

lemma aligned_add: "a mod 8 = 0 \<Longrightarrow> b mod 8 = 0 \<Longrightarrow> (a + b) mod 8 = (0 :: nat)"
  by presburger

lemma align_pad: "(n + k) mod 8 = 0 \<Longrightarrow> k < 8 \<Longrightarrow> alignOpenFlowLength n 8 = n + k"
proof -
  assume k: "(n + k) mod 8 = 0" "k < 8"
  have "(n mod 8 + k) mod 8 = 0" using k(1) by (simp add: mod_add_left_eq)
  then have "n mod 8 + k = 0 \<or> n mod 8 + k = 8"
    using k(2) mod_less_divisor [of 8 n] by (cases "n mod 8 + k < 8") (auto simp: le_mod_geq)
  then show ?thesis using k(2) by (auto simp: alignOpenFlowLength_def)
qed

lemma marshal_instructions_ok:
  assumes "res_fold marshal_instruction out is = Inr out'" and "length out mod 8 = 0"
  shows "\<exists>ts. out' = out @ concat ts \<and> on_wire (concat (map meant_instruction is)) ts"
  using assms
proof (induction "is" arbitrary: out)
  case Nil
  then show ?case by (intro exI [of _ "[]"]) (simp add: on_wire_Nil)
next
  case (Cons i "is")
  obtain o1 where o1: "marshal_instruction out i = Inr o1" "res_fold marshal_instruction o1 is = Inr out'"
    using Cons.prems(1) unfolding res_fold.simps res_bind_Inr by (elim exE conjE)
  obtain t where t: "o1 = out @ concat t" "on_wire (meant_instruction i) t"
    using marshal_instruction_ok [OF o1(1) Cons.prems(2)] by (elim exE conjE)
  have "length (concat t) mod 8 = 0" using t(2) concat_tlvs_aligned by (simp add: on_wire_def)
  from aligned_add [OF Cons.prems(2) this] have "length o1 mod 8 = 0" unfolding t(1) length_append .
  from Cons.IH [OF o1(2) this] obtain ts where ts: "out' = o1 @ concat ts" "on_wire (concat (map meant_instruction is)) ts"
    by (elim exE conjE)
  then show ?case using on_wire_append [OF t(2) ts(2)] t(1) by (intro exI [of _ "t @ ts"]) simp
qed

lemma meant_instructions_concat:
  "meant_instructions flow = concat (map meant_instruction (flow_instructions flow))"
  by (simp add: meant_instructions_def flow_instructions_def meant_instruction_def)

lemma length_flow_mod_header [simp]: "length (flow_mod_header v c f) = 40"
  by (simp add: flow_mod_header_def)

lemma match_length_field:
  assumes "marshalOpenFlowMatch m = Inr bs"
  shows "alignOpenFlowLength (unat (get_be16 (slice 2 4 (bs @ rest)))) 8 = length bs" "4 \<le> length bs"
proof -
  from assms obtain flds where f: "write_blocks (match_blocks m) = Inr flds"
    and bs: "bs = padTo (put_be16 openFlowMatchOXM @ put_be16 (of_nat (4 + length flds)) @ flds) 8"
    by (auto simp: marshalOpenFlowMatch_def res_bind_Inr)
  obtain k where k: "bs = put_be16 openFlowMatchOXM @ put_be16 (of_nat (4 + length flds)) @ flds @ replicate k 0"
      "(4 + length flds + k) mod 8 = 0" "k < 8"
    using padTo_8 [of "put_be16 openFlowMatchOXM @ put_be16 (of_nat (4 + length flds)) @ flds"] bs
    by (auto simp: add.assoc)
  have "unat (of_nat (4 + length flds) :: u16) = 4 + length flds"
    using match_fields_length [OF f] by (intro u16_of_nat) simp
  moreover have "slice 2 4 (bs @ rest) = put_be16 (of_nat (4 + length flds))"
    by (simp add: k slice_def numeral_2_eq_2 put_be16_def)
  ultimately have "unat (get_be16 (slice 2 4 (bs @ rest))) = 4 + length flds" by simp
  moreover have "alignOpenFlowLength (4 + length flds) 8 = 4 + length flds + k"
    by (rule align_pad [OF k(2,3)])
  ultimately show "alignOpenFlowLength (unat (get_be16 (slice 2 4 (bs @ rest)))) 8 = length bs" "4 \<le> length bs"
    by (simp_all add: k(1))
qed

lemma align_up: "8 * ((l + 7) div 8) = alignOpenFlowLength l 8"
proof -
  define q r where "q = l div 8" and "r = l mod 8"
  then have l: "l = 8 * q + r" "r < 8" by simp_all
  have "(l + 7) div 8 = q + (r + 7) div 8" by (simp add: l(1) add.assoc)
  moreover have "(r + 7) div 8 = (if r = 0 then 0 else 1)"
    using l(2) by (auto simp: div_nat_eqI)
  ultimately show ?thesis using l by (auto simp: alignOpenFlowLength_def)
qed

lemma flow_mod_received:
  assumes "MarshalOpenFlowFlowMod v xid c flow = Inr msg" "MarshalOpenFlowMessage msg = Inr data"
    and "mac48 (m_EthSrc (flow_Match flow))" "mac48 (m_EthDst (flow_Match flow))"
  shows "decode_flow_mod data = Some (meant_flow_mod v xid c flow) \<and> length data mod 8 = 0"
proof -
  from assms(1) obtain mb ib where mb: "marshalOpenFlowMatch (flow_Match flow) = Inr mb"
    and ib: "res_fold marshal_instruction [] (flow_instructions flow) = Inr ib"
    and msg: "msg = \<lparr>msg_Version = v, msg_Type = openFlowTypeFlowMod, msg_XID = xid,
      msg_Body = flow_mod_header v c flow @ mb @ ib\<rparr>"
    by (auto simp: MarshalOpenFlowFlowMod_def guard_res_Inr res_bind_Inr marshalOpenFlowInstructions_def)
  obtain ts where ts: "ib = concat ts" "on_wire (meant_instructions flow) ts"
    using marshal_instructions_ok [OF ib] by (auto simp: meant_instructions_concat)
  have len: "length data = 48 + length mb + length ib" "length data < 65536"
    using assms(2) Marshal_length [OF assms(2)] by (simp_all add: Marshal_Inr msg)
  have data: "data = [v, 14] @ put_be16 (of_nat (length data)) @ put_be32 xid @ flow_mod_header v c flow @ mb @ ib"
    using assms(2) by (auto simp: Marshal_Inr msg openFlowTypeFlowMod_def)
  have ins: "split_tlvs ib = Some ts" "those (map decode_instruction ts) = Some (meant_instructions flow)"
    using ts split_tlvs_concat [of ts] len by (simp_all add: on_wire_def those_map_Some)
  define body where "body = flow_mod_header v c flow @ mb @ ib"
  have d: "data ! 0 = v" "data ! 1 = 14" "drop 8 data = body" "unat (get_be16 (drop 2 data)) = length data"
    "get_be32 (drop 4 data) = xid"
    by (subst data, simp add: body_def u16_of_nat len(2))+
  have fields: "get_be64 body = flow_Cookie flow" "get_be64 (drop 8 body) = flow_CookieMask flow"
    "body ! 16 = flow_TableID flow" "body ! 17 = c" "get_be16 (drop 18 body) = flow_IdleTimeout flow"
    "get_be16 (drop 20 body) = flow_HardTimeout flow" "get_be16 (drop 22 body) = flow_Priority flow"
    "get_be32 (drop 24 body) = 0xffffffff" "get_be32 (drop 28 body) = 0xffffffff"
    "get_be32 (drop 32 body) = 0xffffffff" "get_be16 (drop 36 body) = 0"
    "get_be16 (drop 38 body) = (if v = 6 then flow_Importance flow else 0)" "drop 40 body = mb @ ib"
    by (simp_all add: body_def flow_mod_header_def nth_append OpenFlowPortAny_def OpenFlowGroupAny_def OpenFlow15_def)
  have m4: "4 \<le> length mb" "alignOpenFlowLength (unat (get_be16 (drop 42 body))) 8 = length mb"
  proof -
    have "drop 42 body = drop 2 (mb @ ib)" using arg_cong [OF fields(13), of "drop 2"] by simp
    then have "get_be16 (drop 42 body) = get_be16 (slice 2 4 (mb @ ib))"
      by (simp add: slice_def del: drop_append take_append)
    then show "alignOpenFlowLength (unat (get_be16 (drop 42 body))) 8 = length mb" "4 \<le> length mb"
      using match_length_field(1) [OF mb, of ib] match_length_field(2) [OF mb] by simp_all
  qed
  have rest: "drop (40 + length mb) body = ib" by (simp add: body_def)
  have "decode_flow_mod data = Some (meant_flow_mod v xid c flow)"
    using Parse_marshalMatch [OF mb assms(3,4), of ib] len(1) m4
    by (simp add: decode_flow_mod_def d d(2) [unfolded One_nat_def] fields ins rest align_up meant_flow_mod_def Let_def)
  moreover have "length mb mod 8 = 0"
    using mb padTo_length by (auto simp: marshalOpenFlowMatch_def res_bind_Inr)
  moreover have "length ib mod 8 = 0" using ts concat_tlvs_aligned by (simp add: on_wire_def)
  ultimately show ?thesis by (simp add: len(1) mod_eq_0_iff_dvd)
qed

end
