(* ===== verification/Openflow_Client.thy ===== *)
theory Openflow_Client
  imports Openflow_FlowMod
begin

unbundle bit_operations_syntax

text \<open>
  \<^verbatim>\<open>src/openflow_client.go\<close>: endpoints, version negotiation and the session.

  A connection is the bytes the peer sends, the bytes written to it and how many more bytes it
  takes before it breaks (\<open>None\<close>: it never breaks). A context is the
  sequence of answers its \<open>Err()\<close> gives; the session counts the calls, so that a context that
  is cancelled between two steps is covered. The transaction-id counter is the \<open>atomic.Uint32\<close>
  of the client, read and written in program order. The dialer and the OVS client are
  parameters.
\<close>

definition dbOpenFlow :: string where "dbOpenFlow = ''OpenFlow''"

definition ofc_err :: "ErrorKind \<Rightarrow> string \<Rightarrow> string \<Rightarrow> string \<Rightarrow> go_error" where
  "ofc_err kind oper object message = wrap_err kind dbOpenFlow [] oper object message None"

section \<open>Endpoints\<close>

definition parseOpenFlowEndpoint :: "string \<Rightarrow> (string \<times> string) res" where
  "parseOpenFlowEndpoint endpoint0 =
     (let endpoint = strings_TrimSpace endpoint0 in
      if endpoint = [] then Inl (ofc_err ErrorValidation ''parse'' [] ''endpoint is required'')
      else if strings_HasPrefix endpoint ''tcp:'' then
        (let parts = strings_Split (CHR '':'') (strings_TrimPrefix endpoint ''tcp:'') in
         if length parts \<noteq> 2 then Inl (ofc_err ErrorValidation ''parse'' endpoint ''invalid tcp endpoint'')
         else if strconv_Atoi (parts ! 1) = None
         then Inl (wrap_err ErrorValidation dbOpenFlow [] ''parse'' endpoint ''invalid tcp endpoint port''
                (Some (ForeignError ''strconv.Atoi'')))
         else Inr (''tcp'', net_JoinHostPort (parts ! 0) (parts ! 1)))
      else if strings_HasPrefix endpoint ''unix:'' then Inr (''unix'', strings_TrimPrefix endpoint ''unix:'')
      else case net_SplitHostPort endpoint of
        None \<Rightarrow> Inl (wrap_err ErrorValidation dbOpenFlow [] ''parse'' endpoint
                 ''endpoint must be tcp:host:port, host:port, or unix:path''
                 (Some (ForeignError ''net.SplitHostPort'')))
      | Some (host, port) \<Rightarrow> Inr (''tcp'', net_JoinHostPort host port))"

definition endpointFromControllerTarget :: "string \<Rightarrow> string" where
  "endpointFromControllerTarget target0 =
     (let target = strings_TrimSpace target0;
          direct = (if strings_HasPrefix target ''tcp:'' \<or> strings_HasPrefix target ''unix:'' then target else [])
      in if strings_HasPrefix target ''ptcp:'' then
           (case strings_Split (CHR '':'') (strings_TrimPrefix target ''ptcp:'') of
              [port] \<Rightarrow> ''tcp:127.0.0.1:'' @ port
            | [port, host] \<Rightarrow> ''tcp:'' @ host @ '':'' @ port
            | _ \<Rightarrow> direct)
         else direct)"

definition controllerTargetFromEndpoint :: "string \<Rightarrow> string" where
  "controllerTargetFromEndpoint endpoint0 =
     (let endpoint = strings_TrimSpace endpoint0;
          direct = (if strings_HasPrefix endpoint ''unix:'' then endpoint else [])
      in if strings_HasPrefix endpoint ''tcp:'' then
           (case strings_Split (CHR '':'') (strings_TrimPrefix endpoint ''tcp:'') of
              [host, port] \<Rightarrow> ''ptcp:'' @ port @ '':'' @ host
            | _ \<Rightarrow> direct)
         else direct)"

section \<open>Version negotiation\<close>

definition bitmap_versions :: "u32 \<Rightarrow> u8 list" where
  "bitmap_versions bitmap =
     filter (\<lambda>v. v = OpenFlow13 \<or> v = OpenFlow15)
       (map of_nat (filter (\<lambda>b. bitmap AND push_bit b 1 \<noteq> 0) [0..<32]))"

text \<open>The inner loop over the words of a bitmap element: the argument is \<open>Body[i : offset+length]\<close>.\<close>

fun bitmap_words :: "bytes \<Rightarrow> u8 list" where
  "bitmap_words (a # b # c # d # rest) = bitmap_versions (get_be32 [a, b, c, d]) @ bitmap_words rest"
| "bitmap_words _ = []"

text \<open>The outer loop: the argument is \<open>Body[offset:]\<close>, \<open>None\<close> the early \<open>return nil\<close>.\<close>

function hello_elements :: "bytes \<Rightarrow> u8 list option" where
  "hello_elements body =
     (if length body < 4 then Some []
      else let elementType = get_be16 (slice 0 2 body); length' = unat (get_be16 (slice 2 4 body)) in
        if length' < 4 \<or> length' > length body then None
        else map_option ((@) (if elementType = 1 \<and> length' \<ge> 8 then bitmap_words (slice 4 length' body) else []))
               (hello_elements (drop length' body)))"
  by pat_completeness auto
termination
  by (relation "measure length") auto

declare hello_elements.simps [simp del]

definition parseHelloVersions :: "OpenFlowMessage \<Rightarrow> u8 list" where
  "parseHelloVersions msg = (case hello_elements (msg_Body msg) of None \<Rightarrow> [] | Some vs \<Rightarrow> vs)"

definition negotiateOpenFlowVersion :: "u8 list \<Rightarrow> OpenFlowMessage \<Rightarrow> u8 res" where
  "negotiateOpenFlowVersion local peer =
     (let peerVersions = (if parseHelloVersions peer = [] then [msg_Version peer] else parseHelloVersions peer);
          common = filter (\<lambda>v. v \<in> set local) peerVersions
      in if common = [] then Inl (ofc_err ErrorUnsupported ''handshake'' [] ''no common OpenFlow version'')
         else Inr (highestOpenFlowVersion common))"

definition classifyOpenFlowProtocolError :: "OpenFlowProtocolError option \<Rightarrow> ErrorKind" where
  "classifyOpenFlowProtocolError err =
     (case err of None \<Rightarrow> ErrorUnavailable
      | Some e \<Rightarrow> if perr_Type e \<in> {1, 2, 3, 5} then ErrorValidation else ErrorUnsupported)"

definition protocolError :: "OpenFlowMessage \<Rightarrow> go_error" where
  "protocolError msg =
     (case ParseOpenFlowProtocolError msg of
        Inl e \<Rightarrow> e
      | Inr p \<Rightarrow> wrap_err (classifyOpenFlowProtocolError (Some p)) dbOpenFlow [] ''protocol'' []
                 (ProtocolError_text p) (Some (ForeignError (ProtocolError_text p))))"

section \<open>Sessions\<close>

record conn =
  conn_in :: bytes
  conn_out :: bytes
  conn_room :: "nat option"
  conn_closed :: bool

text \<open>\<open>Write\<close> of a connection: a peer that goes away takes a prefix of the bytes and fails the call.\<close>

definition conn_Write :: "conn io_Writer" where
  "conn_Write data c =
     (case conn_room c of
        None \<Rightarrow> (None, c\<lparr>conn_out := conn_out c @ data\<rparr>)
      | Some n \<Rightarrow>
          if length data \<le> n
          then (None, c\<lparr>conn_out := conn_out c @ data, conn_room := Some (n - length data)\<rparr>)
          else (Some (NetError ''broken pipe''),
                c\<lparr>conn_out := conn_out c @ take n data, conn_room := Some 0\<rparr>))"

record OpenFlowSession =
  s_conn :: "conn option"
  s_versions :: "u8 list"
  s_version :: u8
  s_nextXID :: "u32 option"
  s_clock :: nat

type_synonym 'a sess = "OpenFlowSession \<Rightarrow> 'a res \<times> OpenFlowSession"
type_synonym go_ctx = "nat \<Rightarrow> go_error option"

definition s_return :: "'a \<Rightarrow> 'a sess" where "s_return x s = (Inr x, s)"
definition s_fail :: "go_error \<Rightarrow> 'a sess" where "s_fail e s = (Inl e, s)"

definition s_bind :: "'a sess \<Rightarrow> ('a \<Rightarrow> 'b sess) \<Rightarrow> 'b sess" where
  "s_bind m k s = (case m s of (Inl e, s') \<Rightarrow> (Inl e, s') | (Inr x, s') \<Rightarrow> k x s')"

definition s_lift :: "'a res \<Rightarrow> 'a sess" where
  "s_lift r s = (r, s)"

definition session_Close :: "OpenFlowSession option \<Rightarrow> OpenFlowSession option" where
  "session_Close s = map_option (\<lambda>s. s\<lparr>s_conn := map_option (\<lambda>c. c\<lparr>conn_closed := True\<rparr>) (s_conn s)\<rparr>) s"

definition session_Version :: "OpenFlowSession option \<Rightarrow> u8" where
  "session_Version s = (case s of None \<Rightarrow> 0 | Some s \<Rightarrow> s_version s)"

definition session_next :: "u32 sess" where
  "session_next s = (case s_nextXID s of None \<Rightarrow> (Inr 1, s)
     | Some x \<Rightarrow> (Inr (x + 1), s\<lparr>s_nextXID := Some (x + 1)\<rparr>))"

text \<open>One call of \<open>ctx.Err()\<close>.\<close>

definition ctx_Err :: "go_ctx \<Rightarrow> OpenFlowSession \<Rightarrow> go_error option \<times> OpenFlowSession" where
  "ctx_Err ctx s = (ctx (s_clock s), s\<lparr>s_clock := Suc (s_clock s)\<rparr>)"

text \<open>
  \<open>withContextDeadline\<close>: setting a deadline fails exactly on a closed connection; the watcher
  that moves the deadline when the context ends shows up as a failing \<open>fn\<close> together with
  the answer of \<open>ctx.Err()\<close> after it.
\<close>

definition withContextDeadline :: "go_ctx \<Rightarrow> string \<Rightarrow> (conn \<Rightarrow> 'a res \<times> conn) \<Rightarrow> 'a sess" where
  "withContextDeadline ctx oper fn s =
     (case ctx_Err ctx s of
        (Some e, s) \<Rightarrow> (Inl (the (classifyContext (Some e) dbOpenFlow [] oper [])), s)
      | (None, s) \<Rightarrow>
     (case s_conn s of
        None \<Rightarrow> (Inl ErrBackendUnavailable, s)
      | Some c \<Rightarrow>
          if conn_closed c
          then (Inl (the (classifyContext (Some (NetError ''use of closed network connection'')) dbOpenFlow [] oper [])), s)
          else
            let (r, c') = fn c; s = s\<lparr>s_conn := Some c'\<rparr> in
            (case r of
               Inl err \<Rightarrow>
                 (case ctx_Err ctx s of
                    (Some ctxErr, s) \<Rightarrow> (Inl (the (classifyContext (Some ctxErr) dbOpenFlow [] oper [])), s)
                  | (None, s) \<Rightarrow> (Inl (the (classifyContext (Some err) dbOpenFlow [] oper [])), s))
             | Inr x \<Rightarrow>
                 (case ctx_Err ctx s of
                    (Some ctxErr, s) \<Rightarrow> (Inl (the (classifyContext (Some ctxErr) dbOpenFlow [] oper [])), s)
                  | (None, s) \<Rightarrow> (Inr x, s)))))"

definition session_write :: "go_ctx \<Rightarrow> OpenFlowMessage \<Rightarrow> unit sess" where
  "session_write ctx msg = withContextDeadline ctx ''write'' (\<lambda>c.
     case WriteOpenFlowMessage conn_Write msg c of
       (Some e, c) \<Rightarrow> (Inl e, c)
     | (None, c) \<Rightarrow> (Inr (), c))"

definition session_read :: "go_ctx \<Rightarrow> OpenFlowMessage sess" where
  "session_read ctx = withContextDeadline ctx ''read'' (\<lambda>c.
     case ReadOpenFlowMessage (conn_in c) of (r, rest) \<Rightarrow> (r, c\<lparr>conn_in := rest\<rparr>))"

definition Handshake :: "go_ctx \<Rightarrow> unit sess" where
  "Handshake ctx s =
     (if s_conn s = None then (Inl ErrBackendUnavailable, s)
      else let version = highestOpenFlowVersion (s_versions s) in
      s_bind session_next (\<lambda>xid.
      s_bind (s_lift (OpenFlowHelloMessage version xid (s_versions s))) (\<lambda>hello.
      s_bind (session_write ctx hello) (\<lambda>_.
      s_bind (session_read ctx) (\<lambda>peer.
      if msg_Type peer = openFlowTypeError then s_fail (protocolError peer)
      else if msg_Type peer \<noteq> openFlowTypeHello
      then s_fail (ofc_err ErrorConflict ''handshake'' [] ''expected OpenFlow hello'')
      else
      s_bind (s_lift (negotiateOpenFlowVersion (s_versions s) peer)) (\<lambda>selected.
      s_bind (\<lambda>s. (Inr (), s\<lparr>s_version := selected\<rparr>)) (\<lambda>_.
      s_bind session_next (\<lambda>xid.
      s_bind (s_lift (OpenFlowFeaturesRequest selected xid)) (\<lambda>req.
      s_bind (session_write ctx req) (\<lambda>_.
      s_bind (session_read ctx) (\<lambda>reply.
      if msg_Type reply = openFlowTypeError then s_fail (protocolError reply)
      else s_bind (s_lift (ParseOpenFlowFeatures reply)) (\<lambda>_. s_return ()))))))))))) s)"

definition flowMod :: "go_ctx \<Rightarrow> u8 \<Rightarrow> OpenFlowFlow \<Rightarrow> unit sess" where
  "flowMod ctx command flow s =
     (if s_conn s = None then (Inl ErrBackendUnavailable, s)
      else s_bind session_next (\<lambda>xid.
        s_bind (s_lift (MarshalOpenFlowFlowMod (s_version s) xid command flow)) (\<lambda>msg.
          session_write ctx msg)) s)"

definition AddFlow :: "go_ctx \<Rightarrow> OpenFlowFlow \<Rightarrow> unit sess" where
  "AddFlow ctx flow = flowMod ctx openFlowFlowCommandAdd flow"

definition ModifyFlowStrict :: "go_ctx \<Rightarrow> OpenFlowFlow \<Rightarrow> unit sess" where
  "ModifyFlowStrict ctx flow = flowMod ctx openFlowFlowCommandModifyStrict flow"

definition session_DeleteFlow :: "go_ctx \<Rightarrow> OpenFlowFlow \<Rightarrow> unit sess" where
  "session_DeleteFlow ctx flow =
     flowMod ctx openFlowFlowCommandDelete
       (if flow_CookieMask flow = 0 then flow\<lparr>flow_CookieMask := NOT 0\<rparr> else flow)"

text \<open>The reply loop of \<open>DumpFlows\<close> ends because every message read consumes bytes of the peer.\<close>

definition in_len :: "OpenFlowSession \<Rightarrow> nat" where
  "in_len s = (case s_conn s of None \<Rightarrow> 0 | Some c \<Rightarrow> length (conn_in c))"

lemma Read_consumes:
  assumes "ReadOpenFlowMessage r = (Inr m, r')"
  shows "length r' < length r"
proof -
  have "8 \<le> length r" using assms by (auto simp: ReadOpenFlowMessage_def io_ReadFull_def openFlowHeaderLen_def split: if_splits)
  then show ?thesis
    using assms by (auto simp: ReadOpenFlowMessage_def io_ReadFull_def openFlowHeaderLen_def Let_def split: if_splits)
qed

lemma withContextDeadline_Inr:
  "withContextDeadline ctx oper fn s = (Inr x, s') \<longleftrightarrow>
     (\<exists>c c'. s_conn s = Some c \<and> \<not> conn_closed c \<and> fn c = (Inr x, c') \<and> ctx (s_clock s) = None
        \<and> ctx (Suc (s_clock s)) = None \<and> s' = s\<lparr>s_conn := Some c', s_clock := Suc (Suc (s_clock s))\<rparr>)"
  by (cases "s_conn s") (auto simp: withContextDeadline_def ctx_Err_def Let_def case_prod_unfold
      prod_eq_iff split: option.splits sum.splits)

lemma session_read_Inr:
  "session_read ctx s = (Inr m, s') \<longleftrightarrow>
     (\<exists>c rest. s_conn s = Some c \<and> \<not> conn_closed c \<and> ReadOpenFlowMessage (conn_in c) = (Inr m, rest)
        \<and> ctx (s_clock s) = None \<and> ctx (Suc (s_clock s)) = None
        \<and> s' = s\<lparr>s_conn := Some (c\<lparr>conn_in := rest\<rparr>), s_clock := Suc (Suc (s_clock s))\<rparr>)"
  unfolding session_read_def withContextDeadline_Inr by (auto simp: case_prod_unfold prod_eq_iff)

lemma session_read_consumes: "session_read ctx s = (Inr m, s') \<Longrightarrow> in_len s' < in_len s"
  by (auto simp: session_read_Inr in_len_def dest: Read_consumes)

function dump_loop :: "go_ctx \<Rightarrow> OpenFlowMessage list \<Rightarrow> OpenFlowMessage list sess" where
  "dump_loop ctx out s =
     (case session_read ctx s of
        (Inl e, s') \<Rightarrow> (Inl e, s')
      | (Inr reply, s') \<Rightarrow>
          if msg_Type reply = openFlowTypeError then (Inl (protocolError reply), s')
          else if msg_Type reply \<noteq> openFlowTypeMultipartReply
          then (Inl (ofc_err ErrorConflict ''dump'' ''flows'' ''expected multipart reply''), s')
          else case ParseOpenFlowMultipartReply reply of
            Inl e \<Rightarrow> (Inl e, s')
          | Inr (_, flags, _) \<Rightarrow>
              if flags AND 1 = 0 then (Inr (out @ [reply]), s') else dump_loop ctx (out @ [reply]) s')"
  by pat_completeness auto
termination
  by (relation "measure (\<lambda>(ctx, out, s). in_len s)") (auto dest: session_read_consumes [OF sym])

declare dump_loop.simps [simp del]

definition DumpFlows :: "go_ctx \<Rightarrow> OpenFlowFlowStatsRequest \<Rightarrow> OpenFlowMessage list sess" where
  "DumpFlows ctx request s =
     (if s_conn s = None then (Inl ErrBackendUnavailable, s)
      else s_bind session_next (\<lambda>xid.
        s_bind (s_lift (MarshalOpenFlowFlowStatsRequest (s_version s) xid request)) (\<lambda>msg.
        s_bind (session_write ctx msg) (\<lambda>_. dump_loop ctx []))) s)"

section \<open>The client\<close>

record OpenFlowConfig =
  cfg_Endpoint :: string
  cfg_Versions :: "u8 list"
  cfg_AutoConfigureBridgeController :: bool
  cfg_ControllerTarget :: string

record OpenFlowClient =
  cl_config :: OpenFlowConfig
  cl_xid :: u32

definition NewOpenFlowClient :: "OpenFlowConfig \<Rightarrow> OpenFlowClient" where
  "NewOpenFlowClient config = \<lparr>cl_config = config, cl_xid = 0\<rparr>"

definition WithEndpoint :: "OpenFlowClient \<Rightarrow> string \<Rightarrow> OpenFlowClient" where
  "WithEndpoint c endpoint = c\<lparr>cl_config := (cl_config c)\<lparr>cfg_Endpoint := endpoint\<rparr>\<rparr>"

definition WithVersions :: "OpenFlowClient \<Rightarrow> u8 list \<Rightarrow> OpenFlowClient" where
  "WithVersions c versions = c\<lparr>cl_config := (cl_config c)\<lparr>cfg_Versions := versions\<rparr>\<rparr>"

definition AutoConfigureBridgeController :: "OpenFlowClient \<Rightarrow> string \<Rightarrow> OpenFlowClient" where
  "AutoConfigureBridgeController c target = c\<lparr>cl_config := (cl_config c)
     \<lparr>cfg_AutoConfigureBridgeController := True, cfg_ControllerTarget := target\<rparr>\<rparr>"

text \<open>
  \<open>Dial\<close>, with the dialer as a parameter: what the peer at an address will send, or the error
  of connecting. The client comes back with its advanced transaction-id counter.
\<close>

definition Dial :: "(string \<Rightarrow> string \<Rightarrow> conn res) \<Rightarrow> go_ctx \<Rightarrow> OpenFlowClient option
    \<Rightarrow> OpenFlowSession res \<times> OpenFlowClient option" where
  "Dial dialer ctx client =
     (case client of
        None \<Rightarrow> (Inl ErrBackendUnavailable, None)
      | Some c \<Rightarrow>
          let endpoint = (if cfg_Endpoint (cl_config c) = []
            then endpointFromControllerTarget (cfg_ControllerTarget (cl_config c)) else cfg_Endpoint (cl_config c)) in
          if endpoint = [] then (Inl (ofc_err ErrorValidation ''connect'' [] ''OpenFlow endpoint is required''), Some c)
          else case normalizeOpenFlowVersions (cfg_Versions (cl_config c)) of
            Inl e \<Rightarrow> (Inl e, Some c)
          | Inr versions \<Rightarrow>
          case parseOpenFlowEndpoint endpoint of
            Inl e \<Rightarrow> (Inl e, Some c)
          | Inr (network, address) \<Rightarrow>
          case dialer network address of
            Inl e \<Rightarrow> (Inl (the (classifyContext (Some e) dbOpenFlow [] ''connect'' endpoint)), Some c)
          | Inr cn \<Rightarrow>
              (case Handshake ctx \<lparr>s_conn = Some cn, s_versions = versions,
                   s_version = highestOpenFlowVersion versions, s_nextXID = Some (cl_xid c), s_clock = 0\<rparr> of
                 (r, s) \<Rightarrow>
                   let c' = c\<lparr>cl_xid := (case s_nextXID s of None \<Rightarrow> cl_xid c | Some x \<Rightarrow> x)\<rparr> in
                   (case r of Inl e \<Rightarrow> (Inl e, Some c') | Inr _ \<Rightarrow> (Inr s, Some c'))))"

text \<open>The OVS client as a parameter: \<open>None\<close> when there is none, else what ensuring the target returns.\<close>

definition ConfigureBridgeController ::
  "(string \<Rightarrow> string \<Rightarrow> check) option \<Rightarrow> OpenFlowClient option \<Rightarrow> string \<Rightarrow> check" where
  "ConfigureBridgeController ovs client bridge =
     (case client of
        None \<Rightarrow> Some ErrBackendUnavailable
      | Some c \<Rightarrow>
          let target = (if cfg_ControllerTarget (cl_config c) = []
            then controllerTargetFromEndpoint (cfg_Endpoint (cl_config c)) else cfg_ControllerTarget (cl_config c)) in
          if target = []
          then Some (wrap_err ErrorValidation dbOpenFlow ''Bridge'' ''configure'' bridge ''controller target is required'' None)
          else case ovs of None \<Rightarrow> Some ErrBackendUnavailable | Some ensure \<Rightarrow> ensure bridge target)"

end
