(* ===== verification/Openflow_Session.thy ===== *)
theory Openflow_Session
  imports Openflow_Client
begin

unbundle bit_operations_syntax

text \<open>
  Correctness of version negotiation and of the session: the handshake against a conforming
  peer, the reply loop of \<open>DumpFlows\<close>, and what reaches the switch.
\<close>

section \<open>Versions\<close>

lemma valid_version: "validateOpenFlowVersion v = None \<longleftrightarrow> v = OpenFlow13 \<or> v = OpenFlow15"
  by (auto simp: validateOpenFlowVersion_def)

lemma foldl_max_in: "foldl (\<lambda>out v. if v > out then v else out) x vs \<in> set (x # vs)"
  by (induction vs arbitrary: x) auto

lemma foldl_max_ge:
  fixes x :: "'a :: linorder"
  shows "\<forall>w\<in>set (x # vs). w \<le> foldl (\<lambda>out v. if v > out then v else out) x vs"
proof (induction vs arbitrary: x)
  case (Cons v vs)
  let ?x = "if v > x then v else x"
  have "x \<le> ?x" "v \<le> ?x" by auto
  moreover have "?x \<le> foldl (\<lambda>out v. if v > out then v else out) ?x vs"
    "\<forall>w\<in>set vs. w \<le> foldl (\<lambda>out v. if v > out then v else out) ?x vs" using Cons [of ?x] by simp_all
  ultimately show ?case by (auto intro: order_trans simp del: if_split)
qed simp

lemma highest_in: "vs \<noteq> [] \<Longrightarrow> highestOpenFlowVersion vs \<in> set vs"
  unfolding highestOpenFlowVersion_def using foldl_max_in by (cases vs) auto

lemma highest_ge: "v \<in> set vs \<Longrightarrow> v \<le> highestOpenFlowVersion vs"
  unfolding highestOpenFlowVersion_def using foldl_max_ge by (cases vs) auto

lemma highest_Max: "vs \<noteq> [] \<Longrightarrow> highestOpenFlowVersion vs = Max (set vs)"
  by (intro Max_eqI [symmetric]) (auto intro: highest_in highest_ge)

lemma hello_bit_Inr:
  "hello_bit b v = Inr b' \<longleftrightarrow> (v = OpenFlow13 \<or> v = OpenFlow15) \<and> b' = b OR push_bit (unat v) 1"
  by (auto simp: hello_bit_def guard_res_Inr valid_version OpenFlow13_def OpenFlow15_def)

lemma hello_bits:
  "res_fold hello_bit b vs = Inr b' \<Longrightarrow>
   (\<forall>v\<in>set vs. v = OpenFlow13 \<or> v = OpenFlow15) \<and>
   (bit b' 4 \<longleftrightarrow> bit b 4 \<or> OpenFlow13 \<in> set vs) \<and> (bit b' 6 \<longleftrightarrow> bit b 6 \<or> OpenFlow15 \<in> set vs)"
proof (induction vs arbitrary: b)
  case (Cons v vs)
  then have v: "v = OpenFlow13 \<or> v = OpenFlow15"
    and r: "res_fold hello_bit (b OR push_bit (unat v) 1) vs = Inr b'"
    by (auto simp: res_bind_Inr hello_bit_Inr)
  have "bit (b OR push_bit (unat v) 1) 4 \<longleftrightarrow> bit b 4 \<or> v = OpenFlow13"
    "bit (b OR push_bit (unat v) 1) 6 \<longleftrightarrow> bit b 6 \<or> v = OpenFlow15"
    using v by (auto simp: OpenFlow13_def OpenFlow15_def bit_simps)
  with v Cons.IH [OF r] show ?case by auto
qed simp

lemma bitmap_versions_eq:
  "bitmap_versions b = (if bit b 4 then [OpenFlow13] else []) @ (if bit b 6 then [OpenFlow15] else [])"
proof -
  have n: "b AND push_bit k 1 \<noteq> 0 \<longleftrightarrow> bit b k" for k
    by (simp add: bit_iff_and_push_bit_not_eq_0)
  have v: "(of_nat k = OpenFlow13 \<or> of_nat k = OpenFlow15) \<longleftrightarrow> k = 4 \<or> k = 6" if "k < 32" for k :: nat
    using that by (simp add: OpenFlow13_def OpenFlow15_def word_unat_eq_iff unat_of_nat)
  have "bitmap_versions b = map of_nat (filter (\<lambda>k. bit b k \<and> (k = 4 \<or> k = 6)) [0..<32])"
    unfolding bitmap_versions_def n filter_map filter_filter comp_def
    by (intro arg_cong [where f = "map of_nat"] filter_cong) (auto simp: v)
  also have "filter (\<lambda>k. bit b k \<and> (k = 4 \<or> k = 6)) [0..<32] = filter (bit b) (filter (\<lambda>k. k = 4 \<or> k = 6) [0..<32])"
    by (simp add: conj_commute)
  also have "filter (\<lambda>k :: nat. k = 4 \<or> k = 6) [0..<32] = [4, 6]" by code_simp
  finally show ?thesis by (simp add: OpenFlow13_def OpenFlow15_def)
qed

lemma hello_elements_one:
  assumes "length body = 8" "get_be16 (slice 0 2 body) = 1" "unat (get_be16 (slice 2 4 body)) = 8"
  shows "hello_elements body = Some (bitmap_words (slice 4 8 body))"
proof -
  have "hello_elements (drop 8 body) = Some []"
    using assms(1) by (subst hello_elements.simps) simp
  then show ?thesis
    using assms by (subst hello_elements.simps) (simp add: Let_def)
qed

lemma hello_elements_own: "hello_elements (put_be16 1 @ put_be16 8 @ put_be32 b) = Some (bitmap_versions b)"
proof -
  let ?d = "put_be16 1 @ put_be16 8 @ put_be32 b"
  obtain x y z w where xs: "put_be32 b = [x, y, z, w]" by (auto simp: put_be32_def)
  have w: "bitmap_words (put_be32 b) = bitmap_versions b"
    using get_put_be_nil(2) [of b] by (simp add: xs)
  have s: "slice 4 8 ?d = put_be32 b" "slice 2 4 ?d = put_be16 8" by (simp_all add: slice_def)
  have "hello_elements ?d = Some (bitmap_words (slice 4 8 ?d))"
    by (rule hello_elements_one) (simp_all add: s)
  then show ?thesis unfolding s w .
qed

lemma parseHello_own:
  assumes "OpenFlowHelloMessage version xid vs = Inr m" "vs \<noteq> []"
  shows "set (parseHelloVersions m) = set vs" "msg_Type m = openFlowTypeHello" "msg_Version m = version"
proof -
  from assms obtain b where b: "res_fold hello_bit 0 vs = Inr b"
    and m: "m = \<lparr>msg_Version = version, msg_Type = openFlowTypeHello, msg_XID = xid,
             msg_Body = put_be16 1 @ put_be16 8 @ put_be32 b\<rparr>"
    by (auto simp: OpenFlowHelloMessage_def guard_res_Inr res_bind_Inr)
  have "parseHelloVersions m = bitmap_versions b"
    by (simp add: parseHelloVersions_def m hello_elements_own)
  then show "set (parseHelloVersions m) = set vs"
    using hello_bits [OF b] by (auto simp: bitmap_versions_eq)
  show "msg_Type m = openFlowTypeHello" "msg_Version m = version" by (simp_all add: m)
qed

text \<open>The versions a peer offers: its bitmap, or the version of its hello when there is none.\<close>

definition offered :: "OpenFlowMessage \<Rightarrow> u8 set" where
  "offered peer = set (if parseHelloVersions peer = [] then [msg_Version peer] else parseHelloVersions peer)"

lemma negotiate_spec:
  "negotiateOpenFlowVersion local peer =
     (if set local \<inter> offered peer = {}
      then Inl (ofc_err ErrorUnsupported ''handshake'' [] ''no common OpenFlow version'')
      else Inr (Max (set local \<inter> offered peer)))"
proof -
  let ?pv = "if parseHelloVersions peer = [] then [msg_Version peer] else parseHelloVersions peer"
  have "set (filter (\<lambda>v. v \<in> set local) ?pv) = set local \<inter> offered peer" by (auto simp: offered_def)
  then show ?thesis
    unfolding negotiateOpenFlowVersion_def Let_def
    by (cases "filter (\<lambda>v. v \<in> set local) ?pv = []") (auto simp: highest_Max simp del: filter_empty_conv)
qed

section \<open>The handshake\<close>

lemma s_bind_Inr: "s_bind m k s = (Inr y, s') \<longleftrightarrow> (\<exists>x s1. m s = (Inr x, s1) \<and> k x s1 = (Inr y, s'))"
  by (auto simp: s_bind_def split: prod.splits sum.splits)

lemma s_bind_step [res_simps]: "m s = (Inr x, s1) \<Longrightarrow> s_bind m k s = k x s1"
  by (simp add: s_bind_def)

lemma s_lift_Inr: "s_lift r s = (Inr x, s') \<longleftrightarrow> r = Inr x \<and> s' = s"
  by (auto simp: s_lift_def)

lemma s_fail_Inr [simp]: "s_fail e s \<noteq> (Inr x, s')"
  by (simp add: s_fail_def)

lemma conn_Write_None:
  "conn_Write bs c = (None, c') \<Longrightarrow>
   conn_out c' = conn_out c @ bs \<and> conn_in c' = conn_in c \<and> conn_closed c' = conn_closed c"
  by (auto simp: conn_Write_def split: option.splits if_splits)

lemma conn_Write_roomy: "conn_room c = None \<Longrightarrow> conn_Write bs c = (None, c\<lparr>conn_out := conn_out c @ bs\<rparr>)"
  by (simp add: conn_Write_def)

lemma session_write_Inr:
  "session_write ctx m s = (Inr (), s') \<longleftrightarrow>
     (\<exists>c bs c'. s_conn s = Some c \<and> \<not> conn_closed c \<and> MarshalOpenFlowMessage m = Inr bs
        \<and> conn_Write bs c = (None, c') \<and> ctx (s_clock s) = None \<and> ctx (Suc (s_clock s)) = None
        \<and> s' = s\<lparr>s_conn := Some c', s_clock := Suc (Suc (s_clock s))\<rparr>)"
proof -
  have "(case WriteOpenFlowMessage conn_Write m c of (Some e, c) \<Rightarrow> (Inl e, c) | (None, c) \<Rightarrow> (Inr (), c)) = (Inr (), c')
      \<longleftrightarrow> (\<exists>bs. MarshalOpenFlowMessage m = Inr bs \<and> conn_Write bs c = (None, c'))" for c c'
    by (auto simp: WriteOpenFlowMessage_def split: sum.splits prod.splits option.splits)
  then show ?thesis unfolding session_write_def withContextDeadline_Inr by blast
qed

lemma session_next_Inr: "s_nextXID s = Some x \<Longrightarrow> session_next s = (Inr (x + 1), s\<lparr>s_nextXID := Some (x + 1)\<rparr>)"
  by (simp add: session_next_def)

text \<open>What a successful handshake has done, whatever the peer sent.\<close>

lemma Handshake_Inr:
  assumes "Handshake ctx s = (Inr (), s')"
  obtains peer where "msg_Type peer = openFlowTypeHello"
    "negotiateOpenFlowVersion (s_versions s) peer = Inr (s_version s')" "s_versions s' = s_versions s"
proof -
  have n: "session_next s = (Inr x, s1) \<Longrightarrow> s_versions s1 = s_versions s \<and> s_version s1 = s_version s" for s x s1
    by (auto simp: session_next_def split: option.splits)
  have w: "session_write ctx m s = (Inr (), s1) \<Longrightarrow> s_versions s1 = s_versions s \<and> s_version s1 = s_version s" for m s s1
    by (auto simp: session_write_Inr)
  have r: "session_read ctx s = (Inr m, s1) \<Longrightarrow> s_versions s1 = s_versions s \<and> s_version s1 = s_version s" for m s s1
    by (auto simp: session_read_Inr)
  from assms show thesis
    by (auto simp: Handshake_def Let_def s_bind_Inr s_lift_Inr s_return_def split: if_splits
        dest!: n w r intro!: that)
qed

text \<open>And what it has written: its hello, then its request for the features, and nothing else.\<close>

lemma Handshake_out:
  assumes "Handshake ctx s = (Inr (), s')" and c: "s_conn s = Some c" and x: "s_nextXID s = Some x"
  obtains hello req hb fb d where
    "OpenFlowHelloMessage (highestOpenFlowVersion (s_versions s)) (x + 1) (s_versions s) = Inr hello"
    "OpenFlowFeaturesRequest (s_version s') (x + 2) = Inr req"
    "MarshalOpenFlowMessage hello = Inr hb" "MarshalOpenFlowMessage req = Inr fb"
    "s_conn s' = Some d" "conn_out d = conn_out c @ hb @ fb" "s_nextXID s' = Some (x + 2)"
proof -
  define s0 where "s0 = s\<lparr>s_nextXID := Some (x + 1)\<rparr>"
  have n0: "session_next s = (Inr (x + 1), s0)" by (simp add: session_next_def x s0_def)
  from assms(1) obtain hello s1 peer s2 v req s3 reply where
    hello: "OpenFlowHelloMessage (highestOpenFlowVersion (s_versions s)) (x + 1) (s_versions s) = Inr hello"
    and w1: "session_write ctx hello s0 = (Inr (), s1)" and r1: "session_read ctx s1 = (Inr peer, s2)"
    and req: "OpenFlowFeaturesRequest v (x + 1 + 1) = Inr req"
    and w2: "session_write ctx req (s2\<lparr>s_version := v, s_nextXID := Some (x + 1 + 1)\<rparr>) = (Inr (), s3)"
    and r2: "session_read ctx s3 = (Inr reply, s')"
  proof -
    have nx: "session_next (t\<lparr>s_version := v\<rparr>) = (Inr y, t') \<Longrightarrow> s_nextXID t = Some z \<Longrightarrow>
        y = z + 1 \<and> t' = t\<lparr>s_version := v, s_nextXID := Some (z + 1)\<rparr>" for t v y t' z
      by (auto simp: session_next_def)
    have wx: "session_write ctx m s0 = (Inr (), t) \<Longrightarrow> session_read ctx t = (Inr m', t') \<Longrightarrow>
        s_nextXID t' = Some (x + 1)" for m t m' t'
      by (auto simp: session_write_Inr session_read_Inr s0_def)
    from assms(1) show thesis
      unfolding Handshake_def Let_def
      by (auto simp: c n0 s_bind_Inr s_lift_Inr s_return_def split: if_splits dest!: nx [OF _ wx] intro!: that)
  qed
  obtain hb c1 where hb: "MarshalOpenFlowMessage hello = Inr hb" "conn_Write hb c = (None, c1)" "s_conn s1 = Some c1"
    using w1 by (auto simp: session_write_Inr s0_def c)
  obtain c2 where c2: "s_conn s2 = Some c2" "conn_out c2 = conn_out c1"
    using r1 hb(3) by (auto simp: session_read_Inr)
  obtain fb c3 where fb: "MarshalOpenFlowMessage req = Inr fb" "conn_Write fb c2 = (None, c3)" "s_conn s3 = Some c3"
    "s_nextXID s3 = Some (x + 2)" "s_version s3 = v"
    using w2 by (auto simp: session_write_Inr c2)
  obtain d where d: "s_conn s' = Some d" "conn_out d = conn_out c3" "s_nextXID s' = Some (x + 2)" "s_version s' = v"
    using r2 fb(3-5) by (auto simp: session_read_Inr)
  have "OpenFlowFeaturesRequest (s_version s') (x + 2) = Inr req" using req d(4) by (simp add: add.assoc)
  moreover have "conn_out d = conn_out c @ hb @ fb"
    using conn_Write_None [OF hb(2)] conn_Write_None [OF fb(2)] d(2) c2(2) by simp
  ultimately show thesis using that hello hb(1) fb(1) d(1,3) by blast
qed

lemma Handshake_conforming:
  assumes conn: "s_conn s = Some c" "\<not> conn_closed c" "conn_room c = None" "s_nextXID s = Some x" and ctx: "\<And>n. ctx n = None"
    and own: "OpenFlowHelloMessage (highestOpenFlowVersion (s_versions s)) (x + 1) (s_versions s) = Inr hello"
      "MarshalOpenFlowMessage hello = Inr hb"
    and peer: "MarshalOpenFlowMessage peer = Inr pb" "msg_Type peer = openFlowTypeHello"
    and sel: "negotiateOpenFlowVersion (s_versions s) peer = Inr v" "validateOpenFlowVersion v = None"
    and reply: "MarshalOpenFlowMessage reply = Inr rb" "msg_Type reply = openFlowTypeFeaturesReply"
      "24 \<le> length (msg_Body reply)"
    and stream: "conn_in c = pb @ rb @ rest"
  shows "\<exists>fb. MarshalOpenFlowMessage \<lparr>msg_Version = v, msg_Type = openFlowTypeFeaturesRequest, msg_XID = x + 2,
        msg_Body = []\<rparr> = Inr fb
    \<and> Handshake ctx s = (Inr (), s\<lparr>s_conn := Some (c\<lparr>conn_in := rest, conn_out := conn_out c @ hb @ fb\<rparr>),
        s_version := v, s_nextXID := Some (x + 2), s_clock := s_clock s + 8\<rparr>)"
proof -
  define req where "req = \<lparr>msg_Version = v, msg_Type = openFlowTypeFeaturesRequest, msg_XID = x + 2, msg_Body = []\<rparr>"
  obtain fb where fb: "MarshalOpenFlowMessage req = Inr fb"
    using sel(2) by (simp add: Marshal_Inr req_def)
  have req: "OpenFlowFeaturesRequest v (2 + x) = Inr req"
    using sel(2) by (simp add: OpenFlowFeaturesRequest_def req_def)
  have w: "session_write ctx m t = (Inr (), t\<lparr>s_conn := Some (d\<lparr>conn_out := conn_out d @ bs\<rparr>), s_clock := s_clock t + 2\<rparr>)"
    if "s_conn t = Some d" "\<not> conn_closed d" "conn_room d = None" "MarshalOpenFlowMessage m = Inr bs" for m t d bs
    using that ctx by (simp add: session_write_Inr conn_Write_roomy)
  have r: "session_read ctx t = (Inr m, t\<lparr>s_conn := Some (d\<lparr>conn_in := q\<rparr>), s_clock := s_clock t + 2\<rparr>)"
    if "s_conn t = Some d" "\<not> conn_closed d" "MarshalOpenFlowMessage m = Inr bs" "conn_in d = bs @ q" for m t d bs q
    using that ctx by (simp add: session_read_Inr Read_Marshal)
  have "\<exists>feat. ParseOpenFlowFeatures reply = Inr feat"
    using reply by (simp add: ParseOpenFlowFeatures_def Let_def)
  then obtain feat where "ParseOpenFlowFeatures reply = Inr feat" ..
  moreover have "openFlowTypeHello \<noteq> openFlowTypeError" "openFlowTypeFeaturesReply \<noteq> openFlowTypeError"
    by (simp_all add: openFlowTypeHello_def openFlowTypeError_def openFlowTypeFeaturesReply_def)
  moreover have "x + 1 + 1 = x + 2" by simp
  ultimately have "Handshake ctx s = (Inr (), s\<lparr>s_conn := Some (c\<lparr>conn_in := rest, conn_out := conn_out c @ hb @ fb\<rparr>),
        s_version := v, s_nextXID := Some (x + 2), s_clock := s_clock s + 8\<rparr>)"
    using conn own peer sel reply stream fb req
    by (simp add: Handshake_def Let_def s_bind_def s_lift_def s_return_def session_next_def w r)
  then show ?thesis using fb unfolding req_def by blast
qed

section \<open>Multipart replies\<close>

definition multipart :: "bool \<Rightarrow> OpenFlowMessage \<Rightarrow> bool" where
  "multipart more_follow m \<longleftrightarrow> msg_Type m = openFlowTypeMultipartReply \<and> 8 \<le> length (msg_Body m)
     \<and> (get_be16 (slice 2 4 (msg_Body m)) AND 1 = 0 \<longleftrightarrow> \<not> more_follow)"

lemma encode_message_Some: "encode_message m = Some bs \<longleftrightarrow> MarshalOpenFlowMessage m = Inr bs"
  by (simp add: encode_message_def split: sum.splits)

lemma dump_loop_step:
  assumes "s_conn s = Some c" "\<not> conn_closed c" "\<And>n. ctx n = None"
    and "MarshalOpenFlowMessage m = Inr bs" "multipart more_follow m" "conn_in c = bs @ rest"
  defines "s' \<equiv> s\<lparr>s_conn := Some (c\<lparr>conn_in := rest\<rparr>), s_clock := s_clock s + 2\<rparr>"
  shows "dump_loop ctx out s = (if more_follow then dump_loop ctx (out @ [m]) s' else (Inr (out @ [m]), s'))"
proof -
  have "session_read ctx s = (Inr m, s')"
    unfolding session_read_Inr using assms(1-6) Read_Marshal [OF assms(4), of rest] by (simp add: s'_def)
  moreover have "openFlowTypeMultipartReply \<noteq> openFlowTypeError"
    by (simp add: openFlowTypeMultipartReply_def openFlowTypeError_def)
  ultimately show ?thesis
    using assms(5) by (subst dump_loop.simps) (simp add: multipart_def ParseOpenFlowMultipartReply_def Let_def)
qed

lemma dump_loop_all:
  assumes "s_conn s = Some c" "\<not> conn_closed c" "\<And>n. ctx n = None"
    and "message.encode_all (rs @ [lst]) = Some bs" "list_all (multipart True) rs" "multipart False lst"
    and "conn_in c = bs @ rest"
  shows "\<exists>k. dump_loop ctx out s = (Inr (out @ rs @ [lst]), s\<lparr>s_conn := Some (c\<lparr>conn_in := rest\<rparr>), s_clock := k\<rparr>)"
  using assms
proof (induction rs arbitrary: s c out bs)
  case Nil
  then have "MarshalOpenFlowMessage lst = Inr bs" by (auto simp: encode_message_Some split: option.splits)
  from dump_loop_step [OF Nil.prems(1-3) this Nil.prems(6,7)] show ?case by auto
next
  case (Cons r rs)
  from Cons.prems(4) obtain b bs' where b: "MarshalOpenFlowMessage r = Inr b"
    and bs': "message.encode_all (rs @ [lst]) = Some bs'" "bs = b @ bs'"
    by (auto simp: encode_message_Some split: option.splits)
  let ?s = "s\<lparr>s_conn := Some (c\<lparr>conn_in := bs' @ rest\<rparr>), s_clock := s_clock s + 2\<rparr>"
  have "multipart True r" "list_all (multipart True) rs" using Cons.prems(5) by simp_all
  from dump_loop_step [OF Cons.prems(1-3) b this(1), where rest = "bs' @ rest" and out = out] Cons.prems(7) bs'(2)
  have "dump_loop ctx out s = dump_loop ctx (out @ [r]) ?s" by simp
  moreover have "\<exists>k. dump_loop ctx (out @ [r]) ?s =
      (Inr ((out @ [r]) @ rs @ [lst]), ?s\<lparr>s_conn := Some (c\<lparr>conn_in := bs' @ rest, conn_in := rest\<rparr>), s_clock := k\<rparr>)"
    using Cons.prems(2,3,6) bs'(1) \<open>list_all (multipart True) rs\<close> by (intro Cons.IH) simp_all
  ultimately show ?case by simp
qed

end
