(* ===== verification/Planning.thy ===== *)
theory Planning
  imports Util
begin

text \<open>
  \<^verbatim>\<open>src/planning.go\<close> and \<^verbatim>\<open>src/gates.go\<close>: plans, diffs and their results, shared by every intent,
  and the environment gates. The \<open>any\<close> values of a diff are a type parameter, \<open>nil\<close> is \<open>None\<close>.
\<close>

datatype IntentAction = IntentActionEnsure | IntentActionDelete | IntentActionInspect | IntentActionPatch

record PlannedOperation =
  op_Action :: IntentAction
  op_Resource :: string
  op_Name :: string
  op_Description :: string

record Plan =
  plan_Operations :: "PlannedOperation list"
  plan_Warnings :: "string list"

definition Plan_Empty :: "Plan \<Rightarrow> bool" where
  "Plan_Empty p \<longleftrightarrow> length (plan_Operations p) = 0 \<and> length (plan_Warnings p) = 0"

record 'v DiffChange =
  ch_Path :: string
  ch_Before :: "'v option"
  ch_After :: "'v option"

record 'v Diff =
  diff_Resource :: string
  diff_Name :: string
  diff_Changes :: "'v DiffChange list"

definition Diff_Empty :: "'v Diff \<Rightarrow> bool" where
  "Diff_Empty d \<longleftrightarrow> length (diff_Changes d) = 0"

record 'v DryRunResult =
  dry_Plan :: Plan
  dry_Diff :: "'v Diff"

record 'v ReconcileResult =
  rec_Plan :: Plan
  rec_Diff :: "'v Diff"
  rec_Applied :: bool

section \<open>Environment gates\<close>

definition EnvGateEnabled :: "string \<Rightarrow> bool" where
  "EnvGateEnabled value = (strings_ToLower (strings_TrimSpace value) \<in> set [''1'', ''true'', ''yes'', ''on''])"

definition ValidNATBackend :: "string \<Rightarrow> bool" where
  "ValidNATBackend value =
     (strings_ToLower (strings_TrimSpace value) \<in> set ['''', ''auto'', ''nftables'', ''iptables''])"

end
