(* ===== verification/Openflow_Intent.thy ===== *)
theory Openflow_Intent
  imports Openflow_Session Planning
begin

unbundle bit_operations_syntax

text \<open>
  \<^verbatim>\<open>src/openflow_intent.go\<close>: the rule builder on top of the client. A builder is single use;
  its cookie must stay in the namespace the SDK reserves for itself.
\<close>

section \<open>Cookies\<close>

definition openFlowCookieNamespace :: u64 where "openFlowCookieNamespace = 0x0f0f000000000000"
definition openFlowCookieMask :: u64 where "openFlowCookieMask = 0xffff000000000000"

text \<open>\<open>hash/fnv\<close>: the 64-bit FNV-1a hash, byte by byte.\<close>

definition fnv64a_write :: "u64 \<Rightarrow> bytes \<Rightarrow> u64" where
  "fnv64a_write h bs = foldl (\<lambda>h b. (h XOR ucast b) * 1099511628211) h bs"

definition fnv64a_init :: u64 where "fnv64a_init = 14695981039346656037"

definition text_bytes :: "string \<Rightarrow> bytes" where
  "text_bytes s = map (\<lambda>c. of_nat (of_char c)) s"

definition openFlowCookieForName :: "string \<Rightarrow> string \<Rightarrow> u64" where
  "openFlowCookieForName bridge name =
     (let h = fnv64a_write fnv64a_init (text_bytes (strings_ToLower bridge));
          h = fnv64a_write h [0];
          h = fnv64a_write h (text_bytes (strings_ToLower name))
      in openFlowCookieNamespace OR (h AND NOT openFlowCookieMask))"

section \<open>The builder\<close>

record OpenFlowRuleBuilder =
  rb_used :: bool
  rb_client :: "OpenFlowClient option"
  rb_flow :: OpenFlowFlow
  rb_delete :: bool

definition empty_owner :: OwnerRef where
  "empty_owner = \<lparr>owner_Kind = [], owner_Name = [], owner_ID = []\<rparr>"

definition EnsureFlow :: "OpenFlowClient option \<Rightarrow> string \<Rightarrow> string \<Rightarrow> OpenFlowRuleBuilder" where
  "EnsureFlow client bridge name =
     \<lparr>rb_used = False, rb_client = client,
      rb_flow = \<lparr>flow_Name = name, flow_Bridge = bridge, flow_Cookie = openFlowCookieForName bridge name,
        flow_CookieMask = openFlowCookieMask, flow_TableID = 0, flow_Priority = 100, flow_IdleTimeout = 0,
        flow_HardTimeout = 0, flow_Importance = 0, flow_Match = empty_match, flow_Instructions = [],
        flow_Actions = [], flow_Owner = empty_owner, flow_Labels = fmempty\<rparr>,
      rb_delete = False\<rparr>"

definition DeleteFlow :: "OpenFlowClient option \<Rightarrow> string \<Rightarrow> string \<Rightarrow> OpenFlowRuleBuilder" where
  "DeleteFlow client bridge name =
     (let b = EnsureFlow client bridge name in
      b\<lparr>rb_delete := True, rb_flow := (rb_flow b)\<lparr>flow_TableID := 0xff, flow_CookieMask := NOT 0\<rparr>\<rparr>)"

text \<open>The setters of the fluent interface: each replaces one part of the flow.\<close>

datatype rule_call =
    CallTable u8 | CallPriority u16 | CallCookie u64 | CallCookieMask u64 | CallInPort u32 | CallEthType u16
  | CallIPv4Src string | CallIPv4Dst string | CallIPProto u8 | CallTCPSrc u16 | CallTCPDst u16
  | CallUDPSrc u16 | CallUDPDst u16 | CallWithOwner string string | CallWithLabel string string
  | CallOutput u32 | CallSetField string string

definition on_match :: "(OpenFlowMatch \<Rightarrow> OpenFlowMatch) \<Rightarrow> OpenFlowFlow \<Rightarrow> OpenFlowFlow" where
  "on_match f flow = flow\<lparr>flow_Match := f (flow_Match flow)\<rparr>"

fun apply_call :: "OpenFlowFlow \<Rightarrow> rule_call \<Rightarrow> OpenFlowFlow" where
  "apply_call flow (CallTable x) = flow\<lparr>flow_TableID := x\<rparr>"
| "apply_call flow (CallPriority x) = flow\<lparr>flow_Priority := x\<rparr>"
| "apply_call flow (CallCookie x) = flow\<lparr>flow_Cookie := x\<rparr>"
| "apply_call flow (CallCookieMask x) = flow\<lparr>flow_CookieMask := x\<rparr>"
| "apply_call flow (CallInPort x) = on_match (\<lambda>m. m\<lparr>m_InPort := Some x\<rparr>) flow"
| "apply_call flow (CallEthType x) = on_match (\<lambda>m. m\<lparr>m_EthType := Some x\<rparr>) flow"
| "apply_call flow (CallIPv4Src x) = on_match (\<lambda>m. m\<lparr>m_IPv4Src := x\<rparr>) flow"
| "apply_call flow (CallIPv4Dst x) = on_match (\<lambda>m. m\<lparr>m_IPv4Dst := x\<rparr>) flow"
| "apply_call flow (CallIPProto x) = on_match (\<lambda>m. m\<lparr>m_IPProto := Some x\<rparr>) flow"
| "apply_call flow (CallTCPSrc x) = on_match (\<lambda>m. m\<lparr>m_TCPSrc := Some x\<rparr>) flow"
| "apply_call flow (CallTCPDst x) = on_match (\<lambda>m. m\<lparr>m_TCPDst := Some x\<rparr>) flow"
| "apply_call flow (CallUDPSrc x) = on_match (\<lambda>m. m\<lparr>m_UDPSrc := Some x\<rparr>) flow"
| "apply_call flow (CallUDPDst x) = on_match (\<lambda>m. m\<lparr>m_UDPDst := Some x\<rparr>) flow"
| "apply_call flow (CallWithOwner kind name) =
     flow\<lparr>flow_Owner := \<lparr>owner_Kind = kind, owner_Name = name, owner_ID = []\<rparr>\<rparr>"
| "apply_call flow (CallWithLabel key value) = flow\<lparr>flow_Labels := fmupd key value (flow_Labels flow)\<rparr>"
| "apply_call flow (CallOutput port) = flow\<lparr>flow_Actions := flow_Actions flow @
     [\<lparr>act_Type = OpenFlowActionOutput, act_Port = port, act_Field = [], act_Value = []\<rparr>]\<rparr>"
| "apply_call flow (CallSetField field value) = flow\<lparr>flow_Actions := flow_Actions flow @
     [\<lparr>act_Type = OpenFlowActionSetField, act_Port = 0, act_Field = field, act_Value = value\<rparr>]\<rparr>"

definition builder_call :: "OpenFlowRuleBuilder \<Rightarrow> rule_call \<Rightarrow> OpenFlowRuleBuilder" where
  "builder_call b c = b\<lparr>rb_flow := apply_call (rb_flow b) c\<rparr>"

text \<open>\<open>Validate\<close> also fills in a zero cookie mask, so it returns the builder.\<close>

definition rule_check :: "OpenFlowRuleBuilder \<Rightarrow> check" where
  "rule_check b =
     (let flow = rb_flow b; owner = flow_Owner flow in
      then_check (if rb_client b = None then Some ErrBackendUnavailable else None)
      (then_check (validateName ''openflow bridge'' (flow_Bridge flow))
      (then_check (validateName ''openflow flow'' (flow_Name flow))
      (then_check (if owner_Kind owner \<noteq> [] \<or> owner_Name owner \<noteq> [] \<or> owner_ID owner \<noteq> []
                   then OwnerRef_Validate owner else None)
      (then_check (Labels_Validate (flow_Labels flow))
      (then_check
        (if \<not> rb_delete b \<and> flow_Actions flow = [] \<and> flow_Instructions flow = []
         then Some (ofc_err ErrorValidation ''validate'' (flow_Name flow)
                ''at least one OpenFlow action or instruction is required'') else None)
      (if flow_Cookie flow AND openFlowCookieMask \<noteq> openFlowCookieNamespace
       then Some (ofc_err ErrorValidation ''validate'' (flow_Name flow)
              ''OpenFlow cookie must stay in the ovnflow ownership namespace'') else None)))))))"

definition Rule_Validate :: "OpenFlowRuleBuilder \<Rightarrow> check \<times> OpenFlowRuleBuilder" where
  "Rule_Validate b =
     (case rule_check b of
        Some e \<Rightarrow> (Some e, b)
      | None \<Rightarrow> (None, if flow_CookieMask (rb_flow b) = 0
                 then b\<lparr>rb_flow := (rb_flow b)\<lparr>flow_CookieMask := openFlowCookieMask\<rparr>\<rparr> else b))"

definition Rule_Plan :: "OpenFlowRuleBuilder \<Rightarrow> Plan res \<times> OpenFlowRuleBuilder" where
  "Rule_Plan b =
     (case Rule_Validate b of
        (Some e, b) \<Rightarrow> (Inl e, b)
      | (None, b) \<Rightarrow>
          let oper = \<lparr>op_Action = (if rb_delete b then IntentActionDelete else IntentActionEnsure),
                 op_Resource = ''OpenFlowRule'', op_Name = flow_Name (rb_flow b),
                 op_Description = (if rb_delete b then ''delete owned native OpenFlow rule''
                   else ''validate and apply native OpenFlow rule'')\<rparr>;
              ctl = \<lparr>op_Action = IntentActionEnsure, op_Resource = ''OpenFlowController'',
                 op_Name = flow_Bridge (rb_flow b),
                 op_Description = ''configure bridge controller target before OpenFlow connect''\<rparr>;
              auto = (case rb_client b of None \<Rightarrow> False | Some c \<Rightarrow> cfg_AutoConfigureBridgeController (cl_config c))
          in (Inr \<lparr>plan_Operations = (if auto then [ctl] else []) @ [oper], plan_Warnings = []\<rparr>, b))"

definition Rule_DryRun :: "OpenFlowRuleBuilder \<Rightarrow> OpenFlowFlow DryRunResult res \<times> OpenFlowRuleBuilder" where
  "Rule_DryRun b =
     (case Rule_Plan b of
        (Inl e, b) \<Rightarrow> (Inl e, b)
      | (Inr plan, b) \<Rightarrow>
          (Inr \<lparr>dry_Plan = plan, dry_Diff = \<lparr>diff_Resource = ''OpenFlowRule'', diff_Name = flow_Name (rb_flow b),
             diff_Changes = [\<lparr>ch_Path = ''/'', ch_Before = (if rb_delete b then Some (rb_flow b) else None),
               ch_After = (if rb_delete b then None else Some (rb_flow b))\<rparr>]\<rparr>\<rparr>, b))"

text \<open>
  \<open>Execute\<close>: the last component is the session after the call, closed, when one was opened;
  it holds the bytes the switch received.
\<close>

definition Rule_Execute ::
  "(string \<Rightarrow> string \<Rightarrow> check) option \<Rightarrow> (string \<Rightarrow> string \<Rightarrow> conn res) \<Rightarrow> go_ctx \<Rightarrow> OpenFlowRuleBuilder
     \<Rightarrow> check \<times> OpenFlowRuleBuilder \<times> OpenFlowSession option" where
  "Rule_Execute ovs dialer ctx b =
     (if rb_used b then (Some (ofc_err ErrorValidation ''execute'' (flow_Name (rb_flow b)) ''builder already executed''), b, None)
      else case Rule_Plan (b\<lparr>rb_used := True\<rparr>) of
        (Inl e, b) \<Rightarrow> (Some e, b, None)
      | (Inr plan, b) \<Rightarrow>
          let auto = (case rb_client b of None \<Rightarrow> False | Some c \<Rightarrow> cfg_AutoConfigureBridgeController (cl_config c)) in
          case (if auto then ConfigureBridgeController ovs (rb_client b) (flow_Bridge (rb_flow b)) else None) of
            Some e \<Rightarrow> (Some e, b, None)
          | None \<Rightarrow>
              (case Dial dialer ctx (rb_client b) of
                 (Inl e, c) \<Rightarrow> (Some e, b\<lparr>rb_client := c\<rparr>, None)
               | (Inr s, c) \<Rightarrow>
                   (case (if rb_delete b then session_DeleteFlow ctx (rb_flow b) s else AddFlow ctx (rb_flow b) s) of
                      (r, s') \<Rightarrow>
                        (err_of r,
                         b\<lparr>rb_client := map_option (\<lambda>c. c\<lparr>cl_xid :=
                            (case s_nextXID s' of None \<Rightarrow> cl_xid c | Some x \<Rightarrow> x)\<rparr>) c\<rparr>,
                         session_Close (Some s')))))"

definition Rule_Flow :: "OpenFlowRuleBuilder \<Rightarrow> OpenFlowFlow" where
  "Rule_Flow b = rb_flow b"

section \<open>Cookies stay in the namespace\<close>

lemma cookie_in_namespace: "openFlowCookieForName bridge name AND openFlowCookieMask = openFlowCookieNamespace"
proof -
  have "(openFlowCookieNamespace OR (h AND NOT openFlowCookieMask)) AND openFlowCookieMask =
      openFlowCookieNamespace AND openFlowCookieMask" for h
    by (auto simp: bit_eq_iff bit_simps)
  moreover have "openFlowCookieNamespace AND openFlowCookieMask = openFlowCookieNamespace" by code_simp
  ultimately show ?thesis by (simp add: openFlowCookieForName_def Let_def)
qed

lemma Rule_Validate_None:
  "Rule_Validate b = (None, b') \<Longrightarrow>
   flow_Cookie (rb_flow b') AND openFlowCookieMask = openFlowCookieNamespace \<and> flow_CookieMask (rb_flow b') \<noteq> 0
   \<and> flow_Cookie (rb_flow b') = flow_Cookie (rb_flow b) \<and> rb_delete b' = rb_delete b"
  by (auto simp: Rule_Validate_def rule_check_def Let_def then_check_None openFlowCookieMask_def
      split: option.splits if_splits)

lemma Rule_Plan_Inr:
  "Rule_Plan b = (Inr plan, b') \<Longrightarrow> Rule_Validate b = (None, b')"
  by (auto simp: Rule_Plan_def Let_def split: prod.splits option.splits)

lemma flowMod_out:
  assumes "flowMod ctx command flow s = (Inr (), s')" and "s_conn s = Some c" and "s_nextXID s = Some x"
  obtains msg bs d where "MarshalOpenFlowFlowMod (s_version s) (x + 1) command flow = Inr msg"
    "MarshalOpenFlowMessage msg = Inr bs" "s_conn s' = Some d" "conn_out d = conn_out c @ bs"
    "s_version s' = s_version s"
proof -
  have "session_next s = (Inr (x + 1), s\<lparr>s_nextXID := Some (x + 1)\<rparr>)" by (simp add: session_next_def assms(3))
  with assms(1,2) obtain msg where
    m: "MarshalOpenFlowFlowMod (s_version s) (x + 1) command flow = Inr msg"
      "session_write ctx msg (s\<lparr>s_nextXID := Some (x + 1)\<rparr>) = (Inr (), s')"
    by (auto simp: flowMod_def s_bind_Inr s_lift_Inr)
  from m(2) obtain bs d where "MarshalOpenFlowMessage msg = Inr bs" "conn_Write bs c = (None, d)" "s_conn s' = Some d"
    "s_version s' = s_version s"
    by (auto simp: session_write_Inr assms(2))
  with m(1) show thesis by (intro that) (auto dest: conn_Write_None)
qed

text \<open>The address a client dials, and the session \<open>Dial\<close> gives back.\<close>

definition dial_endpoint :: "OpenFlowConfig \<Rightarrow> string" where
  "dial_endpoint cfg =
     (if cfg_Endpoint cfg = [] then endpointFromControllerTarget (cfg_ControllerTarget cfg) else cfg_Endpoint cfg)"

lemma Dial_out:
  assumes "Dial dialer ctx client = (Inr s, client')"
  obtains c network address versions cn hello req hb fb d where "client = Some c"
    "parseOpenFlowEndpoint (dial_endpoint (cl_config c)) = Inr (network, address)" "dialer network address = Inr cn"
    "normalizeOpenFlowVersions (cfg_Versions (cl_config c)) = Inr versions"
    "OpenFlowHelloMessage (highestOpenFlowVersion versions) (cl_xid c + 1) versions = Inr hello"
    "OpenFlowFeaturesRequest (s_version s) (cl_xid c + 2) = Inr req"
    "MarshalOpenFlowMessage hello = Inr hb" "MarshalOpenFlowMessage req = Inr fb"
    "s_conn s = Some d" "conn_out d = conn_out cn @ hb @ fb" "s_nextXID s = Some (cl_xid c + 2)"
proof -
  from assms obtain c network address versions cn where c: "client = Some c"
    "parseOpenFlowEndpoint (dial_endpoint (cl_config c)) = Inr (network, address)" "dialer network address = Inr cn"
    "normalizeOpenFlowVersions (cfg_Versions (cl_config c)) = Inr versions"
    and h: "Handshake ctx \<lparr>s_conn = Some cn, s_versions = versions, s_version = highestOpenFlowVersion versions,
      s_nextXID = Some (cl_xid c), s_clock = 0\<rparr> = (Inr (), s)"
    by (auto simp: Dial_def Let_def dial_endpoint_def split: option.splits sum.splits if_splits prod.splits)
  show thesis by (rule Handshake_out [OF h]) (use that [OF c] in auto)
qed

text \<open>
  What a successful \<open>Execute\<close> has written to the connection it dialled: the hello and the
  features request of the handshake and one flow modification, with the flow of the builder.
\<close>

definition sent_flow :: "OpenFlowFlow \<Rightarrow> OpenFlowFlow" where
  "sent_flow flow = flow\<lparr>flow_CookieMask :=
     (if flow_CookieMask flow = 0 then openFlowCookieMask else flow_CookieMask flow)\<rparr>"

lemma Rule_Plan_flow:
  assumes "Rule_Plan b = (Inr plan, b')"
  shows "rb_flow b' = sent_flow (rb_flow b) \<and> rb_delete b' = rb_delete b \<and> rb_client b' = rb_client b"
  using Rule_Plan_Inr [OF assms] by (auto simp: Rule_Validate_def sent_flow_def split: option.splits if_splits)

lemma Execute_sends:
  assumes "Rule_Execute ovs dialer ctx b = (None, b', s)"
  obtains c network address versions cn hello req fm bs s' d where "rb_client b = Some c"
    "parseOpenFlowEndpoint (dial_endpoint (cl_config c)) = Inr (network, address)" "dialer network address = Inr cn"
    "normalizeOpenFlowVersions (cfg_Versions (cl_config c)) = Inr versions"
    "OpenFlowHelloMessage (highestOpenFlowVersion versions) (cl_xid c + 1) versions = Inr hello"
    "s = Some s'" "OpenFlowFeaturesRequest (s_version s') (cl_xid c + 2) = Inr req"
    "MarshalOpenFlowFlowMod (s_version s') (cl_xid c + 3)
       (if rb_delete b then openFlowFlowCommandDelete else openFlowFlowCommandAdd) (sent_flow (rb_flow b)) = Inr fm"
    "write_all [hello, req, fm] = Inr bs" "s_conn s' = Some d" "conn_closed d" "conn_out d = conn_out cn @ bs"
    "flow_Cookie (rb_flow b) AND openFlowCookieMask = openFlowCookieNamespace" "\<not> rb_used b"
proof -
  from assms obtain plan b1 s1 cl s2 where used: "\<not> rb_used b"
    and plan: "Rule_Plan (b\<lparr>rb_used := True\<rparr>) = (Inr plan, b1)"
    and dial: "Dial dialer ctx (rb_client b1) = (Inr s1, cl)"
    and run: "(if rb_delete b1 then session_DeleteFlow ctx (rb_flow b1) s1 else AddFlow ctx (rb_flow b1) s1) = (Inr (), s2)"
    and s: "s = session_Close (Some s2)"
    by (auto simp: Rule_Execute_def Let_def err_of_def split: if_splits prod.splits sum.splits option.splits)
  note v = Rule_Validate_None [OF Rule_Plan_Inr [OF plan]]
  have b1: "rb_flow b1 = sent_flow (rb_flow b)" "rb_delete b1 = rb_delete b" "rb_client b1 = rb_client b"
    using Rule_Plan_flow [OF plan] by simp_all
  let ?cmd = "if rb_delete b then openFlowFlowCommandDelete else openFlowFlowCommandAdd"
  have fm: "flowMod ctx ?cmd (sent_flow (rb_flow b)) s1 = (Inr (), s2)"
    using run v by (auto simp: session_DeleteFlow_def AddFlow_def b1 split: if_splits)
  from Dial_out [OF dial] obtain c network address versions cn hello req hb fb d1 where c: "rb_client b = Some c"
    "parseOpenFlowEndpoint (dial_endpoint (cl_config c)) = Inr (network, address)" "dialer network address = Inr cn"
    "normalizeOpenFlowVersions (cfg_Versions (cl_config c)) = Inr versions"
    "OpenFlowHelloMessage (highestOpenFlowVersion versions) (cl_xid c + 1) versions = Inr hello"
    "OpenFlowFeaturesRequest (s_version s1) (cl_xid c + 2) = Inr req"
    "MarshalOpenFlowMessage hello = Inr hb" "MarshalOpenFlowMessage req = Inr fb"
    and d1: "s_conn s1 = Some d1" "conn_out d1 = conn_out cn @ hb @ fb" "s_nextXID s1 = Some (cl_xid c + 2)"
    unfolding b1(3) by metis
  from flowMod_out [OF fm d1(1,3)] obtain msg bs d2 where
    m: "MarshalOpenFlowFlowMod (s_version s1) (cl_xid c + 3) ?cmd (sent_flow (rb_flow b)) = Inr msg"
      "MarshalOpenFlowMessage msg = Inr bs" "s_conn s2 = Some d2" "conn_out d2 = conn_out d1 @ bs"
      "s_version s2 = s_version s1"
    by (auto simp: add.assoc)
  have w: "write_all [hello, req, msg] = Inr (hb @ fb @ bs)"
    using c(7,8) m(2) by (simp add: write_all_def write_next_def WriteOpenFlowMessage_def buffer_Write_def)
  have k: "flow_Cookie (rb_flow b) AND openFlowCookieMask = openFlowCookieNamespace" using v by (elim conjE) simp
  show thesis
    by (rule that [of c network address cn versions hello "the s" req msg "hb @ fb @ bs" "d2\<lparr>conn_closed := True\<rparr>"])
      (use c m w d1 s used k in \<open>simp_all add: session_Close_def\<close>)
qed

end
