(* ===== verification/Openflow_Props.thy ===== *)
theory Openflow_Props
  imports Openflow_Intent "HOL-Library.Code_Target_Nat"
begin

unbundle bit_operations_syntax

text \<open>The correctness statements of the OpenFlow client, each with a concrete run of it.\<close>

section \<open>Framing\<close>

text \<open>
  C4: Messages written one after another to a connection are read back from it one after
  another: the reader returns exactly the messages written, in order, and leaves every byte
  that follows them unread.
\<close>

theorem openflow_stream_roundtrip:
  assumes "write_all ms = Inr bs"
  shows "read_n (length ms) (bs @ rest) = (Inr ms, rest)"
proof -
  from assms have "message.encode_all ms = Some bs" by (auto simp: write_all_def write_all_encode)
  then show ?thesis by (rule read_n_decode [OF message.decode_n_encode_all])
qed

definition demo_messages :: "OpenFlowMessage list" where
  "demo_messages =
     [\<lparr>msg_Version = 4, msg_Type = 0, msg_XID = 7, msg_Body = [1, 2, 3]\<rparr>,
      \<lparr>msg_Version = 6, msg_Type = 14, msg_XID = 8, msg_Body = []\<rparr>]"

theorem openflow_stream_roundtrip_witness:
  "read_n (length demo_messages)
     ([4, 0, 0, 11, 0, 0, 0, 7, 1, 2, 3, 6, 14, 0, 8, 0, 0, 0, 8] @ [9, 9]) = (Inr demo_messages, [9, 9])"
  by (rule openflow_stream_roundtrip) code_simp

text \<open>
  Every message that a peer can parse from a byte string is encoded to those same bytes
  again: parsing loses nothing of the part of the data the length field covers.
\<close>

theorem Marshal_Parse:
  assumes "ParseOpenFlowMessage data = Inr m"
  shows "MarshalOpenFlowMessage m = Inr (take (unat (get_be16 (slice 2 4 data))) data)"
proof -
  define n where "n = unat (get_be16 (slice 2 4 data))"
  from assms have d: "8 \<le> n" "n \<le> length data" "validateOpenFlowVersion (data ! 0) = None"
    and m: "m = \<lparr>msg_Version = data ! 0, msg_Type = data ! 1, msg_XID = get_be32 (slice 4 8 data),
      msg_Body = slice 8 n data\<rparr>"
    by (auto simp: ParseOpenFlowMessage_def guard_res_Inr Let_def openFlowHeaderLen_def n_def not_less split: if_splits)
  have n16: "n < 65536" unfolding n_def using unsigned_less [where ?'a = nat, of "get_be16 (slice 2 4 data)"] by simp
  have l: "8 + length (slice 8 n data) = n" using d by simp
  have h: "of_nat n = get_be16 (slice 2 4 data)" by (simp add: n_def)
  have "take n data = take 2 data @ slice 2 4 data @ slice 4 8 data @ slice 8 n data"
  proof -
    have n: "n = 2 + (2 + (4 + (n - 8)))" using d by simp
    show ?thesis by (subst n) (simp only: take_add slice_def drop_drop, simp)
  qed
  moreover have "take 2 data = [data ! 0, data ! 1]" using d by (cases data; cases "tl data") auto
  moreover have "put_be16 (get_be16 (slice 2 4 data)) = slice 2 4 data" using d by (intro put_get_be16) simp
  moreover have "put_be32 (get_be32 (slice 4 8 data)) = slice 4 8 data" using d by (intro put_get_be32) simp
  ultimately show ?thesis
    unfolding n_def [symmetric] Marshal_Inr using d n16 l by (simp add: m h)
qed

theorem Marshal_Parse_witness:
  "MarshalOpenFlowMessage \<lparr>msg_Version = 6, msg_Type = 0, msg_XID = 5, msg_Body = [1]\<rparr> =
     Inr (take (unat (get_be16 (slice 2 4 [6, 0, 0, 9, 0, 0, 0, 5, 1, 77]))) [6, 0, 0, 9, 0, 0, 0, 5, 1, 77])"
  by (rule Marshal_Parse) code_simp

section \<open>Matches and flow modifications\<close>


definition demo_match :: OpenFlowMatch where
  "demo_match = empty_match\<lparr>m_InPort := Some 3, m_EthType := Some 0x800, m_IPv4Dst := ''10.1.2.3/16'',
     m_EthSrc := ''AA-BB-CC-00-11-22'', m_TCPDst := Some 443\<rparr>"


text \<open>
  A metadata match without a mask is decoded as a metadata match whose mask is zero, which
  encodes as a match of every packet: decoding and encoding again does not keep the meaning
  of an exact metadata match.
\<close>

theorem metadata_mask_lost:
  "applyParsedOXM empty_match openFlowOFBMetadata (put_be64 v) [] =
     Inr (empty_match\<lparr>m_Metadata := Some \<lparr>md_Value = v, md_Mask = 0\<rparr>\<rparr>)"
  by (simp add: applyParsedOXM_def sized_def oxm_field_defs)


definition demo_flow :: OpenFlowFlow where
  "demo_flow = foldl apply_call (rb_flow (EnsureFlow None ''br0'' ''web''))
     [CallEthType 0x800, CallIPv4Dst ''10.0.0.0/24'', CallSetField ''eth_dst'' ''aa:bb:cc:00:11:22'', CallOutput 7]"


section \<open>Sessions\<close>

text \<open>
  C29: Two ends that both speak this SDK and exchange hellos settle on the same version, the
  highest one both support, or both refuse.
\<close>

theorem negotiation_agrees:
  assumes "OpenFlowHelloMessage va xa as = Inr ha" and "OpenFlowHelloMessage vb xb bs = Inr hb"
    and "as \<noteq> []" and "bs \<noteq> []"
  shows "negotiateOpenFlowVersion as hb = negotiateOpenFlowVersion bs ha
    \<and> (\<forall>v. negotiateOpenFlowVersion as hb = Inr v \<longleftrightarrow>
          set as \<inter> set bs \<noteq> {} \<and> v = Max (set as \<inter> set bs))"
proof -
  have "offered ha = set as" "offered hb = set bs"
    using parseHello_own(1) [OF assms(1,3)] parseHello_own(1) [OF assms(2,4)] assms(3,4)
    by (auto simp: offered_def)
  then show ?thesis by (auto simp: negotiate_spec Int_commute)
qed

theorem negotiation_agrees_witness:
  "negotiateOpenFlowVersion [6, 4] (projr (OpenFlowHelloMessage 4 2 [4])) =
     negotiateOpenFlowVersion [4] (projr (OpenFlowHelloMessage 6 1 [6, 4]))"
proof -
  have "OpenFlowHelloMessage 6 1 [6, 4] = Inr (projr (OpenFlowHelloMessage 6 1 [6, 4]))"
    "OpenFlowHelloMessage 4 2 [4] = Inr (projr (OpenFlowHelloMessage 4 2 [4]))"
    by code_simp+
  from negotiation_agrees [OF this] show ?thesis by simp
qed

text \<open>
  Whatever a peer sends and however the context behaves, a handshake that succeeds has
  selected a version from the client's own list, and the list itself is unchanged.
\<close>

theorem handshake_safe:
  assumes "Handshake ctx s = (Inr (), s')"
  shows "s_version s' \<in> set (s_versions s) \<and> s_versions s' = s_versions s"
proof (rule Handshake_Inr [OF assms])
  fix peer assume n: "negotiateOpenFlowVersion (s_versions s) peer = Inr (s_version s')" "s_versions s' = s_versions s"
  have "s_version s' \<in> set (s_versions s) \<inter> offered peer"
    using n(1) Max_in [of "set (s_versions s) \<inter> offered peer"] by (auto simp: negotiate_spec split: if_splits)
  then show ?thesis using n(2) by simp
qed

definition demo_features :: OpenFlowMessage where
  "demo_features = \<lparr>msg_Version = 4, msg_Type = 6, msg_XID = 2, msg_Body = replicate 24 0\<rparr>"

definition demo_hello :: OpenFlowMessage where
  "demo_hello = \<lparr>msg_Version = 6, msg_Type = 0, msg_XID = 1, msg_Body = [0, 1, 0, 8, 0, 0, 0, 80]\<rparr>"

definition demo_peer :: OpenFlowMessage where
  "demo_peer = \<lparr>msg_Version = 4, msg_Type = 0, msg_XID = 5, msg_Body = [0, 1, 0, 8, 0, 0, 0, 16]\<rparr>"

definition demo_hello_bytes :: bytes where
  "demo_hello_bytes = [6, 0, 0, 16, 0, 0, 0, 1, 0, 1, 0, 8, 0, 0, 0, 80]"

definition demo_peer_bytes :: bytes where
  "demo_peer_bytes = [4, 0, 0, 16, 0, 0, 0, 5, 0, 1, 0, 8, 0, 0, 0, 16]"

definition demo_features_bytes :: bytes where
  "demo_features_bytes = [4, 6, 0, 32, 0, 0, 0, 2] @ replicate 24 0"

definition demo_conn :: conn where
  "demo_conn = \<lparr>conn_in = demo_peer_bytes @ demo_features_bytes @ [1, 2, 3], conn_out = [], conn_room = None, conn_closed = False\<rparr>"

definition demo_session :: OpenFlowSession where
  "demo_session = \<lparr>s_conn = Some demo_conn, s_versions = [6, 4], s_version = 6, s_nextXID = Some 0, s_clock = 0\<rparr>"

lemma demo_session_sel:
  "s_conn demo_session = Some demo_conn" "s_versions demo_session = [6, 4]" "s_nextXID demo_session = Some 0"
  "conn_in demo_conn = demo_peer_bytes @ demo_features_bytes @ [1, 2, 3]" "\<not> conn_closed demo_conn"
  "conn_room demo_conn = None"
  by (simp_all add: demo_session_def demo_conn_def)

lemma demo_handshake_facts:
  "OpenFlowHelloMessage (highestOpenFlowVersion [6, 4]) 1 [6, 4] = Inr demo_hello"
  "MarshalOpenFlowMessage demo_hello = Inr demo_hello_bytes"
  "MarshalOpenFlowMessage demo_peer = Inr demo_peer_bytes"
  "MarshalOpenFlowMessage demo_features = Inr demo_features_bytes"
  "msg_Type demo_peer = openFlowTypeHello" "msg_Type demo_features = openFlowTypeFeaturesReply"
  "24 \<le> length (msg_Body demo_features)" "validateOpenFlowVersion 4 = None"
  "msg_Body demo_peer = put_be16 1 @ put_be16 8 @ put_be32 16"
  by code_simp+

lemma demo_peer_offer: "offered demo_peer = {4}" "negotiateOpenFlowVersion [6, 4] demo_peer = Inr 4"
proof -
  have "parseHelloVersions demo_peer = [4]"
    by (simp add: parseHelloVersions_def demo_handshake_facts hello_elements_own bitmap_versions_eq OpenFlow13_def)
  then show "offered demo_peer = {4}" by (simp add: offered_def)
  then show "negotiateOpenFlowVersion [6, 4] demo_peer = Inr 4" by (simp add: negotiate_spec)
qed

lemma demo_handshake:
  obtains fb where "Handshake (\<lambda>_. None) demo_session = (Inr (), demo_session
     \<lparr>s_conn := Some (demo_conn\<lparr>conn_in := [1, 2, 3], conn_out := conn_out demo_conn @ demo_hello_bytes @ fb\<rparr>),
      s_version := 4, s_nextXID := Some (0 + 2), s_clock := s_clock demo_session + 8\<rparr>)"
proof -
  note f = demo_handshake_facts
  have "\<exists>fb. MarshalOpenFlowMessage \<lparr>msg_Version = 4, msg_Type = openFlowTypeFeaturesRequest, msg_XID = 0 + 2,
      msg_Body = []\<rparr> = Inr fb \<and> Handshake (\<lambda>_. None) demo_session = (Inr (), demo_session
     \<lparr>s_conn := Some (demo_conn\<lparr>conn_in := [1, 2, 3], conn_out := conn_out demo_conn @ demo_hello_bytes @ fb\<rparr>),
      s_version := 4, s_nextXID := Some (0 + 2), s_clock := s_clock demo_session + 8\<rparr>)"
    by (rule Handshake_conforming [OF demo_session_sel(1,5,6,3) refl _ f(2,3,5) _ f(8,4,6,7) demo_session_sel(4)])
      (simp_all add: demo_session_sel f demo_peer_offer)
  then show thesis using that by blast
qed

theorem handshake_safe_witness:
  "s_version (snd (Handshake (\<lambda>_. None) demo_session)) \<in> set (s_versions demo_session)"
proof (rule demo_handshake)
  fix fb
  assume h: "Handshake (\<lambda>_. None) demo_session = (Inr (), demo_session
     \<lparr>s_conn := Some (demo_conn\<lparr>conn_in := [1, 2, 3], conn_out := conn_out demo_conn @ demo_hello_bytes @ fb\<rparr>),
      s_version := 4, s_nextXID := Some (0 + 2), s_clock := s_clock demo_session + 8\<rparr>)"
  from handshake_safe [OF h] show ?thesis unfolding h snd_conv by (rule conjunct1)
qed

text \<open>
  C28: Against a peer that takes what is written to it and answers with a hello offering a common
  version and then a features reply, the handshake succeeds: it has written exactly its hello and its features request,
  has consumed exactly the two answers, has used two fresh transaction ids, and has set the
  session to the highest common version.
\<close>

theorem handshake_completes:
  assumes "s_conn s = Some c" and "\<not> conn_closed c" and "conn_room c = None" and "s_nextXID s = Some x"
    and "\<And>n. ctx n = None"
    and "OpenFlowHelloMessage (highestOpenFlowVersion (s_versions s)) (x + 1) (s_versions s) = Inr hello"
    and "MarshalOpenFlowMessage hello = Inr hb"
    and "MarshalOpenFlowMessage peer = Inr pb" and "msg_Type peer = openFlowTypeHello"
    and "set (s_versions s) \<inter> offered peer \<noteq> {}"
    and "MarshalOpenFlowMessage reply = Inr rb" and "msg_Type reply = openFlowTypeFeaturesReply"
    and "24 \<le> length (msg_Body reply)"
    and "conn_in c = pb @ rb @ rest"
  defines "v \<equiv> Max (set (s_versions s) \<inter> offered peer)"
  shows "\<exists>fb. MarshalOpenFlowMessage \<lparr>msg_Version = v, msg_Type = openFlowTypeFeaturesRequest, msg_XID = x + 2,
        msg_Body = []\<rparr> = Inr fb
    \<and> Handshake ctx s = (Inr (), s\<lparr>s_conn := Some (c\<lparr>conn_in := rest, conn_out := conn_out c @ hb @ fb\<rparr>),
        s_version := v, s_nextXID := Some (x + 2), s_clock := s_clock s + 8\<rparr>)"
proof (rule Handshake_conforming [OF assms(1-9) _ _ assms(11-14)])
  show "negotiateOpenFlowVersion (s_versions s) peer = Inr v"
    using assms(10) by (simp add: negotiate_spec v_def)
  have "v \<in> set (s_versions s)" unfolding v_def using Max_in [OF _ assms(10)] by auto
  moreover have "\<forall>w\<in>set (s_versions s). validateOpenFlowVersion w = None"
  proof (cases "s_versions s = []")
    case False
    with assms(6) obtain b where "res_fold hello_bit 0 (s_versions s) = Inr b"
      by (auto simp: OpenFlowHelloMessage_def guard_res_Inr res_bind_Inr)
    from hello_bits [OF this] show ?thesis by (simp add: valid_version)
  qed simp
  ultimately show "validateOpenFlowVersion v = None" by blast
qed

theorem handshake_completes_witness:
  "\<exists>fb. Handshake (\<lambda>_. None) demo_session = (Inr (), demo_session
     \<lparr>s_conn := Some (demo_conn\<lparr>conn_in := [1, 2, 3], conn_out := conn_out demo_conn @ demo_hello_bytes @ fb\<rparr>),
      s_version := Max (set (s_versions demo_session) \<inter> offered demo_peer), s_nextXID := Some (0 + 2),
      s_clock := s_clock demo_session + 8\<rparr>)"
proof -
  note f = demo_handshake_facts
  have c: "set (s_versions demo_session) \<inter> offered demo_peer \<noteq> {}"
    "OpenFlowHelloMessage (highestOpenFlowVersion (s_versions demo_session)) (0 + 1) (s_versions demo_session) =
      Inr demo_hello"
    using f by (simp_all add: demo_session_sel demo_peer_offer)
  from handshake_completes [OF demo_session_sel(1,5,6,3) refl c(2) f(2,3,5) c(1) f(4,6,7) demo_session_sel(4)]
  show ?thesis by blast
qed

text \<open>
  C33: \<open>DumpFlows\<close> terminates and collects every part of a multipart answer: given parts that all
  announce more except the last, it returns all of them in order and has consumed exactly
  their bytes.
\<close>

theorem dump_collects_all:
  assumes "s_conn s = Some c" and "\<not> conn_closed c" and "\<And>n. ctx n = None"
    and "write_all (rs @ [lst]) = Inr bs" and "list_all (multipart True) rs" and "multipart False lst"
    and "conn_in c = bs @ rest"
  shows "\<exists>k. dump_loop ctx [] s = (Inr (rs @ [lst]), s\<lparr>s_conn := Some (c\<lparr>conn_in := rest\<rparr>), s_clock := k\<rparr>)"
proof -
  from assms(4) have "message.encode_all (rs @ [lst]) = Some bs" by (auto simp: write_all_def write_all_encode)
  from dump_loop_all [OF assms(1-3) this assms(5-7), where out = "[]"] show ?thesis by simp
qed

definition demo_part :: "u8 \<Rightarrow> OpenFlowMessage" where
  "demo_part flags = \<lparr>msg_Version = 4, msg_Type = 19, msg_XID = 3, msg_Body = [0, 1, 0, flags, 0, 0, 0, 0]\<rparr>"

definition demo_part_bytes :: "u8 \<Rightarrow> bytes" where
  "demo_part_bytes flags = [4, 19, 0, 16, 0, 0, 0, 3, 0, 1, 0, flags, 0, 0, 0, 0]"

theorem dump_collects_all_witness:
  "\<exists>k. dump_loop (\<lambda>_. None) []
       (demo_session\<lparr>s_conn := Some (demo_conn\<lparr>conn_in := (demo_part_bytes 1 @ demo_part_bytes 0) @ [5]\<rparr>)\<rparr>) =
     (Inr ([demo_part 1] @ [demo_part 0]),
      demo_session\<lparr>s_conn := Some (demo_conn\<lparr>conn_in := (demo_part_bytes 1 @ demo_part_bytes 0) @ [5]\<rparr>)\<rparr>
        \<lparr>s_conn := Some (demo_conn\<lparr>conn_in := (demo_part_bytes 1 @ demo_part_bytes 0) @ [5]\<rparr>\<lparr>conn_in := [5]\<rparr>), s_clock := k\<rparr>)"
proof (rule dump_collects_all [OF _ _ refl])
  show "write_all ([demo_part 1] @ [demo_part 0]) = Inr (demo_part_bytes 1 @ demo_part_bytes 0)"
    "list_all (multipart True) [demo_part 1]" "multipart False (demo_part 0)" by code_simp+
qed (simp_all add: demo_session_sel)

section \<open>Rules\<close>

text \<open>
  C34: A rule that was executed successfully has written to the connection it dialled exactly three
  messages: the hello and the features request of the handshake, and one flow modification,
  which carries the flow of the builder unchanged (a zero cookie mask filled in), adds or deletes
  as the builder says, and has a cookie in the namespace the SDK reserves for itself. The
  builder had not been used before, and the connection is closed again.
\<close>

theorem execute_stays_in_namespace:
  assumes "Rule_Execute ovs dialer ctx b = (None, b', s)"
  shows "\<exists>c network address versions cn hello req fm bs s' d. rb_client b = Some c
    \<and> parseOpenFlowEndpoint (dial_endpoint (cl_config c)) = Inr (network, address) \<and> dialer network address = Inr cn
    \<and> normalizeOpenFlowVersions (cfg_Versions (cl_config c)) = Inr versions
    \<and> OpenFlowHelloMessage (highestOpenFlowVersion versions) (cl_xid c + 1) versions = Inr hello
    \<and> s = Some s' \<and> OpenFlowFeaturesRequest (s_version s') (cl_xid c + 2) = Inr req
    \<and> MarshalOpenFlowFlowMod (s_version s') (cl_xid c + 3) (if rb_delete b then 3 else 0)
        ((rb_flow b)\<lparr>flow_CookieMask :=
           (if flow_CookieMask (rb_flow b) = 0 then 0xffff000000000000 else flow_CookieMask (rb_flow b))\<rparr>) = Inr fm
    \<and> write_all [hello, req, fm] = Inr bs \<and> s_conn s' = Some d \<and> conn_closed d \<and> conn_out d = conn_out cn @ bs
    \<and> flow_Cookie (rb_flow b) AND 0xffff000000000000 = 0x0f0f000000000000 \<and> \<not> rb_used b"
proof (rule Execute_sends [OF assms])
  fix c network address cn versions hello s' req fm bs d
  assume h: "rb_client b = Some c"
    "parseOpenFlowEndpoint (dial_endpoint (cl_config c)) = Inr (network, address)" "dialer network address = Inr cn"
    "normalizeOpenFlowVersions (cfg_Versions (cl_config c)) = Inr versions"
    "OpenFlowHelloMessage (highestOpenFlowVersion versions) (cl_xid c + 1) versions = Inr hello"
    "s = Some s'" "OpenFlowFeaturesRequest (s_version s') (cl_xid c + 2) = Inr req"
    "MarshalOpenFlowFlowMod (s_version s') (cl_xid c + 3)
       (if rb_delete b then openFlowFlowCommandDelete else openFlowFlowCommandAdd) (sent_flow (rb_flow b)) = Inr fm"
    "write_all [hello, req, fm] = Inr bs" "s_conn s' = Some d" "conn_closed d" "conn_out d = conn_out cn @ bs"
    "flow_Cookie (rb_flow b) AND openFlowCookieMask = openFlowCookieNamespace" "\<not> rb_used b"
  note h' = h [unfolded sent_flow_def openFlowCookieMask_def openFlowCookieNamespace_def
      openFlowFlowCommandDelete_def openFlowFlowCommandAdd_def]
  show ?thesis
    by (rule exI [of _ c], rule exI [of _ network], rule exI [of _ address], rule exI [of _ versions],
        rule exI [of _ cn], rule exI [of _ hello], rule exI [of _ req], rule exI [of _ fm], rule exI [of _ bs],
        rule exI [of _ s'], rule exI [of _ d]) (intro conjI h')
qed

definition demo_rule :: OpenFlowRuleBuilder where
  "demo_rule = foldl builder_call
     (EnsureFlow (Some (NewOpenFlowClient \<lparr>cfg_Endpoint = ''tcp:10.0.0.1:6653'', cfg_Versions = [],
        cfg_AutoConfigureBridgeController = False, cfg_ControllerTarget = []\<rparr>)) ''br0'' ''web'')
     [CallEthType 0x800, CallIPv4Dst ''10.0.0.0/24'', CallOutput 7]"

definition demo_dialer :: "string \<Rightarrow> string \<Rightarrow> conn res" where
  "demo_dialer network address = Inr demo_conn"

lemma demo_rule_checked:
  "(rule_check (demo_rule\<lparr>rb_used := True\<rparr>) = None)
   \<and> (rb_used demo_rule = False)
   \<and> (rb_delete demo_rule = False)
   \<and> flow_CookieMask (rb_flow demo_rule) \<noteq> 0
   \<and> (cfg_AutoConfigureBridgeController (cl_config (the (rb_client demo_rule))) = False)
   \<and> rb_client demo_rule \<noteq> None
   \<and> (cl_xid (the (rb_client demo_rule)) = 0)
   \<and> (cfg_Endpoint (cl_config (the (rb_client demo_rule))) = ''tcp:10.0.0.1:6653'')
   \<and> (cfg_Versions (cl_config (the (rb_client demo_rule))) = [])
   \<and> (parseOpenFlowEndpoint ''tcp:10.0.0.1:6653'' = Inr (''tcp'', ''10.0.0.1:6653''))
   \<and> (normalizeOpenFlowVersions [] = Inr [6, 4])
   \<and> (highestOpenFlowVersion [6, 4] = 6)
   \<and> (isl (MarshalOpenFlowFlowMod 4 3 openFlowFlowCommandAdd (rb_flow demo_rule)) = False)
   \<and> (isl (MarshalOpenFlowMessage (projr (MarshalOpenFlowFlowMod 4 3 openFlowFlowCommandAdd (rb_flow demo_rule)))) = False)"
  by code_simp

lemma demo_rule_facts:
  "rule_check (demo_rule\<lparr>rb_used := True\<rparr>) = None"
  "rb_used demo_rule = False"
  "rb_delete demo_rule = False"
  "flow_CookieMask (rb_flow demo_rule) \<noteq> 0"
  "cfg_AutoConfigureBridgeController (cl_config (the (rb_client demo_rule))) = False"
  "rb_client demo_rule \<noteq> None"
  "cl_xid (the (rb_client demo_rule)) = 0"
  "cfg_Endpoint (cl_config (the (rb_client demo_rule))) = ''tcp:10.0.0.1:6653''"
  "cfg_Versions (cl_config (the (rb_client demo_rule))) = []"
  "parseOpenFlowEndpoint ''tcp:10.0.0.1:6653'' = Inr (''tcp'', ''10.0.0.1:6653'')"
  "normalizeOpenFlowVersions [] = Inr [6, 4]"
  "highestOpenFlowVersion [6, 4] = 6"
  "isl (MarshalOpenFlowFlowMod 4 3 openFlowFlowCommandAdd (rb_flow demo_rule)) = False"
  "isl (MarshalOpenFlowMessage (projr (MarshalOpenFlowFlowMod 4 3 openFlowFlowCommandAdd (rb_flow demo_rule)))) = False"
  by (use demo_rule_checked in blast)+

lemma demo_execute: "\<exists>b' s. Rule_Execute None demo_dialer (\<lambda>_. None) demo_rule = (None, b', s)"
proof (rule demo_handshake)
  fix fb
  define s1 where "s1 = demo_session
     \<lparr>s_conn := Some (demo_conn\<lparr>conn_in := [1, 2, 3], conn_out := conn_out demo_conn @ demo_hello_bytes @ fb\<rparr>),
      s_version := 4, s_nextXID := Some (0 + 2), s_clock := s_clock demo_session + 8\<rparr>"
  assume "Handshake (\<lambda>_. None) demo_session = (Inr (), demo_session
     \<lparr>s_conn := Some (demo_conn\<lparr>conn_in := [1, 2, 3], conn_out := conn_out demo_conn @ demo_hello_bytes @ fb\<rparr>),
      s_version := 4, s_nextXID := Some (0 + 2), s_clock := s_clock demo_session + 8\<rparr>)"
  then have h: "Handshake (\<lambda>_. None) demo_session = (Inr (), s1)" by (simp add: s1_def)
  note f = demo_rule_facts
  obtain c where c: "rb_client demo_rule = Some c" using f(6) by blast
  have "\<lparr>s_conn = Some demo_conn, s_versions = [6, 4], s_version = 6, s_nextXID = Some 0, s_clock = 0\<rparr> = demo_session"
    by (simp add: demo_session_def)
  then have d: "\<exists>c'. Dial demo_dialer (\<lambda>_. None) (Some c) = (Inr s1, Some c')"
    using f(5-12) h by (simp add: Dial_def demo_dialer_def c Let_def)
  obtain msg bs where m: "MarshalOpenFlowFlowMod 4 3 openFlowFlowCommandAdd (rb_flow demo_rule) = Inr msg"
    "MarshalOpenFlowMessage msg = Inr bs"
    using f(13,14) by (metis isl_def sum.collapse(2))
  have "\<exists>s2. AddFlow (\<lambda>_. None) (rb_flow demo_rule) s1 = (Inr (), s2)"
    using m by (simp add: AddFlow_def flowMod_def s1_def s_bind_Inr s_lift_Inr session_next_def session_write_Inr
        demo_session_sel conn_Write_roomy)
  moreover have "\<exists>plan. Rule_Plan (demo_rule\<lparr>rb_used := True\<rparr>) = (Inr plan, demo_rule\<lparr>rb_used := True\<rparr>)"
    using f(1,4) by (simp add: Rule_Plan_def Rule_Validate_def Let_def)
  ultimately show ?thesis
    using d f(2,3,5) by (auto simp: Rule_Execute_def c Let_def)
qed

theorem execute_stays_in_namespace_witness:
  "\<exists>s' d. snd (snd (Rule_Execute None demo_dialer (\<lambda>_. None) demo_rule)) = Some s' \<and> s_conn s' = Some d \<and> conn_closed d"
proof -
  obtain b' s where e: "Rule_Execute None demo_dialer (\<lambda>_. None) demo_rule = (None, b', s)"
    using demo_execute by blast
  from execute_stays_in_namespace [OF e] show ?thesis unfolding e by auto
qed

text \<open>How a switch selects the flows a delete command removes: by cookie under a mask.\<close>

definition cookie_selected :: "OpenFlowFlow \<Rightarrow> u64 \<Rightarrow> bool" where
  "cookie_selected del cookie \<longleftrightarrow> cookie AND flow_CookieMask del = flow_Cookie del AND flow_CookieMask del"

text \<open>
  \<open>DeleteFlow\<close> selects exactly the flows that carry the cookie of the named rule; but if its
  cookie mask is set to zero, validation replaces the mask by the namespace mask, and the
  same delete then selects every flow of the namespace on that bridge.
\<close>

theorem delete_scope:
  assumes "Rule_Validate (DeleteFlow client bridge name) = (None, b)"
    and "Rule_Validate (builder_call (DeleteFlow client bridge name) (CallCookieMask 0)) = (None, b0)"
  shows "(cookie_selected (rb_flow b) k \<longleftrightarrow> k = openFlowCookieForName bridge name)
    \<and> (cookie_selected (rb_flow b0) k \<longleftrightarrow> k AND openFlowCookieMask = openFlowCookieNamespace)"
proof -
  have "NOT (0 :: u64) \<noteq> 0" by simp
  then have "rb_flow b = rb_flow (DeleteFlow client bridge name)"
    "rb_flow b0 = (rb_flow (DeleteFlow client bridge name))\<lparr>flow_CookieMask := openFlowCookieMask\<rparr>"
    using assms by (auto simp: Rule_Validate_def DeleteFlow_def builder_call_def Let_def
        split: option.splits if_splits)
  then show ?thesis
    using cookie_in_namespace [of bridge name]
    by (auto simp: cookie_selected_def DeleteFlow_def EnsureFlow_def Let_def)
qed

theorem delete_scope_witness:
  "cookie_selected (rb_flow (snd (Rule_Validate
      (builder_call (DeleteFlow (rb_client demo_rule) ''br0'' ''web'') (CallCookieMask 0)))))
     (openFlowCookieForName ''br0'' ''unrelated'')"
proof -
  let ?d = "DeleteFlow (rb_client demo_rule) ''br0'' ''web''"
  have "fst (Rule_Validate ?d) = None" "fst (Rule_Validate (builder_call ?d (CallCookieMask 0))) = None"
    by code_simp+
  then have "Rule_Validate ?d = (None, snd (Rule_Validate ?d))"
    "Rule_Validate (builder_call ?d (CallCookieMask 0)) = (None, snd (Rule_Validate (builder_call ?d (CallCookieMask 0))))"
    by (simp_all add: prod_eq_iff)
  from delete_scope [OF this] show ?thesis using cookie_in_namespace by blast
qed

end
