(* ===== verification/Sdwan.thy ===== *)
theory Sdwan
  imports Ipam Ownership Planning
begin

text \<open>
  \<^verbatim>\<open>src/sdwan.go\<close>: SD-WAN networks, their validation and normal form, the apply plan, the
  builder and the in-memory backend. Layers, topologies, transports and path modes are text in
  the source, so that unknown values exist and validation has to reject them. A Go map used
  as a set of site names is the list of its keys. Cloning copies values and is the identity
  here, since a nil map or slice is identified with an empty one.
\<close>

section \<open>Data\<close>

definition SDWANTransportWireGuard :: string where "SDWANTransportWireGuard = ''wireguard''"
definition SDWANTransportGeneve :: string where "SDWANTransportGeneve = ''geneve''"
definition SDWANTransportVXLAN :: string where "SDWANTransportVXLAN = ''vxlan''"
definition SDWANLayerL3 :: string where "SDWANLayerL3 = ''l3''"
definition SDWANLayerL2 :: string where "SDWANLayerL2 = ''l2''"
definition SDWANTopologyPartialMesh :: string where "SDWANTopologyPartialMesh = ''partial-mesh''"
definition SDWANTopologyHubSpoke :: string where "SDWANTopologyHubSpoke = ''hub-spoke''"
definition SDWANTopologyFullMesh :: string where "SDWANTopologyFullMesh = ''full-mesh''"
definition SDWANPathModeDirect :: string where "SDWANPathModeDirect = ''direct''"
definition SDWANPathModeRelay :: string where "SDWANPathModeRelay = ''relay''"
definition SDWANPathModeTransit :: string where "SDWANPathModeTransit = ''transit''"
definition SDWANPathModeAuto :: string where "SDWANPathModeAuto = ''auto''"

lemmas sdwan_constants = SDWANTransportWireGuard_def SDWANTransportGeneve_def SDWANTransportVXLAN_def
  SDWANLayerL3_def SDWANLayerL2_def SDWANTopologyPartialMesh_def SDWANTopologyHubSpoke_def
  SDWANTopologyFullMesh_def SDWANPathModeDirect_def SDWANPathModeRelay_def SDWANPathModeTransit_def
  SDWANPathModeAuto_def

definition ResourceStatusPresent :: string where "ResourceStatusPresent = ''present''"

record StatusFinding =
  sf_Severity :: string
  sf_Component :: string
  sf_Code :: string
  sf_Message :: string
  sf_Details :: string_map

record SDWANSite =
  site_Name :: string
  site_Router :: string
  site_CIDRs :: "string list"
  site_Endpoint :: string
  site_PublicKey :: string
  site_Role :: string
  site_Attributes :: string_map
  site_L2Segments :: "string list"
  site_Transit :: bool
  site_Relay :: bool

record SDWANLink =
  link_Name :: string
  link_From :: string
  link_To :: string
  link_Transport :: string
  link_PathMode :: string
  link_EndpointA :: string
  link_EndpointB :: string
  link_AllowedIPs :: "string list"
  link_Cost :: int
  link_Enabled :: bool
  link_Disabled :: bool
  link_Attributes :: string_map

record SDWANPolicy =
  pol_Name :: string
  pol_Layer :: string
  pol_SourceSite :: string
  pol_DestSite :: string
  pol_SourceCIDRs :: "string list"
  pol_DestCIDRs :: "string list"
  pol_PreferLinks :: "string list"
  pol_AvoidLinks :: "string list"
  pol_Priority :: int

record SDWANSiteStatus =
  ss_Name :: string
  ss_Ready :: bool

record SDWANLinkStatus =
  ls_Name :: string
  ls_From :: string
  ls_To :: string
  ls_Transport :: string
  ls_PathMode :: string
  ls_Ready :: bool

record SDWANStatus =
  st_State :: string
  st_Sites :: "SDWANSiteStatus list"
  st_Links :: "SDWANLinkStatus list"
  st_Findings :: "StatusFinding list"
  st_LastApplied :: int
  st_ResourceHash :: string

definition empty_status :: SDWANStatus where
  "empty_status = \<lparr>st_State = [], st_Sites = [], st_Links = [], st_Findings = [], st_LastApplied = 0,
     st_ResourceHash = []\<rparr>"

record SDWANNetwork =
  nw_Name :: string
  nw_Layer :: string
  nw_Topology :: string
  nw_Transport :: string
  nw_PathMode :: string
  nw_Sites :: "SDWANSite list"
  nw_Links :: "SDWANLink list"
  nw_Policies :: "SDWANPolicy list"
  nw_Owner :: OwnerRef
  nw_Labels :: Labels
  nw_Status :: SDWANStatus

record SDWANApplyPlan =
  ap_Network :: string
  ap_Operations :: "PlannedOperation list"

definition sdwan_err :: "ErrorKind \<Rightarrow> string \<Rightarrow> string \<Rightarrow> string \<Rightarrow> go_error" where
  "sdwan_err kind oper object message = wrap_err kind [] [] oper object message None"

section \<open>Validation\<close>

definition validSDWANLayer :: "string \<Rightarrow> bool" where
  "validSDWANLayer v \<longleftrightarrow> v = SDWANLayerL3 \<or> v = SDWANLayerL2"

definition validSDWANTopology :: "string \<Rightarrow> bool" where
  "validSDWANTopology v \<longleftrightarrow> v = SDWANTopologyPartialMesh \<or> v = SDWANTopologyHubSpoke \<or> v = SDWANTopologyFullMesh"

definition validSDWANPathMode :: "string \<Rightarrow> bool" where
  "validSDWANPathMode v \<longleftrightarrow> v = SDWANPathModeDirect \<or> v = SDWANPathModeRelay \<or> v = SDWANPathModeTransit
     \<or> v = SDWANPathModeAuto"

definition validSDWANTransport :: "string \<Rightarrow> bool" where
  "validSDWANTransport v \<longleftrightarrow> v = SDWANTransportWireGuard \<or> v = SDWANTransportGeneve \<or> v = SDWANTransportVXLAN"

definition StableName :: "SDWANLink \<Rightarrow> string" where
  "StableName l =
     (if link_Name l \<noteq> [] then link_Name l
      else if link_To l < link_From l then link_To l @ ''--'' @ link_From l
      else link_From l @ ''--'' @ link_To l)"

definition cidr_check :: "string \<Rightarrow> check" where
  "cidr_check cidr = err_of (parseIPv4Prefix cidr ''validate'')"

definition Site_Validate :: "SDWANSite \<Rightarrow> string \<Rightarrow> check" where
  "Site_Validate s layer =
     then_check (validateName ''sdwan site'' (site_Name s))
     (then_check
       (if blank (site_Router s) then Some (sdwan_err ErrorValidation ''validate'' (site_Name s) ''site router is required'')
        else None)
     (then_check
       (if layer = SDWANLayerL3 \<and> site_CIDRs s = []
        then Some (sdwan_err ErrorValidation ''validate'' (site_Name s) ''L3 site CIDRs are required'') else None)
     (then_check (check_all cidr_check (site_CIDRs s))
       (Labels_Validate (site_Attributes s)))))"

definition Link_Validate :: "SDWANLink \<Rightarrow> string list \<Rightarrow> string \<Rightarrow> check" where
  "Link_Validate l sites fallback =
     then_check (validateName ''sdwan link'' (StableName l))
     (if link_From l \<notin> set sites \<or> link_To l \<notin> set sites
      then Some (sdwan_err ErrorValidation ''validate'' (StableName l) ''link endpoints must reference known sites'')
      else if link_From l = link_To l
      then Some (sdwan_err ErrorValidation ''validate'' (StableName l) ''link endpoints must be different'')
      else if \<not> validSDWANTransport (if link_Transport l = [] then fallback else link_Transport l)
      then Some (sdwan_err ErrorValidation ''validate'' (StableName l) ''unsupported SD-WAN link transport'')
      else if link_PathMode l \<noteq> [] \<and> \<not> validSDWANPathMode (link_PathMode l)
      then Some (sdwan_err ErrorValidation ''validate'' (StableName l) ''unsupported SD-WAN link path mode'')
      else None)"

definition relay_mode :: "string \<Rightarrow> bool" where
  "relay_mode m \<longleftrightarrow> m = SDWANPathModeRelay \<or> m = SDWANPathModeTransit \<or> m = SDWANPathModeAuto"

definition validateSDWANLinkPathEndpoint :: "SDWANLink \<Rightarrow> string list \<Rightarrow> check" where
  "validateSDWANLinkPathEndpoint l relaySites =
     (if relay_mode (link_PathMode l) \<and> link_From l \<notin> set relaySites \<and> link_To l \<notin> set relaySites
      then Some (sdwan_err ErrorValidation ''validate'' (StableName l)
             ''relay, transit, and auto links must touch a hub, transit, or relay site'')
      else None)"

definition Policy_Validate :: "SDWANPolicy \<Rightarrow> string list \<Rightarrow> check" where
  "Policy_Validate p sites =
     then_check (validateName ''sdwan policy'' (pol_Name p))
     (if pol_SourceSite p \<noteq> [] \<and> pol_SourceSite p \<notin> set sites
      then Some (sdwan_err ErrorValidation ''validate'' (pol_Name p) ''source site must reference a known site'')
      else if pol_DestSite p \<noteq> [] \<and> pol_DestSite p \<notin> set sites
      then Some (sdwan_err ErrorValidation ''validate'' (pol_Name p) ''destination site must reference a known site'')
      else check_all cidr_check (pol_SourceCIDRs p @ pol_DestCIDRs p))"

definition relay_site :: "SDWANSite \<Rightarrow> bool" where
  "relay_site s \<longleftrightarrow> strings_EqualFold (site_Role s) ''hub'' \<or> site_Transit s \<or> site_Relay s"

definition relaySDWANSiteNames :: "SDWANSite list \<Rightarrow> string list" where
  "relaySDWANSiteNames sites = map site_Name (filter relay_site sites)"

text \<open>The loop over the sites: \<open>seen\<close> are the names of the sites before.\<close>

fun check_sites :: "string \<Rightarrow> string list \<Rightarrow> SDWANSite list \<Rightarrow> check" where
  "check_sites layer seen [] = None"
| "check_sites layer seen (s # ss) =
     then_check (Site_Validate s layer)
     (if site_Name s \<in> set seen
      then Some (sdwan_err ErrorConflict ''validate'' (site_Name s) ''duplicate SD-WAN site'')
      else check_sites layer (site_Name s # seen) ss)"

definition or_default :: "string \<Rightarrow> string \<Rightarrow> string" where
  "or_default v d = (if v = [] then d else v)"

definition Network_Validate :: "SDWANNetwork \<Rightarrow> check" where
  "Network_Validate n =
     (let layer = or_default (nw_Layer n) SDWANLayerL3;
          topology = or_default (nw_Topology n) SDWANTopologyPartialMesh;
          transport = or_default (nw_Transport n) SDWANTransportWireGuard;
          pathMode = or_default (nw_PathMode n) SDWANPathModeDirect;
          owner = nw_Owner n;
          siteNames = map site_Name (nw_Sites n);
          relaySites = relaySDWANSiteNames (nw_Sites n);
          bad = (\<lambda>msg. Some (sdwan_err ErrorValidation ''validate'' (nw_Name n) msg))
      in
      then_check (validateName ''sdwan network'' (nw_Name n))
      (then_check (if \<not> validSDWANLayer layer then bad ''unsupported SD-WAN layer'' else None)
      (then_check (if \<not> validSDWANTopology topology then bad ''unsupported SD-WAN topology'' else None)
      (then_check (if \<not> validSDWANTransport transport then bad ''unsupported SD-WAN transport'' else None)
      (then_check (if \<not> validSDWANPathMode pathMode then bad ''unsupported SD-WAN path mode'' else None)
      (then_check (if owner_Kind owner \<noteq> [] \<or> owner_Name owner \<noteq> [] \<or> owner_ID owner \<noteq> []
                   then OwnerRef_Validate owner else None)
      (then_check (Labels_Validate (nw_Labels n))
      (then_check (if length (nw_Sites n) < 2 then bad ''at least two SD-WAN sites are required'' else None)
      (then_check (check_sites layer [] (nw_Sites n))
      (then_check (check_all (\<lambda>link. then_check (Link_Validate link siteNames transport)
                     (validateSDWANLinkPathEndpoint link relaySites)) (nw_Links n))
        (check_all (\<lambda>p. Policy_Validate p siteNames) (nw_Policies n))))))))))))"

section \<open>Normal form\<close>

definition normalizeSDWANSites :: "SDWANSite list \<Rightarrow> SDWANSite list" where
  "normalizeSDWANSites sites =
     sort_key site_Name (map (\<lambda>s. s\<lparr>site_CIDRs := uniqueStrings (site_CIDRs s),
       site_L2Segments := uniqueStrings (site_L2Segments s),
       site_Attributes := cloneStringMap (site_Attributes s)\<rparr>) sites)"

text \<open>
  The three \<open>replace\<close> functions: the first element with the same name is replaced in place,
  otherwise the new one goes to the end.
\<close>

fun replace_first :: "('a \<Rightarrow> string) \<Rightarrow> 'a list \<Rightarrow> string \<Rightarrow> 'a \<Rightarrow> 'a list" where
  "replace_first key [] name x = [x]"
| "replace_first key (y # ys) name x = (if key y = name then x # ys else y # replace_first key ys name x)"

definition replaceSDWANSite :: "SDWANSite list \<Rightarrow> SDWANSite \<Rightarrow> SDWANSite list" where
  "replaceSDWANSite base site = replace_first site_Name base (site_Name site) site"

definition replaceSDWANLink :: "SDWANLink list \<Rightarrow> SDWANLink \<Rightarrow> SDWANLink list" where
  "replaceSDWANLink base link =
     (let name = StableName link in
      replace_first StableName base name (if link_Name link = [] then link\<lparr>link_Name := name\<rparr> else link))"

definition replaceSDWANPolicy :: "SDWANPolicy list \<Rightarrow> SDWANPolicy \<Rightarrow> SDWANPolicy list" where
  "replaceSDWANPolicy base policy = replace_first pol_Name base (pol_Name policy) policy"

definition ensureAutoSDWANLink :: "SDWANLink list \<Rightarrow> SDWANLink \<Rightarrow> SDWANLink list" where
  "ensureAutoSDWANLink base link =
     (if StableName link \<in> set (map StableName base) then base else replaceSDWANLink base link)"

definition auto_link :: "string \<Rightarrow> string \<Rightarrow> string \<Rightarrow> SDWANLink" where
  "auto_link transport a b =
     \<lparr>link_Name = [], link_From = a, link_To = b, link_Transport = transport, link_PathMode = [],
      link_EndpointA = [], link_EndpointB = [], link_AllowedIPs = [], link_Cost = 0, link_Enabled = True,
      link_Disabled = False, link_Attributes = fmempty\<rparr>"

text \<open>The pairs of the two nested loops of the full mesh, in order.\<close>

fun mesh_pairs :: "'a list \<Rightarrow> ('a \<times> 'a) list" where
  "mesh_pairs [] = []"
| "mesh_pairs (x # xs) = map (Pair x) xs @ mesh_pairs xs"

definition hub_pairs :: "SDWANSite list \<Rightarrow> (string \<times> string) list" where
  "hub_pairs sites =
     concat (map (\<lambda>hub. map (\<lambda>spoke. (site_Name hub, site_Name spoke))
       (filter (\<lambda>spoke. site_Name spoke \<noteq> site_Name hub \<and> \<not> relay_site spoke) sites)) (filter relay_site sites))"

definition auto_pairs :: "SDWANNetwork \<Rightarrow> (string \<times> string) list" where
  "auto_pairs network =
     (if nw_Topology network = SDWANTopologyFullMesh then mesh_pairs (map site_Name (normalizeSDWANSites (nw_Sites network)))
      else if nw_Topology network = SDWANTopologyHubSpoke then hub_pairs (normalizeSDWANSites (nw_Sites network))
      else [])"

definition defaultSDWANLinkPathMode :: "string \<Rightarrow> SDWANLink \<Rightarrow> string list \<Rightarrow> string" where
  "defaultSDWANLinkPathMode networkMode link relaySites =
     (if networkMode = [] \<or> networkMode = SDWANPathModeDirect then SDWANPathModeDirect
      else if link_From link \<in> set relaySites \<or> link_To link \<in> set relaySites then networkMode
      else SDWANPathModeDirect)"

definition normalize_link :: "SDWANNetwork \<Rightarrow> SDWANLink \<Rightarrow> SDWANLink" where
  "normalize_link network l =
     (let l = l\<lparr>link_Name := StableName l\<rparr>;
          l = (if link_Transport l = [] then l\<lparr>link_Transport := nw_Transport network\<rparr> else l);
          l = (if link_PathMode l = []
               then l\<lparr>link_PathMode := defaultSDWANLinkPathMode (nw_PathMode network) l
                        (relaySDWANSiteNames (nw_Sites network))\<rparr> else l);
          l = (if link_Disabled l then l\<lparr>link_Enabled := False\<rparr> else l\<lparr>link_Enabled := True\<rparr>)
      in l\<lparr>link_AllowedIPs := uniqueStrings (link_AllowedIPs l), link_Attributes := cloneStringMap (link_Attributes l)\<rparr>)"

definition normalizeSDWANLinks :: "SDWANNetwork \<Rightarrow> SDWANLink list" where
  "normalizeSDWANLinks network =
     sort_key StableName (map (normalize_link network)
       (foldl (\<lambda>links (a, b). ensureAutoSDWANLink links (auto_link (nw_Transport network) a b))
          (nw_Links network) (auto_pairs network)))"

definition cloneSDWANNetwork :: "SDWANNetwork \<Rightarrow> SDWANNetwork" where
  "cloneSDWANNetwork n = n\<lparr>
     nw_Sites := map (\<lambda>s. s\<lparr>site_Attributes := cloneStringMap (site_Attributes s)\<rparr>) (nw_Sites n),
     nw_Links := map (\<lambda>l. l\<lparr>link_Attributes := cloneStringMap (link_Attributes l)\<rparr>) (nw_Links n)\<rparr>"

definition normalizeSDWANNetwork :: "SDWANNetwork \<Rightarrow> SDWANNetwork" where
  "normalizeSDWANNetwork n =
     (let out = cloneSDWANNetwork n;
          out = out\<lparr>nw_Layer := or_default (nw_Layer out) SDWANLayerL3,
            nw_Topology := or_default (nw_Topology out) SDWANTopologyPartialMesh,
            nw_Transport := or_default (nw_Transport out) SDWANTransportWireGuard,
            nw_PathMode := or_default (nw_PathMode out) SDWANPathModeDirect\<rparr>;
          out = out\<lparr>nw_Sites := normalizeSDWANSites (nw_Sites out)\<rparr>;
          out = out\<lparr>nw_Links := normalizeSDWANLinks out\<rparr>
      in out\<lparr>nw_Policies := sort_key pol_Name (nw_Policies out)\<rparr>)"

section \<open>Plans\<close>

definition sdwan_op :: "string \<Rightarrow> string \<Rightarrow> string \<Rightarrow> PlannedOperation" where
  "sdwan_op resource name description =
     \<lparr>op_Action = IntentActionEnsure, op_Resource = resource, op_Name = name, op_Description = description\<rparr>"

definition tunnel_resource :: "string \<Rightarrow> string" where
  "tunnel_resource transport =
     (if transport = SDWANTransportWireGuard then ''WireGuardTunnel''
      else if transport = SDWANTransportGeneve \<or> transport = SDWANTransportVXLAN then ''OVSTunnel''
      else ''SDWANTunnel'')"

definition link_ops :: "SDWANNetwork \<Rightarrow> SDWANLink \<Rightarrow> PlannedOperation list" where
  "link_ops network link =
     (if link_Disabled link \<or> \<not> link_Enabled link then []
      else [sdwan_op (tunnel_resource (link_Transport link)) (StableName link) ''ensure SD-WAN tunnel'']
        @ [if nw_Layer network = SDWANLayerL3
           then sdwan_op ''RoutePolicy'' (StableName link) ''ensure SD-WAN route and policy-routing state''
           else sdwan_op ''OpenFlowRule'' (StableName link) ''ensure L2 overlay forwarding flow'']
        @ (if relay_mode (link_PathMode link)
           then [sdwan_op ''SDWANPath'' (StableName link) ''ensure SD-WAN path selection and relay compatibility'']
           else []))"

definition planSDWANApply :: "SDWANNetwork \<Rightarrow> SDWANApplyPlan" where
  "planSDWANApply network =
     \<lparr>ap_Network = nw_Name network,
      ap_Operations =
        [sdwan_op ''SDWANNetwork'' (nw_Name network) ''reconcile SD-WAN desired state'']
        @ map (\<lambda>site. sdwan_op ''SDWANSite'' (site_Name site) ''ensure SD-WAN site identity and route inventory'')
            (nw_Sites network)
        @ concat (map (link_ops network) (normalizeSDWANLinks network))
        @ map (\<lambda>p. sdwan_op ''SDWANPolicy'' (pol_Name p) ''ensure SD-WAN traffic policy'') (nw_Policies network)\<rparr>"

section \<open>Backends\<close>

text \<open>The interface \<open>SDWANBackend\<close>: what a backend does to its state.\<close>

record 'b SDWANBackend =
  be_Get :: "'b \<Rightarrow> string \<Rightarrow> SDWANNetwork res"
  be_Apply :: "'b \<Rightarrow> SDWANNetwork \<Rightarrow> SDWANApplyPlan \<Rightarrow> check \<times> 'b"
  be_Delete :: "'b \<Rightarrow> string \<Rightarrow> check \<times> 'b"

record InMemorySDWANBackend =
  mb_networks :: "(string, SDWANNetwork) fmap"
  mb_plans :: "(string, SDWANApplyPlan) fmap"

definition NewInMemorySDWANBackend :: InMemorySDWANBackend where
  "NewInMemorySDWANBackend = \<lparr>mb_networks = fmempty, mb_plans = fmempty\<rparr>"

definition GetSDWAN :: "InMemorySDWANBackend \<Rightarrow> string \<Rightarrow> SDWANNetwork res" where
  "GetSDWAN b name =
     (case fmlookup (mb_networks b) name of
        None \<Rightarrow> Inl (sdwan_err ErrorNotFound ''get'' name ''SD-WAN network not found'')
      | Some network \<Rightarrow> Inr (cloneSDWANNetwork network))"

definition ApplySDWAN :: "InMemorySDWANBackend \<Rightarrow> SDWANNetwork \<Rightarrow> SDWANApplyPlan \<Rightarrow> check \<times> InMemorySDWANBackend" where
  "ApplySDWAN b network0 plan =
     (let network = normalizeSDWANNetwork network0;
          status = (case fmlookup (mb_networks b) (nw_Name network) of
                      Some current \<Rightarrow> nw_Status current | None \<Rightarrow> nw_Status network);
          status = status\<lparr>st_State := ResourceStatusPresent, st_LastApplied := st_LastApplied status + 1\<rparr>;
          network = network\<lparr>nw_Status := status\<rparr>
      in (None, b\<lparr>mb_networks := fmupd (nw_Name network) (cloneSDWANNetwork network) (mb_networks b),
                 mb_plans := fmupd (nw_Name network) plan (mb_plans b)\<rparr>))"

definition DeleteSDWAN :: "InMemorySDWANBackend \<Rightarrow> string \<Rightarrow> check \<times> InMemorySDWANBackend" where
  "DeleteSDWAN b name =
     (if name |\<notin>| fmdom (mb_networks b)
      then (Some (sdwan_err ErrorNotFound ''delete'' name ''SD-WAN network not found''), b)
      else (None, b\<lparr>mb_networks := fmdrop name (mb_networks b), mb_plans := fmdrop name (mb_plans b)\<rparr>))"

definition LastPlan :: "InMemorySDWANBackend \<Rightarrow> string \<Rightarrow> SDWANApplyPlan option" where
  "LastPlan b name = fmlookup (mb_plans b) name"

definition InMemory_backend :: "InMemorySDWANBackend SDWANBackend" where
  "InMemory_backend = \<lparr>be_Get = GetSDWAN, be_Apply = ApplySDWAN, be_Delete = DeleteSDWAN\<rparr>"

section \<open>The builder\<close>

record SDWANNetworkBuilder =
  nb_used :: bool
  nb_network :: SDWANNetwork

definition Network_Ensure :: "string \<Rightarrow> SDWANNetworkBuilder" where
  "Network_Ensure name = \<lparr>nb_used = False, nb_network =
     \<lparr>nw_Name = name, nw_Layer = SDWANLayerL3, nw_Topology = SDWANTopologyPartialMesh,
      nw_Transport = SDWANTransportWireGuard, nw_PathMode = [], nw_Sites = [], nw_Links = [], nw_Policies = [],
      nw_Owner = \<lparr>owner_Kind = [], owner_Name = [], owner_ID = []\<rparr>, nw_Labels = fmempty, nw_Status = empty_status\<rparr>\<rparr>"

datatype sdwan_call =
    CallLayer string | CallTopology string | CallTransport string | CallPathMode string
  | CallAddSite string SDWANSite | CallAddLink SDWANLink | CallAddPolicy string SDWANPolicy
  | CallSiteAttribute string string string | CallLinkAttribute string string string
  | CallSdwanOwner string string | CallSdwanLabel string string

fun update_first :: "('a \<Rightarrow> bool) \<Rightarrow> ('a \<Rightarrow> 'a) \<Rightarrow> 'a list \<Rightarrow> 'a list" where
  "update_first p f [] = []"
| "update_first p f (x # xs) = (if p x then f x # xs else x # update_first p f xs)"

fun apply_sdwan_call :: "SDWANNetwork \<Rightarrow> sdwan_call \<Rightarrow> SDWANNetwork" where
  "apply_sdwan_call n (CallLayer v) = n\<lparr>nw_Layer := v\<rparr>"
| "apply_sdwan_call n (CallTopology v) = n\<lparr>nw_Topology := v\<rparr>"
| "apply_sdwan_call n (CallTransport v) = n\<lparr>nw_Transport := v\<rparr>"
| "apply_sdwan_call n (CallPathMode v) = n\<lparr>nw_PathMode := v\<rparr>"
| "apply_sdwan_call n (CallAddSite name s) = n\<lparr>nw_Sites := replaceSDWANSite (nw_Sites n) (s\<lparr>site_Name := name\<rparr>)\<rparr>"
| "apply_sdwan_call n (CallAddLink l) = n\<lparr>nw_Links := replaceSDWANLink (nw_Links n) l\<rparr>"
| "apply_sdwan_call n (CallAddPolicy name p) =
     n\<lparr>nw_Policies := replaceSDWANPolicy (nw_Policies n) (p\<lparr>pol_Name := name\<rparr>)\<rparr>"
| "apply_sdwan_call n (CallSiteAttribute site key value) =
     n\<lparr>nw_Sites := update_first (\<lambda>s. site_Name s = site)
        (\<lambda>s. s\<lparr>site_Attributes := fmupd key value (site_Attributes s)\<rparr>) (nw_Sites n)\<rparr>"
| "apply_sdwan_call n (CallLinkAttribute link key value) =
     n\<lparr>nw_Links := update_first (\<lambda>l. \<not> (StableName l \<noteq> link \<and> link_Name l \<noteq> link))
        (\<lambda>l. l\<lparr>link_Attributes := fmupd key value (link_Attributes l)\<rparr>) (nw_Links n)\<rparr>"
| "apply_sdwan_call n (CallSdwanOwner kind name) =
     n\<lparr>nw_Owner := \<lparr>owner_Kind = kind, owner_Name = name, owner_ID = []\<rparr>\<rparr>"
| "apply_sdwan_call n (CallSdwanLabel key value) = n\<lparr>nw_Labels := fmupd key value (nw_Labels n)\<rparr>"

definition Network_ApplyPlan :: "SDWANNetwork \<Rightarrow> SDWANApplyPlan res" where
  "Network_ApplyPlan n = guard_res (Network_Validate n) (Inr (planSDWANApply (normalizeSDWANNetwork n)))"

definition Network_Plan :: "SDWANNetwork \<Rightarrow> Plan res" where
  "Network_Plan n = guard_res (Network_Validate n)
     (res_bind (Network_ApplyPlan n) (\<lambda>apply. Inr \<lparr>plan_Operations = ap_Operations apply, plan_Warnings = []\<rparr>))"

text \<open>The backend a builder reaches: none, or its operations with its state.\<close>

definition Network_current :: "'b SDWANBackend \<Rightarrow> 'b option \<Rightarrow> SDWANNetwork \<Rightarrow> SDWANNetwork option res" where
  "Network_current be st n =
     (case st of
        None \<Rightarrow> Inr None
      | Some b \<Rightarrow>
          (case be_Get be b (nw_Name n) of
             Inl e \<Rightarrow> if IsKind (Some e) ErrorNotFound then Inr None else Inl e
           | Inr current \<Rightarrow> Inr (Some (normalizeSDWANNetwork current))))"

definition Network_DryRun :: "'b SDWANBackend \<Rightarrow> 'b option \<Rightarrow> SDWANNetwork \<Rightarrow> SDWANNetwork DryRunResult res" where
  "Network_DryRun be st n =
     res_bind (Network_Plan n) (\<lambda>plan.
     res_bind (Network_current be st n) (\<lambda>current.
       let desired = (normalizeSDWANNetwork n)\<lparr>nw_Status := empty_status\<rparr>;
           current = map_option (\<lambda>c. c\<lparr>nw_Status := empty_status\<rparr>) current;
           changes = (if current = Some desired then []
             else [\<lparr>ch_Path = ''/'', ch_Before = current, ch_After = Some desired\<rparr>])
       in Inr \<lparr>dry_Plan = plan, dry_Diff = \<lparr>diff_Resource = ''SDWANNetwork'', diff_Name = nw_Name desired,
            diff_Changes = changes\<rparr>\<rparr>))"

definition Network_Reconcile :: "'b SDWANBackend \<Rightarrow> 'b option \<Rightarrow> SDWANNetwork
    \<Rightarrow> SDWANNetwork ReconcileResult res \<times> 'b option" where
  "Network_Reconcile be st n =
     (case Network_DryRun be st n of
        Inl e \<Rightarrow> (Inl e, st)
      | Inr dryRun \<Rightarrow>
          if Diff_Empty (dry_Diff dryRun)
          then (Inr \<lparr>rec_Plan = dry_Plan dryRun, rec_Diff = dry_Diff dryRun, rec_Applied = False\<rparr>, st)
          else case st of
            None \<Rightarrow> (Inl ErrBackendUnavailable, st)
          | Some b \<Rightarrow>
              (case Network_ApplyPlan n of
                 Inl e \<Rightarrow> (Inl e, st)
               | Inr applyPlan \<Rightarrow>
                   (case be_Apply be b (normalizeSDWANNetwork n) applyPlan of
                      (Some e, b') \<Rightarrow> (Inl e, Some b')
                    | (None, b') \<Rightarrow>
                        (Inr \<lparr>rec_Plan = dry_Plan dryRun, rec_Diff = dry_Diff dryRun, rec_Applied = True\<rparr>, Some b'))))"

definition Network_Execute :: "'b SDWANBackend \<Rightarrow> 'b option \<Rightarrow> SDWANNetworkBuilder
    \<Rightarrow> check \<times> SDWANNetworkBuilder \<times> 'b option" where
  "Network_Execute be st b =
     (if nb_used b then (Some (sdwan_err ErrorValidation ''execute'' (nw_Name (nb_network b)) ''builder already executed''), b, st)
      else case Network_Reconcile be st (nb_network b) of
        (r, st') \<Rightarrow> (err_of r, b\<lparr>nb_used := True\<rparr>, st'))"

definition Network_Get :: "'b SDWANBackend \<Rightarrow> 'b option \<Rightarrow> string \<Rightarrow> SDWANNetwork res" where
  "Network_Get be st name =
     guard_res (validateName ''sdwan network'' name)
     (case st of None \<Rightarrow> Inl ErrBackendUnavailable | Some b \<Rightarrow> be_Get be b name)"

definition Delete_Plan :: "string \<Rightarrow> Plan res" where
  "Delete_Plan name = guard_res (validateName ''sdwan network'' name)
     (Inr \<lparr>plan_Operations = [\<lparr>op_Action = IntentActionDelete, op_Resource = ''SDWANNetwork'', op_Name = name,
        op_Description = ''delete SD-WAN network desired state''\<rparr>], plan_Warnings = []\<rparr>)"

definition Delete_Execute :: "'b SDWANBackend \<Rightarrow> 'b option \<Rightarrow> bool \<Rightarrow> string \<Rightarrow> check \<times> bool \<times> 'b option" where
  "Delete_Execute be st used name =
     (if used then (Some (sdwan_err ErrorValidation ''delete'' name ''builder already executed''), used, st)
      else case Delete_Plan name of
        Inl e \<Rightarrow> (Some e, True, st)
      | Inr plan \<Rightarrow>
          (case st of
             None \<Rightarrow> (Some ErrBackendUnavailable, True, st)
           | Some b \<Rightarrow> (case be_Delete be b name of (r, b') \<Rightarrow> (r, True, Some b'))))"

end
