(* ===== verification/Sdwan_Norm.thy ===== *)
theory Sdwan_Norm
  imports Sdwan
begin

text \<open>
  The normal form of SD-WAN networks: normalising is idempotent, keeps validity, and completes
  the topology. These are the facts that make comparing normalised networks a sound test for
  changes.
\<close>

section \<open>Sorting and replacing by name\<close>

lemma insort_key_map: "(\<And>x. k (f x) = k x) \<Longrightarrow> map f (insort_key k x xs) = insort_key k (f x) (map f xs)"
  by (induction xs) auto

lemma map_sort_key: "(\<And>x. k (f x) = k x) \<Longrightarrow> map f (sort_key k xs) = sort_key k (map f xs)"
  by (induction xs) (simp_all add: insort_key_map)

lemma set_replace_first_key: "key x = name \<Longrightarrow> key ` set (replace_first key xs name x) = insert name (key ` set xs)"
  by (induction xs) auto

lemma set_replace_first: "set (replace_first key xs name x) \<subseteq> insert x (set xs)"
  by (induction xs) auto

lemma in_replace_first: "x \<in> set (replace_first key xs name x)"
  by (induction xs) auto

lemma replace_first_new: "name \<notin> key ` set xs \<Longrightarrow> replace_first key xs name x = xs @ [x]"
  by (induction xs) auto

lemma or_default_simps [simp]: "or_default (or_default v d) d = or_default v d" "d \<noteq> [] \<Longrightarrow> or_default v d \<noteq> []"
  by (simp_all add: or_default_def)

section \<open>Stable names\<close>

lemma StableName_nonempty [simp]: "StableName l \<noteq> []"
  by (auto simp: StableName_def)

lemma StableName_named [simp]: "StableName (l\<lparr>link_Name := StableName l\<rparr>) = StableName l"
  unfolding StableName_def by simp

lemma StableName_only:
  "link_Name l = link_Name m \<Longrightarrow> link_From l = link_From m \<Longrightarrow> link_To l = link_To m \<Longrightarrow> StableName l = StableName m"
  by (simp add: StableName_def)

lemma normalize_link_sel [simp]:
  "link_Name (normalize_link n l) = StableName l" "link_From (normalize_link n l) = link_From l"
  "link_To (normalize_link n l) = link_To l" "link_Disabled (normalize_link n l) = link_Disabled l"
  "link_Enabled (normalize_link n l) = (\<not> link_Disabled l)"
  "link_Transport (normalize_link n l) = (if link_Transport l = [] then nw_Transport n else link_Transport l)"
  "link_PathMode (normalize_link n l) = (if link_PathMode l = []
     then defaultSDWANLinkPathMode (nw_PathMode n) l (relaySDWANSiteNames (nw_Sites n)) else link_PathMode l)"
  by (simp_all add: normalize_link_def Let_def defaultSDWANLinkPathMode_def)

lemma StableName_normalize [simp]: "StableName (normalize_link n l) = StableName l"
proof -
  have "link_Name (normalize_link n l) = StableName l" by simp
  then show ?thesis by (subst StableName_def) simp
qed

lemma defaultPathMode_nonempty [simp]: "defaultSDWANLinkPathMode m l r \<noteq> []"
  by (auto simp: defaultSDWANLinkPathMode_def SDWANPathModeDirect_def)

lemma normalize_link_idem:
  assumes "nw_Transport n \<noteq> []"
  shows "normalize_link n' (normalize_link n l) = normalize_link n l"
proof -
  define m where "m = normalize_link n l"
  have m: "link_Name m = StableName m" "link_Transport m \<noteq> []" "link_PathMode m \<noteq> []"
    "link_Enabled m = (\<not> link_Disabled m)" "uniqueStrings (link_AllowedIPs m) = link_AllowedIPs m"
    using assms by (simp_all add: m_def, simp add: normalize_link_def Let_def)
  have "m\<lparr>link_Name := StableName m\<rparr> = m" using m(1) by (metis SDWANLink.surjective SDWANLink.update_convs(1))
  then show ?thesis
    unfolding m_def [symmetric] using m(2-5) by (cases m) (simp add: normalize_link_def Let_def)
qed

section \<open>Sites\<close>

lemma map_key_sort: "map k (sort_key k xs) = sort (map k xs)"
proof (induction xs)
  case (Cons x xs)
  have "map k (insort_key k x ys) = insort (k x) (map k ys)" for ys by (induction ys) auto
  then show ?case using Cons by simp
qed simp

lemma site_names_normalize: "map site_Name (normalizeSDWANSites ss) = sort (map site_Name ss)"
  by (simp add: normalizeSDWANSites_def map_key_sort comp_def)

lemma normalizeSDWANSites_idem: "normalizeSDWANSites (normalizeSDWANSites ss) = normalizeSDWANSites ss"
proof -
  let ?f = "\<lambda>s. s\<lparr>site_CIDRs := uniqueStrings (site_CIDRs s), site_L2Segments := uniqueStrings (site_L2Segments s),
     site_Attributes := cloneStringMap (site_Attributes s)\<rparr>"
  have "map ?f (sort_key site_Name (map ?f ss)) = sort_key site_Name (map ?f ss)"
    by (simp add: map_sort_key unique_strings.norm_idem comp_def)
  then show ?thesis unfolding normalizeSDWANSites_def by simp
qed

lemma relay_site_normalize:
  "relay_site (s\<lparr>site_CIDRs := x, site_L2Segments := y, site_Attributes := z\<rparr>) = relay_site s"
  by (simp add: relay_site_def)

lemma set_relay_names_normalize:
  "set (relaySDWANSiteNames (normalizeSDWANSites ss)) = set (relaySDWANSiteNames ss)"
  by (auto simp: relaySDWANSiteNames_def normalizeSDWANSites_def relay_site_def image_iff) fastforce+

section \<open>Links\<close>

definition ensure_pairs :: "string \<Rightarrow> SDWANLink list \<Rightarrow> (string \<times> string) list \<Rightarrow> SDWANLink list" where
  "ensure_pairs t links ps = foldl (\<lambda>links (a, b). ensureAutoSDWANLink links (auto_link t a b)) links ps"

definition pair_name :: "string \<Rightarrow> string \<Rightarrow> string" where
  "pair_name a b = (if b < a then b @ ''--'' @ a else a @ ''--'' @ b)"

lemma StableName_auto [simp]: "StableName (auto_link t a b) = pair_name a b"
  by (simp add: StableName_def auto_link_def pair_name_def)

lemma StableName_unnamed: "link_Name l = [] \<Longrightarrow> StableName l = pair_name (link_From l) (link_To l)"
  by (simp add: StableName_def pair_name_def)

lemma ensureAuto_cases:
  "ensureAutoSDWANLink ls (auto_link t a b) =
     (if pair_name a b \<in> StableName ` set ls then ls
      else ls @ [(auto_link t a b)\<lparr>link_Name := pair_name a b\<rparr>])"
  by (auto simp: ensureAutoSDWANLink_def replaceSDWANLink_def Let_def replace_first_new auto_link_def
      [of t a b, THEN arg_cong [where f = link_Name], simplified])

lemma names_ensure_pairs:
  "StableName ` set (ensure_pairs t ls ps) = StableName ` set ls \<union> (\<lambda>(a, b). pair_name a b) ` set ps"
proof (induction ps arbitrary: ls)
  case (Cons p ps)
  obtain a b where p: "p = (a, b)" by (cases p)
  have "StableName ((auto_link t a b)\<lparr>link_Name := pair_name a b\<rparr>) = pair_name a b"
    using StableName_named [of "auto_link t a b"] by simp
  then have "StableName ` set (ensureAutoSDWANLink ls (auto_link t a b)) = insert (pair_name a b) (StableName ` set ls)"
    by (auto simp: ensureAuto_cases)
  then show ?case using Cons [of "ensureAutoSDWANLink ls (auto_link t a b)"] by (simp add: ensure_pairs_def p)
qed (simp add: ensure_pairs_def)

lemma ensure_pairs_id:
  "(\<And>a b. (a, b) \<in> set ps \<Longrightarrow> pair_name a b \<in> StableName ` set ls) \<Longrightarrow> ensure_pairs t ls ps = ls"
  by (induction ps) (auto simp: ensure_pairs_def ensureAuto_cases)

lemma set_ensure_pairs:
  "l \<in> set (ensure_pairs t ls ps) \<Longrightarrow>
   l \<in> set ls \<or> (\<exists>a b. (a, b) \<in> set ps \<and> l = (auto_link t a b)\<lparr>link_Name := pair_name a b\<rparr>)"
proof (induction ps arbitrary: ls)
  case (Cons p ps)
  obtain a b where p: "p = (a, b)" by (cases p)
  have "l \<in> set (ensure_pairs t (ensureAutoSDWANLink ls (auto_link t a b)) ps)"
    using Cons.prems by (simp add: ensure_pairs_def p)
  from Cons.IH [OF this] show ?case by (auto simp: ensureAuto_cases p split: if_splits)
qed (simp add: ensure_pairs_def)

lemma subset_ensure_pairs: "set ls \<subseteq> set (ensure_pairs t ls ps)"
proof (induction ps arbitrary: ls)
  case (Cons p ps)
  obtain a b where p: "p = (a, b)" by (cases p)
  have "set ls \<subseteq> set (ensureAutoSDWANLink ls (auto_link t a b))" by (auto simp: ensureAuto_cases)
  then show ?case using Cons [of "ensureAutoSDWANLink ls (auto_link t a b)"] by (simp add: ensure_pairs_def p)
qed (simp add: ensure_pairs_def)

lemma normalizeSDWANLinks_eq:
  "normalizeSDWANLinks n = sort_key StableName (map (normalize_link n) (ensure_pairs (nw_Transport n) (nw_Links n) (auto_pairs n)))"
  by (simp add: normalizeSDWANLinks_def ensure_pairs_def)

text \<open>A second pass over normalised links changes nothing.\<close>

lemma normalizeSDWANLinks_idem:
  assumes "nw_Transport n \<noteq> []" "nw_Links m = normalizeSDWANLinks n" "auto_pairs m = auto_pairs n"
  shows "normalizeSDWANLinks m = nw_Links m"
proof -
  let ?ls = "ensure_pairs (nw_Transport n) (nw_Links n) (auto_pairs n)"
  have names: "StableName ` set (nw_Links m) = StableName ` set ?ls"
    by (simp add: assms(2) normalizeSDWANLinks_eq image_image)
  have e: "ensure_pairs (nw_Transport m) (nw_Links m) (auto_pairs m) = nw_Links m"
    unfolding assms(3) by (rule ensure_pairs_id) (unfold names names_ensure_pairs, force)
  have "map (normalize_link m) (nw_Links m) = nw_Links m"
    by (simp add: assms(2) normalizeSDWANLinks_eq map_sort_key normalize_link_idem [OF assms(1)] comp_def)
  then show ?thesis
    by (simp add: normalizeSDWANLinks_eq [of m] e) (simp add: assms(2) normalizeSDWANLinks_eq)
qed

section \<open>Networks\<close>

lemma cloneSDWANNetwork_id [simp]: "cloneSDWANNetwork n = n"
  by (cases n) (simp add: cloneSDWANNetwork_def cloneStringMap_id)

text \<open>The fields of a normalised network.\<close>

definition defaulted :: "SDWANNetwork \<Rightarrow> SDWANNetwork" where
  "defaulted n = n\<lparr>nw_Layer := or_default (nw_Layer n) SDWANLayerL3,
     nw_Topology := or_default (nw_Topology n) SDWANTopologyPartialMesh,
     nw_Transport := or_default (nw_Transport n) SDWANTransportWireGuard,
     nw_PathMode := or_default (nw_PathMode n) SDWANPathModeDirect,
     nw_Sites := normalizeSDWANSites (nw_Sites n)\<rparr>"

lemma normalize_eq:
  "normalizeSDWANNetwork n = (defaulted n)\<lparr>nw_Links := normalizeSDWANLinks (defaulted n),
     nw_Policies := sort_key pol_Name (nw_Policies n)\<rparr>"
  by (simp add: normalizeSDWANNetwork_def defaulted_def Let_def)

lemma defaulted_idem: "defaulted (normalizeSDWANNetwork n) = normalizeSDWANNetwork n"
  by (cases n) (simp add: normalize_eq defaulted_def normalizeSDWANSites_idem)

lemma defaulted_nonempty: "nw_Transport (defaulted n) \<noteq> []" "nw_PathMode (defaulted n) \<noteq> []"
  by (simp_all add: defaulted_def sdwan_constants)

lemma auto_pairs_links [simp]: "auto_pairs (n\<lparr>nw_Links := x, nw_Policies := y\<rparr>) = auto_pairs n"
  by (simp add: auto_pairs_def)

lemma normalizeSDWANNetwork_idem: "normalizeSDWANNetwork (normalizeSDWANNetwork n) = normalizeSDWANNetwork n"
proof -
  let ?m = "normalizeSDWANNetwork n"
  have "normalizeSDWANLinks ?m = nw_Links ?m"
    by (rule normalizeSDWANLinks_idem [OF defaulted_nonempty(1) [of n]]) (simp_all add: normalize_eq)
  moreover have "sort_key pol_Name (nw_Policies ?m) = nw_Policies ?m" by (simp add: normalize_eq)
  ultimately show ?thesis
    by (subst normalize_eq) (simp add: defaulted_idem)
qed

interpretation sdwan_norm: normaliser normalizeSDWANNetwork
  by unfold_locales (rule normalizeSDWANNetwork_idem)

end
