(* ===== verification/Sdwan_Valid.thy ===== *)
theory Sdwan_Valid
  imports Sdwan_Norm
begin

text \<open>
  Normalising keeps a network valid, and completes its topology: in a full mesh every two sites
  are joined by a link, in a hub-and-spoke network every hub and spoke are.
\<close>

section \<open>Validity as a predicate\<close>

lemma check_sites_None:
  "check_sites layer seen ss = None \<longleftrightarrow>
     (\<forall>s\<in>set ss. Site_Validate s layer = None) \<and> distinct (map site_Name ss)
     \<and> set (map site_Name ss) \<inter> set seen = {}"
  by (induction layer seen ss rule: check_sites.induct) (auto simp: then_check_None)

definition link_ok :: "string list \<Rightarrow> string list \<Rightarrow> string \<Rightarrow> SDWANLink \<Rightarrow> bool" where
  "link_ok sites relays transport l \<longleftrightarrow>
     Link_Validate l sites transport = None \<and> validateSDWANLinkPathEndpoint l relays = None"

lemma Network_Validate_None:
  "Network_Validate n = None \<longleftrightarrow>
     \<not> blank (nw_Name n) \<and> validSDWANLayer (or_default (nw_Layer n) SDWANLayerL3)
     \<and> validSDWANTopology (or_default (nw_Topology n) SDWANTopologyPartialMesh)
     \<and> validSDWANTransport (or_default (nw_Transport n) SDWANTransportWireGuard)
     \<and> validSDWANPathMode (or_default (nw_PathMode n) SDWANPathModeDirect)
     \<and> (owner_Kind (nw_Owner n) \<noteq> [] \<or> owner_Name (nw_Owner n) \<noteq> [] \<or> owner_ID (nw_Owner n) \<noteq> [] \<longrightarrow>
         OwnerRef_Validate (nw_Owner n) = None)
     \<and> Labels_Validate (nw_Labels n) = None \<and> 2 \<le> length (nw_Sites n)
     \<and> (\<forall>s\<in>set (nw_Sites n). Site_Validate s (or_default (nw_Layer n) SDWANLayerL3) = None)
     \<and> distinct (map site_Name (nw_Sites n))
     \<and> (\<forall>l\<in>set (nw_Links n). link_ok (map site_Name (nw_Sites n)) (relaySDWANSiteNames (nw_Sites n))
          (or_default (nw_Transport n) SDWANTransportWireGuard) l)
     \<and> (\<forall>p\<in>set (nw_Policies n). Policy_Validate p (map site_Name (nw_Sites n)) = None)"
  by (simp add: Network_Validate_def Let_def then_check_None check_sites_None check_all_None link_ok_def
      not_less split del: if_split) (auto split: if_splits)

lemma link_ok_iff:
  "link_ok sites relays transport l \<longleftrightarrow>
     \<not> blank (StableName l) \<and> link_From l \<in> set sites \<and> link_To l \<in> set sites \<and> link_From l \<noteq> link_To l
     \<and> validSDWANTransport (if link_Transport l = [] then transport else link_Transport l)
     \<and> (link_PathMode l \<noteq> [] \<longrightarrow> validSDWANPathMode (link_PathMode l))
     \<and> (relay_mode (link_PathMode l) \<longrightarrow> link_From l \<in> set relays \<or> link_To l \<in> set relays)"
  by (auto simp: link_ok_def Link_Validate_def validateSDWANLinkPathEndpoint_def then_check_None split: if_splits)

lemma relay_mode_valid: "relay_mode m \<Longrightarrow> m \<noteq> []" "\<not> relay_mode []" "\<not> relay_mode SDWANPathModeDirect"
  by (auto simp: relay_mode_def sdwan_constants)

section \<open>Normalising keeps validity\<close>

lemma normalize_link_ok:
  assumes ok: "link_ok sites relays t l" and t: "nw_Transport n = t" "validSDWANTransport t"
    and m: "validSDWANPathMode (nw_PathMode n)" and r: "set (relaySDWANSiteNames (nw_Sites n)) = set relays"
  shows "link_ok sites relays t (normalize_link n l)"
proof -
  have "t \<noteq> []" using t(2) by (auto simp: validSDWANTransport_def sdwan_constants)
  moreover have "validSDWANPathMode SDWANPathModeDirect" by (simp add: validSDWANPathMode_def)
  ultimately show ?thesis
    using ok t m relay_mode_valid unfolding link_ok_iff
    by (auto simp: defaultSDWANLinkPathMode_def r)
qed

lemma in_mesh_pairs: "(a, b) \<in> set (mesh_pairs xs) \<Longrightarrow> a \<in> set xs \<and> b \<in> set xs"
  by (induction xs) auto

lemma mesh_pairs_distinct: "distinct xs \<Longrightarrow> (a, b) \<in> set (mesh_pairs xs) \<Longrightarrow> a \<noteq> b"
  by (induction xs) auto

lemma mesh_pairs_complete: "a \<in> set xs \<Longrightarrow> b \<in> set xs \<Longrightarrow> a \<noteq> b \<Longrightarrow> (a, b) \<in> set (mesh_pairs xs) \<or> (b, a) \<in> set (mesh_pairs xs)"
  by (induction xs) auto

lemma set_normalizeSDWANSites_names: "site_Name ` set (normalizeSDWANSites ss) = site_Name ` set ss"
  by (metis list.set_map set_sort site_names_normalize)

lemma auto_pairs_sites:
  assumes "distinct (map site_Name (nw_Sites n))" "(a, b) \<in> set (auto_pairs n)"
  shows "a \<in> site_Name ` set (nw_Sites n) \<and> b \<in> site_Name ` set (nw_Sites n) \<and> a \<noteq> b"
proof -
  have names: "set (map site_Name (normalizeSDWANSites (nw_Sites n))) = site_Name ` set (nw_Sites n)"
    using set_normalizeSDWANSites_names by simp
  have d: "distinct (map site_Name (normalizeSDWANSites (nw_Sites n)))"
    using assms(1) unfolding site_names_normalize by simp
  consider "(a, b) \<in> set (mesh_pairs (map site_Name (normalizeSDWANSites (nw_Sites n))))"
    | "(a, b) \<in> set (hub_pairs (normalizeSDWANSites (nw_Sites n)))"
    using assms(2) by (auto simp: auto_pairs_def split: if_splits)
  then show ?thesis
  proof cases
    case 1
    show ?thesis using in_mesh_pairs [OF 1] mesh_pairs_distinct [OF d 1] unfolding names by simp
  next
    case 2
    then have "a \<in> site_Name ` set (normalizeSDWANSites (nw_Sites n))"
      "b \<in> site_Name ` set (normalizeSDWANSites (nw_Sites n))" "a \<noteq> b"
      by (auto simp: hub_pairs_def)
    then show ?thesis unfolding set_normalizeSDWANSites_names by simp
  qed
qed

lemma not_blank_pair: "\<not> blank (pair_name a b)"
  by (rule not_blank_plain [of "CHR ''-''"]) (auto simp: pair_name_def plain_byte_def)

lemma Site_Validate_normalize:
  assumes "Site_Validate s layer = None"
  shows "Site_Validate (s\<lparr>site_CIDRs := uniqueStrings (site_CIDRs s), site_L2Segments := x,
     site_Attributes := cloneStringMap (site_Attributes s)\<rparr>) layer = None"
proof -
  have "cidr_check [] \<noteq> None" by code_simp
  then have "\<forall>c\<in>set (site_CIDRs s). c \<noteq> []" using assms by (auto simp: Site_Validate_def then_check_None check_all_None)
  then have "set (uniqueStrings (site_CIDRs s)) = set (site_CIDRs s)"
    by (auto simp: uniqueStrings_def set_unique_from)
  moreover from this have "uniqueStrings (site_CIDRs s) = [] \<longleftrightarrow> site_CIDRs s = []" by (metis set_empty)
  ultimately show ?thesis
    using assms by (simp add: Site_Validate_def then_check_None check_all_None cloneStringMap_id split: if_splits)
qed

lemma defaulted_sel [simp]:
  "nw_Layer (defaulted n) = or_default (nw_Layer n) SDWANLayerL3"
  "nw_Topology (defaulted n) = or_default (nw_Topology n) SDWANTopologyPartialMesh"
  "nw_Transport (defaulted n) = or_default (nw_Transport n) SDWANTransportWireGuard"
  "nw_PathMode (defaulted n) = or_default (nw_PathMode n) SDWANPathModeDirect"
  "nw_Sites (defaulted n) = normalizeSDWANSites (nw_Sites n)"
  "nw_Name (defaulted n) = nw_Name n" "nw_Owner (defaulted n) = nw_Owner n" "nw_Labels (defaulted n) = nw_Labels n"
  "nw_Links (defaulted n) = nw_Links n" "nw_Policies (defaulted n) = nw_Policies n" "nw_Status (defaulted n) = nw_Status n"
  by (simp_all add: defaulted_def)

lemma normalize_sel [simp]:
  "nw_Layer (normalizeSDWANNetwork n) = or_default (nw_Layer n) SDWANLayerL3"
  "nw_Topology (normalizeSDWANNetwork n) = or_default (nw_Topology n) SDWANTopologyPartialMesh"
  "nw_Transport (normalizeSDWANNetwork n) = or_default (nw_Transport n) SDWANTransportWireGuard"
  "nw_PathMode (normalizeSDWANNetwork n) = or_default (nw_PathMode n) SDWANPathModeDirect"
  "nw_Sites (normalizeSDWANNetwork n) = normalizeSDWANSites (nw_Sites n)"
  "nw_Name (normalizeSDWANNetwork n) = nw_Name n" "nw_Owner (normalizeSDWANNetwork n) = nw_Owner n"
  "nw_Labels (normalizeSDWANNetwork n) = nw_Labels n" "nw_Status (normalizeSDWANNetwork n) = nw_Status n"
  "nw_Links (normalizeSDWANNetwork n) = normalizeSDWANLinks (defaulted n)"
  "nw_Policies (normalizeSDWANNetwork n) = sort_key pol_Name (nw_Policies n)"
  by (simp_all add: normalize_eq)

lemma set_normalize_links:
  "set (normalizeSDWANLinks n) =
     normalize_link n ` set (ensure_pairs (nw_Transport n) (nw_Links n) (auto_pairs n))"
  by (simp add: normalizeSDWANLinks_eq)

lemma link_ok_cong:
  "set s = set s' \<Longrightarrow> set r = set r' \<Longrightarrow> link_ok s r t l = link_ok s' r' t l"
  by (simp add: link_ok_iff)

lemma Policy_Validate_cong: "set s = set s' \<Longrightarrow> Policy_Validate p s = Policy_Validate p s'"
  by (simp add: Policy_Validate_def)

lemma link_ok_auto:
  assumes "a \<in> set sites" "b \<in> set sites" "a \<noteq> b" "validSDWANTransport t"
  shows "link_ok sites relays t ((auto_link t a b)\<lparr>link_Name := pair_name a b\<rparr>)"
proof -
  have "StableName ((auto_link t a b)\<lparr>link_Name := pair_name a b\<rparr>) = pair_name a b"
    using StableName_named [of "auto_link t a b"] by simp
  then show ?thesis
    using assms relay_mode_valid(2) by (simp add: link_ok_iff not_blank_pair) (simp add: auto_link_def)
qed

lemma Validate_normalize:
  assumes "Network_Validate n = None"
  shows "Network_Validate (normalizeSDWANNetwork n) = None"
proof -
  let ?t = "or_default (nw_Transport n) SDWANTransportWireGuard"
  let ?sites = "map site_Name (nw_Sites n)" and ?relays = "relaySDWANSiteNames (nw_Sites n)"
  note v = assms [unfolded Network_Validate_None]
  have names: "set (map site_Name (normalizeSDWANSites (nw_Sites n))) = set ?sites"
    using set_normalizeSDWANSites_names by simp
  have dist: "distinct (map site_Name (normalizeSDWANSites (nw_Sites n)))" using v by (simp add: site_names_normalize)
  have sites: "\<forall>s\<in>set (normalizeSDWANSites (nw_Sites n)). Site_Validate s (or_default (nw_Layer n) SDWANLayerL3) = None"
    using v Site_Validate_normalize by (auto simp: normalizeSDWANSites_def)
  have links: "link_ok ?sites ?relays ?t l" if l: "l \<in> set (normalizeSDWANLinks (defaulted n))" for l
  proof -
    from l obtain l0 where l0: "l0 \<in> set (ensure_pairs ?t (nw_Links n) (auto_pairs (defaulted n)))"
      and le: "l = normalize_link (defaulted n) l0" by (auto simp: set_normalize_links)
    have "link_ok ?sites ?relays ?t l0"
    proof (cases "l0 \<in> set (nw_Links n)")
      case True
      then show ?thesis using v by blast
    next
      case False
      with set_ensure_pairs [OF l0] obtain a b where ab: "(a, b) \<in> set (auto_pairs (defaulted n))"
        "l0 = (auto_link ?t a b)\<lparr>link_Name := pair_name a b\<rparr>" by blast
      have "a \<in> set ?sites \<and> b \<in> set ?sites \<and> a \<noteq> b"
        using auto_pairs_sites [of "defaulted n" a b] ab(1) dist names by simp
      then show ?thesis using v ab(2) link_ok_auto by blast
    qed
    then show ?thesis
      unfolding le using v by (intro normalize_link_ok) (simp_all add: set_relay_names_normalize)
  qed
  have "2 \<le> length (normalizeSDWANSites (nw_Sites n))" using v by (simp add: normalizeSDWANSites_def)
  then show ?thesis
    unfolding Network_Validate_None using v dist sites links
    by (simp add: link_ok_cong [OF names set_relay_names_normalize] Policy_Validate_cong [OF names])
qed

end
