(* ===== verification/Sdwan_Topology.thy ===== *)
theory Sdwan_Topology
  imports Sdwan_Valid "HOL-Library.Code_Target_Nat"
begin

text \<open>
  The topology of a normalised network. Automatic links are found again by their name
  \<open>a--b\<close>; that name determines the two sites as long as no site name contains or ends with the
  separator, and fails to do so otherwise.
\<close>

definition plain_site :: "string \<Rightarrow> bool" where
  "plain_site s \<longleftrightarrow> \<not> strings_Contains s ''--'' \<and> (s = [] \<or> last s \<noteq> CHR ''-'')"

lemma first_separator:
  assumes "a @ ''--'' @ b = c @ ''--'' @ d" "plain_site a" "plain_site c"
  shows "a = c \<and> b = d"
proof -
  have no: "us = []" if e: "us @ ''--'' @ y = ''--'' @ z" and p: "plain_site (x @ us)" for us x y z :: string
  proof (cases us)
    case (Cons u vs)
    then have u: "u = CHR ''-''" using e by simp
    show ?thesis
    proof (cases vs)
      case Nil
      then show ?thesis using p Cons u by (simp add: plain_site_def)
    next
      case (Cons v ws)
      then have "x @ us = x @ ''--'' @ ws" using e \<open>us = u # vs\<close> u by simp
      then show ?thesis using p by (auto simp: plain_site_def strings_Contains_iff)
    qed
  qed simp
  from assms(1) consider us where "a = c @ us" "us @ ''--'' @ b = ''--'' @ d"
    | us where "a @ us = c" "''--'' @ b = us @ ''--'' @ d"
    unfolding append_eq_append_conv2 by blast
  then show ?thesis
  proof cases
    case 1
    then show ?thesis using no [of us b d c] assms(2) by simp
  next
    case 2
    then show ?thesis using no [of us d b a] assms(3) by simp
  qed
qed

lemma pair_name_inj:
  assumes "plain_site a" "plain_site b" "plain_site c" "plain_site d" "pair_name a b = pair_name c d"
  shows "{a, b} = {c, d}"
proof -
  have split: "\<exists>x y. pair_name p q = x @ ''--'' @ y \<and> {x, y} = {p, q} \<and> plain_site x"
    if "plain_site p" "plain_site q" for p q
    using that by (cases "q < p") (auto simp: pair_name_def)
  obtain x y where 1: "pair_name a b = x @ ''--'' @ y" "{x, y} = {a, b}" "plain_site x"
    using split [OF assms(1,2)] by (elim exE conjE)
  obtain u v where 2: "pair_name c d = u @ ''--'' @ v" "{u, v} = {c, d}" "plain_site u"
    using split [OF assms(3,4)] by (elim exE conjE)
  have "x @ ''--'' @ y = u @ ''--'' @ v" using assms(5) 1(1) 2(1) by simp
  then have "x = u \<and> y = v" using 1(3) 2(3) by (rule first_separator)
  then show ?thesis using 1(2) 2(2) by simp
qed

lemma auto_pair_joined:
  assumes valid: "Network_Validate n = None" and unnamed: "\<forall>l\<in>set (nw_Links n). link_Name l = []"
    and plain: "\<forall>s\<in>set (nw_Sites n). plain_site (site_Name s)"
    and ab: "(a, b) \<in> set (auto_pairs (defaulted n))"
  shows "\<exists>l\<in>set (nw_Links (normalizeSDWANNetwork n)). {link_From l, link_To l} = {a, b}
    \<and> StableName l = pair_name a b"
proof -
  let ?t = "or_default (nw_Transport n) SDWANTransportWireGuard"
  let ?ls = "ensure_pairs ?t (nw_Links n) (auto_pairs (defaulted n))"
  note v = valid [unfolded Network_Validate_None]
  have plain_pair: "plain_site c \<and> plain_site d" if "(c, d) \<in> set (auto_pairs (defaulted n))" for c d
  proof -
    have "distinct (map site_Name (nw_Sites (defaulted n)))" using v by (simp add: site_names_normalize)
    from auto_pairs_sites [OF this that]
    have "c \<in> site_Name ` set (nw_Sites n)" "d \<in> site_Name ` set (nw_Sites n)"
      by (simp_all add: set_normalizeSDWANSites_names)
    then show ?thesis using plain by blast
  qed
  have "pair_name a b \<in> StableName ` set ?ls" unfolding names_ensure_pairs using ab by force
  then obtain l where l: "l \<in> set ?ls" "StableName l = pair_name a b" by auto
  have "{link_From l, link_To l} = {a, b}"
  proof (cases "l \<in> set (nw_Links n)")
    case True
    then have "link_From l \<in> site_Name ` set (nw_Sites n)" "link_To l \<in> site_Name ` set (nw_Sites n)"
      using v by (auto simp: link_ok_iff)
    then have "plain_site (link_From l)" "plain_site (link_To l)" using plain by auto
    moreover have "pair_name (link_From l) (link_To l) = pair_name a b"
      using True unnamed l(2) StableName_unnamed by simp
    ultimately show ?thesis using plain_pair [OF ab] pair_name_inj by blast
  next
    case False
    with set_ensure_pairs [OF l(1)] obtain c d where cd: "(c, d) \<in> set (auto_pairs (defaulted n))"
      "l = (auto_link ?t c d)\<lparr>link_Name := pair_name c d\<rparr>" by blast
    have "StableName l = pair_name c d" unfolding cd(2) using StableName_named [of "auto_link ?t c d"] by simp
    then have "{c, d} = {a, b}" using l(2) plain_pair [OF ab] plain_pair [OF cd(1)] pair_name_inj by simp
    then show ?thesis by (simp add: cd(2)) (simp add: auto_link_def)
  qed
  then show ?thesis
    using l by (intro bexI [of _ "normalize_link (defaulted n) l"]) (simp_all add: set_normalize_links)
qed

text \<open>
  C35: Normalising a valid full-mesh network with unnamed links and ordinary site names gives a
  link between every two sites, and no user link is lost.
\<close>

theorem full_mesh_complete:
  assumes "Network_Validate n = None" and "nw_Topology n = SDWANTopologyFullMesh"
    and "\<forall>l\<in>set (nw_Links n). link_Name l = []" and "\<forall>s\<in>set (nw_Sites n). plain_site (site_Name s)"
    and "s \<in> set (nw_Sites n)" and "t \<in> set (nw_Sites n)" and "site_Name s \<noteq> site_Name t"
  shows "\<exists>l\<in>set (nw_Links (normalizeSDWANNetwork n)). {link_From l, link_To l} = {site_Name s, site_Name t}"
proof -
  have top: "nw_Topology (defaulted n) = SDWANTopologyFullMesh"
    using assms(2) by (simp add: or_default_def sdwan_constants)
  have "site_Name s \<in> set (map site_Name (normalizeSDWANSites (nw_Sites n)))"
    "site_Name t \<in> set (map site_Name (normalizeSDWANSites (nw_Sites n)))"
    using assms(5,6) by (auto simp: set_normalizeSDWANSites_names)
  from mesh_pairs_complete [OF this assms(7)]
  consider "(site_Name s, site_Name t) \<in> set (auto_pairs (defaulted n))"
    | "(site_Name t, site_Name s) \<in> set (auto_pairs (defaulted n))"
    using top by (auto simp: auto_pairs_def normalizeSDWANSites_idem)
  then show ?thesis
  proof cases
    case 1
    from auto_pair_joined [OF assms(1,3,4) this] show ?thesis by blast
  next
    case 2
    from auto_pair_joined [OF assms(1,3,4) this] show ?thesis by (metis insert_commute)
  qed
qed

definition demo_site :: "string \<Rightarrow> string \<Rightarrow> SDWANSite" where
  "demo_site name cidr = \<lparr>site_Name = name, site_Router = ''r'', site_CIDRs = [cidr], site_Endpoint = [],
     site_PublicKey = [], site_Role = [], site_Attributes = fmempty, site_L2Segments = [], site_Transit = False,
     site_Relay = False\<rparr>"

definition demo_network :: "string \<Rightarrow> string list \<Rightarrow> SDWANNetwork" where
  "demo_network topology names = (nb_network (Network_Ensure ''corp''))\<lparr>nw_Topology := topology,
     nw_Sites := map (\<lambda>s. demo_site s ''10.0.0.0/24'') names\<rparr>"

theorem full_mesh_complete_witness:
  "\<exists>l\<in>set (nw_Links (normalizeSDWANNetwork (demo_network SDWANTopologyFullMesh [''paris'', ''site-1'', ''rome'']))).
     {link_From l, link_To l} = {site_Name (demo_site ''rome'' ''10.0.0.0/24''), site_Name (demo_site ''paris'' ''10.0.0.0/24'')}"
proof (rule full_mesh_complete)
  show "Network_Validate (demo_network SDWANTopologyFullMesh [''paris'', ''site-1'', ''rome'']) = None" by code_simp
  show "\<forall>s\<in>set (nw_Sites (demo_network SDWANTopologyFullMesh [''paris'', ''site-1'', ''rome''])). plain_site (site_Name s)"
    by code_simp
qed (simp_all add: demo_network_def demo_site_def Network_Ensure_def)

text \<open>
  The name \<open>a--b\<close> of an automatic link does not always identify its sites: in a valid full
  mesh of the sites \<open>a\<close>, \<open>a--b\<close>, \<open>b--c\<close> and \<open>c\<close> the links of two different pairs of sites have the same
  name, and one of the pairs, \<open>a--b\<close> and \<open>c\<close>, is left without a link.
\<close>

theorem mesh_name_collision:
  "Network_Validate (demo_network SDWANTopologyFullMesh [''a'', ''a--b'', ''b--c'', ''c'']) = None
   \<and> filter (\<lambda>l. {link_From l, link_To l} = {''a--b'', ''c''})
       (nw_Links (normalizeSDWANNetwork (demo_network SDWANTopologyFullMesh [''a'', ''a--b'', ''b--c'', ''c'']))) = []"
  by code_simp

end
