(* ===== verification/Sdwan_Backend.thy ===== *)
theory Sdwan_Backend
  imports Sdwan_Topology
begin

text \<open>
  What the SD-WAN builders promise over any backend. The locale \<open>sdwan_backend\<close> states the
  contract of the interface \<open>SDWANBackend\<close>: an applied network can be read back up to its
  status, a deleted one is gone, other networks are left alone. The locale \<open>sdwan_store\<close> adds
  that applying never fails and that reading fails only with \<open>ErrorNotFound\<close>. The in-memory
  backend meets both.
\<close>

section \<open>Status and normal form\<close>

lemma auto_pairs_status [simp]: "auto_pairs (n\<lparr>nw_Status := s\<rparr>) = auto_pairs n"
  by (simp add: auto_pairs_def)

lemma normalize_link_status [simp]: "normalize_link (n\<lparr>nw_Status := s\<rparr>) = normalize_link n"
  by (rule ext) (simp add: normalize_link_def Let_def)

lemma defaulted_status [simp]: "defaulted (n\<lparr>nw_Status := s\<rparr>) = (defaulted n)\<lparr>nw_Status := s\<rparr>"
  by (simp add: defaulted_def)

lemma normalizeSDWANLinks_status [simp]: "normalizeSDWANLinks (n\<lparr>nw_Status := s\<rparr>) = normalizeSDWANLinks n"
  by (simp add: normalizeSDWANLinks_eq)

lemma normalize_status:
  "normalizeSDWANNetwork (n\<lparr>nw_Status := s\<rparr>) = (normalizeSDWANNetwork n)\<lparr>nw_Status := s\<rparr>"
  by (simp add: normalize_eq)

section \<open>The interface of a backend\<close>

locale sdwan_backend =
  fixes be :: "'b SDWANBackend"
  assumes apply_get: "sdwan_norm.normal n \<Longrightarrow> be_Apply be b n p = (None, b')
      \<Longrightarrow> \<exists>s. be_Get be b' (nw_Name n) = Inr (n\<lparr>nw_Status := s\<rparr>)"
    and apply_other: "be_Apply be b n p = (None, b') \<Longrightarrow> m \<noteq> nw_Name n \<Longrightarrow> be_Get be b' m = be_Get be b m"
    and delete_get: "be_Delete be b m = (None, b') \<Longrightarrow> \<exists>e. be_Get be b' m = Inl e \<and> IsKind (Some e) ErrorNotFound"
    and delete_other: "be_Delete be b m = (None, b') \<Longrightarrow> m' \<noteq> m \<Longrightarrow> be_Get be b' m' = be_Get be b m'"
begin

lemma current_after_apply:
  assumes "be_Apply be b (normalizeSDWANNetwork n) p = (None, b')"
  shows "\<exists>s. Network_current be (Some b') n = Inr (Some ((normalizeSDWANNetwork n)\<lparr>nw_Status := s\<rparr>))"
proof -
  obtain s where "be_Get be b' (nw_Name n) = Inr ((normalizeSDWANNetwork n)\<lparr>nw_Status := s\<rparr>)"
    using apply_get [OF sdwan_norm.normal_norm assms] by auto
  then show ?thesis by (auto simp: Network_current_def normalize_status normalizeSDWANNetwork_idem)
qed

lemma Plan_Inr: "Network_Validate n = None \<Longrightarrow> \<exists>plan. Network_Plan n = Inr plan"
  by (simp add: Network_Plan_def Network_ApplyPlan_def)

lemma dry_run_settled:
  assumes "Network_Validate n = None"
    and "Network_current be st n = Inr (Some ((normalizeSDWANNetwork n)\<lparr>nw_Status := s\<rparr>))"
  shows "\<exists>d. Network_DryRun be st n = Inr d \<and> Diff_Empty (dry_Diff d)"
  using Plan_Inr [OF assms(1)] assms(2) by (auto simp: Network_DryRun_def Diff_Empty_def)

lemma dry_run_valid: "Network_DryRun be st n = Inr d \<Longrightarrow> Network_Validate n = None"
  by (auto simp: Network_DryRun_def Network_Plan_def res_bind_Inr guard_res_Inr)

text \<open>A reconciliation that has succeeded leaves nothing to do.\<close>

lemma reconcile_settles:
  assumes "Network_Reconcile be (Some b) n = (Inr r, Some b')"
  shows "\<exists>r'. Network_Reconcile be (Some b') n = (Inr r', Some b') \<and> \<not> rec_Applied r' \<and> Diff_Empty (rec_Diff r')"
proof -
  obtain d where d: "Network_DryRun be (Some b) n = Inr d"
    using assms by (cases "Network_DryRun be (Some b) n") (auto simp: Network_Reconcile_def)
  show ?thesis
  proof (cases "Diff_Empty (dry_Diff d)")
    case True
    then show ?thesis using assms d by (auto simp: Network_Reconcile_def)
  next
    case False
    then obtain p where "be_Apply be b (normalizeSDWANNetwork n) p = (None, b')"
      using assms d by (auto simp: Network_Reconcile_def split: sum.splits prod.splits option.splits)
    from current_after_apply [OF this] obtain s
      where "Network_current be (Some b') n = Inr (Some ((normalizeSDWANNetwork n)\<lparr>nw_Status := s\<rparr>))" ..
    from dry_run_settled [OF dry_run_valid [OF d] this] show ?thesis by (auto simp: Network_Reconcile_def)
  qed
qed

text \<open>What it has stored, if it applied anything, is the normal form itself.\<close>

lemma reconcile_stored:
  assumes "Network_Reconcile be (Some b) n = (Inr r, Some b')"
  shows "if rec_Applied r then \<exists>s. be_Get be b' (nw_Name n) = Inr ((normalizeSDWANNetwork n)\<lparr>nw_Status := s\<rparr>) else b' = b"
proof (cases "rec_Applied r")
  case True
  then obtain p where "be_Apply be b (normalizeSDWANNetwork n) p = (None, b')"
    using assms by (auto simp: Network_Reconcile_def split: sum.splits prod.splits option.splits if_splits)
  from apply_get [OF sdwan_norm.normal_norm this] show ?thesis using True by auto
qed (use assms in \<open>auto simp: Network_Reconcile_def split: sum.splits prod.splits option.splits if_splits\<close>)

lemma reconcile_other:
  assumes "Network_Reconcile be (Some b) n = (Inr r, Some b')" "m \<noteq> nw_Name n"
  shows "be_Get be b' m = be_Get be b m"
  using assms apply_other [of b "normalizeSDWANNetwork n" _ b' m]
  by (auto simp: Network_Reconcile_def split: sum.splits prod.splits option.splits if_splits)

end

locale sdwan_store = sdwan_backend +
  assumes apply_ok: "\<exists>b'. be_Apply be b n p = (None, b')"
    and get_errors: "be_Get be b m = Inl e \<Longrightarrow> IsKind (Some e) ErrorNotFound"
begin

lemma reconcile_total:
  assumes "Network_Validate n = None"
  shows "\<exists>r b' s. Network_Reconcile be (Some b) n = (Inr r, Some b')
    \<and> Network_current be (Some b') n = Inr (Some ((normalizeSDWANNetwork n)\<lparr>nw_Status := s\<rparr>))"
proof -
  obtain plan where plan: "Network_Plan n = Inr plan" using Plan_Inr [OF assms] ..
  obtain c where c: "Network_current be (Some b) n = Inr c"
    using get_errors [of b "nw_Name n"] by (cases "be_Get be b (nw_Name n)") (auto simp: Network_current_def)
  show ?thesis
  proof (cases "map_option (\<lambda>c. c\<lparr>nw_Status := empty_status\<rparr>) c = Some ((normalizeSDWANNetwork n)\<lparr>nw_Status := empty_status\<rparr>)")
    case True
    then obtain x where x: "c = Some x" "x\<lparr>nw_Status := empty_status\<rparr> = (normalizeSDWANNetwork n)\<lparr>nw_Status := empty_status\<rparr>"
      by auto
    have "x = (x\<lparr>nw_Status := empty_status\<rparr>)\<lparr>nw_Status := nw_Status x\<rparr>" by simp
    then have xx: "x = (normalizeSDWANNetwork n)\<lparr>nw_Status := nw_Status x\<rparr>" unfolding x(2) by simp
    have "Network_current be (Some b) n = Inr (Some ((normalizeSDWANNetwork n)\<lparr>nw_Status := nw_Status x\<rparr>))"
      unfolding c x(1) by (subst xx [symmetric]) (rule refl)
    moreover have "\<exists>r. Network_Reconcile be (Some b) n = (Inr r, Some b)"
      using True by (simp add: Network_Reconcile_def Network_DryRun_def plan c Diff_Empty_def)
    ultimately show ?thesis by blast
  next
    case False
    obtain b' where b': "be_Apply be b (normalizeSDWANNetwork n) (planSDWANApply (normalizeSDWANNetwork n)) = (None, b')"
      using apply_ok by blast
    have "\<exists>r. Network_Reconcile be (Some b) n = (Inr r, Some b')"
      using False assms by (auto simp: Network_Reconcile_def Network_DryRun_def plan c Diff_Empty_def b' Network_ApplyPlan_def Let_def)
    then show ?thesis using current_after_apply [OF b'] by blast
  qed
qed

end

lemma normal_nw: "sdwan_norm.normal n \<longleftrightarrow> normalizeSDWANNetwork n = n"
  by (rule sdwan_norm.normal_def)

interpretation memory: sdwan_store InMemory_backend
proof unfold_locales
  fix n :: SDWANNetwork and b b' :: InMemorySDWANBackend and p m m' and e :: go_error
  show "\<exists>s. be_Get InMemory_backend b' (nw_Name n) = Inr (n\<lparr>nw_Status := s\<rparr>)"
    if "sdwan_norm.normal n" "be_Apply InMemory_backend b n p = (None, b')"
    using that by (auto simp: InMemory_backend_def ApplySDWAN_def GetSDWAN_def normal_nw Let_def)
  show "be_Get InMemory_backend b' m = be_Get InMemory_backend b m"
    if "be_Apply InMemory_backend b n p = (None, b')" "m \<noteq> nw_Name n"
    using that by (auto simp: InMemory_backend_def ApplySDWAN_def GetSDWAN_def Let_def)
  show "\<exists>e. be_Get InMemory_backend b' m = Inl e \<and> IsKind (Some e) ErrorNotFound"
    if "be_Delete InMemory_backend b m = (None, b')"
    using that by (auto simp: InMemory_backend_def DeleteSDWAN_def GetSDWAN_def sdwan_err_def split: if_splits)
  show "be_Get InMemory_backend b' m' = be_Get InMemory_backend b m'"
    if "be_Delete InMemory_backend b m = (None, b')" "m' \<noteq> m"
    using that by (auto simp: InMemory_backend_def DeleteSDWAN_def GetSDWAN_def split: if_splits)
  show "\<exists>b'. be_Apply InMemory_backend b n p = (None, b')"
    by (simp add: InMemory_backend_def ApplySDWAN_def Let_def)
  show "IsKind (Some e) ErrorNotFound" if "be_Get InMemory_backend b m = Inl e"
    using that by (auto simp: InMemory_backend_def GetSDWAN_def sdwan_err_def split: option.splits)
qed

section \<open>Properties\<close>

text \<open>
  C6: Reconciling a valid network against the in-memory backend always succeeds and converges:
  either it applies, and then the backend holds the normal form of the network itself, up to its
  status; or it applies nothing and leaves the backend as it is, which then already held a network
  with that normal form. Every other network reads as before, and reconciling again applies
  nothing and leaves the backend as it is. Whatever network is handed to the backend's own apply,
  what it stores is the normal form.
\<close>

theorem reconcile_converges:
  assumes "Network_Validate n = None"
  shows "(\<exists>r b' c r'. Network_Reconcile InMemory_backend (Some b) n = (Inr r, Some b')
      \<and> GetSDWAN b' (nw_Name n) = Inr c
      \<and> (if rec_Applied r then c = (normalizeSDWANNetwork n)\<lparr>nw_Status := nw_Status c\<rparr>
         else b' = b \<and> normalizeSDWANNetwork c = (normalizeSDWANNetwork n)\<lparr>nw_Status := nw_Status c\<rparr>)
      \<and> (\<forall>m. m = nw_Name n \<or> GetSDWAN b' m = GetSDWAN b m)
      \<and> Network_Reconcile InMemory_backend (Some b') n = (Inr r', Some b') \<and> \<not> rec_Applied r')
    \<and> (\<exists>b' s. ApplySDWAN b raw p = (None, b')
      \<and> GetSDWAN b' (nw_Name raw) = Inr ((normalizeSDWANNetwork raw)\<lparr>nw_Status := s\<rparr>))"
proof
  have get: "be_Get InMemory_backend = GetSDWAN" by (simp add: InMemory_backend_def)
  obtain r b' s where r: "Network_Reconcile InMemory_backend (Some b) n = (Inr r, Some b')"
    and cur: "Network_current InMemory_backend (Some b') n = Inr (Some ((normalizeSDWANNetwork n)\<lparr>nw_Status := s\<rparr>))"
    using memory.reconcile_total [OF assms] by blast
  obtain c where c: "GetSDWAN b' (nw_Name n) = Inr c"
    "normalizeSDWANNetwork c = (normalizeSDWANNetwork n)\<lparr>nw_Status := s\<rparr>"
    using cur by (auto simp: Network_current_def get split: sum.splits if_splits)
  have stat: "nw_Status c = s" using arg_cong [OF c(2), of nw_Status] by simp
  have "if rec_Applied r then c = (normalizeSDWANNetwork n)\<lparr>nw_Status := nw_Status c\<rparr> else b' = b"
    using memory.reconcile_stored [OF r] c(1) by (auto simp: get)
  then have "if rec_Applied r then c = (normalizeSDWANNetwork n)\<lparr>nw_Status := nw_Status c\<rparr>
         else b' = b \<and> normalizeSDWANNetwork c = (normalizeSDWANNetwork n)\<lparr>nw_Status := nw_Status c\<rparr>"
    using c(2) unfolding stat by (simp split: if_splits)
  moreover have "\<forall>m. m = nw_Name n \<or> GetSDWAN b' m = GetSDWAN b m"
    using memory.reconcile_other [OF r] by (auto simp: get)
  moreover obtain r' where "Network_Reconcile InMemory_backend (Some b') n = (Inr r', Some b')" "\<not> rec_Applied r'"
    using memory.reconcile_settles [OF r] by blast
  ultimately show "\<exists>r b' c r'. Network_Reconcile InMemory_backend (Some b) n = (Inr r, Some b')
      \<and> GetSDWAN b' (nw_Name n) = Inr c
      \<and> (if rec_Applied r then c = (normalizeSDWANNetwork n)\<lparr>nw_Status := nw_Status c\<rparr>
         else b' = b \<and> normalizeSDWANNetwork c = (normalizeSDWANNetwork n)\<lparr>nw_Status := nw_Status c\<rparr>)
      \<and> (\<forall>m. m = nw_Name n \<or> GetSDWAN b' m = GetSDWAN b m)
      \<and> Network_Reconcile InMemory_backend (Some b') n = (Inr r', Some b') \<and> \<not> rec_Applied r'"
    using r c(1) by blast
  show "\<exists>b' s. ApplySDWAN b raw p = (None, b')
      \<and> GetSDWAN b' (nw_Name raw) = Inr ((normalizeSDWANNetwork raw)\<lparr>nw_Status := s\<rparr>)"
  proof -
    have "nw_Name (normalizeSDWANNetwork raw) = nw_Name raw" by (simp add: normalize_eq defaulted_def)
    then show ?thesis by (auto simp: ApplySDWAN_def GetSDWAN_def Let_def)
  qed
qed

definition demo_plain :: SDWANNetwork where
  "demo_plain = demo_network SDWANTopologyPartialMesh [''paris'', ''rome'']"

lemma demo_plain_valid: "Network_Validate demo_plain = None"
  by code_simp

theorem reconcile_converges_witness:
  "\<exists>r b' c r'. Network_Reconcile InMemory_backend (Some NewInMemorySDWANBackend) demo_plain = (Inr r, Some b')
    \<and> GetSDWAN b' (nw_Name demo_plain) = Inr c
    \<and> (if rec_Applied r then c = (normalizeSDWANNetwork demo_plain)\<lparr>nw_Status := nw_Status c\<rparr>
       else b' = NewInMemorySDWANBackend
         \<and> normalizeSDWANNetwork c = (normalizeSDWANNetwork demo_plain)\<lparr>nw_Status := nw_Status c\<rparr>)
    \<and> (\<forall>m. m = nw_Name demo_plain \<or> GetSDWAN b' m = GetSDWAN NewInMemorySDWANBackend m)
    \<and> Network_Reconcile InMemory_backend (Some b') demo_plain = (Inr r', Some b') \<and> \<not> rec_Applied r'"
  using reconcile_converges [OF demo_plain_valid, of NewInMemorySDWANBackend] by blast

text \<open>
  C36: Normalising keeps validity, and a second normalisation changes nothing: what
  \<open>Reconcile\<close> hands to a backend passes the same validation as what the user built.
\<close>

theorem normalize_valid:
  assumes "Network_Validate n = None"
  shows "Network_Validate (normalizeSDWANNetwork n) = None
    \<and> normalizeSDWANNetwork (normalizeSDWANNetwork n) = normalizeSDWANNetwork n"
  using Validate_normalize [OF assms] sdwan_norm.norm_idem by blast

theorem normalize_valid_witness:
  "Network_Validate (normalizeSDWANNetwork demo_plain) = None
    \<and> normalizeSDWANNetwork (normalizeSDWANNetwork demo_plain) = normalizeSDWANNetwork demo_plain"
  by (rule normalize_valid [OF demo_plain_valid])

text \<open>
  A builder acts once. Executing it a second time fails with a validation error and leaves
  the backend as the first execution left it, whatever backend it talks to.
\<close>

lemma builder_single_use:
  assumes "Network_Execute be st b = (e, b1, st1)"
  shows "\<exists>e2. Network_Execute be st1 b1 = (Some e2, b1, st1) \<and> IsKind (Some e2) ErrorValidation"
  using assms by (auto simp: Network_Execute_def sdwan_err_def split: if_splits prod.splits)

end
