(* ===== verification/Sdwan_Agent.thy ===== *)
theory Sdwan_Agent
  imports Sdwan_Backend
begin

text \<open>
  \<^verbatim>\<open>src/sdwan_agent.go\<close>: the SD-WAN control plane, which registers agents, records their
  heartbeats, hands them assignments and collects acknowledgements. A time is a number with 0
  for Go's zero time; the clock is the sequence of its readings with the number of readings
  taken so far. The mutex makes every operation atomic, so a run is a sequence of operations.
  Generations are Go ints that only count up by one per operation.
\<close>

section \<open>Data\<close>

type_synonym go_time = nat

definition SDWANAgentFeatureWireGuard :: string where "SDWANAgentFeatureWireGuard = ''wireguard''"
definition SDWANAgentFeatureLinuxRoute :: string where "SDWANAgentFeatureLinuxRoute = ''linux-route''"
definition SDWANAgentFeatureOVSTunnel :: string where "SDWANAgentFeatureOVSTunnel = ''ovs-tunnel''"
definition SDWANAgentFeatureOpenFlow :: string where "SDWANAgentFeatureOpenFlow = ''openflow''"

record SDWANAgentCapabilities =
  cap_Transports :: "string list"
  cap_Layers :: "string list"
  cap_Features :: "string list"
  cap_Attributes :: string_map

record SDWANAgentStatus =
  as_State :: string
  as_Message :: string
  as_LastSeen :: go_time
  as_Observed :: "SDWANLinkStatus list"
  as_Findings :: "StatusFinding list"
  as_Generation :: int
  as_Attributes :: string_map

record SDWANAgent =
  ag_ID :: string
  ag_Site :: string
  ag_Endpoint :: string
  ag_Capabilities :: SDWANAgentCapabilities
  ag_Labels :: Labels
  ag_Status :: SDWANAgentStatus

record SDWANAgentHeartbeat =
  hb_AgentID :: string
  hb_Site :: string
  hb_Status :: SDWANAgentStatus
  hb_Observed :: "SDWANLinkStatus list"
  hb_Attributes :: string_map
  hb_At :: go_time

definition SDWANAssignmentPending :: string where "SDWANAssignmentPending = ''pending''"
definition SDWANAssignmentApplied :: string where "SDWANAssignmentApplied = ''applied''"
definition SDWANAssignmentRejected :: string where "SDWANAssignmentRejected = ''rejected''"
definition SDWANAssignmentFailed :: string where "SDWANAssignmentFailed = ''failed''"

lemmas assignment_states = SDWANAssignmentPending_def SDWANAssignmentApplied_def SDWANAssignmentRejected_def
  SDWANAssignmentFailed_def

record SDWANAssignmentStatus =
  sas_State :: string
  sas_Message :: string
  sas_AppliedAt :: go_time
  sas_Findings :: "StatusFinding list"
  sas_Attributes :: string_map

record SDWANAssignment =
  sa_ID :: string
  sa_AgentID :: string
  sa_Network :: string
  sa_Site :: string
  sa_Generation :: int
  sa_Desired :: SDWANNetwork
  sa_Plan :: SDWANApplyPlan
  sa_Status :: SDWANAssignmentStatus
  sa_CreatedAt :: go_time
  sa_UpdatedAt :: go_time

record InMemorySDWANControlPlane =
  cp_clock :: "nat \<Rightarrow> go_time"
  cp_readings :: nat
  cp_agents :: "(string, SDWANAgent) fmap"
  cp_assignments :: "(string, SDWANAssignment) fmap"
  cp_generations :: "(string, int) fmap"

definition NewInMemorySDWANControlPlane :: "(nat \<Rightarrow> go_time) \<Rightarrow> InMemorySDWANControlPlane" where
  "NewInMemorySDWANControlPlane clock = \<lparr>cp_clock = clock, cp_readings = 0, cp_agents = fmempty,
     cp_assignments = fmempty, cp_generations = fmempty\<rparr>"

definition now :: "InMemorySDWANControlPlane \<Rightarrow> go_time \<times> InMemorySDWANControlPlane" where
  "now c = (cp_clock c (cp_readings c), c\<lparr>cp_readings := cp_readings c + 1\<rparr>)"

text \<open>The zero values Go reads for a missing key.\<close>

definition zero_capabilities :: SDWANAgentCapabilities where
  "zero_capabilities = \<lparr>cap_Transports = [], cap_Layers = [], cap_Features = [], cap_Attributes = fmempty\<rparr>"

definition zero_agent_status :: SDWANAgentStatus where
  "zero_agent_status = \<lparr>as_State = [], as_Message = [], as_LastSeen = 0, as_Observed = [], as_Findings = [],
     as_Generation = 0, as_Attributes = fmempty\<rparr>"

definition zero_agent :: SDWANAgent where
  "zero_agent = \<lparr>ag_ID = [], ag_Site = [], ag_Endpoint = [], ag_Capabilities = zero_capabilities,
     ag_Labels = fmempty, ag_Status = zero_agent_status\<rparr>"

section \<open>Validation and normal forms\<close>

definition uniqueSDWANTransports :: "string list \<Rightarrow> string list" where
  "uniqueSDWANTransports values = sort (unique_from [] (\<lambda>v. v = []) values)"

definition uniqueSDWANLayers :: "string list \<Rightarrow> string list" where
  "uniqueSDWANLayers values = sort (unique_from [] (\<lambda>v. v = []) values)"

definition normalizeSDWANAgentCapabilities :: "SDWANAgentCapabilities \<Rightarrow> SDWANAgentCapabilities" where
  "normalizeSDWANAgentCapabilities c =
     c\<lparr>cap_Transports := uniqueSDWANTransports (cap_Transports c), cap_Layers := uniqueSDWANLayers (cap_Layers c),
       cap_Features := uniqueStrings (cap_Features c), cap_Attributes := cloneStringMap (cap_Attributes c)\<rparr>"

definition validateSDWANAgentFeatures :: "string \<Rightarrow> string list \<Rightarrow> check" where
  "validateSDWANAgentFeatures agentID values =
     check_all (\<lambda>v. if blank v then Some (sdwan_err ErrorValidation ''validate'' agentID ''agent feature must not be empty'')
       else None) values"

definition Agent_Validate :: "SDWANAgent \<Rightarrow> check" where
  "Agent_Validate a =
     (let bad = (\<lambda>msg. Some (sdwan_err ErrorValidation ''validate'' (ag_ID a) msg)); caps = ag_Capabilities a in
      then_check (validateName ''sdwan agent'' (ag_ID a))
      (then_check (validateName ''sdwan site'' (ag_Site a))
      (then_check (Labels_Validate (ag_Labels a))
      (then_check (Labels_Validate (as_Attributes (ag_Status a)))
      (then_check (if cap_Transports caps = [] then bad ''agent must advertise at least one transport'' else None)
      (then_check (check_all (\<lambda>t. if \<not> validSDWANTransport t then bad ''agent advertises unsupported transport'' else None)
          (cap_Transports caps))
      (then_check (check_all (\<lambda>l. if \<not> validSDWANLayer l then bad ''agent advertises unsupported layer'' else None)
          (cap_Layers caps))
      (then_check (Labels_Validate (cap_Attributes caps))
        (validateSDWANAgentFeatures (ag_ID a) (cap_Features caps))))))))))"

definition AgentStatus_Validate :: "SDWANAgentStatus \<Rightarrow> check" where
  "AgentStatus_Validate s = Labels_Validate (as_Attributes s)"

definition known_state :: "string \<Rightarrow> bool" where
  "known_state s \<longleftrightarrow> s = SDWANAssignmentPending \<or> s = SDWANAssignmentApplied \<or> s = SDWANAssignmentRejected
     \<or> s = SDWANAssignmentFailed"

definition AssignmentStatus_Validate :: "SDWANAssignmentStatus \<Rightarrow> check" where
  "AssignmentStatus_Validate s =
     (if sas_State s = []
      then Some (sdwan_err ErrorValidation ''validate'' ''sdwan assignment status'' ''assignment status state is required'')
      else if \<not> known_state (sas_State s)
      then Some (sdwan_err ErrorValidation ''validate'' ''sdwan assignment status'' ''unsupported assignment status state'')
      else Labels_Validate (sas_Attributes s))"

definition agentCanServe :: "SDWANAgent \<Rightarrow> SDWANNetwork \<Rightarrow> bool" where
  "agentCanServe agent network =
     (let caps = normalizeSDWANAgentCapabilities (ag_Capabilities agent) in
      if \<not> list_ex (\<lambda>t. t = nw_Transport network) (cap_Transports caps) then False
      else if cap_Layers caps = [] then True
      else list_ex (\<lambda>l. l = nw_Layer network) (cap_Layers caps))"

definition cloneSDWANAgent :: "SDWANAgent \<Rightarrow> SDWANAgent" where
  "cloneSDWANAgent a = a\<lparr>ag_Capabilities := normalizeSDWANAgentCapabilities (ag_Capabilities a),
     ag_Status := (ag_Status a)\<lparr>as_Attributes := cloneStringMap (as_Attributes (ag_Status a))\<rparr>\<rparr>"

definition cloneSDWANAssignment :: "SDWANAssignment \<Rightarrow> SDWANAssignment" where
  "cloneSDWANAssignment a = a\<lparr>sa_Desired := cloneSDWANNetwork (sa_Desired a),
     sa_Status := (sa_Status a)\<lparr>sas_Attributes := cloneStringMap (sas_Attributes (sa_Status a))\<rparr>\<rparr>"

section \<open>Operations\<close>

definition RegisterAgent :: "InMemorySDWANControlPlane \<Rightarrow> SDWANAgent \<Rightarrow> SDWANAgent res \<times> InMemorySDWANControlPlane" where
  "RegisterAgent c agent =
     (case Agent_Validate agent of
        Some e \<Rightarrow> (Inl e, c)
      | None \<Rightarrow>
          (let (now', c) = now c;
               current = (case fmlookup (cp_agents c) (ag_ID agent) of Some a \<Rightarrow> a | None \<Rightarrow> zero_agent);
               status = ag_Status agent;
               status = (if as_State status = [] then status\<lparr>as_State := ResourceStatusPresent\<rparr> else status);
               status = (if as_LastSeen status = 0 then status\<lparr>as_LastSeen := now'\<rparr> else status);
               agent = agent\<lparr>ag_Capabilities := normalizeSDWANAgentCapabilities (ag_Capabilities agent)\<rparr>;
               generation = (if ag_Capabilities current \<noteq> ag_Capabilities agent \<or> ag_Site current \<noteq> ag_Site agent
                               \<or> ag_Endpoint current \<noteq> ag_Endpoint agent
                             then as_Generation (ag_Status current) + 1 else as_Generation (ag_Status current));
               agent = agent\<lparr>ag_Status := status\<lparr>as_Generation := generation\<rparr>\<rparr>
           in (Inr (cloneSDWANAgent agent),
               c\<lparr>cp_agents := fmupd (ag_ID agent) (cloneSDWANAgent agent) (cp_agents c)\<rparr>)))"

definition Heartbeat :: "InMemorySDWANControlPlane \<Rightarrow> SDWANAgentHeartbeat \<Rightarrow> SDWANAgent res \<times> InMemorySDWANControlPlane" where
  "Heartbeat c hb =
     (case validateName ''sdwan agent'' (hb_AgentID hb) of
        Some e \<Rightarrow> (Inl e, c)
      | None \<Rightarrow>
     (case fmlookup (cp_agents c) (hb_AgentID hb) of
        None \<Rightarrow> (Inl (sdwan_err ErrorNotFound ''heartbeat'' (hb_AgentID hb) ''SD-WAN agent not found''), c)
      | Some agent \<Rightarrow>
          if hb_Site hb \<noteq> [] \<and> hb_Site hb \<noteq> ag_Site agent
          then (Inl (sdwan_err ErrorConflict ''heartbeat'' (hb_AgentID hb) ''heartbeat site does not match registered agent''), c)
          else
            (let (at, c) = (if hb_At hb = 0 then now c else (hb_At hb, c));
                 status = hb_Status hb;
                 status = (if as_State status = [] then status\<lparr>as_State := ResourceStatusPresent\<rparr> else status);
                 status = status\<lparr>as_LastSeen := at, as_Observed := hb_Observed hb,
                   as_Attributes := mergeStringMaps (as_Attributes status) (hb_Attributes hb),
                   as_Generation := as_Generation (ag_Status agent)\<rparr>;
                 agent = agent\<lparr>ag_Status := status\<rparr>
             in (Inr (cloneSDWANAgent agent),
                 c\<lparr>cp_agents := fmupd (ag_ID agent) (cloneSDWANAgent agent) (cp_agents c)\<rparr>))))"

definition GetAgent :: "InMemorySDWANControlPlane \<Rightarrow> string \<Rightarrow> SDWANAgent res" where
  "GetAgent c id' =
     guard_res (validateName ''sdwan agent'' id')
     (case fmlookup (cp_agents c) id' of
        None \<Rightarrow> Inl (sdwan_err ErrorNotFound ''get'' id' ''SD-WAN agent not found'')
      | Some agent \<Rightarrow> Inr (cloneSDWANAgent agent))"

definition ListAgents :: "InMemorySDWANControlPlane \<Rightarrow> SDWANAgent list" where
  "ListAgents c = sort_key ag_ID (map cloneSDWANAgent (range_values (cp_agents c)))"

definition assignment_key :: "string \<Rightarrow> string \<Rightarrow> string" where
  "assignment_key agentID network = agentID @ ''/'' @ network"

definition AssignSDWAN :: "InMemorySDWANControlPlane \<Rightarrow> string \<Rightarrow> SDWANNetwork \<Rightarrow> SDWANApplyPlan
    \<Rightarrow> SDWANAssignment res \<times> InMemorySDWANControlPlane" where
  "AssignSDWAN c agentID network plan =
     (case then_check (validateName ''sdwan agent'' agentID) (Network_Validate network) of
        Some e \<Rightarrow> (Inl e, c)
      | None \<Rightarrow>
     (case fmlookup (cp_agents c) agentID of
        None \<Rightarrow> (Inl (sdwan_err ErrorNotFound ''assign'' agentID ''SD-WAN agent not found''), c)
      | Some agent \<Rightarrow>
          if \<not> agentCanServe agent network
          then (Inl (sdwan_err ErrorUnsupported ''assign'' agentID ''agent capabilities do not satisfy SD-WAN network''), c)
          else
            (let key = assignment_key agentID (nw_Name network);
                 generation = (case fmlookup (cp_generations c) key of Some g \<Rightarrow> g | None \<Rightarrow> 0) + 1;
                 c = c\<lparr>cp_generations := fmupd key generation (cp_generations c)\<rparr>;
                 (now', c) = now c;
                 assignment = \<lparr>sa_ID = key, sa_AgentID = agentID, sa_Network = nw_Name network, sa_Site = ag_Site agent,
                   sa_Generation = generation, sa_Desired = normalizeSDWANNetwork network, sa_Plan = plan,
                   sa_Status = \<lparr>sas_State = SDWANAssignmentPending, sas_Message = [], sas_AppliedAt = 0,
                     sas_Findings = [], sas_Attributes = fmempty\<rparr>,
                   sa_CreatedAt = now', sa_UpdatedAt = now'\<rparr>
             in (Inr (cloneSDWANAssignment assignment),
                 c\<lparr>cp_assignments := fmupd key (cloneSDWANAssignment assignment) (cp_assignments c)\<rparr>))))"

definition GetAssignment :: "InMemorySDWANControlPlane \<Rightarrow> string \<Rightarrow> SDWANAssignment res" where
  "GetAssignment c id' =
     guard_res (validateName ''sdwan assignment'' id')
     (case fmlookup (cp_assignments c) id' of
        None \<Rightarrow> Inl (sdwan_err ErrorNotFound ''get'' id' ''SD-WAN assignment not found'')
      | Some a \<Rightarrow> Inr (cloneSDWANAssignment a))"

definition ListAssignments :: "InMemorySDWANControlPlane \<Rightarrow> string \<Rightarrow> SDWANAssignment list" where
  "ListAssignments c agentID =
     sort_key sa_ID (map cloneSDWANAssignment
       (filter (\<lambda>a. \<not> (agentID \<noteq> [] \<and> sa_AgentID a \<noteq> agentID)) (range_values (cp_assignments c))))"

definition AckAssignment :: "InMemorySDWANControlPlane \<Rightarrow> string \<Rightarrow> SDWANAssignmentStatus
    \<Rightarrow> SDWANAssignment res \<times> InMemorySDWANControlPlane" where
  "AckAssignment c id' status =
     (case validateName ''sdwan assignment'' id' of
        Some e \<Rightarrow> (Inl e, c)
      | None \<Rightarrow>
     (case fmlookup (cp_assignments c) id' of
        None \<Rightarrow> (Inl (sdwan_err ErrorNotFound ''ack'' id' ''SD-WAN assignment not found''), c)
      | Some assignment \<Rightarrow>
     (case AssignmentStatus_Validate status of
        Some e \<Rightarrow> (Inl e, c)
      | None \<Rightarrow>
          (let (status, c) = (if sas_State status = SDWANAssignmentApplied \<and> sas_AppliedAt status = 0
                 then (case now c of (t, c) \<Rightarrow> (status\<lparr>sas_AppliedAt := t\<rparr>, c)) else (status, c));
               status = status\<lparr>sas_Attributes := cloneStringMap (sas_Attributes status)\<rparr>;
               (updated, c) = now c;
               assignment = assignment\<lparr>sa_Status := status, sa_UpdatedAt := updated\<rparr>
           in (Inr (cloneSDWANAssignment assignment),
               c\<lparr>cp_assignments := fmupd id' (cloneSDWANAssignment assignment) (cp_assignments c)\<rparr>)))))"

text \<open>A run of the control plane: the operations that change its state, one after the other.\<close>

datatype cp_op =
    CpRegister SDWANAgent | CpHeartbeat SDWANAgentHeartbeat
  | CpAssign string SDWANNetwork SDWANApplyPlan | CpAck string SDWANAssignmentStatus

fun cp_step :: "InMemorySDWANControlPlane \<Rightarrow> cp_op \<Rightarrow> InMemorySDWANControlPlane" where
  "cp_step c (CpRegister a) = snd (RegisterAgent c a)"
| "cp_step c (CpHeartbeat hb) = snd (Heartbeat c hb)"
| "cp_step c (CpAssign agentID n plan) = snd (AssignSDWAN c agentID n plan)"
| "cp_step c (CpAck id' s) = snd (AckAssignment c id' s)"

section \<open>Lemmas\<close>

lemma unique_transports [simp]:
  "set (uniqueSDWANTransports ts) = set ts - {[]}" "set (uniqueSDWANLayers ts) = set ts - {[]}"
  by (auto simp: uniqueSDWANTransports_def uniqueSDWANLayers_def set_unique_from)

lemma unique_sorted_idem: "unique_from [] (\<lambda>v. v = []) (sort (unique_from [] (\<lambda>v. v = []) xs)) = sort (unique_from [] (\<lambda>v. v = []) (xs :: string list))"
  by (rule unique_from_id) (auto simp: distinct_unique_from set_unique_from)

lemma normalize_capabilities_idem [simp]:
  "normalizeSDWANAgentCapabilities (normalizeSDWANAgentCapabilities c) = normalizeSDWANAgentCapabilities c"
  by (simp add: normalizeSDWANAgentCapabilities_def uniqueSDWANTransports_def uniqueSDWANLayers_def unique_sorted_idem)

interpretation capabilities: normaliser normalizeSDWANAgentCapabilities
  by unfold_locales simp

lemma cloneSDWANAssignment_id [simp]: "cloneSDWANAssignment a = a"
  by (simp add: cloneSDWANAssignment_def)

lemma cloneSDWANAgent_sel [simp]:
  "ag_ID (cloneSDWANAgent a) = ag_ID a" "ag_Site (cloneSDWANAgent a) = ag_Site a"
  "ag_Endpoint (cloneSDWANAgent a) = ag_Endpoint a" "ag_Status (cloneSDWANAgent a) = ag_Status a"
  "ag_Labels (cloneSDWANAgent a) = ag_Labels a"
  "ag_Capabilities (cloneSDWANAgent a) = normalizeSDWANAgentCapabilities (ag_Capabilities a)"
  by (simp_all add: cloneSDWANAgent_def)

lemma agentCanServe_iff:
  "agentCanServe a n \<longleftrightarrow> nw_Transport n \<noteq> [] \<and> nw_Transport n \<in> set (cap_Transports (ag_Capabilities a))
     \<and> (set (cap_Layers (ag_Capabilities a)) \<subseteq> {[]} \<or> nw_Layer n \<noteq> [] \<and> nw_Layer n \<in> set (cap_Layers (ag_Capabilities a)))"
proof -
  have e: "uniqueSDWANLayers ls = [] \<longleftrightarrow> set ls \<subseteq> {[]}" for ls
    by (metis Diff_eq_empty_iff set_empty unique_transports(2))
  show ?thesis
    by (auto simp: agentCanServe_def Let_def normalizeSDWANAgentCapabilities_def list_ex_iff e)
qed

lemma now_sel [simp]:
  "cp_agents (snd (now c)) = cp_agents c" "cp_assignments (snd (now c)) = cp_assignments c"
  "cp_generations (snd (now c)) = cp_generations c"
  by (simp_all add: now_def)

end
