(* ===== verification/Sdwan_Agent_Props.thy ===== *)
theory Sdwan_Agent_Props
  imports Sdwan_Agent
begin

text \<open>
  What holds of the SD-WAN control plane in every state a run can reach, what survives of an
  assignment while the run goes on, and two places where the keys and the capability test of
  the code are weaker than they look.
\<close>

section \<open>The invariant\<close>

definition caps_ok :: "SDWANAgentCapabilities \<Rightarrow> bool" where
  "caps_ok caps \<longleftrightarrow> cap_Transports caps \<noteq> [] \<and> list_all validSDWANTransport (cap_Transports caps)
     \<and> list_all validSDWANLayer (cap_Layers caps) \<and> normalizeSDWANAgentCapabilities caps = caps"

definition agent_ok :: "string \<Rightarrow> SDWANAgent \<Rightarrow> bool" where
  "agent_ok key a \<longleftrightarrow> ag_ID a = key \<and> \<not> blank key \<and> \<not> blank (ag_Site a) \<and> caps_ok (ag_Capabilities a)
     \<and> as_State (ag_Status a) \<noteq> [] \<and> 1 \<le> as_Generation (ag_Status a)"

definition assignment_ok :: "InMemorySDWANControlPlane \<Rightarrow> string \<Rightarrow> SDWANAssignment \<Rightarrow> bool" where
  "assignment_ok c key s \<longleftrightarrow> sa_ID s = key \<and> key = assignment_key (sa_AgentID s) (sa_Network s)
     \<and> sa_AgentID s |\<in>| fmdom (cp_agents c) \<and> sa_Network s = nw_Name (sa_Desired s)
     \<and> Network_Validate (sa_Desired s) = None \<and> normalizeSDWANNetwork (sa_Desired s) = sa_Desired s
     \<and> fmlookup (cp_generations c) key = Some (sa_Generation s) \<and> 1 \<le> sa_Generation s
     \<and> known_state (sas_State (sa_Status s))"

definition cp_inv :: "InMemorySDWANControlPlane \<Rightarrow> bool" where
  "cp_inv c \<longleftrightarrow> (\<forall>key a. fmlookup (cp_agents c) key = Some a \<longrightarrow> agent_ok key a)
     \<and> (\<forall>key s. fmlookup (cp_assignments c) key = Some s \<longrightarrow> assignment_ok c key s)
     \<and> fmdom (cp_generations c) = fmdom (cp_assignments c)"

lemma caps_ok_normalize:
  assumes "Agent_Validate a = None"
  shows "caps_ok (normalizeSDWANAgentCapabilities (ag_Capabilities a))"
proof -
  let ?c = "ag_Capabilities a"
  have ts: "cap_Transports ?c \<noteq> []" "\<forall>t\<in>set (cap_Transports ?c). validSDWANTransport t"
    "\<forall>l\<in>set (cap_Layers ?c). validSDWANLayer l"
    using assms by (simp_all add: Agent_Validate_def Let_def then_check_None check_all_None split: if_splits)
  have "\<not> validSDWANTransport []" by (simp add: validSDWANTransport_def sdwan_constants)
  then have "hd (cap_Transports ?c) \<in> set (uniqueSDWANTransports (cap_Transports ?c))"
    using ts(1,2) by (cases "cap_Transports ?c") auto
  then have "uniqueSDWANTransports (cap_Transports ?c) \<noteq> []" by (metis empty_iff empty_set)
  then show ?thesis
    using ts by (simp add: caps_ok_def list_all_iff) (simp add: normalizeSDWANAgentCapabilities_def)
qed

text \<open>What each operation does to the two tables.\<close>

lemma Register_cases:
  obtains "snd (RegisterAgent c a) = c"
  | a' where "cp_agents (snd (RegisterAgent c a)) = fmupd (ag_ID a) a' (cp_agents c)"
      "cp_assignments (snd (RegisterAgent c a)) = cp_assignments c"
      "cp_generations (snd (RegisterAgent c a)) = cp_generations c"
      "Agent_Validate a = None" "ag_ID a' = ag_ID a" "ag_Site a' = ag_Site a" "as_State (ag_Status a') \<noteq> []"
      "ag_Capabilities a' = normalizeSDWANAgentCapabilities (ag_Capabilities a)"
      "as_Generation (ag_Status a') =
         (case fmlookup (cp_agents c) (ag_ID a) of
            None \<Rightarrow> 1
          | Some old \<Rightarrow> as_Generation (ag_Status old) +
              (if ag_Capabilities old = ag_Capabilities a' \<and> ag_Site old = ag_Site a \<and> ag_Endpoint old = ag_Endpoint a
               then 0 else 1))"
proof (cases "Agent_Validate a")
  case (Some e)
  then show ?thesis using that(1) by (simp add: RegisterAgent_def)
next
  case None
  have "cap_Transports (normalizeSDWANAgentCapabilities (ag_Capabilities a)) \<noteq> []"
    using caps_ok_normalize [OF None] by (simp add: caps_ok_def)
  then have ne: "zero_capabilities \<noteq> normalizeSDWANAgentCapabilities (ag_Capabilities a)"
    by (metis SDWANAgentCapabilities.select_convs(1) zero_capabilities_def)
  show ?thesis
    using None ne
    by (intro that(2) [of "the (fmlookup (cp_agents (snd (RegisterAgent c a))) (ag_ID a))"])
      (auto simp: RegisterAgent_def Let_def now_def zero_agent_def zero_agent_status_def ResourceStatusPresent_def
        split: option.splits)
qed

lemma Heartbeat_cases:
  obtains "snd (Heartbeat c hb) = c"
  | a a' where "fmlookup (cp_agents c) (hb_AgentID hb) = Some a"
      "cp_agents (snd (Heartbeat c hb)) = fmupd (ag_ID a) a' (cp_agents c)"
      "cp_assignments (snd (Heartbeat c hb)) = cp_assignments c"
      "cp_generations (snd (Heartbeat c hb)) = cp_generations c"
      "a' = (cloneSDWANAgent a)\<lparr>ag_Status := ag_Status a'\<rparr>" "as_State (ag_Status a') \<noteq> []"
      "as_Generation (ag_Status a') = as_Generation (ag_Status a)"
proof (cases "fst (Heartbeat c hb)")
  case (Inl e)
  then show ?thesis using that(1)
    by (auto simp: Heartbeat_def Let_def split: option.splits if_splits prod.splits)
next
  case (Inr a')
  then show ?thesis
    using that(2) [of "the (fmlookup (cp_agents c) (hb_AgentID hb))" a']
    by (auto simp: Heartbeat_def Let_def now_def cloneSDWANAgent_def ResourceStatusPresent_def split: option.splits if_splits)
qed

lemma Assign_cases:
  obtains "snd (AssignSDWAN c agentID n plan) = c"
  | s agent key where "key = assignment_key agentID (nw_Name n)"
      "fst (AssignSDWAN c agentID n plan) = Inr s"
      "cp_agents (snd (AssignSDWAN c agentID n plan)) = cp_agents c"
      "cp_assignments (snd (AssignSDWAN c agentID n plan)) = fmupd key s (cp_assignments c)"
      "cp_generations (snd (AssignSDWAN c agentID n plan)) = fmupd key (sa_Generation s) (cp_generations c)"
      "fmlookup (cp_agents c) agentID = Some agent" "agentCanServe agent n" "Network_Validate n = None"
      "sa_ID s = key" "sa_AgentID s = agentID" "sa_Network s = nw_Name n" "sa_Desired s = normalizeSDWANNetwork n"
      "sa_Plan s = plan" "sas_State (sa_Status s) = SDWANAssignmentPending"
      "sa_Generation s = (case fmlookup (cp_generations c) key of Some g \<Rightarrow> g | None \<Rightarrow> 0) + 1"
proof (cases "fst (AssignSDWAN c agentID n plan)")
  case (Inl e)
  then show ?thesis using that(1)
    by (auto simp: AssignSDWAN_def Let_def split: option.splits if_splits prod.splits)
next
  case (Inr s)
  then show ?thesis
    by (intro that(2) [of "assignment_key agentID (nw_Name n)" s "the (fmlookup (cp_agents c) agentID)"])
      (auto simp: AssignSDWAN_def Let_def now_def then_check_None validateName_def split: option.splits if_splits prod.splits)
qed

lemma Ack_cases:
  obtains "snd (AckAssignment c key st) = c"
  | s s' where "fmlookup (cp_assignments c) key = Some s"
      "cp_agents (snd (AckAssignment c key st)) = cp_agents c"
      "cp_assignments (snd (AckAssignment c key st)) = fmupd key s' (cp_assignments c)"
      "cp_generations (snd (AckAssignment c key st)) = cp_generations c"
      "s' = s\<lparr>sa_Status := sa_Status s', sa_UpdatedAt := sa_UpdatedAt s'\<rparr>"
      "sas_State (sa_Status s') = sas_State st" "known_state (sas_State st)"
proof (cases "fst (AckAssignment c key st)")
  case (Inl e)
  then show ?thesis using that(1)
    by (auto simp: AckAssignment_def Let_def split: option.splits if_splits prod.splits)
next
  case (Inr s')
  then show ?thesis
    using that(2) [of "the (fmlookup (cp_assignments c) key)" s']
    by (auto simp: AckAssignment_def AssignmentStatus_Validate_def Let_def now_def split: option.splits if_splits prod.splits)
qed

lemma assignment_ok_agents:
  "assignment_ok c key s \<Longrightarrow> fmdom (cp_agents c) |\<subseteq>| fmdom (cp_agents c') \<Longrightarrow>
    fmlookup (cp_generations c') key = fmlookup (cp_generations c) key \<Longrightarrow> assignment_ok c' key s"
  by (auto simp: assignment_ok_def)

lemma inv_assignment: "cp_inv c \<Longrightarrow> fmlookup (cp_assignments c) key = Some s \<Longrightarrow> assignment_ok c key s"
  by (simp add: cp_inv_def)

lemma inv_agents:
  assumes inv: "cp_inv c" and a: "agent_ok k a" and agents: "cp_agents c' = fmupd k a (cp_agents c)"
    and same: "cp_assignments c' = cp_assignments c" "cp_generations c' = cp_generations c"
  shows "cp_inv c'"
proof -
  have "assignment_ok c' key s" if "fmlookup (cp_assignments c) key = Some s" for key s
    by (rule assignment_ok_agents [OF inv_assignment [OF inv that]]) (simp_all add: agents same fsubset_finsertI)
  then show ?thesis using inv a by (simp add: cp_inv_def agents same)
qed

lemma Register_inv: "cp_inv c \<Longrightarrow> cp_inv (snd (RegisterAgent c a))"
proof (cases rule: Register_cases [of c a])
  case (2 a')
  assume inv: "cp_inv c"
  have names: "\<not> blank (ag_ID a)" "\<not> blank (ag_Site a)"
    using 2(4) by (simp_all add: Agent_Validate_def Let_def then_check_None)
  have "1 \<le> as_Generation (ag_Status a')"
  proof (cases "fmlookup (cp_agents c) (ag_ID a)")
    case (Some old)
    then have "1 \<le> as_Generation (ag_Status old)" using inv by (simp add: cp_inv_def agent_ok_def)
    then show ?thesis unfolding 2(9) Some by simp
  qed (simp add: 2(9))
  then have "agent_ok (ag_ID a) a'"
    using 2(5-8) names caps_ok_normalize [OF 2(4)] by (simp add: agent_ok_def)
  then show ?thesis using 2(1-3) by (rule inv_agents [OF inv])
qed simp

lemma Heartbeat_inv: "cp_inv c \<Longrightarrow> cp_inv (snd (Heartbeat c hb))"
proof (cases rule: Heartbeat_cases [of c hb])
  case (2 a a')
  assume inv: "cp_inv c"
  have a: "agent_ok (hb_AgentID hb) a" using inv 2(1) by (simp add: cp_inv_def)
  have "ag_ID a' = ag_ID a" "ag_Site a' = ag_Site a"
    "ag_Capabilities a' = normalizeSDWANAgentCapabilities (ag_Capabilities a)"
    by (subst 2(5), simp)+
  then have "agent_ok (ag_ID a) a'" using a 2(6,7) by (simp add: agent_ok_def caps_ok_def)
  then show ?thesis using 2(2-4) by (rule inv_agents [OF inv])
qed simp

lemma Assign_inv: "cp_inv c \<Longrightarrow> cp_inv (snd (AssignSDWAN c agentID n plan))"
proof (cases rule: Assign_cases [of c agentID n plan])
  case (2 s agent key)
  assume inv: "cp_inv c"
  let ?c' = "snd (AssignSDWAN c agentID n plan)"
  have "0 \<le> (case fmlookup (cp_generations c) key of Some g \<Rightarrow> g | None \<Rightarrow> 0)"
  proof (cases "fmlookup (cp_generations c) key")
    case (Some g)
    then have "key |\<in>| fmdom (cp_assignments c)" using inv by (metis cp_inv_def fmdomI)
    then obtain s0 where "fmlookup (cp_assignments c) key = Some s0" by auto
    then show ?thesis using inv Some by (force simp: cp_inv_def assignment_ok_def)
  qed simp
  then have gen: "1 \<le> sa_Generation s" unfolding 2(15) by simp
  have "assignment_ok ?c' key s"
    unfolding assignment_ok_def 2(3,5,9-12,14)
    using 2(1,6) Validate_normalize [OF 2(8)] normalizeSDWANNetwork_idem [of n] gen
    by (simp add: known_state_def fmdomI)
  moreover have "assignment_ok ?c' k t" if "fmlookup (cp_assignments c) k = Some t" "k \<noteq> key" for k t
    by (rule assignment_ok_agents [OF inv_assignment [OF inv that(1)]]) (simp_all add: 2(3,5) that(2) [symmetric])
  ultimately show ?thesis
    using inv unfolding cp_inv_def 2(3-5) by simp
qed simp

lemma Ack_inv: "cp_inv c \<Longrightarrow> cp_inv (snd (AckAssignment c key st))"
proof (cases rule: Ack_cases [of c key st])
  case (2 s s')
  assume inv: "cp_inv c"
  let ?c' = "snd (AckAssignment c key st)"
  have s: "assignment_ok c key s" using inv 2(1) by (simp add: cp_inv_def)
  have "sa_ID s' = sa_ID s" "sa_AgentID s' = sa_AgentID s" "sa_Network s' = sa_Network s" "sa_Desired s' = sa_Desired s"
    "sa_Generation s' = sa_Generation s"
    by (subst 2(5), simp)+
  then have "assignment_ok ?c' key s'"
    using s 2(6,7) unfolding assignment_ok_def 2(2,4) by auto
  moreover have "assignment_ok ?c' k t" if "fmlookup (cp_assignments c) k = Some t" for k t
    by (rule assignment_ok_agents [OF inv_assignment [OF inv that]]) (simp_all add: 2(2,4))
  moreover have "key |\<in>| fmdom (cp_assignments c)" using 2(1) by (rule fmdomI)
  ultimately show ?thesis
    using inv unfolding cp_inv_def 2(2-4) by (simp add: finsert_absorb)
qed simp

interpretation control_plane: invariant_system cp_step cp_inv
proof
  show "cp_inv (cp_step c op)" if "cp_inv c" for c op
    using that by (cases op) (simp_all add: Register_inv Heartbeat_inv Assign_inv Ack_inv)
qed

lemma New_inv: "cp_inv (NewInMemorySDWANControlPlane clock)"
  by (simp add: cp_inv_def NewInMemorySDWANControlPlane_def)

text \<open>
  C5: In every state a run of the control plane reaches from the empty one, each agent is
  stored under its own name with normalised, supported capabilities and a positive generation,
  and each assignment is stored under the name built from its agent and network, belongs to a
  registered agent, carries a valid normalised network and the generation last handed out
  for its key, and is in one of the four known states.
\<close>

theorem control_plane_invariant:
  "cp_inv (foldl cp_step (NewInMemorySDWANControlPlane clock) ops)"
  by (rule control_plane.run_inv [OF New_inv])

section \<open>Stability of assignments\<close>

text \<open>The operation assigns the network stored under the key.\<close>

fun assigns :: "string \<Rightarrow> cp_op \<Rightarrow> bool" where
  "assigns key (CpAssign agentID n plan) \<longleftrightarrow> assignment_key agentID (nw_Name n) = key"
| "assigns key _ \<longleftrightarrow> False"

definition work_of :: "SDWANAssignment \<Rightarrow> string \<times> int \<times> SDWANNetwork \<times> SDWANApplyPlan \<times> go_time" where
  "work_of s = (sa_AgentID s, sa_Generation s, sa_Desired s, sa_Plan s, sa_CreatedAt s)"

lemma work_of_step:
  assumes "\<not> assigns key op" "fmlookup (cp_assignments c) key = Some s"
  shows "\<exists>s'. fmlookup (cp_assignments (cp_step c op)) key = Some s' \<and> work_of s' = work_of s"
proof (cases op)
  case (CpRegister a)
  then show ?thesis using assms(2) by (cases rule: Register_cases [of c a]) simp_all
next
  case (CpHeartbeat hb)
  then show ?thesis using assms(2) by (cases rule: Heartbeat_cases [of c hb]) simp_all
next
  case (CpAssign agentID n plan)
  then show ?thesis using assms by (cases rule: Assign_cases [of c agentID n plan]) simp_all
next
  case (CpAck k st)
  show ?thesis
  proof (cases rule: Ack_cases [of c k st])
    case 1
    then show ?thesis using CpAck assms(2) by simp
  next
    case (2 t t')
    have "work_of t' = work_of t" by (subst 2(5)) (simp add: work_of_def)
    then show ?thesis using CpAck assms(2) 2(1,3) by (cases "k = key") simp_all
  qed
qed

lemma work_of_run:
  "\<not> list_ex (assigns key) ops \<Longrightarrow> fmlookup (cp_assignments c) key = Some s \<Longrightarrow>
    \<exists>s'. fmlookup (cp_assignments (foldl cp_step c ops)) key = Some s' \<and> work_of s' = work_of s"
proof (induction ops arbitrary: c s)
  case (Cons op ops)
  then obtain s1 where "fmlookup (cp_assignments (cp_step c op)) key = Some s1" "work_of s1 = work_of s"
    using work_of_step [of key op c s] by auto
  then show ?case using Cons.IH [of "cp_step c op" s1] Cons.prems(1) by simp
qed simp

lemma Assign_Inr:
  assumes "AssignSDWAN c agentID n plan = (Inr s, c')"
  shows "sa_ID s = assignment_key agentID (nw_Name n)"
    and "sa_Generation s = (case fmlookup (cp_generations c) (sa_ID s) of Some g \<Rightarrow> g | None \<Rightarrow> 0) + 1"
    and "cp_assignments c' = fmupd (sa_ID s) s (cp_assignments c)"
  using assms by (auto simp: AssignSDWAN_def Let_def now_def split: option.splits if_splits)

lemma not_blank_key: "\<not> blank (assignment_key a n)"
  by (rule not_blank_plain [of "CHR ''/''"]) (auto simp: assignment_key_def plain_byte_def)

text \<open>
  Once \<open>AssignSDWAN\<close> has returned an assignment, \<open>GetAssignment\<close> finds it under its
  ID whatever agents register, beat or acknowledge, and its agent, generation, desired network,
  plan and creation time stay those that were returned until the same key is assigned again.
\<close>

theorem assignment_stable:
  assumes "AssignSDWAN c agentID n plan = (Inr s, c')" and "\<not> list_ex (assigns (sa_ID s)) ops"
  shows "\<exists>s'. GetAssignment (foldl cp_step c' ops) (sa_ID s) = Inr s' \<and> work_of s' = work_of s"
proof -
  have "fmlookup (cp_assignments c') (sa_ID s) = Some s" using Assign_Inr(3) [OF assms(1)] by simp
  from work_of_run [OF assms(2) this] obtain s' where
    "fmlookup (cp_assignments (foldl cp_step c' ops)) (sa_ID s) = Some s'" "work_of s' = work_of s" by blast
  moreover have "\<not> blank (sa_ID s)" using Assign_Inr(1) [OF assms(1)] by (simp add: not_blank_key)
  ultimately show ?thesis by (auto simp: GetAssignment_def guard_res_Inr)
qed

text \<open>
  Generations number the assignments of a key without gaps: in a reachable state a
  successful \<open>AssignSDWAN\<close> returns 1 for a new key and one more than the stored assignment
  otherwise, and replaces nothing but the entry of its own key.
\<close>

theorem generation_counts:
  assumes "c = foldl cp_step (NewInMemorySDWANControlPlane clock) ops"
    and "AssignSDWAN c agentID n plan = (Inr s, c')"
  shows "sa_Generation s = (case fmlookup (cp_assignments c) (sa_ID s) of None \<Rightarrow> 1 | Some old \<Rightarrow> sa_Generation old + 1)
    \<and> cp_assignments c' = fmupd (sa_ID s) s (cp_assignments c)"
proof -
  have inv: "cp_inv c" unfolding assms(1) by (rule control_plane.run_inv [OF New_inv])
  note s = Assign_Inr [OF assms(2)]
  show ?thesis
  proof (cases "fmlookup (cp_assignments c) (sa_ID s)")
    case None
    then have "fmlookup (cp_generations c) (sa_ID s) = None" using inv by (metis cp_inv_def fmdom_notD fmdom_notI)
    then show ?thesis using s None by simp
  next
    case (Some old)
    then have "fmlookup (cp_generations c) (sa_ID s) = Some (sa_Generation old)"
      using inv_assignment [OF inv] by (simp add: assignment_ok_def)
    then show ?thesis using s Some by simp
  qed
qed

section \<open>Example\<close>

definition demo_agent :: "string \<Rightarrow> SDWANAgent" where
  "demo_agent name = zero_agent\<lparr>ag_ID := name, ag_Site := ''paris'',
     ag_Capabilities := zero_capabilities\<lparr>cap_Transports := [SDWANTransportWireGuard]\<rparr>\<rparr>"

definition demo_plan :: SDWANApplyPlan where
  "demo_plan = \<lparr>ap_Network = ''corp'', ap_Operations = []\<rparr>"

definition demo_plane :: InMemorySDWANControlPlane where
  "demo_plane = foldl cp_step (NewInMemorySDWANControlPlane (\<lambda>k. k + 100)) [CpRegister (demo_agent ''edge'')]"

definition demo_assigned :: "SDWANAssignment \<times> InMemorySDWANControlPlane" where
  "demo_assigned = (case AssignSDWAN demo_plane ''edge'' demo_plain demo_plan of (r, c) \<Rightarrow> (projr r, c))"

lemma demo_assigned_eq:
  "AssignSDWAN demo_plane ''edge'' demo_plain demo_plan = (Inr (fst demo_assigned), snd demo_assigned)"
proof -
  have "\<not> isl (fst (AssignSDWAN demo_plane ''edge'' demo_plain demo_plan))" by code_simp
  then show ?thesis
    by (cases "AssignSDWAN demo_plane ''edge'' demo_plain demo_plan") (simp add: demo_assigned_def)
qed

theorem assignment_stable_witness:
  "\<exists>s'. GetAssignment (foldl cp_step (snd demo_assigned) [CpRegister (demo_agent ''edge2''), CpHeartbeat \<lparr>hb_AgentID = ''edge'',
       hb_Site = [], hb_Status = zero_agent_status, hb_Observed = [], hb_Attributes = fmempty, hb_At = 0\<rparr>])
     (sa_ID (fst demo_assigned)) = Inr s' \<and> work_of s' = work_of (fst demo_assigned)"
  by (rule assignment_stable [OF demo_assigned_eq]) simp

theorem generation_counts_witness:
  "sa_Generation (fst demo_assigned) =
     (case fmlookup (cp_assignments demo_plane) (sa_ID (fst demo_assigned)) of None \<Rightarrow> 1 | Some old \<Rightarrow> sa_Generation old + 1)
    \<and> cp_assignments (snd demo_assigned) = fmupd (sa_ID (fst demo_assigned)) (fst demo_assigned) (cp_assignments demo_plane)"
  by (rule generation_counts [OF demo_plane_def demo_assigned_eq])

section \<open>Two weak spots\<close>

text \<open>
  A network that leaves its transport empty is valid and means WireGuard once it is
  normalised, but no agent can be given it: the capability test compares the transport
  before it is defaulted, so \<open>AssignSDWAN\<close> fails on every state with every agent. The witness
  shows such a network that is valid and whose normal form is accepted.
\<close>

theorem default_transport_unassignable:
  assumes "nw_Transport n = []"
  shows "\<exists>e. AssignSDWAN c agentID n plan = (Inl e, c)"
  using assms by (auto simp: AssignSDWAN_def agentCanServe_iff split: option.splits)

theorem default_transport_unassignable_witness:
  "(\<exists>e. AssignSDWAN demo_plane ''edge'' (demo_plain\<lparr>nw_Transport := []\<rparr>) demo_plan = (Inl e, demo_plane))
   \<and> Network_Validate (demo_plain\<lparr>nw_Transport := []\<rparr>) = None
   \<and> \<not> isl (fst (AssignSDWAN demo_plane ''edge'' (normalizeSDWANNetwork (demo_plain\<lparr>nw_Transport := []\<rparr>)) demo_plan))"
proof (intro conjI)
  show "\<exists>e. AssignSDWAN demo_plane ''edge'' (demo_plain\<lparr>nw_Transport := []\<rparr>) demo_plan = (Inl e, demo_plane)"
    by (rule default_transport_unassignable) simp
  show "Network_Validate (demo_plain\<lparr>nw_Transport := []\<rparr>) = None" by code_simp
  show "\<not> isl (fst (AssignSDWAN demo_plane ''edge'' (normalizeSDWANNetwork (demo_plain\<lparr>nw_Transport := []\<rparr>)) demo_plan))"
    by code_simp
qed

text \<open>
  Assignment keys are not unique: agent and network names may contain the separator, so
  assigning \<open>c\<close> to the agent \<open>a/b\<close> and then \<open>b/c\<close> to the agent \<open>a\<close> overwrites the first
  assignment, and nothing is left for the agent \<open>a/b\<close>.
\<close>

theorem assignment_key_collision:
  "let c0 = foldl cp_step (NewInMemorySDWANControlPlane (\<lambda>k. k + 1)) [CpRegister (demo_agent ''a/b''), CpRegister (demo_agent ''a'')];
       c1 = snd (AssignSDWAN c0 ''a/b'' (demo_plain\<lparr>nw_Name := ''c''\<rparr>) demo_plan);
       c2 = snd (AssignSDWAN c1 ''a'' (demo_plain\<lparr>nw_Name := ''b/c''\<rparr>) demo_plan)
   in map sa_AgentID (ListAssignments c1 ''a/b'') = [''a/b'']
      \<and> ListAssignments c2 ''a/b'' = [] \<and> map sa_Generation (ListAssignments c2 ''a'') = [2]"
  by code_simp

end
