(* ===== verification/Exec.thy ===== *)
theory Exec
  imports Util
begin

text \<open>
  Commands and the effects they have, shared by \<^verbatim>\<open>src/sdwanlinux\<close> and \<^verbatim>\<open>src/linuxrouter\<close>. The
  outside world (processes, Open vSwitch, switches) is a state of an arbitrary type; an
  operation on it returns an error or nil and the new state. What a process does is a
  parameter: it ends well, or fails with a text on standard error and an error.
\<close>

section \<open>Effects\<close>

text \<open>\<open>if err := m; err != nil { return err }; k\<close> on operations with an effect.\<close>

definition eff_then :: "'e option \<times> 'w \<Rightarrow> ('w \<Rightarrow> 'e option \<times> 'w) \<Rightarrow> 'e option \<times> 'w" where
  "eff_then m k = (case m of (Some e, w) \<Rightarrow> (Some e, w) | (None, w) \<Rightarrow> k w)"

fun eff_all :: "('w \<Rightarrow> 'a \<Rightarrow> 'e option \<times> 'w) \<Rightarrow> 'w \<Rightarrow> 'a list \<Rightarrow> 'e option \<times> 'w" where
  "eff_all f w [] = (None, w)"
| "eff_all f w (x # xs) = eff_then (f w x) (\<lambda>w. eff_all f w xs)"

lemma eff_then_simps [simp]:
  "eff_then (Some e, w) k = (Some e, w)" "eff_then (None, w) k = k w"
  by (simp_all add: eff_then_def)

lemma eff_then_None: "eff_then m k = (None, w') \<longleftrightarrow> (\<exists>w. m = (None, w) \<and> k w = (None, w'))"
  by (cases m; cases "fst m") auto

lemma eff_all_append: "eff_all f w (xs @ ys) = eff_then (eff_all f w xs) (\<lambda>w. eff_all f w ys)"
  by (induction xs arbitrary: w) (auto simp: eff_then_def split: prod.splits option.splits)

text \<open>The invariant rule: what every call keeps, the loop keeps, also when it stops early.\<close>

lemma eff_all_inv:
  assumes "P w" and "\<And>w x e w'. x \<in> set xs \<Longrightarrow> P w \<Longrightarrow> f w x = (e, w') \<Longrightarrow> P w'"
    and "eff_all f w xs = (e, w')"
  shows "P w'"
  using assms
proof (induction xs arbitrary: w)
  case (Cons x xs)
  obtain e1 w1 where 1: "f w x = (e1, w1)" by (cases "f w x")
  then have "P w1" using Cons.prems(1,2) by auto
  show ?case
  proof (cases e1)
    case None
    then have "eff_all f w1 xs = (e, w')" using Cons.prems(3) 1 by simp
    then show ?thesis using Cons.IH [OF \<open>P w1\<close>] Cons.prems(2) by (meson list.set_intros(2))
  next
    case (Some a)
    then show ?thesis using Cons.prems(3) 1 \<open>P w1\<close> by simp
  qed
qed simp

section \<open>Commands\<close>

record Command =
  cmd_Program :: string
  cmd_Args :: "string list"
  cmd_IgnoreNotFound :: bool
  cmd_IgnoreAlreadyExists :: bool

definition command :: "string \<Rightarrow> string list \<Rightarrow> Command" where
  "command program args =
     \<lparr>cmd_Program = program, cmd_Args = args, cmd_IgnoreNotFound = False, cmd_IgnoreAlreadyExists = False\<rparr>"

definition ignoring_not_found :: "Command \<Rightarrow> Command" where
  "ignoring_not_found c = c\<lparr>cmd_IgnoreNotFound := True\<rparr>"

definition ignoring_existing :: "Command \<Rightarrow> Command" where
  "ignoring_existing c = c\<lparr>cmd_IgnoreAlreadyExists := True\<rparr>"

text \<open>An error built in place, \<open>&ovnflow.Error{Kind: ..., Operation: ..., Object: ..., Message: ...}\<close>.\<close>

definition ovn_error :: "ErrorKind \<Rightarrow> string \<Rightarrow> string \<Rightarrow> string \<Rightarrow> go_error" where
  "ovn_error kind oper object message = OvnError kind [] [] oper object message None"

lemma IsKind_ovn_error [simp]: "IsKind (Some (ovn_error k oper obj msg)) k' \<longleftrightarrow> k = k'"
  by (simp add: ovn_error_def IsKind_def KindOf_def)

text \<open>The recording executor used in tests.\<close>

definition FakeExecutor_Run :: "Command list \<Rightarrow> Command \<Rightarrow> check \<times> Command list" where
  "FakeExecutor_Run commands cmd = (None, commands @ [cmd])"

lemma eff_all_fake [simp]: "eff_all FakeExecutor_Run w cmds = (None, w @ cmds)"
  by (induction cmds arbitrary: w) (simp_all add: FakeExecutor_Run_def)

text \<open>How a process ends when it does not end well: its standard error and the error.\<close>

record process_failure =
  pf_stderr :: string
  pf_err :: go_error

text \<open>
  \<open>SystemExecutor.Run\<close>, over what the program does; the two packages differ in the texts they
  ignore and in the kinds they give.
\<close>

definition system_run :: "(string \<Rightarrow> bool) \<Rightarrow> (string \<Rightarrow> bool) \<Rightarrow> (go_error \<Rightarrow> ErrorKind)
    \<Rightarrow> ('w \<Rightarrow> string \<Rightarrow> string list \<Rightarrow> process_failure option \<times> 'w) \<Rightarrow> 'w \<Rightarrow> Command \<Rightarrow> check \<times> 'w" where
  "system_run notFound alreadyExists kindFor run w cmd =
     (if blank (cmd_Program cmd) then (Some (ovn_error ErrorValidation ''exec'' (cmd_Program cmd) ''program must not be empty''), w)
      else case run w (cmd_Program cmd) (cmd_Args cmd) of
        (None, w) \<Rightarrow> (None, w)
      | (Some f, w) \<Rightarrow>
          (let message = strings_TrimSpace (pf_stderr f) in
           if cmd_IgnoreNotFound cmd \<and> notFound message then (None, w)
           else if cmd_IgnoreAlreadyExists cmd \<and> alreadyExists message then (None, w)
           else (Some (OvnError (kindFor (pf_err f)) [] [] ''exec'' (cmd_Program cmd) message (Some (pf_err f))), w)))"

definition commandAlreadyExists :: "string \<Rightarrow> bool" where
  "commandAlreadyExists message =
     (let m = strings_ToLower message in strings_Contains m ''file exists'' \<or> strings_Contains m ''already exists'')"

end
