(* ===== verification/Go_Strconv.thy ===== *)
theory Go_Strconv
  imports Go_Net
begin

unbundle bit_operations_syntax

text \<open>
  The parts of Go's \<open>strconv\<close>, \<open>strings\<close>, \<open>hash/fnv\<close> and \<open>fmt\<close> packages that the Linux backends
  use: joining, unsigned numbers from text, numbers in base 16 and 36, and the 32-bit FNV-1a hash.
\<close>

section \<open>Joining\<close>

fun strings_Join :: "string list \<Rightarrow> string \<Rightarrow> string" where
  "strings_Join [] sep = []"
| "strings_Join [x] sep = x"
| "strings_Join (x # y # ys) sep = x @ sep @ strings_Join (y # ys) sep"

section \<open>Numbers to text\<close>

definition base_digit :: "nat \<Rightarrow> char" where
  "base_digit n = (if n < 10 then char_of (48 + n) else char_of (87 + n))"

function nat_base :: "nat \<Rightarrow> nat \<Rightarrow> string" where
  "nat_base b n = (if b < 2 \<or> n < b then [base_digit n] else nat_base b (n div b) @ [base_digit (n mod b)])"
  by pat_completeness auto
termination by (relation "measure snd") auto

declare nat_base.simps [simp del]

definition strconv_Itoa :: "int \<Rightarrow> string" where
  "strconv_Itoa i = (if i < 0 then ''-'' @ nat_dec (nat (- i)) else nat_dec (nat i))"

text \<open>A number of at most \<open>k\<close> digits is below \<open>b ^ k\<close>; here the length from the value.\<close>

lemma length_nat_base:
  assumes "2 \<le> b" "n < b ^ Suc k"
  shows "length (nat_base b n) \<le> Suc k"
  using assms(2)
proof (induction k arbitrary: n)
  case 0
  then show ?case using assms(1) by (simp add: nat_base.simps [of b n])
next
  case (Suc k)
  show ?case
  proof (cases "n < b")
    case True
    then show ?thesis by (simp add: nat_base.simps [of b n])
  next
    case False
    have "n div b < b ^ Suc k" using Suc.prems assms(1) by (simp add: div_less_iff_less_mult mult.commute)
    then show ?thesis using Suc.IH [of "n div b"] False assms(1) by (simp add: nat_base.simps [of b n])
  qed
qed

section \<open>Text to unsigned numbers\<close>

definition digit_any :: "char \<Rightarrow> nat option" where
  "digit_any c = (let n = (of_char c :: nat); l = (of_char (lower_char c) :: nat) in
     if 48 \<le> n \<and> n \<le> 57 then Some (n - 48)
     else if 97 \<le> l \<and> l \<le> 122 then Some (l - 87)
     else None)"

fun parse_digits :: "nat \<Rightarrow> bool \<Rightarrow> nat \<Rightarrow> string \<Rightarrow> nat option" where
  "parse_digits b us acc [] = Some acc"
| "parse_digits b us acc (c # cs) =
     (if us \<and> c = CHR ''_'' then parse_digits b us acc cs
      else case digit_any c of
        None \<Rightarrow> None
      | Some d \<Rightarrow> if b \<le> d then None else parse_digits b us (acc * b + d) cs)"

text \<open>\<open>underscoreOK\<close>: the state is \<open>Some True\<close> after a digit, \<open>Some False\<close> after an underscore, \<open>None\<close> otherwise.\<close>

fun underscore_loop :: "bool \<Rightarrow> bool option \<Rightarrow> string \<Rightarrow> bool" where
  "underscore_loop hex saw [] \<longleftrightarrow> saw \<noteq> Some False"
| "underscore_loop hex saw (c # cs) \<longleftrightarrow>
     (if is_digit c \<or> hex \<and> (case digit_any c of Some d \<Rightarrow> 10 \<le> d \<and> d \<le> 15 | None \<Rightarrow> False)
      then underscore_loop hex (Some True) cs
      else if c = CHR ''_'' then saw = Some True \<and> underscore_loop hex (Some False) cs
      else saw \<noteq> Some False \<and> underscore_loop hex None cs)"

definition base_prefix :: "string \<Rightarrow> nat option" where
  "base_prefix s =
     (case s of
        a # c # _ \<Rightarrow>
          if a \<noteq> CHR ''0'' then None
          else if lower_char c = CHR ''b'' then Some 2
          else if lower_char c = CHR ''o'' then Some 8
          else if lower_char c = CHR ''x'' then Some 16
          else None
      | _ \<Rightarrow> None)"

definition underscoreOK :: "string \<Rightarrow> bool" where
  "underscoreOK s0 =
     (let s = (if strings_HasPrefix s0 ''-'' \<or> strings_HasPrefix s0 ''+'' then tl s0 else s0) in
      case base_prefix s of
        Some b \<Rightarrow> underscore_loop (b = 16) (Some True) (drop 2 s)
      | None \<Rightarrow> underscore_loop False None s)"

definition base_split :: "string \<Rightarrow> nat \<times> string" where
  "base_split s =
     (case base_prefix s of
        Some b \<Rightarrow> if 3 \<le> length s then (b, drop 2 s) else (8, tl s)
      | None \<Rightarrow> if strings_HasPrefix s ''0'' then (8, tl s) else (10, s))"

text \<open>\<open>strconv.ParseUint(s, base, bits)\<close> for the bases 0 and 10: \<open>None\<close> for every error.\<close>

definition strconv_ParseUint :: "string \<Rightarrow> bool \<Rightarrow> nat \<Rightarrow> nat option" where
  "strconv_ParseUint s base0 bits =
     (if s = [] then None
      else let (b, ds) = (if base0 then base_split s else (10, s)) in
        case parse_digits b base0 0 ds of
          None \<Rightarrow> None
        | Some n \<Rightarrow>
            if 2 ^ bits \<le> n then None
            else if base0 \<and> CHR ''_'' \<in> set ds \<and> \<not> underscoreOK s then None
            else Some n)"

lemma ParseUint_bound: "strconv_ParseUint s base0 bits = Some n \<Longrightarrow> n < 2 ^ bits"
  by (auto simp: strconv_ParseUint_def Let_def split: if_splits option.splits prod.splits)

section \<open>FNV-1a, 32 bits\<close>

definition byte_of_char :: "char \<Rightarrow> u32" where
  "byte_of_char c = of_nat (of_char c)"

definition fnv32a :: "string \<Rightarrow> u32" where
  "fnv32a s = foldl (\<lambda>h c. (h XOR byte_of_char c) * 16777619) 2166136261 s"

end
