(* ===== verification/Sdwan_Linux.thy ===== *)
theory Sdwan_Linux
  imports Sdwan_Backend Exec Go_Strconv Openflow_Intent
begin

unbundle bit_operations_syntax

text \<open>
  \<^verbatim>\<open>src/sdwanlinux/backend.go\<close> and \<^verbatim>\<open>executor_linux.go\<close>: the SD-WAN backend of a Linux host. It
  turns a network, seen from the local site, into commands (WireGuard, routes and policy
  rules), Open vSwitch tunnels and OpenFlow rules. The executor and the two managers are
  parameters that act on the outside world. Letters are folded as ASCII; iteration over the
  runes of a name sees the bytes, of which only ASCII letters and digits are kept.
\<close>

section \<open>Data\<close>

definition ExternalIDNetworkKey :: string where "ExternalIDNetworkKey = ExternalIDPrefix @ ''sdwan-network''"
definition ExternalIDSiteKey :: string where "ExternalIDSiteKey = ExternalIDPrefix @ ''sdwan-site''"
definition ExternalIDLinkKey :: string where "ExternalIDLinkKey = ExternalIDPrefix @ ''sdwan-link''"

record OVSTunnel =
  tun_Network :: string
  tun_Link :: string
  tun_LocalSite :: string
  tun_RemoteSite :: string
  tun_Bridge :: string
  tun_Port :: string
  tun_Type :: string
  tun_RemoteIP :: string
  tun_Key :: string
  tun_DstPort :: string
  tun_ExternalID :: string_map

record OpenFlowRule =
  ofr_Network :: string
  ofr_Link :: string
  ofr_Bridge :: string
  ofr_RuleName :: string
  ofr_TableID :: u8
  ofr_Priority :: u16
  ofr_Cookie :: u64
  ofr_Match :: OpenFlowMatch
  ofr_Actions :: "OpenFlowAction list"
  ofr_Transport :: string

record 'w OVSManager =
  om_EnsureTunnel :: "'w \<Rightarrow> OVSTunnel \<Rightarrow> check \<times> 'w"
  om_DeleteTunnel :: "'w \<Rightarrow> OVSTunnel \<Rightarrow> check \<times> 'w"

record 'w OpenFlowManager =
  fm_EnsureRule :: "'w \<Rightarrow> OpenFlowRule \<Rightarrow> check \<times> 'w"
  fm_DeleteRule :: "'w \<Rightarrow> OpenFlowRule \<Rightarrow> check \<times> 'w"

text \<open>
  \<open>Config\<close>, and the backend without its two tables; \<open>None\<close> is a nil executor or manager. A backend
  without an executor applies nothing, so its tables are empty and the call of a nil executor in
  \<open>deleteLink\<close> (a panic) is not reached; \<open>run_command\<close> gives it the error of \<open>ApplySDWAN\<close>.
\<close>

record 'w Config =
  cf_LocalSite :: string
  cf_Executor :: "('w \<Rightarrow> Command \<Rightarrow> check \<times> 'w) option"
  cf_OVS :: "'w OVSManager option"
  cf_OpenFlow :: "'w OpenFlowManager option"
  cf_InterfacePrefix :: string
  cf_RouteTable :: int

record Backend =
  bk_networks :: "(string, SDWANNetwork) fmap"
  bk_plans :: "(string, SDWANApplyPlan) fmap"

definition commandNotFound :: "string \<Rightarrow> bool" where
  "commandNotFound message =
     (let m = strings_ToLower message in
      list_ex (strings_Contains m) [''no such file'', ''not found'', ''does not exist'', ''cannot find device'',
        ''no such process'', ''no such table''])"

definition errorKindForExec :: "go_error \<Rightarrow> ErrorKind" where
  "errorKindForExec err =
     (if errors_Is err ContextCanceled then ErrorCanceled
      else if errors_Is err ContextDeadlineExceeded then ErrorTimeout
      else ErrorUnavailable)"

definition SystemExecutor_Run :: "('w \<Rightarrow> string \<Rightarrow> string list \<Rightarrow> process_failure option \<times> 'w) \<Rightarrow> 'w \<Rightarrow> Command \<Rightarrow> check \<times> 'w" where
  "SystemExecutor_Run run = system_run commandNotFound commandAlreadyExists errorKindForExec run"

text \<open>\<open>NewBackend\<close>; without an executor it takes the system's, which starts processes with \<open>run\<close>.\<close>

definition NewBackend :: "('w \<Rightarrow> string \<Rightarrow> string list \<Rightarrow> process_failure option \<times> 'w) \<Rightarrow> 'w Config \<Rightarrow> ('w Config \<times> Backend) res" where
  "NewBackend run cfg =
     guard_res (Labels_Validate (fmupd ''local-site'' (cf_LocalSite cfg) fmempty))
     (if blank (cf_LocalSite cfg) then Inl (ovn_error ErrorValidation ''create'' ''sdwanlinux'' ''local site is required'')
      else Inr (cfg\<lparr>cf_Executor := Some (case cf_Executor cfg of None \<Rightarrow> SystemExecutor_Run run | Some executor \<Rightarrow> executor),
                cf_InterfacePrefix :=
                  (let p = strings_TrimSpace (cf_InterfacePrefix cfg) in if p = [] then ''ofwan'' else p),
                cf_RouteTable := (if cf_RouteTable cfg = 0 then 51820 else cf_RouteTable cfg)\<rparr>,
              \<lparr>bk_networks = fmempty, bk_plans = fmempty\<rparr>))"

definition run_command :: "'w Config \<Rightarrow> 'w \<Rightarrow> Command \<Rightarrow> check \<times> 'w" where
  "run_command b w cmd =
     (case cf_Executor b of None \<Rightarrow> (Some ErrBackendUnavailable, w) | Some executor \<Rightarrow> executor w cmd)"

section \<open>Names, hashes and attributes\<close>

fun firstNonEmpty :: "string list \<Rightarrow> string" where
  "firstNonEmpty [] = []"
| "firstNonEmpty (v # vs) = (if \<not> blank v then v else firstNonEmpty vs)"

definition uniqueSorted :: "string list \<Rightarrow> string list" where
  "uniqueSorted values = sort (unique_from [] (\<lambda>v. v = []) values)"

definition sortedKeys :: "string_map \<Rightarrow> string list" where
  "sortedKeys values = range_keys values"

definition alnum_char :: "char \<Rightarrow> bool" where
  "alnum_char c \<longleftrightarrow> (let n = (of_char c :: nat) in 97 \<le> n \<and> n \<le> 122 \<or> 48 \<le> n \<and> n \<le> 57)"

definition shortName :: "string \<Rightarrow> string" where
  "shortName value =
     (let value = strings_ToLower value; out = filter alnum_char value in
      if out = [] then nat_base 16 (length value) else out)"

definition shortHash :: "string \<Rightarrow> string" where
  "shortHash value = nat_base 36 (unat (fnv32a value))"

definition clampName :: "string \<Rightarrow> nat \<Rightarrow> string" where
  "clampName value maximum = (if maximum = 0 \<or> length value \<le> maximum then value else take maximum value)"

definition interfaceName :: "string \<Rightarrow> string \<Rightarrow> string \<Rightarrow> string \<Rightarrow> string" where
  "interfaceName pfx role network name =
     (let hash = shortHash (network @ CHR 0x00 # name);
          base = shortName (network @ name);
          maxBase = 15 - int (length pfx) - int (length role) - 1 - int (length hash);
          maxBase = (if maxBase < 0 then 0 else maxBase);
          base = (if maxBase < int (length base) then take (nat maxBase) base else base)
      in clampName (pfx @ role @ base @ ''-'' @ hash) 15)"

definition routeRulePriority :: "SDWANNetwork \<Rightarrow> SDWANLink \<Rightarrow> string \<Rightarrow> int" where
  "routeRulePriority network link cidr =
     20000 + int (unat (fnv32a (nw_Name network @ CHR 0x00 # StableName link @ CHR 0x00 # cidr) mod 10000))"

definition sdwanOpenFlowCookie :: "SDWANNetwork \<Rightarrow> SDWANLink \<Rightarrow> u64" where
  "sdwanOpenFlowCookie network link =
     0x0f0f000000000000 OR
       (fnv64a_write (fnv64a_write (fnv64a_write fnv64a_init (text_bytes (nw_Name network))) [0])
          (text_bytes (StableName link)) AND 0x0000ffffffffffff)"

definition ownedExternalIDs :: "string \<Rightarrow> string \<Rightarrow> string \<Rightarrow> string_map" where
  "ownedExternalIDs network site link =
     fmupd ExternalIDLinkKey link (fmupd ExternalIDSiteKey site (fmupd ExternalIDNetworkKey network
       (fmupd ExternalIDNameKey network (fmupd ExternalIDKindKey ''SDWAN''
         (fmupd ExternalIDAPIVersionKey ''v2'' (fmupd ExternalIDManagedByKey ''ovnflow'' fmempty))))))"

section \<open>Sites and links\<close>

definition zero_site :: SDWANSite where
  "zero_site = \<lparr>site_Name = [], site_Router = [], site_CIDRs = [], site_Endpoint = [], site_PublicKey = [],
     site_Role = [], site_Attributes = fmempty, site_L2Segments = [], site_Transit = False, site_Relay = False\<rparr>"

definition findSite :: "SDWANSite list \<Rightarrow> string \<Rightarrow> SDWANSite option" where
  "findSite sites name = find (\<lambda>s. site_Name s = name) sites"

definition site_or_zero :: "SDWANNetwork \<Rightarrow> string \<Rightarrow> SDWANSite" where
  "site_or_zero network name = (case findSite (nw_Sites network) name of Some s \<Rightarrow> s | None \<Rightarrow> zero_site)"

definition linkTouchesSite :: "SDWANLink \<Rightarrow> string \<Rightarrow> bool" where
  "linkTouchesSite link site \<longleftrightarrow> link_From link = site \<or> link_To link = site"

definition remoteSiteName :: "SDWANLink \<Rightarrow> string \<Rightarrow> string" where
  "remoteSiteName link local = (if link_From link = local then link_To link else link_From link)"

definition remoteSite :: "SDWANNetwork \<Rightarrow> SDWANLink \<Rightarrow> string \<Rightarrow> SDWANSite" where
  "remoteSite network link local = site_or_zero network (remoteSiteName link local)"

definition linkActsAsRelayPath :: "SDWANNetwork \<Rightarrow> SDWANLink \<Rightarrow> string \<Rightarrow> bool" where
  "linkActsAsRelayPath network link local =
     (let mode = (if link_PathMode link = [] then nw_PathMode network else link_PathMode link) in
      if mode \<noteq> SDWANPathModeRelay \<and> mode \<noteq> SDWANPathModeTransit \<and> mode \<noteq> SDWANPathModeAuto then False
      else relay_site (remoteSite network link local))"

definition pathModeForLink :: "SDWANNetwork \<Rightarrow> SDWANLink \<Rightarrow> string" where
  "pathModeForLink network link =
     (if link_PathMode link \<noteq> [] then link_PathMode link
      else if nw_PathMode network \<noteq> [] then nw_PathMode network
      else SDWANPathModeDirect)"

definition hasEnabledDirectLink :: "SDWANNetwork \<Rightarrow> string \<Rightarrow> string \<Rightarrow> bool" where
  "hasEnabledDirectLink network a b =
     list_ex (\<lambda>link. \<not> (link_Disabled link \<or> \<not> link_Enabled link) \<and> pathModeForLink network link = SDWANPathModeDirect
       \<and> linkTouchesSite link a \<and> linkTouchesSite link b) (nw_Links network)"

definition allowedIPsForRemote :: "SDWANNetwork \<Rightarrow> SDWANSite \<Rightarrow> SDWANLink \<Rightarrow> string \<Rightarrow> string list" where
  "allowedIPsForRemote network remote link local =
     (if link_AllowedIPs link \<noteq> [] then uniqueSorted (link_AllowedIPs link)
      else uniqueSorted (site_CIDRs remote @
        (if linkActsAsRelayPath network link local
         then concat (map site_CIDRs (filter (\<lambda>site.
           \<not> (site_Name site = local \<or> site_Name site = site_Name remote \<or> relay_site site)
           \<and> \<not> (pathModeForLink network link = SDWANPathModeAuto \<and> hasEnabledDirectLink network local (site_Name site)))
           (nw_Sites network)))
         else [])))"

definition endpointForRemote :: "SDWANLink \<Rightarrow> string \<Rightarrow> string" where
  "endpointForRemote link local = (if link_From link = local then link_EndpointB link else link_EndpointA link)"

definition wireGuardInterface :: "'w Config \<Rightarrow> SDWANNetwork \<Rightarrow> SDWANLink \<Rightarrow> string" where
  "wireGuardInterface b network link = interfaceName (cf_InterfacePrefix b) ''wg'' (nw_Name network) (StableName link)"

definition tunnelInterface :: "'w Config \<Rightarrow> SDWANNetwork \<Rightarrow> SDWANLink \<Rightarrow> string" where
  "tunnelInterface b network link =
     (if link_Transport link = SDWANTransportWireGuard then wireGuardInterface b network link
      else interfaceName (cf_InterfacePrefix b) ''tn'' (nw_Name network) (StableName link))"

section \<open>Rendering\<close>

definition renderSiteCommands :: "'w Config \<Rightarrow> SDWANNetwork \<Rightarrow> SDWANSite \<Rightarrow> Command list" where
  "renderSiteCommands b network site = []"

definition renderWireGuardCommands :: "'w Config \<Rightarrow> SDWANNetwork \<Rightarrow> SDWANSite \<Rightarrow> SDWANSite \<Rightarrow> SDWANLink \<Rightarrow> Command list" where
  "renderWireGuardCommands b network local remote link =
     (let iface = wireGuardInterface b network link;
          attr = go_get (site_Attributes local);
          privateKeyFile = firstNonEmpty [attr ''wireguard_private_key_file'', attr ''private_key_file''];
          listenPort = firstNonEmpty [attr ''wireguard_listen_port'', go_get (link_Attributes link) ''listen_port''];
          psk = go_get (site_Attributes remote) ''wireguard_preshared_key_file'';
          endpoint = endpointForRemote link (cf_LocalSite b);
          endpoint = (if endpoint = [] then site_Endpoint remote else endpoint);
          allowedIPs = allowedIPsForRemote network remote link (cf_LocalSite b);
          peerArgs = [''set'', iface, ''peer'', site_PublicKey remote]
            @ (if psk \<noteq> [] then [''preshared-key'', psk] else [])
            @ (if endpoint \<noteq> [] then [''endpoint'', endpoint] else [])
            @ (if allowedIPs \<noteq> [] then [''allowed-ips'', strings_Join allowedIPs '',''] else []);
          address = firstNonEmpty [attr ''wireguard_address'', attr ''wg_address'']
      in [ignoring_existing (command ''ip'' [''link'', ''add'', iface, ''type'', ''wireguard''])]
        @ (if privateKeyFile \<noteq> []
           then [command ''wg'' ([''set'', iface, ''private-key'', privateKeyFile]
                   @ (if listenPort \<noteq> [] then [''listen-port'', listenPort] else []))] else [])
        @ (if site_PublicKey remote \<noteq> [] then [command ''wg'' peerArgs] else [])
        @ (if address \<noteq> [] then [command ''ip'' [''addr'', ''replace'', address, ''dev'', iface]] else [])
        @ [command ''ip'' [''link'', ''set'', iface, ''up'']])"

definition renderRouteCommands :: "'w Config \<Rightarrow> SDWANNetwork \<Rightarrow> SDWANSite \<Rightarrow> SDWANLink \<Rightarrow> Command list" where
  "renderRouteCommands b network remote link =
     (let iface = tunnelInterface b network link; table = strconv_Itoa (cf_RouteTable b) in
      concat (map (\<lambda>cidr. let priority = strconv_Itoa (routeRulePriority network link cidr) in
        [command ''ip'' [''route'', ''replace'', cidr, ''dev'', iface, ''table'', table],
         ignoring_not_found (command ''ip'' [''rule'', ''del'', ''priority'', priority]),
         ignoring_existing (command ''ip'' [''rule'', ''add'', ''priority'', priority, ''to'', cidr, ''lookup'', table])])
        (allowedIPsForRemote network remote link (cf_LocalSite b))))"

definition renderRouteDeleteCommands :: "'w Config \<Rightarrow> SDWANNetwork \<Rightarrow> SDWANSite \<Rightarrow> SDWANLink \<Rightarrow> Command list" where
  "renderRouteDeleteCommands b network remote link =
     (let iface = tunnelInterface b network link; table = strconv_Itoa (cf_RouteTable b) in
      concat (map (\<lambda>cidr. let priority = strconv_Itoa (routeRulePriority network link cidr) in
        [ignoring_not_found (command ''ip'' [''rule'', ''del'', ''priority'', priority]),
         ignoring_not_found (command ''ip'' [''rule'', ''del'', ''to'', cidr, ''lookup'', table]),
         ignoring_not_found (command ''ip'' [''route'', ''del'', cidr, ''dev'', iface, ''table'', table])])
        (allowedIPsForRemote network remote link (cf_LocalSite b))))"

definition ovsTunnel :: "'w Config \<Rightarrow> SDWANNetwork \<Rightarrow> SDWANSite \<Rightarrow> SDWANSite \<Rightarrow> SDWANLink \<Rightarrow> OVSTunnel" where
  "ovsTunnel b network local remote link =
     (let attrs = go_get (link_Attributes link);
          bridge = firstNonEmpty [attrs ''bridge'', go_get (site_Attributes local) ''ovs_bridge'',
            go_get (nw_Labels network) ''ovs_bridge''];
          bridge = (if bridge = [] then ''br-int'' else bridge)
      in \<lparr>tun_Network = nw_Name network, tun_Link = StableName link, tun_LocalSite = site_Name local,
          tun_RemoteSite = site_Name remote, tun_Bridge = bridge,
          tun_Port = firstNonEmpty [attrs ''port'', tunnelInterface b network link],
          tun_Type = link_Transport link,
          tun_RemoteIP = firstNonEmpty [attrs ''remote_ip'', go_get (site_Attributes remote) ''tunnel_ip'', site_Endpoint remote],
          tun_Key = attrs ''key'', tun_DstPort = attrs ''dst_port'',
          tun_ExternalID = ownedExternalIDs (nw_Name network) (site_Name local) (StableName link)\<rparr>)"

definition atoi_within :: "string \<Rightarrow> int \<Rightarrow> int \<Rightarrow> int" where
  "atoi_within raw limit dflt =
     (if raw = [] then dflt
      else case strconv_Atoi raw of Some v \<Rightarrow> if 0 \<le> v \<and> v \<le> limit then v else dflt | None \<Rightarrow> dflt)"

text \<open>\<open>if raw := attrs[k]; raw != "" { if parsed, err := strconv.ParseUint(...); err == nil { ... } }\<close>\<close>

definition uint_attr :: "string \<Rightarrow> bool \<Rightarrow> nat \<Rightarrow> nat option" where
  "uint_attr raw base0 bits = (if raw = [] then None else strconv_ParseUint raw base0 bits)"

definition openFlowMatchFromAttributes :: "string_map \<Rightarrow> OpenFlowMatch" where
  "openFlowMatchFromAttributes attributes =
     (let attrs = go_get attributes in
      empty_match\<lparr>m_InPort := map_option of_nat (uint_attr (attrs ''in_port'') False 32),
        m_EthType := map_option of_nat (uint_attr (attrs ''eth_type'') True 16),
        m_IPv4Src := attrs ''ipv4_src'', m_IPv4Dst := attrs ''ipv4_dst'',
        m_IPProto := map_option of_nat (uint_attr (attrs ''ip_proto'') False 8),
        m_TCPSrc := map_option of_nat (uint_attr (attrs ''tcp_src'') False 16),
        m_TCPDst := map_option of_nat (uint_attr (attrs ''tcp_dst'') False 16),
        m_UDPSrc := map_option of_nat (uint_attr (attrs ''udp_src'') False 16),
        m_UDPDst := map_option of_nat (uint_attr (attrs ''udp_dst'') False 16)\<rparr>)"

definition openFlowMatchConfigured :: "OpenFlowMatch \<Rightarrow> bool" where
  "openFlowMatchConfigured m \<longleftrightarrow>
     m_InPort m \<noteq> None \<or> m_Metadata m \<noteq> None \<or> m_EthSrc m \<noteq> [] \<or> m_EthDst m \<noteq> [] \<or> m_EthType m \<noteq> None
     \<or> m_VLANVID m \<noteq> None \<or> m_IPProto m \<noteq> None \<or> m_IPv4Src m \<noteq> [] \<or> m_IPv4Dst m \<noteq> [] \<or> m_TCPSrc m \<noteq> None
     \<or> m_TCPDst m \<noteq> None \<or> m_UDPSrc m \<noteq> None \<or> m_UDPDst m \<noteq> None"

definition openFlowRule :: "SDWANNetwork \<Rightarrow> SDWANLink \<Rightarrow> OpenFlowRule" where
  "openFlowRule network link =
     (let attrs = go_get (link_Attributes link) in
      \<lparr>ofr_Network = nw_Name network, ofr_Link = StableName link,
       ofr_Bridge = firstNonEmpty [attrs ''bridge'', go_get (nw_Labels network) ''ovs_bridge'', ''br-int''],
       ofr_RuleName = ''sdwan-'' @ nw_Name network @ ''-'' @ StableName link,
       ofr_TableID = of_int (atoi_within (attrs ''openflow_table'') 255 0),
       ofr_Priority = of_int (atoi_within (attrs ''openflow_priority'') 65535 100),
       ofr_Cookie = sdwanOpenFlowCookie network link,
       ofr_Match = openFlowMatchFromAttributes (link_Attributes link),
       ofr_Actions = [\<lparr>act_Type = OpenFlowActionOutput,
         act_Port = (case uint_attr (attrs ''output_port'') False 32 of Some v \<Rightarrow> of_nat v | None \<Rightarrow> 0xfffffffb),
         act_Field = [], act_Value = []\<rparr>],
       ofr_Transport = link_Transport link\<rparr>)"

section \<open>The backend\<close>

definition empty_plan :: SDWANApplyPlan where
  "empty_plan = \<lparr>ap_Network = [], ap_Operations = []\<rparr>"

text \<open>Both functions go through a fresh in-memory backend.\<close>

definition through_memory :: "SDWANNetwork \<Rightarrow> SDWANNetwork res" where
  "through_memory network =
     GetSDWAN (snd (ApplySDWAN NewInMemorySDWANBackend network empty_plan)) (nw_Name network)"

definition normalizeNetwork :: "SDWANNetwork \<Rightarrow> SDWANNetwork" where
  "normalizeNetwork network = (case through_memory network of Inl _ \<Rightarrow> network | Inr out \<Rightarrow> out)"

definition cloneNetwork :: "SDWANNetwork \<Rightarrow> SDWANNetwork" where
  "cloneNetwork n = (case through_memory n of Inl _ \<Rightarrow> n | Inr out \<Rightarrow> out\<lparr>nw_Status := nw_Status n\<rparr>)"

definition Linux_GetSDWAN :: "Backend \<Rightarrow> string \<Rightarrow> SDWANNetwork res" where
  "Linux_GetSDWAN b name =
     (case fmlookup (bk_networks b) name of
        None \<Rightarrow> Inl (ovn_error ErrorNotFound ''get'' name ''SD-WAN network not found'')
      | Some network \<Rightarrow> Inr (cloneNetwork network))"

definition ensureOVSTunnel :: "'w Config \<Rightarrow> SDWANNetwork \<Rightarrow> SDWANSite \<Rightarrow> SDWANSite \<Rightarrow> 'w \<Rightarrow> SDWANLink \<Rightarrow> check \<times> 'w" where
  "ensureOVSTunnel b network local remote w link =
     (case cf_OVS b of
        None \<Rightarrow> (Some ErrBackendUnavailable, w)
      | Some ovs \<Rightarrow> om_EnsureTunnel ovs w (ovsTunnel b network local remote link))"

definition ensureOpenFlowRule :: "'w Config \<Rightarrow> SDWANNetwork \<Rightarrow> 'w \<Rightarrow> SDWANLink \<Rightarrow> check \<times> 'w" where
  "ensureOpenFlowRule b network w link =
     (case cf_OpenFlow b of
        None \<Rightarrow> (None, w)
      | Some openflow \<Rightarrow>
          (let rule = openFlowRule network link in
           if \<not> openFlowMatchConfigured (ofr_Match rule)
           then (Some (ovn_error ErrorValidation ''ensure'' (ofr_RuleName rule)
                  ''SD-WAN OpenFlow rule requires an explicit match attribute''), w)
           else fm_EnsureRule openflow w rule))"

definition overlay_transport :: "string \<Rightarrow> bool" where
  "overlay_transport t \<longleftrightarrow> t = SDWANTransportGeneve \<or> t = SDWANTransportVXLAN"

definition deleteLink :: "'w Config \<Rightarrow> SDWANNetwork \<Rightarrow> 'w \<Rightarrow> SDWANLink \<Rightarrow> check \<times> 'w" where
  "deleteLink b network w link =
     (if link_Transport link = SDWANTransportWireGuard then
        eff_then
          (if nw_Layer network = SDWANLayerL3
           then eff_all (run_command b) w
             (renderRouteDeleteCommands b network (remoteSite network link (cf_LocalSite b)) link)
           else (None, w))
          (\<lambda>w. run_command b w
             (ignoring_not_found (command ''ip'' [''link'', ''delete'', wireGuardInterface b network link])))
      else if overlay_transport (link_Transport link) then
        eff_then
          (case cf_OpenFlow b of None \<Rightarrow> (None, w) | Some openflow \<Rightarrow> fm_DeleteRule openflow w (openFlowRule network link))
          (\<lambda>w. case cf_OVS b of
             None \<Rightarrow> (None, w)
           | Some ovs \<Rightarrow> om_DeleteTunnel ovs w (ovsTunnel b network (site_or_zero network (cf_LocalSite b))
               (remoteSite network link (cf_LocalSite b)) link))
      else (None, w))"

definition link_off :: "SDWANLink \<Rightarrow> bool" where
  "link_off link \<longleftrightarrow> link_Disabled link \<or> \<not> link_Enabled link"

text \<open>The body of the second loop of \<open>ApplySDWAN\<close>, for a link that touches the local site.\<close>

definition apply_link :: "'w Config \<Rightarrow> SDWANNetwork \<Rightarrow> SDWANSite \<Rightarrow> 'w \<Rightarrow> SDWANLink \<Rightarrow> check \<times> 'w" where
  "apply_link b network site w link =
     (case findSite (nw_Sites network) (remoteSiteName link (cf_LocalSite b)) of
        None \<Rightarrow> (Some (ovn_error ErrorValidation ''apply'' (StableName link) ''remote site not found''), w)
      | Some remote \<Rightarrow>
          if link_off link then (None, w)
          else
            eff_then
              (if link_Transport link = SDWANTransportWireGuard
               then eff_all (run_command b) w (renderWireGuardCommands b network site remote link)
               else if overlay_transport (link_Transport link)
               then eff_then (ensureOVSTunnel b network site remote w link)
                 (\<lambda>w. if nw_Layer network = SDWANLayerL2 then ensureOpenFlowRule b network w link else (None, w))
               else (None, w))
              (\<lambda>w. if nw_Layer network = SDWANLayerL3
                 then eff_all (run_command b) w (renderRouteCommands b network remote link) else (None, w)))"

definition store_network :: "Backend \<Rightarrow> SDWANNetwork \<Rightarrow> SDWANApplyPlan \<Rightarrow> Backend" where
  "store_network st network plan =
     (let status = (case fmlookup (bk_networks st) (nw_Name network) of
                      Some current \<Rightarrow> nw_Status current | None \<Rightarrow> nw_Status network);
          status = status\<lparr>st_State := ResourceStatusPresent, st_LastApplied := st_LastApplied status + 1\<rparr>;
          network = network\<lparr>nw_Status := status\<rparr>
      in st\<lparr>bk_networks := fmupd (nw_Name network) (cloneNetwork network) (bk_networks st),
            bk_plans := fmupd (nw_Name network) plan (bk_plans st)\<rparr>)"

definition Linux_ApplySDWAN :: "'w Config \<Rightarrow> Backend \<times> 'w \<Rightarrow> SDWANNetwork \<Rightarrow> SDWANApplyPlan \<Rightarrow> check \<times> Backend \<times> 'w" where
  "Linux_ApplySDWAN b st_w network0 plan =
     (let (st, w) = st_w in
      if cf_Executor b = None then (Some ErrBackendUnavailable, st, w)
      else case Network_Validate network0 of
        Some e \<Rightarrow> (Some e, st, w)
      | None \<Rightarrow>
          let network = normalizeNetwork network0; local = cf_LocalSite b in
          case findSite (nw_Sites network) local of
            None \<Rightarrow> (Some (ovn_error ErrorValidation ''apply'' local ''local site is not part of SD-WAN network''), st, w)
          | Some site \<Rightarrow>
              (case eff_then (eff_all (run_command b) w (renderSiteCommands b network site))
                  (\<lambda>w. eff_then (eff_all (deleteLink b network) w
                     (filter (\<lambda>link. linkTouchesSite link local \<and> link_off link) (nw_Links network)))
                  (\<lambda>w. eff_all (apply_link b network site) w
                     (filter (\<lambda>link. linkTouchesSite link local) (nw_Links network)))) of
                 (Some e, w) \<Rightarrow> (Some e, st, w)
               | (None, w) \<Rightarrow> (None, store_network st network plan, w)))"

definition Linux_DeleteSDWAN :: "'w Config \<Rightarrow> Backend \<times> 'w \<Rightarrow> string \<Rightarrow> check \<times> Backend \<times> 'w" where
  "Linux_DeleteSDWAN b st_w name =
     (let (st, w) = st_w in
      case fmlookup (bk_networks st) name of
        None \<Rightarrow> (Some (ovn_error ErrorNotFound ''delete'' name ''SD-WAN network not found''), st, w)
      | Some network \<Rightarrow>
          (case eff_all (deleteLink b network) w
              (filter (\<lambda>link. linkTouchesSite link (cf_LocalSite b)) (nw_Links network)) of
             (Some e, w) \<Rightarrow> (Some e, st, w)
           | (None, w) \<Rightarrow>
               (None, st\<lparr>bk_networks := fmdrop name (bk_networks st), bk_plans := fmdrop name (bk_plans st)\<rparr>, w)))"

definition Linux_LastPlan :: "Backend \<Rightarrow> string \<Rightarrow> SDWANApplyPlan option" where
  "Linux_LastPlan b name = fmlookup (bk_plans b) name"

definition Linux_backend :: "'w Config \<Rightarrow> (Backend \<times> 'w) SDWANBackend" where
  "Linux_backend cfg =
     \<lparr>be_Get = (\<lambda>(st, w). Linux_GetSDWAN st), be_Apply = Linux_ApplySDWAN cfg, be_Delete = Linux_DeleteSDWAN cfg\<rparr>"

section \<open>The managers of the SDK\<close>

text \<open>
  What the tunnel manager asks of the OVS client (\<^verbatim>\<open>src/ovs.go\<close>): the external ids of a port, the
  port builder with what it was told, and the deletion of a port.
\<close>

record tunnel_port =
  tp_Bridge :: string
  tp_BridgeIDs :: string_map
  tp_Port :: string
  tp_Type :: string
  tp_Options :: string_map
  tp_IDs :: string_map
  tp_InterfaceIDs :: string_map

record 'w OVSPorts =
  op_GetPort :: "'w \<Rightarrow> string \<Rightarrow> string_map res"
  op_Ensure :: "'w \<Rightarrow> tunnel_port \<Rightarrow> check \<times> 'w"
  op_DeletePort :: "'w \<Rightarrow> string \<Rightarrow> string \<Rightarrow> check \<times> 'w"

definition ovsTunnelOwnedBy :: "string_map \<Rightarrow> OVSTunnel \<Rightarrow> bool" where
  "ovsTunnelOwnedBy externalIDs tunnel \<longleftrightarrow>
     go_get externalIDs ExternalIDManagedByKey = ''ovnflow'' \<and> go_get externalIDs ExternalIDKindKey = ''SDWAN''
     \<and> go_get externalIDs ExternalIDNetworkKey = tun_Network tunnel
     \<and> go_get externalIDs ExternalIDSiteKey = tun_LocalSite tunnel
     \<and> go_get externalIDs ExternalIDLinkKey = tun_Link tunnel"

definition ensure_port :: "OVSTunnel \<Rightarrow> tunnel_port" where
  "ensure_port tunnel =
     (let options = fmupd ''remote_ip'' (tun_RemoteIP tunnel) fmempty;
          options = (if tun_Key tunnel \<noteq> [] then fmupd ''key'' (tun_Key tunnel) options else options);
          options = (if tun_DstPort tunnel \<noteq> [] then fmupd ''dst_port'' (tun_DstPort tunnel) options else options);
          ids = foldl (\<lambda>m k. fmupd k (go_get (tun_ExternalID tunnel) k) m) fmempty (sortedKeys (tun_ExternalID tunnel))
      in \<lparr>tp_Bridge = tun_Bridge tunnel, tp_BridgeIDs = fmupd ExternalIDManagedByKey ''ovnflow'' fmempty,
          tp_Port = tun_Port tunnel, tp_Type = tun_Type tunnel, tp_Options = options, tp_IDs = ids, tp_InterfaceIDs = ids\<rparr>)"

definition EnsureTunnel :: "'w OVSPorts option \<Rightarrow> 'w \<Rightarrow> OVSTunnel \<Rightarrow> check \<times> 'w" where
  "EnsureTunnel ovs w tunnel =
     (case ovs of
        None \<Rightarrow> (Some ErrBackendUnavailable, w)
      | Some ovs \<Rightarrow>
          (case op_GetPort ovs w (tun_Port tunnel) of
             Inr externalIDs \<Rightarrow>
               if \<not> ovsTunnelOwnedBy externalIDs tunnel
               then (Some (ovn_error ErrorOwnershipViolation ''ensure'' (tun_Port tunnel)
                      ''OVS tunnel port already exists and is not owned by this SD-WAN link''), w)
               else op_Ensure ovs w (ensure_port tunnel)
           | Inl e \<Rightarrow>
               if \<not> IsKind (Some e) ErrorNotFound then (Some e, w) else op_Ensure ovs w (ensure_port tunnel)))"

definition DeleteTunnel :: "'w OVSPorts option \<Rightarrow> 'w \<Rightarrow> OVSTunnel \<Rightarrow> check \<times> 'w" where
  "DeleteTunnel ovs w tunnel =
     (case ovs of
        None \<Rightarrow> (Some ErrBackendUnavailable, w)
      | Some ovs \<Rightarrow>
          (case op_GetPort ovs w (tun_Port tunnel) of
             Inl e \<Rightarrow> if IsKind (Some e) ErrorNotFound then (None, w) else (Some e, w)
           | Inr externalIDs \<Rightarrow>
               if \<not> ovsTunnelOwnedBy externalIDs tunnel
               then (Some (ovn_error ErrorOwnershipViolation ''delete'' (tun_Port tunnel)
                      ''OVS tunnel port is not owned by this SD-WAN link''), w)
               else op_DeletePort ovs w (tun_Bridge tunnel) (tun_Port tunnel)))"

definition sdkOVSManager :: "'w OVSPorts option \<Rightarrow> 'w OVSManager" where
  "sdkOVSManager ovs = \<lparr>om_EnsureTunnel = EnsureTunnel ovs, om_DeleteTunnel = DeleteTunnel ovs\<rparr>"

text \<open>
  \<open>retryOpenFlow\<close>: \<open>fn\<close> is one attempt, \<open>wait\<close> the select after a failed one (the context's error when
  it is done before the timer). Five attempts are left at the start.
\<close>

definition retryable :: "go_error \<Rightarrow> bool" where
  "retryable e \<longleftrightarrow> IsKind (Some e) ErrorUnavailable \<or> IsKind (Some e) ErrorTimeout"

fun retry_loop :: "('w \<Rightarrow> check \<times> 'w) \<Rightarrow> (nat \<Rightarrow> 'w \<Rightarrow> check \<times> 'w) \<Rightarrow> nat \<Rightarrow> check \<Rightarrow> 'w \<Rightarrow> check \<times> 'w" where
  "retry_loop fn wait 0 lastErr w = (lastErr, w)"
| "retry_loop fn wait (Suc left) lastErr w =
     (case fn w of
        (None, w) \<Rightarrow> (None, w)
      | (Some e, w) \<Rightarrow>
          if \<not> retryable e then (Some e, w)
          else (case wait (5 - left) w of
                  (Some cancelled, w) \<Rightarrow> (Some cancelled, w)
                | (None, w) \<Rightarrow> retry_loop fn wait left (Some e) w))"

definition retryOpenFlow :: "('w \<Rightarrow> check \<times> 'w) \<Rightarrow> (nat \<Rightarrow> 'w \<Rightarrow> check \<times> 'w) \<Rightarrow> 'w \<Rightarrow> check \<times> 'w" where
  "retryOpenFlow fn wait w = retry_loop fn wait 5 None w"

definition applyOpenFlowMatch :: "OpenFlowMatch \<Rightarrow> rule_call list" where
  "applyOpenFlowMatch m =
     (case m_InPort m of Some v \<Rightarrow> [CallInPort v] | None \<Rightarrow> [])
     @ (case m_EthType m of Some v \<Rightarrow> [CallEthType v] | None \<Rightarrow> [])
     @ (if m_IPv4Src m \<noteq> [] then [CallIPv4Src (m_IPv4Src m)] else [])
     @ (if m_IPv4Dst m \<noteq> [] then [CallIPv4Dst (m_IPv4Dst m)] else [])
     @ (case m_IPProto m of Some v \<Rightarrow> [CallIPProto v] | None \<Rightarrow> [])
     @ (case m_TCPSrc m of Some v \<Rightarrow> [CallTCPSrc v] | None \<Rightarrow> [])
     @ (case m_TCPDst m of Some v \<Rightarrow> [CallTCPDst v] | None \<Rightarrow> [])
     @ (case m_UDPSrc m of Some v \<Rightarrow> [CallUDPSrc v] | None \<Rightarrow> [])
     @ (case m_UDPDst m of Some v \<Rightarrow> [CallUDPDst v] | None \<Rightarrow> [])"

definition ensure_rule_builder :: "OpenFlowClient option \<Rightarrow> OpenFlowRule \<Rightarrow> OpenFlowRuleBuilder" where
  "ensure_rule_builder client rule =
     foldl builder_call (EnsureFlow client (ofr_Bridge rule) (ofr_RuleName rule))
       ([CallTable (ofr_TableID rule), CallPriority (ofr_Priority rule)]
        @ (if ofr_Cookie rule \<noteq> 0 then [CallCookie (ofr_Cookie rule)] else [])
        @ applyOpenFlowMatch (ofr_Match rule)
        @ map (\<lambda>a. CallOutput (act_Port a)) (filter (\<lambda>a. act_Type a = OpenFlowActionOutput) (ofr_Actions rule)))"

definition delete_rule_builder :: "OpenFlowClient option \<Rightarrow> OpenFlowRule \<Rightarrow> OpenFlowRuleBuilder" where
  "delete_rule_builder client rule =
     foldl builder_call (DeleteFlow client (ofr_Bridge rule) (ofr_RuleName rule))
       (if ofr_Cookie rule \<noteq> 0 then [CallCookie (ofr_Cookie rule), CallCookieMask (NOT 0)] else [])"

text \<open>
  The OpenFlow manager over the execution of a builder, which dials the switch anew at every
  attempt; \<open>client\<close> is what the attempts share.
\<close>

definition EnsureRule :: "OpenFlowClient option \<Rightarrow> ('w \<Rightarrow> OpenFlowRuleBuilder \<Rightarrow> check \<times> 'w) \<Rightarrow> (nat \<Rightarrow> 'w \<Rightarrow> check \<times> 'w)
    \<Rightarrow> 'w \<Rightarrow> OpenFlowRule \<Rightarrow> check \<times> 'w" where
  "EnsureRule client execute wait w rule =
     (if client = None then (Some ErrBackendUnavailable, w)
      else retryOpenFlow (\<lambda>w. execute w (ensure_rule_builder client rule)) wait w)"

definition DeleteRule :: "OpenFlowClient option \<Rightarrow> ('w \<Rightarrow> OpenFlowRuleBuilder \<Rightarrow> check \<times> 'w) \<Rightarrow> (nat \<Rightarrow> 'w \<Rightarrow> check \<times> 'w)
    \<Rightarrow> 'w \<Rightarrow> OpenFlowRule \<Rightarrow> check \<times> 'w" where
  "DeleteRule client execute wait w rule =
     (if client = None then (Some ErrBackendUnavailable, w)
      else retryOpenFlow (\<lambda>w. execute w (delete_rule_builder client rule)) wait w)"

end
