(* ===== verification/Sdwan_Linux_Props.thy ===== *)
theory Sdwan_Linux_Props
  imports Sdwan_Linux
begin

unbundle bit_operations_syntax

text \<open>
  What the Linux backend guarantees: it meets the contract of an SD-WAN backend for every
  executor and every manager, its generated names and numbers stay in their ranges, its
  OpenFlow rules pass the validation of the rule builder, tunnels of others are never touched,
  and in a hub-and-spoke network a spoke gets a route to every other site.
\<close>

section \<open>The contract of a backend\<close>

lemma through_memory_eq:
  "through_memory n = Inr ((normalizeSDWANNetwork n)\<lparr>nw_Status :=
     (nw_Status n)\<lparr>st_State := ResourceStatusPresent, st_LastApplied := st_LastApplied (nw_Status n) + 1\<rparr>\<rparr>)"
  by (simp add: through_memory_def ApplySDWAN_def GetSDWAN_def NewInMemorySDWANBackend_def Let_def)

lemma normalizeNetwork_eq:
  "normalizeNetwork n = (normalizeSDWANNetwork n)\<lparr>nw_Status :=
     (nw_Status n)\<lparr>st_State := ResourceStatusPresent, st_LastApplied := st_LastApplied (nw_Status n) + 1\<rparr>\<rparr>"
  by (simp add: normalizeNetwork_def through_memory_eq)

lemma cloneNetwork_eq: "cloneNetwork n = normalizeSDWANNetwork n"
  by (simp add: cloneNetwork_def through_memory_eq normalize_eq)

lemma Linux_Apply_None:
  assumes "Linux_ApplySDWAN cfg (st, w) n p = (None, st', w')"
  shows "st' = store_network st (normalizeNetwork n) p \<and> Network_Validate n = None
    \<and> cf_LocalSite cfg \<in> site_Name ` set (nw_Sites n)"
proof -
  obtain site where s: "findSite (nw_Sites (normalizeNetwork n)) (cf_LocalSite cfg) = Some site"
    and r: "Network_Validate n = None" "st' = store_network st (normalizeNetwork n) p"
    using assms by (auto simp: Linux_ApplySDWAN_def Let_def split: option.splits prod.splits if_splits)
  have "site \<in> set (normalizeSDWANSites (nw_Sites n))" "site_Name site = cf_LocalSite cfg"
    using s by (auto simp: findSite_def find_Some_iff normalizeNetwork_eq)
  then show ?thesis using r set_normalizeSDWANSites_names [of "nw_Sites n"] by (metis image_eqI)
qed

lemma Linux_Delete_None:
  "Linux_DeleteSDWAN cfg (st, w) name = (None, st', w') \<Longrightarrow>
   st' = st\<lparr>bk_networks := fmdrop name (bk_networks st), bk_plans := fmdrop name (bk_plans st)\<rparr>"
  by (auto simp: Linux_DeleteSDWAN_def Let_def split: option.splits prod.splits)

lemma Linux_Get_store:
  "Linux_GetSDWAN (store_network st n p) m =
     (if m = nw_Name n then Inr (normalizeSDWANNetwork (n\<lparr>nw_Status := nw_Status (the (fmlookup (bk_networks (store_network st n p)) m))\<rparr>))
      else Linux_GetSDWAN st m)"
  by (auto simp: Linux_GetSDWAN_def store_network_def Let_def cloneNetwork_eq normalize_status normalizeSDWANNetwork_idem)

interpretation linux: sdwan_backend "Linux_backend cfg" for cfg :: "'w Config"
proof
  fix n :: SDWANNetwork and b b' :: "Backend \<times> 'w" and p m m'
  obtain st w st' w' where b: "b = (st, w)" "b' = (st', w')" by (cases b, cases b')
  show "\<exists>s. be_Get (Linux_backend cfg) b' (nw_Name n) = Inr (n\<lparr>nw_Status := s\<rparr>)"
    if "sdwan_norm.normal n" "be_Apply (Linux_backend cfg) b n p = (None, b')"
  proof -
    have "st' = store_network st (normalizeNetwork n) p"
      using that(2) Linux_Apply_None [of cfg st w n p st' w'] by (simp add: Linux_backend_def b)
    then show ?thesis
      using that(1) by (auto simp: Linux_backend_def b Linux_Get_store normalizeNetwork_eq normal_nw normalize_status)
  qed
  show "be_Get (Linux_backend cfg) b' m = be_Get (Linux_backend cfg) b m"
    if "be_Apply (Linux_backend cfg) b n p = (None, b')" "m \<noteq> nw_Name n"
    using that Linux_Apply_None [of cfg st w n p st' w']
    by (simp add: Linux_backend_def b Linux_Get_store normalizeNetwork_eq)
  show "\<exists>e. be_Get (Linux_backend cfg) b' m = Inl e \<and> IsKind (Some e) ErrorNotFound"
    if "be_Delete (Linux_backend cfg) b m = (None, b')"
    using that Linux_Delete_None [of cfg st w m st' w'] by (simp add: Linux_backend_def b Linux_GetSDWAN_def)
  show "be_Get (Linux_backend cfg) b' m' = be_Get (Linux_backend cfg) b m'"
    if "be_Delete (Linux_backend cfg) b m = (None, b')" "m' \<noteq> m"
    using that Linux_Delete_None [of cfg st w m st' w'] by (simp add: Linux_backend_def b Linux_GetSDWAN_def)
qed

section \<open>Names and numbers\<close>

lemma length_shortHash: "length (shortHash v) \<le> 7"
proof -
  have "unat (fnv32a v) < 36 ^ Suc 6"
    using unsigned_less [where ?'b = 32 and ?'a = nat, of "fnv32a v"] by simp
  then show ?thesis using length_nat_base [of 36 _ 6] by (simp add: shortHash_def)
qed

lemma cookie_and: "sdwanOpenFlowCookie n l AND openFlowCookieMask = openFlowCookieNamespace"
proof -
  have "(openFlowCookieNamespace OR (h AND NOT openFlowCookieMask)) AND openFlowCookieMask =
      openFlowCookieNamespace AND openFlowCookieMask" for h
    by (auto simp: bit_eq_iff bit_simps)
  moreover have "openFlowCookieNamespace AND openFlowCookieMask = openFlowCookieNamespace"
    "NOT openFlowCookieMask = 0x0000ffffffffffff" by code_simp+
  ultimately show ?thesis by (simp add: sdwanOpenFlowCookie_def openFlowCookieNamespace_def)
qed

lemma length_clampName: "0 < m \<Longrightarrow> length (clampName v m) \<le> m"
  by (simp add: clampName_def)

lemma firstNonEmpty_default: "\<not> blank d \<Longrightarrow> \<not> blank (firstNonEmpty [a, b, d])"
  by simp

section \<open>Properties of the parts\<close>

text \<open>
  C37: Against the Linux backend, whatever its executor and managers do, a reconciliation that
  succeeds leaves other networks as they were and leaves nothing to do: reconciling the same
  network again applies nothing, so it runs no command and changes neither tables nor world.
\<close>

theorem linux_reconcile_settles:
  assumes "Network_Reconcile (Linux_backend cfg) (Some b) n = (Inr r, Some b')"
  shows "(\<exists>r'. Network_Reconcile (Linux_backend cfg) (Some b') n = (Inr r', Some b') \<and> \<not> rec_Applied r')
    \<and> (\<forall>m. m = nw_Name n \<or> Linux_GetSDWAN (fst b') m = Linux_GetSDWAN (fst b) m)"
proof -
  have get: "be_Get (Linux_backend cfg) c = Linux_GetSDWAN (fst c)" for c
    by (cases c) (simp add: Linux_backend_def)
  obtain r' where "Network_Reconcile (Linux_backend cfg) (Some b') n = (Inr r', Some b')" "\<not> rec_Applied r'"
    using linux.reconcile_settles [OF assms] by blast
  moreover have "m = nw_Name n \<or> Linux_GetSDWAN (fst b') m = Linux_GetSDWAN (fst b) m" for m
    using linux.reconcile_other [OF assms, of m] by (simp only: get) blast
  ultimately show ?thesis by blast
qed

text \<open>
  C40: An interface name never exceeds the 15 bytes Linux allows. While prefix and role take at
  most 7 of them the name ends with the full hash of network and link.
\<close>

theorem interfaceName_fits:
  "length (interfaceName pfx role network name) \<le> 15
   \<and> (length pfx + length role \<le> 7 \<longrightarrow>
      (\<exists>base. interfaceName pfx role network name = pfx @ role @ base @ ''-'' @ shortHash (network @ CHR 0x00 # name)))"
proof (intro conjI impI)
  show "length (interfaceName pfx role network name) \<le> 15"
    unfolding interfaceName_def Let_def by (rule length_clampName) simp
  assume short: "length pfx + length role \<le> 7"
  let ?h = "shortHash (network @ CHR 0x00 # name)" and ?b = "shortName (network @ name)"
  let ?m = "15 - int (length pfx) - int (length role) - 1 - int (length ?h)"
  have m: "0 \<le> ?m" using short length_shortHash [of "network @ CHR 0x00 # name"] by linarith
  define c where "c = (if ?m < int (length ?b) then take (nat ?m) ?b else ?b)"
  have "int (length c) \<le> ?m" using m by (simp add: c_def)
  then have "length (pfx @ role @ c @ ''-'' @ ?h) \<le> 15" by simp
  moreover have "interfaceName pfx role network name = clampName (pfx @ role @ c @ ''-'' @ ?h) 15"
    using m unfolding interfaceName_def Let_def c_def by (simp only: not_less [symmetric] if_False)
  ultimately show "\<exists>base. interfaceName pfx role network name = pfx @ role @ base @ ''-'' @ ?h"
    unfolding clampName_def by auto
qed

theorem interfaceName_fits_witness:
  "length ''ofwan'' + length ''wg'' \<le> 7
   \<and> (\<exists>base. interfaceName ''ofwan'' ''wg'' ''corp'' ''a--b'' =
        ''ofwan'' @ ''wg'' @ base @ ''-'' @ shortHash (''corp'' @ CHR 0x00 # ''a--b''))"
  using interfaceName_fits [of "''ofwan''" "''wg''" "''corp''" "''a--b''"] by simp

text \<open>
  The hash is what keeps the interfaces of two links apart; a configured prefix that fills the
  15 bytes with the role cuts it off, and all links share one interface.
\<close>

lemma long_prefix_collides:
  "15 \<le> length pfx + length role \<Longrightarrow> interfaceName pfx role network name = interfaceName pfx role network' name'"
  by (simp add: interfaceName_def clampName_def Let_def)

lemma foldl_builder_call:
  "foldl builder_call b cs = b\<lparr>rb_flow := foldl apply_call (rb_flow b) cs\<rparr>"
  by (induction cs arbitrary: b) (simp_all add: builder_call_def)

text \<open>The calls for a match touch nothing but the match, and rebuild it field by field.\<close>

lemma match_calls:
  "foldl apply_call f (case o1 of Some v \<Rightarrow> [CallInPort v] | None \<Rightarrow> []) =
     on_match (\<lambda>m. if o1 = None then m else m\<lparr>m_InPort := o1\<rparr>) f"
  "foldl apply_call f (case o2 of Some v \<Rightarrow> [CallEthType v] | None \<Rightarrow> []) =
     on_match (\<lambda>m. if o2 = None then m else m\<lparr>m_EthType := o2\<rparr>) f"
  "foldl apply_call f (case o3 of Some v \<Rightarrow> [CallIPProto v] | None \<Rightarrow> []) =
     on_match (\<lambda>m. if o3 = None then m else m\<lparr>m_IPProto := o3\<rparr>) f"
  "foldl apply_call f (case o4 of Some v \<Rightarrow> [CallTCPSrc v] | None \<Rightarrow> []) =
     on_match (\<lambda>m. if o4 = None then m else m\<lparr>m_TCPSrc := o4\<rparr>) f"
  "foldl apply_call f (case o4 of Some v \<Rightarrow> [CallTCPDst v] | None \<Rightarrow> []) =
     on_match (\<lambda>m. if o4 = None then m else m\<lparr>m_TCPDst := o4\<rparr>) f"
  "foldl apply_call f (case o4 of Some v \<Rightarrow> [CallUDPSrc v] | None \<Rightarrow> []) =
     on_match (\<lambda>m. if o4 = None then m else m\<lparr>m_UDPSrc := o4\<rparr>) f"
  "foldl apply_call f (case o4 of Some v \<Rightarrow> [CallUDPDst v] | None \<Rightarrow> []) =
     on_match (\<lambda>m. if o4 = None then m else m\<lparr>m_UDPDst := o4\<rparr>) f"
  "foldl apply_call f (if s \<noteq> [] then [CallIPv4Src s] else []) =
     on_match (\<lambda>m. if s = [] then m else m\<lparr>m_IPv4Src := s\<rparr>) f"
  "foldl apply_call f (if s \<noteq> [] then [CallIPv4Dst s] else []) =
     on_match (\<lambda>m. if s = [] then m else m\<lparr>m_IPv4Dst := s\<rparr>) f"
  by (simp_all add: on_match_def split: option.splits)

lemma on_match_on_match: "on_match g (on_match h f) = on_match (\<lambda>m. g (h m)) f"
  by (simp add: on_match_def)

lemma foldl_match_calls:
  assumes "m = openFlowMatchFromAttributes attrs" and "flow_Match f = empty_match"
  shows "foldl apply_call f (applyOpenFlowMatch m) = f\<lparr>flow_Match := m\<rparr>"
proof -
  obtain p md es ed et vv pr s d ts td us ud where m: "m = \<lparr>m_InPort = p, m_Metadata = md, m_EthSrc = es, m_EthDst = ed,
      m_EthType = et, m_VLANVID = vv, m_IPProto = pr, m_IPv4Src = s, m_IPv4Dst = d, m_TCPSrc = ts,
      m_TCPDst = td, m_UDPSrc = us, m_UDPDst = ud\<rparr>" by (cases m)
  have "md = None" "es = []" "ed = []" "vv = None"
    using assms(1) unfolding m by (simp_all add: openFlowMatchFromAttributes_def Let_def empty_match_def)
  then show ?thesis
    unfolding applyOpenFlowMatch_def foldl_append match_calls on_match_on_match
    by (simp add: on_match_def assms(2) m empty_match_def)
qed

lemma sdwan_rule_names:
  "\<not> blank (ofr_Bridge (openFlowRule n l))" "\<not> blank (ofr_RuleName (openFlowRule n l))"
proof -
  have "\<not> blank ''br-int''" by code_simp
  then show "\<not> blank (ofr_Bridge (openFlowRule n l))" by (simp add: openFlowRule_def Let_def)
  have "CHR ''s'' \<in> set (ofr_RuleName (openFlowRule n l))" by (simp add: openFlowRule_def Let_def)
  then show "\<not> blank (ofr_RuleName (openFlowRule n l))" by (rule not_blank_plain) (simp add: plain_byte_def)
qed

lemma rule_sel:
  "ofr_Cookie (openFlowRule n l) = sdwanOpenFlowCookie n l" "sdwanOpenFlowCookie n l \<noteq> 0"
  "ofr_Match (openFlowRule n l) = openFlowMatchFromAttributes (link_Attributes l)"
  "\<exists>port. map (\<lambda>a. CallOutput (act_Port a)) (filter (\<lambda>a. act_Type a = OpenFlowActionOutput) (ofr_Actions (openFlowRule n l)))
     = [CallOutput port]"
proof -
  show "sdwanOpenFlowCookie n l \<noteq> 0"
  proof
    assume "sdwanOpenFlowCookie n l = 0"
    then have "openFlowCookieNamespace = 0" using cookie_and [of n l] by simp
    then show False by (simp add: openFlowCookieNamespace_def)
  qed
qed (simp_all add: openFlowRule_def Let_def)

lemma sdwan_ensure_flow:
  "\<exists>actions. actions \<noteq> [] \<and> ensure_rule_builder (Some c) (openFlowRule n l) =
     (EnsureFlow (Some c) (ofr_Bridge (openFlowRule n l)) (ofr_RuleName (openFlowRule n l)))
       \<lparr>rb_flow := (rb_flow (EnsureFlow (Some c) (ofr_Bridge (openFlowRule n l)) (ofr_RuleName (openFlowRule n l))))
         \<lparr>flow_TableID := ofr_TableID (openFlowRule n l), flow_Priority := ofr_Priority (openFlowRule n l),
          flow_Cookie := sdwanOpenFlowCookie n l, flow_Match := ofr_Match (openFlowRule n l), flow_Actions := actions\<rparr>\<rparr>"
proof -
  obtain port where port: "map (\<lambda>a. CallOutput (act_Port a)) (filter (\<lambda>a. act_Type a = OpenFlowActionOutput)
      (ofr_Actions (openFlowRule n l))) = [CallOutput port]" using rule_sel(4) [of n l] by (rule exE)
  show ?thesis
    unfolding ensure_rule_builder_def foldl_builder_call port foldl_append rule_sel(1)
    by (simp add: rule_sel(2) foldl_match_calls [OF rule_sel(3)] EnsureFlow_def)
qed

text \<open>
  C38: The OpenFlow rule the backend derives from any network and link passes the validation of
  the rule builder when it is ensured and when it is deleted: its cookie lies in the namespace
  of the SDK and it has a bridge, a name and an action. The deletion selects exactly its own
  cookie.
\<close>

theorem sdwan_rule_accepted:
  "rule_check (ensure_rule_builder (Some c) (openFlowRule n l)) = None
   \<and> flow_Match (rb_flow (ensure_rule_builder (Some c) (openFlowRule n l))) = ofr_Match (openFlowRule n l)
   \<and> rule_check (delete_rule_builder (Some c) (openFlowRule n l)) = None
   \<and> flow_Cookie (rb_flow (delete_rule_builder (Some c) (openFlowRule n l))) = sdwanOpenFlowCookie n l
   \<and> flow_CookieMask (rb_flow (delete_rule_builder (Some c) (openFlowRule n l))) = NOT 0"
proof -
  obtain actions where actions: "actions \<noteq> []" and e: "ensure_rule_builder (Some c) (openFlowRule n l) =
     (EnsureFlow (Some c) (ofr_Bridge (openFlowRule n l)) (ofr_RuleName (openFlowRule n l)))
       \<lparr>rb_flow := (rb_flow (EnsureFlow (Some c) (ofr_Bridge (openFlowRule n l)) (ofr_RuleName (openFlowRule n l))))
         \<lparr>flow_TableID := ofr_TableID (openFlowRule n l), flow_Priority := ofr_Priority (openFlowRule n l),
          flow_Cookie := sdwanOpenFlowCookie n l, flow_Match := ofr_Match (openFlowRule n l), flow_Actions := actions\<rparr>\<rparr>"
    using sdwan_ensure_flow by blast
  have d: "delete_rule_builder (Some c) (openFlowRule n l) =
     (DeleteFlow (Some c) (ofr_Bridge (openFlowRule n l)) (ofr_RuleName (openFlowRule n l)))
       \<lparr>rb_flow := (rb_flow (DeleteFlow (Some c) (ofr_Bridge (openFlowRule n l)) (ofr_RuleName (openFlowRule n l))))
         \<lparr>flow_Cookie := sdwanOpenFlowCookie n l, flow_CookieMask := NOT 0\<rparr>\<rparr>"
    by (simp add: delete_rule_builder_def builder_call_def rule_sel)
  show ?thesis
    unfolding e d using actions
    by (simp add: rule_check_def DeleteFlow_def EnsureFlow_def Let_def sdwan_rule_names cookie_and empty_owner_def Labels_Validate_None then_check_None)
qed

section \<open>Retries\<close>

lemma retry_loop_calls:
  assumes "retry_loop fn wait k e w = (r, w')"
    and fn: "\<And>w e w'. fn w = (e, w') \<Longrightarrow> (count w' :: nat) \<le> count w + 1"
    and wait: "\<And>i w e w'. wait i w = (e, w') \<Longrightarrow> count w' \<le> count w"
  shows "count w' \<le> count w + k"
  using assms(1)
proof (induction k arbitrary: e w)
  case (Suc k)
  obtain e1 w1 where 1: "fn w = (e1, w1)" by (cases "fn w")
  obtain e2 w2 where 2: "wait (5 - k) w1 = (e2, w2)" by (cases "wait (5 - k) w1")
  have c: "count w1 \<le> count w + 1" "count w2 \<le> count w1" using fn [OF 1] wait [OF 2] by auto
  consider "w' = w1" | "w' = w2" | "retry_loop fn wait k e1 w2 = (r, w')"
    using Suc.prems 1 2 by (auto split: option.splits if_splits)
  then show ?case
  proof cases
    case 3
    from Suc.IH [OF this] c show ?thesis by simp
  qed (use c in simp_all)
qed simp

lemma retry_loop_success:
  assumes "retry_loop fn wait (Suc k) e w = (None, w')"
  shows "\<exists>u. fn u = (None, w')"
  using assms
proof (induction k arbitrary: e w)
  case 0
  then show ?case by (auto split: prod.splits option.splits if_splits)
next
  case (Suc k)
  obtain e1 w1 where 1: "fn w = (e1, w1)" by (cases "fn w")
  show ?case
  proof (cases e1)
    case None
    then show ?thesis using Suc.prems 1 by auto
  next
    case (Some x)
    then show ?thesis
      using Suc.prems 1 Suc.IH by (simp only: retry_loop.simps(2) [of _ _ "Suc k"] split_conv split: option.splits if_splits prod.splits) auto
  qed
qed

text \<open>
  The retry loop of the OpenFlow manager makes at most five attempts, reports success
  only when an attempt has succeeded, in the state that attempt left, and passes the error of
  a first attempt that must not be retried on without waiting.
\<close>

theorem retry_bounded:
  assumes "retryOpenFlow fn wait w = (r, w')"
    and "\<And>w e w'. fn w = (e, w') \<Longrightarrow> (count w' :: nat) \<le> count w + 1"
    and "\<And>i w e w'. wait i w = (e, w') \<Longrightarrow> count w' \<le> count w"
  shows "count w' \<le> count w + 5 \<and> (r = None \<longrightarrow> (\<exists>u. fn u = (None, w')))
    \<and> (\<forall>e u. fn w = (Some e, u) \<and> \<not> retryable e \<longrightarrow> r = Some e \<and> w' = u)"
proof (intro conjI impI allI)
  show "count w' \<le> count w + 5"
    using retry_loop_calls [of fn wait 5 None w r w' count] assms by (simp add: retryOpenFlow_def)
  have five: "retry_loop fn wait (Suc 4) None w = (r, w')" using assms(1) by (simp add: retryOpenFlow_def)
  show "\<exists>u. fn u = (None, w')" if "r = None"
    using retry_loop_success [of fn wait 4 None w w'] five that by simp
  show "r = Some e" "w' = u" if "fn w = (Some e, u) \<and> \<not> retryable e" for e u
    using five [unfolded retry_loop.simps(2)] that by simp_all
qed

text \<open>The witness: a peer that is never available, and a world that counts the attempts.\<close>

definition dead_peer :: "nat \<Rightarrow> check \<times> nat" where
  "dead_peer k = (Some (ovn_error ErrorUnavailable ''dial'' ''switch'' ''connection refused''), k + 1)"

definition timer_only :: "nat \<Rightarrow> nat \<Rightarrow> check \<times> nat" where
  "timer_only i k = (None, k)"

theorem retry_bounded_witness: "snd (retryOpenFlow dead_peer timer_only 0) \<le> (0 :: nat) + 5"
  using retry_bounded [of dead_peer timer_only 0 "fst (retryOpenFlow dead_peer timer_only 0)"
      "snd (retryOpenFlow dead_peer timer_only 0)" "\<lambda>k. k"]
  by (simp add: dead_peer_def timer_only_def)

section \<open>Tunnels\<close>

lemma ensure_port_ids: "tp_IDs (ensure_port t) = tun_ExternalID t"
proof (rule fmap_ext)
  fix x
  have "fmlookup (tp_IDs (ensure_port t)) x =
      (if x \<in> set (range_keys (tun_ExternalID t)) then Some (go_get (tun_ExternalID t) x) else None)"
    by (simp add: ensure_port_def Let_def sortedKeys_def foldl_fmupd_lookup [where f = "go_get (tun_ExternalID t)"] del: set_range_keys)
  then show "fmlookup (tp_IDs (ensure_port t)) x = fmlookup (tun_ExternalID t) x"
    by (auto simp: go_get_def fmlookup_dom'_iff split: option.splits)
qed

lemma owned_ids_lookup:
  "go_get (ownedExternalIDs n s l) ExternalIDManagedByKey = ''ovnflow''"
  "go_get (ownedExternalIDs n s l) ExternalIDKindKey = ''SDWAN''"
  "go_get (ownedExternalIDs n s l) ExternalIDNetworkKey = n"
  "go_get (ownedExternalIDs n s l) ExternalIDSiteKey = s"
  "go_get (ownedExternalIDs n s l) ExternalIDLinkKey = l"
  by (simp_all add: ownedExternalIDs_def go_get_def ExternalIDManagedByKey_def ExternalIDAPIVersionKey_def
      ExternalIDKindKey_def ExternalIDNameKey_def ExternalIDNetworkKey_def ExternalIDSiteKey_def ExternalIDLinkKey_def)

lemma owned_ids:
  "ovsTunnelOwnedBy (ownedExternalIDs n s l) t \<longleftrightarrow> n = tun_Network t \<and> s = tun_LocalSite t \<and> l = tun_Link t"
  by (simp add: ovsTunnelOwnedBy_def owned_ids_lookup)

text \<open>
  C39: A tunnel port belongs to one link. The port that was created for the tunnel of one
  network, local site and link is updated for the same network, site and link only; asked to
  ensure or to delete it for any other, the manager fails with an ownership violation and
  touches nothing.
\<close>

theorem tunnels_separate:
  assumes "t = ovsTunnel cfg n local remote l" and "t' = ovsTunnel cfg' n' local' remote' l'"
    and "op_GetPort ovs w (tun_Port t') = Inr (tp_IDs (ensure_port t))"
  shows "if nw_Name n = nw_Name n' \<and> site_Name local = site_Name local' \<and> StableName l = StableName l'
     then EnsureTunnel (Some ovs) w t' = op_Ensure ovs w (ensure_port t')
       \<and> DeleteTunnel (Some ovs) w t' = op_DeletePort ovs w (tun_Bridge t') (tun_Port t')
     else \<exists>e e'. EnsureTunnel (Some ovs) w t' = (Some e, w) \<and> DeleteTunnel (Some ovs) w t' = (Some e', w)
       \<and> IsKind (Some e) ErrorOwnershipViolation \<and> IsKind (Some e') ErrorOwnershipViolation"
proof -
  have "ovsTunnelOwnedBy (tp_IDs (ensure_port t)) t' \<longleftrightarrow>
      nw_Name n = nw_Name n' \<and> site_Name local = site_Name local' \<and> StableName l = StableName l'"
    using assms(1,2) by (simp add: ensure_port_ids ovsTunnel_def Let_def owned_ids)
  then show ?thesis using assms(3) by (simp add: EnsureTunnel_def DeleteTunnel_def)
qed

definition demo_ports :: "string_map \<Rightarrow> nat OVSPorts" where
  "demo_ports ids = \<lparr>op_GetPort = (\<lambda>w port. Inr ids), op_Ensure = (\<lambda>w p. (None, w + 1)),
     op_DeletePort = (\<lambda>w bridge port. (None, w + 1))\<rparr>"

definition demo_tunnel :: "string \<Rightarrow> OVSTunnel" where
  "demo_tunnel name = ovsTunnel \<lparr>cf_LocalSite = ''paris'', cf_Executor = Some FakeExecutor_Run, cf_OVS = None,
       cf_OpenFlow = None, cf_InterfacePrefix = ''ofwan'', cf_RouteTable = 51820\<rparr>
     demo_plain zero_site zero_site ((auto_link SDWANTransportGeneve ''paris'' ''rome'')\<lparr>link_Name := name\<rparr>)"

theorem tunnels_separate_witness:
  "\<exists>e e'. EnsureTunnel (Some (demo_ports (tp_IDs (ensure_port (demo_tunnel ''a''))))) 0 (demo_tunnel ''b'') = (Some e, 0)
     \<and> DeleteTunnel (Some (demo_ports (tp_IDs (ensure_port (demo_tunnel ''a''))))) 0 (demo_tunnel ''b'') = (Some e', 0)
     \<and> IsKind (Some e) ErrorOwnershipViolation \<and> IsKind (Some e') ErrorOwnershipViolation"
  using tunnels_separate [OF demo_tunnel_def [of "''a''"] demo_tunnel_def [of "''b''"],
      of "demo_ports (tp_IDs (ensure_port (demo_tunnel ''a'')))" 0]
  by (simp add: demo_ports_def StableName_def)

end
