(* ===== verification/Sdwan_Routes.thy ===== *)
theory Sdwan_Routes
  imports Sdwan_Linux_Props
begin

text \<open>
  From the desired network to the commands on a host: the run of \<open>ApplySDWAN\<close> on a recording
  executor, and the routes a spoke of a hub-and-spoke network gets.
\<close>

section \<open>A recorded run\<close>

definition wireguard_link_commands :: "'w Config \<Rightarrow> SDWANNetwork \<Rightarrow> SDWANSite \<Rightarrow> SDWANLink \<Rightarrow> Command list" where
  "wireguard_link_commands cfg network site link =
     (let remote = remoteSite network link (cf_LocalSite cfg) in
      renderWireGuardCommands cfg network site remote link
      @ (if nw_Layer network = SDWANLayerL3 then renderRouteCommands cfg network remote link else []))"

lemma run_command_fake: "cf_Executor cfg = Some FakeExecutor_Run \<Longrightarrow> run_command cfg = FakeExecutor_Run"
  by (simp add: run_command_def fun_eq_iff)

lemma apply_link_recorded:
  assumes "cf_Executor cfg = Some FakeExecutor_Run" and "link_Transport l = SDWANTransportWireGuard" "\<not> link_off l"
    and "findSite (nw_Sites n) (remoteSiteName l (cf_LocalSite cfg)) = Some remote"
  shows "apply_link cfg n site w l = (None, w @ wireguard_link_commands cfg n site l)"
  using assms by (simp add: apply_link_def wireguard_link_commands_def remoteSite_def site_or_zero_def run_command_fake)

lemma eff_all_recorded:
  "(\<And>x w. x \<in> set xs \<Longrightarrow> f w x = (None, w @ g x)) \<Longrightarrow> eff_all f w xs = (None, w @ concat (map g xs))"
  by (induction xs arbitrary: w) simp_all

lemma findSite_valid:
  assumes "a \<in> site_Name ` set sites"
  shows "\<exists>s\<in>set sites. findSite sites a = Some s \<and> site_Name s = a"
proof -
  obtain s where "findSite sites a = Some s"
    using assms by (cases "findSite sites a") (auto simp: findSite_def find_None_iff)
  then show ?thesis by (auto simp: findSite_def find_Some_iff)
qed

lemma normalizeNetwork_sel [simp]:
  "nw_Sites (normalizeNetwork n) = normalizeSDWANSites (nw_Sites n)"
  "nw_Links (normalizeNetwork n) = normalizeSDWANLinks (defaulted n)"
  "nw_Layer (normalizeNetwork n) = or_default (nw_Layer n) SDWANLayerL3"
  "nw_PathMode (normalizeNetwork n) = or_default (nw_PathMode n) SDWANPathModeDirect"
  "nw_Name (normalizeNetwork n) = nw_Name n"
  by (simp_all add: normalizeNetwork_eq)

lemma valid_link_sites:
  assumes "Network_Validate n = None" "l \<in> set (normalizeSDWANLinks (defaulted n))"
  shows "link_From l \<in> site_Name ` set (nw_Sites n)" "link_To l \<in> site_Name ` set (nw_Sites n)"
proof -
  have "l \<in> set (nw_Links (normalizeSDWANNetwork n))" using assms(2) by simp
  then have "link_ok (map site_Name (normalizeSDWANSites (nw_Sites n))) (relaySDWANSiteNames (normalizeSDWANSites (nw_Sites n)))
      (or_default (nw_Transport n) SDWANTransportWireGuard) l"
    using Validate_normalize [OF assms(1), unfolded Network_Validate_None] by simp
  then show "link_From l \<in> site_Name ` set (nw_Sites n)" "link_To l \<in> site_Name ` set (nw_Sites n)"
    by (simp_all add: link_ok_iff set_normalizeSDWANSites_names)
qed

lemma apply_recorded:
  assumes "cf_Executor cfg = Some FakeExecutor_Run" "Network_Validate n = None"
    and "cf_LocalSite cfg \<in> site_Name ` set (nw_Sites n)"
    and "\<forall>l\<in>set (normalizeSDWANLinks (defaulted n)). link_Transport l = SDWANTransportWireGuard \<and> \<not> link_off l"
  shows "\<exists>site\<in>set (normalizeSDWANSites (nw_Sites n)). site_Name site = cf_LocalSite cfg
    \<and> Linux_ApplySDWAN cfg (st, w) n p = (None, store_network st (normalizeNetwork n) p,
        w @ concat (map (wireguard_link_commands cfg (normalizeNetwork n) site)
          (filter (\<lambda>l. linkTouchesSite l (cf_LocalSite cfg)) (normalizeSDWANLinks (defaulted n)))))"
proof -
  let ?m = "normalizeNetwork n" and ?ls = "filter (\<lambda>l. linkTouchesSite l (cf_LocalSite cfg)) (normalizeSDWANLinks (defaulted n))"
  have sites: "site_Name ` set (nw_Sites ?m) = site_Name ` set (nw_Sites n)" by (simp add: set_normalizeSDWANSites_names)
  obtain site where site: "site \<in> set (nw_Sites ?m)" "findSite (nw_Sites ?m) (cf_LocalSite cfg) = Some site"
    "site_Name site = cf_LocalSite cfg"
    using findSite_valid [of "cf_LocalSite cfg" "nw_Sites ?m"] assms(3) sites by auto
  have off: "filter (\<lambda>l. linkTouchesSite l (cf_LocalSite cfg) \<and> link_off l) (nw_Links ?m) = []"
    using assms(4) by (auto simp: filter_empty_conv)
  have "apply_link cfg ?m site w l = (None, w @ wireguard_link_commands cfg ?m site l)" if "l \<in> set ?ls" for w l
  proof -
    have l: "l \<in> set (normalizeSDWANLinks (defaulted n))" using that by simp
    then have "remoteSiteName l (cf_LocalSite cfg) \<in> site_Name ` set (nw_Sites ?m)"
      unfolding sites using valid_link_sites [OF assms(2) l] by (simp add: remoteSiteName_def)
    then obtain r where "findSite (nw_Sites ?m) (remoteSiteName l (cf_LocalSite cfg)) = Some r"
      using findSite_valid by blast
    then show ?thesis using assms(1,4) l by (intro apply_link_recorded) auto
  qed
  then have "eff_all (apply_link cfg ?m site) w ?ls = (None, w @ concat (map (wireguard_link_commands cfg ?m site) ?ls))"
    by (rule eff_all_recorded)
  then show ?thesis
    using site off assms(1,2) by (intro bexI [of _ site]) (simp_all add: Linux_ApplySDWAN_def Let_def renderSiteCommands_def)
qed

section \<open>Hub and spoke\<close>

text \<open>A hub-and-spoke network over WireGuard without links of its own, as a host sees it.\<close>

definition hub_spoke_net :: "SDWANNetwork \<Rightarrow> bool" where
  "hub_spoke_net n \<longleftrightarrow> Network_Validate n = None \<and> nw_Topology n = SDWANTopologyHubSpoke \<and> nw_Links n = []
     \<and> nw_Transport n = SDWANTransportWireGuard \<and> nw_Layer n = SDWANLayerL3 \<and> relay_mode (nw_PathMode n)
     \<and> list_all (\<lambda>s. plain_site (site_Name s)) (nw_Sites n)"

lemma hub_spoke_defaults:
  assumes "hub_spoke_net n"
  shows "or_default (nw_Transport n) SDWANTransportWireGuard = SDWANTransportWireGuard"
    "or_default (nw_Layer n) SDWANLayerL3 = SDWANLayerL3" "or_default (nw_PathMode n) SDWANPathModeDirect = nw_PathMode n"
    "nw_PathMode n \<noteq> SDWANPathModeDirect" "nw_PathMode n \<noteq> []"
    "or_default (nw_Topology n) SDWANTopologyPartialMesh = SDWANTopologyHubSpoke"
  using assms relay_mode_valid by (auto simp: hub_spoke_net_def or_default_def sdwan_constants)

lemma hub_pair_relay:
  assumes "(a, b) \<in> set (hub_pairs (normalizeSDWANSites ss))"
  shows "a \<in> set (relaySDWANSiteNames ss)"
proof -
  have "a \<in> set (relaySDWANSiteNames (normalizeSDWANSites ss))"
    using assms by (auto simp: hub_pairs_def relaySDWANSiteNames_def)
  then show ?thesis by (simp add: set_relay_names_normalize)
qed

lemma hub_spoke_pairs: "hub_spoke_net n \<Longrightarrow> auto_pairs (defaulted n) = hub_pairs (normalizeSDWANSites (nw_Sites n))"
  using hub_spoke_defaults(6) [of n] by (simp add: auto_pairs_def normalizeSDWANSites_idem sdwan_constants)

lemma hub_spoke_links:
  assumes h: "hub_spoke_net n" and l: "l \<in> set (normalizeSDWANLinks (defaulted n))"
  shows "link_Transport l = SDWANTransportWireGuard" "\<not> link_off l" "link_AllowedIPs l = []" "link_PathMode l = nw_PathMode n"
proof -
  obtain l0 where l0: "l0 \<in> set (ensure_pairs SDWANTransportWireGuard [] (auto_pairs (defaulted n)))"
    and le: "l = normalize_link (defaulted n) l0"
    using l h hub_spoke_defaults(1) [OF h] by (auto simp: set_normalize_links hub_spoke_net_def)
  obtain a b where ab: "(a, b) \<in> set (hub_pairs (normalizeSDWANSites (nw_Sites n)))"
    and l0e: "l0 = (auto_link SDWANTransportWireGuard a b)\<lparr>link_Name := pair_name a b\<rparr>"
    using set_ensure_pairs [OF l0] hub_spoke_pairs [OF h] by auto
  have sel: "link_Transport l0 = SDWANTransportWireGuard" "link_PathMode l0 = []" "\<not> link_Disabled l0"
    "link_AllowedIPs l0 = []" "link_From l0 = a"
    by (simp_all add: l0e auto_link_def)
  have "a \<in> set (relaySDWANSiteNames (nw_Sites (defaulted n)))"
    using hub_pair_relay [OF ab] by (simp add: set_relay_names_normalize)
  then show "link_PathMode l = nw_PathMode n"
    using hub_spoke_defaults(3-5) [OF h] sel by (simp add: le defaultSDWANLinkPathMode_def)
  show "link_Transport l = SDWANTransportWireGuard" "\<not> link_off l"
    using sel by (simp_all add: le link_off_def sdwan_constants)
  show "link_AllowedIPs l = []"
    using sel by (simp add: le normalize_link_def Let_def uniqueStrings_def)
qed

lemma no_direct_link: "hub_spoke_net n \<Longrightarrow> \<not> hasEnabledDirectLink (normalizeNetwork n) a b"
  using hub_spoke_links(4) hub_spoke_defaults(4,5)
  by (auto simp: hasEnabledDirectLink_def list_ex_iff pathModeForLink_def)

lemma hub_link_exists:
  assumes h: "hub_spoke_net n" and hub: "hub \<in> set (normalizeSDWANSites (nw_Sites n))" "relay_site hub"
    and spoke: "spoke \<in> set (normalizeSDWANSites (nw_Sites n))" "\<not> relay_site spoke" "site_Name hub \<noteq> site_Name spoke"
  shows "\<exists>l\<in>set (normalizeSDWANLinks (defaulted n)). linkTouchesSite l (site_Name spoke)
    \<and> remoteSiteName l (site_Name spoke) = site_Name hub"
proof -
  have "(site_Name hub, site_Name spoke) \<in> set (auto_pairs (defaulted n))"
    unfolding hub_spoke_pairs [OF h] using hub spoke by (auto simp: hub_pairs_def)
  moreover have "Network_Validate n = None" "\<forall>l\<in>set (nw_Links n). link_Name l = []"
    "\<forall>s\<in>set (nw_Sites n). plain_site (site_Name s)"
    using h by (auto simp: hub_spoke_net_def list_all_iff)
  ultimately obtain l where "l \<in> set (normalizeSDWANLinks (defaulted n))"
    "{link_From l, link_To l} = {site_Name hub, site_Name spoke}"
    using auto_pair_joined [of n "site_Name hub" "site_Name spoke"] by auto
  then show ?thesis
    using spoke(3) by (intro bexI [of _ l]) (auto simp: doubleton_eq_iff linkTouchesSite_def remoteSiteName_def)
qed

lemma findSite_member:
  assumes "distinct (map site_Name sites)" "x \<in> set sites"
  shows "findSite sites (site_Name x) = Some x"
proof -
  obtain y where y: "y \<in> set sites" "findSite sites (site_Name x) = Some y" "site_Name y = site_Name x"
    using findSite_valid [of "site_Name x" sites] assms(2) by auto
  then have "y = x" using assms by (auto simp: distinct_map inj_on_def)
  with y show ?thesis by simp
qed

lemma valid_site_names:
  "Network_Validate n = None \<Longrightarrow> distinct (map site_Name (normalizeSDWANSites (nw_Sites n)))"
  by (simp add: Network_Validate_None site_names_normalize)

lemma normalized_site:
  assumes "Network_Validate n = None" "t \<in> set (nw_Sites n)"
  shows "\<exists>t'\<in>set (normalizeSDWANSites (nw_Sites n)). site_Name t' = site_Name t \<and> relay_site t' = relay_site t
    \<and> set (site_CIDRs t') = set (site_CIDRs t)"
proof -
  have "cidr_check [] \<noteq> None" by code_simp
  moreover have "\<forall>c\<in>set (site_CIDRs t). cidr_check c = None"
    using assms by (auto simp: Network_Validate_None Site_Validate_def then_check_None check_all_None)
  ultimately have "[] \<notin> set (site_CIDRs t)" by auto
  then show ?thesis
    using assms(2) by (intro bexI [of _ "t\<lparr>site_CIDRs := uniqueStrings (site_CIDRs t),
        site_L2Segments := uniqueStrings (site_L2Segments t), site_Attributes := cloneStringMap (site_Attributes t)\<rparr>"])
      (auto simp: normalizeSDWANSites_def relay_site_def)
qed

lemma set_uniqueSorted: "set (uniqueSorted vs) = set vs - {[]}"
  by (auto simp: uniqueSorted_def set_unique_from)

text \<open>The prefixes a spoke sends into the link to a hub: the hub's own and those of every other spoke.\<close>

lemma allowed_through_hub:
  assumes h: "hub_spoke_net n" and l: "l \<in> set (normalizeSDWANLinks (defaulted n))"
    and r: "remoteSiteName l local = site_Name hub" "hub \<in> set (normalizeSDWANSites (nw_Sites n))" "relay_site hub"
    and t: "t = hub \<or> t \<in> set (normalizeSDWANSites (nw_Sites n)) \<and> \<not> relay_site t \<and> site_Name t \<noteq> local"
    and c: "c \<in> set (site_CIDRs t)" "c \<noteq> []"
  shows "c \<in> set (allowedIPsForRemote (normalizeNetwork n) (remoteSite (normalizeNetwork n) l local) l local)"
proof -
  let ?m = "normalizeNetwork n"
  have valid: "Network_Validate n = None" using h by (simp add: hub_spoke_net_def)
  have remote: "remoteSite ?m l local = hub"
    unfolding remoteSite_def site_or_zero_def r(1) using findSite_member [OF valid_site_names [OF valid] r(2)] by simp
  have "relay_mode (nw_PathMode n)" using h by (simp add: hub_spoke_net_def)
  then have relay: "linkActsAsRelayPath ?m l local"
    using hub_spoke_links(4) [OF h l] hub_spoke_defaults(5) [OF h] remote r(3)
    by (auto simp: linkActsAsRelayPath_def relay_mode_def)
  have "t = hub \<or> site_Name t \<noteq> site_Name hub"
    using t r(2) valid_site_names [OF valid] by (auto simp: distinct_map inj_on_def)
  then have "c \<in> set (site_CIDRs hub) \<or> (\<exists>x\<in>set (nw_Sites ?m). c \<in> set (site_CIDRs x)
      \<and> \<not> (site_Name x = local \<or> site_Name x = site_Name hub \<or> relay_site x))"
    using t c(1) by auto
  then show ?thesis
    using relay c(2) no_direct_link [OF h] hub_spoke_links(3) [OF h l]
    unfolding allowedIPsForRemote_def remote by (auto simp: set_uniqueSorted)
qed

lemma route_command_recorded:
  assumes "c \<in> set (allowedIPsForRemote n (remoteSite n l (cf_LocalSite cfg)) l (cf_LocalSite cfg))" "nw_Layer n = SDWANLayerL3"
  shows "command ''ip'' [''route'', ''replace'', c, ''dev'', tunnelInterface cfg n l, ''table'', strconv_Itoa (cf_RouteTable cfg)]
    \<in> set (wireguard_link_commands cfg n site l)"
  using assms by (auto simp: wireguard_link_commands_def renderRouteCommands_def Let_def)


section \<open>Examples\<close>

text \<open>A host of the site Paris whose executor records, without OVS and OpenFlow.\<close>

definition demo_config :: "Command list Config" where
  "demo_config = \<lparr>cf_LocalSite = ''paris'', cf_Executor = Some FakeExecutor_Run, cf_OVS = None, cf_OpenFlow = None,
     cf_InterfacePrefix = ''ofwan'', cf_RouteTable = 51820\<rparr>"

definition demo_backend :: Backend where
  "demo_backend = \<lparr>bk_networks = fmempty, bk_plans = fmempty\<rparr>"

definition demo_hub :: SDWANNetwork where
  "demo_hub = (demo_network SDWANTopologyHubSpoke [])\<lparr>nw_PathMode := SDWANPathModeRelay, nw_Sites :=
     [demo_site ''paris'' ''10.1.0.0/16'', (demo_site ''core'' ''10.0.0.0/16'')\<lparr>site_Role := ''Hub''\<rparr>,
      demo_site ''rome'' ''10.2.0.0/16'']\<rparr>"

lemma demo_hub_net: "hub_spoke_net demo_hub"
  by code_simp


text \<open>The reconciliation of an unconnected network on the same host.\<close>

lemma demo_apply: "\<exists>b'. be_Apply (Linux_backend demo_config) (demo_backend, []) (normalizeSDWANNetwork demo_plain) p = (None, b')"
proof -
  let ?n = "normalizeSDWANNetwork demo_plain"
  have none: "normalizeSDWANLinks (defaulted demo_plain) = []"
    by (simp add: normalizeSDWANLinks_eq ensure_pairs_def auto_pairs_def demo_plain_def demo_network_def Network_Ensure_def
        or_default_def sdwan_constants)
  then have links: "normalizeSDWANLinks (defaulted ?n) = []"
    using arg_cong [OF normalizeSDWANNetwork_idem [of demo_plain], of nw_Links] by simp
  have "''paris'' \<in> site_Name ` set (nw_Sites demo_plain)"
    by (simp add: demo_plain_def demo_network_def demo_site_def)
  then have "cf_LocalSite demo_config \<in> site_Name ` set (nw_Sites ?n)"
    by (simp add: set_normalizeSDWANSites_names demo_config_def)
  then show ?thesis
    using apply_recorded [of demo_config ?n demo_backend "[]" p] Validate_normalize [OF demo_plain_valid] links
    by (auto simp: Linux_backend_def demo_config_def)
qed

lemma demo_reconcile:
  obtains r b' where "Network_Reconcile (Linux_backend demo_config) (Some (demo_backend, [])) demo_plain = (Inr r, Some b')"
proof -
  obtain plan where plan: "Network_Plan demo_plain = Inr plan" using linux.Plan_Inr [OF demo_plain_valid] ..
  have get: "Network_current (Linux_backend demo_config) (Some (demo_backend, [])) demo_plain = Inr None"
    by (simp add: Network_current_def Linux_backend_def Linux_GetSDWAN_def demo_backend_def)
  obtain b' where "be_Apply (Linux_backend demo_config) (demo_backend, []) (normalizeSDWANNetwork demo_plain)
      (planSDWANApply (normalizeSDWANNetwork demo_plain)) = (None, b')"
    using demo_apply by blast
  then show thesis
    using that by (simp add: Network_Reconcile_def Network_DryRun_def plan get Diff_Empty_def Network_ApplyPlan_def
        demo_plain_valid)
qed

theorem linux_reconcile_settles_witness:
  "\<exists>r b' r'. Network_Reconcile (Linux_backend demo_config) (Some (demo_backend, [])) demo_plain = (Inr r, Some b')
    \<and> Network_Reconcile (Linux_backend demo_config) (Some b') demo_plain = (Inr r', Some b') \<and> \<not> rec_Applied r'"
proof -
  obtain r b' where r: "Network_Reconcile (Linux_backend demo_config) (Some (demo_backend, [])) demo_plain = (Inr r, Some b')"
    by (rule demo_reconcile)
  from linux_reconcile_settles [OF this] r show ?thesis by blast
qed

section \<open>Weak spots\<close>

text \<open>The first application of a network counts twice in \<open>LastApplied\<close>: once in \<open>normalizeNetwork\<close>, once when it is stored.\<close>

lemma first_apply_counts_twice:
  assumes "Linux_ApplySDWAN cfg (st, w) n p = (None, st', w')" "fmlookup (bk_networks st) (nw_Name n) = None"
  shows "\<exists>m. Linux_GetSDWAN st' (nw_Name n) = Inr m \<and> st_LastApplied (nw_Status m) = st_LastApplied (nw_Status n) + 2"
proof -
  have st': "st' = store_network st (normalizeNetwork n) p" using Linux_Apply_None [OF assms(1)] by blast
  show ?thesis
    unfolding st' using assms(2)
    by (simp add: Linux_GetSDWAN_def store_network_def Let_def cloneNetwork_eq normalizeNetwork_eq)
qed

text \<open>
  Applying a network never looks at the network that was applied before, so what the backend
  does for a link that has been removed from the network is nothing.
\<close>

lemma apply_ignores_previous:
  "\<exists>e w'. (\<exists>s1. Linux_ApplySDWAN cfg (st1, w) n p = (e, s1, w')) \<and> (\<exists>s2. Linux_ApplySDWAN cfg (st2, w) n p = (e, s2, w'))"
  by (auto simp: Linux_ApplySDWAN_def Let_def split: option.splits prod.splits)

text \<open>The tunnel goes to the bridge the local site names, the flow of the same link to another.\<close>

lemma bridges_differ:
  "let site = zero_site\<lparr>site_Attributes := fmupd ''ovs_bridge'' ''br-wan'' fmempty\<rparr>; link = auto_link SDWANTransportVXLAN ''a'' ''b'' in
   tun_Bridge (ovsTunnel demo_config demo_plain site zero_site link) = ''br-wan'' \<and> ofr_Bridge (openFlowRule demo_plain link) = ''br-int''"
  by code_simp

text \<open>
  Rule priorities are hashes modulo 10000, and a rule is installed by deleting whatever has its
  priority: two prefixes of one link may share it, and the rule of the first is then lost.
\<close>

lemma priority_collision:
  "routeRulePriority demo_plain (auto_link SDWANTransportWireGuard ''paris'' ''rome'') ''10.0.21.0/24''
     = routeRulePriority demo_plain (auto_link SDWANTransportWireGuard ''paris'' ''rome'') ''10.0.128.0/24''"
  by code_simp

end
