(* ===== verification/Go_Json.thy ===== *)
theory Go_Json
  imports Go_Strconv
begin

text \<open>
  More of Go's standard library, for the Linux router: \<open>net.ParseIP\<close> and \<open>net.ParseCIDR\<close>,
  \<open>strings.Trim\<close> and \<open>strings.ToUpper\<close> (ASCII), and the text \<open>encoding/json\<close> writes for booleans,
  numbers, strings, arrays and objects.
\<close>

section \<open>Addresses\<close>

definition net_ParseIP :: "string \<Rightarrow> netip_addr option" where
  "net_ParseIP s =
     (case netip_ParseAddr s of
        Some (Addr6 gs zone) \<Rightarrow> if zone = [] then Some (Addr6 gs zone) else None
      | r \<Rightarrow> r)"

definition first_slash :: "string \<Rightarrow> (string \<times> string) option" where
  "first_slash s =
     (if CHR ''/'' \<in> set s
      then Some (takeWhile (\<lambda>c. c \<noteq> CHR ''/'') s, tl (dropWhile (\<lambda>c. c \<noteq> CHR ''/'') s)) else None)"

text \<open>\<open>dtoi\<close> reads digits until its value reaches \<open>0xFFFFFF\<close>; leading zeros are allowed.\<close>

definition mask_bits :: "string \<Rightarrow> nat \<Rightarrow> nat option" where
  "mask_bits m limit =
     (if m = [] \<or> \<not> list_all is_digit m then None
      else if dec_value m \<le> limit then Some (dec_value m) else None)"

definition net_ParseCIDR :: "string \<Rightarrow> (netip_addr \<times> nat) res" where
  "net_ParseCIDR s =
     (let bad = Inl (ForeignError (''invalid CIDR address: '' @ s)) in
      case first_slash s of
        None \<Rightarrow> bad
      | Some (a, m) \<Rightarrow>
          (case net_ParseIP a of
             None \<Rightarrow> bad
           | Some ip \<Rightarrow>
               (case mask_bits m (case ip of Addr4 _ \<Rightarrow> 32 | Addr6 _ _ \<Rightarrow> 128) of
                  None \<Rightarrow> bad
                | Some n \<Rightarrow> Inr (ip, n))))"

section \<open>Strings\<close>

definition trim_char :: "char \<Rightarrow> string \<Rightarrow> string" where
  "trim_char c s = rev (dropWhile (\<lambda>x. x = c) (rev (dropWhile (\<lambda>x. x = c) s)))"

definition trim_right_char :: "char \<Rightarrow> string \<Rightarrow> string" where
  "trim_right_char c s = rev (dropWhile (\<lambda>x. x = c) (rev s))"

definition upper_char :: "char \<Rightarrow> char" where
  "upper_char c = (let n = (of_char c :: nat) in if 97 \<le> n \<and> n \<le> 122 then char_of (n - 32) else c)"

definition strings_ToUpper :: "string \<Rightarrow> string" where
  "strings_ToUpper s = map upper_char s"

section \<open>JSON\<close>

text \<open>The length of the UTF-8 encoding of a rune outside ASCII at the start of a text; 0 when it is not valid.\<close>

definition in_range :: "nat \<Rightarrow> nat \<Rightarrow> char \<Rightarrow> bool" where
  "in_range lo hi c \<longleftrightarrow> lo \<le> (of_char c :: nat) \<and> (of_char c :: nat) \<le> hi"

definition rune_len :: "string \<Rightarrow> nat" where
  "rune_len s =
     (let cont = in_range 0x80 0xBF in
      case s of
        b # c # rest \<Rightarrow>
          if in_range 0xC2 0xDF b then (if cont c then 2 else 0)
          else if in_range 0xE0 0xEF b then
            (let ok = (if b = CHR 0xE0 then in_range 0xA0 0xBF c else if b = CHR 0xED then in_range 0x80 0x9F c else cont c)
             in case rest of d # _ \<Rightarrow> if ok \<and> cont d then 3 else 0 | [] \<Rightarrow> 0)
          else if in_range 0xF0 0xF4 b then
            (let ok = (if b = CHR 0xF0 then in_range 0x90 0xBF c else if b = CHR 0xF4 then in_range 0x80 0x8F c else cont c)
             in case rest of d # e # _ \<Rightarrow> if ok \<and> cont d \<and> cont e then 4 else 0 | _ \<Rightarrow> 0)
          else 0
      | _ \<Rightarrow> 0)"

definition json_ascii :: "char \<Rightarrow> string" where
  "json_ascii c =
     (let n = (of_char c :: nat) in
      if c = CHR 0x22 \<or> c = CHR 0x5C then [CHR 0x5C, c]
      else if n = 8 then [CHR 0x5C, CHR ''b'']
      else if n = 12 then [CHR 0x5C, CHR ''f'']
      else if n = 10 then [CHR 0x5C, CHR ''n'']
      else if n = 13 then [CHR 0x5C, CHR ''r'']
      else if n = 9 then [CHR 0x5C, CHR ''t'']
      else if n < 32 \<or> c = CHR ''<'' \<or> c = CHR ''>'' \<or> c = CHR ''&''
      then CHR 0x5C # ''u00'' @ [base_digit (n div 16), base_digit (n mod 16)]
      else [c])"

function json_chars :: "string \<Rightarrow> string" where
  "json_chars s =
     (case s of
        [] \<Rightarrow> []
      | c # cs \<Rightarrow>
          if (of_char c :: nat) < 128 then json_ascii c @ json_chars cs
          else if rune_len s = 0 then CHR 0x5C # ''ufffd'' @ json_chars cs
          else (let r = take (rune_len s) s in
            (if r = [CHR 0xE2, CHR 0x80, CHR 0xA8] then CHR 0x5C # ''u2028''
             else if r = [CHR 0xE2, CHR 0x80, CHR 0xA9] then CHR 0x5C # ''u2029''
             else r) @ json_chars (drop (rune_len s) s)))"
  by pat_completeness auto
termination by (relation "measure length") auto

declare json_chars.simps [simp del]

definition json_string :: "string \<Rightarrow> string" where
  "json_string s = CHR 0x22 # json_chars s @ [CHR 0x22]"

definition json_bool :: "bool \<Rightarrow> string" where
  "json_bool b = (if b then ''true'' else ''false'')"

definition json_array :: "string list \<Rightarrow> string" where
  "json_array xs = ''['' @ strings_Join xs '','' @ '']''"

definition json_object :: "(string \<times> string) list \<Rightarrow> string" where
  "json_object fs = ''{'' @ strings_Join (map (\<lambda>(k, v). json_string k @ '':'' @ v) fs) '','' @ ''}''"

end
