(* ===== verification/Router.thy ===== *)
theory Router
  imports Exec Go_Json Ownership Openflow_Intent
begin

text \<open>
  \<^verbatim>\<open>src/linuxrouter/router.go\<close>: the desired state of a Linux router, its validation, patches, the
  inference of interfaces for NAT rules, the plain renderer, and the client that applies and
  stores routers. A nil slice and an empty one are the same value except in the two lists of
  installed rules, whose difference reaches the JSON text that is hashed. A renderer receives
  a copy of the router that shares its slices, so what inference writes into the NAT rules
  is written into the caller's router: rendering returns that router too.
\<close>

section \<open>Data\<close>

record Interface =
  if_Name :: string
  if_Role :: string
  if_Bridge :: string
  if_OVSPort :: string
  if_Addresses :: "string list"
  if_Gateway :: string
  if_DHCPClient :: bool
  if_PortExternalIDs :: string_map
  if_InterfaceExternalIDs :: string_map

definition InterfaceLAN :: string where "InterfaceLAN = ''lan''"
definition InterfaceWAN :: string where "InterfaceWAN = ''wan''"

record InterfaceStatus =
  is_Name :: string
  is_Role :: string
  is_Addresses :: "string list"
  is_Up :: bool

record Route =
  rt_Name :: string
  rt_Destination :: string
  rt_Gateway :: string
  rt_Interface :: string

record RouteStatus =
  rs_Destination :: string
  rs_Gateway :: string
  rs_Interface :: string

record DHCPRange =
  dr_Start :: string
  dr_End :: string
  dr_Lease :: string

record StaticLease =
  sl_MAC :: string
  sl_IP :: string
  sl_Name :: string

record HostRecord =
  hr_Domain :: string
  hr_IPs :: "string list"

record DNSMasq =
  dm_Enabled :: bool
  dm_DHCPRanges :: "DHCPRange list"
  dm_Servers :: "string list"
  dm_Leases :: "StaticLease list"
  dm_Hosts :: "HostRecord list"
  dm_PIDFile :: string
  dm_LeaseFile :: string
  dm_ConfigFile :: string

record DNSMasqStatus =
  ds_Running :: bool
  ds_PID :: int

record SNATRule =
  sn_Name :: string
  sn_SourceCIDR :: string
  sn_OutInterface :: string
  sn_ToSource :: string

record MasqueradeRule =
  mq_Name :: string
  mq_SourceCIDR :: string
  mq_OutInterface :: string

record DNATRule =
  dn_Name :: string
  dn_MatchAddress :: string
  dn_TargetAddress :: string
  dn_InInterface :: string

record PortForwardRule =
  pf_Name :: string
  pf_Protocol :: string
  pf_InInterface :: string
  pf_ListenIP :: string
  pf_ListenPort :: int
  pf_TargetIP :: string
  pf_TargetPort :: int

record DestinationMapRule =
  mp_Name :: string
  mp_MatchAddress :: string
  mp_TargetAddress :: string
  mp_FromCIDR :: string
  mp_InInterface :: string
  mp_OutInterface :: string
  mp_SourceNAT :: string

record NAT =
  nat_SNATRules :: "SNATRule list"
  nat_Masquerades :: "MasqueradeRule list"
  nat_DNATRules :: "DNATRule list"
  nat_PortForwards :: "PortForwardRule list"
  nat_DestinationMaps :: "DestinationMapRule list"

record FirewallRule =
  fw_Name :: string
  fw_Action :: string
  fw_Direction :: string
  fw_Protocol :: string
  fw_CIDRs :: "string list"
  fw_Ports :: "int list"

record Firewall =
  fwl_Rules :: "FirewallRule list"

record Spec =
  sp_Namespace :: string
  sp_Owner :: OwnerRef
  sp_Labels :: Labels
  sp_Interfaces :: "Interface list"
  sp_Routes :: "Route list"
  sp_DNSMasq :: DNSMasq
  sp_NAT :: NAT
  sp_Firewall :: Firewall

record Status =
  s_Exists :: bool
  s_Namespace :: string
  s_Interfaces :: "InterfaceStatus list"
  s_Routes :: "RouteStatus list"
  s_DNSMasq :: DNSMasqStatus
  s_NATBackend :: string
  s_InstalledNAT :: "string list option"
  s_InstalledFirewall :: "string list option"
  s_ResourceVersion :: string
  s_ObservedHash :: string
  s_LastError :: string

record Router =
  r_Name :: string
  r_Spec :: Spec
  r_Status :: Status

section \<open>Validation\<close>

definition wrapValidation :: "string \<Rightarrow> string \<Rightarrow> string \<Rightarrow> go_error option \<Rightarrow> go_error" where
  "wrapValidation kind object message err =
     OvnError ErrorValidation [] [] ''validate'' (kind @ '':'' @ object) message err"

definition router_validateName :: "string \<Rightarrow> string \<Rightarrow> check" where
  "router_validateName kind name =
     (if blank name then Some (wrapValidation kind name ''name must not be empty'' None) else None)"

definition validateExternalIDs :: "string \<Rightarrow> string \<Rightarrow> string_map \<Rightarrow> check" where
  "validateExternalIDs kind name values =
     check_all (\<lambda>key.
       if blank key then Some (wrapValidation kind name ''external id key must not be empty'' None)
       else if blank (go_get values key) then Some (wrapValidation kind name ''external id value must not be empty'' None)
       else if strings_HasPrefix key ExternalIDPrefix
       then Some (wrapValidation kind name ''external id key uses reserved ovnflow.io/ prefix'' None)
       else None) (range_keys values)"

definition validPort :: "int \<Rightarrow> bool" where
  "validPort port \<longleftrightarrow> 1 \<le> port \<and> port \<le> 65535"

definition validDNSMasqServer :: "string \<Rightarrow> bool" where
  "validDNSMasqServer server =
     (let server = strings_TrimSpace server in
      server \<noteq> [] \<and> \<not> list_ex (\<lambda>c. c \<in> {CHR '' '', CHR 0x09, CHR 0x0D, CHR 0x0A}) server)"

definition isOneOf :: "string \<Rightarrow> string list \<Rightarrow> bool" where
  "isOneOf value allowed \<longleftrightarrow> strings_ToLower (strings_TrimSpace value) \<in> set allowed"

definition cidr_ok :: "string \<Rightarrow> string \<Rightarrow> string \<Rightarrow> string \<Rightarrow> check" where
  "cidr_ok kind object message cidr =
     (case net_ParseCIDR cidr of Inl e \<Rightarrow> Some (wrapValidation kind object message (Some e)) | Inr _ \<Rightarrow> None)"

definition ip_ok :: "string \<Rightarrow> string \<Rightarrow> string \<Rightarrow> string \<Rightarrow> check" where
  "ip_ok kind object message ip =
     (if net_ParseIP ip = None then Some (wrapValidation kind object message None) else None)"

definition fail_if :: "bool \<Rightarrow> go_error \<Rightarrow> check" where
  "fail_if b e = (if b then Some e else None)"

definition Interface_Validate :: "Interface \<Rightarrow> check" where
  "Interface_Validate i =
     then_check (router_validateName ''interface'' (if_Name i))
     (then_check (fail_if (if_Role i \<noteq> [] \<and> if_Role i \<noteq> InterfaceLAN \<and> if_Role i \<noteq> InterfaceWAN)
        (wrapValidation ''interface'' (if_Name i) ''invalid role'' None))
     (then_check (check_all (cidr_ok ''interface'' (if_Name i) ''invalid address'') (if_Addresses i))
     (then_check (if if_Gateway i \<noteq> [] then ip_ok ''interface'' (if_Name i) ''invalid gateway'' (if_Gateway i) else None)
     (then_check (validateExternalIDs ''interface port'' (if_Name i) (if_PortExternalIDs i))
       (validateExternalIDs ''interface'' (if_Name i) (if_InterfaceExternalIDs i))))))"

definition DNSMasq_Validate :: "DNSMasq \<Rightarrow> check" where
  "DNSMasq_Validate d =
     then_check (check_all (\<lambda>r. then_check (ip_ok ''dnsmasq'' (dr_Start r) ''invalid dhcp range start'' (dr_Start r))
        (ip_ok ''dnsmasq'' (dr_End r) ''invalid dhcp range end'' (dr_End r))) (dm_DHCPRanges d))
     (then_check (check_all (\<lambda>s. fail_if (\<not> validDNSMasqServer s) (wrapValidation ''dnsmasq'' s ''invalid dns server'' None))
        (dm_Servers d))
     (then_check (check_all (\<lambda>l. then_check
          (fail_if (net_ParseMAC (sl_MAC l) = None) (wrapValidation ''dnsmasq'' (sl_MAC l) ''invalid static lease mac''
             (Some (ForeignError (''address '' @ sl_MAC l @ '': invalid MAC address'')))))
          (ip_ok ''dnsmasq'' (sl_IP l) ''invalid static lease ip'' (sl_IP l))) (dm_Leases d))
       (check_all (\<lambda>h. then_check
          (fail_if (blank (hr_Domain h)) (wrapValidation ''dnsmasq'' (hr_Domain h) ''host domain must not be empty'' None))
          (then_check (fail_if (hr_IPs h = []) (wrapValidation ''dnsmasq'' (hr_Domain h) ''host record requires at least one ip'' None))
            (check_all (ip_ok ''dnsmasq'' (hr_Domain h) ''invalid host record ip'') (hr_IPs h)))) (dm_Hosts d))))"

text \<open>Names of rules that are not given one.\<close>

definition stableRuleName :: "string list \<Rightarrow> string" where
  "stableRuleName parts =
     trim_char (CHR ''-'') (map (\<lambda>c. if c \<in> set ''/:. _'' then CHR ''-'' else c)
       (strings_ToLower (strings_Join parts ''-'')))"

definition SNAT_StableName :: "SNATRule \<Rightarrow> string" where
  "SNAT_StableName r = (if sn_Name r \<noteq> [] then sn_Name r
     else stableRuleName [''snat'', sn_SourceCIDR r, sn_OutInterface r, sn_ToSource r])"

definition Masquerade_StableName :: "MasqueradeRule \<Rightarrow> string" where
  "Masquerade_StableName r = (if mq_Name r \<noteq> [] then mq_Name r
     else stableRuleName [''masquerade'', mq_SourceCIDR r, mq_OutInterface r])"

definition DNAT_StableName :: "DNATRule \<Rightarrow> string" where
  "DNAT_StableName r = (if dn_Name r \<noteq> [] then dn_Name r
     else stableRuleName [''dnat'', dn_MatchAddress r, dn_TargetAddress r, dn_InInterface r])"

definition PortForward_StableName :: "PortForwardRule \<Rightarrow> string" where
  "PortForward_StableName r = (if pf_Name r \<noteq> [] then pf_Name r
     else stableRuleName [''port-forward'', pf_Protocol r, pf_InInterface r, pf_ListenIP r, strconv_Itoa (pf_ListenPort r),
       pf_TargetIP r, strconv_Itoa (pf_TargetPort r)])"

definition DestinationMap_StableName :: "DestinationMapRule \<Rightarrow> string" where
  "DestinationMap_StableName r = (if mp_Name r \<noteq> [] then mp_Name r
     else stableRuleName [''destination-map'', mp_MatchAddress r, mp_TargetAddress r, mp_FromCIDR r, mp_InInterface r,
       mp_OutInterface r, mp_SourceNAT r])"

definition validateRuleName :: "string \<Rightarrow> string list \<Rightarrow> string list res" where
  "validateRuleName name names =
     guard_res (router_validateName ''rule'' name)
     (if name \<in> set names then Inl (wrapValidation ''rule'' name ''duplicate stable rule name'' None)
      else Inr (name # names))"

text \<open>One loop of \<open>NAT.Validate\<close>: the name of every rule is new, and the rule passes its checks.\<close>

definition check_rules :: "('r \<Rightarrow> string) \<Rightarrow> ('r \<Rightarrow> check) \<Rightarrow> 'r list \<Rightarrow> string list \<Rightarrow> string list res" where
  "check_rules name check rules names =
     res_fold (\<lambda>names r. res_bind (validateRuleName (name r) names) (\<lambda>names. guard_res (check r) (Inr names))) names rules"

definition snat_check :: "SNATRule \<Rightarrow> check" where
  "snat_check r = then_check (cidr_ok ''nat'' (SNAT_StableName r) ''invalid source cidr'' (sn_SourceCIDR r))
     (ip_ok ''nat'' (SNAT_StableName r) ''invalid snat source'' (sn_ToSource r))"

definition masquerade_check :: "MasqueradeRule \<Rightarrow> check" where
  "masquerade_check r = cidr_ok ''nat'' (Masquerade_StableName r) ''invalid source cidr'' (mq_SourceCIDR r)"

definition forward_check :: "PortForwardRule \<Rightarrow> check" where
  "forward_check r = (let name = PortForward_StableName r in
     then_check (fail_if (\<not> isOneOf (pf_Protocol r) [''tcp'', ''udp'']) (wrapValidation ''nat'' name ''protocol must be tcp or udp'' None))
     (then_check (if pf_ListenIP r \<noteq> [] then ip_ok ''nat'' name ''invalid listen ip'' (pf_ListenIP r) else None)
     (then_check (fail_if (\<not> validPort (pf_ListenPort r) \<or> \<not> validPort (pf_TargetPort r))
        (wrapValidation ''nat'' name ''ports must be between 1 and 65535'' None))
       (ip_ok ''nat'' name ''invalid target ip'' (pf_TargetIP r)))))"

definition dnat_check :: "DNATRule \<Rightarrow> check" where
  "dnat_check r = fail_if (net_ParseIP (dn_MatchAddress r) = None \<or> net_ParseIP (dn_TargetAddress r) = None)
     (wrapValidation ''nat'' (DNAT_StableName r) ''invalid dnat address'' None)"

definition map_check :: "DestinationMapRule \<Rightarrow> check" where
  "map_check r = (let name = DestinationMap_StableName r in
     then_check (fail_if (net_ParseIP (mp_MatchAddress r) = None \<or> net_ParseIP (mp_TargetAddress r) = None)
       (wrapValidation ''nat'' name ''invalid destination map address'' None))
     (then_check (if mp_FromCIDR r \<noteq> [] then cidr_ok ''nat'' name ''invalid destination map source cidr'' (mp_FromCIDR r) else None)
       (if mp_SourceNAT r \<noteq> [] then ip_ok ''nat'' name ''invalid destination map source nat'' (mp_SourceNAT r) else None)))"

definition NAT_Validate :: "NAT \<Rightarrow> check" where
  "NAT_Validate n =
     err_of (res_bind (check_rules SNAT_StableName snat_check (nat_SNATRules n) []) (\<lambda>names.
       res_bind (check_rules Masquerade_StableName masquerade_check (nat_Masquerades n) names) (\<lambda>names.
       res_bind (check_rules PortForward_StableName forward_check (nat_PortForwards n) names) (\<lambda>names.
       res_bind (check_rules DNAT_StableName dnat_check (nat_DNATRules n) names) (\<lambda>names.
         check_rules DestinationMap_StableName map_check (nat_DestinationMaps n) names)))))"

definition firewall_check :: "FirewallRule \<Rightarrow> check" where
  "firewall_check r = (let bad = (\<lambda>msg. wrapValidation ''firewall'' (fw_Name r) msg None) in
     then_check (fail_if (\<not> blank (fw_Action r) \<and> \<not> isOneOf (fw_Action r) [''allow'', ''drop'', ''reject''])
       (bad ''action must be allow, drop, or reject''))
     (then_check (fail_if (fw_Direction r \<noteq> [] \<and> \<not> isOneOf (fw_Direction r) [''ingress'', ''egress'', ''forward'', ''in'', ''out''])
       (bad ''invalid direction''))
     (then_check (fail_if (fw_Protocol r \<noteq> [] \<and> \<not> isOneOf (fw_Protocol r)
         [''tcp'', ''udp'', ''icmp'', ''icmpv6'', ''ip'', ''ipv4'', ''ipv6'']) (bad ''invalid protocol''))
     (then_check (check_all (cidr_ok ''firewall'' (fw_Name r) ''invalid cidr'') (fw_CIDRs r))
       (check_all (\<lambda>p. fail_if (\<not> validPort p) (bad ''port must be between 1 and 65535'')) (fw_Ports r))))))"

definition Firewall_Validate :: "Firewall \<Rightarrow> check" where
  "Firewall_Validate f = err_of (check_rules fw_Name firewall_check (fwl_Rules f) [])"

definition Router_Validate :: "Router \<Rightarrow> check" where
  "Router_Validate r =
     (let spec = r_Spec r; owner = sp_Owner spec in
      then_check (router_validateName ''router'' (r_Name r))
      (then_check (if owner_Kind owner \<noteq> [] \<or> owner_Name owner \<noteq> [] \<or> owner_ID owner \<noteq> []
                   then OwnerRef_Validate owner else None)
      (then_check (Labels_Validate (sp_Labels spec))
      (then_check (check_all Interface_Validate (sp_Interfaces spec))
      (then_check (check_all (\<lambda>route. if rt_Destination route \<noteq> []
           then cidr_ok ''route'' (rt_Name route) ''invalid destination'' (rt_Destination route) else None) (sp_Routes spec))
      (then_check (DNSMasq_Validate (sp_DNSMasq spec))
      (then_check (NAT_Validate (sp_NAT spec))
        (Firewall_Validate (sp_Firewall spec)))))))))"

section \<open>Interfaces of NAT rules\<close>

definition ambiguous :: "string \<Rightarrow> go_error" where
  "ambiguous kind = ovn_error ErrorAmbiguous ''plan'' kind ''interface inference is ambiguous''"

definition roleInterfaces :: "Interface list \<Rightarrow> string \<Rightarrow> string list" where
  "roleInterfaces interfaces role = sort (map if_Name (filter (\<lambda>i. if_Role i = role) interfaces))"

text \<open>The interface of a rule: its own, or the only candidate.\<close>

definition infer :: "string \<Rightarrow> string \<Rightarrow> string list \<Rightarrow> string res" where
  "infer own kind candidates =
     (if own \<noteq> [] then Inr own
      else if length candidates = 0 then Inl (ambiguous kind)
      else if length candidates > 1 then Inl (ambiguous kind)
      else Inr (hd candidates))"

text \<open>A loop that fills in the elements of a slice in place and stops at the first error: what is already written stays.\<close>

fun fill_all :: "('r \<Rightarrow> check \<times> 'r) \<Rightarrow> 'r list \<Rightarrow> check \<times> 'r list" where
  "fill_all f [] = (None, [])"
| "fill_all f (r # rs) =
     (case f r of
        (Some e, r) \<Rightarrow> (Some e, r # rs)
      | (None, r) \<Rightarrow> (case fill_all f rs of (e, rs) \<Rightarrow> (e, r # rs)))"

definition fill_one :: "('r \<Rightarrow> string) \<Rightarrow> (string \<Rightarrow> 'r \<Rightarrow> 'r) \<Rightarrow> string \<Rightarrow> string list \<Rightarrow> 'r \<Rightarrow> check \<times> 'r" where
  "fill_one get put kind candidates r =
     (case infer (get r) kind candidates of Inl e \<Rightarrow> (Some e, r) | Inr i \<Rightarrow> (None, put i r))"

definition fill_masquerade :: "string list \<Rightarrow> MasqueradeRule \<Rightarrow> check \<times> MasqueradeRule" where
  "fill_masquerade wans = fill_one mq_OutInterface (\<lambda>i r. r\<lparr>mq_OutInterface := i\<rparr>) ''wan'' wans"

definition fill_snat :: "string list \<Rightarrow> SNATRule \<Rightarrow> check \<times> SNATRule" where
  "fill_snat wans = fill_one sn_OutInterface (\<lambda>i r. r\<lparr>sn_OutInterface := i\<rparr>) ''wan'' wans"

definition fill_forward :: "string list \<Rightarrow> PortForwardRule \<Rightarrow> check \<times> PortForwardRule" where
  "fill_forward wans = fill_one pf_InInterface (\<lambda>i r. r\<lparr>pf_InInterface := i\<rparr>) ''wan'' wans"

definition fill_dnat :: "string list \<Rightarrow> DNATRule \<Rightarrow> check \<times> DNATRule" where
  "fill_dnat wans = fill_one dn_InInterface (\<lambda>i r. r\<lparr>dn_InInterface := i\<rparr>) ''wan'' wans"

definition fill_map :: "string list \<Rightarrow> string list \<Rightarrow> DestinationMapRule \<Rightarrow> check \<times> DestinationMapRule" where
  "fill_map lans wans r =
     (case fill_one mp_InInterface (\<lambda>i r. r\<lparr>mp_InInterface := i\<rparr>) ''lan'' lans r of
        (Some e, r) \<Rightarrow> (Some e, r)
      | (None, r) \<Rightarrow> fill_one mp_OutInterface (\<lambda>i r. r\<lparr>mp_OutInterface := i\<rparr>) ''wan'' wans r)"

definition infer_nat :: "string list \<Rightarrow> string list \<Rightarrow> NAT \<Rightarrow> check \<times> NAT" where
  "infer_nat wans lans nt =
     (case fill_all (fill_masquerade wans) (nat_Masquerades nt) of
        (Some e, rs) \<Rightarrow> (Some e, nt\<lparr>nat_Masquerades := rs\<rparr>)
      | (None, rs) \<Rightarrow> let nt = nt\<lparr>nat_Masquerades := rs\<rparr> in
     (case fill_all (fill_snat wans) (nat_SNATRules nt) of
        (Some e, rs) \<Rightarrow> (Some e, nt\<lparr>nat_SNATRules := rs\<rparr>)
      | (None, rs) \<Rightarrow> let nt = nt\<lparr>nat_SNATRules := rs\<rparr> in
     (case fill_all (fill_forward wans) (nat_PortForwards nt) of
        (Some e, rs) \<Rightarrow> (Some e, nt\<lparr>nat_PortForwards := rs\<rparr>)
      | (None, rs) \<Rightarrow> let nt = nt\<lparr>nat_PortForwards := rs\<rparr> in
     (case fill_all (fill_dnat wans) (nat_DNATRules nt) of
        (Some e, rs) \<Rightarrow> (Some e, nt\<lparr>nat_DNATRules := rs\<rparr>)
      | (None, rs) \<Rightarrow> let nt = nt\<lparr>nat_DNATRules := rs\<rparr> in
     (case fill_all (fill_map lans wans) (nat_DestinationMaps nt) of
        (e, rs) \<Rightarrow> (e, nt\<lparr>nat_DestinationMaps := rs\<rparr>))))))"

definition inferNATInterfaces :: "Spec \<Rightarrow> check \<times> Spec" where
  "inferNATInterfaces spec =
     (case infer_nat (roleInterfaces (sp_Interfaces spec) InterfaceWAN) (roleInterfaces (sp_Interfaces spec) InterfaceLAN)
        (sp_NAT spec) of (e, nt) \<Rightarrow> (e, spec\<lparr>sp_NAT := nt\<rparr>))"

section \<open>The plain renderer\<close>

definition namespaceOrDefault :: "Spec \<Rightarrow> string \<Rightarrow> string" where
  "namespaceOrDefault s name = (if sp_Namespace s \<noteq> [] then sp_Namespace s else ''ovnflow-'' @ name)"

text \<open>Rendering returns its result and the caller's router, whose NAT rules it may have filled in.\<close>

type_synonym renderer = "Router \<Rightarrow> Command list res \<times> Router"

definition nat_commands :: "NAT \<Rightarrow> Command list" where
  "nat_commands nt =
     map (\<lambda>r. command ''nat'' [''masquerade'', Masquerade_StableName r, mq_SourceCIDR r, mq_OutInterface r]) (nat_Masquerades nt)
     @ map (\<lambda>r. command ''nat'' [''snat'', SNAT_StableName r, sn_SourceCIDR r, sn_OutInterface r, sn_ToSource r]) (nat_SNATRules nt)
     @ map (\<lambda>r. command ''nat'' [''port-forward'', PortForward_StableName r, pf_Protocol r, pf_InInterface r, pf_ListenIP r,
         strconv_Itoa (pf_ListenPort r), pf_TargetIP r, strconv_Itoa (pf_TargetPort r)]) (nat_PortForwards nt)
     @ map (\<lambda>r. command ''nat'' [''dnat'', DNAT_StableName r, dn_InInterface r, dn_MatchAddress r, dn_TargetAddress r]) (nat_DNATRules nt)
     @ map (\<lambda>r. command ''nat'' [''destination-map'', DestinationMap_StableName r, mp_InInterface r, mp_OutInterface r,
         mp_MatchAddress r, mp_TargetAddress r, mp_FromCIDR r, mp_SourceNAT r]) (nat_DestinationMaps nt)"

definition CommandRenderer_RenderApply :: renderer where
  "CommandRenderer_RenderApply router =
     (case inferNATInterfaces (r_Spec router) of
        (Some e, spec) \<Rightarrow> (Inl e, router\<lparr>r_Spec := spec\<rparr>)
      | (None, spec) \<Rightarrow>
          (Inr ([command ''ip'' [''netns'', ''ensure'', namespaceOrDefault spec (r_Name router)]]
             @ map (\<lambda>i. command ''ip'' [''link'', ''plan'', if_Name i, if_Role i]) (sp_Interfaces spec)
             @ nat_commands (sp_NAT spec)),
           router\<lparr>r_Spec := spec\<rparr>))"

definition Router_Plan :: "renderer \<Rightarrow> Router \<Rightarrow> Command list res" where
  "Router_Plan renderer r = guard_res (Router_Validate r) (fst (renderer r))"

section \<open>Patches\<close>

record PatchPreconditions =
  pre_ResourceVersion :: string
  pre_ObservedHash :: string
  pre_Owner :: OwnerRef

record PatchOptions =
  po_RequireOwnership :: bool
  po_IgnoreNotFound :: bool

record InterfacePatch =
  ip_Add :: "Interface list"
  ip_Replace :: "Interface list"
  ip_Delete :: "string list"

record RoutePatch =
  rp_Add :: "Route list"
  rp_Replace :: "Route list"
  rp_Delete :: "string list"

record DNSMasqPatch =
  dp_AddHosts :: "HostRecord list"
  dp_Replace :: "DNSMasq option"
  dp_DeleteHosts :: "string list"

record NATDelete =
  nd_SNATRules :: "string list"
  nd_Masquerades :: "string list"
  nd_DNATRules :: "string list"
  nd_PortForwards :: "string list"
  nd_DestinationMaps :: "string list"

record NATPatch =
  np_Add :: NAT
  np_Replace :: "NAT option"
  np_Delete :: NATDelete

record FirewallPatch =
  fp_AddRules :: "FirewallRule list"
  fp_Replace :: "Firewall option"
  fp_DeleteRules :: "string list"

record Patch =
  p_Preconditions :: PatchPreconditions
  p_Options :: PatchOptions
  p_Interfaces :: InterfacePatch
  p_Routes :: RoutePatch
  p_DNSMasq :: DNSMasqPatch
  p_NAT :: NATPatch
  p_Firewall :: FirewallPatch

definition Patch_Validate :: "Patch \<Rightarrow> Router \<Rightarrow> check" where
  "Patch_Validate p current =
     (let pre = p_Preconditions p in
      if pre_ResourceVersion pre \<noteq> [] \<and> pre_ResourceVersion pre \<noteq> s_ResourceVersion (r_Status current)
      then Some (ovn_error ErrorConflict ''patch'' (r_Name current) ''resource version precondition failed'')
      else if pre_ObservedHash pre \<noteq> [] \<and> pre_ObservedHash pre \<noteq> s_ObservedHash (r_Status current)
      then Some (ovn_error ErrorConflict ''patch'' (r_Name current) ''observed hash precondition failed'')
      else if po_RequireOwnership (p_Options p)
      then then_check (OwnerRef_Validate (pre_Owner pre))
        (fail_if (sp_Owner (r_Spec current) \<noteq> pre_Owner pre)
          (ovn_error ErrorOwnershipViolation ''patch'' (r_Name current) ''owner precondition failed''))
      else None)"

fun replace_named :: "('a \<Rightarrow> string) \<Rightarrow> 'a \<Rightarrow> 'a list \<Rightarrow> 'a list" where
  "replace_named name r [] = [r]"
| "replace_named name r (x # xs) = (if name x = name r then r # xs else x # replace_named name r xs)"

definition replaceByName :: "('a \<Rightarrow> string) \<Rightarrow> 'a list \<Rightarrow> 'a list \<Rightarrow> 'a list" where
  "replaceByName name base replacements = foldl (\<lambda>base r. replace_named name r base) base replacements"

definition deleteByName :: "('a \<Rightarrow> string) \<Rightarrow> 'a list \<Rightarrow> string list \<Rightarrow> bool \<Rightarrow> string \<Rightarrow> 'a list res" where
  "deleteByName name base names ignoreMissing kind =
     (if names = [] then Inr base
      else guard_res
        (if ignoreMissing then None
         else check_all (\<lambda>n. fail_if (n \<notin> set (map name base))
           (ovn_error ErrorNotFound ''patch-delete'' (kind @ '':'' @ n) (kind @ '' not found''))) names)
        (Inr (filter (\<lambda>v. name v \<notin> set names) base)))"

text \<open>\<open>x = deleteByName(x, ...); x = append(x, add...)\<close>\<close>

definition delete_add :: "('a \<Rightarrow> string) \<Rightarrow> bool \<Rightarrow> string \<Rightarrow> string list \<Rightarrow> 'a list \<Rightarrow> 'a list \<Rightarrow> 'a list res" where
  "delete_add name ignoreMissing kind names add base =
     res_bind (deleteByName name base names ignoreMissing kind) (\<lambda>base. Inr (base @ add))"

definition patch_nat :: "bool \<Rightarrow> NATPatch \<Rightarrow> NAT \<Rightarrow> NAT res" where
  "patch_nat ign p n0 =
     (let d = np_Delete p; a = np_Add p in
      res_bind (deleteByName SNAT_StableName (nat_SNATRules n0) (nd_SNATRules d) ign ''snat'') (\<lambda>sn.
      res_bind (deleteByName Masquerade_StableName (nat_Masquerades n0) (nd_Masquerades d) ign ''masquerade'') (\<lambda>mq.
      res_bind (deleteByName DNAT_StableName (nat_DNATRules n0) (nd_DNATRules d) ign ''dnat'') (\<lambda>dn.
      res_bind (deleteByName PortForward_StableName (nat_PortForwards n0) (nd_PortForwards d) ign ''port-forward'') (\<lambda>pf.
      res_bind (deleteByName DestinationMap_StableName (nat_DestinationMaps n0) (nd_DestinationMaps d) ign ''destination-map'') (\<lambda>mp.
        Inr \<lparr>nat_SNATRules = sn @ nat_SNATRules a, nat_Masquerades = mq @ nat_Masquerades a,
          nat_DNATRules = dn @ nat_DNATRules a, nat_PortForwards = pf @ nat_PortForwards a,
          nat_DestinationMaps = mp @ nat_DestinationMaps a\<rparr>))))))"

definition Patch_ApplyTo :: "Patch \<Rightarrow> Router \<Rightarrow> Router res" where
  "Patch_ApplyTo p router =
     (let spec = r_Spec router; ign = po_IgnoreNotFound (p_Options p);
          dns = (case dp_Replace (p_DNSMasq p) of Some d \<Rightarrow> d | None \<Rightarrow> sp_DNSMasq spec);
          nt = (case np_Replace (p_NAT p) of Some n \<Rightarrow> n | None \<Rightarrow> sp_NAT spec);
          fw = (case fp_Replace (p_Firewall p) of Some f \<Rightarrow> f | None \<Rightarrow> sp_Firewall spec)
      in
      res_bind (delete_add if_Name ign ''interface'' (ip_Delete (p_Interfaces p)) (ip_Add (p_Interfaces p))
        (replaceByName if_Name (sp_Interfaces spec) (ip_Replace (p_Interfaces p)))) (\<lambda>interfaces.
      res_bind (delete_add rt_Name ign ''route'' (rp_Delete (p_Routes p)) (rp_Add (p_Routes p))
        (replaceByName rt_Name (sp_Routes spec) (rp_Replace (p_Routes p)))) (\<lambda>routes.
      res_bind (patch_nat ign (p_NAT p) nt) (\<lambda>nt.
      res_bind (delete_add hr_Domain ign ''dnsmasq-host'' (dp_DeleteHosts (p_DNSMasq p)) (dp_AddHosts (p_DNSMasq p)) (dm_Hosts dns)) (\<lambda>hosts.
      res_bind (delete_add fw_Name ign ''firewall-rule'' (fp_DeleteRules (p_Firewall p)) (fp_AddRules (p_Firewall p)) (fwl_Rules fw)) (\<lambda>rules.
        Inr (router\<lparr>r_Spec := spec\<lparr>sp_Interfaces := interfaces, sp_Routes := routes, sp_NAT := nt,
          sp_DNSMasq := dns\<lparr>dm_Hosts := hosts\<rparr>, sp_Firewall := fw\<lparr>fwl_Rules := rules\<rparr>\<rparr>\<rparr>)))))))"

section \<open>Status\<close>

definition uniqueSortedStrings :: "string list option \<Rightarrow> string list option" where
  "uniqueSortedStrings values =
     (case values of
        None \<Rightarrow> None
      | Some [] \<Rightarrow> None
      | Some vs \<Rightarrow> Some (sort (unique_from [] (\<lambda>v. v = []) (map strings_TrimSpace vs))))"

definition json_strings :: "string list option \<Rightarrow> string" where
  "json_strings values = (case values of None \<Rightarrow> ''null'' | Some vs \<Rightarrow> json_array (map json_string vs))"

definition status_json :: "Status \<Rightarrow> string" where
  "status_json s = json_object
     [(''Exists'', json_bool (s_Exists s)),
      (''Namespace'', json_string (s_Namespace s)),
      (''Interfaces'', json_array (map (\<lambda>i. json_object [(''Name'', json_string (is_Name i)), (''Role'', json_string (is_Role i)),
         (''Addresses'', json_array (map json_string (is_Addresses i))), (''Up'', json_bool (is_Up i))]) (s_Interfaces s))),
      (''Routes'', json_array (map (\<lambda>r. json_object [(''Destination'', json_string (rs_Destination r)),
         (''Gateway'', json_string (rs_Gateway r)), (''Interface'', json_string (rs_Interface r))]) (s_Routes s))),
      (''DNSMasq'', json_object [(''Running'', json_bool (ds_Running (s_DNSMasq s))), (''PID'', strconv_Itoa (ds_PID (s_DNSMasq s)))]),
      (''NATBackend'', json_string (s_NATBackend s)),
      (''InstalledNAT'', json_strings (s_InstalledNAT s)),
      (''InstalledFirewall'', json_strings (s_InstalledFirewall s)),
      (''ResourceVersion'', json_string (s_ResourceVersion s)),
      (''ObservedHash'', json_string (s_ObservedHash s)),
      (''LastError'', json_string (s_LastError s))]"

definition observedHash :: "Status \<Rightarrow> string" where
  "observedHash status =
     nat_base 16 (unat (fnv64a_write fnv64a_init (text_bytes
       (status_json (status\<lparr>s_ResourceVersion := [], s_ObservedHash := [], s_LastError := []\<rparr>)))))"

definition normalizeObservedStatus :: "Status \<Rightarrow> Status" where
  "normalizeObservedStatus status =
     (let status = status\<lparr>s_InstalledNAT := uniqueSortedStrings (s_InstalledNAT status),
            s_InstalledFirewall := uniqueSortedStrings (s_InstalledFirewall status)\<rparr>;
          status = status\<lparr>s_ObservedHash := observedHash status\<rparr>
      in if s_ResourceVersion status = [] then status\<lparr>s_ResourceVersion := s_ObservedHash status\<rparr> else status)"

definition cloneStatus :: "Status \<Rightarrow> Status" where
  "cloneStatus s = s\<lparr>s_InstalledNAT := Some (case s_InstalledNAT s of None \<Rightarrow> [] | Some x \<Rightarrow> x),
     s_InstalledFirewall := Some (case s_InstalledFirewall s of None \<Rightarrow> [] | Some x \<Rightarrow> x)\<rparr>"

definition cloneRouter :: "Router \<Rightarrow> Router" where
  "cloneRouter r = r\<lparr>r_Status := cloneStatus (r_Status r)\<rparr>"

section \<open>The client\<close>

text \<open>
  What a client is given: the executor, the renderer, an observer and an OVS manager, the last
  two optional. Its state is the table of routers; the world is threaded beside it. \<open>Apply\<close> and
  \<open>Patch\<close> hold the lock while they execute, and observing happens outside it, in between the
  reading and the writing half of \<open>refreshStoredStatus\<close>.
\<close>

record 'w RouterEnv =
  env_Run :: "'w \<Rightarrow> Command \<Rightarrow> check \<times> 'w"
  env_Render :: renderer
  env_Observe :: "('w \<Rightarrow> Router \<Rightarrow> Status res \<times> 'w) option"
  env_OVS :: "('w \<Rightarrow> Router \<Rightarrow> check \<times> 'w) option"

type_synonym store = "(string, Router) fmap"

definition ErrNotFound :: go_error where
  "ErrNotFound = OvnError ErrorNotFound [] [] [] [] [] None"

definition observe_router :: "('w \<Rightarrow> Router \<Rightarrow> Status res \<times> 'w) \<Rightarrow> 'w \<Rightarrow> Router \<Rightarrow> Status res \<times> 'w" where
  "observe_router obs w router =
     (case obs w router of
        (Inl err, w) \<Rightarrow>
          if errors_Is err ContextCanceled \<or> errors_Is err ContextDeadlineExceeded then (Inl err, w)
          else (Inr (normalizeObservedStatus ((cloneStatus (r_Status router))\<lparr>
                 s_Namespace := namespaceOrDefault (r_Spec router) (r_Name router), s_LastError := Error_text err\<rparr>)), w)
      | (Inr status, w) \<Rightarrow> (Inr (normalizeObservedStatus (status\<lparr>s_LastError := []\<rparr>)), w))"

definition refresh_write :: "store \<Rightarrow> string \<Rightarrow> Router \<Rightarrow> Status \<Rightarrow> store" where
  "refresh_write store name router status =
     (case fmlookup store name of
        None \<Rightarrow> store
      | Some current \<Rightarrow>
          if r_Spec current = r_Spec router then fmupd name (current\<lparr>r_Status := cloneStatus status\<rparr>) store else store)"

definition refreshStoredStatus :: "'w RouterEnv \<Rightarrow> store \<times> 'w \<Rightarrow> string \<Rightarrow> Router res \<times> store \<times> 'w" where
  "refreshStoredStatus env st_w name =
     (let (st, w) = st_w in
      case fmlookup st name of
        None \<Rightarrow> (Inl ErrNotFound, st, w)
      | Some stored \<Rightarrow>
          let router = cloneRouter stored in
          case env_Observe env of
            None \<Rightarrow> (Inr router, st, w)
          | Some obs \<Rightarrow>
              (case observe_router obs w router of
                 (Inl e, w) \<Rightarrow> (Inl e, st, w)
               | (Inr status, w) \<Rightarrow>
                   (Inr (cloneRouter (router\<lparr>r_Status := status\<rparr>)), refresh_write st name router status, w)))"

definition Ref_Get :: "'w RouterEnv \<Rightarrow> store \<times> 'w \<Rightarrow> string \<Rightarrow> Router res \<times> store \<times> 'w" where
  "Ref_Get env st_w name =
     (case router_validateName ''router'' name of
        Some e \<Rightarrow> (Inl e, st_w)
      | None \<Rightarrow> refreshStoredStatus env st_w name)"

text \<open>\<open>commands[1:]\<close> needs one command; every renderer of the package returns at least one.\<close>

definition executeApplyLocked :: "'w RouterEnv \<Rightarrow> 'w \<Rightarrow> Router \<Rightarrow> Command list \<Rightarrow> check \<times> 'w" where
  "executeApplyLocked env w router commands =
     (case env_OVS env of
        None \<Rightarrow> eff_all (env_Run env) w commands
      | Some ensureRouter \<Rightarrow>
          eff_then (eff_all (env_Run env) w (take 1 commands)) (\<lambda>w.
          eff_then (ensureRouter w router) (\<lambda>w. eff_all (env_Run env) w (drop 1 commands))))"

definition executeApply :: "'w RouterEnv \<Rightarrow> store \<times> 'w \<Rightarrow> Router \<Rightarrow> Command list \<Rightarrow> check \<times> store \<times> 'w" where
  "executeApply env st_w router commands =
     (let (st, w) = st_w in
      case executeApplyLocked env w router commands of
        (Some e, w) \<Rightarrow> (Some e, st, w)
      | (None, w) \<Rightarrow> (None, fmupd (r_Name router) (cloneRouter router) st, w))"

definition Ref_Apply :: "'w RouterEnv \<Rightarrow> store \<times> 'w \<Rightarrow> string \<Rightarrow> Router \<Rightarrow> check \<times> store \<times> 'w" where
  "Ref_Apply env st_w name router0 =
     (if r_Name router0 \<noteq> [] \<and> r_Name router0 \<noteq> name
      then (Some (ovn_error ErrorConflict ''apply'' (r_Name router0) ''router name does not match reference''), st_w)
      else let router = (if r_Name router0 = [] then router0\<lparr>r_Name := name\<rparr> else router0) in
      case Router_Validate router of
        Some e \<Rightarrow> (Some e, st_w)
      | None \<Rightarrow>
          (case env_Render env router of
             (Inl e, _) \<Rightarrow> (Some e, st_w)
           | (Inr commands, router) \<Rightarrow>
               (case executeApply env st_w router commands of
                  (Some e, st_w) \<Rightarrow> (Some e, st_w)
                | (None, st_w) \<Rightarrow> (None, snd (refreshStoredStatus env st_w (r_Name router))))))"

definition Ref_Patch :: "'w RouterEnv \<Rightarrow> store \<times> 'w \<Rightarrow> string \<Rightarrow> Patch \<Rightarrow> Router res \<times> store \<times> 'w" where
  "Ref_Patch env st_w name patch =
     (case router_validateName ''router'' name of
        Some e \<Rightarrow> (Inl e, st_w)
      | None \<Rightarrow>
     (case fmlookup (fst st_w) name of
        None \<Rightarrow> (Inl ErrNotFound, st_w)
      | Some stored \<Rightarrow>
     (case guard_res (Patch_Validate patch (cloneRouter stored)) (Patch_ApplyTo patch (cloneRouter stored)) of
        Inl e \<Rightarrow> (Inl e, st_w)
      | Inr current \<Rightarrow>
     (case Router_Validate current of
        Some e \<Rightarrow> (Inl e, st_w)
      | None \<Rightarrow>
     (case env_Render env current of
        (Inl e, _) \<Rightarrow> (Inl e, st_w)
      | (Inr commands, current) \<Rightarrow>
          (case executeApply env st_w current commands of
             (Some e, st_w) \<Rightarrow> (Inl e, st_w)
           | (None, st_w) \<Rightarrow> refreshStoredStatus env st_w (r_Name current)))))))"

text \<open>A run of a client: the calls that may change its table.\<close>

datatype router_op = OpGet string | OpApply string Router | OpPatch string Patch

fun router_step :: "'w RouterEnv \<Rightarrow> store \<times> 'w \<Rightarrow> router_op \<Rightarrow> store \<times> 'w" where
  "router_step env s (OpGet name) = snd (Ref_Get env s name)"
| "router_step env s (OpApply name r) = snd (Ref_Apply env s name r)"
| "router_step env s (OpPatch name p) = snd (Ref_Patch env s name p)"

end
