(* ===== verification/Router_Props.thy ===== *)
theory Router_Props
  imports Router "HOL-Library.Code_Target_Nat"
begin

text \<open>
  The router client: what interface inference guarantees, what holds of every stored router,
  when a call leaves the table alone, and what observing may and may not change.
\<close>

section \<open>Inference\<close>

text \<open>A rule that needs no inference is left alone.\<close>

lemma infer_own: "own \<noteq> [] \<Longrightarrow> infer own kind cs = Inr own"
  by (simp add: infer_def)

lemma infer_Inr: "infer own kind cs = Inr i \<Longrightarrow> (own \<noteq> [] \<and> i = own) \<or> (own = [] \<and> cs = [i])"
  by (cases cs) (auto simp: infer_def split: if_splits)

text \<open>A fill function with its interface field, and what a successful fill gives.\<close>

definition filled :: "('r \<Rightarrow> check \<times> 'r) \<Rightarrow> 'r \<Rightarrow> bool" where
  "filled f r \<longleftrightarrow> f r = (None, r)"

lemma fill_all_None:
  assumes "fill_all f rs = (None, rs')"
  shows "list_all2 (\<lambda>r r'. f r = (None, r')) rs rs'"
  using assms by (induction rs arbitrary: rs') (auto split: prod.splits option.splits)

lemma fill_all_filled: "list_all (filled f) rs \<Longrightarrow> fill_all f rs = (None, rs)"
  by (induction rs) (simp_all add: filled_def)

lemma fill_all_idem:
  assumes "fill_all f rs = (None, rs')" and "\<And>r r'. f r = (None, r') \<Longrightarrow> filled f r'"
  shows "list_all (filled f) rs'"
  using fill_all_None [OF assms(1)] assms(2) by (induction rs rs' rule: list_all2_induct) auto

lemma fill_one_idem:
  assumes "fill_one get put kind cs r = (None, r')" and "\<And>i r. get (put i r) = i" "\<And>i j r. put i (put j r) = put i r"
    and "\<And>r. put (get r) r = r" and "[] \<notin> set cs"
  shows "fill_one get put kind cs r' = (None, r')" "get r' \<noteq> []" "r' = put (get r') r" "get r = [] \<Longrightarrow> cs = [get r']"
proof -
  obtain i where i: "infer (get r) kind cs = Inr i" "r' = put i r"
    using assms(1) by (auto simp: fill_one_def split: sum.splits)
  have g: "get r' = i" unfolding i(2) by (rule assms(2))
  have ne: "i \<noteq> []" using infer_Inr [OF i(1)] assms(5) by auto
  show "fill_one get put kind cs r' = (None, r')"
    using ne by (simp add: fill_one_def g infer_own) (simp add: i(2) assms(3))
  show "get r' \<noteq> []" using ne g by simp
  show "r' = put (get r') r" using i(2) g by simp
  show "cs = [get r']" if "get r = []" using infer_Inr [OF i(1)] that g by auto
qed

lemmas fill_defs = fill_masquerade_def fill_snat_def fill_forward_def fill_dnat_def

lemma fill_map_idem:
  assumes "fill_map lans wans r = (None, r')" "[] \<notin> set lans" "[] \<notin> set wans"
  shows "filled (fill_map lans wans) r'"
proof -
  let ?in = "fill_one mp_InInterface (\<lambda>i r. r\<lparr>mp_InInterface := i\<rparr>) ''lan'' lans"
  let ?out = "fill_one mp_OutInterface (\<lambda>i r. r\<lparr>mp_OutInterface := i\<rparr>) ''wan'' wans"
  obtain r1 where r1: "?in r = (None, r1)" "?out r1 = (None, r')"
    using assms(1) by (auto simp: fill_map_def split: prod.splits option.splits)
  note a = fill_one_idem [OF r1(1) _ _ _ assms(2), simplified] and b = fill_one_idem [OF r1(2) _ _ _ assms(3), simplified]
  have "mp_InInterface r' = mp_InInterface r1" by (subst b(3)) simp
  then have "?in r' = (None, r')" using a(2) by (simp add: fill_one_def infer_own)
  then show ?thesis using b(1) by (simp add: filled_def fill_map_def)
qed

lemma fill_idem:
  assumes "[] \<notin> set wans"
  shows "fill_masquerade wans m = (None, m') \<Longrightarrow> filled (fill_masquerade wans) m'"
    and "fill_snat wans s = (None, s') \<Longrightarrow> filled (fill_snat wans) s'"
    and "fill_forward wans f = (None, f') \<Longrightarrow> filled (fill_forward wans) f'"
    and "fill_dnat wans d = (None, d') \<Longrightarrow> filled (fill_dnat wans) d'"
  unfolding filled_def fill_defs using assms by (auto intro: fill_one_idem(1))

definition nat_filled :: "string list \<Rightarrow> string list \<Rightarrow> NAT \<Rightarrow> bool" where
  "nat_filled wans lans n \<longleftrightarrow> list_all (filled (fill_masquerade wans)) (nat_Masquerades n)
     \<and> list_all (filled (fill_snat wans)) (nat_SNATRules n) \<and> list_all (filled (fill_forward wans)) (nat_PortForwards n)
     \<and> list_all (filled (fill_dnat wans)) (nat_DNATRules n) \<and> list_all (filled (fill_map lans wans)) (nat_DestinationMaps n)"

lemma infer_nat_filled: "nat_filled wans lans n \<Longrightarrow> infer_nat wans lans n = (None, n)"
  by (simp add: infer_nat_def nat_filled_def fill_all_filled)

lemma infer_nat_None:
  assumes "infer_nat wans lans n = (None, n')"
  shows "fill_all (fill_masquerade wans) (nat_Masquerades n) = (None, nat_Masquerades n')"
    "fill_all (fill_snat wans) (nat_SNATRules n) = (None, nat_SNATRules n')"
    "fill_all (fill_forward wans) (nat_PortForwards n) = (None, nat_PortForwards n')"
    "fill_all (fill_dnat wans) (nat_DNATRules n) = (None, nat_DNATRules n')"
    "fill_all (fill_map lans wans) (nat_DestinationMaps n) = (None, nat_DestinationMaps n')"
  using assms by (auto simp: infer_nat_def Let_def split: prod.splits option.splits)

lemma infer_nat_idem:
  assumes "infer_nat wans lans n = (None, n')" "[] \<notin> set wans" "[] \<notin> set lans"
  shows "nat_filled wans lans n'"
  unfolding nat_filled_def
  using fill_all_idem [OF infer_nat_None(1) [OF assms(1)] fill_idem(1) [OF assms(2)]]
    fill_all_idem [OF infer_nat_None(2) [OF assms(1)] fill_idem(2) [OF assms(2)]]
    fill_all_idem [OF infer_nat_None(3) [OF assms(1)] fill_idem(3) [OF assms(2)]]
    fill_all_idem [OF infer_nat_None(4) [OF assms(1)] fill_idem(4) [OF assms(2)]]
    fill_all_idem [OF infer_nat_None(5) [OF assms(1)] fill_map_idem [OF _ assms(3,2)]]
  by simp

text \<open>The interface of a rule is kept when it has one, and is the only candidate when it has none.\<close>

definition kept_or_only :: "('r \<Rightarrow> string) \<Rightarrow> (string \<Rightarrow> 'r \<Rightarrow> 'r) \<Rightarrow> string list \<Rightarrow> 'r \<Rightarrow> 'r \<Rightarrow> bool" where
  "kept_or_only get put cs r r' \<longleftrightarrow> (if get r \<noteq> [] then r' = r else cs = [get r'] \<and> r' = put (get r') r)"

lemma fill_one_kept:
  assumes "fill_one get put kind cs r = (None, r')" "\<And>i r. get (put i r) = i" "\<And>r. put (get r) r = r"
  shows "kept_or_only get put cs r r'"
proof -
  obtain i where i: "infer (get r) kind cs = Inr i" "r' = put i r"
    using assms(1) by (auto simp: fill_one_def split: sum.splits)
  show ?thesis using infer_Inr [OF i(1)] assms(2,3) by (auto simp: kept_or_only_def i(2))
qed

lemma fill_kept:
  "fill_masquerade wans m = (None, m') \<Longrightarrow> kept_or_only mq_OutInterface (\<lambda>i r. r\<lparr>mq_OutInterface := i\<rparr>) wans m m'"
  "fill_snat wans s = (None, s') \<Longrightarrow> kept_or_only sn_OutInterface (\<lambda>i r. r\<lparr>sn_OutInterface := i\<rparr>) wans s s'"
  "fill_forward wans f = (None, f') \<Longrightarrow> kept_or_only pf_InInterface (\<lambda>i r. r\<lparr>pf_InInterface := i\<rparr>) wans f f'"
  "fill_dnat wans d = (None, d') \<Longrightarrow> kept_or_only dn_InInterface (\<lambda>i r. r\<lparr>dn_InInterface := i\<rparr>) wans d d'"
  unfolding fill_defs by (auto intro: fill_one_kept)

lemma fill_map_kept:
  assumes "fill_map lans wans r = (None, r')"
  shows "\<exists>r1. kept_or_only mp_InInterface (\<lambda>i r. r\<lparr>mp_InInterface := i\<rparr>) lans r r1
    \<and> kept_or_only mp_OutInterface (\<lambda>i r. r\<lparr>mp_OutInterface := i\<rparr>) wans r1 r'"
proof -
  obtain r1 where r1: "fill_one mp_InInterface (\<lambda>i r. r\<lparr>mp_InInterface := i\<rparr>) ''lan'' lans r = (None, r1)"
    "fill_one mp_OutInterface (\<lambda>i r. r\<lparr>mp_OutInterface := i\<rparr>) ''wan'' wans r1 = (None, r')"
    using assms by (auto simp: fill_map_def split: prod.splits option.splits)
  show ?thesis
    using fill_one_kept [OF r1(1)] fill_one_kept [OF r1(2)] by (intro exI [of _ r1]) simp
qed

lemma role_names:
  assumes "list_all (\<lambda>i. Interface_Validate i = None) is"
  shows "[] \<notin> set (roleInterfaces is role)"
  using assms by (auto simp: roleInterfaces_def list_all_iff Interface_Validate_def then_check_None router_validateName_def
      dest: not_blank_notempty split: if_splits)

lemma inferNAT_None:
  assumes "inferNATInterfaces spec = (None, spec')"
  shows "\<exists>n. infer_nat (roleInterfaces (sp_Interfaces spec) InterfaceWAN) (roleInterfaces (sp_Interfaces spec) InterfaceLAN) (sp_NAT spec)
      = (None, n) \<and> spec' = spec\<lparr>sp_NAT := n\<rparr>"
  using assms by (auto simp: inferNATInterfaces_def split: prod.splits)

lemma inferNAT_idem:
  assumes "inferNATInterfaces spec = (None, spec')" "list_all (\<lambda>i. Interface_Validate i = None) (sp_Interfaces spec)"
  shows "inferNATInterfaces spec' = (None, spec')"
proof -
  obtain n where n: "infer_nat (roleInterfaces (sp_Interfaces spec) InterfaceWAN) (roleInterfaces (sp_Interfaces spec) InterfaceLAN)
      (sp_NAT spec) = (None, n)" "spec' = spec\<lparr>sp_NAT := n\<rparr>"
    using inferNAT_None [OF assms(1)] by blast
  from infer_nat_filled [OF infer_nat_idem [OF n(1) role_names role_names]] assms(2)
  show ?thesis by (simp add: inferNATInterfaces_def n(2))
qed

section \<open>The contract of a renderer\<close>

text \<open>
  Both renderers of the package fill in the NAT interfaces of the router they are given,
  change nothing else of it, and return at least one command.
\<close>

locale inferring_renderer =
  fixes render :: renderer
  assumes infers: "render r = (Inr cmds, r') \<Longrightarrow>
      \<exists>spec. inferNATInterfaces (r_Spec r) = (None, spec) \<and> r' = r\<lparr>r_Spec := spec\<rparr>"
    and nonempty: "render r = (Inr cmds, r') \<Longrightarrow> cmds \<noteq> []"

interpretation plain: inferring_renderer CommandRenderer_RenderApply
  by unfold_locales (auto simp: CommandRenderer_RenderApply_def split: prod.splits option.splits)

text \<open>A stored router: under its own name, with valid interfaces and nothing left to infer.\<close>

definition router_ok :: "string \<Rightarrow> Router \<Rightarrow> bool" where
  "router_ok key r \<longleftrightarrow> r_Name r = key \<and> \<not> blank key \<and> list_all (\<lambda>i. Interface_Validate i = None) (sp_Interfaces (r_Spec r))
     \<and> inferNATInterfaces (r_Spec r) = (None, r_Spec r)"

definition store_ok :: "store \<Rightarrow> bool" where
  "store_ok st \<longleftrightarrow> (\<forall>key r. fmlookup st key = Some r \<longrightarrow> router_ok key r)"

lemma cloneRouter_sel [simp]: "r_Name (cloneRouter r) = r_Name r" "r_Spec (cloneRouter r) = r_Spec r"
  by (simp_all add: cloneRouter_def)

lemma router_ok_status: "router_ok key r \<Longrightarrow> router_ok key (r\<lparr>r_Status := s\<rparr>)"
  by (simp add: router_ok_def)

lemma store_ok_upd: "store_ok st \<Longrightarrow> router_ok key r \<Longrightarrow> store_ok (fmupd key r st)"
  by (simp add: store_ok_def)

lemma refresh_write_ok: "store_ok st \<Longrightarrow> store_ok (refresh_write st name r s)"
  by (auto simp: refresh_write_def store_ok_def intro: router_ok_status split: option.splits)

lemma refresh_ok:
  assumes "store_ok (fst s)"
  shows "store_ok (fst (snd (refreshStoredStatus env s name)))"
  using assms refresh_write_ok [of "fst s"]
  by (auto simp: refreshStoredStatus_def Let_def split: prod.splits option.splits sum.splits)

lemma Validate_name_interfaces:
  assumes "Router_Validate r = None"
  shows "\<not> blank (r_Name r)" "list_all (\<lambda>i. Interface_Validate i = None) (sp_Interfaces (r_Spec r))"
  using assms by (auto simp: Router_Validate_def Let_def then_check_None check_all_None router_validateName_def list_all_iff
      split: if_splits)

context inferring_renderer begin

lemma rendered_ok:
  assumes "render r = (Inr cmds, r')" "Router_Validate r = None"
  shows "router_ok (r_Name r) (cloneRouter r')" "r_Name r' = r_Name r"
proof -
  obtain spec where spec: "inferNATInterfaces (r_Spec r) = (None, spec)" "r' = r\<lparr>r_Spec := spec\<rparr>"
    using infers [OF assms(1)] by blast
  note v = Validate_name_interfaces [OF assms(2)]
  have "sp_Interfaces spec = sp_Interfaces (r_Spec r)" using inferNAT_None [OF spec(1)] by auto
  then show "router_ok (r_Name r) (cloneRouter r')" "r_Name r' = r_Name r"
    using inferNAT_idem [OF spec(1) v(2)] v spec(2) by (simp_all add: router_ok_def)
qed

lemma execute_ok:
  assumes "store_ok (fst s)" "router_ok (r_Name r) (cloneRouter r)" "executeApply env s r cmds = (e, s')"
  shows "store_ok (fst s')"
  using assms store_ok_upd [OF assms(1), of "r_Name r" "cloneRouter r"]
  by (auto simp: executeApply_def Let_def split: prod.splits option.splits)

text \<open>Rendering, executing and refreshing, in the order both \<open>Apply\<close> and \<open>Patch\<close> do it.\<close>

lemma pipeline_ok:
  assumes "store_ok (fst s)" "render r = (Inr cmds, r')" "Router_Validate r = None" "executeApply env s r' cmds = (e, s')"
  shows "store_ok (fst s')" "store_ok (fst (snd (refreshStoredStatus env s' name)))"
proof -
  show "store_ok (fst s')"
    using execute_ok [OF assms(1) _ assms(4)] rendered_ok [OF assms(2,3)] by simp
  then show "store_ok (fst (snd (refreshStoredStatus env s' name)))" by (rule refresh_ok)
qed

lemma Apply_ok:
  assumes "env_Render env = render" "store_ok (fst s)"
  shows "store_ok (fst (snd (Ref_Apply env s name r)))"
proof -
  define router where "router = (if r_Name r = [] then r\<lparr>r_Name := name\<rparr> else r)"
  obtain out r' where rendered: "render router = (out, r')" by (cases "render router")
  have "store_ok (fst (snd (case executeApply env s r' cmds of
      (Some e, t) \<Rightarrow> (Some e, t) | (None, t) \<Rightarrow> (None, snd (refreshStoredStatus env t (r_Name r'))))))"
    if "Router_Validate router = None" "out = Inr cmds" for cmds
    using pipeline_ok [OF assms(2) rendered [unfolded that(2)] that(1)]
    by (cases "executeApply env s r' cmds"; cases "fst (executeApply env s r' cmds)") auto
  then show ?thesis
    unfolding Ref_Apply_def Let_def router_def [symmetric] assms(1) rendered
    using assms(2) by (cases "Router_Validate router"; cases out) auto
qed

lemma Patch_ok:
  assumes "env_Render env = render" "store_ok (fst s)"
  shows "store_ok (fst (snd (Ref_Patch env s name p)))"
  using assms pipeline_ok [OF assms(2), of _ _ _ env]
  by (auto simp: Ref_Patch_def split: option.splits sum.splits prod.splits)

lemma step_ok:
  assumes "store_ok (fst s)"
  shows "store_ok (fst (router_step (env\<lparr>env_Render := render\<rparr>) s op))"
proof (cases op)
  case (OpGet name)
  then show ?thesis using assms refresh_ok [of s "env\<lparr>env_Render := render\<rparr>" name] by (simp add: Ref_Get_def split: option.splits)
qed (use assms in \<open>simp_all add: Apply_ok Patch_ok\<close>)

end

sublocale inferring_renderer \<subseteq> client: invariant_system "router_step (env\<lparr>env_Render := render\<rparr>)" "\<lambda>s. store_ok (fst s)" for env
  by unfold_locales (rule step_ok)

section \<open>Properties\<close>

text \<open>
  C30: Inference on a router with valid interfaces either fails as ambiguous or gives every NAT
  rule an interface: rules that name one are unchanged, the others get the only WAN (for the
  inner side of a destination map the only LAN) interface, and a second pass changes nothing.
\<close>

theorem inference_complete:
  assumes "list_all (\<lambda>i. Interface_Validate i = None) (sp_Interfaces spec)" and "inferNATInterfaces spec = (None, spec')"
  defines "wans \<equiv> roleInterfaces (sp_Interfaces spec) InterfaceWAN"
  shows "inferNATInterfaces spec' = (None, spec') \<and> spec' = spec\<lparr>sp_NAT := sp_NAT spec'\<rparr>
    \<and> list_all2 (kept_or_only mq_OutInterface (\<lambda>i r. r\<lparr>mq_OutInterface := i\<rparr>) wans)
        (nat_Masquerades (sp_NAT spec)) (nat_Masquerades (sp_NAT spec'))
    \<and> list_all2 (kept_or_only sn_OutInterface (\<lambda>i r. r\<lparr>sn_OutInterface := i\<rparr>) wans)
        (nat_SNATRules (sp_NAT spec)) (nat_SNATRules (sp_NAT spec'))
    \<and> list_all2 (kept_or_only pf_InInterface (\<lambda>i r. r\<lparr>pf_InInterface := i\<rparr>) wans)
        (nat_PortForwards (sp_NAT spec)) (nat_PortForwards (sp_NAT spec'))
    \<and> list_all2 (kept_or_only dn_InInterface (\<lambda>i r. r\<lparr>dn_InInterface := i\<rparr>) wans)
        (nat_DNATRules (sp_NAT spec)) (nat_DNATRules (sp_NAT spec'))
    \<and> list_all2 (\<lambda>r r'. \<exists>r1. kept_or_only mp_InInterface (\<lambda>i r. r\<lparr>mp_InInterface := i\<rparr>)
           (roleInterfaces (sp_Interfaces spec) InterfaceLAN) r r1
         \<and> kept_or_only mp_OutInterface (\<lambda>i r. r\<lparr>mp_OutInterface := i\<rparr>) wans r1 r')
        (nat_DestinationMaps (sp_NAT spec)) (nat_DestinationMaps (sp_NAT spec'))"
proof -
  obtain n where n: "infer_nat wans (roleInterfaces (sp_Interfaces spec) InterfaceLAN) (sp_NAT spec) = (None, n)"
    and spec': "spec' = spec\<lparr>sp_NAT := n\<rparr>"
    using inferNAT_None [OF assms(2)] unfolding wans_def by blast
  note f = infer_nat_None [OF n, THEN fill_all_None]
  show ?thesis
    unfolding spec' using inferNAT_idem [OF assms(2,1)] spec'
      list_all2_mono [OF f(1) fill_kept(1)] list_all2_mono [OF f(2) fill_kept(2)] list_all2_mono [OF f(3) fill_kept(3)]
      list_all2_mono [OF f(4) fill_kept(4)] list_all2_mono [OF f(5) fill_map_kept]
    by simp
qed

lemma executeApply_error: "executeApply env s r cmds = (Some e, s') \<Longrightarrow> fst s' = fst s"
  by (auto simp: executeApply_def Let_def split: prod.splits option.splits)

lemma refresh_error:
  "refreshStoredStatus env s name = (Inl e, s') \<Longrightarrow> e \<noteq> ErrNotFound \<Longrightarrow>
   errors_Is e ContextCanceled \<or> errors_Is e ContextDeadlineExceeded"
  by (auto simp: refreshStoredStatus_def observe_router_def Let_def split: prod.splits option.splits sum.splits if_splits)


text \<open>
  Observing never changes what was asked for. Writing back a status that was observed for
  one version of a router, into whatever table there is by then, keeps the specification of
  every router; and when the router has been given another specification in the meantime the
  stale status is dropped.
\<close>

theorem observation_keeps_specs:
  "map_option r_Spec (fmlookup (refresh_write st name router status) key) = map_option r_Spec (fmlookup st key)
   \<and> (fmlookup (refresh_write st name router status) key = fmlookup st key
      \<or> key = name \<and> (\<exists>current. fmlookup st name = Some current \<and> r_Spec current = r_Spec router
           \<and> fmlookup (refresh_write st name router status) key = Some (current\<lparr>r_Status := cloneStatus status\<rparr>)))"
  by (auto simp: refresh_write_def split: option.splits)

section \<open>Examples\<close>

definition demo_interface :: "string \<Rightarrow> string \<Rightarrow> Interface" where
  "demo_interface name role = \<lparr>if_Name = name, if_Role = role, if_Bridge = [], if_OVSPort = [], if_Addresses = [],
     if_Gateway = [], if_DHCPClient = False, if_PortExternalIDs = fmempty, if_InterfaceExternalIDs = fmempty\<rparr>"

definition demo_nat :: "string list \<Rightarrow> NAT" where
  "demo_nat outs = \<lparr>nat_SNATRules = [],
     nat_Masquerades = map (\<lambda>out. \<lparr>mq_Name = [], mq_SourceCIDR = ''10.0.0.0/24'', mq_OutInterface = out\<rparr>) outs,
     nat_DNATRules = [], nat_PortForwards = [], nat_DestinationMaps = []\<rparr>"

definition demo_spec :: "string list \<Rightarrow> Spec" where
  "demo_spec outs = \<lparr>sp_Namespace = [], sp_Owner = empty_owner, sp_Labels = fmempty,
     sp_Interfaces = [demo_interface ''wan0'' InterfaceWAN, demo_interface ''lan0'' InterfaceLAN], sp_Routes = [],
     sp_DNSMasq = \<lparr>dm_Enabled = False, dm_DHCPRanges = [], dm_Servers = [], dm_Leases = [], dm_Hosts = [], dm_PIDFile = [],
       dm_LeaseFile = [], dm_ConfigFile = []\<rparr>,
     sp_NAT = demo_nat outs, sp_Firewall = \<lparr>fwl_Rules = []\<rparr>\<rparr>"

definition demo_status :: Status where
  "demo_status = \<lparr>s_Exists = False, s_Namespace = [], s_Interfaces = [], s_Routes = [],
     s_DNSMasq = \<lparr>ds_Running = False, ds_PID = 0\<rparr>, s_NATBackend = [], s_InstalledNAT = None, s_InstalledFirewall = None,
     s_ResourceVersion = [], s_ObservedHash = [], s_LastError = []\<rparr>"

definition demo_router :: "string list \<Rightarrow> Router" where
  "demo_router outs = \<lparr>r_Name = ''edge'', r_Spec = demo_spec outs, r_Status = demo_status\<rparr>"

definition demo_env :: "Command list RouterEnv" where
  "demo_env = \<lparr>env_Run = FakeExecutor_Run, env_Render = CommandRenderer_RenderApply, env_Observe = None, env_OVS = None\<rparr>"

definition empty_patch :: Patch where
  "empty_patch = \<lparr>p_Preconditions = \<lparr>pre_ResourceVersion = [], pre_ObservedHash = [], pre_Owner = empty_owner\<rparr>,
     p_Options = \<lparr>po_RequireOwnership = False, po_IgnoreNotFound = False\<rparr>,
     p_Interfaces = \<lparr>ip_Add = [], ip_Replace = [], ip_Delete = []\<rparr>, p_Routes = \<lparr>rp_Add = [], rp_Replace = [], rp_Delete = []\<rparr>,
     p_DNSMasq = \<lparr>dp_AddHosts = [], dp_Replace = None, dp_DeleteHosts = []\<rparr>,
     p_NAT = \<lparr>np_Add = demo_nat [], np_Replace = None, np_Delete = \<lparr>nd_SNATRules = [], nd_Masquerades = [], nd_DNATRules = [],
       nd_PortForwards = [], nd_DestinationMaps = []\<rparr>\<rparr>,
     p_Firewall = \<lparr>fp_AddRules = [], fp_Replace = None, fp_DeleteRules = []\<rparr>\<rparr>"

text \<open>
  Names of unnamed rules are made from their interfaces, and inference fills those in after
  validation: a valid router is stored as one with two rules of the same name, which is not
  valid, and from then on even a patch that changes nothing is refused.
\<close>

lemma demo_valid: "Router_Validate (demo_router [[], ''wan0'']) = None"
  by code_simp

lemma demo_inferred: "inferNATInterfaces (demo_spec [[], ''wan0'']) = (None, demo_spec [''wan0'', ''wan0''])"
  by code_simp

lemma demo_invalid: "Router_Validate (demo_router [''wan0'', ''wan0'']) =
    Some (wrapValidation ''rule'' ''masquerade-10-0-0-0-24-wan0'' ''duplicate stable rule name'' None)"
  by code_simp

lemma Validate_cloneRouter: "Router_Validate (cloneRouter r) = Router_Validate r"
  by (simp add: Router_Validate_def)

lemma empty_patch_id: "Patch_ApplyTo empty_patch r = Inr r"
  by (simp add: Patch_ApplyTo_def empty_patch_def replaceByName_def delete_add_def deleteByName_def patch_nat_def demo_nat_def Let_def)

lemma empty_patch_valid: "Patch_Validate empty_patch r = None"
  by (simp add: Patch_Validate_def empty_patch_def)

lemma inferred_names_collide:
  "Router_Validate (demo_router [[], ''wan0'']) = None
   \<and> (\<exists>st log stored e. Ref_Apply demo_env (fmempty, []) ''edge'' (demo_router [[], ''wan0'']) = (None, st, log)
      \<and> fmlookup st ''edge'' = Some stored \<and> Router_Validate stored = Some e
      \<and> Ref_Patch demo_env (st, log) ''edge'' empty_patch = (Inl e, st, log))"
proof -
  let ?bad = "demo_router [''wan0'', ''wan0'']"
  have render: "\<exists>cmds. CommandRenderer_RenderApply (demo_router [[], ''wan0'']) = (Inr cmds, ?bad)"
    using demo_inferred by (simp add: CommandRenderer_RenderApply_def demo_router_def)
  then obtain log where r: "CommandRenderer_RenderApply (demo_router [[], ''wan0'']) = (Inr log, ?bad)" by blast
  have name: "r_Name (demo_router outs) = ''edge''" for outs by (simp add: demo_router_def)
  have applied: "Ref_Apply demo_env (fmempty, []) ''edge'' (demo_router [[], ''wan0'']) =
      (None, fmupd ''edge'' (cloneRouter ?bad) fmempty, log)"
    using demo_valid r by (simp add: Ref_Apply_def name demo_env_def executeApply_def executeApplyLocked_def refreshStoredStatus_def)
  have "\<not> blank ''edge''" by code_simp
  then have "Ref_Patch demo_env (fmupd ''edge'' (cloneRouter ?bad) fmempty, log) ''edge'' empty_patch =
      (Inl (the (Router_Validate ?bad)), fmupd ''edge'' (cloneRouter ?bad) fmempty, log)"
    by (simp add: Ref_Patch_def router_validateName_def empty_patch_id empty_patch_valid Validate_cloneRouter demo_invalid)
  then show ?thesis using demo_valid applied by (simp add: Validate_cloneRouter demo_invalid)
qed


text \<open>Witnesses of the properties above.\<close>

theorem inference_complete_witness:
  "inferNATInterfaces (demo_spec [''wan0'', ''wan0'']) = (None, demo_spec [''wan0'', ''wan0''])
   \<and> nat_Masquerades (sp_NAT (demo_spec [[], ''wan0''])) \<noteq> nat_Masquerades (sp_NAT (demo_spec [''wan0'', ''wan0'']))"
proof -
  have "list_all (\<lambda>i. Interface_Validate i = None) (sp_Interfaces (demo_spec [[], ''wan0'']))"
    using Validate_name_interfaces(2) [OF demo_valid] by (simp add: demo_router_def)
  from inference_complete [OF this demo_inferred] show ?thesis by (simp add: demo_spec_def demo_nat_def)
qed

definition demo_stored :: Router where
  "demo_stored = (demo_router [])\<lparr>r_Status := demo_status\<lparr>s_ResourceVersion := ''7''\<rparr>\<rparr>"

definition stale_patch :: Patch where
  "stale_patch = empty_patch\<lparr>p_Preconditions := (p_Preconditions empty_patch)\<lparr>pre_ResourceVersion := ''6''\<rparr>\<rparr>"


end
