(* ===== verification/Router_Linux.thy ===== *)
theory Router_Linux
  imports Router_Props Planning
begin

text \<open>
  \<^verbatim>\<open>src/linuxrouter/linux_backend.go\<close> and \<^verbatim>\<open>ovs_linux.go\<close>: the renderer that turns a router into \<open>ip\<close>, \<open>nft\<close>,
  \<open>iptables\<close>, \<open>dnsmasq\<close> and \<open>ovs-vsctl\<close> commands, the names it scopes its rules with, and the OVS
  manager that attaches router interfaces to bridges. Letters are folded as ASCII.
\<close>

section \<open>Text helpers\<close>

text \<open>
  Shell scripts contain quotes and backslashes, which are written here as other characters:
  a backquote for the double quote, a tilde for the single quote and an at sign for the backslash.
\<close>

definition script :: "string \<Rightarrow> string" where
  "script s = map (\<lambda>c. if c = CHR 0x60 then CHR 0x22 else if c = CHR 0x7E then CHR 0x27
     else if c = CHR 0x40 then CHR 0x5C else c) s"

text \<open>\<open>strconv.Quote\<close>; a valid rune outside ASCII is taken to be printable.\<close>

definition quote_ascii :: "char \<Rightarrow> string" where
  "quote_ascii c =
     (let n = (of_char c :: nat) in
      if c = CHR 0x22 \<or> c = CHR 0x5C then [CHR 0x5C, c]
      else if 0x20 \<le> n \<and> n \<le> 0x7E then [c]
      else if n = 7 then [CHR 0x5C, CHR ''a''] else if n = 8 then [CHR 0x5C, CHR ''b'']
      else if n = 12 then [CHR 0x5C, CHR ''f''] else if n = 10 then [CHR 0x5C, CHR ''n'']
      else if n = 13 then [CHR 0x5C, CHR ''r''] else if n = 9 then [CHR 0x5C, CHR ''t'']
      else if n = 11 then [CHR 0x5C, CHR ''v'']
      else [CHR 0x5C, CHR ''x'', base_digit (n div 16), base_digit (n mod 16)])"

function quote_chars :: "string \<Rightarrow> string" where
  "quote_chars s =
     (case s of
        [] \<Rightarrow> []
      | c # cs \<Rightarrow>
          if (of_char c :: nat) < 128 \<or> rune_len s = 0 then quote_ascii c @ quote_chars cs
          else take (rune_len s) s @ quote_chars (drop (rune_len s) s))"
  by pat_completeness auto
termination by (relation "measure length") auto

declare quote_chars.simps [simp del]

definition strconv_Quote :: "string \<Rightarrow> string" where
  "strconv_Quote s = CHR 0x22 # quote_chars s @ [CHR 0x22]"

section \<open>Scopes\<close>

definition scope_char :: "char \<Rightarrow> bool" where
  "scope_char c \<longleftrightarrow> (let n = (of_char c :: nat) in 97 \<le> n \<and> n \<le> 122 \<or> 48 \<le> n \<and> n \<le> 57)"

text \<open>The loop of \<open>sanitizeRuleScope\<close>: \<open>out\<close> is what has been written, \<open>dash\<close> whether it ends with an underscore written for a gap.\<close>

fun sanitize_loop :: "string \<Rightarrow> bool \<Rightarrow> string \<Rightarrow> string" where
  "sanitize_loop out dash [] = out"
| "sanitize_loop out dash (c # cs) =
     (if scope_char c then sanitize_loop (out @ [c]) False cs
      else if \<not> dash \<and> out \<noteq> [] then sanitize_loop (out @ ''_'') True cs
      else sanitize_loop out dash cs)"

definition sanitizeRuleScope :: "string \<Rightarrow> string" where
  "sanitizeRuleScope value =
     trim_char (CHR ''_'') (sanitize_loop [] False (strings_ToLower (strings_TrimSpace value)))"

definition shortScopeHash :: "string \<Rightarrow> string" where
  "shortScopeHash value =
     (let h = nat_base 16 (unat (fnv32a value)) in replicate (8 - length h) (CHR ''0'') @ h)"

definition routerRuleScope :: "string \<Rightarrow> string \<Rightarrow> string" where
  "routerRuleScope routerName ns =
     (let scope = sanitizeRuleScope routerName;
          scope = (if scope = [] then sanitizeRuleScope ns else scope);
          scope = (if scope = [] then ''router'' else scope);
          hash = shortScopeHash (routerName @ CHR 0x00 # ns);
          maxPrefix = 48 - length hash - 1;
          scope = (if length scope > maxPrefix then trim_right_char (CHR ''_'') (take maxPrefix scope) else scope);
          scope = (if scope = [] then ''router'' else scope)
      in scope @ ''_'' @ hash)"

definition scopedRulePrefix :: "string \<Rightarrow> string" where
  "scopedRulePrefix scope = ''ovnflow:'' @ scope @ '':''"

definition scopedIPTablesComment :: "string \<Rightarrow> string \<Rightarrow> string" where
  "scopedIPTablesComment scope name = scopedRulePrefix scope @ name"

definition scopedNftComment :: "string \<Rightarrow> string \<Rightarrow> string" where
  "scopedNftComment scope name = strconv_Quote (scopedIPTablesComment scope name)"

definition nftNATTable :: "string \<Rightarrow> string" where
  "nftNATTable scope = ''ovnflow_nat_'' @ scope"

definition nftFilterTable :: "string \<Rightarrow> string" where
  "nftFilterTable scope = ''ovnflow_filter_'' @ scope"

section \<open>Interfaces, routes and dnsmasq\<close>

definition sortedMapKeys :: "string_map \<Rightarrow> string list" where
  "sortedMapKeys values = range_keys values"

definition appendExternalIDArgs :: "string list \<Rightarrow> string_map \<Rightarrow> string list" where
  "appendExternalIDArgs args values =
     args @ map (\<lambda>key. ''external_ids:'' @ key @ ''='' @ go_get values key) (sortedMapKeys values)"

definition owner_args :: "string \<Rightarrow> string \<Rightarrow> Interface \<Rightarrow> string list" where
  "owner_args routerName ns iface =
     [''external_ids:ovnflow.io/managed-by=ovnflow'', ''external_ids:ovnflow.io/api-version=v2'',
      ''external_ids:ovnflow.io/kind=LinuxRouter'', ''external_ids:ovnflow.io/name='' @ routerName,
      ''external_ids:ovnflow.io/linux-router-ns='' @ ns, ''external_ids:ovnflow.io/linux-router-iface='' @ if_Name iface]"

definition linuxRouterOVSVSCTLArgs :: "string \<Rightarrow> string \<Rightarrow> Interface \<Rightarrow> string list" where
  "linuxRouterOVSVSCTLArgs routerName ns iface =
     (let port = if_OVSPort iface;
          args = [''--may-exist'', ''add-port'', if_Bridge iface, port, ''--'', ''set'', ''Port'', port] @ owner_args routerName ns iface;
          args = appendExternalIDArgs args (if_PortExternalIDs iface);
          args = args @ [''--'', ''set'', ''Interface'', port, ''type=internal''] @ owner_args routerName ns iface
      in appendExternalIDArgs args (if_InterfaceExternalIDs iface))"

definition linuxRouterOVSOwnershipGuardCommand :: "string \<Rightarrow> string \<Rightarrow> string \<Rightarrow> Command" where
  "linuxRouterOVSOwnershipGuardCommand table name ns = command ''sh'' [''-c'', script (
     ''table=`$1`; name=`$2`; ns=`$3`; '' @
     ''if ovs-vsctl --data=bare --no-heading --columns=_uuid find `$table` name=`$name` | grep -q .; then '' @
     ''managed=$(ovs-vsctl --if-exists get `$table` `$name` external_ids:ovnflow.io/managed-by 2>/dev/null | tr -d ~`~); '' @
     ''kind=$(ovs-vsctl --if-exists get `$table` `$name` external_ids:ovnflow.io/kind 2>/dev/null | tr -d ~`~); '' @
     ''owner_ns=$(ovs-vsctl --if-exists get `$table` `$name` external_ids:ovnflow.io/linux-router-ns 2>/dev/null | tr -d ~`~); '' @
     ''if [ `$managed` != `ovnflow` ] || [ `$kind` != `LinuxRouter` ] || [ `$owner_ns` != `$ns` ]; then '' @
     ''echo `ownership violation: $table $name is not managed by ovnflow LinuxRouter namespace $ns` >&2; exit 77; fi; fi''),
     ''ovnflow-linuxrouter-guard'', table, name, ns]"

text \<open>A command inside the namespace.\<close>

definition in_ns :: "string \<Rightarrow> string list \<Rightarrow> Command" where
  "in_ns ns args = command ''ip'' ([''netns'', ''exec'', ns] @ args)"

definition renderInterfaceCommands :: "string \<Rightarrow> string \<Rightarrow> Interface \<Rightarrow> bool \<Rightarrow> Command list" where
  "renderInterfaceCommands routerName ns iface ovsdbManaged =
     (if if_Bridge iface \<noteq> [] \<and> if_OVSPort iface \<noteq> []
      then (if \<not> ovsdbManaged
            then [linuxRouterOVSOwnershipGuardCommand ''Port'' (if_OVSPort iface) ns,
                  linuxRouterOVSOwnershipGuardCommand ''Interface'' (if_OVSPort iface) ns,
                  command ''ovs-vsctl'' (linuxRouterOVSVSCTLArgs routerName ns iface)]
            else [])
        @ [ignoring_not_found (command ''ip'' [''link'', ''set'', if_OVSPort iface, ''netns'', ns]),
           ignoring_not_found (in_ns ns [''ip'', ''link'', ''set'', if_OVSPort iface, ''name'', if_Name iface])]
      else [])
     @ [in_ns ns [''ip'', ''link'', ''set'', if_Name iface, ''up'']]
     @ map (\<lambda>address. in_ns ns [''ip'', ''addr'', ''replace'', address, ''dev'', if_Name iface]) (if_Addresses iface)
     @ (if if_Gateway iface \<noteq> []
        then [in_ns ns [''ip'', ''route'', ''replace'', ''default'', ''via'', if_Gateway iface, ''dev'', if_Name iface]] else [])
     @ (if if_DHCPClient iface then [in_ns ns [''dhclient'', ''-v'', if_Name iface]] else [])"

definition renderRouteCommand :: "string \<Rightarrow> Route \<Rightarrow> Command" where
  "renderRouteCommand ns route =
     in_ns ns ([''ip'', ''route'', ''replace'', rt_Destination route]
       @ (if rt_Gateway route \<noteq> [] then [''via'', rt_Gateway route] else [])
       @ (if rt_Interface route \<noteq> [] then [''dev'', rt_Interface route] else []))"

definition opt_arg :: "string \<Rightarrow> string \<Rightarrow> string list" where
  "opt_arg flag value = (if value \<noteq> [] then [flag @ value] else [])"

definition renderDNSMasqCommand :: "string \<Rightarrow> Router \<Rightarrow> Command list" where
  "renderDNSMasqCommand ns router =
     (let d = sp_DNSMasq (r_Spec router) in
      [in_ns ns ([''dnsmasq''] @ opt_arg ''--conf-file='' (dm_ConfigFile d) @ opt_arg ''--pid-file='' (dm_PIDFile d)
         @ opt_arg ''--dhcp-leasefile='' (dm_LeaseFile d)
         @ map (\<lambda>server. ''--server='' @ server) (dm_Servers d)
         @ map (\<lambda>r. ''--dhcp-range='' @ strings_Join [dr_Start r, dr_End r, dr_Lease r] '','') (dm_DHCPRanges d)
         @ map (\<lambda>l. ''--dhcp-host='' @ strings_Join [sl_MAC l, sl_IP l, sl_Name l] '','') (dm_Leases d)
         @ concat (map (\<lambda>h. map (\<lambda>ip. ''--host-record='' @ hr_Domain h @ '','' @ ip) (hr_IPs h)) (dm_Hosts d)))])"

section \<open>NAT\<close>

definition nftRule :: "string \<Rightarrow> string \<Rightarrow> string list \<Rightarrow> Command" where
  "nftRule ns table args = in_ns ns ([''nft'', ''add'', ''rule'', ''ip'', table] @ args)"

definition endpoint_text :: "string \<Rightarrow> int \<Rightarrow> string" where
  "endpoint_text ip port = ip @ '':'' @ strconv_Itoa port"

definition nft_forward_args :: "string \<Rightarrow> PortForwardRule \<Rightarrow> string list" where
  "nft_forward_args scope r =
     [''prerouting'', ''iifname'', pf_InInterface r]
     @ (if pf_ListenIP r \<noteq> [] then [''ip'', ''daddr'', pf_ListenIP r] else [])
     @ [pf_Protocol r, ''dport'', strconv_Itoa (pf_ListenPort r), ''dnat'', ''to'', endpoint_text (pf_TargetIP r) (pf_TargetPort r),
        ''comment'', scopedNftComment scope (PortForward_StableName r)]"

definition nft_map_commands :: "string \<Rightarrow> string \<Rightarrow> string \<Rightarrow> DestinationMapRule \<Rightarrow> Command list" where
  "nft_map_commands ns scope table r =
     [nftRule ns table ([''prerouting''] @ (if mp_FromCIDR r \<noteq> [] then [''ip'', ''saddr'', mp_FromCIDR r] else [])
        @ [''iifname'', mp_InInterface r, ''ip'', ''daddr'', mp_MatchAddress r, ''dnat'', ''to'', mp_TargetAddress r,
           ''comment'', scopedNftComment scope (DestinationMap_StableName r)])]
     @ (if mp_SourceNAT r \<noteq> []
        then [nftRule ns table [''postrouting'', ''ip'', ''daddr'', mp_TargetAddress r, ''snat'', ''to'', mp_SourceNAT r,
                ''comment'', scopedNftComment scope (DestinationMap_StableName r @ ''-snat'')]] else [])"

definition renderNFTNATCommands :: "string \<Rightarrow> string \<Rightarrow> NAT \<Rightarrow> Command list" where
  "renderNFTNATCommands ns scope rules =
     (let table = nftNATTable scope in
      [ignoring_not_found (in_ns ns [''nft'', ''delete'', ''table'', ''ip'', table]),
       in_ns ns [''nft'', ''add'', ''table'', ''ip'', table],
       in_ns ns [''nft'', ''add'', ''chain'', ''ip'', table, ''prerouting'', ''{'', ''type'', ''nat'', ''hook'', ''prerouting'',
         ''priority'', ''dstnat'', '';'', ''}''],
       in_ns ns [''nft'', ''add'', ''chain'', ''ip'', table, ''postrouting'', ''{'', ''type'', ''nat'', ''hook'', ''postrouting'',
         ''priority'', ''srcnat'', '';'', ''}'']]
      @ map (\<lambda>r. nftRule ns table [''postrouting'', ''ip'', ''saddr'', mq_SourceCIDR r, ''oifname'', mq_OutInterface r, ''masquerade'',
          ''comment'', scopedNftComment scope (Masquerade_StableName r)]) (nat_Masquerades rules)
      @ map (\<lambda>r. nftRule ns table [''postrouting'', ''ip'', ''saddr'', sn_SourceCIDR r, ''oifname'', sn_OutInterface r, ''snat'', ''to'',
          sn_ToSource r, ''comment'', scopedNftComment scope (SNAT_StableName r)]) (nat_SNATRules rules)
      @ map (\<lambda>r. nftRule ns table [''prerouting'', ''iifname'', dn_InInterface r, ''ip'', ''daddr'', dn_MatchAddress r, ''dnat'', ''to'',
          dn_TargetAddress r, ''comment'', scopedNftComment scope (DNAT_StableName r)]) (nat_DNATRules rules)
      @ map (\<lambda>r. nftRule ns table (nft_forward_args scope r)) (nat_PortForwards rules)
      @ concat (map (nft_map_commands ns scope table) (nat_DestinationMaps rules)))"

definition iptablesRule :: "string \<Rightarrow> string list \<Rightarrow> Command" where
  "iptablesRule ns args = in_ns ns (''iptables'' # args)"

text \<open>The first \<open>-A\<close> becomes \<open>-D\<close>.\<close>

fun delete_args :: "string list \<Rightarrow> string list" where
  "delete_args [] = []"
| "delete_args (a # as) = (if a = ''-A'' then ''-D'' # as else a # delete_args as)"

definition iptablesReplaceRule :: "string \<Rightarrow> string list \<Rightarrow> Command list" where
  "iptablesReplaceRule ns args = [ignoring_not_found (iptablesRule ns (delete_args args)), iptablesRule ns args]"

definition iptablesSaveTableArg :: "string \<Rightarrow> string" where
  "iptablesSaveTableArg table = (if table = ''nat'' then '' -t nat'' else [])"

definition iptablesTableArg :: "string \<Rightarrow> string" where
  "iptablesTableArg table = (if table = ''nat'' then ''-t nat'' else [])"

definition iptablesOwnedRuleAWK :: "string \<Rightarrow> string" where
  "iptablesOwnedRuleAWK table =
     (if table = ''nat'' then script ''index($0, prefix) { sub(/^-A /,`-D `); print }''
      else script (''BEGIN { in_filter=0 } /^@*filter$/ { in_filter=1; next } /^@*/ { in_filter=0 } /^COMMIT$/ { in_filter=0 } '' @
        ''in_filter && index($0, prefix) { sub(/^-A /,`-D `); print }''))"

definition iptablesCleanupOwnedRules :: "string \<Rightarrow> string \<Rightarrow> string \<Rightarrow> Command" where
  "iptablesCleanupOwnedRules ns scope table =
     ignoring_not_found (in_ns ns [''sh'', ''-c'',
       script ''prefix=`$1`; iptables-save'' @ iptablesSaveTableArg table @ script '' | awk -v prefix=`$prefix` ~'' @
       iptablesOwnedRuleAWK table @ script ''~ | while IFS= read -r rule; do iptables '' @ iptablesTableArg table @
       '' $rule || true; done'',
       ''ovnflow-iptables-cleanup'', scopedRulePrefix scope])"

definition ipt_comment :: "string \<Rightarrow> string \<Rightarrow> string list" where
  "ipt_comment scope name = [''-m'', ''comment'', ''--comment'', scopedIPTablesComment scope name]"

definition ipt_map_commands :: "string \<Rightarrow> string \<Rightarrow> DestinationMapRule \<Rightarrow> Command list" where
  "ipt_map_commands ns scope r =
     iptablesReplaceRule ns ([''-t'', ''nat'', ''-A'', ''PREROUTING'', ''-i'', mp_InInterface r, ''-d'', mp_MatchAddress r]
       @ (if mp_FromCIDR r \<noteq> [] then [''-s'', mp_FromCIDR r] else []) @ ipt_comment scope (DestinationMap_StableName r)
       @ [''-j'', ''DNAT'', ''--to-destination'', mp_TargetAddress r])
     @ (if mp_SourceNAT r \<noteq> []
        then iptablesReplaceRule ns ([''-t'', ''nat'', ''-A'', ''POSTROUTING'', ''-d'', mp_TargetAddress r]
          @ ipt_comment scope (DestinationMap_StableName r @ ''-snat'') @ [''-j'', ''SNAT'', ''--to-source'', mp_SourceNAT r]) else [])"

definition renderIPTablesNATCommands :: "string \<Rightarrow> string \<Rightarrow> NAT \<Rightarrow> Command list" where
  "renderIPTablesNATCommands ns scope rules =
     [iptablesCleanupOwnedRules ns scope ''nat'']
     @ concat (map (\<lambda>r. iptablesReplaceRule ns ([''-t'', ''nat'', ''-A'', ''POSTROUTING'', ''-s'', mq_SourceCIDR r, ''-o'', mq_OutInterface r]
         @ ipt_comment scope (Masquerade_StableName r) @ [''-j'', ''MASQUERADE''])) (nat_Masquerades rules))
     @ concat (map (\<lambda>r. iptablesReplaceRule ns ([''-t'', ''nat'', ''-A'', ''POSTROUTING'', ''-s'', sn_SourceCIDR r, ''-o'', sn_OutInterface r]
         @ ipt_comment scope (SNAT_StableName r) @ [''-j'', ''SNAT'', ''--to-source'', sn_ToSource r])) (nat_SNATRules rules))
     @ concat (map (\<lambda>r. iptablesReplaceRule ns ([''-t'', ''nat'', ''-A'', ''PREROUTING'', ''-i'', dn_InInterface r, ''-d'', dn_MatchAddress r]
         @ ipt_comment scope (DNAT_StableName r) @ [''-j'', ''DNAT'', ''--to-destination'', dn_TargetAddress r])) (nat_DNATRules rules))
     @ concat (map (\<lambda>r. iptablesReplaceRule ns ([''-t'', ''nat'', ''-A'', ''PREROUTING'', ''-i'', pf_InInterface r, ''-p'', pf_Protocol r,
           ''--dport'', strconv_Itoa (pf_ListenPort r)] @ (if pf_ListenIP r \<noteq> [] then [''-d'', pf_ListenIP r] else [])
         @ ipt_comment scope (PortForward_StableName r)
         @ [''-j'', ''DNAT'', ''--to-destination'', endpoint_text (pf_TargetIP r) (pf_TargetPort r)])) (nat_PortForwards rules))
     @ concat (map (ipt_map_commands ns scope) (nat_DestinationMaps rules))"

definition NATBackendIPTables :: string where "NATBackendIPTables = ''iptables''"
definition NATBackendAuto :: string where "NATBackendAuto = ''auto''"

definition renderNATCommands :: "string \<Rightarrow> string \<Rightarrow> string \<Rightarrow> NAT \<Rightarrow> Command list" where
  "renderNATCommands ns scope backend rules =
     (if backend = NATBackendIPTables then renderIPTablesNATCommands ns scope rules else renderNFTNATCommands ns scope rules)"

section \<open>Firewall\<close>

definition firewallChain :: "FirewallRule \<Rightarrow> string" where
  "firewallChain rule =
     (let d = strings_ToLower (strings_TrimSpace (fw_Direction rule)) in
      if d = ''ingress'' \<or> d = ''in'' then ''input''
      else if d = ''egress'' \<or> d = ''out'' then ''output'' else ''forward'')"

definition firewallChains :: "Firewall \<Rightarrow> string list" where
  "firewallChains firewall = unique_from [] (\<lambda>_. False) (map firewallChain (fwl_Rules firewall))"

definition firewallVerdict :: "FirewallRule \<Rightarrow> string" where
  "firewallVerdict rule =
     (let a = strings_ToLower (strings_TrimSpace (fw_Action rule)) in
      if a = [] \<or> a = ''allow'' then ''accept'' else if a = ''reject'' then ''reject'' else ''drop'')"

definition nftFirewallMatches :: "FirewallRule \<Rightarrow> string list" where
  "nftFirewallMatches rule =
     concat (map (\<lambda>cidr. [''ip'', ''saddr'', cidr]) (fw_CIDRs rule))
     @ (if fw_Protocol rule \<noteq> [] then [strings_ToLower (fw_Protocol rule)] else [])
     @ concat (map (\<lambda>port. [''dport'', strconv_Itoa port]) (fw_Ports rule))"

definition nftFirewallRule :: "string \<Rightarrow> string \<Rightarrow> string \<Rightarrow> FirewallRule \<Rightarrow> Command" where
  "nftFirewallRule ns table scope rule =
     in_ns ns ([''nft'', ''add'', ''rule'', ''inet'', table, firewallChain rule] @ nftFirewallMatches rule
       @ [firewallVerdict rule, ''comment'', scopedNftComment scope (fw_Name rule)])"

definition iptablesFirewallArgs :: "string \<Rightarrow> FirewallRule \<Rightarrow> string list" where
  "iptablesFirewallArgs scope rule =
     [''-A'', strings_ToUpper (firewallChain rule)]
     @ concat (map (\<lambda>cidr. [''-s'', cidr]) (fw_CIDRs rule))
     @ (if fw_Protocol rule \<noteq> [] then [''-p'', strings_ToLower (fw_Protocol rule)] else [])
     @ concat (map (\<lambda>port. [''--dport'', strconv_Itoa port]) (fw_Ports rule))
     @ ipt_comment scope (fw_Name rule) @ [''-j'', strings_ToUpper (firewallVerdict rule)]"

definition iptablesReplaceFirewallRule :: "string \<Rightarrow> string \<Rightarrow> FirewallRule \<Rightarrow> Command list" where
  "iptablesReplaceFirewallRule ns scope rule = iptablesReplaceRule ns (iptablesFirewallArgs scope rule)"

definition renderFirewallCommands :: "string \<Rightarrow> string \<Rightarrow> string \<Rightarrow> Firewall \<Rightarrow> Command list" where
  "renderFirewallCommands ns scope backend firewall =
     (if backend = NATBackendIPTables
      then [iptablesCleanupOwnedRules ns scope ''filter'']
        @ concat (map (iptablesReplaceFirewallRule ns scope) (fwl_Rules firewall))
      else let table = nftFilterTable scope in
        [ignoring_not_found (in_ns ns [''nft'', ''delete'', ''table'', ''inet'', table])]
        @ (if fwl_Rules firewall = [] then []
           else [in_ns ns [''nft'', ''add'', ''table'', ''inet'', table]]
             @ map (\<lambda>chain. in_ns ns [''nft'', ''add'', ''chain'', ''inet'', table, chain, ''{'', ''type'', ''filter'', ''hook'', chain,
                 ''priority'', ''filter'', '';'', ''}'']) (firewallChains firewall)
             @ map (nftFirewallRule ns table scope) (fwl_Rules firewall)))"

section \<open>The renderer\<close>

record LinuxRenderer =
  lr_NATBackend :: string
  lr_OVSDBManaged :: bool

definition LinuxRenderer_RenderApply :: "LinuxRenderer \<Rightarrow> renderer" where
  "LinuxRenderer_RenderApply lr router0 =
     (case inferNATInterfaces (r_Spec router0) of
        (Some e, spec) \<Rightarrow> (Inl e, router0\<lparr>r_Spec := spec\<rparr>)
      | (None, spec) \<Rightarrow>
          let router = router0\<lparr>r_Spec := spec\<rparr>;
              backend = strings_ToLower (strings_TrimSpace (lr_NATBackend lr));
              backend = (if backend = [] then NATBackendAuto else backend)
          in
          if \<not> ValidNATBackend backend
          then (Inl (ovn_error ErrorValidation ''render'' backend ''invalid NAT backend''), router)
          else
            let ns = namespaceOrDefault spec (r_Name router); scope = routerRuleScope (r_Name router) ns in
            (Inr ([ignoring_existing (command ''ip'' [''netns'', ''add'', ns])]
               @ concat (map (\<lambda>iface. renderInterfaceCommands (r_Name router) ns iface (lr_OVSDBManaged lr)) (sp_Interfaces spec))
               @ map (renderRouteCommand ns) (sp_Routes spec)
               @ (if dm_Enabled (sp_DNSMasq spec) then renderDNSMasqCommand ns router else [])
               @ renderNATCommands ns scope backend (sp_NAT spec)
               @ renderFirewallCommands ns scope backend (sp_Firewall spec)),
             router))"

interpretation linux_renderer: inferring_renderer "LinuxRenderer_RenderApply lr" for lr
  by unfold_locales (auto simp: LinuxRenderer_RenderApply_def Let_def split: prod.splits option.splits if_splits)

section \<open>The executor\<close>

definition router_commandNotFound :: "string \<Rightarrow> bool" where
  "router_commandNotFound message =
     (let m = strings_ToLower message in
      list_ex (strings_Contains m) [''no such file'', ''not found'', ''does not exist'', ''cannot find device'', ''no such table'']
      \<or> strings_Contains m ''bad rule'' \<and> strings_Contains m ''matching rule'')"

text \<open>\<open>exitCode\<close> is the code of the \<open>exec.ExitError\<close> in the chain of an error, if there is one.\<close>

definition router_errorKindForExec :: "(go_error \<Rightarrow> int option) \<Rightarrow> go_error \<Rightarrow> ErrorKind" where
  "router_errorKindForExec exitCode err =
     (if exitCode err = Some 77 then ErrorOwnershipViolation
      else if errors_Is err ContextCanceled then ErrorCanceled
      else if errors_Is err ContextDeadlineExceeded then ErrorTimeout
      else ErrorUnavailable)"

definition router_SystemExecutor_Run :: "(go_error \<Rightarrow> int option)
    \<Rightarrow> ('w \<Rightarrow> string \<Rightarrow> string list \<Rightarrow> process_failure option \<times> 'w) \<Rightarrow> 'w \<Rightarrow> Command \<Rightarrow> check \<times> 'w" where
  "router_SystemExecutor_Run exitCode run =
     system_run router_commandNotFound commandAlreadyExists (router_errorKindForExec exitCode) run"

section \<open>The OVS manager\<close>

record ovs_interface =
  oi_Name :: string
  oi_ExternalIDs :: string_map

record ovs_port =
  opt_ExternalIDs :: string_map
  opt_Interfaces :: "string list"

text \<open>\<open>routerOVSClient\<close>: what the manager asks of the OVS client.\<close>

record 'w routerOVSClient =
  oc_GetBridge :: "'w \<Rightarrow> string \<Rightarrow> unit res"
  oc_GetPort :: "'w \<Rightarrow> string \<Rightarrow> ovs_port res"
  oc_GetInterface :: "'w \<Rightarrow> string \<Rightarrow> ovs_interface res"
  oc_GetInterfaceByUUID :: "'w \<Rightarrow> string \<Rightarrow> ovs_interface res"
  oc_EnsureInternalPort :: "'w \<Rightarrow> string \<Rightarrow> string \<Rightarrow> string_map \<Rightarrow> string_map \<Rightarrow> check \<times> 'w"

definition router_ns_key :: string where "router_ns_key = ExternalIDPrefix @ ''linux-router-ns''"
definition router_iface_key :: string where "router_iface_key = ExternalIDPrefix @ ''linux-router-iface''"

definition linuxRouterOVSOwnedBy :: "string_map \<Rightarrow> string \<Rightarrow> bool" where
  "linuxRouterOVSOwnedBy externalIDs ns \<longleftrightarrow>
     go_get externalIDs ExternalIDManagedByKey = ''ovnflow'' \<and> go_get externalIDs ExternalIDKindKey = ''LinuxRouter''
     \<and> go_get externalIDs router_ns_key = ns"

definition linuxRouterOVSExternalIDs :: "string \<Rightarrow> string \<Rightarrow> string \<Rightarrow> string_map" where
  "linuxRouterOVSExternalIDs routerName ns ifaceName =
     fmupd router_iface_key ifaceName (fmupd router_ns_key ns (fmupd ExternalIDNameKey routerName
       (fmupd ExternalIDKindKey ''LinuxRouter'' (fmupd ExternalIDAPIVersionKey ''v2''
         (fmupd ExternalIDManagedByKey ''ovnflow'' fmempty)))))"

definition mergeExternalIDs :: "string_map \<Rightarrow> string_map \<Rightarrow> string_map" where
  "mergeExternalIDs dst src = foldl (\<lambda>m k. fmupd k (go_get src k) m) dst (range_keys src)"

definition violation :: "string \<Rightarrow> string \<Rightarrow> go_error" where
  "violation object message = ovn_error ErrorOwnershipViolation ''ensure'' object message"

definition validateExistingPortInterfaces :: "'w routerOVSClient \<Rightarrow> 'w \<Rightarrow> ovs_port \<Rightarrow> string \<Rightarrow> Interface \<Rightarrow> check" where
  "validateExistingPortInterfaces ovs w port ns iface =
     (if opt_Interfaces port = []
      then Some (violation (''Port:'' @ if_OVSPort iface) ''existing port has no interface to update safely'')
      else check_all (\<lambda>uuid.
        case oc_GetInterfaceByUUID ovs w uuid of
          Inl e \<Rightarrow> Some e
        | Inr i \<Rightarrow>
            if oi_Name i \<noteq> if_OVSPort iface
            then Some (violation (''Interface:'' @ oi_Name i) ''existing port references an unexpected interface'')
            else if \<not> linuxRouterOVSOwnedBy (oi_ExternalIDs i) ns
            then Some (violation (''Interface:'' @ oi_Name i) (''port interface is not managed by ovnflow LinuxRouter namespace '' @ ns))
            else None) (opt_Interfaces port))"

definition port_check :: "'w routerOVSClient \<Rightarrow> 'w \<Rightarrow> string \<Rightarrow> Interface \<Rightarrow> ovs_port option res" where
  "port_check ovs w ns iface =
     (case oc_GetPort ovs w (if_OVSPort iface) of
        Inr port \<Rightarrow>
          if \<not> linuxRouterOVSOwnedBy (opt_ExternalIDs port) ns
          then Inl (violation (''Port:'' @ if_OVSPort iface) (''port is not managed by ovnflow LinuxRouter namespace '' @ ns))
          else Inr (Some port)
      | Inl e \<Rightarrow> if \<not> IsKind (Some e) ErrorNotFound then Inl e else Inr None)"

definition iface_check :: "'w routerOVSClient \<Rightarrow> 'w \<Rightarrow> string \<Rightarrow> Interface \<Rightarrow> bool \<Rightarrow> check" where
  "iface_check ovs w ns iface portExists =
     (case oc_GetInterface ovs w (if_OVSPort iface) of
        Inr i \<Rightarrow>
          fail_if (\<not> linuxRouterOVSOwnedBy (oi_ExternalIDs i) ns) (violation (''Interface:'' @ if_OVSPort iface)
            (''interface is not managed by ovnflow LinuxRouter namespace '' @ ns))
      | Inl e \<Rightarrow>
          if portExists \<and> IsKind (Some e) ErrorNotFound
          then Some (violation (''Interface:'' @ if_OVSPort iface) ''existing port is missing the expected ovnflow LinuxRouter interface'')
          else if \<not> IsKind (Some e) ErrorNotFound then Some e
          else None)"

definition ensureInterface :: "'w routerOVSClient \<Rightarrow> string \<Rightarrow> string \<Rightarrow> 'w \<Rightarrow> Interface \<Rightarrow> check \<times> 'w" where
  "ensureInterface ovs routerName ns w iface =
     (case res_bind (oc_GetBridge ovs w (if_Bridge iface)) (\<lambda>_.
        res_bind (port_check ovs w ns iface) (\<lambda>existingPort.
        guard_res (iface_check ovs w ns iface (existingPort \<noteq> None))
        (guard_res (case existingPort of None \<Rightarrow> None | Some port \<Rightarrow> validateExistingPortInterfaces ovs w port ns iface)
          (Inr ())))) of
        Inl e \<Rightarrow> (Some e, w)
      | Inr _ \<Rightarrow>
          let ids = linuxRouterOVSExternalIDs routerName ns (if_Name iface) in
          oc_EnsureInternalPort ovs w (if_Bridge iface) (if_OVSPort iface)
            (mergeExternalIDs ids (if_PortExternalIDs iface)) (mergeExternalIDs ids (if_InterfaceExternalIDs iface)))"

definition EnsureRouter :: "'w routerOVSClient option \<Rightarrow> 'w \<Rightarrow> Router \<Rightarrow> check \<times> 'w" where
  "EnsureRouter ovs w router =
     (case ovs of
        None \<Rightarrow> (Some ErrBackendUnavailable, w)
      | Some ovs \<Rightarrow>
          let ns = namespaceOrDefault (r_Spec router) (r_Name router) in
          eff_all (ensureInterface ovs (r_Name router) ns) w
            (filter (\<lambda>iface. \<not> (if_Bridge iface = [] \<or> if_OVSPort iface = [])) (sp_Interfaces (r_Spec router))))"

end
