(* ===== verification/Router_Linux_Props.thy ===== *)
theory Router_Linux_Props
  imports Router_Linux
begin

text \<open>
  What the Linux router promises: the shape of the scopes that name its rules and tables, the
  isolation of the clean-up of one router from the rules of another, and the ownership protocol
  of the OVS manager.
\<close>

section \<open>Scopes\<close>

definition scope_text :: "string \<Rightarrow> bool" where
  "scope_text s \<longleftrightarrow> list_all (\<lambda>c. scope_char c \<or> c = CHR ''_'') s"

lemma scope_text_append [simp]: "scope_text (s @ t) \<longleftrightarrow> scope_text s \<and> scope_text t"
  by (simp add: scope_text_def)

lemma scope_text_sub: "set s \<subseteq> set t \<Longrightarrow> scope_text t \<Longrightarrow> scope_text s"
  by (auto simp: scope_text_def list_all_iff)

lemma sanitize_loop_text: "scope_text out \<Longrightarrow> scope_text (sanitize_loop out dash s)"
proof (induction out dash s rule: sanitize_loop.induct)
  case (2 out dash c cs)
  then show ?case by (simp add: scope_text_def)
qed simp

lemma set_trim_char: "set (trim_char c s) \<subseteq> set s"
  unfolding trim_char_def using set_dropWhileD [of _ _ s] by (auto dest!: set_dropWhileD)

lemma set_trim_right_char: "set (trim_right_char c s) \<subseteq> set s"
  unfolding trim_right_char_def by (auto dest!: set_dropWhileD)

lemma length_trim_right_char: "length (trim_right_char c s) \<le> length s"
  unfolding trim_right_char_def using length_dropWhile_le [of _ "rev s"] by simp

lemma sanitize_text: "scope_text (sanitizeRuleScope s)"
  unfolding sanitizeRuleScope_def
  by (rule scope_text_sub [OF set_trim_char sanitize_loop_text]) (simp add: scope_text_def)

lemma base_digit_scope: "n < 16 \<Longrightarrow> scope_char (base_digit n)"
  by (simp add: base_digit_def scope_char_def Let_def)

lemma nat_base_scope: "scope_text (nat_base 16 n)"
proof (induction n rule: less_induct)
  case (less n)
  then show ?case
    by (cases "n < 16") (simp_all add: nat_base.simps [of 16 n] base_digit_scope scope_text_def)
qed

lemma hash_text: "scope_text (shortScopeHash s)"
  by (simp add: shortScopeHash_def Let_def nat_base_scope) (simp add: scope_text_def scope_char_def list_all_iff Let_def)

lemma hash_length: "length (shortScopeHash s) = 8"
proof -
  have "unat (fnv32a s) < 2 ^ 32" using unsigned_less [where ?'b = 32 and ?'a = nat, of "fnv32a s"] by simp
  then have "length (nat_base 16 (unat (fnv32a s))) \<le> Suc 7"
    by (intro length_nat_base) simp_all
  then show ?thesis by (simp add: shortScopeHash_def Let_def)
qed

lemma literal_scope: "scope_text ''router''" "scope_text ''_''"
  by (simp_all add: scope_text_def scope_char_def Let_def)

lemma scope_shape:
  "length (routerRuleScope name ns) \<le> 48 \<and> scope_text (routerRuleScope name ns)
   \<and> (\<exists>base. base \<noteq> [] \<and> routerRuleScope name ns = base @ ''_'' @ shortScopeHash (name @ CHR 0x00 # ns))"
proof -
  define base where "base = (let scope = sanitizeRuleScope name;
          scope = (if scope = [] then sanitizeRuleScope ns else scope);
          scope = (if scope = [] then ''router'' else scope);
          scope = (if length scope > 39 then trim_right_char (CHR ''_'') (take 39 scope) else scope)
      in (if scope = [] then ''router'' else scope))"
  have scope: "routerRuleScope name ns = base @ ''_'' @ shortScopeHash (name @ CHR 0x00 # ns)"
    by (simp add: routerRuleScope_def base_def Let_def hash_length)
  have cut: "scope_text s \<Longrightarrow> scope_text (trim_right_char (CHR ''_'') (take 39 s))" for s
    by (rule scope_text_sub [OF set_trim_right_char])
      (use scope_text_append [of "take 39 s" "drop 39 s"] in simp)
  have "length (trim_right_char (CHR ''_'') (take 39 s)) \<le> 39" for s
    using length_trim_right_char [of "CHR ''_''" "take 39 s"] by simp
  then have "base \<noteq> []" "length base \<le> 39" "scope_text base"
    by (auto simp: base_def Let_def literal_scope sanitize_text cut)
  then show ?thesis unfolding scope using hash_text [of "name @ CHR 0x00 # ns"] by (auto simp: hash_length scope_text_def)
qed

text \<open>
  Whatever the names of the router and its namespace, the scope of its rules has at most 48
  bytes, consists of lower-case letters, digits and underscores, and ends with an underscore and
  eight hexadecimal digits.
\<close>

theorem scope_bounded:
  "length (routerRuleScope name ns) \<le> 48 \<and> scope_text (routerRuleScope name ns)
   \<and> (\<exists>base. base \<noteq> [] \<and> routerRuleScope name ns = base @ ''_'' @ shortScopeHash (name @ CHR 0x00 # ns))"
  by (rule scope_shape)

lemma scope_no_colon: "CHR '':'' \<notin> set (routerRuleScope name ns)"
proof
  assume "CHR '':'' \<in> set (routerRuleScope name ns)"
  then have "scope_char (CHR '':'')" using scope_shape [of name ns] by (auto simp: scope_text_def list_all_iff)
  then show False by (simp add: scope_char_def Let_def)
qed

section \<open>Clean-up\<close>

lemma takeWhile_colon: "CHR '':'' \<notin> set a \<Longrightarrow> takeWhile (\<lambda>c. c \<noteq> CHR '':'') (a @ CHR '':'' # s) = a"
  by (induction a) auto

lemma split_colon:
  assumes "CHR '':'' \<notin> set a" "CHR '':'' \<notin> set b" "a @ CHR '':'' # s = b @ CHR '':'' # t"
  shows "a = b \<and> s = t"
proof -
  have "a = b" using takeWhile_colon [OF assms(1), of s] takeWhile_colon [OF assms(2), of t] assms(3) by simp
  with assms(3) show ?thesis by simp
qed

lemma prefix_found:
  assumes "CHR '':'' \<notin> set a" "CHR '':'' \<notin> set b" "CHR '':'' \<notin> set name"
    and "strings_Contains (scopedIPTablesComment b name) (scopedRulePrefix a)"
  shows "a = b"
proof -
  obtain u v where uv: "''ovnflow:'' @ b @ '':'' @ name = u @ (''ovnflow:'' @ a @ '':'') @ v"
    using assms(4) unfolding scopedIPTablesComment_def scopedRulePrefix_def strings_Contains_iff by auto
  have "count_list (''ovnflow:'' @ b @ '':'' @ name) (CHR '':'') = 2"
    using assms by (simp add: count_notin)
  then have "CHR '':'' \<notin> set u"
    unfolding uv by (simp add: count_notin assms(1) count_list_0_iff)
  then have "CHR '':'' \<notin> set (u @ ''ovnflow'')" by simp
  moreover have "''ovnflow'' @ CHR '':'' # (b @ '':'' @ name) = (u @ ''ovnflow'') @ CHR '':'' # (a @ '':'' @ v)"
    using uv by simp
  ultimately have "b @ CHR '':'' # name = a @ CHR '':'' # v"
    using split_colon [of "''ovnflow''" "u @ ''ovnflow''"] by simp
  then have "b = a" using split_colon [OF assms(2,1)] by blast
  then show "a = b" by simp
qed

text \<open>
  C32: The clean-up before rules are installed deletes the rules whose comment contains the
  prefix of the router's scope. For a rule whose name has no colon this selects exactly the rules
  of the same scope, whatever its router and its name are called.
\<close>

theorem cleanup_isolated:
  assumes "CHR '':'' \<notin> set name"
  shows "strings_Contains (scopedIPTablesComment (routerRuleScope r2 ns2) name) (scopedRulePrefix (routerRuleScope r1 ns1))
    \<longleftrightarrow> routerRuleScope r1 ns1 = routerRuleScope r2 ns2"
proof
  assume "routerRuleScope r1 ns1 = routerRuleScope r2 ns2"
  then show "strings_Contains (scopedIPTablesComment (routerRuleScope r2 ns2) name) (scopedRulePrefix (routerRuleScope r1 ns1))"
    unfolding scopedIPTablesComment_def strings_Contains_iff by (intro exI [of _ "[]"] exI [of _ name]) simp
qed (rule prefix_found [OF scope_no_colon scope_no_colon assms])

theorem cleanup_isolated_witness:
  "CHR '':'' \<notin> set ''ovnflow-a_1'' \<and>
   (strings_Contains (scopedIPTablesComment (routerRuleScope ''edge'' ''ns2'') ''ovnflow-a_1'') (scopedRulePrefix (routerRuleScope ''edge'' ''ns1''))
    \<longleftrightarrow> routerRuleScope ''edge'' ''ns1'' = routerRuleScope ''edge'' ''ns2'')"
  using cleanup_isolated [of "''ovnflow-a_1''" "''edge''" "''ns2''" "''edge''" "''ns1''"] by simp

section \<open>The store\<close>

text \<open>
  C8: With the plain and with the Linux renderer, whatever routers are applied, patched and read,
  and whatever the executor, the observer and the OVS manager do, every stored router has the name it is stored under, valid
  interfaces, and NAT rules whose interfaces are all filled in (inference has nothing to add).
\<close>

theorem router_store_invariant:
  "store_ok (fst (foldl (router_step (env\<lparr>env_Render := CommandRenderer_RenderApply\<rparr>)) (fmempty, w) ops))
   \<and> store_ok (fst (foldl (router_step (env\<lparr>env_Render := LinuxRenderer_RenderApply lr\<rparr>)) (fmempty, w) ops))"
proof
  show "store_ok (fst (foldl (router_step (env\<lparr>env_Render := CommandRenderer_RenderApply\<rparr>)) (fmempty, w) ops))"
    by (rule plain.client.run_inv) (simp add: store_ok_def)
  show "store_ok (fst (foldl (router_step (env\<lparr>env_Render := LinuxRenderer_RenderApply lr\<rparr>)) (fmempty, w) ops))"
    by (rule linux_renderer.client.run_inv) (simp add: store_ok_def)
qed

section \<open>Ownership in OVS\<close>

lemma merge_fold_lookup:
  "fmlookup (foldl (\<lambda>m k. fmupd k (f k) m) dst ks) key = (if key \<in> set ks then Some (f key) else fmlookup dst key)"
  by (induction ks arbitrary: dst) auto

lemma mergeExternalIDs_lookup:
  "fmlookup (mergeExternalIDs dst src) key = (case fmlookup src key of Some v \<Rightarrow> Some v | None \<Rightarrow> fmlookup dst key)"
  by (auto simp: mergeExternalIDs_def merge_fold_lookup go_get_def fmlookup_dom'_iff split: option.splits)

lemma reserved_absent:
  assumes "validateExternalIDs kind name values = None" "strings_HasPrefix key ExternalIDPrefix"
  shows "fmlookup values key = None"
  using assms by (fastforce simp: validateExternalIDs_def check_all_None fmlookup_dom'_iff split: if_splits)

lemma reserved_keys:
  "strings_HasPrefix ExternalIDManagedByKey ExternalIDPrefix" "strings_HasPrefix ExternalIDKindKey ExternalIDPrefix"
  "strings_HasPrefix router_ns_key ExternalIDPrefix"
  by code_simp+

lemma merged_owned:
  assumes "validateExternalIDs kind name values = None"
  shows "linuxRouterOVSOwnedBy (mergeExternalIDs (linuxRouterOVSExternalIDs r ns i) values) ns"
proof -
  have keys: "go_get (linuxRouterOVSExternalIDs r ns i) ExternalIDManagedByKey = ''ovnflow''"
    "go_get (linuxRouterOVSExternalIDs r ns i) ExternalIDKindKey = ''LinuxRouter''"
    "go_get (linuxRouterOVSExternalIDs r ns i) router_ns_key = ns"
    by (simp_all add: linuxRouterOVSExternalIDs_def go_get_def external_id_keys router_ns_key_def router_iface_key_def)
  have "go_get (mergeExternalIDs (linuxRouterOVSExternalIDs r ns i) values) key = go_get (linuxRouterOVSExternalIDs r ns i) key"
    if "strings_HasPrefix key ExternalIDPrefix" for key
    using reserved_absent [OF assms that] by (simp add: go_get_def mergeExternalIDs_lookup)
  then show ?thesis using reserved_keys keys by (simp add: linuxRouterOVSOwnedBy_def)
qed

text \<open>What must hold of the port and of the interface before the manager may write.\<close>

definition may_write :: "'w routerOVSClient \<Rightarrow> 'w \<Rightarrow> string \<Rightarrow> string \<Rightarrow> bool" where
  "may_write ovs w ns name \<longleftrightarrow>
     (case oc_GetPort ovs w name of
        Inl e \<Rightarrow> IsKind (Some e) ErrorNotFound
      | Inr port \<Rightarrow> linuxRouterOVSOwnedBy (opt_ExternalIDs port) ns \<and> opt_Interfaces port \<noteq> []
          \<and> list_all (\<lambda>uuid. case oc_GetInterfaceByUUID ovs w uuid of
               Inl e \<Rightarrow> False | Inr i \<Rightarrow> oi_Name i = name \<and> linuxRouterOVSOwnedBy (oi_ExternalIDs i) ns) (opt_Interfaces port))
     \<and> (case oc_GetInterface ovs w name of
          Inl e \<Rightarrow> IsKind (Some e) ErrorNotFound \<and> isl (oc_GetPort ovs w name)
        | Inr i \<Rightarrow> linuxRouterOVSOwnedBy (oi_ExternalIDs i) ns)"

definition ensure_write :: "'w routerOVSClient \<Rightarrow> string \<Rightarrow> string \<Rightarrow> 'w \<Rightarrow> Interface \<Rightarrow> check \<times> 'w" where
  "ensure_write ovs routerName ns w iface =
     (let ids = linuxRouterOVSExternalIDs routerName ns (if_Name iface) in
      oc_EnsureInternalPort ovs w (if_Bridge iface) (if_OVSPort iface)
        (mergeExternalIDs ids (if_PortExternalIDs iface)) (mergeExternalIDs ids (if_InterfaceExternalIDs iface)))"

lemma port_check_Inr:
  "port_check ovs w ns iface = Inr p \<longleftrightarrow>
     (case oc_GetPort ovs w (if_OVSPort iface) of
        Inl e \<Rightarrow> IsKind (Some e) ErrorNotFound \<and> p = None
      | Inr port \<Rightarrow> linuxRouterOVSOwnedBy (opt_ExternalIDs port) ns \<and> p = Some port)"
  by (auto simp: port_check_def split: sum.splits)

lemma iface_check_None:
  "iface_check ovs w ns iface b = None \<longleftrightarrow>
     (case oc_GetInterface ovs w (if_OVSPort iface) of
        Inl e \<Rightarrow> IsKind (Some e) ErrorNotFound \<and> \<not> b
      | Inr i \<Rightarrow> linuxRouterOVSOwnedBy (oi_ExternalIDs i) ns)"
  by (auto simp: iface_check_def fail_if_def split: sum.splits)

lemma existing_None:
  "validateExistingPortInterfaces ovs w port ns iface = None \<longleftrightarrow> opt_Interfaces port \<noteq> []
     \<and> list_all (\<lambda>uuid. case oc_GetInterfaceByUUID ovs w uuid of
          Inl e \<Rightarrow> False | Inr i \<Rightarrow> oi_Name i = if_OVSPort iface \<and> linuxRouterOVSOwnedBy (oi_ExternalIDs i) ns) (opt_Interfaces port)"
  by (auto simp: validateExistingPortInterfaces_def check_all_None list_all_iff split: sum.splits if_splits)

lemma guards_pass:
  "res_bind (port_check ovs w ns iface) (\<lambda>existingPort.
      guard_res (iface_check ovs w ns iface (existingPort \<noteq> None))
      (guard_res (case existingPort of None \<Rightarrow> None | Some port \<Rightarrow> validateExistingPortInterfaces ovs w port ns iface) (Inr ())))
     = Inr () \<longleftrightarrow> may_write ovs w ns (if_OVSPort iface)"
  by (cases "oc_GetPort ovs w (if_OVSPort iface)"; cases "oc_GetInterface ovs w (if_OVSPort iface)")
    (auto simp: res_bind_Inr guard_res_Inr port_check_Inr iface_check_None existing_None may_write_def)

lemma ensureInterface_cases:
  "ensureInterface ovs r ns w iface =
     (if \<not> isl (oc_GetBridge ovs w (if_Bridge iface)) \<and> may_write ovs w ns (if_OVSPort iface)
      then ensure_write ovs r ns w iface
      else (Some (projl (res_bind (oc_GetBridge ovs w (if_Bridge iface)) (\<lambda>_.
        res_bind (port_check ovs w ns iface) (\<lambda>existingPort.
        guard_res (iface_check ovs w ns iface (existingPort \<noteq> None))
        (guard_res (case existingPort of None \<Rightarrow> None | Some port \<Rightarrow> validateExistingPortInterfaces ovs w port ns iface)
          (Inr ())))))), w))"
  using guards_pass [of ovs w ns iface]
  by (cases "oc_GetBridge ovs w (if_Bridge iface)")
    (auto simp: ensureInterface_def ensure_write_def split: sum.splits)

text \<open>
  C25: The manager writes a port only if neither the port nor an interface of that name exists,
  or all of them are already marked as belonging to this router namespace; otherwise it reports
  an error and leaves OVS as it is. What it writes for a valid interface carries the marks
  itself, so that the next run accepts it and a run for another namespace refuses it.
\<close>

theorem ensure_respects_ownership:
  assumes "Interface_Validate iface = None"
  shows "(if \<not> isl (oc_GetBridge ovs w (if_Bridge iface)) \<and> may_write ovs w ns (if_OVSPort iface)
      then \<exists>portIDs ifaceIDs. ensureInterface ovs r ns w iface =
             oc_EnsureInternalPort ovs w (if_Bridge iface) (if_OVSPort iface) portIDs ifaceIDs
           \<and> (\<forall>ns'. linuxRouterOVSOwnedBy portIDs ns' \<longleftrightarrow> ns' = ns) \<and> (\<forall>ns'. linuxRouterOVSOwnedBy ifaceIDs ns' \<longleftrightarrow> ns' = ns)
      else \<exists>e. ensureInterface ovs r ns w iface = (Some e, w))"
proof -
  have only: "linuxRouterOVSOwnedBy ids ns \<Longrightarrow> linuxRouterOVSOwnedBy ids ns' \<longleftrightarrow> ns' = ns" for ids ns'
    by (auto simp: linuxRouterOVSOwnedBy_def)
  have "validateExternalIDs ''interface port'' (if_Name iface) (if_PortExternalIDs iface) = None"
    "validateExternalIDs ''interface'' (if_Name iface) (if_InterfaceExternalIDs iface) = None"
    using assms by (simp_all add: Interface_Validate_def then_check_None)
  note owned = this [THEN merged_owned, THEN only]
  let ?ids = "mergeExternalIDs (linuxRouterOVSExternalIDs r ns (if_Name iface))"
  show ?thesis
    unfolding ensureInterface_cases ensure_write_def Let_def using owned
    by (simp split: if_split)
      (intro impI exI [of _ "?ids (if_PortExternalIDs iface)"] exI [of _ "?ids (if_InterfaceExternalIDs iface)"], simp)
qed

text \<open>A bridge with one port that belongs to the namespace \<open>blue\<close>; the state tells whether a port has been written.\<close>

definition demo_ovs :: "bool routerOVSClient" where
  "demo_ovs = \<lparr>oc_GetBridge = \<lambda>_ _. Inr (),
     oc_GetPort = \<lambda>_ _. Inr \<lparr>opt_ExternalIDs = linuxRouterOVSExternalIDs ''r'' ''blue'' ''lan0'', opt_Interfaces = [''u'']\<rparr>,
     oc_GetInterface = \<lambda>_ n. Inr \<lparr>oi_Name = n, oi_ExternalIDs = linuxRouterOVSExternalIDs ''r'' ''blue'' ''lan0''\<rparr>,
     oc_GetInterfaceByUUID = \<lambda>_ _. Inr \<lparr>oi_Name = ''p0'', oi_ExternalIDs = linuxRouterOVSExternalIDs ''r'' ''blue'' ''lan0''\<rparr>,
     oc_EnsureInternalPort = \<lambda>_ _ _ _ _. (None, True)\<rparr>"

definition demo_iface :: Interface where
  "demo_iface = \<lparr>if_Name = ''lan0'', if_Role = InterfaceLAN, if_Bridge = ''br0'', if_OVSPort = ''p0'', if_Addresses = [], if_Gateway = [],
     if_DHCPClient = False, if_PortExternalIDs = fmempty, if_InterfaceExternalIDs = fmempty\<rparr>"

theorem ensure_respects_ownership_witness:
  "Interface_Validate demo_iface = None \<and> (\<exists>e. ensureInterface demo_ovs ''r'' ''red'' False demo_iface = (Some e, False))
   \<and> fst (ensureInterface demo_ovs ''r'' ''blue'' False demo_iface) = None"
proof -
  have valid: "Interface_Validate demo_iface = None" by code_simp
  have owned: "linuxRouterOVSOwnedBy (linuxRouterOVSExternalIDs ''r'' ''blue'' ''lan0'') ns \<longleftrightarrow> ns = ''blue''" for ns
    by (auto simp: linuxRouterOVSOwnedBy_def linuxRouterOVSExternalIDs_def go_get_def external_id_keys router_ns_key_def router_iface_key_def)
  have red: "\<not> may_write demo_ovs False ''red'' (if_OVSPort demo_iface)"
    by (simp add: may_write_def demo_ovs_def owned)
  have blue: "may_write demo_ovs False ''blue'' (if_OVSPort demo_iface)"
    by (simp add: may_write_def demo_ovs_def demo_iface_def owned)
  have bridge: "\<not> isl (oc_GetBridge demo_ovs False b)" and writes: "oc_EnsureInternalPort demo_ovs False b p x y = (None, True)" for b p x y
    by (simp_all add: demo_ovs_def)
  show ?thesis
    using valid ensure_respects_ownership [OF valid, of demo_ovs False "''red''" "''r''"]
      ensure_respects_ownership [OF valid, of demo_ovs False "''blue''" "''r''"] red blue bridge writes by auto
qed

end
