(* ===== verification/Ovsdb.thy ===== *)
theory Ovsdb
  imports Util Go_Json "HOL-Library.Multiset"
begin

text \<open>
  The dynamic values of OVSDB rows and what the SDK reads out of them
  (\<^verbatim>\<open>src/nb_runtime.go\<close>, \<^verbatim>\<open>src/util.go\<close>), conditions, mutations and operations, and the schema
  registry (\<^verbatim>\<open>src/schema.go\<close>).

  A Go value of type \<open>any\<close> is a value of the datatype below. A Go map of dynamic values is an
  association list with distinct keys in the order in which Go happens to visit it; a nil
  slice or map reads as an empty one. A \<open>float64\<close> is represented by its integer part and the
  text \<open>encoding/json\<close> writes for it: nothing else of it is read.
\<close>

section \<open>Values\<close>

datatype any =
  ANil | AString string | ABool bool | AInt int | AFloat int string
| AUUID string
| ASet "any list"
| AMap "(any \<times> any) list"
| AStrings "string list"
| AUUIDs "string list"
| AStringMap string_map
| AIntStringMap "(int, string) fmap"
| AList "any list"
| AObject "(string \<times> any) list"

type_synonym row = "(string, any) fmap"

text \<open>\<open>row[column]\<close>; nil for a missing column.\<close>

definition row_get :: "row \<Rightarrow> string \<Rightarrow> any" where
  "row_get row column = (case fmlookup row column of None \<Rightarrow> ANil | Some v \<Rightarrow> v)"

definition as_string :: "any \<Rightarrow> string option" where
  "as_string v = (case v of AString s \<Rightarrow> Some s | _ \<Rightarrow> None)"

text \<open>The pair \<open>["uuid", id]\<close> or \<open>["named-uuid", id]\<close> in which JSON carries a UUID.\<close>

definition uuid_pair :: "any list \<Rightarrow> string option" where
  "uuid_pair xs =
     (case xs of [AString marker, AString i] \<Rightarrow> if marker = ''uuid'' \<or> marker = ''named-uuid'' then Some i else None
      | _ \<Rightarrow> None)"

definition object_uuid :: "(string \<times> any) list \<Rightarrow> string option" where
  "object_uuid m = Option.bind (map_of m ''GoUUID'') as_string"

definition anyString :: "any \<Rightarrow> string" where
  "anyString v =
     (case v of
        AString s \<Rightarrow> s
      | AUUID s \<Rightarrow> s
      | AObject m \<Rightarrow> (case object_uuid m of Some s \<Rightarrow> s | None \<Rightarrow> [])
      | AList xs \<Rightarrow> (case uuid_pair xs of Some s \<Rightarrow> s | None \<Rightarrow> [])
      | _ \<Rightarrow> [])"

text \<open>\<open>(id, ok)\<close> of \<open>anyUUIDString\<close>, as an option.\<close>

definition anyUUIDString :: "any \<Rightarrow> string option" where
  "anyUUIDString v =
     (let s = anyString v in if s = [] then None else Some s)"

definition slice_item :: "any \<Rightarrow> string list" where
  "slice_item v =
     (case v of
        AString s \<Rightarrow> [s]
      | AUUID s \<Rightarrow> [s]
      | AList xs \<Rightarrow> (if anyString v \<noteq> [] then [anyString v] else [])
      | AObject m \<Rightarrow> (if anyString v \<noteq> [] then [anyString v] else [])
      | _ \<Rightarrow> [])"

definition anySliceStrings :: "any list \<Rightarrow> string list" where
  "anySliceStrings values = uniqueStrings (concat (map slice_item values))"

definition anyStringSlice :: "any \<Rightarrow> string list" where
  "anyStringSlice v =
     (case v of
        AString s \<Rightarrow> [s]
      | AStrings ss \<Rightarrow> ss
      | AList xs \<Rightarrow>
          (case uuid_pair xs of
             Some (c # cs) \<Rightarrow> [c # cs]
           | _ \<Rightarrow> (case xs of [AString marker, AList values] \<Rightarrow>
                       if marker = ''set'' then anySliceStrings values else anySliceStrings xs
                   | _ \<Rightarrow> anySliceStrings xs))
      | ASet xs \<Rightarrow> anySliceStrings xs
      | _ \<Rightarrow> [])"

definition anyMapStringValue :: "any \<Rightarrow> string option" where
  "anyMapStringValue v = (case v of AString s \<Rightarrow> Some s | _ \<Rightarrow> anyUUIDString v)"

text \<open>Writes the pairs whose key is a string and whose value has a text.\<close>

definition put_pair :: "string_map \<Rightarrow> any \<times> any \<Rightarrow> string_map" where
  "put_pair out p =
     (case p of (k, v) \<Rightarrow> case (as_string k, anyMapStringValue v) of (Some k, Some v) \<Rightarrow> fmupd k v out | _ \<Rightarrow> out)"

definition put_pairs :: "(any \<times> any) list \<Rightarrow> string_map" where
  "put_pairs ps = foldl put_pair fmempty ps"

definition json_pair :: "any \<Rightarrow> (any \<times> any) list" where
  "json_pair item = (case item of AList [k, v] \<Rightarrow> [(k, v)] | _ \<Rightarrow> [])"

definition anyStringMap :: "any \<Rightarrow> string_map" where
  "anyStringMap v =
     (case v of
        AStringMap m \<Rightarrow> m
      | AObject m \<Rightarrow> put_pairs (map (\<lambda>(k, v). (AString k, v)) m)
      | AList xs \<Rightarrow>
          (case xs of [AString marker, AList pairs] \<Rightarrow>
             if marker = ''map'' then put_pairs (concat (map json_pair pairs)) else fmempty
           | _ \<Rightarrow> fmempty)
      | AMap ps \<Rightarrow> put_pairs ps
      | _ \<Rightarrow> fmempty)"

definition anyOptionalString :: "any \<Rightarrow> string option" where
  "anyOptionalString v =
     (let s = anyString v in
      if s = [] then (case anyStringSlice v of [] \<Rightarrow> None | x # _ \<Rightarrow> Some x) else Some s)"

definition anyIntValue :: "any \<Rightarrow> int option" where
  "anyIntValue v = (case v of AInt i \<Rightarrow> Some i | AFloat i _ \<Rightarrow> Some i | _ \<Rightarrow> None)"

section \<open>Typed columns of a row\<close>

definition colUUID :: string where "colUUID = ''_uuid''"
definition colName :: string where "colName = ''name''"

definition rowUUIDValue :: "row \<Rightarrow> string" where
  "rowUUIDValue row = (case row_get row colUUID of AUUID s \<Rightarrow> s | AString s \<Rightarrow> s | _ \<Rightarrow> [])"

definition rowStringValue :: "row \<Rightarrow> string \<Rightarrow> string" where
  "rowStringValue row column = (case row_get row column of AString s \<Rightarrow> s | _ \<Rightarrow> [])"

definition rowStringSliceValue :: "row \<Rightarrow> string \<Rightarrow> string list" where
  "rowStringSliceValue row column =
     (case row_get row column of
        AString s \<Rightarrow> [s]
      | ASet xs \<Rightarrow> List.map_filter as_string xs
      | AStrings ss \<Rightarrow> ss
      | _ \<Rightarrow> [])"

definition nonempty_id :: "any \<Rightarrow> string list" where
  "nonempty_id v = (case v of AUUID s \<Rightarrow> if s = [] then [] else [s] | AString s \<Rightarrow> if s = [] then [] else [s] | _ \<Rightarrow> [])"

definition rowUUIDSliceValue :: "row \<Rightarrow> string \<Rightarrow> string list" where
  "rowUUIDSliceValue row column =
     (case row_get row column of
        ASet xs \<Rightarrow> concat (map nonempty_id xs)
      | AStrings ss \<Rightarrow> ss
      | AUUIDs ids \<Rightarrow> filter (\<lambda>s. s \<noteq> []) ids
      | v \<Rightarrow> nonempty_id v)"

definition rowOptionalUUIDValue :: "row \<Rightarrow> string \<Rightarrow> string option" where
  "rowOptionalUUIDValue row column = (case rowUUIDSliceValue row column of [] \<Rightarrow> None | x # _ \<Rightarrow> Some x)"

definition rowIntUUIDMapValue :: "row \<Rightarrow> string \<Rightarrow> (int, string) fmap" where
  "rowIntUUIDMapValue row column =
     (case row_get row column of
        AIntStringMap m \<Rightarrow> m
      | AMap ps \<Rightarrow> foldl (\<lambda>out (k, v). case (anyIntValue k, anyUUIDString v) of (Some k, Some v) \<Rightarrow> fmupd k v out | _ \<Rightarrow> out) fmempty ps
      | _ \<Rightarrow> fmempty)"

definition rowStringMapValue :: "row \<Rightarrow> string \<Rightarrow> string_map" where
  "rowStringMapValue row column =
     (case row_get row column of
        AStringMap m \<Rightarrow> m
      | AMap ps \<Rightarrow> foldl (\<lambda>out (k, v). case (as_string k, as_string v) of (Some k, Some v) \<Rightarrow> fmupd k v out | _ \<Rightarrow> out) fmempty ps
      | _ \<Rightarrow> fmempty)"

definition uuidSet :: "string list \<Rightarrow> any" where
  "uuidSet values = ASet (map AUUID values)"

section \<open>Operations\<close>

text \<open>
  The operations of the OVSDB protocol as the SDK fills them in; conditions and mutators are
  the library's constants.
\<close>

datatype ConditionFunction = ConditionEqual | ConditionNotEqual | ConditionIncludes | ConditionExcludes | ConditionOther string

record Condition =
  cond_Column :: string
  cond_Function :: ConditionFunction
  cond_Value :: any

datatype Mutator = MutateInsert | MutateDelete

record Mutation =
  mut_Column :: string
  mut_Mutator :: Mutator
  mut_Value :: any

record Operation =
  op_Op :: string
  op_Table :: string
  op_Row :: row
  op_Rows :: "row list"
  op_Columns :: "string list"
  op_Mutations :: "Mutation list"
  op_Where :: "Condition list"
  op_Until :: string
  op_UUIDName :: string

definition op_of :: "string \<Rightarrow> string \<Rightarrow> Operation" where
  "op_of kind tab = \<lparr>op_Op = kind, op_Table = tab, op_Row = fmempty, op_Rows = [], op_Columns = [], op_Mutations = [],
     op_Where = [], op_Until = [], op_UUIDName = []\<rparr>"

record Result = OperationResult +
  res_Rows :: "row list"

definition NewCondition :: "string \<Rightarrow> ConditionFunction \<Rightarrow> any \<Rightarrow> Condition" where
  "NewCondition column fn value = \<lparr>cond_Column = column, cond_Function = fn, cond_Value = value\<rparr>"

definition NewMutation :: "string \<Rightarrow> Mutator \<Rightarrow> any \<Rightarrow> Mutation" where
  "NewMutation column mutator value = \<lparr>mut_Column = column, mut_Mutator = mutator, mut_Value = value\<rparr>"

definition conditionName :: "string \<Rightarrow> Condition list" where
  "conditionName name = [NewCondition colName ConditionEqual (AString name)]"

definition conditionUUID :: "string \<Rightarrow> Condition list" where
  "conditionUUID uuid = [NewCondition colUUID ConditionEqual (AUUID uuid)]"

end
