(* ===== verification/Schema.thy ===== *)
theory Schema
  imports Ovsdb
begin

text \<open>
  The schema registry of \<^verbatim>\<open>src/schema.go\<close>: which tables and columns the connected database has,
  which columns refer to rows of a table, and the check of a schema against the tables the SDK
  requires. Schemas are values of the database library: a table schema carries its columns and
  the library's lookup \<open>Column\<close>, and a base type what its \<open>RefTable\<close> and \<open>RefType\<close> return.
\<close>

section \<open>Schemas\<close>

record BaseType =
  bt_RefTable :: "string option"
  bt_RefType :: "string option"

record ColumnType =
  ct_Key :: "BaseType option"
  ct_Value :: "BaseType option"

datatype ExtendedType = TypeMap | TypeSet | TypeUUID | TypeOther string

record ColumnSchema =
  cs_Type :: ExtendedType
  cs_TypeObj :: "ColumnType option"

record TableSchema =
  ts_Columns :: "(string, ColumnSchema option) fmap"
  ts_Column :: "string \<Rightarrow> bool"

record DatabaseSchema =
  ds_Name :: string
  ds_Version :: string
  ds_Tables :: "(string, TableSchema) fmap"

record SchemaRegistry =
  sr_database :: string
  sr_schema :: DatabaseSchema

type_synonym registry = "SchemaRegistry option"

section \<open>The registry\<close>

definition newSchemaRegistry :: "string \<Rightarrow> DatabaseSchema \<Rightarrow> registry" where
  "newSchemaRegistry database schema = Some \<lparr>sr_database = database, sr_schema = schema\<rparr>"

definition Database :: "registry \<Rightarrow> string" where
  "Database s = (case s of None \<Rightarrow> [] | Some s \<Rightarrow> sr_database s)"

definition schema_table :: "registry \<Rightarrow> string \<Rightarrow> TableSchema option" where
  "schema_table s tab = Option.bind s (\<lambda>s. fmlookup (ds_Tables (sr_schema s)) tab)"

definition HasTable :: "registry \<Rightarrow> string \<Rightarrow> bool" where
  "HasTable s tab \<longleftrightarrow> schema_table s tab \<noteq> None"

definition HasColumn :: "registry \<Rightarrow> string \<Rightarrow> string \<Rightarrow> bool" where
  "HasColumn s tab column = (case schema_table s tab of None \<Rightarrow> False | Some t \<Rightarrow> ts_Column t column)"

definition Columns :: "registry \<Rightarrow> string \<Rightarrow> string list" where
  "Columns s tab = (case schema_table s tab of None \<Rightarrow> [] | Some t \<Rightarrow> colUUID # range_keys (ts_Columns t))"

definition Tables :: "registry \<Rightarrow> string list" where
  "Tables s = (case s of None \<Rightarrow> [] | Some s \<Rightarrow> range_keys (ds_Tables (sr_schema s)))"

definition schema_error :: "registry \<Rightarrow> string \<Rightarrow> string \<Rightarrow> go_error" where
  "schema_error s tab message = wrap_err ErrorInvalidSchema (Database s) tab ''schema'' [] message None"

definition RequireTable :: "registry \<Rightarrow> string \<Rightarrow> check" where
  "RequireTable s tab =
     (if HasTable s tab then None else Some (schema_error s tab (''required table '' @ tab @ '' is missing'')))"

definition RequireColumns :: "registry \<Rightarrow> string \<Rightarrow> string list \<Rightarrow> check" where
  "RequireColumns s tab columns =
     then_check (RequireTable s tab) (check_all (\<lambda>column.
       if column = [] then None
       else if \<not> HasColumn s tab column
       then Some (schema_error s tab (''required column '' @ tab @ ''.'' @ column @ '' is missing''))
       else None) columns)"

definition RequireConditionColumns :: "registry \<Rightarrow> string \<Rightarrow> Condition list \<Rightarrow> check" where
  "RequireConditionColumns s tab conditions = check_all (\<lambda>c. RequireColumns s tab [cond_Column c]) conditions"

definition existingColumns :: "registry \<Rightarrow> string \<Rightarrow> string list \<Rightarrow> string list" where
  "existingColumns s tab columns = filter (HasColumn s tab) columns"

section \<open>References\<close>

datatype referenceColumnKind = referenceColumnScalarUUID | referenceColumnSetUUID | referenceColumnMapUUID

record referenceColumnInfo =
  rc_Name :: string
  rc_Kind :: referenceColumnKind
  rc_KeyRef :: bool
  rc_ValueRef :: bool
  rc_Reference :: string

definition RefStrong :: string where "RefStrong = ''strong''"
definition RefWeak :: string where "RefWeak = ''weak''"

definition baseReferencesTable :: "BaseType option \<Rightarrow> string \<Rightarrow> bool" where
  "baseReferencesTable base refTable = (case base of None \<Rightarrow> False | Some b \<Rightarrow> bt_RefTable b = Some refTable)"

definition baseReferenceType :: "BaseType option \<Rightarrow> string" where
  "baseReferenceType base =
     (case base of None \<Rightarrow> RefStrong
      | Some b \<Rightarrow> (case bt_RefType b of None \<Rightarrow> RefStrong | Some t \<Rightarrow> if t = [] then RefStrong else t))"

definition referenceColumnInfoFor :: "string \<Rightarrow> ColumnSchema option \<Rightarrow> string \<Rightarrow> referenceColumnInfo option" where
  "referenceColumnInfoFor name column refTable =
     (case column of None \<Rightarrow> None | Some column \<Rightarrow>
     (case cs_TypeObj column of None \<Rightarrow> None | Some t \<Rightarrow>
        if ct_Key t = None then None
        else let keyRef = baseReferencesTable (ct_Key t) refTable; valueRef = baseReferencesTable (ct_Value t) refTable;
                 info = (\<lambda>kind ref. Some \<lparr>rc_Name = name, rc_Kind = kind, rc_KeyRef = keyRef, rc_ValueRef = valueRef, rc_Reference = ref\<rparr>)
          in if \<not> keyRef \<and> \<not> valueRef then None
             else (case cs_Type column of
                 TypeMap \<Rightarrow> info referenceColumnMapUUID (baseReferenceType (if valueRef then ct_Value t else ct_Key t))
               | TypeSet \<Rightarrow> info referenceColumnSetUUID (baseReferenceType (ct_Key t))
               | TypeUUID \<Rightarrow> info referenceColumnScalarUUID (baseReferenceType (ct_Key t))
               | TypeOther _ \<Rightarrow> None)))"

definition ReferenceColumnInfos :: "registry \<Rightarrow> string \<Rightarrow> string \<Rightarrow> referenceColumnInfo list" where
  "ReferenceColumnInfos s tab refTable =
     (case schema_table s tab of
        None \<Rightarrow> []
      | Some t \<Rightarrow>
          if refTable = [] then []
          else sort_key rc_Name (List.map_filter (\<lambda>name. referenceColumnInfoFor name (the (fmlookup (ts_Columns t) name)) refTable)
                 (range_keys (ts_Columns t))))"

definition ReferenceColumns :: "registry \<Rightarrow> string \<Rightarrow> string \<Rightarrow> string list" where
  "ReferenceColumns s tab refTable = map rc_Name (ReferenceColumnInfos s tab refTable)"

section \<open>Required tables\<close>

definition dbOVNNorthbound :: string where "dbOVNNorthbound = ''OVN_Northbound''"
definition dbOVNSouthbound :: string where "dbOVNSouthbound = ''OVN_Southbound''"
definition dbOpenVSwitch :: string where "dbOpenVSwitch = ''Open_vSwitch''"

definition requiredSchema :: "string \<Rightarrow> (string, string list) fmap" where
  "requiredSchema database =
     (if database = dbOVNNorthbound
     then fmap_of_list
       [(''Logical_Switch'', [''name'', ''ports'', ''external_ids'', ''other_config'']),
        (''Logical_Switch_Port'', [''name'', ''addresses'', ''external_ids'', ''options'', ''type'']),
        (''Logical_Router'', [''name'', ''ports'', ''static_routes'', ''nat'', ''load_balancer'', ''options'', ''external_ids'']),
        (''Logical_Router_Port'', [''name'', ''mac'', ''networks'', ''options'', ''external_ids'']),
        (''ACL'', [''priority'', ''direction'', ''match'', ''action'', ''external_ids'']),
        (''NAT'', [''type'', ''logical_ip'', ''external_ip'', ''external_ids'']),
        (''Load_Balancer'', [''name'', ''vips'', ''protocol'', ''external_ids'']),
        (''DHCP_Options'', [''cidr'', ''options'', ''external_ids'']),
        (''DNS'', [''records'', ''external_ids'']),
        (''QoS'', [''priority'', ''direction'', ''match'', ''action'', ''bandwidth'', ''external_ids'']),
        (''Meter'', [''name'', ''unit'', ''bands'', ''external_ids'']),
        (''Meter_Band'', [''action'', ''rate'', ''external_ids'']),
        (''Port_Group'', [''name'', ''ports'', ''acls'', ''external_ids'']),
        (''Address_Set'', [''name'', ''addresses'', ''external_ids'']),
        (''Gateway_Chassis'', [''name'', ''chassis_name'', ''priority'', ''external_ids'']),
        (''HA_Chassis'', [''chassis_name'', ''priority'', ''external_ids'']),
        (''HA_Chassis_Group'', [''name'', ''ha_chassis'', ''external_ids'']),
        (''BFD'', [''logical_port'', ''dst_ip'', ''status'', ''external_ids''])]
     else if database = dbOVNSouthbound
     then fmap_of_list
       [(''Chassis'', [''name'']),
        (''Port_Binding'', [''logical_port'', ''datapath'']),
        (''Datapath_Binding'', [''tunnel_key'']),
        (''Logical_Flow'', [''pipeline'', ''table_id'', ''match'', ''actions'']),
        (''MAC_Binding'', [''logical_port'', ''ip'', ''mac'', ''datapath'']),
        (''FDB'', [''mac'', ''dp_key'', ''port_key'']),
        (''Multicast_Group'', [''datapath'', ''tunnel_key'', ''ports'']),
        (''Service_Monitor'', [''ip'', ''protocol'', ''port'', ''logical_port'']),
        (''RBAC_Role'', [''name'', ''permissions'']),
        (''RBAC_Permission'', [''table'', ''authorization'', ''insert_delete'', ''update'']),
        (''Meter'', [''name'', ''unit'', ''bands'']),
        (''Meter_Band'', [''action'', ''rate'', ''burst_size'']),
        (''DNS'', [''records'', ''datapaths'']),
        (''BFD'', [''logical_port'', ''dst_ip''])]
     else if database = dbOpenVSwitch
     then fmap_of_list
       [(''Open_vSwitch'', [''bridges'', ''external_ids'']),
        (''Bridge'', [''name'', ''ports'', ''external_ids'', ''other_config'']),
        (''Port'', [''name'', ''interfaces'', ''external_ids'', ''other_config'']),
        (''Interface'', [''name'', ''type'', ''external_ids'', ''options'']),
        (''Controller'', [''target'', ''external_ids'', ''other_config'']),
        (''Manager'', [''target'', ''external_ids'', ''other_config'']),
        (''Mirror'', [''name'', ''select_src_port'', ''select_dst_port'', ''output_port'']),
        (''QoS'', [''type'', ''queues'']),
        (''Queue'', []),
        (''Flow_Table'', [''name'']),
        (''NetFlow'', [''targets'', ''engine_type'', ''engine_id'', ''active_timeout'']),
        (''sFlow'', [''agent'', ''targets'', ''header'', ''sampling'', ''polling'']),
        (''IPFIX'', [''targets'', ''sampling'']),
        (''SSL'', [''private_key'', ''certificate'', ''ca_cert'', ''bootstrap_ca_cert'']),
        (''AutoAttach'', [''system_name'', ''system_description'', ''mappings''])]
     else fmempty)"

definition validateDatabaseSchema :: "DatabaseSchema \<Rightarrow> (string, string list) fmap \<Rightarrow> check" where
  "validateDatabaseSchema schema required =
     check_all (\<lambda>tab.
       case fmlookup (ds_Tables schema) tab of
         None \<Rightarrow> Some (ForeignError (''required table '' @ tab @ '' is missing from schema '' @ ds_Name schema))
       | Some t \<Rightarrow> check_all (\<lambda>column.
           if ts_Column t column then None
           else Some (ForeignError (''required column '' @ tab @ ''.'' @ column @ '' is missing from schema '' @ ds_Name schema)))
           (the (fmlookup required tab))) (range_keys required)"

section \<open>Lemmas\<close>

lemma RequireTable_None [simp]: "RequireTable s tab = None \<longleftrightarrow> HasTable s tab"
  by (simp add: RequireTable_def)

lemma RequireColumns_None:
  "RequireColumns s tab columns = None \<longleftrightarrow> HasTable s tab \<and> (\<forall>c\<in>set columns. c = [] \<or> HasColumn s tab c)"
  by (auto simp: RequireColumns_def then_check_None check_all_None)

lemma RequireConditionColumns_None:
  "RequireConditionColumns s tab conditions = None \<longleftrightarrow>
     (\<forall>c\<in>set conditions. HasTable s tab \<and> (cond_Column c = [] \<or> HasColumn s tab (cond_Column c)))"
  by (auto simp: RequireConditionColumns_def check_all_None RequireColumns_None)

text \<open>A database that passes the connection check has every required table and column.\<close>

lemma validateDatabaseSchema_None:
  assumes "validateDatabaseSchema schema required = None" "fmlookup required tab = Some columns"
  shows "RequireColumns (newSchemaRegistry database schema) tab columns = None"
proof -
  have "tab \<in> set (range_keys required)" using assms(2) by (simp add: fmdom'I)
  then obtain t where t: "fmlookup (ds_Tables schema) tab = Some t" and "\<forall>c\<in>set columns. ts_Column t c"
    using assms by (fastforce simp: validateDatabaseSchema_def check_all_None split: option.splits if_splits)
  then show ?thesis
    by (simp add: RequireColumns_None HasTable_def HasColumn_def schema_table_def newSchemaRegistry_def)
qed

end
