(* ===== verification/Db_Client.thy ===== *)
theory Db_Client
  imports Schema Exec
begin

text \<open>
  The database client of \<^verbatim>\<open>src/config.go\<close> and \<^verbatim>\<open>src/fluent.go\<close>: transactions with their schema checks,
  the classification of failures and the single retry after a lost connection.

  The connection is a parameter: sending a transaction, connecting again and waiting for the
  back-off act on an arbitrary state of the outside world. \<open>db_rawRow\<close> is the round trip of a row
  through JSON, which uses the encoders of the database library.
\<close>

section \<open>Computations with effects\<close>

definition io_bind :: "('e + 'a) \<times> 'w \<Rightarrow> ('a \<Rightarrow> 'w \<Rightarrow> ('e + 'b) \<times> 'w) \<Rightarrow> ('e + 'b) \<times> 'w" where
  "io_bind m k = (case m of (Inl e, w) \<Rightarrow> (Inl e, w) | (Inr x, w) \<Rightarrow> k x w)"

definition io_guard :: "'e option \<Rightarrow> 'w \<Rightarrow> ('w \<Rightarrow> ('e + 'a) \<times> 'w) \<Rightarrow> ('e + 'a) \<times> 'w" where
  "io_guard c w k = (case c of Some e \<Rightarrow> (Inl e, w) | None \<Rightarrow> k w)"

text \<open>A loop that collects a list, and stops at the first error.\<close>

fun io_collect :: "('w \<Rightarrow> 'a \<Rightarrow> ('e + 'b list) \<times> 'w) \<Rightarrow> 'w \<Rightarrow> 'a list \<Rightarrow> ('e + 'b list) \<times> 'w" where
  "io_collect f w [] = (Inr [], w)"
| "io_collect f w (x # xs) = io_bind (f w x) (\<lambda>ys w. io_bind (io_collect f w xs) (\<lambda>zs w. (Inr (ys @ zs), w)))"

text \<open>Only the error of a computation.\<close>

definition io_check :: "('e + 'a) \<times> 'w \<Rightarrow> 'e option \<times> 'w" where
  "io_check m = (err_of (fst m), snd m)"

lemma io_bind_simps [simp, res_simps]:
  "io_bind (Inl e, w) k = (Inl e, w)"
  "io_bind (Inr x, w) k = k x w"
  by (simp_all add: io_bind_def)

lemma io_guard_simps [simp, res_simps]:
  "io_guard (Some e) w k = (Inl e, w)"
  "io_guard None w k = k w"
  by (simp_all add: io_guard_def)

lemma io_bind_Inr: "io_bind m k = (Inr y, w') \<longleftrightarrow> (\<exists>x w. m = (Inr x, w) \<and> k x w = (Inr y, w'))"
  by (cases m; cases "fst m") auto

section \<open>The client\<close>

record 'w dbClient =
  db_database :: string
  db_schema :: registry
  db_hasExecutor :: "'w \<Rightarrow> bool"
  db_Transact :: "'w \<Rightarrow> Operation list \<Rightarrow> Result list res \<times> 'w"
  db_reconnect :: "('w \<Rightarrow> check \<times> 'w) option"
  db_backoff :: "'w \<Rightarrow> check \<times> 'w"
  db_NewString :: "'w \<Rightarrow> string \<times> 'w"
  db_rawRow :: "row \<Rightarrow> row"

text \<open>
  \<open>db_backoff\<close> waits for the back-off, or returns the error of a context that ends first (at
  once with nil when no back-off is configured).
\<close>

definition reconnectAfterDisconnect :: "'w dbClient \<Rightarrow> 'w \<Rightarrow> string \<Rightarrow> string \<Rightarrow> string \<Rightarrow> check \<times> 'w" where
  "reconnectAfterDisconnect d w tab oper object =
     (case db_reconnect d of
        None \<Rightarrow> (Some (wrap_err ErrorUnavailable (db_database d) tab oper object ''database reconnect is not configured'' None), w)
      | Some reconnect \<Rightarrow>
          (case db_backoff d w of
             (Some e, w) \<Rightarrow> (classifyContext (Some e) (db_database d) tab oper object, w)
           | (None, w) \<Rightarrow>
               (case reconnect w of
                  (None, w) \<Rightarrow> (None, w)
                | (Some e, w) \<Rightarrow>
                    ((if KindOf (Some e) \<noteq> None then Some e
                      else classifyTransactError (Some e) (db_database d) tab ''reconnect'' object), w))))"

definition canRetryTransaction :: "string \<Rightarrow> Operation list \<Rightarrow> bool" where
  "canRetryTransaction oper ops \<longleftrightarrow> ops \<noteq> [] \<and> oper \<noteq> ''create'' \<and> list_all (\<lambda>p. op_Op p \<noteq> ''insert'') ops"

definition validateOperationColumns :: "'w dbClient \<Rightarrow> Operation \<Rightarrow> check" where
  "validateOperationColumns d p =
     (if op_Table p = [] then None
      else let require = (\<lambda>column. RequireColumns (db_schema d) (op_Table p) [column]) in
        then_check (check_all require (range_keys (op_Row p)))
        (then_check (check_all require (op_Columns p))
        (then_check (check_all (\<lambda>m. require (mut_Column m)) (op_Mutations p))
          (RequireConditionColumns (db_schema d) (op_Table p) (op_Where p)))))"

definition validate_operation :: "'w dbClient \<Rightarrow> Operation \<Rightarrow> check" where
  "validate_operation d p =
     then_check (if op_Table p \<noteq> [] then RequireTable (db_schema d) (op_Table p) else None) (validateOperationColumns d p)"

text \<open>What the caller gets for the last answer of the server.\<close>

definition transact_result :: "'w dbClient \<Rightarrow> string \<Rightarrow> string \<Rightarrow> string \<Rightarrow> Result list res \<Rightarrow> Result list res" where
  "transact_result d tab oper object r =
     (case r of
        Inl e \<Rightarrow> Inl (the (classifyTransactError (Some e) (db_database d) tab oper object))
      | Inr results \<Rightarrow>
          guard_res (checkOperationResults (map OperationResult.truncate results) (db_database d) tab oper object) (Inr results))"

definition transact :: "'w dbClient \<Rightarrow> 'w \<Rightarrow> string \<Rightarrow> string \<Rightarrow> string \<Rightarrow> Operation list \<Rightarrow> Result list res \<times> 'w" where
  "transact d w tab oper object ops =
     (if \<not> db_hasExecutor d w
      then (Inl (wrap_err ErrorUnavailable [] tab oper object ''database executor is nil'' None), w)
      else io_guard (check_all (validate_operation d) ops) w (\<lambda>w.
        case db_Transact d w ops of
          (Inr results, w) \<Rightarrow> (transact_result d tab oper object (Inr results), w)
        | (Inl e, w) \<Rightarrow>
            if \<not> (isDisconnectError (Some e) \<and> canRetryTransaction oper ops)
            then (transact_result d tab oper object (Inl e), w)
            else (case reconnectAfterDisconnect d w tab oper object of
                (Some e, w) \<Rightarrow> (Inl e, w)
              | (None, w) \<Rightarrow>
                  if \<not> db_hasExecutor d w
                  then (Inl (wrap_err ErrorUnavailable (db_database d) tab oper object
                              ''database executor is nil after reconnect'' None), w)
                  else (case db_Transact d w ops of (r, w) \<Rightarrow> (transact_result d tab oper object r, w)))))"

definition namedUUID :: "'w dbClient \<Rightarrow> 'w \<Rightarrow> string \<Rightarrow> string \<times> 'w" where
  "namedUUID d w prefix' = (case db_NewString d w of (s, w) \<Rightarrow> (prefix' @ ''_'' @ filter (\<lambda>c. c \<noteq> CHR ''-'') s, w))"

section \<open>Endpoint lists\<close>

text \<open>\<open>splitEndpointList\<close>: the endpoints of a comma-separated list, none of them empty.\<close>

definition splitEndpointList :: "string \<Rightarrow> string list res" where
  "splitEndpointList address =
     res_fold (\<lambda>out part.
       let endpoint = strings_TrimSpace part in
       if endpoint = [] then Inl (ForeignError ''endpoint must not be empty'') else Inr (out @ [endpoint]))
       [] (strings_Split (CHR '','') (strings_TrimSpace address))"

end
