(* ===== verification/Fluent.thy ===== *)
theory Fluent
  imports Db_Client
begin

text \<open>
  The table-level fluent API of \<^verbatim>\<open>src/fluent.go\<close>: references to rows of a table, reading them, and
  builders that create, ensure, update and delete rows; with the parts of \<^verbatim>\<open>src/ovs_runtime.go\<close> that
  it calls for the Open_vSwitch database (the root row and the references of managers).

  The constructors of sets and maps of the database library are a parameter.
\<close>

record ovsdb_lib =
  lib_NewOvsSet :: "any list \<Rightarrow> any list"
  lib_NewOvsMap :: "string_map \<Rightarrow> (any \<times> any) list"

definition ovsSet :: "ovsdb_lib \<Rightarrow> any list \<Rightarrow> any" where
  "ovsSet lib values = ASet (lib_NewOvsSet lib values)"

definition ovsMap :: "ovsdb_lib \<Rightarrow> string_map \<Rightarrow> any" where
  "ovsMap lib values = AMap (lib_NewOvsMap lib values)"

definition tableManager :: string where "tableManager = ''Manager''"
definition tableOpenVSwitch :: string where "tableOpenVSwitch = ''Open_vSwitch''"
definition colManagerOptions :: string where "colManagerOptions = ''manager_options''"

section \<open>References\<close>

record 'w TableRef =
  tr_db :: "'w dbClient option"
  tr_table :: string
  tr_identityColumn :: string
  tr_identityValue :: string
  tr_conditions :: "Condition list"
  tr_defaultMutations :: "Mutation list"

definition newTableRef :: "'w dbClient option \<Rightarrow> string \<Rightarrow> string \<Rightarrow> string \<Rightarrow> 'w TableRef" where
  "newTableRef db tab identityColumn identityValue =
     \<lparr>tr_db = db, tr_table = tab, tr_identityColumn = (if identityColumn = [] then colName else identityColumn),
      tr_identityValue = identityValue, tr_conditions = [], tr_defaultMutations = []\<rparr>"

definition WhereConditions :: "'w TableRef \<Rightarrow> Condition list \<Rightarrow> 'w TableRef" where
  "WhereConditions r conditions = r\<lparr>tr_conditions := tr_conditions r @ conditions\<rparr>"

definition WhereCondition :: "'w TableRef \<Rightarrow> string \<Rightarrow> ConditionFunction \<Rightarrow> any \<Rightarrow> 'w TableRef" where
  "WhereCondition r column fn value = r\<lparr>tr_conditions := tr_conditions r @ [NewCondition column fn value]\<rparr>"

definition Where :: "'w TableRef \<Rightarrow> string \<Rightarrow> any \<Rightarrow> 'w TableRef" where
  "Where r column value = WhereCondition r column ConditionEqual value"

definition withDefaultMap :: "ovsdb_lib \<Rightarrow> 'w TableRef \<Rightarrow> string \<Rightarrow> string_map \<Rightarrow> 'w TableRef" where
  "withDefaultMap lib r column values =
     r\<lparr>tr_defaultMutations := tr_defaultMutations r @ [NewMutation column MutateInsert (ovsMap lib values)]\<rparr>"

definition validateTable :: "'w TableRef \<Rightarrow> string \<Rightarrow> check" where
  "validateTable r oper =
     (case tr_db r of
        None \<Rightarrow> Some (wrap_err ErrorValidation [] [] oper [] ''nil table reference'' None)
      | Some d \<Rightarrow> RequireTable (db_schema d) (tr_table r))"

definition ref_schema :: "'w TableRef \<Rightarrow> registry" where
  "ref_schema r = Option.bind (tr_db r) db_schema"

definition ref_database :: "'w TableRef \<Rightarrow> string" where
  "ref_database r = (case tr_db r of None \<Rightarrow> [] | Some d \<Rightarrow> db_database d)"

definition validateIdentity :: "'w TableRef \<Rightarrow> string \<Rightarrow> check" where
  "validateIdentity r oper =
     then_check (validateTable r oper)
     (if tr_conditions r \<noteq> [] then check_all (\<lambda>c. RequireColumns (ref_schema r) (tr_table r) [cond_Column c]) (tr_conditions r)
      else if blank (tr_identityColumn r) \<or> blank (tr_identityValue r)
      then Some (wrap_err ErrorValidation (ref_database r) (tr_table r) oper (tr_identityValue r) ''identity column and value are required'' None)
      else RequireColumns (ref_schema r) (tr_table r) [tr_identityColumn r])"

definition identityConditions :: "'w TableRef \<Rightarrow> Condition list" where
  "identityConditions r =
     (if tr_identityColumn r = [] \<or> tr_identityValue r = [] then tr_conditions r
      else tr_conditions r @ [NewCondition (tr_identityColumn r) ConditionEqual
        (if tr_identityColumn r = colUUID then AUUID (tr_identityValue r) else AString (tr_identityValue r))])"

text \<open>A transaction through the reference's database.\<close>

definition ref_transact :: "'w TableRef \<Rightarrow> 'w \<Rightarrow> string \<Rightarrow> string \<Rightarrow> string \<Rightarrow> Operation list \<Rightarrow> Result list res \<times> 'w" where
  "ref_transact r w tab oper object ops =
     (case tr_db r of
        None \<Rightarrow> (Inl (wrap_err ErrorUnavailable [] tab oper object ''database client is nil'' None), w)
      | Some d \<Rightarrow> transact d w tab oper object ops)"

definition selectRows :: "'w TableRef \<Rightarrow> 'w \<Rightarrow> Condition list \<Rightarrow> string list \<Rightarrow> row list res \<times> 'w" where
  "selectRows r w where' columns0 =
     io_guard (validateTable r ''select'') w (\<lambda>w.
       let columns = (if columns0 = [] then Columns (ref_schema r) (tr_table r) else columns0) in
       io_guard (if columns \<noteq> [] then RequireColumns (ref_schema r) (tr_table r) columns else None) w (\<lambda>w.
         io_bind (ref_transact r w (tr_table r) ''select'' (tr_identityValue r)
           [(op_of ''select'' (tr_table r))\<lparr>op_Where := where', op_Columns := columns\<rparr>])
         (\<lambda>results w. (Inr (case results of
            [] \<Rightarrow> []
          | res # _ \<Rightarrow> map (case tr_db r of None \<Rightarrow> id | Some d \<Rightarrow> db_rawRow d) (res_Rows res)), w))))"

definition Get :: "'w TableRef \<Rightarrow> 'w \<Rightarrow> row res \<times> 'w" where
  "Get r w =
     io_guard (validateIdentity r ''get'') w (\<lambda>w.
       io_bind (selectRows r w (identityConditions r) []) (\<lambda>rows w.
         case rows of
           [] \<Rightarrow> (Inl (wrap_err ErrorNotFound (ref_database r) (tr_table r) ''get'' (tr_identityValue r) ''row not found'' None), w)
         | row # _ \<Rightarrow> (Inr row, w)))"

definition List_rows :: "'w TableRef \<Rightarrow> 'w \<Rightarrow> row list res \<times> 'w" where
  "List_rows r w =
     io_guard (validateTable r ''list'') w (\<lambda>w.
       io_guard (RequireConditionColumns (ref_schema r) (tr_table r) (identityConditions r)) w (\<lambda>w.
         selectRows r w (identityConditions r) []))"

section \<open>Builders\<close>

datatype tableMode = tableModeCreate | tableModeEnsure | tableModeUpdate | tableModeDelete

fun mode_string :: "tableMode \<Rightarrow> string" where
  "mode_string tableModeCreate = ''create''"
| "mode_string tableModeEnsure = ''ensure''"
| "mode_string tableModeUpdate = ''update''"
| "mode_string tableModeDelete = ''delete''"

record 'w TableBuilder =
  tb_used :: bool
  tb_ref :: "'w TableRef"
  tb_mode :: tableMode
  tb_row :: row
  tb_columns :: "string list"
  tb_mutations :: "Mutation list"

definition newTableBuilder :: "'w TableRef \<Rightarrow> tableMode \<Rightarrow> 'w TableBuilder" where
  "newTableBuilder ref mode =
     \<lparr>tb_used = False, tb_ref = ref, tb_mode = mode, tb_row = fmempty, tb_columns = [], tb_mutations = tr_defaultMutations ref\<rparr>"

definition WithColumn :: "'w TableBuilder \<Rightarrow> string \<Rightarrow> any \<Rightarrow> 'w TableBuilder" where
  "WithColumn b column value = b\<lparr>tb_row := fmupd column value (tb_row b)\<rparr>"

definition WithAddresses :: "ovsdb_lib \<Rightarrow> 'w TableBuilder \<Rightarrow> string list \<Rightarrow> 'w TableBuilder" where
  "WithAddresses lib b addresses = WithColumn b ''addresses'' (ovsSet lib (map AString addresses))"

definition WithNetworks :: "ovsdb_lib \<Rightarrow> 'w TableBuilder \<Rightarrow> string list \<Rightarrow> 'w TableBuilder" where
  "WithNetworks lib b networks = WithColumn b ''networks'' (ovsSet lib (map AString networks))"

definition WithUUIDRef :: "'w TableBuilder \<Rightarrow> string \<Rightarrow> string \<Rightarrow> 'w TableBuilder" where
  "WithUUIDRef b column uuid = WithColumn b column (AUUID uuid)"

definition WithUUIDSet :: "'w TableBuilder \<Rightarrow> string \<Rightarrow> string list \<Rightarrow> 'w TableBuilder" where
  "WithUUIDSet b column uuids = WithColumn b column (uuidSet uuids)"

definition WithOptionalColumn :: "'w TableBuilder \<Rightarrow> string \<Rightarrow> any \<Rightarrow> 'w TableBuilder" where
  "WithOptionalColumn b column value =
     (if HasColumn (ref_schema (tb_ref b)) (tr_table (tb_ref b)) column then WithColumn b column value else b)"

definition add_mutation :: "'w TableBuilder \<Rightarrow> string \<Rightarrow> Mutator \<Rightarrow> any \<Rightarrow> 'w TableBuilder" where
  "add_mutation b column mutator value = b\<lparr>tb_mutations := tb_mutations b @ [NewMutation column mutator value]\<rparr>"

definition MutateMap :: "ovsdb_lib \<Rightarrow> 'w TableBuilder \<Rightarrow> string \<Rightarrow> string_map \<Rightarrow> 'w TableBuilder" where
  "MutateMap lib b column values = (if values = fmempty then b else add_mutation b column MutateInsert (ovsMap lib values))"

definition DeleteMap :: "ovsdb_lib \<Rightarrow> 'w TableBuilder \<Rightarrow> string \<Rightarrow> string_map \<Rightarrow> 'w TableBuilder" where
  "DeleteMap lib b column values = (if values = fmempty then b else add_mutation b column MutateDelete (ovsMap lib values))"

definition MutateSet :: "ovsdb_lib \<Rightarrow> 'w TableBuilder \<Rightarrow> string \<Rightarrow> any list \<Rightarrow> 'w TableBuilder" where
  "MutateSet lib b column values = (if values = [] then b else add_mutation b column MutateInsert (ovsSet lib values))"

definition DeleteSet :: "ovsdb_lib \<Rightarrow> 'w TableBuilder \<Rightarrow> string \<Rightarrow> any list \<Rightarrow> 'w TableBuilder" where
  "DeleteSet lib b column values = (if values = [] then b else add_mutation b column MutateDelete (ovsSet lib values))"

definition MutateUUIDSet :: "ovsdb_lib \<Rightarrow> 'w TableBuilder \<Rightarrow> string \<Rightarrow> string list \<Rightarrow> 'w TableBuilder" where
  "MutateUUIDSet lib b column uuids = MutateSet lib b column (map AUUID uuids)"

definition DeleteUUIDSet :: "ovsdb_lib \<Rightarrow> 'w TableBuilder \<Rightarrow> string \<Rightarrow> string list \<Rightarrow> 'w TableBuilder" where
  "DeleteUUIDSet lib b column uuids = DeleteSet lib b column (map AUUID uuids)"

definition SelectColumns :: "'w TableBuilder \<Rightarrow> string list \<Rightarrow> 'w TableBuilder" where
  "SelectColumns b columns = b\<lparr>tb_columns := columns\<rparr>"

text \<open>\<open>validate\<close> also writes the identity into the row; it returns the error and the builder.\<close>

definition identify :: "'w TableBuilder \<Rightarrow> 'w TableBuilder" where
  "identify b =
     (let r = tb_ref b in
      if tr_identityValue r \<noteq> [] \<and> tr_identityColumn r \<noteq> colUUID
      then b\<lparr>tb_row := fmupd (tr_identityColumn r) (AString (tr_identityValue r)) (tb_row b)\<rparr> else b)"

definition validate_builder :: "'w TableBuilder \<Rightarrow> check \<times> 'w TableBuilder" where
  "validate_builder b =
     (let r = tb_ref b; oper = mode_string (tb_mode b);
          require = (\<lambda>column. RequireColumns (ref_schema r) (tr_table r) [column]);
          c = then_check (validateTable r oper)
              (then_check (if tb_mode b \<noteq> tableModeCreate then validateIdentity r oper else None)
                (if tr_identityValue r \<noteq> [] then validateIdentity r oper else None)) in
      if c \<noteq> None then (c, b)
      else let b = identify b in
        (then_check (check_all require (range_keys (tb_row b)))
         (then_check (check_all (\<lambda>m. require (mut_Column m)) (tb_mutations b))
           (check_all require (tb_columns b))), b))"

definition mergeMutationIntoInsertRow :: "row \<Rightarrow> Mutation \<Rightarrow> row" where
  "mergeMutationIntoInsertRow row m =
     (if mut_Mutator m \<noteq> MutateInsert then row
      else case fmlookup row (mut_Column m) of
        None \<Rightarrow> fmupd (mut_Column m) (mut_Value m) row
      | Some (AMap ps) \<Rightarrow>
          (case mut_Value m of
             AMap qs \<Rightarrow> fmupd (mut_Column m) (AMap (foldl (\<lambda>ps (k, v). AList.update k v ps) ps qs)) row
           | _ \<Rightarrow> row)
      | Some (ASet xs) \<Rightarrow>
          (case mut_Value m of ASet ys \<Rightarrow> fmupd (mut_Column m) (ASet (xs @ ys)) row | _ \<Rightarrow> row)
      | Some _ \<Rightarrow> row)"

definition insert_row :: "'w TableBuilder \<Rightarrow> row" where
  "insert_row b = foldl mergeMutationIntoInsertRow (tb_row b) (tb_mutations b)"

text \<open>
  The maps merged by \<open>mergeMutationIntoInsertRow\<close> are shared: what it writes into the map of a column is
  also seen in the builder's row or, when the column came from a mutation, in that mutation.
\<close>

definition shared_value :: "row \<Rightarrow> string \<Rightarrow> any \<Rightarrow> any" where
  "shared_value final column v = (case v of AMap _ \<Rightarrow> row_get final column | _ \<Rightarrow> v)"

fun share_mutations :: "row \<Rightarrow> string list \<Rightarrow> Mutation list \<Rightarrow> Mutation list" where
  "share_mutations final seen [] = []"
| "share_mutations final seen (m # ms) =
     (if mut_Mutator m = MutateInsert \<and> mut_Column m \<notin> set seen
      then m\<lparr>mut_Value := shared_value final (mut_Column m) (mut_Value m)\<rparr> # share_mutations final (mut_Column m # seen) ms
      else m # share_mutations final seen ms)"

definition after_insert :: "'w TableBuilder \<Rightarrow> 'w TableBuilder" where
  "after_insert b =
     b\<lparr>tb_row := fmmap_keys (shared_value (insert_row b)) (tb_row b),
       tb_mutations := share_mutations (insert_row b) (range_keys (tb_row b)) (tb_mutations b)\<rparr>"

definition tableUUIDPrefix :: "string \<Rightarrow> string" where
  "tableUUIDPrefix tab =
     (let s = filter (\<lambda>c. let n = (of_char c :: nat) in 97 \<le> n \<and> n \<le> 122 \<or> 48 \<le> n \<and> n \<le> 57) (strings_ToLower tab) in
      if s = [] then ''row'' else s)"

text \<open>The transactions of a builder carry its mode and the identity of its row.\<close>

definition builder_transact :: "'w TableBuilder \<Rightarrow> 'w \<Rightarrow> Operation list \<Rightarrow> Result list res \<times> 'w" where
  "builder_transact b w ops =
     ref_transact (tb_ref b) w (tr_table (tb_ref b)) (mode_string (tb_mode b)) (tr_identityValue (tb_ref b)) ops"

definition affected :: "string \<Rightarrow> string \<Rightarrow> 'w TableBuilder \<Rightarrow> Result list \<Rightarrow> int list \<Rightarrow> check" where
  "affected database tab b results idx =
     ensureAffected (map OperationResult.truncate results) idx database tab (mode_string (tb_mode b)) (tr_identityValue (tb_ref b))"

definition executeUpdate :: "'w TableBuilder \<Rightarrow> 'w \<Rightarrow> check \<times> 'w" where
  "executeUpdate b w =
     (let r = tb_ref b;
          row = fmdrop (tr_identityColumn r) (fmdrop colUUID (tb_row b));
          ops = (if tb_row b \<noteq> fmempty \<and> row \<noteq> fmempty
                 then [(op_of ''update'' (tr_table r))\<lparr>op_Where := identityConditions r, op_Row := row\<rparr>] else [])
              @ (if tb_mutations b \<noteq> []
                 then [(op_of ''mutate'' (tr_table r))\<lparr>op_Where := identityConditions r, op_Mutations := tb_mutations b\<rparr>] else [])
      in if ops = [] then (None, w)
         else case builder_transact b w ops of
             (Inl e, w) \<Rightarrow> (Some e, w)
           | (Inr results, w) \<Rightarrow> (affected (ref_database r) (tr_table r) b results (map int [0..<length ops]), w))"

section \<open>The Open_vSwitch root and its managers\<close>

definition openVSwitchUUID :: "'w TableRef \<Rightarrow> 'w \<Rightarrow> string res \<times> 'w" where
  "openVSwitchUUID r w =
     io_bind (ref_transact r w tableOpenVSwitch ''select'' [] [(op_of ''select'' tableOpenVSwitch)\<lparr>op_Columns := [colUUID]\<rparr>])
     (\<lambda>results w.
        case results of
          [] \<Rightarrow> (Inl (wrap_err ErrorNotFound dbOpenVSwitch tableOpenVSwitch ''select'' [] ''Open_vSwitch root row not found'' None), w)
        | res # _ \<Rightarrow>
            (case res_Rows res of
               [] \<Rightarrow> (Inl (wrap_err ErrorNotFound dbOpenVSwitch tableOpenVSwitch ''select'' [] ''Open_vSwitch root row not found'' None), w)
             | row # _ \<Rightarrow>
                 if rowUUIDValue row = []
                 then (Inl (wrap_err ErrorConflict dbOpenVSwitch tableOpenVSwitch ''select'' [] ''Open_vSwitch root UUID missing'' None), w)
                 else (Inr (rowUUIDValue row), w)))"

definition manager_ref_op :: "string \<Rightarrow> Mutator \<Rightarrow> string \<Rightarrow> Operation" where
  "manager_ref_op rootUUID mutator manager =
     (op_of ''mutate'' tableOpenVSwitch)\<lparr>op_Where := conditionUUID rootUUID,
       op_Mutations := [NewMutation colManagerOptions mutator (uuidSet [manager])]\<rparr>"

definition missing_uuid :: "string \<Rightarrow> string \<Rightarrow> 'w TableBuilder \<Rightarrow> go_error" where
  "missing_uuid database tab b =
     wrap_err ErrorConflict database tab (mode_string (tb_mode b)) (tr_identityValue (tb_ref b)) ''row UUID missing'' None"

definition row_not_found :: "string \<Rightarrow> string \<Rightarrow> 'w TableBuilder \<Rightarrow> go_error" where
  "row_not_found database tab b =
     wrap_err ErrorNotFound database tab (mode_string (tb_mode b)) (tr_identityValue (tb_ref b)) ''row not found'' None"

definition identity_rows :: "'w TableBuilder \<Rightarrow> 'w \<Rightarrow> row list res \<times> 'w" where
  "identity_rows b w = selectRows (tb_ref b) w (identityConditions (tb_ref b)) [colUUID]"

definition ensureOVSManagerRootReference :: "'w TableBuilder \<Rightarrow> 'w \<Rightarrow> string \<Rightarrow> check \<times> 'w" where
  "ensureOVSManagerRootReference b w managerUUID =
     (case io_bind (openVSwitchUUID (tb_ref b) w) (\<lambda>rootUUID w.
        ref_transact (tb_ref b) w tableManager (mode_string (tb_mode b)) (tr_identityValue (tb_ref b))
          [manager_ref_op rootUUID MutateInsert managerUUID]) of
        (Inl e, w) \<Rightarrow> (Some e, w)
      | (Inr results, w) \<Rightarrow> (affected dbOpenVSwitch tableManager b results [0], w))"

text \<open>The tail of the two paths that found an existing manager.\<close>

definition adopt_manager :: "'w TableBuilder \<Rightarrow> 'w \<Rightarrow> row \<Rightarrow> check \<times> 'w" where
  "adopt_manager b w row =
     (let i = anyString (row_get row colUUID) in
      if i = [] then (Some (missing_uuid dbOpenVSwitch tableManager b), w)
      else eff_then (ensureOVSManagerRootReference b w i) (executeUpdate b))"

text \<open>The insert of a manager, also when it turns out to exist already.\<close>

definition manager_conflict :: "'w TableBuilder \<Rightarrow> bool \<Rightarrow> go_error \<Rightarrow> 'w \<Rightarrow> check \<times> 'w" where
  "manager_conflict b ensure e w =
     (if ensure \<and> IsKind (Some e) ErrorAlreadyExists
      then (case identity_rows b w of
          (Inl e', w) \<Rightarrow> (Some e', w)
        | (Inr [], w) \<Rightarrow> (Some e, w)
        | (Inr (row # _), w) \<Rightarrow> adopt_manager (after_insert b) w row)
      else (Some e, w))"

definition fresh_name :: "'w TableBuilder \<Rightarrow> string \<Rightarrow> 'w \<Rightarrow> string \<times> 'w" where
  "fresh_name b prefix' w = (case tr_db (tb_ref b) of None \<Rightarrow> ([], w) | Some d \<Rightarrow> namedUUID d w prefix')"

definition create_manager :: "'w TableBuilder \<Rightarrow> bool \<Rightarrow> 'w \<Rightarrow> check \<times> 'w" where
  "create_manager b ensure w =
     (case openVSwitchUUID (tb_ref b) w of
        (Inl e, w) \<Rightarrow> (Some e, w)
      | (Inr rootUUID, w) \<Rightarrow>
          (case fresh_name b ''manager'' w of (managerUUID, w) \<Rightarrow>
             (case builder_transact b w
                [(op_of ''insert'' tableManager)\<lparr>op_UUIDName := managerUUID, op_Row := insert_row b\<rparr>,
                 manager_ref_op rootUUID MutateInsert managerUUID] of
                (Inr results, w) \<Rightarrow> (affected dbOpenVSwitch (tr_table (tb_ref b)) b results [1], w)
              | (Inl e, w) \<Rightarrow> manager_conflict b ensure e w)))"

definition executeOVSManagerCreate :: "'w TableBuilder \<Rightarrow> 'w \<Rightarrow> bool \<Rightarrow> check \<times> 'w" where
  "executeOVSManagerCreate b w ensure =
     (if ensure \<and> identityConditions (tb_ref b) \<noteq> []
      then (case identity_rows b w of
          (Inl e, w) \<Rightarrow> (Some e, w)
        | (Inr (row # _), w) \<Rightarrow> adopt_manager b w row
        | (Inr [], w) \<Rightarrow> create_manager b ensure w)
      else create_manager b ensure w)"

definition create_row :: "'w TableBuilder \<Rightarrow> bool \<Rightarrow> 'w \<Rightarrow> check \<times> 'w" where
  "create_row b ensure w =
     (case fresh_name b (tableUUIDPrefix (tr_table (tb_ref b))) w of (uuidName, w) \<Rightarrow>
        (case builder_transact b w [(op_of ''insert'' (tr_table (tb_ref b)))\<lparr>op_UUIDName := uuidName, op_Row := insert_row b\<rparr>] of
           (Inr _, w) \<Rightarrow> (None, w)
         | (Inl e, w) \<Rightarrow> if ensure \<and> IsKind (Some e) ErrorAlreadyExists then executeUpdate (after_insert b) w else (Some e, w)))"

definition executeCreate :: "'w TableBuilder \<Rightarrow> 'w \<Rightarrow> bool \<Rightarrow> check \<times> 'w" where
  "executeCreate b w ensure =
     (if ref_database (tb_ref b) = dbOpenVSwitch \<and> tr_table (tb_ref b) = tableManager
      then executeOVSManagerCreate b w ensure
      else if ensure \<and> identityConditions (tb_ref b) \<noteq> []
      then (case identity_rows b w of
          (Inl e, w) \<Rightarrow> (Some e, w)
        | (Inr (_ # _), w) \<Rightarrow> executeUpdate b w
        | (Inr [], w) \<Rightarrow> create_row b ensure w)
      else create_row b ensure w)"

section \<open>References to a row that is deleted\<close>

definition ovsUnreferenceUUIDSetOp :: "string \<Rightarrow> string \<Rightarrow> string \<Rightarrow> string \<Rightarrow> Operation" where
  "ovsUnreferenceUUIDSetOp tableName column referrerUUID targetUUID =
     (op_of ''mutate'' tableName)\<lparr>op_Where := conditionUUID referrerUUID,
       op_Mutations := [NewMutation column MutateDelete (uuidSet [targetUUID])]\<rparr>"

definition ovsUnreferenceMapOp :: "ovsdb_lib \<Rightarrow> string \<Rightarrow> string \<Rightarrow> string \<Rightarrow> any list \<Rightarrow> Operation" where
  "ovsUnreferenceMapOp lib tableName column referrerUUID keys =
     (op_of ''mutate'' tableName)\<lparr>op_Where := conditionUUID referrerUUID,
       op_Mutations := [NewMutation column MutateDelete (ovsSet lib keys)]\<rparr>"

definition ovsMapMutationKey :: "any \<Rightarrow> any" where
  "ovsMapMutationKey v =
     (case v of
        AFloat i _ \<Rightarrow> AInt i
      | AList xs \<Rightarrow> (case anyUUIDString v of Some s \<Rightarrow> AUUID s | None \<Rightarrow> v)
      | _ \<Rightarrow> v)"

definition entry_keys :: "(any \<Rightarrow> any) \<Rightarrow> string \<Rightarrow> bool \<Rightarrow> bool \<Rightarrow> any \<times> any \<Rightarrow> any list" where
  "entry_keys key target keyRef valueRef p =
     (if keyRef \<and> anyUUIDString (fst p) = Some target \<or> valueRef \<and> anyUUIDString (snd p) = Some target
      then [key (fst p)] else [])"

text \<open>
  The cases of maps with string keys compare the key itself, so that an empty target would be
  found too; targets are never empty here.
\<close>

definition string_entry :: "string \<Rightarrow> bool \<Rightarrow> bool \<Rightarrow> string \<times> any \<Rightarrow> any list" where
  "string_entry target keyRef valueRef p =
     (if keyRef \<and> fst p = target \<or> valueRef \<and> anyUUIDString (snd p) = Some target then [AString (fst p)] else [])"

definition ovsMapDeleteKeysForUUID :: "any \<Rightarrow> string \<Rightarrow> bool \<Rightarrow> bool \<Rightarrow> any list" where
  "ovsMapDeleteKeysForUUID value targetUUID keyRef valueRef0 =
     (let valueRef = (if \<not> keyRef \<and> \<not> valueRef0 then True else valueRef0) in
      case value of
        AMap ps \<Rightarrow> concat (map (entry_keys ovsMapMutationKey targetUUID keyRef valueRef) ps)
      | AObject m \<Rightarrow> concat (map (string_entry targetUUID keyRef valueRef) m)
      | AList [AString marker, AList pairs] \<Rightarrow>
          if marker = ''map'' then concat (map (entry_keys ovsMapMutationKey targetUUID keyRef valueRef) (concat (map json_pair pairs)))
          else []
      | AStringMap m \<Rightarrow> concat (map (\<lambda>k.
          if keyRef \<and> k = targetUUID \<or> valueRef \<and> go_get m k = targetUUID then [AString k] else []) (range_keys m))
      | _ \<Rightarrow> [])"

text \<open>The work for one column that may refer to the row.\<close>

definition column_cleanup :: "ovsdb_lib \<Rightarrow> 'w dbClient \<Rightarrow> string \<Rightarrow> string \<Rightarrow> string \<Rightarrow> 'w \<Rightarrow> string \<times> referenceColumnInfo
    \<Rightarrow> Operation list res \<times> 'w" where
  "column_cleanup lib d targetTable targetUUID database w p =
     (let (tableName, ref) = p; r = newTableRef (Some d) tableName [] [];
          self = (\<lambda>referrer. tableName = targetTable \<and> referrer = targetUUID);
          referrers = map (\<lambda>row. anyString (row_get row colUUID)) in
      case rc_Kind ref of
        referenceColumnMapUUID \<Rightarrow>
          io_bind (selectRows r w [] [colUUID, rc_Name ref]) (\<lambda>rows w.
            (Inr (concat (map (\<lambda>row.
               let referrer = anyString (row_get row colUUID);
                   deleteKeys = ovsMapDeleteKeysForUUID (row_get row (rc_Name ref)) targetUUID (rc_KeyRef ref) (rc_ValueRef ref)
               in if self referrer \<or> referrer = [] \<or> deleteKeys = [] then []
                  else [ovsUnreferenceMapOp lib tableName (rc_Name ref) referrer deleteKeys]) rows)), w))
      | referenceColumnSetUUID \<Rightarrow>
          io_bind (selectRows r w [NewCondition (rc_Name ref) ConditionIncludes (AUUID targetUUID)] [colUUID]) (\<lambda>rows w.
            (Inr (map (\<lambda>referrer. ovsUnreferenceUUIDSetOp tableName (rc_Name ref) referrer targetUUID)
               (filter (\<lambda>referrer. \<not> self referrer \<and> referrer \<noteq> []) (referrers rows))), w))
      | referenceColumnScalarUUID \<Rightarrow>
          if rc_Reference ref = RefWeak then (Inr [], w)
          else io_bind (selectRows r w [NewCondition (rc_Name ref) ConditionEqual (AUUID targetUUID)] [colUUID]) (\<lambda>rows w.
            (if list_all self (referrers rows) then Inr []
             else Inl (wrap_err ErrorConflict database targetTable ''delete'' targetUUID
                    (''row is still referenced by '' @ tableName @ ''.'' @ rc_Name ref) None), w)))"

definition referenceCleanupOps :: "ovsdb_lib \<Rightarrow> 'w dbClient \<Rightarrow> 'w \<Rightarrow> string \<Rightarrow> string \<Rightarrow> string \<Rightarrow> Operation list res \<times> 'w" where
  "referenceCleanupOps lib d w targetTable targetUUID database =
     (if targetTable = [] \<or> targetUUID = [] \<or> db_schema d = None then (Inr [], w)
      else io_collect (column_cleanup lib d targetTable targetUUID database) w
        (concat (map (\<lambda>tableName. map (Pair tableName) (ReferenceColumnInfos (db_schema d) tableName targetTable))
          (Tables (db_schema d)))))"

section \<open>Deleting\<close>

definition delete_op :: "string \<Rightarrow> string \<Rightarrow> Operation" where
  "delete_op tab i = (op_of ''delete'' tab)\<lparr>op_Where := conditionUUID i\<rparr>"

text \<open>The operations for the rows to delete, and the positions of the deletions among them.\<close>

fun delete_rows :: "('w \<Rightarrow> string \<Rightarrow> Operation list res \<times> 'w) \<Rightarrow> go_error \<Rightarrow> string \<Rightarrow> 'w \<Rightarrow> Operation list \<Rightarrow> int list \<Rightarrow> row list
    \<Rightarrow> (Operation list \<times> int list) res \<times> 'w" where
  "delete_rows refs missing tab w ops idx [] = (Inr (ops, idx), w)"
| "delete_rows refs missing tab w ops idx (row # rows) =
     (let i = anyString (row_get row colUUID) in
      if i = [] then (Inl missing, w)
      else io_bind (refs w i) (\<lambda>refOps w.
        let ops = ops @ refOps @ [delete_op tab i] in
        delete_rows refs missing tab w ops (idx @ [int (length ops) - 1]) rows))"

definition delete_with :: "('w \<Rightarrow> string \<Rightarrow> Operation list res \<times> 'w) \<Rightarrow> string \<Rightarrow> string \<Rightarrow> 'w TableBuilder \<Rightarrow> 'w \<Rightarrow> row list \<Rightarrow> check \<times> 'w" where
  "delete_with refs database tab b w rows =
     (case io_bind (delete_rows refs (missing_uuid database tab b) tab w [] [] rows) (\<lambda>(ops, idx) w.
        io_bind (ref_transact (tb_ref b) w tab (mode_string (tb_mode b)) (tr_identityValue (tb_ref b)) ops) (\<lambda>results w.
          (Inr (results, idx), w))) of
        (Inl e, w) \<Rightarrow> (Some e, w)
      | (Inr (results, idx), w) \<Rightarrow> (affected database tab b results idx, w))"

definition executeOVSManagerDelete :: "'w TableBuilder \<Rightarrow> 'w \<Rightarrow> check \<times> 'w" where
  "executeOVSManagerDelete b w =
     (case validateIdentity (tb_ref b) (mode_string (tb_mode b)) of
        Some e \<Rightarrow> (Some e, w)
      | None \<Rightarrow>
          (case identity_rows b w of
             (Inl e, w) \<Rightarrow> (Some e, w)
           | (Inr [], w) \<Rightarrow> (Some (row_not_found dbOpenVSwitch tableManager b), w)
           | (Inr rows, w) \<Rightarrow>
               (case openVSwitchUUID (tb_ref b) w of
                  (Inl e, w) \<Rightarrow> (Some e, w)
                | (Inr rootUUID, w) \<Rightarrow>
                    delete_with (\<lambda>w i. (Inr [manager_ref_op rootUUID MutateDelete i], w)) dbOpenVSwitch tableManager b w rows)))"

definition cleanup_for :: "ovsdb_lib \<Rightarrow> 'w TableRef \<Rightarrow> string \<Rightarrow> 'w \<Rightarrow> string \<Rightarrow> Operation list res \<times> 'w" where
  "cleanup_for lib r database w i =
     (case tr_db r of None \<Rightarrow> (Inr [], w) | Some d \<Rightarrow> referenceCleanupOps lib d w (tr_table r) i database)"

definition executeOVSDelete :: "ovsdb_lib \<Rightarrow> 'w TableBuilder \<Rightarrow> 'w \<Rightarrow> check \<times> 'w" where
  "executeOVSDelete lib b w =
     (if tr_table (tb_ref b) = tableManager then executeOVSManagerDelete b w
      else case validateIdentity (tb_ref b) (mode_string (tb_mode b)) of
        Some e \<Rightarrow> (Some e, w)
      | None \<Rightarrow>
          (case identity_rows b w of
             (Inl e, w) \<Rightarrow> (Some e, w)
           | (Inr [], w) \<Rightarrow> (Some (row_not_found dbOpenVSwitch (tr_table (tb_ref b)) b), w)
           | (Inr rows, w) \<Rightarrow> delete_with (cleanup_for lib (tb_ref b) dbOpenVSwitch) dbOpenVSwitch (tr_table (tb_ref b)) b w rows))"

definition executeDelete :: "ovsdb_lib \<Rightarrow> 'w TableBuilder \<Rightarrow> 'w \<Rightarrow> check \<times> 'w" where
  "executeDelete lib b w =
     (if ref_database (tb_ref b) = dbOpenVSwitch then executeOVSDelete lib b w
      else case identity_rows b w of
          (Inl e, w) \<Rightarrow> (Some e, w)
        | (Inr [], w) \<Rightarrow> (Some (row_not_found (ref_database (tb_ref b)) (tr_table (tb_ref b)) b), w)
        | (Inr rows, w) \<Rightarrow>
            delete_with (cleanup_for lib (tb_ref b) (ref_database (tb_ref b))) (ref_database (tb_ref b)) (tr_table (tb_ref b)) b w rows)"

definition Table_Execute :: "ovsdb_lib \<Rightarrow> 'w TableBuilder \<Rightarrow> 'w \<Rightarrow> check \<times> 'w TableBuilder \<times> 'w" where
  "Table_Execute lib b w =
     (if tb_used b
      then (Some (wrap_err ErrorValidation (ref_database (tb_ref b)) (tr_table (tb_ref b)) (mode_string (tb_mode b))
                   (tr_identityValue (tb_ref b)) ''builder already executed'' None), b, w)
      else let b = b\<lparr>tb_used := True\<rparr> in
        (case validate_builder b of
           (Some e, b) \<Rightarrow> (Some e, b, w)
         | (None, b) \<Rightarrow>
             (case (case tb_mode b of
                      tableModeCreate \<Rightarrow> executeCreate b w False
                    | tableModeEnsure \<Rightarrow> executeCreate b w True
                    | tableModeUpdate \<Rightarrow> executeUpdate b w
                    | tableModeDelete \<Rightarrow> executeDelete lib b w) of
                (e, w) \<Rightarrow> (e, b, w))))"

end
