(* ===== verification/Fluent_Props.thy ===== *)
theory Fluent_Props
  imports Fluent
begin

text \<open>
  What a builder may send to the server. A client is observed through a relation between states of
  the outside world that is indexed by the number of inserting transactions sent in between; the
  lemmas for every step of a builder are proved once for all such relations, and the
  interpretation is the log of the transactions that were sent.
\<close>

section \<open>Observed clients\<close>

definition has_insert :: "Operation list \<Rightarrow> bool" where
  "has_insert ops \<longleftrightarrow> list_ex (\<lambda>p. op_Op p = ''insert'') ops"

locale observed_client =
  fixes d :: "'w dbClient"
    and R :: "nat \<Rightarrow> 'w \<Rightarrow> 'w \<Rightarrow> bool"
  assumes stays: "R 0 w w"
    and compose: "R m u v \<Longrightarrow> R n v w \<Longrightarrow> R (m + n) u w"
    and weaken: "R m u v \<Longrightarrow> m \<le> n \<Longrightarrow> R n u v"
    and sends: "check_all (validate_operation d) ops = None \<Longrightarrow> db_Transact d u ops = (r, v) \<Longrightarrow> R (of_bool (has_insert ops)) u v"
    and reconnects: "db_reconnect d = Some f \<Longrightarrow> f u = (c, v) \<Longrightarrow> R 0 u v"
    and waits: "db_backoff d u = (c, v) \<Longrightarrow> R 0 u v"
    and draws: "db_NewString d u = (s, v) \<Longrightarrow> R 0 u v"
begin

lemma compose0: "R 0 u v \<Longrightarrow> R n v w \<Longrightarrow> R n u w"
  using compose [of 0 u v n w] by simp

lemma compose0': "R n u v \<Longrightarrow> R 0 v w \<Longrightarrow> R n u w"
  using compose [of n u v 0 w] by simp

lemma idle: "R n w w"
  by (rule weaken [OF stays]) simp

lemma bind0: "R 0 u (snd m) \<Longrightarrow> (\<And>x v. m = (Inr x, v) \<Longrightarrow> R n v (snd (k x v))) \<Longrightarrow> R n u (snd (io_bind m k))"
  by (cases m; cases "fst m") (auto intro: compose0 weaken [of 0])

lemma guarded: "R n u (snd (k u)) \<Longrightarrow> R n u (snd (io_guard c u k))"
  by (cases c) (auto intro: idle)

lemma reconnect_steps: "reconnectAfterDisconnect d u tab oper object = (c, v) \<Longrightarrow> R 0 u v"
proof (cases "db_reconnect d")
  case (Some f)
  obtain c1 u1 where b: "db_backoff d u = (c1, u1)" by (cases "db_backoff d u")
  obtain c2 u2 where f: "f u1 = (c2, u2)" by (cases "f u1")
  assume "reconnectAfterDisconnect d u tab oper object = (c, v)"
  then have "v = u1 \<or> v = u2"
    by (auto simp: reconnectAfterDisconnect_def Some b f split: option.splits if_splits)
  then show ?thesis using waits [OF b] compose0 [OF waits [OF b] reconnects [OF Some f]] by blast
qed (auto simp: reconnectAfterDisconnect_def intro: stays)

text \<open>A transaction inserts at most once: one that inserts is never sent again.\<close>

lemma transact_steps: "R (of_bool (has_insert ops)) u (snd (transact d u tab oper object ops))"
proof (cases "db_hasExecutor d u \<and> check_all (validate_operation d) ops = None")
  case True
  obtain r1 u1 where t1: "db_Transact d u ops = (r1, u1)" by (cases "db_Transact d u ops")
  obtain c u2 where rc: "reconnectAfterDisconnect d u1 tab oper object = (c, u2)"
    by (cases "reconnectAfterDisconnect d u1 tab oper object")
  obtain r3 u3 where t3: "db_Transact d u2 ops = (r3, u3)" by (cases "db_Transact d u2 ops")
  have s1: "R (of_bool (has_insert ops)) u u1" using True by (intro sends [OF _ t1]) simp
  have s2: "R (of_bool (has_insert ops)) u u2" using compose0' [OF s1 reconnect_steps [OF rc]] .
  have s3: "R (of_bool (has_insert ops)) u u3" if "canRetryTransaction oper ops"
  proof -
    have "\<not> has_insert ops" using that by (auto simp: canRetryTransaction_def has_insert_def list_all_iff list_ex_iff)
    then show ?thesis using s2 True sends [OF _ t3] compose0 [of u u2 0 u3] by simp
  qed
  show ?thesis
    using True s1 s2 s3 by (auto simp: transact_def t1 rc t3 split: sum.splits option.splits)
next
  case False
  then show ?thesis
    by (cases "check_all (validate_operation d) ops") (auto simp: transact_def intro: idle)
qed

lemma ref_transact_steps: "tr_db r = Some d \<Longrightarrow> R (of_bool (has_insert ops)) u (snd (ref_transact r u tab oper object ops))"
  by (simp add: ref_transact_def transact_steps)

lemma quiet_transact: "tr_db r = Some d \<Longrightarrow> \<not> has_insert ops \<Longrightarrow> R 0 u (snd (ref_transact r u tab oper object ops))"
  using ref_transact_steps [of r ops u] by simp

lemma op_of_Op [simp]: "op_Op (op_of kind tab) = kind"
  by (simp add: op_of_def)

lemma selectRows_steps: "tr_db r = Some d \<Longrightarrow> R 0 u (snd (selectRows r u where' columns))"
  unfolding selectRows_def Let_def
  by (intro guarded bind0 quiet_transact) (auto simp: has_insert_def intro: stays)

lemma root_steps: "tr_db r = Some d \<Longrightarrow> R 0 u (snd (openVSwitchUUID r u))"
  unfolding openVSwitchUUID_def
  by (intro bind0 quiet_transact) (auto simp: has_insert_def intro: stays split: list.splits)

lemma check_then:
  assumes "R m u (snd r)" "\<And>v. r = (None, v) \<Longrightarrow> R n v (snd (k v))"
  shows "R (m + n) u (snd (eff_then r k))"
  using assms by (cases r; cases "fst r") (auto intro: compose weaken)

lemma update_quiet: "\<not> has_insert ((if a then [(op_of ''update'' tab)\<lparr>op_Where := c, op_Row := row\<rparr>] else [])
    @ (if a' then [(op_of ''mutate'' tab)\<lparr>op_Where := c, op_Mutations := ms\<rparr>] else []))"
  by (simp add: has_insert_def)

lemma quiet_eq: "tr_db r = Some d \<Longrightarrow> \<not> has_insert ops \<Longrightarrow> ref_transact r u tab oper object ops = (x, v) \<Longrightarrow> R 0 u v"
  using quiet_transact [of r ops u tab oper object] by simp

lemma executeUpdate_steps:
  assumes "tr_db (tb_ref b) = Some d"
  shows "R 0 u (snd (executeUpdate b u))"
proof -
  let ?t = "tr_table (tb_ref b)" and ?c = "identityConditions (tb_ref b)"
  let ?row = "fmdrop (tr_identityColumn (tb_ref b)) (fmdrop colUUID (tb_row b))"
  define ops where "ops = (if tb_row b \<noteq> fmempty \<and> ?row \<noteq> fmempty then [(op_of ''update'' ?t)\<lparr>op_Where := ?c, op_Row := ?row\<rparr>] else [])
              @ (if tb_mutations b \<noteq> [] then [(op_of ''mutate'' ?t)\<lparr>op_Where := ?c, op_Mutations := tb_mutations b\<rparr>] else [])"
  obtain r v where t: "builder_transact b u ops = (r, v)" by (cases "builder_transact b u ops")
  have "\<not> has_insert ops" unfolding ops_def by (rule update_quiet)
  then have "R 0 u v" using quiet_eq [OF assms] t unfolding builder_transact_def by blast
  then show ?thesis
    unfolding executeUpdate_def Let_def ops_def [symmetric] t by (cases r) (auto intro: stays)
qed

lemma manager_reference_steps:
  assumes "tr_db (tb_ref b) = Some d"
  shows "R 0 u (snd (ensureOVSManagerRootReference b u i))"
proof -
  let ?m = "io_bind (openVSwitchUUID (tb_ref b) u) (\<lambda>rootUUID w.
      ref_transact (tb_ref b) w tableManager (mode_string (tb_mode b)) (tr_identityValue (tb_ref b))
        [manager_ref_op rootUUID MutateInsert i])"
  have "R 0 u (snd ?m)"
    by (intro bind0 root_steps quiet_transact assms) (simp add: has_insert_def manager_ref_op_def)
  then show ?thesis unfolding ensureOVSManagerRootReference_def by (cases ?m; cases "fst ?m") simp_all
qed

lemma adopt_steps:
  assumes "tr_db (tb_ref b) = Some d"
  shows "R 0 u (snd (adopt_manager b u row))"
proof -
  have "R (0 + 0) u (snd (eff_then (ensureOVSManagerRootReference b u i) (executeUpdate b)))" for i
    by (rule check_then) (rule manager_reference_steps [OF assms], rule executeUpdate_steps [OF assms])
  then show ?thesis by (simp add: adopt_manager_def Let_def stays)
qed

lemma identity_rows_steps: "tr_db (tb_ref b) = Some d \<Longrightarrow> identity_rows b u = (r, v) \<Longrightarrow> R 0 u v"
  using selectRows_steps [of "tb_ref b" u] by (metis identity_rows_def snd_conv)

lemma fresh_steps: "tr_db (tb_ref b) = Some d \<Longrightarrow> fresh_name b p u = (s, v) \<Longrightarrow> R 0 u v"
  by (auto simp: fresh_name_def namedUUID_def split: prod.splits dest: draws)

lemma after_insert_ref [simp]: "tb_ref (after_insert b) = tb_ref b"
  by (simp add: after_insert_def)

text \<open>The insert itself, with what follows it.\<close>

lemma insert_steps:
  assumes d: "tr_db (tb_ref b) = Some d" and u1: "R 0 u u1"
    and t: "builder_transact b u1 ops = (r, v)" and k: "\<And>e. R 0 v (snd (fail e v))" "\<And>x. R 0 v (snd (ok x v))"
  shows "R 1 u (snd (case r of Inl e \<Rightarrow> fail e v | Inr x \<Rightarrow> ok x v))"
proof -
  have "R (of_bool (has_insert ops)) u1 v"
    using ref_transact_steps [OF d, of ops u1] t by (metis builder_transact_def snd_conv)
  then have "R 1 u v" using compose0 [OF u1] weaken [of "of_bool (has_insert ops)" u1 v 1] by simp
  then show ?thesis using k by (cases r) (auto intro: compose0')
qed

lemma create_row_steps:
  assumes "tr_db (tb_ref b) = Some d"
  shows "R 1 u (snd (create_row b ensure u))"
proof -
  let ?t = "tr_table (tb_ref b)"
  obtain name u1 where n: "fresh_name b (tableUUIDPrefix ?t) u = (name, u1)" by (cases "fresh_name b (tableUUIDPrefix ?t) u")
  obtain r v where t: "builder_transact b u1 [(op_of ''insert'' ?t)\<lparr>op_UUIDName := name, op_Row := insert_row b\<rparr>] = (r, v)"
    by fastforce
  let ?fail = "\<lambda>e v. if ensure \<and> IsKind (Some e) ErrorAlreadyExists then executeUpdate (after_insert b) v else (Some e, v)"
  have "create_row b ensure u = (case r of Inl e \<Rightarrow> ?fail e v | Inr _ \<Rightarrow> (None, v))"
    by (simp add: create_row_def n t split: sum.splits)
  moreover have "R 0 v (snd (?fail e v))" for e
    using executeUpdate_steps [of "after_insert b" v] assms stays by simp
  ultimately show ?thesis
    using insert_steps [OF assms fresh_steps [OF assms n] t, of ?fail "\<lambda>_ v. (None, v)"] stays by simp
qed

lemma manager_conflict_steps:
  assumes "tr_db (tb_ref b) = Some d"
  shows "R 0 u (snd (manager_conflict b ensure e u))"
proof -
  obtain r v where i: "identity_rows b u = (r, v)" by (cases "identity_rows b u")
  then have v: "R 0 u v" by (rule identity_rows_steps [OF assms])
  show ?thesis
    using compose0 [OF v adopt_steps [of "after_insert b" v]] v assms stays
    by (auto simp: manager_conflict_def i split: sum.splits list.splits)
qed

lemma create_manager_steps:
  assumes "tr_db (tb_ref b) = Some d"
  shows "R 1 u (snd (create_manager b ensure u))"
proof (cases "openVSwitchUUID (tb_ref b) u")
  case (Pair root u0)
  have u0: "R 0 u u0" using root_steps [OF assms, of u] Pair by simp
  show ?thesis
  proof (cases root)
    case (Inl e)
    then show ?thesis using weaken [OF u0, of 1] by (simp add: create_manager_def Pair)
  next
    case (Inr rootUUID)
    obtain name u1 where n: "fresh_name b ''manager'' u0 = (name, u1)" by (cases "fresh_name b ''manager'' u0")
    obtain r v where t: "builder_transact b u1
        [(op_of ''insert'' tableManager)\<lparr>op_UUIDName := name, op_Row := insert_row b\<rparr>, manager_ref_op rootUUID MutateInsert name] = (r, v)"
      by fastforce
    let ?ok = "\<lambda>results v. (affected dbOpenVSwitch (tr_table (tb_ref b)) b results [1], v)"
    have "create_manager b ensure u = (case r of Inl e \<Rightarrow> manager_conflict b ensure e v | Inr results \<Rightarrow> ?ok results v)"
      by (simp add: create_manager_def Pair Inr n t split: sum.splits)
    then show ?thesis
      using insert_steps [OF assms compose0 [OF u0 fresh_steps [OF assms n]] t, of "manager_conflict b ensure" ?ok]
        manager_conflict_steps [OF assms] stays by simp
  qed
qed

text \<open>Both ways to create look for the row first and then update or insert.\<close>

lemma looked_up_steps:
  assumes "tr_db (tb_ref b) = Some d" "\<And>v. R 1 v (snd (new v))" "\<And>v row. R 0 v (snd (old v row))"
  shows "R 1 u (snd (if c then (case identity_rows b u of
      (Inl e, w) \<Rightarrow> (Some e, w) | (Inr (row # _), w) \<Rightarrow> old w row | (Inr [], w) \<Rightarrow> new w) else new u))"
proof -
  obtain r v where i: "identity_rows b u = (r, v)" by (cases "identity_rows b u")
  have v: "R 0 u v" by (rule identity_rows_steps [OF assms(1) i])
  have "R 1 u (snd (old v row))" for row using compose0 [OF v assms(3)] weaken by fastforce
  moreover have "R 1 u v" by (rule weaken [OF v]) simp
  ultimately show ?thesis
    using assms(2) compose0 [OF v assms(2)] by (auto simp: i split: sum.splits list.splits)
qed

lemma executeCreate_steps:
  assumes "tr_db (tb_ref b) = Some d"
  shows "R 1 u (snd (executeCreate b u ensure))"
proof -
  note manager = looked_up_steps [OF assms, of "create_manager b ensure" "adopt_manager b" u, OF create_manager_steps adopt_steps, OF assms assms]
  note other = looked_up_steps [OF assms, of "create_row b ensure" "\<lambda>w row. executeUpdate b w" u, OF create_row_steps executeUpdate_steps, OF assms assms]
  show ?thesis
  proof (cases "ref_database (tb_ref b) = dbOpenVSwitch \<and> tr_table (tb_ref b) = tableManager")
    case True
    show ?thesis unfolding executeCreate_def executeOVSManagerCreate_def if_P [OF True] by (rule manager)
  next
    case False
    show ?thesis unfolding executeCreate_def if_not_P [OF False] by (rule other)
  qed
qed

lemma newTableRef_db [simp]: "tr_db (newTableRef db tab c v) = db"
  by (simp add: newTableRef_def)

lemma column_cleanup_steps: "R 0 u (snd (column_cleanup lib d tt tu db u p))"
proof -
  have "R 0 u (snd (io_bind (selectRows (newTableRef (Some d) t [] []) u c cols) (\<lambda>x w. (f x, w))))" for t c cols and f :: "row list \<Rightarrow> Operation list res"
    by (intro bind0 selectRows_steps) (simp_all add: stays)
  then show ?thesis
    using stays by (simp add: column_cleanup_def Let_def split: prod.splits referenceColumnKind.splits)
qed

lemma collect_steps: "(\<And>u x. R 0 u (snd (f u x))) \<Longrightarrow> R 0 u (snd (io_collect f u xs))"
proof (induction xs arbitrary: u)
  case (Cons x xs)
  have rest: "R 0 v (snd (io_bind (io_collect f v xs) (\<lambda>zs w. (Inr (ys @ zs), w))))" for v ys
    by (rule bind0 [OF Cons.IH [OF Cons.prems]]) (simp add: stays)
  show ?case unfolding io_collect.simps by (rule bind0 [OF Cons.prems]) (rule rest)
qed (simp add: stays)

lemma cleanup_steps: "tr_db r = Some d \<Longrightarrow> R 0 u (snd (cleanup_for lib r db u i))"
  by (simp add: cleanup_for_def referenceCleanupOps_def stays collect_steps column_cleanup_steps)

text \<open>Deleting sends no insert, provided the operations that remove references contain none.\<close>

lemma has_insert_append [simp]: "has_insert (xs @ ys) \<longleftrightarrow> has_insert xs \<or> has_insert ys"
  by (simp add: has_insert_def)

lemma delete_op_quiet [simp]: "\<not> has_insert [delete_op t i]"
  by (simp add: has_insert_def delete_op_def)

lemma delete_rows_steps:
  assumes "\<And>u i. R 0 u (snd (refs u i))"
  shows "R 0 u (snd (delete_rows refs e t u ops idx rows))"
proof (induction rows arbitrary: u ops idx)
  case (Cons row rows)
  then show ?case unfolding delete_rows.simps Let_def using assms by (auto intro!: bind0 stays)
qed (simp add: stays)

lemma delete_rows_quiet:
  assumes "\<And>u i ops v. refs u i = (Inr ops, v) \<Longrightarrow> \<not> has_insert ops"
  shows "delete_rows refs e t u ops idx rows = (Inr (ops', idx'), v) \<Longrightarrow> \<not> has_insert ops \<Longrightarrow> \<not> has_insert ops'"
proof (induction rows arbitrary: u ops idx)
  case (Cons row rows)
  from Cons.prems obtain refOps w where r: "refs u (anyString (row_get row colUUID)) = (Inr refOps, w)"
    and rest: "delete_rows refs e t w (ops @ refOps @ [delete_op t (anyString (row_get row colUUID))])
      (idx @ [int (length (ops @ refOps @ [delete_op t (anyString (row_get row colUUID))])) - 1]) rows = (Inr (ops', idx'), v)"
    by (auto simp: Let_def io_bind_Inr split: if_splits)
  show ?case using Cons.IH [OF rest] assms [OF r] Cons.prems(2) by simp
qed simp

lemma delete_with_steps:
  assumes "tr_db (tb_ref b) = Some d" "\<And>u i. R 0 u (snd (refs u i))" "\<And>u i ops v. refs u i = (Inr ops, v) \<Longrightarrow> \<not> has_insert ops"
  shows "R 0 u (snd (delete_with refs db t b u rows))"
proof -
  let ?k = "\<lambda>(ops, idx) w. io_bind (ref_transact (tb_ref b) w t (mode_string (tb_mode b)) (tr_identityValue (tb_ref b)) ops)
    (\<lambda>results w. (Inr (results, idx), w))"
  let ?m = "io_bind (delete_rows refs (missing_uuid db t b) t u [] [] rows) ?k"
  have "R 0 v (snd (?k (ops, idx) v))" if "delete_rows refs (missing_uuid db t b) t u [] [] rows = (Inr (ops, idx), v)" for ops idx v
    using delete_rows_quiet [OF assms(3) that]
    by (simp only: prod.case) (intro bind0 quiet_transact assms(1), simp_all add: has_insert_def stays)
  then have "R 0 u (snd ?m)"
    by (intro bind0 delete_rows_steps assms(2)) (metis surj_pair)
  then show ?thesis unfolding delete_with_def by (cases ?m; cases "fst ?m") auto
qed

lemma unreference_quiet [simp]:
  "op_Op (ovsUnreferenceMapOp lib t c r ks) = ''mutate''" "op_Op (ovsUnreferenceUUIDSetOp t c r i) = ''mutate''"
  by (simp_all add: ovsUnreferenceMapOp_def ovsUnreferenceUUIDSetOp_def)

lemma bind_quiet:
  assumes "io_bind m (\<lambda>x w. (f x, w)) = (Inr ops, v)" "\<And>x ops. f x = Inr ops \<Longrightarrow> \<not> has_insert ops"
  shows "\<not> has_insert ops"
  using assms(1) by (cases m; cases "fst m") (auto dest: assms(2))

lemma column_quiet:
  assumes "column_cleanup lib c tt tu db u p = (Inr ops, v)"
  shows "\<not> has_insert ops"
proof (cases "rc_Kind (snd p)")
  case referenceColumnScalarUUID
  show ?thesis
  proof (cases "rc_Reference (snd p) = RefWeak")
    case True
    then show ?thesis using assms referenceColumnScalarUUID by (simp add: column_cleanup_def Let_def has_insert_def split: prod.splits)
  next
    case False
    show ?thesis
      by (rule bind_quiet, rule assms [unfolded column_cleanup_def Let_def split_beta referenceColumnScalarUUID referenceColumnKind.case if_not_P [OF False]])
        (auto simp: has_insert_def split: if_splits)
  qed
next
  case referenceColumnSetUUID
  show ?thesis
    by (rule bind_quiet, rule assms [unfolded column_cleanup_def Let_def split_beta referenceColumnSetUUID referenceColumnKind.case])
      (auto simp: has_insert_def list_ex_iff)
next
  case referenceColumnMapUUID
  show ?thesis
    by (rule bind_quiet, rule assms [unfolded column_cleanup_def Let_def split_beta referenceColumnMapUUID referenceColumnKind.case])
      (auto simp: has_insert_def list_ex_iff split: if_splits)
qed

lemma collect_quiet:
  assumes "\<And>u x ops v. f u x = (Inr ops, v) \<Longrightarrow> \<not> has_insert ops"
  shows "io_collect f u xs = (Inr ops, v) \<Longrightarrow> \<not> has_insert ops"
proof (induction xs arbitrary: u ops)
  case (Cons x xs)
  then show ?case using assms [of _ x] by (auto simp: io_bind_Inr)
qed (simp add: has_insert_def)

lemma cleanup_quiet:
  assumes "cleanup_for lib r db u i = (Inr ops, v)"
  shows "\<not> has_insert ops"
proof (cases "tr_db r")
  case None
  then show ?thesis using assms by (simp add: cleanup_for_def has_insert_def)
next
  case (Some c)
  show ?thesis
  proof (cases "tr_table r = [] \<or> i = [] \<or> db_schema c = None")
    case True
    then show ?thesis using assms Some by (simp add: cleanup_for_def referenceCleanupOps_def has_insert_def)
  next
    case False
    show ?thesis
      by (rule collect_quiet [OF column_quiet], assumption,
        rule assms [unfolded cleanup_for_def Some option.case referenceCleanupOps_def if_not_P [OF False]])
  qed
qed

lemma found_steps:
  assumes "tr_db (tb_ref b) = Some d" "\<And>v row rows. R 0 v (snd (del v (row # rows)))"
  shows "R 0 u (snd (case identity_rows b u of
      (Inl e, w) \<Rightarrow> (Some e, w) | (Inr [], w) \<Rightarrow> (Some e', w) | (Inr (row # rows), w) \<Rightarrow> del w (row # rows)))"
proof -
  obtain r v where i: "identity_rows b u = (r, v)" by (cases "identity_rows b u")
  have v: "R 0 u v" by (rule identity_rows_steps [OF assms(1) i])
  show ?thesis using v compose0 [OF v assms(2)] by (auto simp: i split: sum.splits list.splits)
qed

lemma manager_delete_steps:
  assumes "tr_db (tb_ref b) = Some d"
  shows "R 0 u (snd (executeOVSManagerDelete b u))"
proof -
  let ?refs = "\<lambda>root w i. (Inr [manager_ref_op root MutateDelete i], w)"
  have del: "R 0 v (snd (case openVSwitchUUID (tb_ref b) v of
      (Inl e, w) \<Rightarrow> (Some e, w) | (Inr root, w) \<Rightarrow> delete_with (?refs root) dbOpenVSwitch tableManager b w rows))" for v rows
  proof -
    obtain r w where root: "openVSwitchUUID (tb_ref b) v = (r, w)" by (cases "openVSwitchUUID (tb_ref b) v")
    have w: "R 0 v w" using root_steps [OF assms, of v] root by simp
    have "R 0 w (snd (delete_with (?refs root) dbOpenVSwitch tableManager b w rows))" for root
      by (rule delete_with_steps [OF assms]) (auto simp: stays has_insert_def manager_ref_op_def)
    then show ?thesis using w compose0 [OF w] by (cases r) (simp_all add: root)
  qed
  show ?thesis
  proof (cases "validateIdentity (tb_ref b) (mode_string (tb_mode b))")
    case None
    show ?thesis unfolding executeOVSManagerDelete_def None option.case by (rule found_steps [OF assms del])
  qed (simp add: executeOVSManagerDelete_def stays)
qed

lemma executeDelete_steps:
  assumes "tr_db (tb_ref b) = Some d"
  shows "R 0 u (snd (executeDelete lib b u))"
proof -
  have del: "R 0 v (snd (delete_with (cleanup_for lib (tb_ref b) db) db' t b v rows))" for db db' t v rows
    by (rule delete_with_steps [OF assms cleanup_steps [OF assms] cleanup_quiet])
  show ?thesis
  proof (cases "ref_database (tb_ref b) = dbOpenVSwitch")
    case False
    show ?thesis unfolding executeDelete_def if_not_P [OF False] by (rule found_steps [OF assms del])
  next
    case True
    have "R 0 u (snd (executeOVSDelete lib b u))" if m: "tr_table (tb_ref b) \<noteq> tableManager"
    proof (cases "validateIdentity (tb_ref b) (mode_string (tb_mode b))")
      case None
      show ?thesis unfolding executeOVSDelete_def if_not_P [OF m] None option.case by (rule found_steps [OF assms del])
    qed (simp add: executeOVSDelete_def m stays)
    moreover have "executeOVSDelete lib b u = executeOVSManagerDelete b u" if "tr_table (tb_ref b) = tableManager"
      by (simp add: executeOVSDelete_def that)
    ultimately show ?thesis
      unfolding executeDelete_def if_P [OF True] using manager_delete_steps [OF assms, of u] by metis
  qed
qed

lemma validate_builder_ref [simp]: "tb_ref (snd (validate_builder b)) = tb_ref b" "tb_mode (snd (validate_builder b)) = tb_mode b"
  by (simp_all add: validate_builder_def identify_def Let_def)

text \<open>A whole execution: at most one transaction that inserts, and none for updates and deletions.\<close>

lemma Execute_steps:
  assumes "tr_db (tb_ref b) = Some d"
  shows "R (of_bool (tb_mode b \<in> {tableModeCreate, tableModeEnsure})) u (snd (snd (Table_Execute lib b u)))"
proof -
  let ?b = "b\<lparr>tb_used := True\<rparr>"
  obtain c b' where v: "validate_builder ?b = (c, b')" by (cases "validate_builder ?b")
  then have b': "tr_db (tb_ref b') = Some d" "tb_mode b' = tb_mode b"
    using validate_builder_ref [of ?b] assms by simp_all
  note steps = executeCreate_steps [OF b'(1), of u False] executeCreate_steps [OF b'(1), of u True]
    executeUpdate_steps [OF b'(1), of u] executeDelete_steps [OF b'(1), of u lib]
  show ?thesis
    using steps b'(2) by (cases c; cases "tb_mode b") (auto simp: Table_Execute_def Let_def v idle split_beta)
qed

end

section \<open>The log of a client\<close>

text \<open>The client \<open>d\<close>, with every transaction that reaches the server recorded.\<close>

definition logged :: "'w dbClient \<Rightarrow> ('w \<times> Operation list list) dbClient" where
  "logged d =
     \<lparr>db_database = db_database d, db_schema = db_schema d, db_hasExecutor = (\<lambda>(w, log). db_hasExecutor d w),
      db_Transact = (\<lambda>(w, log) ops. case db_Transact d w ops of (r, w) \<Rightarrow> (r, (w, log @ [ops]))),
      db_reconnect = map_option (\<lambda>f (w, log). case f w of (c, w) \<Rightarrow> (c, (w, log))) (db_reconnect d),
      db_backoff = (\<lambda>(w, log). case db_backoff d w of (c, w) \<Rightarrow> (c, (w, log))),
      db_NewString = (\<lambda>(w, log). case db_NewString d w of (s, w) \<Rightarrow> (s, (w, log))),
      db_rawRow = db_rawRow d\<rparr>"

definition within_schema :: "registry \<Rightarrow> Operation \<Rightarrow> bool" where
  "within_schema s p \<longleftrightarrow> op_Table p = [] \<or> HasTable s (op_Table p)
     \<and> (\<forall>c \<in> set (op_Columns p) \<union> fmdom' (op_Row p) \<union> mut_Column ` set (op_Mutations p) \<union> cond_Column ` set (op_Where p).
          c = [] \<or> HasColumn s (op_Table p) c)"

lemma validate_operation_schema:
  "validate_operation d p = None \<longleftrightarrow> within_schema (db_schema d) p"
  by (auto simp: validate_operation_def validateOperationColumns_def within_schema_def Let_def then_check_None check_all_None
      RequireColumns_None RequireConditionColumns_None)

definition log_grows :: "registry \<Rightarrow> nat \<Rightarrow> 'w \<times> Operation list list \<Rightarrow> 'w \<times> Operation list list \<Rightarrow> bool" where
  "log_grows s n u v \<longleftrightarrow> (\<exists>new. snd v = snd u @ new \<and> (\<forall>ops\<in>set new. \<forall>p\<in>set ops. within_schema s p)
     \<and> length (filter has_insert new) \<le> n)"

interpretation logged: observed_client "logged d" "log_grows (db_schema d)" for d
proof
  fix m n u v w
  assume "log_grows (db_schema d) m u v" "log_grows (db_schema d) n v w"
  then obtain x y where "snd v = snd u @ x" "\<forall>ops\<in>set x. \<forall>p\<in>set ops. within_schema (db_schema d) p" "length (filter has_insert x) \<le> m"
    and "snd w = snd v @ y" "\<forall>ops\<in>set y. \<forall>p\<in>set ops. within_schema (db_schema d) p" "length (filter has_insert y) \<le> n"
    unfolding log_grows_def by blast
  then show "log_grows (db_schema d) (m + n) u w"
    unfolding log_grows_def by (intro exI [of _ "x @ y"]) auto
next
  fix ops r and u v :: "'a \<times> Operation list list"
  assume "check_all (validate_operation (logged d)) ops = None" "db_Transact (logged d) u ops = (r, v)"
  then have "\<forall>p\<in>set ops. within_schema (db_schema d) p" "snd v = snd u @ [ops]"
    by (auto simp: check_all_None validate_operation_schema logged_def split: prod.splits)
  then show "log_grows (db_schema d) (of_bool (has_insert ops)) u v"
    unfolding log_grows_def by (intro exI [of _ "[ops]"]) auto
qed (auto simp: log_grows_def logged_def split: prod.splits)

text \<open>
  C12: Whatever the connection does, executing a builder sends only operations on tables and
  columns of the schema; at most one of the transactions sent inserts rows (one that inserts is
  never repeated, not even after a lost connection), and none when the builder updates or deletes.
\<close>

theorem builder_sends:
  assumes "tr_db (tb_ref b) = Some (logged d)"
  shows "\<exists>new. snd (snd (snd (Table_Execute lib b (w, log)))) = log @ new
    \<and> (\<forall>ops\<in>set new. \<forall>p\<in>set ops. within_schema (db_schema d) p)
    \<and> length (filter has_insert new) \<le> (if tb_mode b \<in> {tableModeCreate, tableModeEnsure} then 1 else 0)"
  using logged.Execute_steps [OF assms, where u = "(w, log)"] by (auto simp: log_grows_def)

section \<open>Example\<close>

text \<open>A database with one table and a server that accepts everything.\<close>

definition demo_lib :: ovsdb_lib where
  "demo_lib = \<lparr>lib_NewOvsSet = (\<lambda>xs. xs), lib_NewOvsMap = (\<lambda>m. map (\<lambda>k. (AString k, AString (go_get m k))) (range_keys m))\<rparr>"

definition demo_registry :: registry where
  "demo_registry = newSchemaRegistry ''DB'' \<lparr>ds_Name = ''DB'', ds_Version = ''1.0.0'',
     ds_Tables = fmap_of_list [(''T'', \<lparr>ts_Columns = fmap_of_list [(''name'', None)], ts_Column = (\<lambda>c. c \<in> {''_uuid'', ''name''})\<rparr>)]\<rparr>"

definition demo_db :: "unit dbClient" where
  "demo_db = \<lparr>db_database = ''DB'', db_schema = demo_registry, db_hasExecutor = (\<lambda>_. True),
     db_Transact = (\<lambda>w ops. (Inr (map (\<lambda>_. \<lparr>Count = 1, ErrorField = [], Details = [], res_Rows = []\<rparr>) ops), w)),
     db_reconnect = None, db_backoff = (\<lambda>w. (None, w)), db_NewString = (\<lambda>w. (''0-0'', w)), db_rawRow = (\<lambda>r. r)\<rparr>"

definition demo_create :: "(unit \<times> Operation list list) TableBuilder" where
  "demo_create = newTableBuilder (newTableRef (Some (logged demo_db)) ''T'' [] ''x'') tableModeCreate"

theorem builder_sends_witness:
  "\<exists>new. snd (snd (snd (Table_Execute demo_lib demo_create ((), [])))) = new
    \<and> list_all (list_all (within_schema demo_registry)) new \<and> length (filter has_insert new) \<le> 1"
  using builder_sends [of demo_create demo_db demo_lib "()" "[]"]
  by (simp add: demo_create_def newTableBuilder_def newTableRef_def demo_db_def list_all_iff)

lemma demo_create_sends:
  "map (map op_Op) (snd (snd (snd (Table_Execute demo_lib demo_create ((), []))))) = [[''insert'']]"
  by code_simp

end
