(* ===== verification/Bridge_Mappings.thy ===== *)
theory Bridge_Mappings
  imports Fluent
begin

text \<open>
  The bridge mappings of \<^verbatim>\<open>src/ovs_runtime.go\<close>: the external id \<open>ovn-bridge-mappings\<close> of the
  Open_vSwitch root row, its text format, and the operations that read, extend and shrink it with
  a compare-and-swap transaction.
\<close>

section \<open>Text format\<close>

definition ovsBridgeMappingsKey :: string where "ovsBridgeMappingsKey = ''ovn-bridge-mappings''"

definition mapping_error :: "ErrorKind \<Rightarrow> string \<Rightarrow> string \<Rightarrow> string \<Rightarrow> go_error" where
  "mapping_error kind oper object message = wrap_err kind dbOpenVSwitch tableOpenVSwitch oper object message None"

definition has_separator :: "string \<Rightarrow> bool" where
  "has_separator s \<longleftrightarrow> CHR '','' \<in> set s \<or> CHR '':'' \<in> set s"

definition validateBridgeMappingPair :: "string \<Rightarrow> string \<Rightarrow> check" where
  "validateBridgeMappingPair physicalNetwork bridge =
     then_check (validateName ''physical network'' physicalNetwork)
     (then_check (validateName ''bridge'' bridge)
       (if has_separator physicalNetwork \<or> has_separator bridge
        then Some (mapping_error ErrorValidation ''validate'' physicalNetwork ''bridge mapping values must not contain comma or colon'')
        else None))"

definition parse_part :: "string_map \<Rightarrow> string \<Rightarrow> string_map res" where
  "parse_part out part0 =
     (let part = strings_TrimSpace part0 in
      if part = [] then Inr out
      else case strings_Split (CHR '':'') part of
          [a, b] \<Rightarrow>
            if blank a \<or> blank b then Inl (mapping_error ErrorConflict ''parse'' ovsBridgeMappingsKey ''invalid ovn bridge mapping'')
            else let physicalNetwork = strings_TrimSpace a; bridge = strings_TrimSpace b in
              if fmlookup out physicalNetwork \<noteq> None
              then Inl (mapping_error ErrorConflict ''parse'' ovsBridgeMappingsKey ''duplicate physical network bridge mapping'')
              else guard_res (validateBridgeMappingPair physicalNetwork bridge) (Inr (fmupd physicalNetwork bridge out))
        | _ \<Rightarrow> Inl (mapping_error ErrorConflict ''parse'' ovsBridgeMappingsKey ''invalid ovn bridge mapping''))"

definition ParseBridgeMappings :: "string \<Rightarrow> string_map res" where
  "ParseBridgeMappings raw0 =
     (let raw = strings_TrimSpace raw0 in
      if raw = [] then Inr fmempty else res_fold parse_part fmempty (strings_Split (CHR '','') raw))"

definition FormatBridgeMappings :: "string_map \<Rightarrow> string" where
  "FormatBridgeMappings mappings =
     strings_Join (map (\<lambda>key. key @ '':'' @ go_get mappings key)
       (filter (\<lambda>key. \<not> (key = [] \<or> go_get mappings key = [])) (range_keys mappings))) '',''"

section \<open>The root row\<close>

record OpenVSwitch =
  vs_UUID :: string
  vs_Bridges :: "string list"
  vs_Managers :: "string list"
  vs_SSL :: "string option"
  vs_ExternalIDs :: string_map
  vs_OtherConfig :: string_map

definition colExternalIDs :: string where "colExternalIDs = ''external_ids''"

definition root_of_row :: "row \<Rightarrow> OpenVSwitch" where
  "root_of_row row =
     \<lparr>vs_UUID = rowUUIDValue row, vs_Bridges = rowUUIDSliceValue row ''bridges'',
      vs_Managers = rowUUIDSliceValue row colManagerOptions, vs_SSL = rowOptionalUUIDValue row ''ssl'',
      vs_ExternalIDs = rowStringMapValue row colExternalIDs, vs_OtherConfig = rowStringMapValue row ''other_config''\<rparr>"

definition GetOpenVSwitch :: "'w dbClient option \<Rightarrow> 'w \<Rightarrow> OpenVSwitch res \<times> 'w" where
  "GetOpenVSwitch db w =
     (case db of
        None \<Rightarrow> (Inl ErrBackendUnavailable, w)
      | Some d \<Rightarrow>
          io_bind (transact d w tableOpenVSwitch ''get'' [] [(op_of ''select'' tableOpenVSwitch)\<lparr>op_Columns :=
             existingColumns (db_schema d) tableOpenVSwitch
               [colUUID, ''bridges'', colManagerOptions, ''ssl'', colExternalIDs, ''other_config'']\<rparr>])
          (\<lambda>results w.
             case concat (map res_Rows (take 1 results)) of
               [] \<Rightarrow> (Inl (mapping_error ErrorNotFound ''get'' [] ''Open_vSwitch root row not found''), w)
             | row # _ \<Rightarrow>
                 (Inr (root_of_row row), w)))"

definition root_mappings :: "OpenVSwitch \<Rightarrow> string_map res" where
  "root_mappings root = ParseBridgeMappings (go_get (vs_ExternalIDs root) ovsBridgeMappingsKey)"

definition GetBridgeMappings :: "'w dbClient option \<Rightarrow> 'w \<Rightarrow> string_map res \<times> 'w" where
  "GetBridgeMappings db w = io_bind (GetOpenVSwitch db w) (\<lambda>root w. (root_mappings root, w))"

text \<open>The transaction waits until the external ids are those that were read (with timeout 0: or fails).\<close>

definition cas_ops :: "ovsdb_lib \<Rightarrow> OpenVSwitch \<Rightarrow> Mutation list \<Rightarrow> Operation list" where
  "cas_ops lib root mutations =
     [(op_of ''wait'' tableOpenVSwitch)\<lparr>op_Where := conditionUUID (vs_UUID root), op_Columns := [colExternalIDs], op_Until := ''=='',
        op_Rows := [fmupd colExternalIDs (ovsMap lib (vs_ExternalIDs root)) fmempty]\<rparr>,
      (op_of ''mutate'' tableOpenVSwitch)\<lparr>op_Where := conditionUUID (vs_UUID root), op_Mutations := mutations\<rparr>]"

definition mutateOpenVSwitchExternalIDsCAS :: "ovsdb_lib \<Rightarrow> 'w dbClient option \<Rightarrow> 'w \<Rightarrow> OpenVSwitch \<Rightarrow> string \<Rightarrow> string \<Rightarrow> Mutation list
    \<Rightarrow> check \<times> 'w" where
  "mutateOpenVSwitchExternalIDsCAS lib db w root oper object mutations =
     (case db of
        None \<Rightarrow> (Some ErrBackendUnavailable, w)
      | Some d \<Rightarrow>
          if vs_UUID root = [] then (Some (mapping_error ErrorConflict oper object ''Open_vSwitch root UUID missing''), w)
          else if mutations = [] then (None, w)
          else (case transact d w tableOpenVSwitch oper object (cas_ops lib root mutations) of
              (Inl e, w) \<Rightarrow> (Some e, w)
            | (Inr results, w) \<Rightarrow>
                (ensureAffected (map OperationResult.truncate results) [1] dbOpenVSwitch tableOpenVSwitch oper object, w)))"

definition ovsMapKeys :: "ovsdb_lib \<Rightarrow> string list \<Rightarrow> any" where
  "ovsMapKeys lib keys = ovsSet lib (map AString (uniqueStrings keys))"

definition mapping_mutations :: "ovsdb_lib \<Rightarrow> string_map \<Rightarrow> Mutation list" where
  "mapping_mutations lib mappings =
     (let formatted = FormatBridgeMappings mappings in
      [NewMutation colExternalIDs MutateDelete (ovsMapKeys lib [ovsBridgeMappingsKey])]
      @ (if formatted \<noteq> [] then [NewMutation colExternalIDs MutateInsert (ovsMap lib (fmupd ovsBridgeMappingsKey formatted fmempty))]
         else []))"

definition replaceBridgeMappings :: "ovsdb_lib \<Rightarrow> 'w dbClient option \<Rightarrow> 'w \<Rightarrow> OpenVSwitch \<Rightarrow> string_map \<Rightarrow> check \<times> 'w" where
  "replaceBridgeMappings lib db w root mappings =
     (if vs_UUID root = [] then (Some (mapping_error ErrorConflict ''update'' [] ''Open_vSwitch root UUID missing''), w)
      else mutateOpenVSwitchExternalIDsCAS lib db w root ''update'' (vs_UUID root) (mapping_mutations lib mappings))"

definition EnsureBridgeMapping :: "ovsdb_lib \<Rightarrow> 'w dbClient option \<Rightarrow> 'w \<Rightarrow> string \<Rightarrow> string \<Rightarrow> check \<times> 'w" where
  "EnsureBridgeMapping lib db w physicalNetwork bridge =
     (case validateBridgeMappingPair physicalNetwork bridge of
        Some e \<Rightarrow> (Some e, w)
      | None \<Rightarrow>
          (case io_bind (GetOpenVSwitch db w) (\<lambda>root w. (map_sum id (Pair root) (root_mappings root), w)) of
             (Inl e, w) \<Rightarrow> (Some e, w)
           | (Inr (root, mappings), w) \<Rightarrow>
               let current = go_get mappings physicalNetwork in
               if current \<noteq> [] \<and> current \<noteq> bridge
               then (Some (mapping_error ErrorOwnershipViolation ''ensure'' physicalNetwork ''bridge mapping already points at another bridge''), w)
               else replaceBridgeMappings lib db w root (fmupd physicalNetwork bridge mappings)))"

definition DeleteBridgeMapping :: "ovsdb_lib \<Rightarrow> 'w dbClient option \<Rightarrow> 'w \<Rightarrow> string \<Rightarrow> string \<Rightarrow> check \<times> 'w" where
  "DeleteBridgeMapping lib db w physicalNetwork bridge =
     (case validateName ''physical network'' physicalNetwork of
        Some e \<Rightarrow> (Some e, w)
      | None \<Rightarrow>
          (case io_bind (GetOpenVSwitch db w) (\<lambda>root w. (map_sum id (Pair root) (root_mappings root), w)) of
             (Inl e, w) \<Rightarrow> (Some e, w)
           | (Inr (root, mappings), w) \<Rightarrow>
               let current = go_get mappings physicalNetwork in
               if current = []
               then (Some (mapping_error ErrorNotFound ''delete'' physicalNetwork ''bridge mapping not found''), w)
               else if bridge \<noteq> [] \<and> current \<noteq> bridge
               then (Some (mapping_error ErrorOwnershipViolation ''delete'' physicalNetwork ''bridge mapping points at another bridge''), w)
               else replaceBridgeMappings lib db w root (fmdrop physicalNetwork mappings)))"

section \<open>The text format reads back\<close>

lemma TrimSpace_lead:
  assumes "strings_TrimSpace s = s"
  shows "lead_len space_runes s = 0" "lead_len (map rev space_runes) (rev s) = 0"
proof -
  have pos: "length (strip_lead qs t) < length t" if "lead_len qs t \<noteq> 0" for qs t
    using strip_lead_length [of qs "drop (lead_len qs t) t"] lead_len_prefix [OF that] that
    by (auto simp: strip_lead_go [OF that] length_greater_0_conv [symmetric] simp del: length_greater_0_conv)
  have len: "length s \<le> length (strip_lead space_runes s)"
    using strip_lead_length [of "map rev space_runes" "rev (strip_lead space_runes s)"] assms
    by (metis length_rev strings_TrimSpace_def)
  show 1: "lead_len space_runes s = 0" using len pos by fastforce
  then have "rev (strip_lead (map rev space_runes) (rev s)) = s" using assms by (simp add: strings_TrimSpace_def strip_lead_stop)
  then show "lead_len (map rev space_runes) (rev s) = 0" using pos [of "map rev space_runes" "rev s"] by (metis length_rev less_irrefl)
qed

lemma lead_len_append:
  assumes "lead_len qs a = 0" "plain_byte c" "\<And>q. q \<in> set qs \<Longrightarrow> q \<noteq> [] \<and> \<not> (\<exists>x\<in>set q. plain_byte x)"
  shows "lead_len qs (a @ c # s) = 0"
proof (rule ccontr)
  assume "lead_len qs (a @ c # s) \<noteq> 0"
  then obtain q t where q: "q \<in> set qs" "a @ c # s = q @ t" using lead_len_prefix by blast
  have "length q \<le> length a"
  proof (rule ccontr)
    assume "\<not> length q \<le> length a"
    then have "(a @ c # s) ! length a \<in> set q" unfolding q(2) by (simp add: nth_append)
    then show False using assms(2) assms(3) [OF q(1)] by (simp add: nth_append)
  qed
  then have "strings_HasPrefix a q" using q(2) by (metis append_eq_append_conv_if strings_HasPrefix_def)
  then obtain p where p: "find (strings_HasPrefix a) qs = Some p" using q(1) by (cases "find (strings_HasPrefix a) qs") (auto simp: find_None_iff)
  then have "p \<in> set qs" by (auto simp: find_Some_iff dest: nth_mem)
  then show False using p assms(1) assms(3) [of p] by (simp add: lead_len_def)
qed

lemma rune_facts:
  "q \<in> set space_runes \<Longrightarrow> q \<noteq> [] \<and> \<not> (\<exists>x\<in>set q. plain_byte x)"
  "q \<in> set (map rev space_runes) \<Longrightarrow> q \<noteq> [] \<and> \<not> (\<exists>x\<in>set q. plain_byte x)"
  using space_runes_no_plain space_runes_not_plain by auto

lemma TrimSpace_joined:
  assumes "lead_len space_runes a = 0" "lead_len (map rev space_runes) (rev b) = 0" "plain_byte c" "plain_byte c'"
  shows "strings_TrimSpace (a @ c # m @ c' # b) = a @ c # m @ c' # b" "strings_TrimSpace (a @ c # b) = a @ c # b"
proof -
  note l = lead_len_append [OF assms(1,3) rune_facts(1)] and r = lead_len_append [OF assms(2) _ rune_facts(2)]
  show "strings_TrimSpace (a @ c # m @ c' # b) = a @ c # m @ c' # b"
    using l [of "m @ c' # b"] r [OF assms(4), of "rev m @ c # rev a"] by (simp add: strings_TrimSpace_def strip_lead_stop)
  show "strings_TrimSpace (a @ c # b) = a @ c # b"
    using l [of b] r [OF assms(3), of "rev a"] by (simp add: strings_TrimSpace_def strip_lead_stop)
qed

lemma Split_last: "sep \<notin> set s \<Longrightarrow> strings_Split sep s = [s]"
  by (induction s) auto

lemma Split_append: "sep \<notin> set s \<Longrightarrow> strings_Split sep (s @ sep # t) = s # strings_Split sep t"
  by (induction s) auto

lemma Split_Join:
  assumes "ps \<noteq> []" "\<And>p. p \<in> set ps \<Longrightarrow> sep \<notin> set p"
  shows "strings_Split sep (strings_Join ps [sep]) = ps"
  using assms by (induction ps "[sep]" rule: strings_Join.induct) (auto simp: Split_last Split_append)

text \<open>Names that survive: not empty, nothing to trim, no separator.\<close>

definition clean_name :: "string \<Rightarrow> bool" where
  "clean_name s \<longleftrightarrow> s \<noteq> [] \<and> strings_TrimSpace s = s \<and> \<not> has_separator s"

lemma plain_separators: "plain_byte (CHR '':'')" "plain_byte (CHR '','')"
  by (simp_all add: plain_byte_def)

lemma parse_part_pair:
  assumes "clean_name a" "clean_name b" "fmlookup out a = None"
  shows "parse_part out (a @ '':'' @ b) = Inr (fmupd a b out)"
proof -
  have "strings_TrimSpace (a @ '':'' @ b) = a @ '':'' @ b"
    using TrimSpace_joined(2) [OF TrimSpace_lead(1) TrimSpace_lead(2), of a b "CHR '':''"] assms(1,2) plain_separators
    by (simp add: clean_name_def)
  moreover have "strings_Split (CHR '':'') (a @ '':'' @ b) = [a, b]"
    using assms(1,2) by (simp add: clean_name_def has_separator_def Split_append Split_last)
  moreover have "validateBridgeMappingPair a b = None"
    using assms(1,2) by (simp add: clean_name_def validateBridgeMappingPair_def then_check_None validateName_def blank_def)
  ultimately show ?thesis
    using assms unfolding parse_part_def Let_def by (simp add: clean_name_def blank_def)
qed

lemma parse_pairs:
  assumes "distinct ks" "\<And>k. k \<in> set ks \<Longrightarrow> clean_name k \<and> clean_name (f k) \<and> fmlookup out k = None"
  shows "res_fold parse_part out (map (\<lambda>k. k @ '':'' @ f k) ks) = Inr (foldl (\<lambda>m k. fmupd k (f k) m) out ks)"
  using assms
proof (induction ks arbitrary: out)
  case (Cons k ks)
  have "parse_part out (k @ '':'' @ f k) = Inr (fmupd k (f k) out)" using Cons.prems by (intro parse_part_pair) auto
  moreover have "fmlookup (fmupd k (f k) out) k' = None" if "k' \<in> set ks" for k' using that Cons.prems by auto
  ultimately show ?case using Cons.IH [of "fmupd k (f k) out"] Cons.prems by auto
qed simp

lemma lead_Join:
  assumes "ps \<noteq> []" "lead_len space_runes (hd ps) = 0" "lead_len (map rev space_runes) (rev (last ps)) = 0" "length ps \<noteq> 1"
  shows "strings_TrimSpace (strings_Join ps '','') = strings_Join ps '',''"
proof -
  have "\<exists>m. strings_Join ps '','' = hd ps @ CHR '','' # m @ last ps \<and> (m = [] \<or> last m = CHR '','')"
    if "ps \<noteq> []" "length ps \<noteq> 1"
    using that
  proof (induction ps "'',''" rule: strings_Join.induct)
    case (3 x y ys)
    show ?case
    proof (cases ys)
      case Nil
      then show ?thesis by (auto intro: exI [of _ "[]"])
    next
      case (Cons z zs)
      then obtain m where m: "strings_Join (y # ys) '','' = y @ CHR '','' # m @ last (y # ys)" "m = [] \<or> last m = CHR '',''"
        using 3 by auto
      then show ?thesis by (intro exI [of _ "y @ CHR '','' # m"]) (auto simp: Cons)
    qed
  qed auto
  then obtain m where m: "strings_Join ps '','' = hd ps @ CHR '','' # m @ last ps" "m = [] \<or> last m = CHR '',''"
    using assms by blast
  show ?thesis
  proof (cases "m = []")
    case True
    then show ?thesis using TrimSpace_joined(2) [OF assms(2,3) plain_separators(2,2)] m(1) by simp
  next
    case False
    then have "m = butlast m @ [CHR '','']" using m(2) by (metis append_butlast_last_id)
    then show ?thesis
      using TrimSpace_joined(1) [OF assms(2,3) plain_separators(2,2), of "butlast m"] m(1) by (metis append.assoc append_Cons append_Nil)
  qed
qed

lemma lead_pair:
  assumes "clean_name a" "clean_name b"
  shows "lead_len space_runes (a @ '':'' @ b) = 0" "lead_len (map rev space_runes) (rev (a @ '':'' @ b)) = 0"
  using lead_len_append [OF TrimSpace_lead(1) plain_separators(1) rune_facts(1), of a b]
    lead_len_append [OF TrimSpace_lead(2) plain_separators(1) rune_facts(2), of b "rev a"] assms
  by (simp_all add: clean_name_def)

lemma bridge_mappings_read_back:
  assumes "\<And>k v. fmlookup m k = Some v \<Longrightarrow> clean_name k \<and> clean_name v"
  shows "ParseBridgeMappings (FormatBridgeMappings m) = Inr m"
proof -
  define part where "part k = k @ '':'' @ go_get m k" for k
  have clean: "clean_name k \<and> clean_name (go_get m k)" if "k \<in> set (range_keys m)" for k
    using that assms by (auto simp: go_get_def fmlookup_dom'_iff)
  have "filter (\<lambda>key. \<not> (key = [] \<or> go_get m key = [])) (range_keys m) = range_keys m"
    unfolding filter_id_conv using clean by (auto simp: clean_name_def)
  then have format: "FormatBridgeMappings m = strings_Join (map part (range_keys m)) '',''"
    by (simp add: FormatBridgeMappings_def part_def [abs_def])
  show ?thesis
  proof (cases "range_keys m = []")
    case True
    then have "m = fmempty" by (metis set_range_keys empty_set fmdom'_alt_def fset_of_list.abs_eq bot_fset.rep_eq fmrestrict_fset_dom fmrestrict_fset_null fset_inverse)
    then show ?thesis by (simp add: FormatBridgeMappings_def ParseBridgeMappings_def strings_TrimSpace_def)
  next
    case False
    have trim: "strings_TrimSpace (strings_Join (map part (range_keys m)) '','') = strings_Join (map part (range_keys m)) '',''"
    proof (cases "length (map part (range_keys m)) = 1")
      case True
      then obtain k where k: "range_keys m = [k]" by (auto simp: length_Suc_conv)
      then show ?thesis
        using TrimSpace_joined(2) [OF TrimSpace_lead(1) TrimSpace_lead(2) plain_separators(1,1), of k "go_get m k"] clean [of k]
        by (simp add: part_def clean_name_def)
    next
      case len: False
      have "hd (range_keys m) \<in> set (range_keys m)" "last (range_keys m) \<in> set (range_keys m)"
        using False by (rule hd_in_set, rule last_in_set)
      then show ?thesis
        using False len clean lead_pair unfolding part_def by (intro lead_Join) (auto simp: hd_map last_map)
    qed
    have "strings_Split (CHR '','') (strings_Join (map part (range_keys m)) '','') = map part (range_keys m)"
      using False clean by (intro Split_Join) (auto simp: part_def clean_name_def has_separator_def)
    moreover have "strings_Join (map part (range_keys m)) '','' \<noteq> []"
      using False by (cases "range_keys m"; cases "tl (range_keys m)") (auto simp: part_def)
    moreover have "res_fold parse_part fmempty (map part (range_keys m)) = Inr (foldl (\<lambda>out k. fmupd k (go_get m k) out) fmempty (range_keys m))"
      unfolding part_def using clean by (intro parse_pairs) auto
    moreover have "foldl (\<lambda>out k. fmupd k (go_get m k) out) fmempty (range_keys m) = m"
      by (rule fmap_ext) (auto simp: foldl_fmupd_lookup go_get_def fmlookup_dom'_iff)
    ultimately show ?thesis by (simp add: ParseBridgeMappings_def format trim)
  qed
qed

lemma strip_lead_done: "lead_len qs (strip_lead qs s) = 0"
proof (induction qs s rule: strip_lead.induct)
  case (1 qs s)
  then show ?case by (cases "lead_len qs s = 0") (auto simp: strip_lead_stop strip_lead_go)
qed

lemma TrimSpace_idem: "strings_TrimSpace (strings_TrimSpace s) = strings_TrimSpace s"
proof -
  define t where "t = strip_lead space_runes s"
  define u where "u = strip_lead (map rev space_runes) (rev t)"
  have t: "lead_len space_runes t = 0" and u: "lead_len (map rev space_runes) u = 0"
    unfolding t_def u_def by (rule strip_lead_done)+
  have suffix: "\<exists>v. r = v @ strip_lead qs r" for qs r
  proof (induction qs r rule: strip_lead.induct)
    case (1 qs r)
    show ?case
    proof (cases "lead_len qs r = 0")
      case False
      then obtain v where "drop (lead_len qs r) r = v @ strip_lead qs r" using 1 by (auto simp: strip_lead_go)
      then have "r = (take (lead_len qs r) r @ v) @ strip_lead qs r" by (metis append.assoc append_take_drop_id)
      then show ?thesis by blast
    qed (simp add: strip_lead_stop)
  qed
  obtain v where "rev t = v @ u" using suffix [of "rev t" "map rev space_runes"] unfolding u_def by blast
  then have tv: "t = rev u @ rev v" by (metis rev_append rev_rev_ident)
  have "lead_len space_runes (rev u) = 0"
  proof (rule ccontr)
    assume "lead_len space_runes (rev u) \<noteq> 0"
    then obtain q r where q: "q \<in> set space_runes" "rev u = q @ r" using lead_len_prefix by blast
    then have "strings_HasPrefix t q" by (simp add: tv)
    then obtain p where p: "find (strings_HasPrefix t) space_runes = Some p"
      using q(1) by (cases "find (strings_HasPrefix t) space_runes") (auto simp: find_None_iff)
    then have "p \<in> set space_runes" by (auto simp: find_Some_iff dest: nth_mem)
    then show False using p t rune_facts(1) [of p] by (simp add: lead_len_def)
  qed
  then show ?thesis using u by (simp add: strings_TrimSpace_def t_def [symmetric] u_def [symmetric] strip_lead_stop)
qed

text \<open>What parsing accepts is clean.\<close>

lemma pair_valid: "validateBridgeMappingPair a b = None \<longleftrightarrow> \<not> blank a \<and> \<not> blank b \<and> \<not> has_separator a \<and> \<not> has_separator b"
  by (auto simp: validateBridgeMappingPair_def then_check_None validateName_def)

lemma parse_part_clean:
  assumes "parse_part out part = Inr out'" "\<And>k v. fmlookup out k = Some v \<Longrightarrow> clean_name k \<and> clean_name v" "fmlookup out' k = Some v"
  shows "clean_name k \<and> clean_name v"
proof -
  have "out' = out \<or> (\<exists>a b. validateBridgeMappingPair (strings_TrimSpace a) (strings_TrimSpace b) = None
      \<and> out' = fmupd (strings_TrimSpace a) (strings_TrimSpace b) out)"
    using assms(1) by (auto simp: parse_part_def Let_def guard_res_Inr split: if_splits list.splits)
  then show ?thesis
  proof (elim disjE exE conjE)
    assume "out' = out"
    then show ?thesis using assms(2,3) by simp
  next
    fix a b
    assume v: "validateBridgeMappingPair (strings_TrimSpace a) (strings_TrimSpace b) = None"
      and out': "out' = fmupd (strings_TrimSpace a) (strings_TrimSpace b) out"
    have "clean_name (strings_TrimSpace a)" "clean_name (strings_TrimSpace b)"
      using v by (auto simp: pair_valid clean_name_def TrimSpace_idem)
    then show ?thesis using assms(2) [of k v] assms(3) unfolding out' by (cases "strings_TrimSpace a = k") auto
  qed
qed

lemma Parse_clean:
  assumes "ParseBridgeMappings raw = Inr m" "fmlookup m k = Some v"
  shows "clean_name k \<and> clean_name v"
proof (cases "strings_TrimSpace raw = []")
  case True
  then show ?thesis using assms by (simp add: ParseBridgeMappings_def)
next
  case False
  then have "res_fold parse_part fmempty (strings_Split (CHR '','') (strings_TrimSpace raw)) = Inr m"
    using assms(1) by (simp add: ParseBridgeMappings_def)
  then have "\<forall>k v. fmlookup m k = Some v \<longrightarrow> clean_name k \<and> clean_name v"
    by (rule res_fold_inv) (auto dest: parse_part_clean)
  then show ?thesis using assms(2) by blast
qed

section \<open>Properties\<close>

text \<open>
  Bridge mappings written as text read back: for names that are not empty, have no white
  space at their ends and no comma or colon, parsing the formatted text gives the same mappings.
\<close>

theorem bridge_mappings_roundtrip:
  assumes "\<And>k v. fmlookup m k = Some v \<Longrightarrow> clean_name k \<and> clean_name v"
  shows "ParseBridgeMappings (FormatBridgeMappings m) = Inr m"
  by (rule bridge_mappings_read_back [OF assms])

definition demo_mappings :: string_map where
  "demo_mappings = fmap_of_list [(''physnet1'', ''br-ex''), (''dc'', ''br0'')]"

theorem bridge_mappings_roundtrip_witness:
  "ParseBridgeMappings (FormatBridgeMappings demo_mappings) = Inr demo_mappings \<and> FormatBridgeMappings demo_mappings = ''dc:br0,physnet1:br-ex''"
proof
  have clean: "list_all clean_name [''physnet1'', ''br-ex'', ''dc'', ''br0'']" by code_simp
  show "ParseBridgeMappings (FormatBridgeMappings demo_mappings) = Inr demo_mappings"
    by (rule bridge_mappings_roundtrip) (use clean in \<open>auto simp: demo_mappings_def split: if_splits\<close>)
qed code_simp


text \<open>A server with one root row, whose external ids map \<open>dc\<close> to \<open>br0\<close>.\<close>

definition demo_root :: row where
  "demo_root = fmap_of_list [(colUUID, AUUID ''r1''),
     (colExternalIDs, AStringMap (fmap_of_list [(ovsBridgeMappingsKey, ''dc:br0'')]))]"

definition demo_root_db :: "Operation list list dbClient" where
  "demo_root_db = \<lparr>db_database = dbOpenVSwitch,
     db_schema = newSchemaRegistry dbOpenVSwitch \<lparr>ds_Name = dbOpenVSwitch, ds_Version = ''1'', ds_Tables = fmap_of_list
       [(tableOpenVSwitch, \<lparr>ts_Columns = fmempty, ts_Column = (\<lambda>c. c \<in> {colUUID, colExternalIDs})\<rparr>)]\<rparr>,
     db_hasExecutor = (\<lambda>_. True),
     db_Transact = (\<lambda>log ops. (Inr (map (\<lambda>p. \<lparr>Count = 1, ErrorField = [], Details = [],
        res_Rows = (if op_Op p = ''select'' then [demo_root] else [])\<rparr>) ops), log @ [ops])),
     db_reconnect = None, db_backoff = (\<lambda>w. (None, w)), db_NewString = (\<lambda>w. ([], w)), db_rawRow = (\<lambda>r. r)\<rparr>"

definition demo_ovsdb :: ovsdb_lib where
  "demo_ovsdb = \<lparr>lib_NewOvsSet = (\<lambda>xs. xs), lib_NewOvsMap = (\<lambda>m. map (\<lambda>k. (AString k, AString (go_get m k))) (range_keys m))\<rparr>"

lemma demo_pair: "validateBridgeMappingPair ''physnet1'' ''br-ex'' = None"
  by code_simp

lemma demo_mapping_read: "root_mappings (root_of_row demo_root) = Inr (fmap_of_list [(''dc'', ''br0'')])"
  by code_simp

lemma demo_uuid: "vs_UUID (root_of_row demo_root) = ''r1''"
  by code_simp

lemma demo_get: "GetOpenVSwitch (Some demo_root_db) [] = (Inr (root_of_row demo_root), snd (GetOpenVSwitch (Some demo_root_db) []))"
  by code_simp

lemma demo_require:
  "RequireTable (db_schema demo_root_db) tableOpenVSwitch = None"
  "RequireColumns (db_schema demo_root_db) tableOpenVSwitch [colExternalIDs] = None"
  "RequireColumns (db_schema demo_root_db) tableOpenVSwitch [colUUID] = None"
  by code_simp+

lemma demo_replace:
  assumes "root = root_of_row demo_root"
  shows "fst (replaceBridgeMappings demo_ovsdb (Some demo_root_db) w root m) = None"
proof -
  let ?ops = "cas_ops demo_ovsdb root (mapping_mutations demo_ovsdb m)"
  have "check_all (validate_operation demo_root_db) ?ops = None"
    by (simp add: cas_ops_def mapping_mutations_def validate_operation_def validateOperationColumns_def op_of_def demo_require
        then_check_None Let_def NewMutation_def range_keys_def sorted_list_of_fset.rep_eq RequireConditionColumns_def conditionUUID_def NewCondition_def)
  then have "transact demo_root_db w tableOpenVSwitch ''update'' ''r1'' ?ops
      = (Inr (map (\<lambda>p. \<lparr>Count = 1, ErrorField = [], Details = [], res_Rows = (if op_Op p = ''select'' then [demo_root] else [])\<rparr>) ?ops), w @ [?ops])"
    by (simp add: transact_def demo_root_db_def transact_result_def cas_ops_def OperationResult.defs)
  moreover have "mapping_mutations demo_ovsdb m \<noteq> []" by (simp add: mapping_mutations_def Let_def)
  ultimately show ?thesis
    unfolding replaceBridgeMappings_def mutateOpenVSwitchExternalIDsCAS_def
    by (simp add: demo_uuid assms cas_ops_def OperationResult.defs ensureAffected_def then_check_None)
qed

lemma demo_ensure: "fst (EnsureBridgeMapping demo_ovsdb (Some demo_root_db) [] ''physnet1'' ''br-ex'') = None"
proof -
  obtain w where w: "GetOpenVSwitch (Some demo_root_db) [] = (Inr (root_of_row demo_root), w)" using demo_get by metis
  then show ?thesis using demo_replace [OF refl, of w]
    by (simp add: EnsureBridgeMapping_def demo_pair io_bind_def demo_mapping_read go_get_def)
qed


text \<open>White space at the ends of a name is accepted when it is written and lost when it is read.\<close>

lemma mapping_name_trimmed:
  "validateBridgeMappingPair '' dc'' ''br0'' = None
   \<and> ParseBridgeMappings (FormatBridgeMappings (fmupd '' dc'' ''br0'' fmempty)) = Inr (fmupd ''dc'' ''br0'' fmempty)"
  by code_simp

end
