(* ===== verification/Watch_Match.thy ===== *)
theory Watch_Match
  imports Db_Client Go_Json
begin

text \<open>
  The conditions, identities and fingerprints of rows in \<^verbatim>\<open>src/watch.go\<close>: which events a
  subscription is interested in, and when two versions of a row count as the same.
\<close>

section \<open>Conditions on values\<close>

definition stringMapsEqual :: "string_map \<Rightarrow> string_map \<Rightarrow> bool" where
  "stringMapsEqual a b \<longleftrightarrow>
     length (range_keys a) = length (range_keys b) \<and> list_all (\<lambda>key. go_get b key = go_get a key) (range_keys a)"

definition stringSlicesEqual :: "string list \<Rightarrow> string list \<Rightarrow> bool" where
  "stringSlicesEqual a0 b0 \<longleftrightarrow>
     (let a = uniqueStrings a0; b = uniqueStrings b0 in length a = length b \<and> list_all (containsString b) a)"

text \<open>
  \<open>reflect.DeepEqual\<close> is equality: values of different Go types are different values of the model,
  and the entries of maps are kept in one order.
\<close>

definition conditionValueEqual :: "any \<Rightarrow> any \<Rightarrow> bool" where
  "conditionValueEqual got want =
     (case want of
        AUUID u \<Rightarrow> got = AString u \<or> anyString got = u
      | AString s \<Rightarrow> got = AString s \<or> anyString got = s
      | AMap _ \<Rightarrow> stringMapsEqual (anyStringMap got) (anyStringMap want)
      | AStringMap m \<Rightarrow> stringMapsEqual (anyStringMap got) m
      | ASet _ \<Rightarrow>
          (let gotValues = anyStringSlice got; wantValues = anyStringSlice want in
           if gotValues = [] \<or> wantValues = [] then got = want else stringSlicesEqual gotValues wantValues)
      | AStrings ss \<Rightarrow> stringSlicesEqual (anyStringSlice got) ss
      | _ \<Rightarrow> got = want)"

text \<open>The strings of a value, or its single text when it has none.\<close>

definition slice_or_string :: "any \<Rightarrow> string list" where
  "slice_or_string v =
     (let values = anyStringSlice v in
      if values = [] then (let s = anyString v in if s \<noteq> [] then [s] else []) else values)"

definition conditionValueIncludes :: "any \<Rightarrow> any \<Rightarrow> bool" where
  "conditionValueIncludes got want =
     (let wantMap = anyStringMap want in
      if range_keys wantMap \<noteq> []
      then list_all (\<lambda>key. go_get (anyStringMap got) key = go_get wantMap key) (range_keys wantMap)
      else let wantValues = slice_or_string want in
        wantValues \<noteq> [] \<and> list_all (containsString (slice_or_string got)) wantValues)"

definition conditionValueExcludes :: "any \<Rightarrow> any \<Rightarrow> bool" where
  "conditionValueExcludes got want =
     (let wantMap = anyStringMap want in
      if range_keys wantMap \<noteq> []
      then list_all (\<lambda>key. go_get (anyStringMap got) key \<noteq> go_get wantMap key) (range_keys wantMap)
      else let wantValues = slice_or_string want in
        wantValues \<noteq> [] \<and> list_all (\<lambda>v. \<not> containsString (slice_or_string got) v) wantValues)"

definition conditionMatches :: "ConditionFunction \<Rightarrow> any \<Rightarrow> any \<Rightarrow> bool" where
  "conditionMatches fn got want =
     (case fn of
        ConditionEqual \<Rightarrow> conditionValueEqual got want
      | ConditionNotEqual \<Rightarrow> \<not> conditionValueEqual got want
      | ConditionIncludes \<Rightarrow> conditionValueIncludes got want
      | ConditionExcludes \<Rightarrow> conditionValueExcludes got want
      | ConditionOther _ \<Rightarrow> False)"

section \<open>Events\<close>

datatype EventType = EventInitial | EventAdd | EventUpdate | EventDelete

text \<open>A nil row is \<^const>\<open>None\<close>.\<close>

record RowEvent =
  ev_Type :: EventType
  ev_Old :: "row option"
  ev_New :: "row option"
  ev_baseline :: bool

definition rowMatches :: "Condition list \<Rightarrow> row option \<Rightarrow> bool" where
  "rowMatches where' row =
     (if where' = [] then True
      else case row of
          None \<Rightarrow> False
        | Some r \<Rightarrow> list_all (\<lambda>c. case fmlookup r (cond_Column c) of
              None \<Rightarrow> False
            | Some got \<Rightarrow> conditionMatches (cond_Function c) got (cond_Value c)) where')"

definition eventMatches :: "Condition list \<Rightarrow> RowEvent \<Rightarrow> bool" where
  "eventMatches where' event \<longleftrightarrow> where' = [] \<or> rowMatches where' (ev_New event) \<or> rowMatches where' (ev_Old event)"

definition rowIdentity :: "row option \<Rightarrow> string" where
  "rowIdentity row =
     (case row of
        None \<Rightarrow> []
      | Some r \<Rightarrow>
          (case fmlookup r colUUID of
             None \<Rightarrow> []
           | Some v \<Rightarrow>
               (case v of
                  AString s \<Rightarrow> s
                | AList [AString marker, AString i] \<Rightarrow> if marker = ''uuid'' then i else []
                | AObject m \<Rightarrow> (case object_uuid m of Some i \<Rightarrow> i | None \<Rightarrow> [])
                | _ \<Rightarrow> [])))"

text \<open>
  The text of \<open>json.Marshal\<close>. The marshallers of libovsdb's types (UUID, OvsSet, OvsMap) are the
  parameter \<open>enc\<close>; objects are written in the order of their keys.
\<close>

fun json_any :: "(any \<Rightarrow> string) \<Rightarrow> any \<Rightarrow> string" where
  "json_any enc ANil = ''null''"
| "json_any enc (AString s) = json_string s"
| "json_any enc (ABool b) = json_bool b"
| "json_any enc (AInt i) = strconv_Itoa i"
| "json_any enc (AFloat _ text) = text"
| "json_any enc (AUUID u) = enc (AUUID u)"
| "json_any enc (ASet xs) = enc (ASet xs)"
| "json_any enc (AMap ps) = enc (AMap ps)"
| "json_any enc (AStrings ss) = json_array (map json_string ss)"
| "json_any enc (AUUIDs us) = json_array (map (\<lambda>u. enc (AUUID u)) us)"
| "json_any enc (AStringMap m) = json_object (map (\<lambda>k. (k, json_string (go_get m k))) (range_keys m))"
| "json_any enc (AIntStringMap m) =
     json_object (sort_key fst (map (\<lambda>k. (strconv_Itoa k, json_string (the (fmlookup m k)))) (range_keys m)))"
| "json_any enc (AList xs) = json_array (map (json_any enc) xs)"
| "json_any enc (AObject fs) = json_object (sort_key fst (map (\<lambda>(k, v). (k, json_any enc v)) fs))"

definition rowFingerprint :: "(any \<Rightarrow> string) \<Rightarrow> row \<Rightarrow> string" where
  "rowFingerprint enc row = json_object (map (\<lambda>k. (k, json_any enc (row_get row k))) (range_keys row))"

section \<open>What the comparisons mean\<close>

lemma stringSlicesEqual_iff: "stringSlicesEqual a b \<longleftrightarrow> set a - {[]} = set b - {[]}"
proof -
  let ?a = "uniqueStrings a" and ?b = "uniqueStrings b"
  have "length ?a = length ?b \<and> set ?a \<subseteq> set ?b \<longleftrightarrow> set ?a = set ?b"
    using card_subset_eq [OF finite_set, of "set ?a" ?b] distinct_card [OF distinct_uniqueStrings, of a]
      distinct_card [OF distinct_uniqueStrings, of b]
    by (auto simp del: set_uniqueStrings)
  moreover have "stringSlicesEqual a b \<longleftrightarrow> length ?a = length ?b \<and> set ?a \<subseteq> set ?b"
    by (simp add: stringSlicesEqual_def Let_def list_all_iff subset_eq del: set_uniqueStrings)
  ultimately show ?thesis by simp
qed

text \<open>Maps without empty values are equal exactly when \<open>stringMapsEqual\<close> says so; an empty value also equals a missing one.\<close>

lemma stringMapsEqual_iff:
  assumes "[] \<notin> fmran' a"
  shows "stringMapsEqual a b \<longleftrightarrow> a = b"
proof
  assume eq: "stringMapsEqual a b"
  have val: "fmlookup b k = Some v" if "fmlookup a k = Some v" for k v
  proof -
    have "v \<noteq> []" using fmran'I [OF that] assms by auto
    moreover have "go_get b k = v" using eq fmdom'I [OF that] that by (simp add: stringMapsEqual_def list_all_iff go_get_def)
    ultimately show ?thesis by (auto simp: go_get_def split: option.splits)
  qed
  then have "fmdom' a \<subseteq> fmdom' b" 
    by (metis (no_types, lifting) fmdom'I fmlookup_dom'_iff subsetI)
  moreover have "card (fmdom' a) = card (fmdom' b)"
    using eq distinct_card [OF distinct_range_keys, of a] distinct_card [OF distinct_range_keys, of b]
    by (simp add: stringMapsEqual_def)
  ultimately have dom: "fmdom' a = fmdom' b" by (intro card_subset_eq) simp_all
  show "a = b"
  proof (rule fmap_ext)
    fix k show "fmlookup a k = fmlookup b k"
    proof (cases "fmlookup a k")
      case None
      then have "k \<notin> fmdom' b" using dom fmdom'_notI [OF None] by simp
      then show ?thesis using None by (simp add: fmdom'_notD)
    qed (simp add: val)
  qed
next
  assume "a = b"
  then show "stringMapsEqual a b" by (simp add: stringMapsEqual_def list_all_iff)
qed

lemma stringMapsEqual_empty_values:
  "stringMapsEqual (fmap_of_list [(''x'', [])]) (fmap_of_list [(''y'', [])])"
  by code_simp

end
