(* ===== verification/Watch.thy ===== *)
theory Watch
  imports Watch_Match Fluent
begin

text \<open>
  The watches of \<^verbatim>\<open>src/watch.go\<close>. The watch manager, its subscriptions and its pollers are one
  state; every critical section of a goroutine (what it does under a lock, or one channel
  operation) is one step, and a run is any sequence of steps. The one section inside another,
  \<open>remove\<close> under the manager's lock within \<open>closeLocked\<close> under the subscription's lock, is part of
  the outer step: what \<open>closeLocked\<close> does before it, the closed flag, is read under the
  subscription's lock only, so no other goroutine can look between the two.
\<close>

section \<open>Channels\<close>

text \<open>A channel is everything ever sent to it and the number of values received.\<close>

record 'a chan =
  ch_cap :: nat
  ch_sent :: "'a list"
  ch_recv :: nat

definition make_chan :: "nat \<Rightarrow> 'a chan" where
  "make_chan n = \<lparr>ch_cap = n, ch_sent = [], ch_recv = 0\<rparr>"

definition chan_len :: "'a chan \<Rightarrow> nat" where
  "chan_len c = length (ch_sent c) - ch_recv c"

text \<open>A send in a \<open>select\<close> with a default branch; \<^const>\<open>None\<close> is the default branch.\<close>

definition try_send :: "'a \<Rightarrow> 'a chan \<Rightarrow> 'a chan option" where
  "try_send v c = (if chan_len c < ch_cap c then Some (c\<lparr>ch_sent := ch_sent c @ [v]\<rparr>) else None)"

text \<open>Up to \<open>n\<close> receives by the goroutine at the other end.\<close>

definition receive :: "nat \<Rightarrow> 'a chan \<Rightarrow> 'a chan" where
  "receive n c = c\<lparr>ch_recv := min (ch_recv c + n) (length (ch_sent c))\<rparr>"

section \<open>State\<close>

record rowWatchSubscription =
  ws_id :: nat
  ws_table :: string
  ws_where :: "Condition list"
  ws_events :: "RowEvent chan"
  ws_errs :: "go_error chan"
  ws_closed :: bool
  ws_initialDone :: bool
  ws_initialRows :: "(string, row) fmap"
  ws_pending :: "RowEvent list"

text \<open>
  A poller: the goroutine of \<open>pollRows\<close>, whether its stop channel is closed and whether it has returned,
  with the events of its last select it has still to enqueue, and the error it is publishing
  with the subscriptions still to be offered it.
\<close>

record poller =
  po_table :: string
  po_stop :: bool
  po_exit :: bool
  po_seen :: "(string, row) fmap"
  po_seeded :: bool
  po_todo :: "RowEvent list"
  po_err :: "(go_error \<times> nat list) option"

text \<open>
  The goroutine of \<open>run\<close>: waiting, between receiving a dispatch and copying the subscriptions of its
  table, or offering the event to the copied ones. The goroutine of \<open>close\<close>: not called, between
  closing the channel and emptying the tables, or cancelling the subscriptions it has collected.
\<close>

datatype run_phase =
    RunIdle
  | RunTaken string RowEvent
  | RunOffering RowEvent "nat list"

datatype close_phase =
    CloseIdle
  | CloseDone
  | CloseCancel "nat list"

text \<open>
  \<open>wm_subs\<close> holds every subscription ever made, \<open>wm_byTable\<close> the ids registered for a table,
  \<open>wm_pollOnce\<close> the poller of a table. Goroutines at rest: \<open>wm_starting\<close> are the calls of \<open>subscribe\<close>
  that have registered and not yet started the poller, \<open>wm_initial\<close> the subscriptions whose
  \<open>sendInitial\<close> has not read its rows, \<open>wm_failed\<close> those whose select failed and whose error is
  still to be offered. \<open>wm_enc\<close> are libovsdb's JSON marshallers.
\<close>

record watchManager =
  wm_database :: string
  wm_enc :: "any \<Rightarrow> string"
  wm_in :: "(string \<times> RowEvent) list"
  wm_done :: bool
  wm_nextID :: nat
  wm_subs :: "(nat, rowWatchSubscription) fmap"
  wm_byTable :: "(string, nat list) fmap"
  wm_pollOnce :: "(string, nat) fmap"
  wm_pollers :: "poller list"
  wm_starting :: "string list"
  wm_initial :: "nat list"
  wm_failed :: "(nat \<times> go_error) list"
  wm_run :: run_phase
  wm_close :: close_phase

definition defaultWatchEventBuffer :: nat where "defaultWatchEventBuffer = 64"
definition defaultWatchQueueBuffer :: nat where "defaultWatchQueueBuffer = 256"
definition defaultWatchRawBuffer :: nat where "defaultWatchRawBuffer = 4096"

definition newWatchManager :: "string \<Rightarrow> (any \<Rightarrow> string) \<Rightarrow> watchManager" where
  "newWatchManager database enc =
     \<lparr>wm_database = database, wm_enc = enc, wm_in = [], wm_done = False, wm_nextID = 0, wm_subs = fmempty, wm_byTable = fmempty,
      wm_pollOnce = fmempty, wm_pollers = [], wm_starting = [], wm_initial = [], wm_failed = [], wm_run = RunIdle, wm_close = CloseIdle\<rparr>"

definition subs_of :: "watchManager \<Rightarrow> string \<Rightarrow> nat list" where
  "subs_of m tab = (case fmlookup (wm_byTable m) tab of None \<Rightarrow> [] | Some ids \<Rightarrow> ids)"

section \<open>Closing\<close>

definition stop_poller :: "nat \<Rightarrow> poller list \<Rightarrow> poller list" where
  "stop_poller k ps = (if k < length ps then ps[k := (ps ! k)\<lparr>po_stop := True\<rparr>] else ps)"

definition remove_sub :: "rowWatchSubscription \<Rightarrow> watchManager \<Rightarrow> watchManager" where
  "remove_sub s m =
     (case fmlookup (wm_byTable m) (ws_table s) of
        None \<Rightarrow> m
      | Some subs \<Rightarrow>
          let rest = removeAll (ws_id s) subs in
          if rest \<noteq> [] then m\<lparr>wm_byTable := fmupd (ws_table s) rest (wm_byTable m)\<rparr>
          else let m = m\<lparr>wm_byTable := fmdrop (ws_table s) (wm_byTable m)\<rparr> in
            (case fmlookup (wm_pollOnce m) (ws_table s) of
               None \<Rightarrow> m
             | Some k \<Rightarrow> m\<lparr>wm_pollers := stop_poller k (wm_pollers m), wm_pollOnce := fmdrop (ws_table s) (wm_pollOnce m)\<rparr>))"

definition closeLocked :: "rowWatchSubscription \<Rightarrow> watchManager \<Rightarrow> rowWatchSubscription \<times> watchManager" where
  "closeLocked s m = (s\<lparr>ws_closed := True\<rparr>, remove_sub s m)"

definition watch_error :: "watchManager \<Rightarrow> string \<Rightarrow> string \<Rightarrow> go_error" where
  "watch_error m tab message = wrap_err ErrorPartial (wm_database m) tab ''watch'' [] message None"

definition send_error :: "go_error \<Rightarrow> rowWatchSubscription \<Rightarrow> rowWatchSubscription" where
  "send_error e s = (case try_send e (ws_errs s) of Some c \<Rightarrow> s\<lparr>ws_errs := c\<rparr> | None \<Rightarrow> s)"

definition reportOverflowLocked :: "rowWatchSubscription \<Rightarrow> watchManager \<Rightarrow> rowWatchSubscription \<times> watchManager" where
  "reportOverflowLocked s m = closeLocked (send_error (watch_error m (ws_table s) ''watch event queue overflow'') s) m"

definition offerError :: "go_error \<Rightarrow> rowWatchSubscription \<Rightarrow> rowWatchSubscription" where
  "offerError e s = (if ws_closed s then s else send_error e s)"

section \<open>Delivery\<close>

definition sendLocked :: "RowEvent \<Rightarrow> rowWatchSubscription \<Rightarrow> watchManager \<Rightarrow> bool \<times> rowWatchSubscription \<times> watchManager" where
  "sendLocked event s m =
     (case try_send event (ws_events s) of
        Some c \<Rightarrow> (True, s\<lparr>ws_events := c\<rparr>, m)
      | None \<Rightarrow> (False, reportOverflowLocked s m))"

definition initialEventRows :: "RowEvent list \<Rightarrow> (string, row) fmap" where
  "initialEventRows events =
     foldl (\<lambda>rows event. let i = rowIdentity (ev_New event) in
       if i \<noteq> [] then fmupd i (the (ev_New event)) rows else rows) fmempty events"

text \<open>\<^const>\<open>None\<close>: the event repeats a row of the initial snapshot.\<close>

definition normalizeBaselineLocked :: "(any \<Rightarrow> string) \<Rightarrow> (string, row) fmap \<Rightarrow> RowEvent \<Rightarrow> RowEvent option" where
  "normalizeBaselineLocked enc initialRows event =
     (if \<not> ev_baseline event \<or> ev_Type event \<noteq> EventAdd then Some event
      else let i = rowIdentity (ev_New event) in
        if i = [] then Some (event\<lparr>ev_baseline := False\<rparr>)
        else case fmlookup initialRows i of
            None \<Rightarrow> Some (event\<lparr>ev_baseline := False\<rparr>)
          | Some initial \<Rightarrow>
              if rowFingerprint enc initial = rowFingerprint enc (the (ev_New event)) then None
              else Some \<lparr>ev_Type = EventUpdate, ev_Old = Some initial, ev_New = ev_New event, ev_baseline = False\<rparr>)"

definition offerLocked :: "RowEvent \<Rightarrow> rowWatchSubscription \<Rightarrow> watchManager \<Rightarrow> bool \<times> rowWatchSubscription \<times> watchManager" where
  "offerLocked event s m =
     (if ws_closed s \<or> \<not> eventMatches (ws_where s) event then (False, s, m)
      else if \<not> ws_initialDone s then
        (let limit = (if ch_cap (ws_events s) = 0 then defaultWatchQueueBuffer else ch_cap (ws_events s)) in
         if length (ws_pending s) \<ge> limit then (False, reportOverflowLocked s m)
         else (True, s\<lparr>ws_pending := ws_pending s @ [event]\<rparr>, m))
      else case normalizeBaselineLocked (wm_enc m) (ws_initialRows s) event of
          None \<Rightarrow> (True, s, m)
        | Some event \<Rightarrow> sendLocked event s m)"

text \<open>
  \<open>finishInitial\<close> holds the lock of the subscription, but the forwarder drains the queue meanwhile:
  \<open>sched\<close> says how many events it takes before each send. The result says whether every event was sent.
\<close>

fun send_all :: "nat list \<Rightarrow> RowEvent list \<Rightarrow> rowWatchSubscription \<Rightarrow> watchManager
    \<Rightarrow> bool \<times> rowWatchSubscription \<times> watchManager" where
  "send_all sched [] s m = (True, s, m)"
| "send_all sched (event # rest) s m =
     (let s = s\<lparr>ws_events := receive (case sched of [] \<Rightarrow> 0 | n # _ \<Rightarrow> n) (ws_events s)\<rparr> in
      case sendLocked event s m of
        (False, s, m) \<Rightarrow> (False, s, m)
      | (True, s, m) \<Rightarrow> send_all (tl sched) rest s m)"

definition finishInitial :: "nat list \<Rightarrow> RowEvent list \<Rightarrow> rowWatchSubscription \<Rightarrow> watchManager
    \<Rightarrow> rowWatchSubscription \<times> watchManager" where
  "finishInitial sched initial s m =
     (if ws_closed s then (s, m)
      else case send_all sched initial (s\<lparr>ws_initialRows := initialEventRows initial\<rparr>) m of
          (False, s, m) \<Rightarrow> (s, m)
        | (True, s, m) \<Rightarrow>
            snd (send_all (drop (length initial) sched)
              (List.map_filter (normalizeBaselineLocked (wm_enc m) (ws_initialRows s)) (ws_pending s))
              (s\<lparr>ws_initialDone := True, ws_pending := []\<rparr>) m))"

definition initial_event :: "row \<Rightarrow> RowEvent" where
  "initial_event row = \<lparr>ev_Type = EventInitial, ev_Old = None, ev_New = Some row, ev_baseline = False\<rparr>"

text \<open>
  \<open>sendInitial\<close> with the rows its select returned. After a failed select the error is offered in a
  critical section of its own, later.
\<close>

definition sendInitial :: "nat list \<Rightarrow> row list res \<Rightarrow> rowWatchSubscription \<Rightarrow> watchManager
    \<Rightarrow> rowWatchSubscription \<times> watchManager" where
  "sendInitial sched selected s m =
     (case selected of
        Inl e \<Rightarrow> finishInitial sched [] s m
      | Inr rows \<Rightarrow> finishInitial sched (map initial_event rows) s m)"

definition initial_failure :: "nat \<Rightarrow> row list res \<Rightarrow> (nat \<times> go_error) list" where
  "initial_failure i selected = (case selected of Inl e \<Rightarrow> [(i, e)] | Inr _ \<Rightarrow> [])"

section \<open>The manager\<close>

definition put_sub :: "rowWatchSubscription \<times> watchManager \<Rightarrow> watchManager" where
  "put_sub sm = (case sm of (s, m) \<Rightarrow> m\<lparr>wm_subs := fmupd (ws_id s) s (wm_subs m)\<rparr>)"

definition on_sub :: "nat \<Rightarrow> (rowWatchSubscription \<Rightarrow> watchManager \<Rightarrow> rowWatchSubscription \<times> watchManager)
    \<Rightarrow> watchManager \<Rightarrow> watchManager" where
  "on_sub i f m = (case fmlookup (wm_subs m) i of None \<Rightarrow> m | Some s \<Rightarrow> put_sub (f s m))"

definition cancel_sub :: "rowWatchSubscription \<Rightarrow> watchManager \<Rightarrow> rowWatchSubscription \<times> watchManager" where
  "cancel_sub s m = (if ws_closed s then (s, m) else closeLocked s m)"

text \<open>
  \<open>publishError\<close>, always called by a poller: it copies the subscriptions of the table under the
  manager's lock, and then offers the error to each under the lock of that subscription.
\<close>

definition publishError :: "nat \<Rightarrow> go_error \<Rightarrow> watchManager \<Rightarrow> watchManager" where
  "publishError k e m =
     (let p = wm_pollers m ! k in
      m\<lparr>wm_pollers := (wm_pollers m)[k := p\<lparr>po_err := Some (e, subs_of m (po_table p))\<rparr>]\<rparr>)"

definition publish_error_to :: "nat \<Rightarrow> watchManager \<Rightarrow> watchManager" where
  "publish_error_to k m =
     (if k \<ge> length (wm_pollers m) then m
      else let p = wm_pollers m ! k in
        case po_err p of
          None \<Rightarrow> m
        | Some (e, []) \<Rightarrow> m\<lparr>wm_pollers := (wm_pollers m)[k := p\<lparr>po_err := None\<rparr>]\<rparr>
        | Some (e, i # rest) \<Rightarrow>
            on_sub i (\<lambda>s m. (offerError e s, m)) (m\<lparr>wm_pollers := (wm_pollers m)[k := p\<lparr>po_err := Some (e, rest)\<rparr>]\<rparr>))"

text \<open>When the manager is closed and the queue has room, \<open>select\<close> may take either branch: \<open>pick\<close>.\<close>

definition enqueue :: "bool \<Rightarrow> nat \<Rightarrow> RowEvent \<Rightarrow> watchManager \<Rightarrow> watchManager" where
  "enqueue pick k event m =
     (let tab = po_table (wm_pollers m ! k) in
      if length (wm_in m) < defaultWatchRawBuffer \<and> \<not> (wm_done m \<and> pick) then m\<lparr>wm_in := wm_in m @ [(tab, event)]\<rparr>
      else if wm_done m then m
      else publishError k (watch_error m tab ''watch dispatch queue overflow'') m)"

definition subscribe :: "string \<Rightarrow> Condition list \<Rightarrow> nat \<Rightarrow> watchManager \<Rightarrow> watchManager" where
  "subscribe tab where' capacity m =
     (let i = wm_nextID m + 1;
          s = \<lparr>ws_id = i, ws_table = tab, ws_where = where', ws_events = make_chan capacity, ws_errs = make_chan 1, ws_closed = False,
               ws_initialDone = False, ws_initialRows = fmempty, ws_pending = []\<rparr> in
      m\<lparr>wm_nextID := i, wm_subs := fmupd i s (wm_subs m), wm_byTable := fmupd tab (subs_of m tab @ [i]) (wm_byTable m),
        wm_starting := wm_starting m @ [tab], wm_initial := wm_initial m @ [i]\<rparr>)"

definition new_poller :: "string \<Rightarrow> poller" where
  "new_poller tab = \<lparr>po_table = tab, po_stop = False, po_exit = False, po_seen = fmempty, po_seeded = False, po_todo = [],
     po_err = None\<rparr>"

definition startPoller :: "string \<Rightarrow> watchManager \<Rightarrow> watchManager" where
  "startPoller tab m =
     (case fmlookup (wm_pollOnce m) tab of
        Some _ \<Rightarrow> m
      | None \<Rightarrow> m\<lparr>wm_pollOnce := fmupd tab (length (wm_pollers m)) (wm_pollOnce m), wm_pollers := wm_pollers m @ [new_poller tab]\<rparr>)"

section \<open>Polling\<close>

definition add_event :: "bool \<Rightarrow> row \<Rightarrow> RowEvent" where
  "add_event baseline row = \<lparr>ev_Type = EventAdd, ev_Old = None, ev_New = Some row, ev_baseline = baseline\<rparr>"

definition update_event :: "row \<Rightarrow> row \<Rightarrow> RowEvent" where
  "update_event old row = \<lparr>ev_Type = EventUpdate, ev_Old = Some old, ev_New = Some row, ev_baseline = False\<rparr>"

definition delete_event :: "row \<Rightarrow> RowEvent" where
  "delete_event old = \<lparr>ev_Type = EventDelete, ev_Old = Some old, ev_New = None, ev_baseline = False\<rparr>"

definition next_rows :: "row list \<Rightarrow> (string, row) fmap" where
  "next_rows rows = foldl (\<lambda>next row. let i = rowIdentity (Some row) in if i = [] then next else fmupd i row next) fmempty rows"

definition row_events :: "(any \<Rightarrow> string) \<Rightarrow> bool \<Rightarrow> (string, row) fmap \<Rightarrow> row \<Rightarrow> RowEvent list" where
  "row_events enc seeded seen row =
     (let i = rowIdentity (Some row) in
      if i = [] then []
      else if \<not> seeded then [add_event True row]
      else case fmlookup seen i of
          None \<Rightarrow> [add_event False row]
        | Some old \<Rightarrow> if rowFingerprint enc old \<noteq> rowFingerprint enc row then [update_event old row] else [])"

definition poll_events :: "(any \<Rightarrow> string) \<Rightarrow> bool \<Rightarrow> (string, row) fmap \<Rightarrow> row list \<Rightarrow> RowEvent list" where
  "poll_events enc seeded seen rows =
     concat (map (row_events enc seeded seen) rows)
     @ (if seeded then map (\<lambda>i. delete_event (the (fmlookup seen i)))
          (filter (\<lambda>i. fmlookup (next_rows rows) i = None) (range_keys seen)) else [])"

text \<open>
  One round of \<open>pollRows\<close> after its select. The stop channel is only looked at after a round, and
  when the ticker is ready too \<open>select\<close> may go on for another round.
\<close>

definition poll_round :: "row list res \<Rightarrow> nat \<Rightarrow> watchManager \<Rightarrow> watchManager" where
  "poll_round selected k m =
     (if k \<ge> length (wm_pollers m) then m
      else let p = wm_pollers m ! k in
        if po_todo p \<noteq> [] \<or> po_err p \<noteq> None \<or> po_exit p then m
        else case selected of
            Inl e \<Rightarrow> publishError k e m
          | Inr rows \<Rightarrow> m\<lparr>wm_pollers := (wm_pollers m)[k := p\<lparr>po_todo := poll_events (wm_enc m) (po_seeded p) (po_seen p) rows,
                po_seen := next_rows rows, po_seeded := True\<rparr>]\<rparr>)"

definition poll_send :: "bool \<Rightarrow> nat \<Rightarrow> watchManager \<Rightarrow> watchManager" where
  "poll_send pick k m =
     (if k \<ge> length (wm_pollers m) \<or> po_err (wm_pollers m ! k) \<noteq> None then m
      else let p = wm_pollers m ! k in
        case po_todo p of
          [] \<Rightarrow> m
        | event # rest \<Rightarrow> enqueue pick k event (m\<lparr>wm_pollers := (wm_pollers m)[k := p\<lparr>po_todo := rest\<rparr>]\<rparr>))"

definition poll_exit :: "nat \<Rightarrow> watchManager \<Rightarrow> watchManager" where
  "poll_exit k m =
     (if k < length (wm_pollers m) \<and> po_stop (wm_pollers m ! k) \<and> po_todo (wm_pollers m ! k) = []
        \<and> po_err (wm_pollers m ! k) = None
      then m\<lparr>wm_pollers := (wm_pollers m)[k := (wm_pollers m ! k)\<lparr>po_exit := True\<rparr>]\<rparr> else m)"

section \<open>Dispatch and closing\<close>

text \<open>
  \<open>run\<close> receives a dispatch; \<open>publish\<close> copies the list of subscriptions under the manager's lock, and
  then offers the event to each.
\<close>

definition run_take :: "watchManager \<Rightarrow> watchManager" where
  "run_take m =
     (case wm_run m of
        RunIdle \<Rightarrow> (case wm_in m of [] \<Rightarrow> m | (tab, event) # rest \<Rightarrow> m\<lparr>wm_in := rest, wm_run := RunTaken tab event\<rparr>)
      | _ \<Rightarrow> m)"

definition run_publish :: "watchManager \<Rightarrow> watchManager" where
  "run_publish m =
     (case wm_run m of
        RunTaken tab event \<Rightarrow> m\<lparr>wm_run := RunOffering event (subs_of m tab)\<rparr>
      | _ \<Rightarrow> m)"

definition run_offer :: "watchManager \<Rightarrow> watchManager" where
  "run_offer m =
     (case wm_run m of
        RunOffering event [] \<Rightarrow> m\<lparr>wm_run := RunIdle\<rparr>
      | RunOffering event (i # rest) \<Rightarrow>
          on_sub i (\<lambda>s m. snd (offerLocked event s m)) (m\<lparr>wm_run := RunOffering event rest\<rparr>)
      | _ \<Rightarrow> m)"

text \<open>
  \<open>close\<close>, one critical section at a time: it closes the channel; under the manager's lock it collects
  the subscriptions, stops the pollers and empties the tables; then it cancels each subscription
  under its own lock. Between these steps any other goroutine may run.
\<close>

definition close_manager :: "watchManager \<Rightarrow> watchManager" where
  "close_manager m =
     (case wm_close m of
        CloseIdle \<Rightarrow> m\<lparr>wm_done := True, wm_close := CloseDone\<rparr>
      | CloseDone \<Rightarrow>
          (let subs = concat (map (subs_of m) (range_keys (wm_byTable m)));
               stopped = foldl (\<lambda>ps k. stop_poller k ps) (wm_pollers m) (range_values (wm_pollOnce m)) in
           m\<lparr>wm_pollers := stopped, wm_byTable := fmempty, wm_pollOnce := fmempty, wm_close := CloseCancel subs\<rparr>)
      | CloseCancel [] \<Rightarrow> m
      | CloseCancel (i # rest) \<Rightarrow> (on_sub i cancel_sub m)\<lparr>wm_close := CloseCancel rest\<rparr>)"

definition offer_failure :: "nat \<Rightarrow> watchManager \<Rightarrow> watchManager" where
  "offer_failure k m =
     (if k \<ge> length (wm_failed m) then m
      else case wm_failed m ! k of
        (i, e) \<Rightarrow> on_sub i (\<lambda>s m. (offerError e s, m)) (m\<lparr>wm_failed := take k (wm_failed m) @ drop (Suc k) (wm_failed m)\<rparr>))"

datatype watch_op =
  Subscribe string "Condition list" nat
| StartPoller
| SendInitial nat "nat list" "row list res"
| InitialError nat
| PollRound nat "row list res"
| PollSend nat bool
| PollError nat
| PollExit nat
| RunTake
| RunPublish
| RunOffer
| Forward nat
| ReadError nat
| Cancel nat
| CloseManager

fun watch_step :: "watchManager \<Rightarrow> watch_op \<Rightarrow> watchManager" where
  "watch_step m (Subscribe tab where' capacity) = subscribe tab where' capacity m"
| "watch_step m StartPoller =
     (case wm_starting m of [] \<Rightarrow> m | tab # rest \<Rightarrow> startPoller tab (m\<lparr>wm_starting := rest\<rparr>))"
| "watch_step m (SendInitial i sched selected) =
     (if i \<in> set (wm_initial m)
      then on_sub i (sendInitial sched selected)
        (m\<lparr>wm_initial := removeAll i (wm_initial m), wm_failed := wm_failed m @ initial_failure i selected\<rparr>) else m)"
| "watch_step m (InitialError k) = offer_failure k m"
| "watch_step m (PollRound k selected) = poll_round selected k m"
| "watch_step m (PollSend k pick) = poll_send pick k m"
| "watch_step m (PollError k) = publish_error_to k m"
| "watch_step m (PollExit k) = poll_exit k m"
| "watch_step m RunTake = run_take m"
| "watch_step m RunPublish = run_publish m"
| "watch_step m RunOffer = run_offer m"
| "watch_step m (Forward i) = on_sub i (\<lambda>s m. (s\<lparr>ws_events := receive 1 (ws_events s)\<rparr>, m)) m"
| "watch_step m (ReadError i) = on_sub i (\<lambda>s m. (s\<lparr>ws_errs := receive 1 (ws_errs s)\<rparr>, m)) m"
| "watch_step m (Cancel i) = on_sub i cancel_sub m"
| "watch_step m CloseManager = close_manager m"

text \<open>\<open>watchRows\<close> checks the schema before it subscribes; a queue of no or negative size gets the default one.\<close>

definition watchRows :: "'w dbClient \<Rightarrow> string \<Rightarrow> Condition list \<Rightarrow> int \<Rightarrow> watchManager \<Rightarrow> check \<times> watchManager" where
  "watchRows d tab where' queueBuffer m =
     (case then_check (RequireTable (db_schema d) tab) (RequireConditionColumns (db_schema d) tab where') of
        Some e \<Rightarrow> (Some e, m)
      | None \<Rightarrow> (None, subscribe tab where' (if queueBuffer \<le> 0 then defaultWatchQueueBuffer else nat queueBuffer) m))"

end
