(* ===== verification/Watch_Props.thy ===== *)
theory Watch_Props
  imports Watch "HOL-Library.Sublist"
begin

text \<open>
  What a watch promises: the bookkeeping of the manager, in-order delivery to every subscription,
  and that replaying the delivered events gives the table the poller saw last.
\<close>

section \<open>Bookkeeping\<close>

definition chan_ok :: "'a chan \<Rightarrow> bool" where
  "chan_ok c \<longleftrightarrow> ch_recv c \<le> length (ch_sent c) \<and> chan_len c \<le> ch_cap c"

definition pending_limit :: "rowWatchSubscription \<Rightarrow> nat" where
  "pending_limit s = (if ch_cap (ws_events s) = 0 then defaultWatchQueueBuffer else ch_cap (ws_events s))"

definition sub_ok :: "rowWatchSubscription \<Rightarrow> bool" where
  "sub_ok s \<longleftrightarrow> chan_ok (ws_events s) \<and> chan_ok (ws_errs s) \<and> length (ws_pending s) \<le> pending_limit s
     \<and> (ws_initialDone s \<longrightarrow> ws_pending s = [])"

text \<open>
  A subscription is registered exactly while it is open, except those a running \<open>close\<close> has taken
  out of the tables and has still to cancel; a poller is registered exactly while it is not
  stopped.
\<close>

definition subs_ok :: "watchManager \<Rightarrow> bool" where
  "subs_ok m \<longleftrightarrow> (\<forall>i s. fmlookup (wm_subs m) i = Some s \<longrightarrow> ws_id s = i \<and> i \<le> wm_nextID m \<and> sub_ok s)"

definition open_sub :: "watchManager \<Rightarrow> string \<Rightarrow> nat \<Rightarrow> bool" where
  "open_sub m tab i \<longleftrightarrow> (\<exists>s. fmlookup (wm_subs m) i = Some s \<and> ws_table s = tab \<and> \<not> ws_closed s)"

definition collected :: "watchManager \<Rightarrow> nat set" where
  "collected m = (case wm_close m of CloseCancel ids \<Rightarrow> set ids | _ \<Rightarrow> {})"

definition registered_ok :: "watchManager \<Rightarrow> bool" where
  "registered_ok m \<longleftrightarrow> (\<forall>tab. distinct (subs_of m tab)
     \<and> (\<forall>i. i \<in> set (subs_of m tab) \<longleftrightarrow> open_sub m tab i \<and> i \<notin> collected m)
     \<and> fmlookup (wm_byTable m) tab \<noteq> Some []) \<and> (\<forall>i\<in>collected m. i \<le> wm_nextID m)"

definition running :: "watchManager \<Rightarrow> string \<Rightarrow> nat \<Rightarrow> bool" where
  "running m tab k \<longleftrightarrow> k < length (wm_pollers m) \<and> po_table (wm_pollers m ! k) = tab \<and> \<not> po_stop (wm_pollers m ! k)"

definition pollers_ok :: "watchManager \<Rightarrow> bool" where
  "pollers_ok m \<longleftrightarrow> (\<forall>tab k. fmlookup (wm_pollOnce m) tab = Some k \<longleftrightarrow> running m tab k)"

definition watch_inv :: "watchManager \<Rightarrow> bool" where
  "watch_inv m \<longleftrightarrow> subs_ok m \<and> registered_ok m \<and> pollers_ok m \<and> length (wm_in m) \<le> defaultWatchRawBuffer
     \<and> (wm_done m \<longleftrightarrow> wm_close m \<noteq> CloseIdle)"

text \<open>What an operation on a subscription may do: change its queues, or close and remove it.\<close>

definition sub_move :: "rowWatchSubscription \<Rightarrow> watchManager \<Rightarrow> rowWatchSubscription \<times> watchManager \<Rightarrow> bool" where
  "sub_move s m sm \<longleftrightarrow> ws_id (fst sm) = ws_id s \<and> ws_table (fst sm) = ws_table s \<and> sub_ok (fst sm)
     \<and> (if ws_closed (fst sm) = ws_closed s then snd sm = m else \<not> ws_closed s \<and> snd sm = remove_sub s m)"

lemma chan_ok_send: "try_send v c = Some c' \<Longrightarrow> chan_ok c \<Longrightarrow> chan_ok c'"
  by (auto simp: try_send_def chan_ok_def chan_len_def split: if_splits)

lemma chan_ok_receive: "chan_ok c \<Longrightarrow> chan_ok (receive n c)"
  by (auto simp: receive_def chan_ok_def chan_len_def)

lemma chan_ok_make: "chan_ok (make_chan n)"
  by (simp add: make_chan_def chan_ok_def chan_len_def)

lemma cap_send: "try_send v c = Some c' \<Longrightarrow> ch_cap c' = ch_cap c \<and> ch_sent c' = ch_sent c @ [v]"
  by (auto simp: try_send_def split: if_splits)

lemma receive_sel [simp]: "ch_cap (receive n c) = ch_cap c" "ch_sent (receive n c) = ch_sent c"
  by (simp_all add: receive_def)

lemma send_error_sel [simp]:
  "ws_id (send_error e s) = ws_id s" "ws_table (send_error e s) = ws_table s" "ws_where (send_error e s) = ws_where s"
  "ws_events (send_error e s) = ws_events s" "ws_closed (send_error e s) = ws_closed s"
  "ws_initialDone (send_error e s) = ws_initialDone s" "ws_initialRows (send_error e s) = ws_initialRows s"
  "ws_pending (send_error e s) = ws_pending s"
  by (simp_all add: send_error_def split: option.splits)

lemma sub_ok_send_error: "sub_ok s \<Longrightarrow> sub_ok (send_error e s)"
  by (auto simp: sub_ok_def send_error_def pending_limit_def dest: chan_ok_send split: option.splits)

lemma sub_ok_closed [simp]: "sub_ok (s\<lparr>ws_closed := b\<rparr>) = sub_ok s"
  by (simp add: sub_ok_def pending_limit_def)

lemma remove_sub_cong:
  assumes "ws_id s = ws_id s'" "ws_table s = ws_table s'"
  shows "remove_sub s m = remove_sub s' m"
  unfolding remove_sub_def assms ..

lemma remove_sub_sel [simp]:
  "wm_enc (remove_sub s m) = wm_enc m" "wm_subs (remove_sub s m) = wm_subs m" "wm_nextID (remove_sub s m) = wm_nextID m"
  "wm_in (remove_sub s m) = wm_in m" "wm_run (remove_sub s m) = wm_run m" "wm_initial (remove_sub s m) = wm_initial m"
  "wm_close (remove_sub s m) = wm_close m" "wm_done (remove_sub s m) = wm_done m" "wm_failed (remove_sub s m) = wm_failed m"
  by (simp_all add: remove_sub_def Let_def split: option.splits)

lemma move_refl: "sub_ok s \<Longrightarrow> sub_move s m (s, m)"
  by (simp add: sub_move_def)

lemma move_overflow: "sub_ok s \<Longrightarrow> \<not> ws_closed s \<Longrightarrow> sub_move s m (reportOverflowLocked s m)"
  using sub_ok_send_error [of s]
  by (simp add: sub_move_def reportOverflowLocked_def closeLocked_def sub_ok_def pending_limit_def
      remove_sub_cong [of "send_error e s" s for e] split: if_splits)

lemma move_send: "sub_ok s \<Longrightarrow> \<not> ws_closed s \<Longrightarrow> sub_move s m (snd (sendLocked event s m))"
  using move_overflow [of s m]
  by (auto simp: sendLocked_def sub_move_def sub_ok_def pending_limit_def dest: chan_ok_send cap_send split: option.splits)

lemma move_offer: "sub_ok s \<Longrightarrow> sub_move s m (snd (offerLocked event s m))"
  using move_overflow [of s m] move_send [of s m]
  by (auto simp: offerLocked_def move_refl Let_def split: option.splits)
     (auto simp: sub_move_def sub_ok_def pending_limit_def)

lemma move_trans:
  assumes "sub_move s m (s', m)" "ws_closed s' = ws_closed s" "sub_move s' m sm"
  shows "sub_move s m sm"
  using assms by (auto simp: sub_move_def remove_sub_cong [of s' s] split: if_splits)


lemma send_True: "sendLocked event s m = (True, s', m') \<Longrightarrow> m' = m \<and> (\<exists>c. try_send event (ws_events s) = Some c \<and> s' = s\<lparr>ws_events := c\<rparr>)"
  by (auto simp: sendLocked_def split: option.splits)

lemma sub_ok_receive: "sub_ok s \<Longrightarrow> sub_ok (s\<lparr>ws_events := receive n (ws_events s)\<rparr>)"
  by (auto simp: sub_ok_def pending_limit_def chan_ok_receive)

lemma move_send_all: "sub_ok s \<Longrightarrow> \<not> ws_closed s \<Longrightarrow> sub_move s m (snd (send_all sched es s m))"
proof (induction sched es s m rule: send_all.induct)
  case (2 sched event rest s m)
  define r where "r = s\<lparr>ws_events := receive (case sched of [] \<Rightarrow> 0 | n # _ \<Rightarrow> n) (ws_events s)\<rparr>"
  have r: "sub_ok r" "\<not> ws_closed r" "sub_move s m (r, m)" "ws_closed r = ws_closed s"
    using 2 sub_ok_receive by (auto simp: r_def sub_move_def)
  obtain ok s1 m1 where sent: "sendLocked event r m = (ok, s1, m1)" by (metis prod_cases3)
  have step: "sub_move r m (s1, m1)" using move_send [OF r(1,2), of m event] sent by simp
  show ?case
  proof (cases ok)
    case True
    then have m1: "m1 = m" "ws_closed s1 = ws_closed r" "ws_closed s1 = ws_closed s" using send_True [of event r m s1 m1] sent r by auto
    have "sub_ok s1" using step by (simp add: sub_move_def)
    then have "sub_move s1 m (snd (send_all (tl sched) rest s1 m))"
      using "2.IH" [of r ok "(s1, m1)" s1 m1] True sent m1 2 by (simp add: r_def)
    then have "sub_move s m (snd (send_all (tl sched) rest s1 m))"
      using move_trans [OF r(3,4) move_trans [OF step [unfolded m1(1)] m1(2)]] by simp
    then show ?thesis using True sent m1 by (simp add: r_def [symmetric] Let_def)
  next
    case False
    then show ?thesis using move_trans [OF r(3,4) step] sent by (simp add: r_def [symmetric] Let_def)
  qed
qed (simp add: move_refl)

lemma send_all_True:
  "send_all sched es s m = (True, s', m') \<Longrightarrow> m' = m \<and> ws_closed s' = ws_closed s \<and> ws_pending s' = ws_pending s
     \<and> ws_initialRows s' = ws_initialRows s \<and> ws_where s' = ws_where s \<and> ch_cap (ws_events s') = ch_cap (ws_events s)
     \<and> ch_sent (ws_events s') = ch_sent (ws_events s) @ es"
proof (induction sched es s m rule: send_all.induct)
  case (2 sched event rest s m)
  then show ?case
    by (auto simp: Let_def split: prod.splits bool.splits dest!: send_True cap_send)
qed simp

lemma move_finish: "sub_ok s \<Longrightarrow> sub_move s m (finishInitial sched initial s m)"
proof (cases "ws_closed s")
  case False
  assume ok: "sub_ok s"
  let ?s = "s\<lparr>ws_initialRows := initialEventRows initial\<rparr>"
  have s: "sub_ok ?s" "sub_move s m (?s, m)" using ok by (auto simp: sub_move_def sub_ok_def pending_limit_def)
  obtain b s1 m1 where first: "send_all sched initial ?s m = (b, s1, m1)" by (metis prod_cases3)
  have step: "sub_move ?s m (s1, m1)" using move_send_all [OF s(1), of m sched initial] first False by simp
  show ?thesis
  proof (cases b)
    case True
    then have m1: "m1 = m" "ws_closed s1 = ws_closed s" using send_all_True first by auto
    let ?t = "s1\<lparr>ws_initialDone := True, ws_pending := []\<rparr>"
    have t: "sub_ok ?t" "sub_move s1 m (?t, m)" using step by (auto simp: sub_move_def sub_ok_def pending_limit_def)
    have "sub_move ?t m (snd (send_all sched' es ?t m))" for sched' es
      using move_send_all [OF t(1)] m1 False by simp
    then have "sub_move s m (snd (send_all sched' es ?t m))" for sched' es
      using move_trans [OF s(2) _ move_trans [OF step [unfolded m1(1)] _ move_trans [OF t(2)]]] m1 by simp
    then show ?thesis using True first False m1 by (simp add: finishInitial_def)
  next
    case False
    then show ?thesis using move_trans [OF s(2) _ step] first \<open>\<not> ws_closed s\<close> by (simp add: finishInitial_def)
  qed
qed (simp add: finishInitial_def move_refl)

lemma move_offerError: "sub_ok s \<Longrightarrow> sub_move s m (offerError e s, m)"
  by (simp add: offerError_def sub_move_def sub_ok_send_error)

lemma offerError_sel [simp]:
  "ws_id (offerError e s) = ws_id s" "ws_table (offerError e s) = ws_table s" "ws_where (offerError e s) = ws_where s"
  "ws_events (offerError e s) = ws_events s" "ws_closed (offerError e s) = ws_closed s"
  "ws_initialDone (offerError e s) = ws_initialDone s" "ws_initialRows (offerError e s) = ws_initialRows s"
  "ws_pending (offerError e s) = ws_pending s"
  by (simp_all add: offerError_def)

lemma move_initial: "sub_ok s \<Longrightarrow> sub_move s m (sendInitial sched selected s m)"
  by (cases selected) (simp_all add: sendInitial_def move_finish)

lemma move_cancel: "sub_ok s \<Longrightarrow> sub_move s m (cancel_sub s m)"
  by (auto simp: cancel_sub_def closeLocked_def sub_move_def sub_ok_def pending_limit_def)

lemmas sub_moves = move_offer move_initial move_cancel move_offerError


subsection \<open>The invariant\<close>

lemma subs_of_remove:
  "subs_of (remove_sub s m) tab = (if tab = ws_table s then removeAll (ws_id s) (subs_of m tab) else subs_of m tab)"
  by (auto simp: remove_sub_def subs_of_def Let_def split: option.splits)

lemma nth_stop: "j < length ps \<Longrightarrow> stop_poller k ps ! j = (if j = k then (ps ! j)\<lparr>po_stop := True\<rparr> else ps ! j)"
  by (auto simp: stop_poller_def nth_list_update)

lemma length_stop [simp]: "length (stop_poller k ps) = length ps"
  by (simp add: stop_poller_def)

lemma nth_stop_all:
  "j < length ps \<Longrightarrow> foldl (\<lambda>ps k. stop_poller k ps) ps ks ! j = (if j \<in> set ks then (ps ! j)\<lparr>po_stop := True\<rparr> else ps ! j)"
  by (induction ks arbitrary: ps) (auto simp: nth_stop)

lemma length_stop_all [simp]: "length (foldl (\<lambda>ps k. stop_poller k ps) ps ks) = length ps"
  by (induction ks arbitrary: ps) auto

lemma pollers_stop:
  assumes ok: "pollers_ok m" and k: "fmlookup (wm_pollOnce m) tab = Some k"
  shows "pollers_ok (m\<lparr>wm_byTable := b, wm_pollers := stop_poller k (wm_pollers m), wm_pollOnce := fmdrop tab (wm_pollOnce m)\<rparr>)"
proof -
  have run: "running m tab k" "\<And>t j. fmlookup (wm_pollOnce m) t = Some j \<longleftrightarrow> running m t j"
    using ok k by (auto simp: pollers_ok_def)
  have uniq: "running m tab j \<longleftrightarrow> j = k" for j
  proof
    assume "running m tab j"
    then have "fmlookup (wm_pollOnce m) tab = Some j" by (simp only: run(2))
    then show "j = k" using k by simp
  qed (simp add: run(1))
  have "running (m\<lparr>wm_byTable := b, wm_pollers := stop_poller k (wm_pollers m), wm_pollOnce := fmdrop tab (wm_pollOnce m)\<rparr>) t j
    \<longleftrightarrow> running m t j \<and> j \<noteq> k" for t j
    by (auto simp: running_def nth_stop split: if_splits)
  moreover have "t \<noteq> tab \<longleftrightarrow> j \<noteq> k" if "running m t j" for t j
    using that uniq run(1) by (auto simp: running_def)
  ultimately show ?thesis using run(2) uniq by (auto simp: pollers_ok_def)
qed

lemma pollers_cong:
  "wm_pollers m' = wm_pollers m \<Longrightarrow> wm_pollOnce m' = wm_pollOnce m \<Longrightarrow> pollers_ok m' = pollers_ok m"
  by (simp add: pollers_ok_def running_def)

lemma pollers_remove: "pollers_ok m \<Longrightarrow> pollers_ok (remove_sub s m)"
  using pollers_stop [of m "ws_table s"]
  by (auto simp: remove_sub_def Let_def pollers_cong [of "m\<lparr>wm_byTable := b\<rparr>" m for b] split: option.splits)

lemma remove_no_empty:
  "fmlookup (wm_byTable m) tab \<noteq> Some [] \<Longrightarrow> fmlookup (wm_byTable (remove_sub s m)) tab \<noteq> Some []"
  by (auto simp: remove_sub_def Let_def split: option.splits if_splits)

lemma open_upd:
  "open_sub (m\<lparr>wm_subs := fmupd i s (wm_subs m)\<rparr>) tab j
   \<longleftrightarrow> (if j = i then ws_table s = tab \<and> \<not> ws_closed s else open_sub m tab j)"
  by (auto simp: open_sub_def)

lemma put_move:
  assumes inv: "watch_inv m" and s: "fmlookup (wm_subs m) i = Some s" and move: "sub_move s m (s', m')"
  shows "watch_inv (put_sub (s', m'))"
proof -
  have id: "ws_id s = i" "sub_ok s" using inv s by (auto simp: watch_inv_def subs_ok_def)
  have reg: "distinct (subs_of m tab)" "j \<in> set (subs_of m tab) \<longleftrightarrow> open_sub m tab j \<and> j \<notin> collected m"
    "fmlookup (wm_byTable m) tab \<noteq> Some []" "\<forall>j\<in>collected m. j \<le> wm_nextID m" for tab j
    using inv by (auto simp: watch_inv_def registered_ok_def)
  have coll: "collected (put_sub (s', m')) = collected m"
    using move by (auto simp: collected_def put_sub_def sub_move_def split: if_splits)
  have s': "ws_id s' = i" "ws_table s' = ws_table s" "sub_ok s'" using move id by (auto simp: sub_move_def)
  have subs: "subs_ok (put_sub (s', m'))"
  proof -
    have "wm_subs m' = wm_subs m" "wm_nextID m' = wm_nextID m" using move by (auto simp: sub_move_def split: if_splits)
    then show ?thesis using inv s s' by (auto simp: watch_inv_def subs_ok_def put_sub_def)
  qed
  consider (same) "m' = m" "ws_closed s' = ws_closed s" | (closing) "m' = remove_sub s m" "ws_closed s'" "\<not> ws_closed s"
    using move by (auto simp: sub_move_def split: if_splits)
  then show ?thesis
  proof cases
    case same
    have "open_sub (put_sub (s', m)) tab j \<longleftrightarrow> open_sub m tab j" for tab j
      using same s s' by (auto simp: put_sub_def open_upd) (auto simp: open_sub_def)
    moreover have "subs_of (put_sub (s', m)) tab = subs_of m tab" for tab by (simp add: put_sub_def subs_of_def)
    moreover have "wm_byTable (put_sub (s', m)) = wm_byTable m" "wm_nextID (put_sub (s', m)) = wm_nextID m"
      by (simp_all add: put_sub_def)
    ultimately have "registered_ok (put_sub (s', m'))"
      using reg same(1) coll unfolding registered_ok_def by simp
    then show ?thesis
      using subs inv same coll by (simp add: watch_inv_def) (simp add: put_sub_def pollers_cong [of "m\<lparr>wm_subs := b\<rparr>" m for b])
  next
    case closing
    have "open_sub (put_sub (s', m')) tab j \<longleftrightarrow> open_sub m tab j \<and> j \<noteq> i" for tab j
      using closing s s' by (auto simp: put_sub_def open_sub_def split: if_splits)
    moreover have "subs_of (put_sub (s', m')) tab = subs_of (remove_sub s m) tab" for tab
      by (simp add: put_sub_def subs_of_def closing)
    moreover have "open_sub m tab i \<Longrightarrow> tab = ws_table s" for tab using s by (auto simp: open_sub_def)
    moreover have "fmlookup (wm_byTable (put_sub (s', m'))) tab \<noteq> Some []" for tab
      using remove_no_empty [OF reg(3)] by (simp add: put_sub_def closing)
    moreover have "wm_nextID (put_sub (s', m')) = wm_nextID m" by (simp add: put_sub_def closing)
    ultimately have "registered_ok (put_sub (s', m'))"
      unfolding registered_ok_def coll subs_of_remove
      using reg id by (auto simp: distinct_removeAll)
    then show ?thesis
      using subs inv closing pollers_remove [of m s] coll
      by (simp add: watch_inv_def) (simp add: put_sub_def pollers_cong [of "remove_sub s m\<lparr>wm_subs := b\<rparr>" "remove_sub s m" for b])
  qed
qed

lemma on_sub_inv:
  assumes "watch_inv m" "\<And>s. sub_ok s \<Longrightarrow> sub_move s m (f s m)"
  shows "watch_inv (on_sub i f m)"
proof (cases "fmlookup (wm_subs m) i")
  case (Some s)
  then have "sub_ok s" using assms(1) by (auto simp: watch_inv_def subs_ok_def)
  then show ?thesis using put_move [OF assms(1) Some, of "fst (f s m)" "snd (f s m)"] assms(2) Some by (simp add: on_sub_def)
qed (simp add: on_sub_def assms(1))

text \<open>Changes that the invariant does not see.\<close>

lemma watch_inv_cong:
  assumes "watch_inv m" "wm_subs m' = wm_subs m" "wm_nextID m' = wm_nextID m" "wm_byTable m' = wm_byTable m"
    "wm_pollOnce m' = wm_pollOnce m" "wm_close m' = wm_close m" "wm_done m' = wm_done m"
    "length (wm_pollers m') = length (wm_pollers m)"
    "\<And>k. k < length (wm_pollers m) \<Longrightarrow> po_table (wm_pollers m' ! k) = po_table (wm_pollers m ! k)
       \<and> po_stop (wm_pollers m' ! k) = po_stop (wm_pollers m ! k)"
    "length (wm_in m') \<le> defaultWatchRawBuffer"
  shows "watch_inv m'"
proof -
  have "running m' = running m" using assms(8,9) by (auto simp: running_def fun_eq_iff)
  moreover have "open_sub m' = open_sub m" "subs_of m' = subs_of m" "collected m' = collected m"
    using assms(2,4,6) by (auto simp: open_sub_def subs_of_def collected_def fun_eq_iff)
  ultimately show ?thesis using assms(1-7,10) by (simp add: watch_inv_def subs_ok_def registered_ok_def pollers_ok_def)
qed


lemma close_inv_tables:
  assumes "watch_inv m" "wm_close m = CloseDone"
  shows "watch_inv (close_manager m)"
proof -
  let ?subs = "concat (map (subs_of m) (range_keys (wm_byTable m)))"
  let ?ps = "foldl (\<lambda>ps k. stop_poller k ps) (wm_pollers m) (range_values (wm_pollOnce m))"
  let ?m = "m\<lparr>wm_pollers := ?ps, wm_byTable := fmempty, wm_pollOnce := fmempty, wm_close := CloseCancel ?subs\<rparr>"
  have m': "close_manager m = ?m" using assms(2) by (simp add: close_manager_def Let_def)
  have ok: "subs_ok m" "registered_ok m" "pollers_ok m" "collected m = {}"
    using assms by (auto simp: watch_inv_def collected_def)
  have opn: "open_sub ?m = open_sub m" by (simp add: open_sub_def fun_eq_iff)
  have coll: "collected ?m = {i. \<exists>tab. open_sub m tab i}"
  proof -
    have "set ?subs = (\<Union>tab. set (subs_of m tab))"
    proof (intro equalityI subsetI)
      fix i assume "i \<in> (\<Union>tab. set (subs_of m tab))"
      then obtain tab where "i \<in> set (subs_of m tab)" by blast
      moreover from this have "tab \<in> fmdom' (wm_byTable m)"
        by (cases "fmlookup (wm_byTable m) tab") (auto simp: subs_of_def intro: fmdom'I)
      ultimately show "i \<in> set ?subs" by auto
    qed auto
    also have "\<dots> = {i. \<exists>tab. open_sub m tab i}" using ok(2,4) by (auto simp: registered_ok_def)
    finally show ?thesis by (simp add: collected_def)
  qed
  have "i \<le> wm_nextID m" if "open_sub m tab i" for tab i
    using that ok(1) by (auto simp: open_sub_def subs_ok_def)
  then have "registered_ok ?m" unfolding registered_ok_def coll opn by (auto simp: subs_of_def)
  moreover have "\<not> running ?m tab k" for tab k
  proof
    assume "running ?m tab k"
    then have "running m tab k" "k \<notin> set (range_values (wm_pollOnce m))" by (auto simp: running_def nth_stop_all split: if_splits)
    then have "fmlookup (wm_pollOnce m) tab = Some k" "k \<notin> set (range_values (wm_pollOnce m))" using ok(3) by (auto simp: pollers_ok_def)
    then show False by (force simp: range_values_def fmlookup_dom'_iff)
  qed
  then have "pollers_ok ?m" by (simp add: pollers_ok_def)
  moreover have "subs_ok ?m" using ok(1) by (simp add: subs_ok_def)
  ultimately show ?thesis using assms unfolding m' watch_inv_def by simp
qed

lemma on_sub_phase:
  assumes "\<And>s. sub_ok s \<Longrightarrow> sub_move s m (f s m)" "subs_ok m"
  shows "wm_close (on_sub i f m) = wm_close m \<and> wm_done (on_sub i f m) = wm_done m \<and> wm_failed (on_sub i f m) = wm_failed m"
proof (cases "fmlookup (wm_subs m) i")
  case (Some s)
  then have "sub_move s m (f s m)" using assms by (auto simp: subs_ok_def)
  then show ?thesis using Some
    by (auto simp: on_sub_def put_sub_def sub_move_def split: prod.splits if_splits)
qed (simp add: on_sub_def)

lemma close_inv:
  assumes "watch_inv m"
  shows "watch_inv (close_manager m)"
proof -
  consider (idle) "wm_close m = CloseIdle" | (tables) "wm_close m = CloseDone" | (end') "wm_close m = CloseCancel []"
    | (cancel) i rest where "wm_close m = CloseCancel (i # rest)"
    by (metis close_phase.exhaust list.exhaust)
  then show ?thesis
  proof cases
    case idle
    then have "collected (close_manager m) = {}" "collected m = {}" by (simp_all add: close_manager_def collected_def)
    then show ?thesis using assms(1) idle
      by (simp add: watch_inv_def registered_ok_def) (simp add: close_manager_def subs_ok_def open_sub_def subs_of_def pollers_ok_def running_def)
  next
    case tables
    then show ?thesis using close_inv_tables assms by simp
  next
    case end'
    then show ?thesis using assms(1) by (simp add: close_manager_def)
  next
    case cancel
    let ?m = "on_sub i cancel_sub m"
    have ok: "subs_ok m" using assms(1) by (simp add: watch_inv_def)
    have inv: "watch_inv ?m" by (rule on_sub_inv [OF assms(1)]) (rule move_cancel)
    have phase: "wm_close ?m = CloseCancel (i # rest)" 
      using on_sub_phase [where f = cancel_sub and i = i, OF _ ok] move_cancel cancel by simp
    have "\<not> open_sub ?m tab i" for tab
    proof (cases "fmlookup (wm_subs m) i")
      case (Some s)
      then have "ws_id s = i" using ok by (auto simp: subs_ok_def)
      then show ?thesis using Some by (auto simp: on_sub_def put_sub_def cancel_sub_def closeLocked_def open_sub_def)
    qed (simp add: on_sub_def open_sub_def)
    moreover have "collected ?m = insert i (set rest)" by (simp add: collected_def phase)
    moreover have "open_sub (?m\<lparr>wm_close := c\<rparr>) = open_sub ?m" "subs_of (?m\<lparr>wm_close := c\<rparr>) = subs_of ?m"
      "collected (?m\<lparr>wm_close := CloseCancel rest\<rparr>) = set rest" for c
      by (simp_all add: open_sub_def subs_of_def collected_def fun_eq_iff)
    ultimately have "registered_ok (?m\<lparr>wm_close := CloseCancel rest\<rparr>)"
      using inv by (auto simp: watch_inv_def registered_ok_def)
    moreover have "wm_done ?m" using inv phase by (simp add: watch_inv_def)
    ultimately show ?thesis using inv cancel
      by (simp add: watch_inv_def close_manager_def subs_ok_def pollers_ok_def running_def)
  qed
qed

lemma subscribe_inv:
  assumes "watch_inv m"
  shows "watch_inv (subscribe tab where' n m)"
proof -
  let ?m = "subscribe tab where' n m" and ?i = "Suc (wm_nextID m)"
  have ids: "j \<le> wm_nextID m" if "fmlookup (wm_subs m) j = Some s" for j s
    using assms that by (auto simp: watch_inv_def subs_ok_def)
  then have new: "fmlookup (wm_subs m) ?i = None" by (cases "fmlookup (wm_subs m) ?i") fastforce+
  have reg: "distinct (subs_of m t)" "set (subs_of m t) = {i. open_sub m t i \<and> i \<notin> collected m}"
    "fmlookup (wm_byTable m) t \<noteq> Some []" "\<forall>i\<in>collected m. i \<le> wm_nextID m" for t
    using assms by (auto simp: watch_inv_def registered_ok_def)
  have coll: "collected ?m = collected m" "?i \<notin> collected m" "wm_nextID ?m = ?i"
    using reg(4) by (auto simp: collected_def subscribe_def Let_def)
  have notin: "\<not> open_sub m t ?i" for t by (simp add: open_sub_def new)
  have subs: "subs_of ?m t = (if t = tab then subs_of m tab @ [?i] else subs_of m t)" for t
    by (simp add: subscribe_def Let_def subs_of_def)
  have opn: "open_sub ?m t j \<longleftrightarrow> open_sub m t j \<or> (t = tab \<and> j = ?i)" for t j
    using new by (auto simp: open_sub_def subscribe_def Let_def)
  have none: "fmlookup (wm_byTable ?m) t \<noteq> Some []" for t
    using reg(3) by (simp add: subscribe_def Let_def)
  have "subs_ok ?m" using assms
    by (auto simp: watch_inv_def subs_ok_def subscribe_def Let_def sub_ok_def chan_ok_make intro: le_SucI)
  moreover have "registered_ok ?m"
    unfolding registered_ok_def subs opn coll using reg(1,2,4) notin none coll(2) by (auto simp: le_SucI)
  moreover have "pollers_ok ?m" using assms
    by (simp add: watch_inv_def subscribe_def Let_def pollers_ok_def running_def)
  ultimately show ?thesis using assms by (simp add: watch_inv_def) (simp add: subscribe_def Let_def)
qed

lemma startPoller_inv:
  assumes "watch_inv m"
  shows "watch_inv (startPoller tab m)"
proof (cases "fmlookup (wm_pollOnce m) tab")
  case None
  have p: "fmlookup (wm_pollOnce m) t = Some k \<longleftrightarrow> running m t k" for t k
    using assms by (auto simp: watch_inv_def pollers_ok_def)
  have "running (startPoller tab m) t k \<longleftrightarrow> running m t k \<or> (t = tab \<and> k = length (wm_pollers m))" for t k
    by (auto simp: running_def startPoller_def None new_poller_def nth_append)
  moreover have "\<not> running m tab k" for k using p [of tab k] None by simp
  moreover have "fmlookup (wm_pollOnce (startPoller tab m)) t = (if t = tab then Some (length (wm_pollers m)) else fmlookup (wm_pollOnce m) t)" for t
    by (simp add: startPoller_def None)
  ultimately have "pollers_ok (startPoller tab m)" by (auto simp: pollers_ok_def p)
  then show ?thesis using assms
    by (simp add: watch_inv_def subs_ok_def registered_ok_def open_sub_def subs_of_def collected_def) (simp add: startPoller_def None)
qed (simp add: startPoller_def assms)


text \<open>Changes of a poller that leave its table and its stop channel alone.\<close>

lemma poller_upd_inv:
  assumes "watch_inv m" "po_table p = po_table (wm_pollers m ! k)" "po_stop p = po_stop (wm_pollers m ! k)"
  shows "watch_inv (m\<lparr>wm_pollers := (wm_pollers m)[k := p]\<rparr>)"
proof (rule watch_inv_cong [OF assms(1)])
  show "po_table (wm_pollers (m\<lparr>wm_pollers := (wm_pollers m)[k := p]\<rparr>) ! j) = po_table (wm_pollers m ! j)
      \<and> po_stop (wm_pollers (m\<lparr>wm_pollers := (wm_pollers m)[k := p]\<rparr>) ! j) = po_stop (wm_pollers m ! j)"
    if "j < length (wm_pollers m)" for j
    using that assms(2,3) by (cases "j = k") simp_all
qed (use assms(1) in \<open>simp_all add: watch_inv_def\<close>)

lemma publishError_inv: "watch_inv m \<Longrightarrow> watch_inv (publishError k e m)"
  by (simp add: publishError_def Let_def poller_upd_inv)

lemma publish_error_to_inv: "watch_inv m \<Longrightarrow> watch_inv (publish_error_to k m)"
  by (auto simp: publish_error_to_def Let_def poller_upd_inv intro!: on_sub_inv move_offerError split: option.splits list.splits)

lemma enqueue_inv: "watch_inv m \<Longrightarrow> watch_inv (enqueue pick k event m)"
  using publishError_inv [of m] watch_inv_cong [of m "m\<lparr>wm_in := wm_in m @ [x]\<rparr>" for x]
  by (simp add: enqueue_def Let_def)

lemma poll_inv: "watch_inv m \<Longrightarrow> watch_inv (poll_round selected k m)" "watch_inv m \<Longrightarrow> watch_inv (poll_exit k m)"
  "watch_inv m \<Longrightarrow> watch_inv (poll_send pick k m)"
proof -
  assume inv: "watch_inv m"
  show "watch_inv (poll_round selected k m)"
    using publishError_inv [OF inv] inv by (auto simp: poll_round_def Let_def poller_upd_inv split: sum.splits)
  show "watch_inv (poll_exit k m)" using inv by (simp add: poll_exit_def poller_upd_inv)
  show "watch_inv (poll_send pick k m)"
    using inv by (auto simp: poll_send_def Let_def intro!: enqueue_inv poller_upd_inv split: list.splits)
qed

lemma fields_inv:
  assumes "watch_inv m"
  shows "watch_inv (m\<lparr>wm_run := r\<rparr>)" "watch_inv (m\<lparr>wm_initial := x, wm_failed := f\<rparr>)" "watch_inv (m\<lparr>wm_failed := f\<rparr>)"
    "watch_inv (m\<lparr>wm_starting := t\<rparr>)" "length rest \<le> defaultWatchRawBuffer \<Longrightarrow> watch_inv (m\<lparr>wm_in := rest, wm_run := r\<rparr>)"
  by (rule watch_inv_cong [OF assms]; use assms in \<open>auto simp: watch_inv_def\<close>)+

lemma dispatch_inv: "watch_inv m \<Longrightarrow> watch_inv (run_take m)" "watch_inv m \<Longrightarrow> watch_inv (run_publish m)"
  "watch_inv m \<Longrightarrow> watch_inv (run_offer m)" "watch_inv m \<Longrightarrow> watch_inv (offer_failure k m)"
proof -
  assume inv: "watch_inv m"
  have "length (wm_in m) \<le> defaultWatchRawBuffer" using inv by (simp add: watch_inv_def)
  then show "watch_inv (run_take m)" using inv fields_inv(5) [OF inv]
    by (auto simp: run_take_def split: run_phase.splits list.splits)
  show "watch_inv (run_publish m)" using inv fields_inv(1) [OF inv] by (auto simp: run_publish_def split: run_phase.splits)
  show "watch_inv (run_offer m)" using inv fields_inv(1) [OF inv]
    by (auto simp: run_offer_def intro!: on_sub_inv move_offer split: run_phase.splits list.splits)
  show "watch_inv (offer_failure k m)" using inv fields_inv(3) [OF inv]
    by (auto simp: offer_failure_def intro!: on_sub_inv move_offerError split: prod.splits)
qed

lemma watch_step_inv: "watch_inv m \<Longrightarrow> watch_inv (watch_step m op)"
proof (induction m op rule: watch_step.induct)
  case (2 m)
  then show ?case using fields_inv(4) [OF 2] by (auto intro!: startPoller_inv split: list.splits)
next
  case (3 m i sched selected)
  then show ?case using fields_inv(2) [OF 3] by (auto intro!: on_sub_inv move_initial)
qed (auto intro: subscribe_inv poll_inv dispatch_inv close_inv on_sub_inv move_cancel publish_error_to_inv
    simp: sub_move_def sub_ok_receive intro!: on_sub_inv, auto simp: sub_ok_def pending_limit_def chan_ok_receive)

interpretation watching: invariant_system watch_step watch_inv
  by unfold_locales (rule watch_step_inv)

lemma new_inv: "watch_inv (newWatchManager database enc)"
  by (simp add: watch_inv_def newWatchManager_def subs_ok_def registered_ok_def pollers_ok_def running_def open_sub_def subs_of_def collected_def)

end
