(* ===== verification/Watch_Delivery.thy ===== *)
theory Watch_Delivery
  imports Watch_Props
begin

text \<open>
  Delivery: what a subscription has been sent, in terms of the events offered to it.
\<close>

section \<open>Offers\<close>

text \<open>The event a step offers to subscription \<open>i\<close>, and the events a run offers to it.\<close>

definition step_offer :: "nat \<Rightarrow> watchManager \<Rightarrow> watch_op \<Rightarrow> RowEvent list" where
  "step_offer i m op =
     (case (op, wm_run m) of
        (RunOffer, RunOffering event (j # _)) \<Rightarrow> if j = i \<and> fmlookup (wm_subs m) i \<noteq> None then [event] else []
      | _ \<Rightarrow> [])"

fun offers_to :: "nat \<Rightarrow> watchManager \<Rightarrow> watch_op list \<Rightarrow> RowEvent list" where
  "offers_to i m [] = []"
| "offers_to i m (op # ops) = step_offer i m op @ offers_to i (watch_step m op) ops"

lemma offers_to_append: "offers_to i m (ops @ ops') = offers_to i m ops @ offers_to i (foldl watch_step m ops) ops'"
  by (induction ops arbitrary: m) auto

text \<open>The rows the selects of \<open>sendInitial\<close> have returned for a subscription; none for a failed one.\<close>

definition step_snapshot :: "nat \<Rightarrow> watchManager \<Rightarrow> watch_op \<Rightarrow> row list list" where
  "step_snapshot i m op =
     (case op of
        SendInitial j sched selected \<Rightarrow>
          if j = i \<and> i \<in> set (wm_initial m) then [case selected of Inl e \<Rightarrow> [] | Inr rows \<Rightarrow> rows] else []
      | _ \<Rightarrow> [])"

fun snapshots_of :: "nat \<Rightarrow> watchManager \<Rightarrow> watch_op list \<Rightarrow> row list list" where
  "snapshots_of i m [] = []"
| "snapshots_of i m (op # ops) = step_snapshot i m op @ snapshots_of i (watch_step m op) ops"

lemma snapshots_of_append:
  "snapshots_of i m (ops @ ops') = snapshots_of i m ops @ snapshots_of i (foldl watch_step m ops) ops'"
  by (induction ops arbitrary: m) auto

text \<open>
  What a subscription is to receive: every row of the snapshot, then the matching events. The first
  round of a poller reports every row as added; such a report is left out when the snapshot has
  shown the same version of the row, is an update when it has shown another one, and an addition
  when it has not shown the row.
\<close>

definition shown :: "row list \<Rightarrow> string \<Rightarrow> row option" where
  "shown rows i = (if i = [] then None else find (\<lambda>r. rowIdentity (Some r) = i) (rev rows))"

definition report :: "(any \<Rightarrow> string) \<Rightarrow> row list \<Rightarrow> RowEvent \<Rightarrow> RowEvent list" where
  "report enc rows event =
     (if ev_baseline event \<and> ev_Type event = EventAdd
      then (case shown rows (rowIdentity (ev_New event)) of
          None \<Rightarrow> [event\<lparr>ev_baseline := False\<rparr>]
        | Some r \<Rightarrow>
            if rowFingerprint enc r = rowFingerprint enc (the (ev_New event)) then []
            else [\<lparr>ev_Type = EventUpdate, ev_Old = Some r, ev_New = ev_New event, ev_baseline = False\<rparr>])
      else [event])"

definition deliverable :: "(any \<Rightarrow> string) \<Rightarrow> row list \<Rightarrow> Condition list \<Rightarrow> RowEvent list \<Rightarrow> RowEvent list" where
  "deliverable enc rows where' offered =
     map (\<lambda>r. \<lparr>ev_Type = EventInitial, ev_Old = None, ev_New = Some r, ev_baseline = False\<rparr>) rows
     @ concat (map (report enc rows) (filter (eventMatches where') offered))"

lemma shown_initialEventRows: "fmlookup (initialEventRows (map initial_event rows)) i = shown rows i"
  by (induction rows rule: rev_induct)
    (auto simp: initialEventRows_def initial_event_def shown_def Let_def)

lemma normalize_report:
  "(case normalizeBaselineLocked enc (initialEventRows (map initial_event rows)) event of None \<Rightarrow> [] | Some e \<Rightarrow> [e])
   = report enc rows event"
  by (auto simp: normalizeBaselineLocked_def report_def Let_def shown_initialEventRows split: option.splits)
    (auto simp: shown_def)

lemma map_filter_concat_map: "List.map_filter f xs = concat (map (\<lambda>x. case f x of None \<Rightarrow> [] | Some y \<Rightarrow> [y]) xs)"
  by (induction xs) (auto simp: List.map_filter_def split: option.splits)

lemma deliverable_normalize:
  "deliverable enc rows where' offered =
     map initial_event rows
     @ List.map_filter (normalizeBaselineLocked enc (initialEventRows (map initial_event rows))) (filter (eventMatches where') offered)"
  by (simp add: deliverable_def map_filter_concat_map normalize_report initial_event_def)

section \<open>Steps seen by one subscription\<close>

text \<open>A step that leaves queue and pending events of a subscription alone, and may close it.\<close>

definition quiet :: "rowWatchSubscription \<Rightarrow> rowWatchSubscription \<Rightarrow> bool" where
  "quiet s s' \<longleftrightarrow> ws_table s' = ws_table s \<and> ws_where s' = ws_where s \<and> ch_sent (ws_events s') = ch_sent (ws_events s) \<and> ws_initialDone s' = ws_initialDone s
     \<and> ws_initialRows s' = ws_initialRows s \<and> ws_pending s' = ws_pending s \<and> (ws_closed s \<longrightarrow> ws_closed s')"

lemma quiet_refl [simp]: "quiet s s"
  by (simp add: quiet_def)

lemma quiet_trans: "quiet s s' \<Longrightarrow> quiet s' s'' \<Longrightarrow> quiet s s''"
  by (simp add: quiet_def)

definition all_quiet :: "watchManager \<Rightarrow> watchManager \<Rightarrow> bool" where
  "all_quiet m m' \<longleftrightarrow> wm_initial m' = wm_initial m \<and> wm_enc m' = wm_enc m \<and> (\<forall>i. rel_option quiet (fmlookup (wm_subs m) i) (fmlookup (wm_subs m') i))"

lemma all_quiet_refl: "wm_initial m' = wm_initial m \<Longrightarrow> wm_enc m' = wm_enc m \<Longrightarrow> wm_subs m' = wm_subs m \<Longrightarrow> all_quiet m m'"
  by (simp add: all_quiet_def option.rel_refl)

lemma all_quiet_trans: "all_quiet m m' \<Longrightarrow> all_quiet m' m'' \<Longrightarrow> all_quiet m m''"
proof -
  assume a: "all_quiet m m'" "all_quiet m' m''"
  have "rel_option quiet (fmlookup (wm_subs m) i) (fmlookup (wm_subs m'') i)" for i
    using a by (auto simp: all_quiet_def option_rel_Some1 intro: quiet_trans dest!: spec [of _ i] elim!: option.rel_cases)
  then show ?thesis using a by (simp add: all_quiet_def)
qed

lemma on_sub_quiet:
  assumes "subs_ok m"
    and "\<And>s. fmlookup (wm_subs m) j = Some s \<Longrightarrow> quiet s (fst (f s m)) \<and> ws_id (fst (f s m)) = ws_id s
      \<and> (snd (f s m) = m \<or> snd (f s m) = remove_sub s m)"
  shows "all_quiet m (on_sub j f m)"
proof (cases "fmlookup (wm_subs m) j")
  case (Some s)
  have id: "ws_id s = j" using assms(1) Some by (auto simp: subs_ok_def)
  obtain s' m' where f: "f s m = (s', m')" by fastforce
  then have "quiet s s'" "ws_id s' = j" "wm_subs m' = wm_subs m" "wm_initial m' = wm_initial m" "wm_enc m' = wm_enc m"
    using assms(2) [OF Some] id by auto
  then show ?thesis using Some f
    by (auto simp: on_sub_def put_sub_def all_quiet_def option.rel_refl)
qed (simp add: on_sub_def all_quiet_refl)

lemma cancel_quiet: "quiet s (fst (cancel_sub s m)) \<and> ws_id (fst (cancel_sub s m)) = ws_id s
    \<and> (snd (cancel_sub s m) = m \<or> snd (cancel_sub s m) = remove_sub s m)"
  by (simp add: cancel_sub_def closeLocked_def quiet_def)

lemma offerError_quiet: "quiet s (offerError e s)"
  by (simp add: quiet_def)

lemma all_quiet_cong:
  "all_quiet m m' \<Longrightarrow> wm_initial n = wm_initial m \<Longrightarrow> wm_enc n = wm_enc m \<Longrightarrow> wm_subs n = wm_subs m \<Longrightarrow> all_quiet n m'"
  by (simp add: all_quiet_def)

lemma offerError_step_quiet:
  assumes "watch_inv m" "wm_initial m = wm_initial n" "wm_enc m = wm_enc n" "wm_subs m = wm_subs n"
  shows "all_quiet n (on_sub i (\<lambda>s m. (offerError e s, m)) m)"
proof -
  have "all_quiet m (on_sub i (\<lambda>s m. (offerError e s, m)) m)"
    using assms(1) by (intro on_sub_quiet) (simp_all add: watch_inv_def offerError_quiet)
  then show ?thesis by (rule all_quiet_cong) (simp_all add: assms)
qed

lemma publish_error_to_quiet:
  assumes "watch_inv m"
  shows "all_quiet m (publish_error_to k m)"
  using assms by (auto simp: publish_error_to_def Let_def all_quiet_refl poller_upd_inv intro!: offerError_step_quiet
      split: option.splits list.splits)

lemma offer_failure_quiet:
  assumes "watch_inv m"
  shows "all_quiet m (offer_failure k m)"
  using fields_inv(3) [OF assms]
  by (auto simp: offer_failure_def all_quiet_refl intro!: offerError_step_quiet split: prod.splits)

lemma enqueue_quiet: "all_quiet m (enqueue pick k event m)"
  by (simp add: enqueue_def publishError_def all_quiet_refl Let_def)

lemma close_quiet:
  assumes "watch_inv m"
  shows "all_quiet m (close_manager m)"
proof -
  have "all_quiet m (on_sub i cancel_sub m)" for i
    using assms by (intro on_sub_quiet cancel_quiet) (simp add: watch_inv_def)
  then have "all_quiet m ((on_sub i cancel_sub m)\<lparr>wm_close := c\<rparr>)" for i c by (simp add: all_quiet_def)
  then show ?thesis by (auto simp: close_manager_def Let_def all_quiet_refl split: close_phase.splits list.splits)
qed

text \<open>The steps that are quiet for every subscription: all but subscribing, offering and sending the snapshot.\<close>

lemma poll_quiet:
  "all_quiet m (poll_round selected k m)" "all_quiet m (poll_send pick k m)" "all_quiet m (poll_exit k m)"
proof -
  show "all_quiet m (poll_round selected k m)"
    by (auto simp: poll_round_def Let_def all_quiet_refl publishError_def split: sum.splits)
  show "all_quiet m (poll_exit k m)" by (simp add: poll_exit_def all_quiet_refl)
  have "all_quiet m (enqueue pick k event (m\<lparr>wm_pollers := ps\<rparr>))" for event ps
    using enqueue_quiet [of "m\<lparr>wm_pollers := ps\<rparr>"] by (simp add: all_quiet_def)
  then show "all_quiet m (poll_send pick k m)"
    by (auto simp: poll_send_def Let_def all_quiet_refl split: list.splits)
qed

lemma quiet_steps:
  assumes "watch_inv m"
  shows "all_quiet m (watch_step m StartPoller)" "all_quiet m (watch_step m (PollRound k selected))"
    "all_quiet m (watch_step m (PollSend k pick))" "all_quiet m (watch_step m (PollExit k))" "all_quiet m (watch_step m RunTake)"
    "all_quiet m (watch_step m (Forward j))" "all_quiet m (watch_step m (ReadError j))" "all_quiet m (watch_step m (Cancel j))"
    "all_quiet m (watch_step m CloseManager)" "all_quiet m (watch_step m RunPublish)" "all_quiet m (watch_step m (PollError k))"
    "all_quiet m (watch_step m (InitialError k))"
proof -
  have ok: "subs_ok m" using assms by (simp add: watch_inv_def)
  show "all_quiet m (watch_step m StartPoller)"
    by (auto simp: startPoller_def all_quiet_refl split: list.splits option.splits)
  show "all_quiet m (watch_step m RunTake)" "all_quiet m (watch_step m RunPublish)"
    by (auto simp: run_take_def run_publish_def all_quiet_refl split: list.splits run_phase.splits)
  show "all_quiet m (watch_step m (Forward j))" "all_quiet m (watch_step m (ReadError j))"
    unfolding watch_step.simps by (rule on_sub_quiet [OF ok]; simp add: quiet_def)+
  show "all_quiet m (watch_step m (Cancel j))"
    unfolding watch_step.simps by (rule on_sub_quiet [OF ok]) (rule cancel_quiet)
qed (simp_all add: poll_quiet close_quiet [OF assms] publish_error_to_quiet [OF assms] offer_failure_quiet [OF assms])

section \<open>In-order delivery\<close>

text \<open>
  Before the snapshot nothing is sent and the matching events are pending; after it, a prefix of what
  is to be received has been sent, and all of it while the subscription is open.
\<close>

definition sub_delivered :: "(any \<Rightarrow> string) \<Rightarrow> RowEvent list \<Rightarrow> row list list \<Rightarrow> rowWatchSubscription \<Rightarrow> bool" where
  "sub_delivered enc offered snaps s \<longleftrightarrow>
     (case snaps of
        [] \<Rightarrow> ch_sent (ws_events s) = [] \<and> \<not> ws_initialDone s
          \<and> (\<not> ws_closed s \<longrightarrow> ws_pending s = filter (eventMatches (ws_where s)) offered)
      | [rows] \<Rightarrow> prefix (ch_sent (ws_events s)) (deliverable enc rows (ws_where s) offered)
          \<and> (\<not> ws_closed s \<longrightarrow> ws_initialDone s \<and> ch_sent (ws_events s) = deliverable enc rows (ws_where s) offered
               \<and> ws_initialRows s = initialEventRows (map initial_event rows))
      | _ \<Rightarrow> False)"

lemma deliverable_snoc:
  "deliverable enc rows where' (offered @ [event]) = deliverable enc rows where' offered
     @ (if eventMatches where' event
        then (case normalizeBaselineLocked enc (initialEventRows (map initial_event rows)) event of None \<Rightarrow> [] | Some e \<Rightarrow> [e]) else [])"
  by (simp add: deliverable_normalize List.map_filter_def split: option.splits)

lemma quiet_delivered: "sub_delivered enc offered snaps s \<Longrightarrow> quiet s s' \<Longrightarrow> sub_delivered enc offered snaps s'"
  by (auto simp: sub_delivered_def quiet_def split: list.splits)

lemma offer_delivered:
  assumes "sub_delivered (wm_enc m) offered snaps s"
  shows "sub_delivered (wm_enc m) (offered @ [event]) snaps (fst (snd (offerLocked event s m)))"
proof -
  have "ch_sent c = ch_sent (ws_events s) @ [e]" if "try_send e (ws_events s) = Some c" for e c
    using cap_send [OF that] by simp
  then show ?thesis
    using assms
    by (auto simp: sub_delivered_def deliverable_snoc offerLocked_def Let_def sendLocked_def reportOverflowLocked_def closeLocked_def
        split: option.splits if_splits list.splits intro: prefix_order.trans)
qed

lemma send_all_sent:
  "send_all sched es s m = (b, s', m') \<Longrightarrow>
   (\<exists>k. ch_sent (ws_events s') = ch_sent (ws_events s) @ take k es) \<and> ws_where s' = ws_where s
     \<and> ws_initialRows s' = ws_initialRows s \<and> ws_initialDone s' = ws_initialDone s \<and> ws_pending s' = ws_pending s \<and> (\<not> b \<longrightarrow> ws_closed s')"
proof (induction sched es s m arbitrary: b s' m' rule: send_all.induct)
  case (2 sched event rest s m)
  define r where "r = s\<lparr>ws_events := receive (case sched of [] \<Rightarrow> 0 | n # _ \<Rightarrow> n) (ws_events s)\<rparr>"
  obtain ok s1 m1 where sent: "sendLocked event r m = (ok, s1, m1)" by (metis prod_cases3)
  show ?case
  proof (cases ok)
    case True
    obtain c where s1: "try_send event (ws_events r) = Some c" "s1 = r\<lparr>ws_events := c\<rparr>" using send_True [of event r m s1 m1] sent True by auto
    have rest: "send_all (tl sched) rest s1 m1 = (b, s', m')" using "2.prems" sent True by (simp add: r_def [symmetric] Let_def)
    obtain k where k: "ch_sent (ws_events s') = ch_sent (ws_events s1) @ take k rest"
      and eqs: "ws_where s' = ws_where s1" "ws_initialRows s' = ws_initialRows s1" "ws_initialDone s' = ws_initialDone s1"
        "ws_pending s' = ws_pending s1" "\<not> b \<longrightarrow> ws_closed s'"
      using "2.IH" [of r ok "(s1, m1)" s1 m1 b s' m'] sent True rest by (auto simp: r_def)
    have "ch_sent (ws_events s') = ch_sent (ws_events s) @ take (Suc k) (event # rest)"
      using k cap_send [OF s1(1)] s1(2) by (simp add: r_def)
    then show ?thesis using eqs s1(2) unfolding r_def by (intro conjI exI [of _ "Suc k"]) simp_all
  next
    case False
    then have "s' = s1" "\<not> b" using "2.prems" sent by (simp_all add: r_def [symmetric] Let_def)
    then show ?thesis using sent False
      by (auto simp: sendLocked_def reportOverflowLocked_def closeLocked_def r_def intro: exI [of _ 0] split: option.splits)
  qed
qed simp

lemma finish_delivered:
  assumes "sub_delivered (wm_enc m) offered [] s"
  shows "sub_delivered (wm_enc m) offered [rows] (fst (finishInitial sched (map initial_event rows) s m))"
proof (cases "ws_closed s")
  case False
  have empty: "ch_sent (ws_events s) = []" using assms by (simp add: sub_delivered_def)
  let ?initial = "map initial_event rows"
  let ?s = "s\<lparr>ws_initialRows := initialEventRows ?initial\<rparr>"
  have pending: "ws_pending s = filter (eventMatches (ws_where s)) offered" using assms False by (simp add: sub_delivered_def)
  obtain b s1 m1 where first: "send_all sched ?initial ?s m = (b, s1, m1)" by (metis prod_cases3)
  show ?thesis
  proof (cases b)
    case True
    then have s1: "m1 = m" "ws_where s1 = ws_where s" "ws_pending s1 = ws_pending s" "ws_initialRows s1 = initialEventRows ?initial"
        "ch_sent (ws_events s1) = ?initial"
      using send_all_True first empty by auto
    let ?es = "List.map_filter (normalizeBaselineLocked (wm_enc m) (initialEventRows ?initial)) (filter (eventMatches (ws_where s)) offered)"
    let ?t = "s1\<lparr>ws_initialDone := True, ws_pending := []\<rparr>"
    obtain c s2 m2 where second: "send_all (drop (length rows) sched) ?es ?t m = (c, s2, m2)" by (metis prod_cases3)
    have "fst (finishInitial sched ?initial s m) = s2"
      using False True first second s1 pending by (simp add: finishInitial_def)
    moreover have "sub_delivered (wm_enc m) offered [rows] s2"
      using send_all_sent [OF second] send_all_True [of _ ?es ?t m s2 m2] second s1
      by (auto simp: sub_delivered_def deliverable_normalize take_is_prefix)
    ultimately show ?thesis by simp
  next
    case False
    then have "fst (finishInitial sched ?initial s m) = s1" using \<open>\<not> ws_closed s\<close> first by (simp add: finishInitial_def)
    then show ?thesis using send_all_sent [OF first] False empty
      by (auto simp: sub_delivered_def deliverable_normalize take_is_prefix intro: prefix_prefix)
  qed
qed (use assms in \<open>auto simp: finishInitial_def sub_delivered_def\<close>)


text \<open>A subscription waits for its snapshot until its select has returned, once.\<close>

definition delivered_to :: "nat \<Rightarrow> row list list \<Rightarrow> watchManager \<Rightarrow> RowEvent list \<Rightarrow> bool" where
  "delivered_to i snaps m offered \<longleftrightarrow>
     (case fmlookup (wm_subs m) i of
        None \<Rightarrow> offered = [] \<and> snaps = [] \<and> i \<notin> set (wm_initial m)
      | Some s \<Rightarrow> (i \<in> set (wm_initial m) \<longleftrightarrow> snaps = []) \<and> sub_delivered (wm_enc m) offered snaps s)"

lemma delivered_quiet:
  assumes "delivered_to i snaps m offered" "all_quiet m m'"
  shows "delivered_to i snaps m' offered"
proof (cases "fmlookup (wm_subs m) i")
  case None
  then have "fmlookup (wm_subs m') i = None" using assms(2) unfolding all_quiet_def by (metis option.rel_sel)
  then show ?thesis using assms None by (simp add: delivered_to_def all_quiet_def)
next
  case (Some s)
  then obtain s' where s': "fmlookup (wm_subs m') i = Some s'" "quiet s s'"
    using assms(2) unfolding all_quiet_def by (metis option_rel_Some1)
  have "sub_delivered (wm_enc m) offered snaps s" using assms(1) Some by (simp add: delivered_to_def)
  then show ?thesis using assms Some s' quiet_delivered [OF _ s'(2)] by (auto simp: delivered_to_def all_quiet_def)
qed

lemma on_sub_lookup:
  assumes "subs_ok m" "\<And>s. sub_ok s \<Longrightarrow> sub_move s m (f s m)"
  shows "fmlookup (wm_subs (on_sub j f m)) i
    = (if i = j then map_option (\<lambda>s. fst (f s m)) (fmlookup (wm_subs m) j) else fmlookup (wm_subs m) i)"
    "wm_initial (on_sub j f m) = wm_initial m" "wm_enc (on_sub j f m) = wm_enc m"
proof -
  have move: "sub_move s m (f s m) \<and> ws_id s = j" if "fmlookup (wm_subs m) j = Some s" for s
    using assms that by (auto simp: subs_ok_def)
  have m': "wm_subs (snd (f s m)) = wm_subs m \<and> wm_initial (snd (f s m)) = wm_initial m \<and> wm_enc (snd (f s m)) = wm_enc m
      \<and> ws_id (fst (f s m)) = j" if "fmlookup (wm_subs m) j = Some s" for s
    using move [OF that] by (auto simp: sub_move_def split: if_splits)
  show "fmlookup (wm_subs (on_sub j f m)) i
      = (if i = j then map_option (\<lambda>s. fst (f s m)) (fmlookup (wm_subs m) j) else fmlookup (wm_subs m) i)"
    "wm_initial (on_sub j f m) = wm_initial m" "wm_enc (on_sub j f m) = wm_enc m"
    using m' by (auto simp: on_sub_def put_sub_def split: option.splits prod.splits)
qed

lemma delivered_subscribe:
  assumes inv: "watch_inv m" and "delivered_to i snaps m offered"
  shows "delivered_to i snaps (subscribe tab where' n m) offered"
proof (cases "i = Suc (wm_nextID m)")
  case True
  have "fmlookup (wm_subs m) i = None"
    using inv True by (cases "fmlookup (wm_subs m) i") (force simp: watch_inv_def subs_ok_def)+
  then have "offered = []" "snaps = []" using assms by (auto simp: delivered_to_def)
  then show ?thesis using True
    by (auto simp: delivered_to_def subscribe_def Let_def sub_delivered_def make_chan_def)
next
  case False
  then show ?thesis using assms by (auto simp: delivered_to_def subscribe_def Let_def split: option.splits)
qed

lemma delivered_offer:
  assumes inv: "watch_inv m" and d: "delivered_to i snaps m offered"
  shows "delivered_to i snaps (watch_step m RunOffer) (offered @ step_offer i m RunOffer)"
proof (cases "\<exists>event j rest. wm_run m = RunOffering event (j # rest)")
  case True
  then obtain event j rest where run: "wm_run m = RunOffering event (j # rest)" by blast
  let ?m = "m\<lparr>wm_run := RunOffering event rest\<rparr>"
  have "subs_ok ?m" using inv by (simp add: watch_inv_def subs_ok_def)
  note l' = on_sub_lookup [of ?m "\<lambda>s m. snd (offerLocked event s m)" j, OF this]
  have l: "fmlookup (wm_subs (watch_step m RunOffer)) i
      = (if i = j then map_option (\<lambda>s. fst (snd (offerLocked event s ?m))) (fmlookup (wm_subs m) i) else fmlookup (wm_subs m) i)"
    "wm_initial (watch_step m RunOffer) = wm_initial m" "wm_enc (watch_step m RunOffer) = wm_enc m"
    using l' move_offer by (simp_all add: run_offer_def run)
  show ?thesis
  proof (cases "fmlookup (wm_subs m) i")
    case None
    then show ?thesis using d unfolding delivered_to_def l by (auto simp: step_offer_def run)
  next
    case (Some s)
    then have "sub_delivered (wm_enc m) offered snaps s" using d by (simp add: delivered_to_def)
    then have "sub_delivered (wm_enc m) (offered @ [event]) snaps (fst (snd (offerLocked event s ?m)))"
      using offer_delivered [of ?m offered snaps s event] by simp
    then show ?thesis using d Some unfolding delivered_to_def l by (auto simp: step_offer_def run)
  qed
next
  case False
  have "all_quiet m (watch_step m RunOffer)" using False
    by (auto simp: run_offer_def all_quiet_refl neq_Nil_conv split: run_phase.splits list.splits)
  moreover have "step_offer i m RunOffer = []" using False by (auto simp: step_offer_def split: run_phase.splits list.splits)
  ultimately show ?thesis using delivered_quiet [OF d] by simp
qed

lemma delivered_initial:
  assumes inv: "watch_inv m" and d: "delivered_to i snaps m offered"
  shows "delivered_to i (snaps @ step_snapshot i m (SendInitial j sched selected))
    (watch_step m (SendInitial j sched selected)) offered"
proof (cases "j \<in> set (wm_initial m)")
  case True
  let ?m = "m\<lparr>wm_initial := removeAll j (wm_initial m), wm_failed := wm_failed m @ initial_failure j selected\<rparr>"
  have "subs_ok ?m" using inv by (simp add: watch_inv_def subs_ok_def)
  note l' = on_sub_lookup [of ?m "sendInitial sched selected" j, OF this]
  have l: "fmlookup (wm_subs (watch_step m (SendInitial j sched selected))) i
      = (if i = j then map_option (\<lambda>s. fst (sendInitial sched selected s ?m)) (fmlookup (wm_subs m) i) else fmlookup (wm_subs m) i)"
    "wm_initial (watch_step m (SendInitial j sched selected)) = removeAll j (wm_initial m)"
    "wm_enc (watch_step m (SendInitial j sched selected)) = wm_enc m"
    using l' move_initial True by simp_all
  show ?thesis
  proof (cases "i = j")
    case eq: True
    then obtain s where s: "fmlookup (wm_subs m) i = Some s" "snaps = []" "sub_delivered (wm_enc m) offered [] s"
      using d True by (auto simp: delivered_to_def split: option.splits)
    define rows where "rows = (case selected of Inl _ \<Rightarrow> [] | Inr rows \<Rightarrow> rows)"
    have "sub_delivered (wm_enc m) offered [rows] (fst (finishInitial sched (map initial_event rows) s ?m))"
      using finish_delivered [of ?m offered s] s(3) by simp
    moreover have "sendInitial sched selected s ?m = finishInitial sched (map initial_event rows) s ?m"
      by (simp add: sendInitial_def rows_def split: sum.splits)
    moreover have "step_snapshot i m (SendInitial j sched selected) = [rows]"
      using True eq by (simp add: step_snapshot_def rows_def)
    ultimately show ?thesis unfolding delivered_to_def l using eq s by auto
  next
    case False
    then show ?thesis using d unfolding delivered_to_def l by (auto simp: step_snapshot_def split: option.splits)
  qed
next
  case False
  then have "step_snapshot i m (SendInitial j sched selected) = []" by (auto simp: step_snapshot_def)
  then show ?thesis using False delivered_quiet [OF d all_quiet_refl] by simp
qed

lemma delivered_step:
  assumes "watch_inv m" "delivered_to i snaps m offered"
  shows "delivered_to i (snaps @ step_snapshot i m op) (watch_step m op) (offered @ step_offer i m op)"
proof (cases "op = RunOffer")
  case False
  then have "step_offer i m op = []" by (auto simp: step_offer_def split: watch_op.splits)
  then show ?thesis
    using False delivered_quiet [OF assms(2) quiet_steps(1) [OF assms(1)]] delivered_quiet [OF assms(2)] quiet_steps [OF assms(1)]
      delivered_subscribe [OF assms] delivered_initial [OF assms]
    by (cases op) (simp_all add: step_snapshot_def)
next
  case True
  then have "step_snapshot i m op = []" by (simp add: step_snapshot_def)
  then show ?thesis using delivered_offer [OF assms] True by (simp only: append_Nil2)
qed


lemma enc_step:
  assumes "watch_inv m"
  shows "wm_enc (watch_step m op) = wm_enc m"
proof -
  have ok: "subs_ok (m\<lparr>wm_run := r\<rparr>)" "subs_ok (m\<lparr>wm_initial := x, wm_failed := f\<rparr>)" for r x f
    using assms by (simp_all add: watch_inv_def subs_ok_def)
  have "wm_enc (run_offer m) = wm_enc m"
    using on_sub_lookup(3) [OF ok(1), where f = "\<lambda>s m. snd (offerLocked e s m)" for e] move_offer
    by (auto simp: run_offer_def split: run_phase.splits list.splits)
  moreover have "wm_enc (watch_step m (SendInitial j sched selected)) = wm_enc m" for j sched selected
    using on_sub_lookup(3) [OF ok(2), where f = "sendInitial sched selected"] move_initial by simp
  ultimately show ?thesis
    using quiet_steps [OF assms] by (cases op) (simp_all add: all_quiet_def subscribe_def Let_def)
qed

lemma enc_run: "wm_enc (foldl watch_step (newWatchManager database enc) ops) = enc"
proof (induction ops rule: rev_induct)
  case (snoc op ops)
  then show ?case using enc_step [OF watching.run_inv [OF new_inv]] by simp
qed (simp add: newWatchManager_def)

lemma delivered_run:
  "delivered_to i (snapshots_of i (newWatchManager database enc) ops) (foldl watch_step (newWatchManager database enc) ops)
     (offers_to i (newWatchManager database enc) ops)"
proof (induction ops rule: rev_induct)
  case Nil
  then show ?case by (simp add: delivered_to_def newWatchManager_def)
next
  case (snoc op ops)
  show ?case using delivered_step [OF watching.run_inv [OF new_inv] snoc] by (simp add: offers_to_append snapshots_of_append)
qed

section \<open>Properties\<close>


text \<open>
  C10: Once the select of a subscription has returned its rows, its queue has received a prefix of:
  every row of that snapshot in order, then the matching events offered to it, in order and
  without loss or repetition, where the first report of a row is dropped if the snapshot has shown
  the same version of it and is an update if it has shown another; all of it while the
  subscription is open. Before, it has received nothing and, while open, holds the matching events
  pending. The select returns once.
\<close>

theorem watch_delivers:
  assumes "fmlookup (wm_subs (foldl watch_step (newWatchManager database enc) ops)) i = Some s"
  shows "(snapshots_of i (newWatchManager database enc) ops = [] \<and> ch_sent (ws_events s) = []
      \<and> (\<not> ws_closed s \<longrightarrow>
           ws_pending s = filter (eventMatches (ws_where s)) (offers_to i (newWatchManager database enc) ops)))
    \<or> (\<exists>rows. snapshots_of i (newWatchManager database enc) ops = [rows]
      \<and> prefix (ch_sent (ws_events s)) (deliverable enc rows (ws_where s) (offers_to i (newWatchManager database enc) ops))
      \<and> (\<not> ws_closed s \<longrightarrow>
           ch_sent (ws_events s) = deliverable enc rows (ws_where s) (offers_to i (newWatchManager database enc) ops)))"
proof -
  have "sub_delivered enc (offers_to i (newWatchManager database enc) ops) (snapshots_of i (newWatchManager database enc) ops) s"
    using delivered_run [of i database enc ops] assms by (simp add: delivered_to_def enc_run)
  then show ?thesis
    by (cases "snapshots_of i (newWatchManager database enc) ops"; cases "tl (snapshots_of i (newWatchManager database enc) ops)")
      (auto simp: sub_delivered_def)
qed

end
