(* ===== verification/Watch_Converge.thy ===== *)
theory Watch_Converge
  imports Watch_Delivery
begin

text \<open>
  From the database to the client: the rounds of a poller reach a subscription in order, and a
  client that replays what it receives holds the table of the last round.
\<close>

section \<open>Replaying the events\<close>

text \<open>What a client does with the events it receives, and the version of a row it then holds.\<close>

definition apply_event :: "(string, row) fmap \<Rightarrow> RowEvent \<Rightarrow> (string, row) fmap" where
  "apply_event view event =
     (if ev_Type event = EventDelete then fmdrop (rowIdentity (ev_Old event)) view
      else let i = rowIdentity (ev_New event) in if i = [] then view else fmupd i (the (ev_New event)) view)"

definition replay :: "(string, row) fmap \<Rightarrow> RowEvent list \<Rightarrow> (string, row) fmap" where
  "replay view events = foldl apply_event view events"

definition version :: "(any \<Rightarrow> string) \<Rightarrow> (string, row) fmap \<Rightarrow> string \<Rightarrow> string option" where
  "version enc view i = map_option (rowFingerprint enc) (fmlookup view i)"

text \<open>The events of successive rounds of one poller.\<close>

fun poll_stream :: "(any \<Rightarrow> string) \<Rightarrow> bool \<Rightarrow> (string, row) fmap \<Rightarrow> row list list \<Rightarrow> RowEvent list" where
  "poll_stream enc seeded seen [] = []"
| "poll_stream enc seeded seen (rows # polls) = poll_events enc seeded seen rows @ poll_stream enc True (next_rows rows) polls"

text \<open>No two rows have the same UUID.\<close>

definition unique_rows :: "row list \<Rightarrow> bool" where
  "unique_rows rows \<longleftrightarrow> distinct (filter (\<lambda>i. i \<noteq> []) (map (\<lambda>r. rowIdentity (Some r)) rows))"

lemma replay_simps [simp]: "replay v [] = v" "replay v (e # es) = replay (apply_event v e) es" "replay v (es @ es') = replay (replay v es) es'"
  by (simp_all add: replay_def)

lemma next_rows_simps [simp]: "next_rows [] = fmempty"
  "next_rows (rows @ [r]) = (let i = rowIdentity (Some r) in if i = [] then next_rows rows else fmupd i r (next_rows rows))"
  by (simp_all add: next_rows_def Let_def)

lemma next_rows_key: "fmlookup (next_rows rows) i = Some r \<Longrightarrow> r \<in> set rows \<and> rowIdentity (Some r) = i \<and> i \<noteq> []"
  by (induction rows rule: rev_induct) (auto simp: Let_def split: if_splits)

lemma apply_row_event:
  "replay v (row_events enc sd seen r)
   = (if row_events enc sd seen r = [] then v else fmupd (rowIdentity (Some r)) r v)"
  by (auto simp: row_events_def Let_def apply_event_def add_event_def update_event_def split: option.splits)

lemma row_events_nil: "rowIdentity (Some r) = [] \<Longrightarrow> row_events enc sd seen r = []"
  by (simp add: row_events_def)

lemma replay_rows:
  assumes "unique_rows rows"
  shows "fmlookup (replay v (concat (map (row_events enc sd seen) rows))) i
    = (case fmlookup (next_rows rows) i of None \<Rightarrow> fmlookup v i | Some r \<Rightarrow> if row_events enc sd seen r = [] then fmlookup v i else Some r)"
  using assms
proof (induction rows rule: rev_induct)
  case (snoc r rows)
  let ?id = "rowIdentity (Some r)"
  have u: "unique_rows rows" "?id \<noteq> [] \<Longrightarrow> ?id \<notin> set (map (\<lambda>r. rowIdentity (Some r)) rows)"
    using snoc.prems by (auto simp: unique_rows_def)
  have "fmlookup (next_rows rows) ?id = None" if "?id \<noteq> []"
  proof (rule ccontr)
    assume "fmlookup (next_rows rows) ?id \<noteq> None"
    then obtain x where "x \<in> set rows" "rowIdentity (Some x) = ?id" using next_rows_key [of rows ?id] by auto
    then show False using u(2) [OF that] by (metis (mono_tags, lifting) image_eqI list.set_map)
  qed
  then show ?case using snoc.IH [OF u(1)] row_events_nil [of r]
    by (auto simp: apply_row_event Let_def)
qed simp

lemma replay_deletes:
  assumes "\<And>j. j \<in> set js \<Longrightarrow> rowIdentity (Some (f j)) = j"
  shows "fmlookup (replay v (map (\<lambda>j. delete_event (f j)) js)) i = (if i \<in> set js then None else fmlookup v i)"
  using assms by (induction js arbitrary: v) (auto simp: apply_event_def delete_event_def)

lemma poll_agrees:
  assumes "unique_rows rows" "\<And>j r. fmlookup seen j = Some r \<Longrightarrow> rowIdentity (Some r) = j"
    and "version enc v i = version enc seen i \<or> version enc seen i \<noteq> version enc (next_rows rows) i"
  shows "version enc (replay v (poll_events enc True seen rows)) i = version enc (next_rows rows) i"
proof -
  have js: "set (filter (\<lambda>i. fmlookup (next_rows rows) i = None) (range_keys seen)) = {j. fmlookup (next_rows rows) j = None \<and> fmlookup seen j \<noteq> None}"
    by (auto simp: fmlookup_dom'_iff)
  have "fmlookup (replay v (poll_events enc True seen rows)) i
     = (if fmlookup (next_rows rows) i = None \<and> fmlookup seen i \<noteq> None then None
        else case fmlookup (next_rows rows) i of None \<Rightarrow> fmlookup v i
             | Some r \<Rightarrow> if row_events enc True seen r = [] then fmlookup v i else Some r)"
    unfolding poll_events_def replay_simps if_True
    by (subst replay_deletes) (use js assms(2) in \<open>auto simp: replay_rows [OF assms(1)] fmlookup_dom'_iff\<close>)
  then show ?thesis using assms(3) next_rows_key [of rows i]
    by (auto simp: version_def row_events_def Let_def split: option.splits if_splits)
qed


text \<open>A row the poller does not hold and that shows up in a later round is reported, whatever the client had.\<close>

lemma stream_agrees:
  assumes "list_all unique_rows polls" "\<And>j r. fmlookup seen j = Some r \<Longrightarrow> rowIdentity (Some r) = j"
    and "version enc v i = version enc seen i \<or> (fmlookup seen i = None \<and> (\<exists>p\<in>set polls. fmlookup (next_rows p) i \<noteq> None))"
  shows "version enc (replay v (poll_stream enc True seen polls)) i = version enc (if polls = [] then seen else next_rows (last polls)) i"
  using assms
proof (induction polls arbitrary: seen v)
  case (Cons rows polls)
  let ?v = "replay v (poll_events enc True seen rows)"
  have key: "\<And>j r. fmlookup (next_rows rows) j = Some r \<Longrightarrow> rowIdentity (Some r) = j" using next_rows_key by blast
  have "version enc ?v i = version enc (next_rows rows) i
      \<or> (fmlookup (next_rows rows) i = None \<and> (\<exists>p\<in>set polls. fmlookup (next_rows p) i \<noteq> None))"
  proof (cases "version enc v i = version enc seen i \<or> version enc seen i \<noteq> version enc (next_rows rows) i")
    case True
    then show ?thesis using poll_agrees [OF _ Cons.prems(2) True] Cons.prems(1) by simp
  next
    case False
    then have "fmlookup seen i = None" "\<exists>p\<in>set (rows # polls). fmlookup (next_rows p) i \<noteq> None" using Cons.prems(3) by auto
    moreover have "fmlookup (next_rows rows) i = None" using False calculation(1) by (simp add: version_def)
    ultimately show ?thesis by auto
  qed
  then show ?case using Cons.IH [of "next_rows rows" ?v] Cons.prems(1) key by simp
qed simp

lemma initial_rows: "initialEventRows (map initial_event rows) = next_rows rows" "replay fmempty (map initial_event rows) = next_rows rows"
  by (induction rows rule: rev_induct)
     (simp_all add: initialEventRows_def initial_event_def Let_def apply_event_def replay_def)

lemma normalize_baseline:
  "List.map_filter (normalizeBaselineLocked enc initial) (row_events enc False seen r) = row_events enc True initial r"
  by (simp add: row_events_def Let_def map_filter_simps normalizeBaselineLocked_def add_event_def update_event_def split: option.splits)

lemma map_filter_append: "List.map_filter f (xs @ ys) = List.map_filter f xs @ List.map_filter f ys"
  by (simp add: List.map_filter_def)

lemma map_filter_concat: "List.map_filter f (concat (map g xs)) = concat (map (\<lambda>x. List.map_filter f (g x)) xs)"
  by (induction xs) (auto simp: map_filter_append map_filter_simps)

lemma map_filter_id: "(\<And>x. x \<in> set xs \<Longrightarrow> f x = Some x) \<Longrightarrow> List.map_filter f xs = xs"
  by (induction xs) (simp_all add: List.map_filter_def)

lemma stream_baseline: "e \<in> set (poll_stream enc True seen polls) \<Longrightarrow> \<not> ev_baseline e"
  by (induction polls arbitrary: seen)
     (auto simp: poll_events_def row_events_def Let_def add_event_def update_event_def delete_event_def split: if_splits option.splits)

lemma normalize_later: "List.map_filter (normalizeBaselineLocked enc initial) (poll_stream enc True seen polls) = poll_stream enc True seen polls"
  by (rule map_filter_id) (simp add: normalizeBaselineLocked_def stream_baseline)

lemma deliverable_polls:
  "deliverable enc rows [] (poll_stream enc False fmempty (first # polls))
   = map initial_event rows @ concat (map (row_events enc True (next_rows rows)) first) @ poll_stream enc True (next_rows first) polls"
proof -
  have "filter (eventMatches []) es = es" for es by (induction es) (simp_all add: eventMatches_def)
  then show ?thesis
    by (simp add: deliverable_normalize initial_rows map_filter_append normalize_later poll_events_def map_filter_concat normalize_baseline)
qed

lemma polls_converge:
  assumes "list_all unique_rows polls" "polls \<noteq> []"
    and "fmlookup (next_rows rows) i \<noteq> None \<Longrightarrow> \<exists>p\<in>set polls. fmlookup (next_rows p) i \<noteq> None"
  shows "version enc (replay fmempty (deliverable enc rows [] (poll_stream enc False fmempty polls))) i = version enc (next_rows (last polls)) i"
proof (cases polls)
  case (Cons first rest)
  let ?v = "replay (next_rows rows) (concat (map (row_events enc True (next_rows rows)) first))"
  have u: "unique_rows first" "list_all unique_rows rest" using assms(1) Cons by auto
  have "version enc ?v i = version enc (next_rows first) i
      \<or> (fmlookup (next_rows first) i = None \<and> (\<exists>p\<in>set rest. fmlookup (next_rows p) i \<noteq> None))"
    using assms(3) Cons next_rows_key [of first i]
    by (cases "fmlookup (next_rows rows) i") (auto simp: version_def replay_rows [OF u(1)] row_events_def Let_def split: option.splits)
  then have "version enc (replay ?v (poll_stream enc True (next_rows first) rest)) i
      = version enc (if rest = [] then next_rows first else next_rows (last rest)) i"
    using next_rows_key by (intro stream_agrees [OF u(2)]) blast+
  then show ?thesis unfolding Cons deliverable_polls replay_simps initial_rows by (simp split: if_splits)
qed (use assms in simp)


section \<open>From the database to the subscription\<close>

text \<open>The successful rounds of the pollers of a table in a run.\<close>

definition step_round :: "string \<Rightarrow> watchManager \<Rightarrow> watch_op \<Rightarrow> row list list" where
  "step_round tab m op =
     (case op of
        PollRound k (Inr rows) \<Rightarrow>
          (if k < length (wm_pollers m) \<and> po_table (wm_pollers m ! k) = tab \<and> po_todo (wm_pollers m ! k) = []
             \<and> po_err (wm_pollers m ! k) = None \<and> \<not> po_exit (wm_pollers m ! k) then [rows] else [])
      | _ \<Rightarrow> [])"

fun rounds_of :: "string \<Rightarrow> watchManager \<Rightarrow> watch_op list \<Rightarrow> row list list" where
  "rounds_of tab m [] = []"
| "rounds_of tab m (op # ops) = step_round tab m op @ rounds_of tab (watch_step m op) ops"

lemma rounds_of_append: "rounds_of tab m (ops @ ops') = rounds_of tab m ops @ rounds_of tab (foldl watch_step m ops) ops'"
  by (induction ops arbitrary: m) auto

text \<open>The dispatch queue has room whenever a poller sends and the manager is not closed.\<close>

definition has_room :: "watchManager \<Rightarrow> watch_op \<Rightarrow> bool" where
  "has_room m op = (case op of PollSend _ _ \<Rightarrow> length (wm_in m) < defaultWatchRawBuffer \<and> \<not> wm_done m | _ \<Rightarrow> True)"

fun smooth :: "watchManager \<Rightarrow> watch_op list \<Rightarrow> bool" where
  "smooth m [] \<longleftrightarrow> True"
| "smooth m (op # ops) \<longleftrightarrow> has_room m op \<and> smooth (watch_step m op) ops"

lemma smooth_append: "smooth m (ops @ ops') \<longleftrightarrow> smooth m ops \<and> smooth (foldl watch_step m ops) ops'"
  by (induction ops arbitrary: m) auto

text \<open>What the pipeline from a poller to a subscription holds.\<close>

definition po_core :: "poller \<Rightarrow> string \<times> (string, row) fmap \<times> bool \<times> RowEvent list" where
  "po_core p = (po_table p, po_seen p, po_seeded p, po_todo p)"

definition tab_pollers :: "string \<Rightarrow> watchManager \<Rightarrow> (string \<times> (string, row) fmap \<times> bool \<times> RowEvent list) list" where
  "tab_pollers tab m = filter (\<lambda>c. fst c = tab) (map po_core (wm_pollers m))"

definition in_flight :: "string \<Rightarrow> nat \<Rightarrow> watchManager \<Rightarrow> RowEvent list" where
  "in_flight tab i m =
     (case wm_run m of RunIdle \<Rightarrow> []
      | RunTaken t event \<Rightarrow> if t = tab then [event] else []
      | RunOffering event ids \<Rightarrow> if i \<in> set ids then [event] else [])
     @ map snd (filter (\<lambda>d. fst d = tab) (wm_in m))
     @ concat (map (\<lambda>(_, _, _, todo). todo) (tab_pollers tab m))"

lemma poll_stream_snoc:
  "poll_stream enc sd seen (polls @ [rows]) = poll_stream enc sd seen polls
     @ poll_events enc (sd \<or> polls \<noteq> []) (if polls = [] then seen else next_rows (last polls)) rows"
  by (induction polls arbitrary: sd seen) auto

text \<open>Steps that leave the pipeline alone.\<close>

definition same_core :: "watchManager \<Rightarrow> watchManager \<Rightarrow> bool" where
  "same_core m m' \<longleftrightarrow> wm_run m' = wm_run m \<and> wm_in m' = wm_in m \<and> map po_core (wm_pollers m') = map po_core (wm_pollers m)"

lemma same_core_trans: "same_core m m' \<Longrightarrow> same_core m' m'' \<Longrightarrow> same_core m m''"
  by (simp add: same_core_def)

lemma core_stop: "map po_core (stop_poller k ps) = map po_core ps"
  by (auto simp: stop_poller_def map_update po_core_def intro: list_update_same_conv [THEN iffD2])

lemma core_stop_all: "map po_core (foldl (\<lambda>ps k. stop_poller k ps) ps ks) = map po_core ps"
  by (induction ks arbitrary: ps) (simp_all add: core_stop)

lemma core_remove: "same_core m (remove_sub s m)"
  by (auto simp: same_core_def remove_sub_def Let_def core_stop split: option.splits)

lemma core_on_sub:
  assumes "subs_ok m" "\<And>s. sub_ok s \<Longrightarrow> sub_move s m (f s m)"
  shows "same_core m (on_sub j f m)"
proof (cases "fmlookup (wm_subs m) j")
  case (Some s)
  then have "sub_move s m (f s m)" using assms by (auto simp: subs_ok_def)
  then have "same_core m (snd (f s m))"
    using core_remove by (auto simp: sub_move_def same_core_def split: if_splits)
  then show ?thesis using Some by (auto simp: on_sub_def put_sub_def same_core_def split: prod.splits)
qed (simp add: on_sub_def same_core_def)

lemma core_poller_upd:
  "po_core p = po_core (wm_pollers m ! k) \<Longrightarrow> map po_core ((wm_pollers m)[k := p]) = map po_core (wm_pollers m)"
  by (cases "k < length (wm_pollers m)") (simp_all add: map_update list_update_same_conv list_update_beyond)

lemma core_publishError: "same_core m (publishError k e m)"
  by (simp add: publishError_def Let_def same_core_def core_poller_upd po_core_def)

lemma core_offerError:
  assumes "watch_inv m" "same_core n m"
  shows "same_core n (on_sub i (\<lambda>s m. (offerError e s, m)) m)"
  using assms(1) by (intro same_core_trans [OF assms(2)] core_on_sub move_offerError) (simp_all add: watch_inv_def)

lemma core_publish_error_to:
  assumes "watch_inv m"
  shows "same_core m (publish_error_to k m)"
  using assms
  by (auto simp: publish_error_to_def Let_def same_core_def core_poller_upd po_core_def poller_upd_inv
      intro!: core_offerError [unfolded same_core_def] split: option.splits list.splits)

lemma core_steps:
  assumes "watch_inv m"
  shows "same_core m (watch_step m (Subscribe tab where' n))" "same_core m (watch_step m (SendInitial j sched selected))"
    "same_core m (watch_step m (PollExit k))" "same_core m (watch_step m (Forward j))" "same_core m (watch_step m (ReadError j))"
    "same_core m (watch_step m (Cancel j))" "same_core m (watch_step m CloseManager)" "same_core m (watch_step m (PollRound k (Inl e)))"
    "same_core m (watch_step m (InitialError k))" "same_core m (watch_step m (PollError k))"
proof -
  have ok: "subs_ok m" "subs_ok (m\<lparr>wm_initial := x, wm_failed := f\<rparr>)" for x f using assms by (simp_all add: watch_inv_def subs_ok_def)
  show "same_core m (watch_step m (Subscribe tab where' n))" by (simp add: same_core_def subscribe_def Let_def)
  show "same_core m (watch_step m (SendInitial j sched selected))"
    using core_on_sub [OF ok(2), where f = "sendInitial sched selected"] move_initial by (simp add: same_core_def)
  show "same_core m (watch_step m (PollExit k))"
    by (auto simp: same_core_def poll_exit_def map_update po_core_def intro!: list_update_same_conv [THEN iffD2])
  show "same_core m (watch_step m (Forward j))" "same_core m (watch_step m (ReadError j))"
    unfolding watch_step.simps
    by (rule core_on_sub [OF ok(1)]; auto simp: sub_move_def sub_ok_def pending_limit_def chan_ok_receive)+
  show "same_core m (watch_step m (Cancel j))" unfolding watch_step.simps by (rule core_on_sub [OF ok(1)]) (rule move_cancel)
  show "same_core m (watch_step m (PollRound k (Inl e)))"
    using core_publishError by (simp add: poll_round_def same_core_def Let_def)
  have "same_core m ((on_sub i cancel_sub m)\<lparr>wm_close := c\<rparr>)" for i c
    using core_on_sub [OF ok(1), where f = cancel_sub and j = i] move_cancel by (simp add: same_core_def)
  then show "same_core m (watch_step m CloseManager)"
    by (auto simp: close_manager_def Let_def same_core_def core_stop_all split: close_phase.splits list.splits)
  show "same_core m (watch_step m (PollError k))" using core_publish_error_to [OF assms] by simp
  have "same_core m (on_sub i (\<lambda>s m. (offerError e s, m)) (m\<lparr>wm_failed := f\<rparr>))" for i e f
    by (rule core_offerError [OF fields_inv(3) [OF assms]]) (simp add: same_core_def)
  then show "same_core m (watch_step m (InitialError k))"
    by (auto simp: offer_failure_def same_core_def split: prod.splits)
qed

text \<open>The pipeline from the only poller of a table to a subscription: nothing is lost or reordered on the way.\<close>

definition pipe_ok :: "string \<Rightarrow> nat \<Rightarrow> RowEvent list \<Rightarrow> row list list \<Rightarrow> watchManager \<Rightarrow> bool" where
  "pipe_ok tab i offered rounds m \<longleftrightarrow>
     offered @ in_flight tab i m = poll_stream (wm_enc m) False fmempty rounds
     \<and> (\<forall>c\<in>set (tab_pollers tab m). \<exists>todo. c = (tab, if rounds = [] then fmempty else next_rows (last rounds), rounds \<noteq> [], todo))
     \<and> (tab_pollers tab m = [] \<longrightarrow> rounds = [])"

lemma in_flight_core: "same_core m m' \<Longrightarrow> in_flight tab i m' = in_flight tab i m \<and> tab_pollers tab m' = tab_pollers tab m"
  by (simp add: same_core_def in_flight_def tab_pollers_def)

lemma pipe_core:
  "pipe_ok tab i offered rounds m \<Longrightarrow> same_core m m' \<Longrightarrow> wm_enc m' = wm_enc m \<Longrightarrow> pipe_ok tab i offered rounds m'"
  using in_flight_core [of m m'] by (simp add: pipe_ok_def)

lemma tab_pollers_split:
  assumes "k < length (wm_pollers m)"
  shows "\<exists>xs ys. tab_pollers tab m = xs @ filter (\<lambda>c. fst c = tab) [po_core (wm_pollers m ! k)] @ ys
    \<and> (\<forall>p. tab_pollers tab (m\<lparr>wm_pollers := (wm_pollers m)[k := p]\<rparr>) = xs @ filter (\<lambda>c. fst c = tab) [po_core p] @ ys)"
proof -
  let ?f = "\<lambda>ps. filter (\<lambda>c. fst c = tab) (map po_core ps)"
  have "wm_pollers m = take k (wm_pollers m) @ wm_pollers m ! k # drop (Suc k) (wm_pollers m)"
    using assms by (rule id_take_nth_drop)
  then have "tab_pollers tab m = ?f (take k (wm_pollers m)) @ ?f [wm_pollers m ! k] @ ?f (drop (Suc k) (wm_pollers m))"
    unfolding tab_pollers_def by (metis append_Cons append_Nil filter_append map_append)
  moreover have "tab_pollers tab (m\<lparr>wm_pollers := (wm_pollers m)[k := p]\<rparr>)
      = ?f (take k (wm_pollers m)) @ ?f [p] @ ?f (drop (Suc k) (wm_pollers m))" for p
    using assms by (simp add: tab_pollers_def upd_conv_take_nth_drop)
  ultimately show ?thesis by (intro exI conjI allI) (simp, simp)
qed

lemma pipe_round:
  assumes "pipe_ok tab i offered rounds m" "length (tab_pollers tab m) \<le> 1"
  shows "pipe_ok tab i offered (rounds @ step_round tab m (PollRound k (Inr rows))) (watch_step m (PollRound k (Inr rows)))"
proof (cases "k < length (wm_pollers m) \<and> po_todo (wm_pollers m ! k) = [] \<and> po_err (wm_pollers m ! k) = None
    \<and> \<not> po_exit (wm_pollers m ! k)")
  case True
  let ?p = "wm_pollers m ! k"
  let ?q = "?p\<lparr>po_todo := poll_events (wm_enc m) (po_seeded ?p) (po_seen ?p) rows, po_seen := next_rows rows, po_seeded := True\<rparr>"
  let ?m = "m\<lparr>wm_pollers := (wm_pollers m)[k := ?q]\<rparr>"
  obtain xs ys where split: "tab_pollers tab m = xs @ filter (\<lambda>c. fst c = tab) [po_core ?p] @ ys"
    "tab_pollers tab ?m = xs @ filter (\<lambda>c. fst c = tab) [po_core ?q] @ ys"
    using tab_pollers_split True by blast
  have step: "watch_step m (PollRound k (Inr rows)) = ?m" using True by (simp add: poll_round_def Let_def)
  show ?thesis
  proof (cases "po_table ?p = tab")
    case tab: True
    then have xs: "xs = []" "ys = []" using assms(2) split(1) by (auto simp: po_core_def)
    have p: "po_seen ?p = (if rounds = [] then fmempty else next_rows (last rounds))" "po_seeded ?p \<longleftrightarrow> rounds \<noteq> []"
      using assms(1) split(1) tab xs by (auto simp: pipe_ok_def po_core_def)
    have "in_flight tab i m = (case wm_run m of RunIdle \<Rightarrow> [] | RunTaken t event \<Rightarrow> if t = tab then [event] else []
        | RunOffering event ids \<Rightarrow> if i \<in> set ids then [event] else [])
        @ map snd (filter (\<lambda>d. fst d = tab) (wm_in m))"
      using split(1) xs tab True by (simp add: in_flight_def po_core_def)
    then have "in_flight tab i ?m = in_flight tab i m @ poll_events (wm_enc m) (po_seeded ?p) (po_seen ?p) rows"
      using split(2) xs tab by (simp add: in_flight_def po_core_def)
    then show ?thesis using assms(1) p split(2) xs tab True
      unfolding step by (auto simp: pipe_ok_def step_round_def poll_stream_snoc po_core_def)
  next
    case False
    then have "tab_pollers tab ?m = tab_pollers tab m" using split by (simp add: po_core_def)
    then show ?thesis using assms(1) False unfolding step by (simp add: pipe_ok_def in_flight_def step_round_def)
  qed
next
  case False
  then show ?thesis using assms(1) by (auto simp: poll_round_def Let_def step_round_def)
qed

lemma pipe_send:
  assumes "pipe_ok tab i offered rounds m" "length (tab_pollers tab m) \<le> 1" "has_room m (PollSend k pick)"
  shows "pipe_ok tab i offered rounds (watch_step m (PollSend k pick))"
proof (cases "k < length (wm_pollers m) \<and> po_err (wm_pollers m ! k) = None \<and> po_todo (wm_pollers m ! k) \<noteq> []")
  case True
  then obtain event rest where todo: "po_todo (wm_pollers m ! k) = event # rest" by (auto simp: neq_Nil_conv)
  let ?p = "wm_pollers m ! k"
  let ?q = "?p\<lparr>po_todo := rest\<rparr>"
  let ?m = "m\<lparr>wm_pollers := (wm_pollers m)[k := ?q]\<rparr>"
  obtain xs ys where split: "tab_pollers tab m = xs @ filter (\<lambda>c. fst c = tab) [po_core ?p] @ ys"
    "tab_pollers tab ?m = xs @ filter (\<lambda>c. fst c = tab) [po_core ?q] @ ys"
    using tab_pollers_split True by blast
  have step: "watch_step m (PollSend k pick) = ?m\<lparr>wm_in := wm_in m @ [(po_table ?p, event)]\<rparr>" (is "_ = ?m'")
    using True todo assms(3) by (simp add: poll_send_def Let_def enqueue_def has_room_def)
  have same: "tab_pollers tab ?m' = tab_pollers tab ?m" by (simp add: tab_pollers_def)
  show ?thesis
  proof (cases "po_table ?p = tab")
    case tab: True
    then have xs: "xs = []" "ys = []" using assms(2) split(1) by (auto simp: po_core_def)
    have "in_flight tab i ?m' = in_flight tab i m"
      using split xs tab todo same by (simp add: in_flight_def po_core_def)
    then show ?thesis using assms(1) split xs tab same unfolding step by (auto simp: pipe_ok_def po_core_def)
  next
    case False
    then have "tab_pollers tab ?m' = tab_pollers tab m" using split same by (simp add: po_core_def)
    then show ?thesis using assms(1) False unfolding step by (simp add: pipe_ok_def in_flight_def)
  qed
next
  case False
  then show ?thesis using assms(1) by (auto simp: poll_send_def Let_def split: list.splits)
qed


text \<open>The subscriptions \<open>publish\<close> still has to offer an event to are different.\<close>

definition run_distinct :: "watchManager \<Rightarrow> bool" where
  "run_distinct m \<longleftrightarrow> (case wm_run m of RunOffering _ ids \<Rightarrow> distinct ids | _ \<Rightarrow> True)"

lemma core_run:
  assumes "watch_inv m"
  shows "wm_run (watch_step m (PollSend k pick)) = wm_run m" "wm_run (watch_step m (PollRound k (Inr rows))) = wm_run m"
    "wm_run (watch_step m StartPoller) = wm_run m"
  by (auto simp: poll_send_def Let_def enqueue_def publishError_def poll_round_def startPoller_def split: list.splits option.splits)

lemma run_distinct_step:
  assumes "watch_inv m" "run_distinct m"
  shows "run_distinct (watch_step m op)"
proof -
  have same: "run_distinct m'" if "wm_run m' = wm_run m" for m' using assms(2) that by (simp add: run_distinct_def)
  note core = same [of "watch_step m op"] core_steps [OF assms(1), unfolded same_core_def] core_run [OF assms(1)]
  show ?thesis
  proof (cases op)
    case (PollRound k selected)
    then show ?thesis using core by (cases selected) (simp_all del: watch_step.simps)
  next
    case RunTake
    then show ?thesis using assms(2) by (auto simp: run_take_def run_distinct_def split: run_phase.splits list.splits)
  next
    case RunPublish
    have "distinct (subs_of m t)" for t using assms(1) by (simp add: watch_inv_def registered_ok_def)
    then show ?thesis using RunPublish assms(2) by (auto simp: run_publish_def run_distinct_def split: run_phase.splits)
  next
    case RunOffer
    have "subs_ok (m\<lparr>wm_run := r\<rparr>)" for r using assms(1) by (simp add: watch_inv_def subs_ok_def)
    then have "wm_run (on_sub j (\<lambda>s m. snd (offerLocked e s m)) (m\<lparr>wm_run := r\<rparr>)) = r" for j e r
      using core_on_sub [of "m\<lparr>wm_run := r\<rparr>" "\<lambda>s m. snd (offerLocked e s m)" j] move_offer by (simp add: same_core_def)
    then show ?thesis using RunOffer assms(2) by (auto simp: run_offer_def run_distinct_def split: run_phase.splits list.splits)
  qed (use core in \<open>simp_all del: watch_step.simps\<close>)
qed

lemma pipe_start:
  assumes "pipe_ok tab i offered rounds m" "length (tab_pollers tab (watch_step m StartPoller)) \<le> 1"
  shows "pipe_ok tab i offered rounds (watch_step m StartPoller)"
proof (cases "watch_step m StartPoller = m \<or> same_core m (watch_step m StartPoller)")
  case True
  moreover have "wm_enc (watch_step m StartPoller) = wm_enc m" by (auto simp: startPoller_def split: list.splits option.splits)
  ultimately show ?thesis using assms pipe_core [OF assms(1)] by metis
next
  case False
  then obtain t rest where start: "wm_starting m = t # rest" "fmlookup (wm_pollOnce m) t = None"
    by (auto simp: startPoller_def same_core_def split: list.splits option.splits)
  then have step: "watch_step m StartPoller = m\<lparr>wm_starting := rest, wm_pollOnce := fmupd t (length (wm_pollers m)) (wm_pollOnce m),
      wm_pollers := wm_pollers m @ [new_poller t]\<rparr>" (is "_ = ?m")
    by (simp add: startPoller_def)
  have pollers: "tab_pollers tab ?m = tab_pollers tab m @ (if t = tab then [(tab, fmempty, False, [])] else [])"
    by (simp add: tab_pollers_def po_core_def new_poller_def)
  then have "t = tab \<Longrightarrow> rounds = []" using assms unfolding step by (auto simp: pipe_ok_def)
  then show ?thesis using assms(1) pollers unfolding step by (auto simp: pipe_ok_def in_flight_def)
qed

lemma pipe_take:
  assumes "pipe_ok tab i offered rounds m"
  shows "pipe_ok tab i offered rounds (watch_step m RunTake)"
proof (cases "wm_run m = RunIdle \<and> wm_in m \<noteq> []")
  case True
  then obtain t event rest where q: "wm_run m = RunIdle" "wm_in m = (t, event) # rest" by (auto simp: neq_Nil_conv)
  then show ?thesis using assms by (auto simp: run_take_def pipe_ok_def in_flight_def tab_pollers_def)
next
  case False
  then show ?thesis using assms by (auto simp: run_take_def split: run_phase.splits list.splits)
qed

text \<open>A subscription that is open while the manager is not closed is among those \<open>publish\<close> copies.\<close>

lemma pipe_publish:
  assumes "pipe_ok tab i offered rounds m" "watch_inv m" "open_sub m tab i" "i \<notin> collected m"
  shows "pipe_ok tab i offered rounds (watch_step m RunPublish)"
proof (cases "wm_run m")
  case (RunTaken t event)
  have "i \<in> set (subs_of m t) \<longleftrightarrow> t = tab"
    using assms(2-4) by (auto simp: watch_inv_def registered_ok_def open_sub_def)
  then show ?thesis using assms(1) RunTaken by (auto simp: run_publish_def pipe_ok_def in_flight_def tab_pollers_def)
qed (use assms(1) in \<open>auto simp: run_publish_def\<close>)

lemma pipe_offer:
  assumes "pipe_ok tab i offered rounds m" "watch_inv m" "open_sub m tab i" "run_distinct m"
  shows "pipe_ok tab i (offered @ step_offer i m RunOffer) rounds (watch_step m RunOffer)"
proof (cases "\<exists>event j rest. wm_run m = RunOffering event (j # rest)")
  case True
  then obtain event j rest where run: "wm_run m = RunOffering event (j # rest)" by blast
  let ?m = "m\<lparr>wm_run := RunOffering event rest\<rparr>"
  have "subs_ok ?m" using assms(2) by (simp add: watch_inv_def subs_ok_def)
  then have core: "same_core ?m (watch_step m RunOffer)"
    using core_on_sub [of ?m "\<lambda>s m. snd (offerLocked event s m)"] move_offer by (simp add: run_offer_def run)
  have "fmlookup (wm_subs m) i \<noteq> None" using assms(3) by (auto simp: open_sub_def)
  moreover have "j \<notin> set rest" using assms(4) run by (simp add: run_distinct_def)
  ultimately have "step_offer i m RunOffer @ in_flight tab i ?m = in_flight tab i m"
    by (auto simp: step_offer_def run in_flight_def tab_pollers_def)
  then have "pipe_ok tab i (offered @ step_offer i m RunOffer) rounds ?m"
    using assms(1) by (simp add: pipe_ok_def tab_pollers_def)
  moreover have "wm_enc (watch_step m RunOffer) = wm_enc ?m" using enc_step [OF assms(2), of RunOffer] by (simp del: watch_step.simps)
  ultimately show ?thesis by (rule pipe_core [OF _ core])
next
  case False
  then consider "wm_run m = RunIdle \<or> (\<exists>t e. wm_run m = RunTaken t e)" | event where "wm_run m = RunOffering event []"
    by (metis list.exhaust run_phase.exhaust)
  then show ?thesis
  proof cases
    case 1
    then show ?thesis using assms(1) by (auto simp: run_offer_def step_offer_def)
  next
    case 2
    then show ?thesis using assms(1) by (simp add: run_offer_def step_offer_def pipe_ok_def in_flight_def tab_pollers_def)
  qed
qed

lemma pipe_step:
  assumes "pipe_ok tab i offered rounds m" "watch_inv m" "run_distinct m" "has_room m op" "open_sub m tab i" "i \<notin> collected m"
    and "length (tab_pollers tab m) \<le> 1" "length (tab_pollers tab (watch_step m op)) \<le> 1"
  shows "pipe_ok tab i (offered @ step_offer i m op) (rounds @ step_round tab m op) (watch_step m op)"
proof -
  note core = pipe_core [OF assms(1) _ enc_step [OF assms(2)]] core_steps [OF assms(2)]
  show ?thesis
  proof (cases op)
    case (PollRound k selected)
    then show ?thesis using pipe_round [OF assms(1,7)] core
      by (cases selected) (simp_all add: step_offer_def step_round_def del: watch_step.simps)
  next
    case RunOffer
    then show ?thesis using pipe_offer [OF assms(1,2,5,3)] by (simp add: step_round_def)
  qed (use core pipe_start [OF assms(1)] pipe_take [OF assms(1)] pipe_publish [OF assms(1,2,5,6)]
       pipe_send [OF assms(1,7)] assms(4,8)
       in \<open>simp_all add: step_offer_def step_round_def del: watch_step.simps\<close>)
qed


text \<open>Subscriptions stay and stay closed, pollers stay.\<close>

lemma sub_stays:
  assumes "watch_inv m" "fmlookup (wm_subs m) i = Some s"
  shows "\<exists>s'. fmlookup (wm_subs (watch_step m op)) i = Some s' \<and> ws_table s' = ws_table s \<and> (ws_closed s \<longrightarrow> ws_closed s')"
proof -
  have quiet: ?thesis if "all_quiet m (watch_step m op)"
    using that assms(2) unfolding all_quiet_def by (metis option_rel_Some1 quiet_def)
  have ok: "sub_ok s" "subs_ok (m\<lparr>wm_run := r\<rparr>)" "subs_ok (m\<lparr>wm_initial := x, wm_failed := f\<rparr>)" for r x f
    using assms by (auto simp: watch_inv_def subs_ok_def)
  have move: "ws_table (fst sm) = ws_table s \<and> (ws_closed s \<longrightarrow> ws_closed (fst sm))" if "sub_move s m' sm" for m' sm
    using that by (auto simp: sub_move_def split: if_splits)
  show ?thesis
  proof (cases op)
    case (Subscribe tab where' n)
    have "i \<le> wm_nextID m" using assms by (auto simp: watch_inv_def subs_ok_def)
    then show ?thesis using Subscribe assms(2) by (simp add: subscribe_def Let_def)
  next
    case (SendInitial j sched selected)
    then show ?thesis
      using on_sub_lookup(1) [OF ok(3), where f = "sendInitial sched selected"] move_initial move [OF move_initial [OF ok(1)]] assms(2)
      by auto
  next
    case RunOffer
    then show ?thesis
      using on_sub_lookup(1) [OF ok(2), where f = "\<lambda>s m. snd (offerLocked e s m)" for e] move_offer move [OF move_offer [OF ok(1)]] assms(2)
      by (auto simp: run_offer_def split: run_phase.splits list.splits)
  qed (use quiet quiet_steps [OF assms(1)] in \<open>simp_all del: watch_step.simps\<close>)
qed

lemma tables_core: "same_core m m' \<Longrightarrow> map po_table (wm_pollers m') = map po_table (wm_pollers m)"
proof -
  have "map po_table ps = map fst (map po_core ps)" for ps by (simp add: po_core_def)
  then show "same_core m m' \<Longrightarrow> ?thesis" by (simp add: same_core_def del: map_map)
qed

lemma tables_upd:
  "po_table p = po_table (ps ! k) \<Longrightarrow> map po_table (ps[k := p]) = map po_table ps"
  by (cases "k < length ps") (simp_all add: map_update list_update_beyond list_update_same_conv)

lemma tables_stay:
  assumes "watch_inv m"
  shows "\<exists>new. map po_table (wm_pollers (watch_step m op)) = map po_table (wm_pollers m) @ new"
proof -
  have core: ?thesis if "same_core m (watch_step m op)" using tables_core [OF that] by simp
  have none: ?thesis if "map po_table (wm_pollers (watch_step m op)) = map po_table (wm_pollers m)" using that by simp
  show ?thesis
  proof (cases op)
    case StartPoller
    then show ?thesis by (auto simp: startPoller_def split: list.splits option.splits)
  next
    case (PollRound k selected)
    show ?thesis
    proof (cases selected)
      case (Inr rows)
      show ?thesis by (rule none) (use PollRound Inr in \<open>simp add: poll_round_def Let_def tables_upd\<close>)
    qed (use core PollRound core_steps(8) [OF assms] in \<open>simp del: watch_step.simps\<close>)
  next
    case (PollSend k pick)
    show ?thesis
      by (rule none) (use PollSend in \<open>auto simp: poll_send_def Let_def enqueue_def publishError_def tables_upd split: list.splits\<close>)
  next
    case RunTake
    then show ?thesis by (intro none) (auto simp: run_take_def split: run_phase.splits list.splits)
  next
    case RunPublish
    then show ?thesis by (intro none) (auto simp: run_publish_def split: run_phase.splits)
  next
    case RunOffer
    have "subs_ok (m\<lparr>wm_run := r\<rparr>)" for r using assms by (simp add: watch_inv_def subs_ok_def)
    then have "map po_table (wm_pollers (on_sub j (\<lambda>s m. snd (offerLocked e s m)) (m\<lparr>wm_run := r\<rparr>))) = map po_table (wm_pollers m)" for j e r
      using tables_core [OF core_on_sub [of "m\<lparr>wm_run := r\<rparr>" "\<lambda>s m. snd (offerLocked e s m)" j]] move_offer by simp
    then show ?thesis using RunOffer by (intro none) (auto simp: run_offer_def split: run_phase.splits list.splits)
  qed (use core core_steps [OF assms] in \<open>simp_all del: watch_step.simps\<close>)
qed

lemma pollers_stay:
  assumes "watch_inv m"
  shows "length (tab_pollers tab m) \<le> length (tab_pollers tab (watch_step m op))"
proof -
  have "length (tab_pollers tab m) = length (filter (\<lambda>t. t = tab) (map po_table (wm_pollers m)))" for m
    by (simp add: tab_pollers_def po_core_def filter_map comp_def)
  moreover obtain new where "map po_table (wm_pollers (watch_step m op)) = map po_table (wm_pollers m) @ new"
    using tables_stay [OF assms] by blast
  ultimately show ?thesis by (metis filter_append le_add1 length_append)
qed

text \<open>
  Only \<open>close\<close> takes subscriptions out of the tables without closing them at once, and it closes each
  one before it forgets it: a subscription that is registered in the end was registered all along.
\<close>

lemma close_phase_step:
  assumes "watch_inv m" "op \<noteq> CloseManager"
  shows "wm_close (watch_step m op) = wm_close m"
proof -
  have ok: "subs_ok (m\<lparr>wm_run := r\<rparr>)" "subs_ok (m\<lparr>wm_initial := x, wm_failed := f\<rparr>)" "subs_ok (m\<lparr>wm_failed := f\<rparr>)"
    "subs_ok (m\<lparr>wm_pollers := ps\<rparr>)" "subs_ok m" for r x f ps
    using assms(1) by (simp_all add: watch_inv_def subs_ok_def)
  have err: "wm_close (on_sub i (\<lambda>s m. (offerError e s, m)) m') = wm_close m'" if "subs_ok m'" for i e m'
    using on_sub_phase [OF _ that, where f = "\<lambda>s m. (offerError e s, m)"] move_offerError by simp
  have off: "wm_close (on_sub i (\<lambda>s m. snd (offerLocked e s m)) (m\<lparr>wm_run := r\<rparr>)) = wm_close m" for i e r
    using on_sub_phase [OF _ ok(1), where f = "\<lambda>s m. snd (offerLocked e s m)"] move_offer by simp
  have init: "wm_close (on_sub i (sendInitial sched selected) (m\<lparr>wm_initial := x, wm_failed := f\<rparr>)) = wm_close m" for i sched selected x f
    using on_sub_phase [OF _ ok(2), where f = "sendInitial sched selected"] move_initial by simp
  have cancel: "wm_close (on_sub i cancel_sub m) = wm_close m" for i
    using on_sub_phase [OF _ ok(5), where f = cancel_sub] move_cancel by simp
  have recv: "wm_close (on_sub i (\<lambda>s m. (f s, m)) m) = wm_close m" for i f
    by (auto simp: on_sub_def put_sub_def split: option.splits)
  show ?thesis using assms(2)
    by (cases op) (auto simp: subscribe_def startPoller_def Let_def init offer_failure_def err ok poll_round_def publishError_def
        poll_send_def enqueue_def publish_error_to_def poll_exit_def run_take_def run_publish_def run_offer_def off recv cancel
        split: list.splits option.splits sum.splits prod.splits run_phase.splits)
qed

lemma registered_before:
  assumes inv: "watch_inv m" and s: "fmlookup (wm_subs m) i = Some s" and reg: "i \<in> set (subs_of (watch_step m op) tab)"
  shows "i \<in> set (subs_of m tab)"
proof -
  have after: "open_sub (watch_step m op) tab i" "i \<notin> collected (watch_step m op)"
    using reg watch_step_inv [OF inv, of op] by (auto simp: watch_inv_def registered_ok_def)
  have opn: "open_sub m tab i" using sub_stays [OF inv s, of op] s after(1) by (auto simp: open_sub_def simp del: watch_step.simps)
  have "i \<notin> collected m"
  proof
    assume i: "i \<in> collected m"
    then obtain ids where ids: "wm_close m = CloseCancel ids" "i \<in> set ids" by (auto simp: collected_def split: close_phase.splits)
    show False
    proof (cases "op = CloseManager")
      case False
      then show ?thesis using close_phase_step [OF inv False] after(2) i by (simp add: collected_def del: watch_step.simps)
    next
      case True
      obtain j rest where "ids = j # rest" using ids(2) by (cases ids) auto
      then have step: "watch_step m op = (on_sub j cancel_sub m)\<lparr>wm_close := CloseCancel rest\<rparr>" "i = j \<or> i \<in> set rest"
        using True ids by (auto simp: close_manager_def)
      then have "i = j" using after(2) by (auto simp: collected_def)
      moreover have "ws_id s = i" using inv s by (auto simp: watch_inv_def subs_ok_def)
      ultimately have "\<not> open_sub (watch_step m op) tab i"
        using s unfolding step(1) by (auto simp: on_sub_def put_sub_def cancel_sub_def closeLocked_def open_sub_def)
      then show ?thesis using after(1) by blast
    qed
  qed
  then show ?thesis using opn inv by (auto simp: watch_inv_def registered_ok_def)
qed

lemma pipe_run:
  assumes "watch_inv m" "run_distinct m" "fmlookup (wm_subs m) i \<noteq> None" "pipe_ok tab i [] [] m"
    and "smooth m ops" "i \<in> set (subs_of (foldl watch_step m ops) tab)" "length (tab_pollers tab (foldl watch_step m ops)) \<le> 1"
  shows "pipe_ok tab i (offers_to i m ops) (rounds_of tab m ops) (foldl watch_step m ops)"
  using assms(5-7)
proof (induction ops rule: rev_induct)
  case (snoc op ops)
  let ?m = "foldl watch_step m ops"
  have inv: "watch_inv ?m" by (rule watching.run_inv [OF assms(1)])
  have dist: "run_distinct ?m"
  proof -
    have "watch_inv x \<Longrightarrow> run_distinct x \<Longrightarrow> run_distinct (foldl watch_step x os)" for x os
      by (induction os arbitrary: x) (simp_all add: run_distinct_step watch_step_inv del: watch_step.simps)
    then show ?thesis using assms(1,2) by simp
  qed
  have exists: "fmlookup (wm_subs ?m) i \<noteq> None"
  proof -
    have "watch_inv x \<Longrightarrow> fmlookup (wm_subs x) i \<noteq> None \<Longrightarrow> fmlookup (wm_subs (foldl watch_step x os)) i \<noteq> None" for x os
    proof (induction os arbitrary: x)
      case (Cons a os)
      then show ?case using sub_stays [of x i _ a] watch_step_inv [of x a] by (auto simp del: watch_step.simps)
    qed simp
    then show ?thesis using assms(1,3) by simp
  qed
  then obtain s where s: "fmlookup (wm_subs ?m) i = Some s" by blast
  have reg: "i \<in> set (subs_of ?m tab)" using registered_before [OF inv s] snoc.prems(2) by (simp del: watch_step.simps)
  then have opn: "open_sub ?m tab i" "i \<notin> collected ?m" using inv by (auto simp: watch_inv_def registered_ok_def)
  have count: "length (tab_pollers tab ?m) \<le> 1"
    using pollers_stay [OF inv, of tab op] snoc.prems(3) by (simp del: watch_step.simps)
  have "smooth m ops" "has_room ?m op" using snoc.prems(1) by (auto simp: smooth_append)
  then show ?case using pipe_step [OF snoc.IH [OF _ reg count] inv dist _ opn count, of op] snoc.prems(3)
    by (simp add: offers_to_append rounds_of_append del: watch_step.simps)
qed (simp add: assms(4))


lemma run_distinct_run: "run_distinct (foldl watch_step (newWatchManager database enc) ops)"
proof (induction ops rule: rev_induct)
  case Nil
  show ?case by (simp add: run_distinct_def newWatchManager_def)
next
  case (snoc a ops)
  show ?case using run_distinct_step [OF watching.run_inv [OF new_inv] snoc] by simp
qed

section \<open>Convergence\<close>



text \<open>A run: the snapshot has one row, the first round finds it changed and a second one.\<close>

definition demo_row :: "string \<Rightarrow> string \<Rightarrow> row" where
  "demo_row i name = fmap_of_list [(''_uuid'', AString i), (''name'', AString name)]"

definition demo_new :: watchManager where "demo_new = newWatchManager ''DB'' (\<lambda>_. [])"

definition demo_start :: watchManager where "demo_start = watch_step demo_new (Subscribe ''T'' [] 8)"

definition demo_ops :: "watch_op list" where
  "demo_ops = [StartPoller, SendInitial 1 [] (Inr [demo_row ''a'' ''x'']), PollRound 0 (Inr [demo_row ''a'' ''y'', demo_row ''b'' ''z'']),
     PollSend 0 False, RunTake, PollSend 0 False, RunPublish, RunOffer, Forward 1, RunOffer, RunTake, RunPublish, RunOffer, RunOffer]"

definition demo_end :: watchManager where "demo_end = foldl watch_step demo_start demo_ops"

definition demo_sub :: rowWatchSubscription where "demo_sub = the (fmlookup (wm_subs demo_end) 1)"

lemma demo_watch:
  "fmlookup (wm_subs demo_end) 1 \<noteq> None" "1 \<in> set (subs_of demo_end ''T'')" "\<not> ws_closed demo_sub" "ws_initialDone demo_sub" "ws_where demo_sub = []"
  "in_flight ''T'' 1 demo_end = []" "length (tab_pollers ''T'' demo_end) \<le> 1" "smooth demo_start demo_ops"
  by code_simp+


lemma demo_rounds: "rounds_of ''T'' demo_start demo_ops = [[demo_row ''a'' ''y'', demo_row ''b'' ''z'']]"
  "unique_rows [demo_row ''a'' ''y'', demo_row ''b'' ''z'']"
  "fmlookup (next_rows [demo_row ''a'' ''y'', demo_row ''b'' ''z'']) ''a'' \<noteq> None"
  by code_simp+

lemma demo_idle: "tab_pollers ''T'' demo_new = []" "in_flight ''T'' 1 demo_new = []" "wm_nextID demo_new = 0"
  by code_simp+


theorem watch_delivers_witness:
  "ch_sent (ws_events demo_sub) =
     deliverable (\<lambda>_. []) [demo_row ''a'' ''x''] [] (offers_to 1 demo_new (Subscribe ''T'' [] 8 # demo_ops))"
proof -
  have snap: "snapshots_of 1 (newWatchManager ''DB'' (\<lambda>_. [])) (Subscribe ''T'' [] 8 # demo_ops) = [[demo_row ''a'' ''x'']]"
    by code_simp
  have "fmlookup (wm_subs (foldl watch_step (newWatchManager ''DB'' (\<lambda>_. [])) (Subscribe ''T'' [] 8 # demo_ops))) 1 = Some demo_sub"
    using demo_watch(1) by (simp add: demo_sub_def demo_end_def demo_start_def demo_new_def)
  from watch_delivers [OF this] show ?thesis using demo_watch(3-5) unfolding demo_new_def snap by simp
qed

section \<open>Where it fails\<close>

text \<open>A row of the snapshot that is gone before the first round is never deleted.\<close>

lemma ghost_row:
  "let m = foldl watch_step demo_start [StartPoller, SendInitial 1 [] (Inr [demo_row ''a'' ''x'']), PollRound 0 (Inr []), PollRound 0 (Inr [])];
       sent = ch_sent (ws_events (the (fmlookup (wm_subs m) 1))) in
   in_flight ''T'' 1 m = [] \<and> fmlookup (replay fmempty sent) ''a'' \<noteq> None"
  by code_simp

text \<open>
  A second subscription takes its snapshot between two rounds of the running poller; the row is
  changed before the snapshot and changed back after it, and no event corrects the snapshot.
\<close>

lemma stale_snapshot:
  "let m = foldl watch_step demo_start [StartPoller, PollRound 0 (Inr [demo_row ''a'' ''x'']), PollSend 0 False, RunTake, RunPublish, RunOffer, RunOffer,
         Subscribe ''T'' [] 8, SendInitial 2 [] (Inr [demo_row ''a'' ''y'']), PollRound 0 (Inr [demo_row ''a'' ''x''])];
       sent = ch_sent (ws_events (the (fmlookup (wm_subs m) 2))) in
   in_flight ''T'' 2 m = [] \<and> fmlookup (replay fmempty sent) ''a'' = Some (demo_row ''a'' ''y'')"
  by code_simp

text \<open>Closing the manager between the two halves of \<open>subscribe\<close> leaves a poller that nothing stops.\<close>

lemma leaked_poller:
  "let m = foldl watch_step demo_start [CloseManager, CloseManager, StartPoller] in subs_of m ''T'' = [] \<and> running m ''T'' 0"
  by code_simp

text \<open>
  Between emptying the tables and cancelling, \<open>close\<close> leaves subscriptions that are open and in no
  table: the invariant has to except them.
\<close>

lemma open_unregistered:
  "let m = foldl watch_step demo_start [CloseManager, CloseManager] in subs_of m ''T'' = []
     \<and> ws_closed (the (fmlookup (wm_subs m) 1)) = False
     \<and> ws_closed (the (fmlookup (wm_subs (watch_step m CloseManager)) 1)) = True"
  by code_simp

end
