(* ===== verification/Intent.thy ===== *)
theory Intent
  imports Ownership Planning Bridge_Mappings Go_Json
begin

text \<open>
  The data of the declarative intents in \<^verbatim>\<open>src/intent.go\<close>: virtual networks with their DNS records,
  workload attachments, provider networks and security policies; their validation, normal
  forms and patches.
\<close>

section \<open>Specifications\<close>

record DNSRecord =
  dr_Domain :: string
  dr_IPs :: "string list"

record LogicalSwitchDNS =
  dn_Name :: string
  dn_Records :: "DNSRecord list"
  dn_Owner :: OwnerRef
  dn_Labels :: Labels

record VirtualNetwork =
  vn_Name :: string
  vn_CIDRs :: "string list"
  vn_Gateway :: string
  vn_DNS :: LogicalSwitchDNS
  vn_Owner :: OwnerRef
  vn_Labels :: Labels

record WorkloadLocalOVS =
  lo_Bridge :: string
  lo_PortName :: string
  lo_InterfaceName :: string
  lo_InterfaceType :: string
  lo_Options :: string_map

record WorkloadAttachment =
  wa_Name :: string
  wa_Network :: string
  wa_Workload :: string
  wa_InterfaceName :: string
  wa_MAC :: string
  wa_IPs :: "string list"
  wa_LocalOVS :: WorkloadLocalOVS
  wa_Owner :: OwnerRef
  wa_Labels :: Labels

record ProviderNetwork =
  pn_Name :: string
  pn_PhysicalNetwork :: string
  pn_LogicalSwitch :: string
  pn_LocalnetPort :: string
  pn_Bridge :: string
  pn_Owner :: OwnerRef
  pn_Labels :: Labels

record SecurityRule =
  sr_Name :: string
  sr_Action :: string
  sr_Direction :: string
  sr_Protocol :: string
  sr_CIDRs :: "string list"
  sr_Ports :: "int list"
  sr_Established :: bool

record SecurityPolicy =
  sp_Name :: string
  sp_Subject :: string
  sp_Rules :: "SecurityRule list"
  sp_Owner :: OwnerRef
  sp_Labels :: Labels

definition no_owner :: OwnerRef where "no_owner = \<lparr>owner_Kind = [], owner_Name = [], owner_ID = []\<rparr>"

definition no_dns :: LogicalSwitchDNS where
  "no_dns = \<lparr>dn_Name = [], dn_Records = [], dn_Owner = no_owner, dn_Labels = fmempty\<rparr>"

definition no_local :: WorkloadLocalOVS where
  "no_local = \<lparr>lo_Bridge = [], lo_PortName = [], lo_InterfaceName = [], lo_InterfaceType = [], lo_Options = fmempty\<rparr>"

section \<open>Validation\<close>

definition ownerFilterSet :: "OwnerRef \<Rightarrow> bool" where
  "ownerFilterSet o' \<longleftrightarrow> owner_Kind o' \<noteq> [] \<or> owner_Name o' \<noteq> [] \<or> owner_ID o' \<noteq> []"

definition optional_owner :: "OwnerRef \<Rightarrow> check" where
  "optional_owner o' = (if ownerFilterSet o' then OwnerRef_Validate o' else None)"

definition tableLogicalSwitch :: string where "tableLogicalSwitch = ''Logical_Switch''"
definition tableLogicalSwitchPort :: string where "tableLogicalSwitchPort = ''Logical_Switch_Port''"
definition tableDNS :: string where "tableDNS = ''DNS''"
definition tableACL :: string where "tableACL = ''ACL''"
definition tablePortGroup :: string where "tablePortGroup = ''Port_Group''"

definition nb_invalid :: "string \<Rightarrow> string \<Rightarrow> string \<Rightarrow> go_error option \<Rightarrow> go_error" where
  "nb_invalid tab object message cause = wrap_err ErrorValidation dbOVNNorthbound tab ''validate'' object message cause"

definition check_cidr :: "string \<Rightarrow> string \<Rightarrow> string \<Rightarrow> string \<Rightarrow> check" where
  "check_cidr tab object message cidr =
     (case net_ParseCIDR cidr of Inl e \<Rightarrow> Some (nb_invalid tab object message (Some e)) | Inr _ \<Rightarrow> None)"

definition check_ip :: "string \<Rightarrow> string \<Rightarrow> string \<Rightarrow> string \<Rightarrow> check" where
  "check_ip tab object message ip = (if net_ParseIP ip = None then Some (nb_invalid tab object message None) else None)"

definition DNS_Validate :: "LogicalSwitchDNS \<Rightarrow> check" where
  "DNS_Validate d =
     then_check (check_all (\<lambda>r.
         if blank (dr_Domain r) then Some (nb_invalid tableDNS (dn_Name d) ''dns domain must not be empty'' None)
         else check_all (check_ip tableDNS (dr_Domain r) ''invalid dns record ip'') (dr_IPs r)) (dn_Records d))
     (then_check (optional_owner (dn_Owner d)) (Labels_Validate (dn_Labels d)))"

definition VirtualNetwork_Validate :: "VirtualNetwork \<Rightarrow> check" where
  "VirtualNetwork_Validate v =
     then_check (validateName ''virtual network'' (vn_Name v))
     (then_check (check_all (check_cidr tableLogicalSwitch (vn_Name v) ''invalid cidr'') (vn_CIDRs v))
     (then_check (if vn_Gateway v \<noteq> [] then check_ip tableLogicalSwitch (vn_Name v) ''invalid gateway'' (vn_Gateway v) else None)
     (then_check (optional_owner (vn_Owner v))
     (then_check (Labels_Validate (vn_Labels v)) (DNS_Validate (vn_DNS v))))))"

definition Local_Empty :: "WorkloadLocalOVS \<Rightarrow> bool" where
  "Local_Empty o' \<longleftrightarrow> lo_Bridge o' = [] \<and> lo_PortName o' = [] \<and> lo_InterfaceName o' = [] \<and> lo_InterfaceType o' = [] \<and> lo_Options o' = fmempty"

definition Local_Validate :: "WorkloadLocalOVS \<Rightarrow> check" where
  "Local_Validate o' =
     (if Local_Empty o' then None
      else then_check (validateName ''bridge'' (lo_Bridge o'))
        (then_check (if lo_PortName o' \<noteq> [] then validateName ''port'' (lo_PortName o') else None)
        (then_check (if lo_InterfaceName o' \<noteq> [] then validateName ''interface'' (lo_InterfaceName o') else None)
          (check_all validateExternalID (range_keys (lo_Options o'))))))"

definition WorkloadAttachment_Validate :: "WorkloadAttachment \<Rightarrow> check" where
  "WorkloadAttachment_Validate w =
     then_check (validateName ''workload attachment'' (wa_Name w))
     (then_check (validateName ''virtual network'' (wa_Network w))
     (then_check (if wa_MAC w \<noteq> [] \<and> net_ParseMAC (wa_MAC w) = None
        then Some (nb_invalid tableLogicalSwitchPort (wa_Name w) ''invalid mac'' (Some (ForeignError (''address '' @ wa_MAC w @ '': invalid MAC address''))))
        else None)
     (then_check (check_all (check_ip tableLogicalSwitchPort (wa_Name w) ''invalid ip'') (wa_IPs w))
     (then_check (optional_owner (wa_Owner w))
     (then_check (Local_Validate (wa_LocalOVS w)) (Labels_Validate (wa_Labels w)))))))"

definition ProviderNetwork_Validate :: "ProviderNetwork \<Rightarrow> check" where
  "ProviderNetwork_Validate p =
     then_check (validateName ''provider network'' (pn_Name p))
     (then_check (validateName ''physical network'' (pn_PhysicalNetwork p))
     (then_check (validateName ''logical switch'' (pn_LogicalSwitch p))
     (then_check (validateName ''localnet port'' (pn_LocalnetPort p))
     (then_check (validateName ''bridge'' (pn_Bridge p))
     (then_check (if has_separator (pn_PhysicalNetwork p) \<or> has_separator (pn_Bridge p)
        then Some (mapping_error ErrorValidation ''validate'' (pn_Name p) ''bridge mapping values must not contain comma or colon'') else None)
     (then_check (optional_owner (pn_Owner p)) (Labels_Validate (pn_Labels p))))))))"

definition SecurityPolicy_Validate :: "SecurityPolicy \<Rightarrow> check" where
  "SecurityPolicy_Validate p =
     then_check (validateName ''security policy'' (sp_Name p))
     (then_check (check_all (\<lambda>r.
         if blank (sr_Action r) then Some (nb_invalid tableACL (sp_Name p) ''security rule action is required'' None)
         else check_all (check_cidr tableACL (sp_Name p) ''invalid security rule cidr'') (sr_CIDRs r)) (sp_Rules p))
     (then_check (optional_owner (sp_Owner p)) (Labels_Validate (sp_Labels p))))"

section \<open>Normal forms\<close>

text \<open>The addresses of a domain over all its records, in the order of the records; the domains are visited in order.\<close>

definition domain_ips :: "DNSRecord list \<Rightarrow> string \<Rightarrow> string list" where
  "domain_ips records domain = concat (map dr_IPs (filter (\<lambda>r. dr_Domain r = domain) records))"

definition RecordMap :: "LogicalSwitchDNS \<Rightarrow> (string, string list) fmap" where
  "RecordMap d =
     foldl (\<lambda>out domain. fmupd domain (sort (domain_ips (dn_Records d) domain)) out) fmempty (map dr_Domain (dn_Records d))"

definition records_of :: "(string, string list) fmap \<Rightarrow> DNSRecord list" where
  "records_of m = map (\<lambda>domain. \<lparr>dr_Domain = domain, dr_IPs = uniqueStrings (the (fmlookup m domain))\<rparr>) (range_keys m)"

definition normalizeLogicalSwitchDNS :: "LogicalSwitchDNS \<Rightarrow> LogicalSwitchDNS" where
  "normalizeLogicalSwitchDNS d = d\<lparr>dn_Records := records_of (RecordMap d)\<rparr>"

definition normalizeVirtualNetwork :: "VirtualNetwork \<Rightarrow> VirtualNetwork" where
  "normalizeVirtualNetwork v = v\<lparr>vn_CIDRs := sort (uniqueStrings (vn_CIDRs v)), vn_DNS := normalizeLogicalSwitchDNS (vn_DNS v)\<rparr>"

definition normalizeWorkloadLocalOVS :: "WorkloadLocalOVS \<Rightarrow> string \<Rightarrow> WorkloadLocalOVS" where
  "normalizeWorkloadLocalOVS o' attachmentName =
     (if Local_Empty o' then no_local
      else let port = (if lo_PortName o' = [] then attachmentName else lo_PortName o') in
        o'\<lparr>lo_PortName := port, lo_InterfaceName := (if lo_InterfaceName o' = [] then port else lo_InterfaceName o')\<rparr>)"

definition normalizeWorkloadAttachment :: "WorkloadAttachment \<Rightarrow> WorkloadAttachment" where
  "normalizeWorkloadAttachment w =
     w\<lparr>wa_IPs := sort (uniqueStrings (wa_IPs w)), wa_LocalOVS := normalizeWorkloadLocalOVS (wa_LocalOVS w) (wa_Name w)\<rparr>"

definition normalizeProviderNetwork :: "ProviderNetwork \<Rightarrow> ProviderNetwork" where
  "normalizeProviderNetwork p =
     p\<lparr>pn_PhysicalNetwork := (if pn_PhysicalNetwork p = [] then pn_Name p else pn_PhysicalNetwork p),
       pn_LogicalSwitch := (if pn_LogicalSwitch p = [] then pn_Name p else pn_LogicalSwitch p),
       pn_LocalnetPort := (if pn_LocalnetPort p = [] then pn_Name p @ ''-localnet'' else pn_LocalnetPort p)\<rparr>"

definition intSliceKey :: "int list \<Rightarrow> string" where
  "intSliceKey values = strings_Join (map strconv_Itoa values) '',''"

definition securityRuleKey :: "SecurityRule \<Rightarrow> string" where
  "securityRuleKey r =
     strings_Join [sr_Name r, sr_Action r, sr_Direction r, sr_Protocol r, strings_Join (sr_CIDRs r) '','', intSliceKey (sr_Ports r),
       json_bool (sr_Established r)] ''|''"

definition normalize_rule :: "SecurityRule \<Rightarrow> SecurityRule" where
  "normalize_rule r = r\<lparr>sr_CIDRs := sort (uniqueStrings (sr_CIDRs r)), sr_Ports := sort (sr_Ports r)\<rparr>"

definition normalizeSecurityPolicy :: "SecurityPolicy \<Rightarrow> SecurityPolicy" where
  "normalizeSecurityPolicy p = p\<lparr>sp_Rules := sort_key securityRuleKey (map normalize_rule (sp_Rules p))\<rparr>"

section \<open>Patches\<close>

definition patchLabels :: "Labels \<Rightarrow> Labels \<Rightarrow> string list \<Rightarrow> Labels" where
  "patchLabels current add remove =
     foldl (\<lambda>out key. fmupd key (the (fmlookup add key)) out) (foldl (\<lambda>out key. fmdrop key out) current remove) (range_keys add)"

definition removeStrings :: "string list \<Rightarrow> string list \<Rightarrow> string list" where
  "removeStrings current remove = filter (\<lambda>v. v \<notin> set remove) current"

definition removeSecurityRules :: "SecurityRule list \<Rightarrow> string list \<Rightarrow> SecurityRule list" where
  "removeSecurityRules current remove =
     filter (\<lambda>r. \<not> (sr_Name r \<noteq> [] \<and> sr_Name r \<in> set remove) \<and> securityRuleKey r \<notin> set remove) current"

definition labelDeleteKeys :: "string list \<Rightarrow> Labels \<Rightarrow> string list" where
  "labelDeleteKeys remove add = map ExternalIDLabelKey (filter (\<lambda>l. fmlookup add l = None) remove)"

definition mergeDNSRecords :: "DNSRecord list \<Rightarrow> DNSRecord list \<Rightarrow> DNSRecord list" where
  "mergeDNSRecords current add =
     (if add = [] then current else dn_Records (normalizeLogicalSwitchDNS (no_dns\<lparr>dn_Records := current @ add\<rparr>)))"

definition removeDNSRecordDomains :: "DNSRecord list \<Rightarrow> string list \<Rightarrow> DNSRecord list" where
  "removeDNSRecordDomains current remove = filter (\<lambda>r. dr_Domain r \<notin> set remove) current"

definition dnsDomainsAbsent :: "DNSRecord list \<Rightarrow> DNSRecord list \<Rightarrow> string list" where
  "dnsDomainsAbsent before after = uniqueStrings (map dr_Domain (filter (\<lambda>r. dr_Domain r \<notin> set (map dr_Domain after)) before))"

definition dnsRecordComparable :: "DNSRecord list \<Rightarrow> (string, string list) fmap" where
  "dnsRecordComparable records = foldl (\<lambda>out r. fmupd (dr_Domain r) (dr_IPs r) out) fmempty records"

end
