(* ===== verification/Intent_Marks.thy ===== *)
theory Intent_Marks
  imports Intent
begin

text \<open>
  The rows intents are kept in, how they are read, and the marks of \<^verbatim>\<open>src/intent.go\<close> in their
  external ids: which kind and name a row belongs to and who owns it.
\<close>

section \<open>Rows\<close>

record LogicalSwitch =
  ls_UUID :: string
  ls_Name :: string
  ls_Ports :: "string list"
  ls_ExternalIDs :: string_map
  ls_OtherConfig :: string_map

record LogicalSwitchPort =
  lsp_UUID :: string
  lsp_Name :: string
  lsp_Addresses :: "string list"
  lsp_ExternalIDs :: string_map
  lsp_Options :: string_map
  lsp_Type :: string

record ACL =
  acl_UUID :: string
  acl_Name :: "string option"
  acl_Priority :: int
  acl_Direction :: string
  acl_Match :: string
  acl_Action :: string
  acl_Log :: bool
  acl_Meter :: "string option"
  acl_Severity :: "string option"
  acl_Label :: int
  acl_ExternalIDs :: string_map
  acl_Tier :: int
  acl_Options :: string_map

record DNS =
  dns_UUID :: string
  dns_Records :: string_map
  dns_Options :: string_map
  dns_ExternalIDs :: string_map

record PortGroup =
  pg_UUID :: string
  pg_Name :: string
  pg_Ports :: "string list"
  pg_ACLs :: "string list"
  pg_ExternalIDs :: string_map

definition colPorts :: string where "colPorts = ''ports''"
definition colACLs :: string where "colACLs = ''acls''"
definition colOtherConfig :: string where "colOtherConfig = ''other_config''"
definition colPriority :: string where "colPriority = ''priority''"
definition colDirection :: string where "colDirection = ''direction''"
definition colMatch :: string where "colMatch = ''match''"
definition colAction :: string where "colAction = ''action''"
definition colRecords :: string where "colRecords = ''records''"
definition colOptions :: string where "colOptions = ''options''"
definition dnsNameExternalID :: string where "dnsNameExternalID = ''ovnflow.name''"

definition logicalSwitchFromRow :: "row \<Rightarrow> LogicalSwitch" where
  "logicalSwitchFromRow row = \<lparr>ls_UUID = anyString (row_get row colUUID), ls_Name = anyString (row_get row colName),
     ls_Ports = anyStringSlice (row_get row colPorts), ls_ExternalIDs = anyStringMap (row_get row colExternalIDs),
     ls_OtherConfig = anyStringMap (row_get row colOtherConfig)\<rparr>"

definition logicalSwitchPortFromRow :: "row \<Rightarrow> LogicalSwitchPort" where
  "logicalSwitchPortFromRow row = \<lparr>lsp_UUID = anyString (row_get row colUUID), lsp_Name = anyString (row_get row colName),
     lsp_Addresses = anyStringSlice (row_get row ''addresses''), lsp_ExternalIDs = anyStringMap (row_get row colExternalIDs),
     lsp_Options = anyStringMap (row_get row colOptions), lsp_Type = anyString (row_get row ''type'')\<rparr>"

section \<open>Marks\<close>

definition intentExternalIDs :: "string \<Rightarrow> string \<Rightarrow> OwnerRef \<Rightarrow> Labels \<Rightarrow> string_map res" where
  "intentExternalIDs kind name owner labels =
     (case OwnerRef_Validate owner of
        Some e \<Rightarrow> Inl (wrap_err ErrorOwnershipViolation [] [] ''reconcile'' name (Error_text e) (Some e))
      | None \<Rightarrow> res_bind (ExternalIDs owner labels) (\<lambda>ids. Inr (fmupd ExternalIDNameKey name (fmupd ExternalIDKindKey kind ids))))"

definition complete_owner :: "string_map \<Rightarrow> bool" where
  "complete_owner ids \<longleftrightarrow> go_get ids ExternalIDOwnerKindKey \<noteq> []
     \<and> (go_get ids ExternalIDOwnerNameKey \<noteq> [] \<or> go_get ids ExternalIDOwnerIDKey \<noteq> [])"

definition ovsResourceOwnedBy :: "string_map \<Rightarrow> string \<Rightarrow> string \<Rightarrow> bool" where
  "ovsResourceOwnedBy ids kind name \<longleftrightarrow>
     go_get ids ExternalIDManagedByKey = ''ovnflow'' \<and> go_get ids ExternalIDKindKey = kind \<and> go_get ids ExternalIDNameKey = name"

definition v2ResourceOwnedBy :: "string_map \<Rightarrow> string \<Rightarrow> string \<Rightarrow> bool" where
  "v2ResourceOwnedBy ids kind name \<longleftrightarrow>
     go_get ids ExternalIDManagedByKey = ''ovnflow'' \<and> go_get ids ExternalIDAPIVersionKey = ''v2''
     \<and> go_get ids ExternalIDKindKey = kind \<and> go_get ids ExternalIDNameKey = name \<and> complete_owner ids"

definition providerNetworkLocalnetOwnedBy :: "string_map \<Rightarrow> string \<Rightarrow> bool" where
  "providerNetworkLocalnetOwnedBy ids name = ovsResourceOwnedBy ids ''ProviderNetwork'' name"

definition providerNetworkSwitchMarker :: "string_map \<Rightarrow> string \<Rightarrow> bool" where
  "providerNetworkSwitchMarker ids name = v2ResourceOwnedBy ids ''ProviderNetworkSwitch'' name"

definition requireV2OwnedExternalIDs :: "string_map \<Rightarrow> string \<Rightarrow> string \<Rightarrow> string \<Rightarrow> string \<Rightarrow> string \<Rightarrow> string \<Rightarrow> check" where
  "requireV2OwnedExternalIDs ids kind name database tab oper object =
     (let violation = (\<lambda>message. Some (wrap_err ErrorOwnershipViolation database tab oper object message None)) in
      if go_get ids ExternalIDManagedByKey \<noteq> ''ovnflow'' then violation ''resource is not managed by ovnflow''
      else if go_get ids ExternalIDAPIVersionKey \<noteq> ''v2'' then violation ''resource is not managed by ovnflow v2''
      else if go_get ids ExternalIDKindKey \<noteq> kind then violation ''resource kind does not match requested intent''
      else if \<not> blank name \<and> go_get ids ExternalIDNameKey \<noteq> name then violation ''resource name does not match requested intent''
      else if \<not> complete_owner ids then violation ''resource owner marker is incomplete''
      else None)"

definition providerNetworkMappingOwnerKey :: "string \<Rightarrow> string" where
  "providerNetworkMappingOwnerKey physicalNetwork =
     ExternalIDPrefix @ ''provider-network-mapping/'' @ base64_EncodeToString physicalNetwork"

definition ownerAndLabelsFromExternalIDs :: "string_map \<Rightarrow> OwnerRef \<times> Labels" where
  "ownerAndLabelsFromExternalIDs ids =
     (\<lparr>owner_Kind = go_get ids ExternalIDOwnerKindKey, owner_Name = go_get ids ExternalIDOwnerNameKey, owner_ID = go_get ids ExternalIDOwnerIDKey\<rparr>,
      foldl (\<lambda>labels key. case DecodeExternalIDLabelKey key of Some l \<Rightarrow> fmupd l (go_get ids key) labels | None \<Rightarrow> labels)
        fmempty (range_keys ids))"

section \<open>Reading specifications back\<close>

text \<open>\<open>strings.Fields\<close>: the maximal runs without white space.\<close>

fun take_field :: "string \<Rightarrow> string \<times> string" where
  "take_field [] = ([], [])"
| "take_field (c # s) =
     (if lead_len space_runes (c # s) \<noteq> 0 then ([], c # s) else (case take_field s of (a, b) \<Rightarrow> (c # a, b)))"

fun fields_fuel :: "nat \<Rightarrow> string \<Rightarrow> string list" where
  "fields_fuel 0 s = []"
| "fields_fuel (Suc n) s =
     (let t = strip_lead space_runes s in if t = [] then [] else (case take_field t of (a, b) \<Rightarrow> a # fields_fuel n b))"

text \<open>Every field has at least one byte, so the length of the text is enough fuel.\<close>

definition strings_Fields :: "string \<Rightarrow> string list" where
  "strings_Fields s = fields_fuel (length s) s"

definition virtualNetworkFromLogicalSwitch :: "LogicalSwitch \<Rightarrow> VirtualNetwork" where
  "virtualNetworkFromLogicalSwitch ls =
     (case ownerAndLabelsFromExternalIDs (ls_ExternalIDs ls) of (owner, labels) \<Rightarrow>
      let subnet = go_get (ls_OtherConfig ls) ''subnet'' in
      \<lparr>vn_Name = ls_Name ls, vn_CIDRs = (if subnet \<noteq> [] then [subnet] else []), vn_Gateway = go_get (ls_OtherConfig ls) ''gateway'',
       vn_DNS = no_dns, vn_Owner = owner, vn_Labels = labels\<rparr>)"

definition logicalSwitchDNSFromDNS :: "string \<Rightarrow> DNS \<Rightarrow> LogicalSwitchDNS" where
  "logicalSwitchDNSFromDNS name dns =
     (case ownerAndLabelsFromExternalIDs (dns_ExternalIDs dns) of (owner, labels) \<Rightarrow>
      \<lparr>dn_Name = name, dn_Records = map (\<lambda>domain. \<lparr>dr_Domain = domain, dr_IPs = strings_Fields (go_get (dns_Records dns) domain)\<rparr>)
         (range_keys (dns_Records dns)), dn_Owner = owner, dn_Labels = labels\<rparr>)"

text \<open>The first field of the addresses is the MAC, the further fields of each address are IPs.\<close>

definition workloadAttachmentFromLogicalSwitchPort :: "LogicalSwitchPort \<Rightarrow> WorkloadAttachment" where
  "workloadAttachmentFromLogicalSwitchPort lsp =
     (case ownerAndLabelsFromExternalIDs (lsp_ExternalIDs lsp) of (owner, labels) \<Rightarrow>
      let fieldss = map strings_Fields (lsp_Addresses lsp) in
      \<lparr>wa_Name = lsp_Name lsp, wa_Network = go_get (lsp_ExternalIDs lsp) (ExternalIDPrefix @ ''network''),
       wa_Workload = go_get (lsp_ExternalIDs lsp) (ExternalIDPrefix @ ''workload''),
       wa_InterfaceName = go_get (lsp_ExternalIDs lsp) (ExternalIDPrefix @ ''interface''),
       wa_MAC = (case filter (\<lambda>fs. fs \<noteq> []) fieldss of [] \<Rightarrow> [] | fs # _ \<Rightarrow> hd fs),
       wa_IPs = concat (map tl fieldss), wa_LocalOVS = no_local, wa_Owner = owner, wa_Labels = labels\<rparr>)"

definition providerNetworkFromLocalnetPort :: "LogicalSwitchPort \<Rightarrow> ProviderNetwork" where
  "providerNetworkFromLocalnetPort lsp =
     (case ownerAndLabelsFromExternalIDs (lsp_ExternalIDs lsp) of (owner, labels) \<Rightarrow>
      let network = go_get (lsp_Options lsp) ''network_name'' in
      \<lparr>pn_Name = go_get (lsp_ExternalIDs lsp) ExternalIDNameKey,
       pn_PhysicalNetwork = (if network = [] then go_get (lsp_ExternalIDs lsp) (ExternalIDPrefix @ ''physical-network'') else network),
       pn_LogicalSwitch = go_get (lsp_ExternalIDs lsp) (ExternalIDPrefix @ ''logical-switch''), pn_LocalnetPort = lsp_Name lsp,
       pn_Bridge = go_get (lsp_ExternalIDs lsp) (ExternalIDPrefix @ ''bridge''), pn_Owner = owner, pn_Labels = labels\<rparr>)"

definition securityPolicyFromPortGroup :: "PortGroup \<Rightarrow> SecurityPolicy" where
  "securityPolicyFromPortGroup pg =
     (case ownerAndLabelsFromExternalIDs (pg_ExternalIDs pg) of (owner, labels) \<Rightarrow>
      \<lparr>sp_Name = pg_Name pg, sp_Subject = go_get (pg_ExternalIDs pg) (ExternalIDPrefix @ ''subject''), sp_Rules = [],
       sp_Owner = owner, sp_Labels = labels\<rparr>)"

definition workloadAddresses :: "string \<Rightarrow> string list \<Rightarrow> string list" where
  "workloadAddresses mac ips =
     (if mac = [] then [] else if ips = [] then [mac] else uniqueStrings (map (\<lambda>ip. strings_TrimSpace (mac @ '' '' @ ip)) ips))"

section \<open>What the marks mean\<close>

lemma requireV2_None:
  "requireV2OwnedExternalIDs ids kind name database tab oper object = None \<longleftrightarrow>
   go_get ids ExternalIDManagedByKey = ''ovnflow'' \<and> go_get ids ExternalIDAPIVersionKey = ''v2'' \<and> go_get ids ExternalIDKindKey = kind
   \<and> (\<not> blank name \<longrightarrow> go_get ids ExternalIDNameKey = name) \<and> complete_owner ids"
  by (simp add: requireV2OwnedExternalIDs_def Let_def)


lemma intentExternalIDs_Inr:
  assumes "intentExternalIDs kind name owner labels = Inr ids"
  obtains m where "OwnerRef_Validate owner = None" "ExternalIDs owner labels = Inr m"
    "ids = fmupd ExternalIDNameKey name (fmupd ExternalIDKindKey kind m)"
  using assms by (auto simp: intentExternalIDs_def res_bind_Inr split: option.splits)

lemma fixed_key_not_label:
  "k \<in> {ExternalIDOwnerIDKey, ExternalIDOwnerNameKey, ExternalIDOwnerKindKey, ExternalIDAPIVersionKey, ExternalIDManagedByKey,
     ExternalIDKindKey, ExternalIDNameKey} \<Longrightarrow> DecodeExternalIDLabelKey k = None"
  by (auto simp: DecodeExternalIDLabelKey_def external_id_keys strings_HasPrefix_def)

lemma read_labels:
  assumes "\<And>key l. key \<in> set ks \<Longrightarrow> DecodeExternalIDLabelKey key = Some l \<Longrightarrow> key = ExternalIDLabelKey l"
  shows "fmlookup (foldl (\<lambda>labels key. case DecodeExternalIDLabelKey key of Some l \<Rightarrow> fmupd l (go_get ids key) labels | None \<Rightarrow> labels) base ks) l
    = (if ExternalIDLabelKey l \<in> set ks then Some (go_get ids (ExternalIDLabelKey l)) else fmlookup base l)"
  using assms
proof (induction ks arbitrary: base)
  case (Cons key ks)
  let ?base = "case DecodeExternalIDLabelKey key of Some l \<Rightarrow> fmupd l (go_get ids key) base | None \<Rightarrow> base"
  have "fmlookup ?base l = (if key = ExternalIDLabelKey l then Some (go_get ids key) else fmlookup base l)"
  proof (cases "DecodeExternalIDLabelKey key")
    case None
    then have "key \<noteq> ExternalIDLabelKey l" using DecodeExternalIDLabelKey_encode [of l] by force
    then show ?thesis using None by simp
  next
    case (Some l')
    then have "key = ExternalIDLabelKey l'" by (intro Cons.prems) simp_all
    then show ?thesis using Some DecodeExternalIDLabelKey_encode [of l] by (cases "l = l'") force+
  qed
  moreover have "fmlookup (foldl (\<lambda>labels key. case DecodeExternalIDLabelKey key of Some l \<Rightarrow> fmupd l (go_get ids key) labels | None \<Rightarrow> labels) ?base ks) l
    = (if ExternalIDLabelKey l \<in> set ks then Some (go_get ids (ExternalIDLabelKey l)) else fmlookup ?base l)"
    by (rule Cons.IH) (rule Cons.prems, simp_all)
  ultimately show ?case by (simp only: foldl_Cons list.set insert_iff) (simp split: if_split; simp add: eq_commute)
qed simp

lemma intent_keys:
  assumes "intentExternalIDs kind name owner labels = Inr ids"
  shows "fmlookup ids (ExternalIDLabelKey l) = fmlookup labels l"
    "fmlookup ids key \<noteq> None \<Longrightarrow> DecodeExternalIDLabelKey key = Some l \<Longrightarrow> key = ExternalIDLabelKey l"
proof -
  obtain m where m: "ExternalIDs owner labels = Inr m" "ids = fmupd ExternalIDNameKey name (fmupd ExternalIDKindKey kind m)"
    using assms by (rule intentExternalIDs_Inr)
  have dec: "ExternalIDLabelKey l \<noteq> ExternalIDNameKey" "ExternalIDLabelKey l \<noteq> ExternalIDKindKey" for l
    using DecodeExternalIDLabelKey_encode [of l] fixed_key_not_label by force+
  show "fmlookup ids (ExternalIDLabelKey l) = fmlookup labels l"
    using ExternalIDs_label [OF m(1)] m(2) dec [of l] dec [of l, symmetric] by simp
  assume key: "fmlookup ids key \<noteq> None" "DecodeExternalIDLabelKey key = Some l"
  then have "key \<notin> {ExternalIDOwnerIDKey, ExternalIDOwnerNameKey, ExternalIDOwnerKindKey, ExternalIDAPIVersionKey, ExternalIDManagedByKey,
     ExternalIDKindKey, ExternalIDNameKey}" using fixed_key_not_label by force
  then have "fmlookup m key \<noteq> None" "fmlookup (owner_ids owner) key = None" using key(1) m(2) by (auto simp: owner_ids_lookup)
  then have "key \<in> range ExternalIDLabelKey" using ExternalIDs_other [OF m(1), of key] by argo
  then show "key = ExternalIDLabelKey l" using key(2) DecodeExternalIDLabelKey_encode by auto
qed

lemma intent_go_get:
  assumes "intentExternalIDs kind name owner labels = Inr ids"
  shows "go_get ids ExternalIDOwnerKindKey = owner_Kind owner" "go_get ids ExternalIDOwnerNameKey = owner_Name owner"
    "go_get ids ExternalIDOwnerIDKey = owner_ID owner" "go_get ids ExternalIDManagedByKey = ''ovnflow''"
    "go_get ids ExternalIDAPIVersionKey = ''v2''" "go_get ids ExternalIDKindKey = kind" "go_get ids ExternalIDNameKey = name"
proof -
  obtain m where m: "ExternalIDs owner labels = Inr m" "ids = fmupd ExternalIDNameKey name (fmupd ExternalIDKindKey kind m)"
    using assms by (rule intentExternalIDs_Inr)
  have "ExternalIDManagedByKey \<notin> range ExternalIDLabelKey" by (auto dest: sym simp: owner_key_not_label [simplified])
  moreover have "ExternalIDAPIVersionKey \<notin> range ExternalIDLabelKey" by (auto dest: sym simp: owner_key_not_label [simplified])
  ultimately have "fmlookup m ExternalIDManagedByKey = Some ''ovnflow''" "fmlookup m ExternalIDAPIVersionKey = Some ''v2''"
    by (simp_all add: ExternalIDs_other [OF m(1)] owner_ids_lookup external_id_keys)
  then show "go_get ids ExternalIDManagedByKey = ''ovnflow''" "go_get ids ExternalIDAPIVersionKey = ''v2''"
    using m(2) by (simp_all add: go_get_def external_id_keys)
  show "go_get ids ExternalIDOwnerKindKey = owner_Kind owner" "go_get ids ExternalIDOwnerNameKey = owner_Name owner"
    "go_get ids ExternalIDOwnerIDKey = owner_ID owner"
    using ExternalIDs_go_get [OF m(1)] m(2) by (simp_all add: go_get_def external_id_keys)
  show "go_get ids ExternalIDKindKey = kind" "go_get ids ExternalIDNameKey = name"
    using m(2) by (simp_all add: go_get_def external_id_keys)
qed

lemma intent_read_back:
  assumes "intentExternalIDs kind name owner labels = Inr ids"
  shows "ownerAndLabelsFromExternalIDs ids = (owner, labels)"
proof -
  have "snd (ownerAndLabelsFromExternalIDs ids) = labels"
  proof (rule fmap_ext)
    fix l
    show "fmlookup (snd (ownerAndLabelsFromExternalIDs ids)) l = fmlookup labels l"
      using intent_keys [OF assms] unfolding ownerAndLabelsFromExternalIDs_def snd_conv
      by (subst read_labels) (auto simp: fmlookup_dom'_iff go_get_def split: option.splits)
  qed
  then show ?thesis by (simp add: ownerAndLabelsFromExternalIDs_def intent_go_get [OF assms])
qed

text \<open>
  C23: The external ids an intent writes carry the complete v2 mark of its kind and name, pass the
  ownership test of the intent and of its owner, and give owner and labels back when the row is
  read.
\<close>

theorem intent_marks_roundtrip:
  assumes "intentExternalIDs kind name owner labels = Inr ids"
  shows "v2ResourceOwnedBy ids kind name \<and> requireV2OwnedExternalIDs ids kind name database tab oper object = None
    \<and> OwnershipMatches ids owner \<and> ownerAndLabelsFromExternalIDs ids = (owner, labels)"
proof -
  note get = intent_go_get [OF assms]
  have valid: "OwnerRef_Validate owner = None" using assms by (auto elim: intentExternalIDs_Inr)
  then have complete: "complete_owner ids"
    by (auto simp: complete_owner_def get OwnerRef_Validate_def split: if_splits)
  have "ownerAndLabelsFromExternalIDs ids = (owner, labels)" by (rule intent_read_back [OF assms])
  then show ?thesis
    using valid complete by (simp add: v2ResourceOwnedBy_def requireV2_None OwnershipMatches_def get)
qed

theorem intent_marks_roundtrip_witness:
  "\<exists>ids. intentExternalIDs ''SecurityPolicy'' ''web'' example_owner example_labels = Inr ids
     \<and> ownerAndLabelsFromExternalIDs ids = (example_owner, example_labels)"
proof -
  obtain m where m: "ExternalIDs example_owner example_labels = Inr m" using example_owner_ids by blast
  then have ids: "intentExternalIDs ''SecurityPolicy'' ''web'' example_owner example_labels
      = Inr (fmupd ExternalIDNameKey ''web'' (fmupd ExternalIDKindKey ''SecurityPolicy'' m))"
    using ExternalIDs_Inr [OF m] by (simp add: intentExternalIDs_def)
  show ?thesis using intent_marks_roundtrip [OF ids] ids by blast
qed

end
