(* ===== verification/Ownership_Audit.thy ===== *)
theory Ownership_Audit
  imports Intent_Marks "HOL-Library.Product_Lexorder"
begin

text \<open>
  The ownership audit of \<^verbatim>\<open>src/ownership_audit.go\<close>: the rows of the Northbound and the Open vSwitch
  database are read, the managed ones within the filter become resources of the report, and the
  references between them are checked.

  A check is a function from the collected state to the list of findings it appends. Where Go
  ranges over a map, the model goes through the keys in order; the order only shows in the order
  of findings that agree in every sorted field, and in which of two ports with the same mark is kept.
\<close>

section \<open>Rows of the Open vSwitch database\<close>

text \<open>The fields that are filled in from an audited row; the others stay at their zero value.\<close>

record OVSBridge =
  br_UUID :: string
  br_Name :: string
  br_Ports :: "string list"
  br_Controllers :: "string list"
  br_Mirrors :: "string list"
  br_NetFlow :: "string option"
  br_SFlow :: "string option"
  br_IPFIX :: "string option"
  br_FlowTables :: "(int, string) fmap"
  br_AutoAttach :: "string option"
  br_FailMode :: "string option"
  br_DatapathType :: string
  br_ExternalIDs :: string_map
  br_OtherConfig :: string_map

record OVSPort =
  vp_UUID :: string
  vp_Name :: string
  vp_Interfaces :: "string list"
  vp_QoS :: "string option"
  vp_ExternalIDs :: string_map
  vp_OtherConfig :: string_map

record OVSInterface =
  oi_UUID :: string
  oi_Name :: string
  oi_Type :: string
  oi_Options :: string_map
  oi_ExternalIDs :: string_map
  oi_OtherConfig :: string_map

definition tableBridge :: string where "tableBridge = ''Bridge''"
definition tablePort :: string where "tablePort = ''Port''"
definition tableInterface :: string where "tableInterface = ''Interface''"
definition auditAnyInt :: "any \<Rightarrow> int" where
  "auditAnyInt v = (case anyIntValue v of Some i \<Rightarrow> i | None \<Rightarrow> 0)"

definition dnsFromAuditRow :: "row \<Rightarrow> DNS" where
  "dnsFromAuditRow row = \<lparr>dns_UUID = anyString (row_get row colUUID), dns_Records = anyStringMap (row_get row colRecords),
     dns_Options = anyStringMap (row_get row colOptions), dns_ExternalIDs = anyStringMap (row_get row colExternalIDs)\<rparr>"

definition portGroupFromAuditRow :: "row \<Rightarrow> PortGroup" where
  "portGroupFromAuditRow row = \<lparr>pg_UUID = anyString (row_get row colUUID), pg_Name = anyString (row_get row colName),
     pg_Ports = anyStringSlice (row_get row colPorts), pg_ACLs = anyStringSlice (row_get row colACLs),
     pg_ExternalIDs = anyStringMap (row_get row colExternalIDs)\<rparr>"

definition aclFromAuditRow :: "row \<Rightarrow> ACL" where
  "aclFromAuditRow row = \<lparr>acl_UUID = anyString (row_get row colUUID), acl_Name = None, acl_Priority = auditAnyInt (row_get row colPriority),
     acl_Direction = anyString (row_get row colDirection), acl_Match = anyString (row_get row colMatch),
     acl_Action = anyString (row_get row colAction), acl_Log = False, acl_Meter = None, acl_Severity = None, acl_Label = 0,
     acl_ExternalIDs = anyStringMap (row_get row colExternalIDs), acl_Tier = 0, acl_Options = fmempty\<rparr>"

definition openVSwitchFromAuditRow :: "row \<Rightarrow> OpenVSwitch" where
  "openVSwitchFromAuditRow row = \<lparr>vs_UUID = anyString (row_get row colUUID), vs_Bridges = anyStringSlice (row_get row ''bridges''),
     vs_Managers = anyStringSlice (row_get row colManagerOptions), vs_SSL = anyOptionalString (row_get row ''ssl''),
     vs_ExternalIDs = anyStringMap (row_get row colExternalIDs), vs_OtherConfig = anyStringMap (row_get row colOtherConfig)\<rparr>"

definition ovsBridgeFromAuditRow :: "row \<Rightarrow> OVSBridge" where
  "ovsBridgeFromAuditRow row = \<lparr>br_UUID = anyString (row_get row colUUID), br_Name = anyString (row_get row colName),
     br_Ports = anyStringSlice (row_get row colPorts), br_Controllers = anyStringSlice (row_get row ''controller''),
     br_Mirrors = anyStringSlice (row_get row ''mirrors''), br_NetFlow = None, br_SFlow = None, br_IPFIX = None, br_FlowTables = fmempty,
     br_AutoAttach = None, br_FailMode = None, br_DatapathType = [], br_ExternalIDs = anyStringMap (row_get row colExternalIDs),
     br_OtherConfig = anyStringMap (row_get row colOtherConfig)\<rparr>"

definition ovsPortFromAuditRow :: "row \<Rightarrow> OVSPort" where
  "ovsPortFromAuditRow row = \<lparr>vp_UUID = anyString (row_get row colUUID), vp_Name = anyString (row_get row colName),
     vp_Interfaces = anyStringSlice (row_get row ''interfaces''), vp_QoS = anyOptionalString (row_get row ''qos''),
     vp_ExternalIDs = anyStringMap (row_get row colExternalIDs), vp_OtherConfig = anyStringMap (row_get row colOtherConfig)\<rparr>"

definition ovsInterfaceFromAuditRow :: "row \<Rightarrow> OVSInterface" where
  "ovsInterfaceFromAuditRow row = \<lparr>oi_UUID = anyString (row_get row colUUID), oi_Name = anyString (row_get row colName),
     oi_Type = anyString (row_get row ''type''), oi_Options = anyStringMap (row_get row colOptions),
     oi_ExternalIDs = anyStringMap (row_get row colExternalIDs), oi_OtherConfig = anyStringMap (row_get row colOtherConfig)\<rparr>"

section \<open>The report\<close>

record OwnershipAuditOptions =
  ao_Owner :: OwnerRef
  ao_Kinds :: "string list"
  ao_Names :: "string list"

record OwnershipAuditResource =
  ar_Database :: string
  ar_Table :: string
  ar_UUID :: string
  ar_Name :: string
  ar_Kind :: string
  ar_Owner :: OwnerRef
  ar_Labels :: Labels
  ar_ExternalIDs :: string_map

record OwnershipAuditFinding =
  af_Severity :: string
  af_Code :: string
  af_Database :: string
  af_Table :: string
  af_Object :: string
  af_Message :: string
  af_Details :: string_map

record OwnershipAuditSummary =
  as_OwnedResources :: nat
  as_Findings :: nat
  as_Errors :: nat
  as_Warnings :: nat

record OwnershipAuditReport =
  rp_Summary :: OwnershipAuditSummary
  rp_Resources :: "OwnershipAuditResource list"
  rp_Findings :: "OwnershipAuditFinding list"

record auditState =
  nbLogicalSwitches :: "(string, LogicalSwitch) fmap"
  nbPorts :: "(string, LogicalSwitchPort) fmap"
  nbPortsByName :: "(string, LogicalSwitchPort) fmap"
  nbDNS :: "(string, DNS) fmap"
  nbPortGroups :: "(string, PortGroup) fmap"
  nbACLs :: "(string, ACL) fmap"
  ovsRoots :: "OpenVSwitch list"
  ovsBridges :: "(string, OVSBridge) fmap"
  ovsBridgesByName :: "(string, OVSBridge) fmap"
  ovsPorts :: "(string, OVSPort) fmap"
  ovsPortsByName :: "(string, OVSPort) fmap"
  ovsInterfaces :: "(string, OVSInterface) fmap"
  ovsIfacesByName :: "(string, OVSInterface) fmap"

text \<open>The connections of the client that the audit reads (\<^verbatim>\<open>src/config.go\<close>); nil is \<open>None\<close>.\<close>

record 'w Client =
  cl_nb :: "'w dbClient option"
  cl_sb :: "'w dbClient option"
  cl_ovs :: "'w dbClient option"

definition DoctorWarning :: string where "DoctorWarning = ''warning''"
definition DoctorError :: string where "DoctorError = ''error''"

definition severityRank :: "string \<Rightarrow> int" where
  "severityRank severity = (if severity = DoctorError then 3 else if severity = DoctorWarning then 2 else 1)"

definition newAuditState :: auditState where
  "newAuditState = \<lparr>nbLogicalSwitches = fmempty, nbPorts = fmempty, nbPortsByName = fmempty, nbDNS = fmempty, nbPortGroups = fmempty,
     nbACLs = fmempty, ovsRoots = [], ovsBridges = fmempty, ovsBridgesByName = fmempty, ovsPorts = fmempty, ovsPortsByName = fmempty,
     ovsInterfaces = fmempty, ovsIfacesByName = fmempty\<rparr>"

definition empty_report :: OwnershipAuditReport where
  "empty_report = \<lparr>rp_Summary = \<lparr>as_OwnedResources = 0, as_Findings = 0, as_Errors = 0, as_Warnings = 0\<rparr>,
     rp_Resources = [], rp_Findings = []\<rparr>"

text \<open>The finding that \<open>addFinding\<close> appends.\<close>

definition finding :: "string \<Rightarrow> string \<Rightarrow> string \<Rightarrow> string \<Rightarrow> string \<Rightarrow> string \<Rightarrow> (string \<times> string) list \<Rightarrow> OwnershipAuditFinding" where
  "finding severity code database tab object message details =
     \<lparr>af_Severity = severity, af_Code = code, af_Database = database, af_Table = tab, af_Object = object, af_Message = message,
      af_Details = cloneStringMap (fmap_of_list details)\<rparr>"

definition add_findings :: "OwnershipAuditFinding list \<Rightarrow> OwnershipAuditReport \<Rightarrow> OwnershipAuditReport" where
  "add_findings fs r = r\<lparr>rp_Findings := rp_Findings r @ fs\<rparr>"

section \<open>Scope\<close>

definition stringInSet :: "string \<Rightarrow> string list \<Rightarrow> bool" where
  "stringInSet v values \<longleftrightarrow> list_ex (\<lambda>item. item = v) values"

definition auditIsManaged :: "string_map \<Rightarrow> bool" where
  "auditIsManaged ids \<longleftrightarrow> go_get ids ExternalIDManagedByKey = ''ovnflow''"

definition auditObjectName :: "string_map \<Rightarrow> string" where
  "auditObjectName ids =
     (if go_get ids ExternalIDNameKey \<noteq> [] then go_get ids ExternalIDNameKey
      else if go_get ids dnsNameExternalID \<noteq> [] then go_get ids dnsNameExternalID else [])"

definition auditResourceMatches :: "OwnershipAuditResource \<Rightarrow> OwnershipAuditOptions \<Rightarrow> bool" where
  "auditResourceMatches resource opts =
     (if ownerFilterSet (ao_Owner opts) \<and> \<not> OwnershipMatches (ar_ExternalIDs resource) (ao_Owner opts) then False
      else if ao_Kinds opts \<noteq> [] \<and> \<not> stringInSet (ar_Kind resource) (ao_Kinds opts) then False
      else if ao_Names opts \<noteq> [] \<and> \<not> stringInSet (ar_Name resource) (ao_Names opts)
              \<and> \<not> stringInSet (go_get (ar_ExternalIDs resource) ExternalIDNameKey) (ao_Names opts) then False
      else True)"

definition auditExternalIDsInScope :: "string_map \<Rightarrow> string \<Rightarrow> OwnershipAuditOptions \<Rightarrow> bool" where
  "auditExternalIDsInScope ids name opts =
     (if \<not> auditIsManaged ids then False
      else auditResourceMatches \<lparr>ar_Database = [], ar_Table = [], ar_UUID = [],
             ar_Name = (if name = [] then auditObjectName ids else name), ar_Kind = go_get ids ExternalIDKindKey,
             ar_Owner = no_owner, ar_Labels = fmempty, ar_ExternalIDs = ids\<rparr> opts)"

definition auditProviderMarkerInScope :: "string \<Rightarrow> OwnershipAuditOptions \<Rightarrow> bool" where
  "auditProviderMarkerInScope provider opts =
     (if ownerFilterSet (ao_Owner opts) then False
      else if ao_Kinds opts \<noteq> [] \<and> \<not> stringInSet ''ProviderNetwork'' (ao_Kinds opts) then False
      else if ao_Names opts \<noteq> [] \<and> \<not> stringInSet provider (ao_Names opts) then False
      else True)"

section \<open>Resources\<close>

definition invalid_label_findings :: "OwnershipAuditResource \<Rightarrow> OwnershipAuditFinding list" where
  "invalid_label_findings resource =
     map (\<lambda>key. finding DoctorWarning ''owned_resource_invalid_label_key'' (ar_Database resource) (ar_Table resource) (ar_Name resource)
            ''owned resource has an invalid encoded label key'' [(''key'', key)])
       (filter (\<lambda>key. strings_HasPrefix key ExternalIDLabelPrefix \<and> DecodeExternalIDLabelKey key = None)
         (range_keys (ar_ExternalIDs resource)))"

definition checkOwnershipMarker :: "OwnershipAuditResource \<Rightarrow> OwnershipAuditFinding list" where
  "checkOwnershipMarker resource =
     (let warn = (\<lambda>code message. finding DoctorWarning code (ar_Database resource) (ar_Table resource) (ar_Name resource) message
                    [(''uuid'', ar_UUID resource)]) in
      (if go_get (ar_ExternalIDs resource) ExternalIDAPIVersionKey \<noteq> ''v2''
       then [warn ''owned_resource_missing_v2_marker'' ''owned resource is missing ovnflow v2 api-version marker''] else [])
    @ (if ar_Kind resource = [] then [warn ''owned_resource_missing_kind'' ''owned resource is missing ovnflow kind marker''] else [])
    @ (if go_get (ar_ExternalIDs resource) ExternalIDNameKey = []
       then [warn ''owned_resource_missing_name'' ''owned resource is missing ovnflow name marker''] else [])
    @ (if owner_Kind (ar_Owner resource) = [] \<or> owner_Name (ar_Owner resource) = [] \<and> owner_ID (ar_Owner resource) = []
       then [warn ''owned_resource_missing_owner'' ''owned resource is missing a complete owner marker''] else [])
    @ invalid_label_findings resource)"

definition audit_resource :: "string \<Rightarrow> string \<Rightarrow> string \<Rightarrow> string \<Rightarrow> string_map \<Rightarrow> OwnershipAuditResource" where
  "audit_resource database tab uuid name ids =
     (case ownerAndLabelsFromExternalIDs ids of (owner, labels) \<Rightarrow>
      \<lparr>ar_Database = database, ar_Table = tab, ar_UUID = uuid, ar_Name = (if name = [] then auditObjectName ids else name),
       ar_Kind = go_get ids ExternalIDKindKey, ar_Owner = owner, ar_Labels = labels, ar_ExternalIDs = cloneStringMap ids\<rparr>)"

definition addOwnedResource :: "string \<Rightarrow> string \<Rightarrow> string \<Rightarrow> string \<Rightarrow> string_map \<Rightarrow> OwnershipAuditOptions
    \<Rightarrow> OwnershipAuditReport \<Rightarrow> OwnershipAuditReport" where
  "addOwnedResource database tab uuid name ids opts r =
     (if \<not> auditIsManaged ids then r
      else let resource = audit_resource database tab uuid name ids in
        if \<not> auditResourceMatches resource opts then r
        else add_findings (checkOwnershipMarker resource) (r\<lparr>rp_Resources := rp_Resources r @ [resource]\<rparr>))"

section \<open>Collecting\<close>

definition auditListRows :: "'w dbClient \<Rightarrow> 'w \<Rightarrow> string \<Rightarrow> row list res \<times> 'w" where
  "auditListRows d w tab =
     (if \<not> HasTable (db_schema d) tab then (Inr [], w) else List_rows (newTableRef (Some d) tab [] []) w)"

type_synonym collected = "OwnershipAuditReport \<times> auditState"

definition collect_switch :: "OwnershipAuditOptions \<Rightarrow> collected \<Rightarrow> row \<Rightarrow> collected" where
  "collect_switch opts c row = (case c of (r, st) \<Rightarrow> let ls = logicalSwitchFromRow row in
     (addOwnedResource dbOVNNorthbound tableLogicalSwitch (ls_UUID ls) (ls_Name ls) (ls_ExternalIDs ls) opts r,
      st\<lparr>nbLogicalSwitches := fmupd (ls_UUID ls) ls (nbLogicalSwitches st)\<rparr>))"

definition collect_lsp :: "OwnershipAuditOptions \<Rightarrow> collected \<Rightarrow> row \<Rightarrow> collected" where
  "collect_lsp opts c row = (case c of (r, st) \<Rightarrow> let lsp = logicalSwitchPortFromRow row in
     (addOwnedResource dbOVNNorthbound tableLogicalSwitchPort (lsp_UUID lsp) (lsp_Name lsp) (lsp_ExternalIDs lsp) opts r,
      st\<lparr>nbPorts := fmupd (lsp_UUID lsp) lsp (nbPorts st), nbPortsByName := fmupd (lsp_Name lsp) lsp (nbPortsByName st)\<rparr>))"

definition collect_dns :: "OwnershipAuditOptions \<Rightarrow> collected \<Rightarrow> row \<Rightarrow> collected" where
  "collect_dns opts c row = (case c of (r, st) \<Rightarrow> let dns = dnsFromAuditRow row in
     (addOwnedResource dbOVNNorthbound tableDNS (dns_UUID dns) (go_get (dns_ExternalIDs dns) dnsNameExternalID) (dns_ExternalIDs dns) opts r,
      st\<lparr>nbDNS := fmupd (dns_UUID dns) dns (nbDNS st)\<rparr>))"

definition collect_portGroup :: "OwnershipAuditOptions \<Rightarrow> collected \<Rightarrow> row \<Rightarrow> collected" where
  "collect_portGroup opts c row = (case c of (r, st) \<Rightarrow> let pg = portGroupFromAuditRow row in
     (addOwnedResource dbOVNNorthbound tablePortGroup (pg_UUID pg) (pg_Name pg) (pg_ExternalIDs pg) opts r,
      st\<lparr>nbPortGroups := fmupd (pg_UUID pg) pg (nbPortGroups st)\<rparr>))"

definition collect_acl :: "OwnershipAuditOptions \<Rightarrow> collected \<Rightarrow> row \<Rightarrow> collected" where
  "collect_acl opts c row = (case c of (r, st) \<Rightarrow> let acl = aclFromAuditRow row in
     (addOwnedResource dbOVNNorthbound tableACL (acl_UUID acl) (auditObjectName (acl_ExternalIDs acl)) (acl_ExternalIDs acl) opts r,
      st\<lparr>nbACLs := fmupd (acl_UUID acl) acl (nbACLs st)\<rparr>))"

definition collect_root :: "OwnershipAuditOptions \<Rightarrow> collected \<Rightarrow> row \<Rightarrow> collected" where
  "collect_root opts c row = (case c of (r, st) \<Rightarrow> let root = openVSwitchFromAuditRow row in
     (addOwnedResource dbOpenVSwitch tableOpenVSwitch (vs_UUID root) [] (vs_ExternalIDs root) opts r,
      st\<lparr>ovsRoots := ovsRoots st @ [root]\<rparr>))"

definition collect_bridge :: "OwnershipAuditOptions \<Rightarrow> collected \<Rightarrow> row \<Rightarrow> collected" where
  "collect_bridge opts c row = (case c of (r, st) \<Rightarrow> let bridge = ovsBridgeFromAuditRow row in
     (addOwnedResource dbOpenVSwitch tableBridge (br_UUID bridge) (br_Name bridge) (br_ExternalIDs bridge) opts r,
      st\<lparr>ovsBridges := fmupd (br_UUID bridge) bridge (ovsBridges st), ovsBridgesByName := fmupd (br_Name bridge) bridge (ovsBridgesByName st)\<rparr>))"

definition collect_port :: "OwnershipAuditOptions \<Rightarrow> collected \<Rightarrow> row \<Rightarrow> collected" where
  "collect_port opts c row = (case c of (r, st) \<Rightarrow> let port = ovsPortFromAuditRow row in
     (addOwnedResource dbOpenVSwitch tablePort (vp_UUID port) (vp_Name port) (vp_ExternalIDs port) opts r,
      st\<lparr>ovsPorts := fmupd (vp_UUID port) port (ovsPorts st), ovsPortsByName := fmupd (vp_Name port) port (ovsPortsByName st)\<rparr>))"

definition collect_interface :: "OwnershipAuditOptions \<Rightarrow> collected \<Rightarrow> row \<Rightarrow> collected" where
  "collect_interface opts c row = (case c of (r, st) \<Rightarrow> let iface = ovsInterfaceFromAuditRow row in
     (addOwnedResource dbOpenVSwitch tableInterface (oi_UUID iface) (oi_Name iface) (oi_ExternalIDs iface) opts r,
      st\<lparr>ovsInterfaces := fmupd (oi_UUID iface) iface (ovsInterfaces st), ovsIfacesByName := fmupd (oi_Name iface) iface (ovsIfacesByName st)\<rparr>))"

text \<open>One block of \<open>collectNorthbound\<close> and \<open>collectOVS\<close> after another: read a table, go through its rows.\<close>

fun collect_tables :: "'w dbClient \<Rightarrow> (string \<times> (collected \<Rightarrow> row \<Rightarrow> collected)) list \<Rightarrow> collected \<Rightarrow> 'w \<Rightarrow> collected res \<times> 'w" where
  "collect_tables d [] c w = (Inr c, w)"
| "collect_tables d ((tab, step) # blocks) c w =
     io_bind (auditListRows d w tab) (\<lambda>rows w. collect_tables d blocks (foldl step c rows) w)"

definition nb_blocks :: "OwnershipAuditOptions \<Rightarrow> (string \<times> (collected \<Rightarrow> row \<Rightarrow> collected)) list" where
  "nb_blocks opts = [(tableLogicalSwitch, collect_switch opts), (tableLogicalSwitchPort, collect_lsp opts), (tableDNS, collect_dns opts),
     (tablePortGroup, collect_portGroup opts), (tableACL, collect_acl opts)]"

definition ovs_blocks :: "OwnershipAuditOptions \<Rightarrow> (string \<times> (collected \<Rightarrow> row \<Rightarrow> collected)) list" where
  "ovs_blocks opts = [(tableOpenVSwitch, collect_root opts), (tableBridge, collect_bridge opts), (tablePort, collect_port opts),
     (tableInterface, collect_interface opts)]"

definition collectNorthbound :: "'w dbClient option \<Rightarrow> OwnershipAuditOptions \<Rightarrow> collected \<Rightarrow> 'w \<Rightarrow> collected res \<times> 'w" where
  "collectNorthbound db opts c w =
     (case db of
        None \<Rightarrow> (Inr (add_findings [finding DoctorWarning ''database_unavailable'' dbOVNNorthbound [] [] ''OVN Northbound client is nil'' []] (fst c), snd c), w)
      | Some d \<Rightarrow> collect_tables d (nb_blocks opts) c w)"

definition collectOVS :: "'w dbClient option \<Rightarrow> OwnershipAuditOptions \<Rightarrow> collected \<Rightarrow> 'w \<Rightarrow> collected res \<times> 'w" where
  "collectOVS db opts c w =
     (case db of
        None \<Rightarrow> (Inr (add_findings [finding DoctorWarning ''database_unavailable'' dbOpenVSwitch [] [] ''Open_vSwitch client is nil'' []] (fst c), snd c), w)
      | Some d \<Rightarrow> collect_tables d (ovs_blocks opts) c w)"

section \<open>Reference checks\<close>

definition missing_refs :: "(string, 'a) fmap \<Rightarrow> (string \<Rightarrow> OwnershipAuditFinding) \<Rightarrow> string list \<Rightarrow> OwnershipAuditFinding list" where
  "missing_refs known report refs = map report (filter (\<lambda>u. fmlookup known u = None) refs)"

definition checkNorthboundReferences :: "auditState \<Rightarrow> OwnershipAuditOptions \<Rightarrow> OwnershipAuditFinding list" where
  "checkNorthboundReferences st opts =
     concat (map (\<lambda>ls.
       if \<not> auditExternalIDsInScope (ls_ExternalIDs ls) (ls_Name ls) opts then []
       else missing_refs (nbPorts st) (\<lambda>u. finding DoctorError ''missing_logical_switch_port'' dbOVNNorthbound tableLogicalSwitch (ls_Name ls)
              ''logical switch references a missing logical switch port'' [(''port_uuid'', u)]) (ls_Ports ls))
       (range_values (nbLogicalSwitches st)))"

text \<open>The first loop of \<open>checkProviderNetworks\<close>: the bridge mappings and the owner markers of the root rows.\<close>

definition provider_marker_prefix :: string where
  "provider_marker_prefix = ExternalIDPrefix @ ''provider-network-mapping/''"

definition read_root :: "string_map \<times> string_map \<times> OwnershipAuditFinding list \<Rightarrow> OpenVSwitch
    \<Rightarrow> string_map \<times> string_map \<times> OwnershipAuditFinding list" where
  "read_root acc root =
     (case acc of (mappings, markers, fs) \<Rightarrow>
      case ParseBridgeMappings (go_get (vs_ExternalIDs root) ovsBridgeMappingsKey) of
        Inl e \<Rightarrow> (mappings, markers, fs @ [finding DoctorWarning ''invalid_bridge_mappings'' dbOpenVSwitch tableOpenVSwitch (vs_UUID root)
                     ''could not parse OVN bridge mappings'' [(''error'', Error_text e)]])
      | Inr parsed \<Rightarrow> (mappings ++\<^sub>f parsed, markers ++\<^sub>f fmfilter (\<lambda>key. strings_HasPrefix key provider_marker_prefix) (vs_ExternalIDs root), fs))"

definition localnet_in_scope :: "OwnershipAuditOptions \<Rightarrow> LogicalSwitchPort \<Rightarrow> bool" where
  "localnet_in_scope opts port \<longleftrightarrow>
     lsp_Type port = ''localnet'' \<and> providerNetworkLocalnetOwnedBy (lsp_ExternalIDs port) (go_get (lsp_ExternalIDs port) ExternalIDNameKey)
     \<and> auditExternalIDsInScope (lsp_ExternalIDs port) (lsp_Name port) opts"

definition localnet_physical :: "LogicalSwitchPort \<Rightarrow> string" where
  "localnet_physical port =
     (if go_get (lsp_Options port) ''network_name'' = [] then go_get (lsp_ExternalIDs port) (ExternalIDPrefix @ ''physical-network'')
      else go_get (lsp_Options port) ''network_name'')"

definition localnet_mapping_findings :: "string_map \<Rightarrow> auditState \<Rightarrow> LogicalSwitchPort \<Rightarrow> OwnershipAuditFinding list" where
  "localnet_mapping_findings mappings st port =
     (let name = go_get (lsp_ExternalIDs port) ExternalIDNameKey; physicalNetwork = localnet_physical port;
          mappedBridge = go_get mappings physicalNetwork; expectedBridge = go_get (lsp_ExternalIDs port) (ExternalIDPrefix @ ''bridge'') in
      (if mappedBridge = []
       then [finding DoctorError ''provider_network_mapping_missing'' dbOpenVSwitch tableOpenVSwitch physicalNetwork
               ''provider network has a localnet port but no OVS bridge mapping'' [(''provider'', name)]]
       else if expectedBridge \<noteq> [] \<and> mappedBridge \<noteq> expectedBridge
       then [finding DoctorError ''provider_network_mapping_mismatch'' dbOpenVSwitch tableOpenVSwitch physicalNetwork
               ''provider network bridge mapping points at a different bridge''
               [(''provider'', name), (''expected_bridge'', expectedBridge), (''actual_bridge'', mappedBridge)]]
       else [])
    @ (if mappedBridge \<noteq> [] \<and> fmlookup (ovsBridgesByName st) mappedBridge = None
       then [finding DoctorError ''provider_network_bridge_missing'' dbOpenVSwitch tableBridge mappedBridge
               ''provider network bridge mapping points at a missing OVS bridge'' [(''provider'', name), (''physical_network'', physicalNetwork)]]
       else []))"

definition localnet_marker_findings :: "string_map \<Rightarrow> LogicalSwitchPort \<Rightarrow> OwnershipAuditFinding list" where
  "localnet_marker_findings markers port =
     (let name = go_get (lsp_ExternalIDs port) ExternalIDNameKey; physicalNetwork = localnet_physical port;
          marker = go_get markers (providerNetworkMappingOwnerKey physicalNetwork) in
      if marker = []
      then [finding DoctorWarning ''provider_network_mapping_marker_missing'' dbOpenVSwitch tableOpenVSwitch physicalNetwork
              ''provider bridge mapping has no ovnflow owner marker'' [(''provider'', name)]]
      else if marker \<noteq> name
      then [finding DoctorError ''provider_network_mapping_marker_mismatch'' dbOpenVSwitch tableOpenVSwitch physicalNetwork
              ''provider bridge mapping marker belongs to another provider network'' [(''provider'', name), (''marker_owner'', marker)]]
      else [])"

definition localnet_findings :: "string_map \<Rightarrow> string_map \<Rightarrow> auditState \<Rightarrow> LogicalSwitchPort \<Rightarrow> OwnershipAuditFinding list" where
  "localnet_findings mappings markers st port =
     (if localnet_physical port = []
      then [finding DoctorError ''provider_network_missing_physical_network'' dbOVNNorthbound tableLogicalSwitchPort (lsp_Name port)
              ''provider localnet port is missing physical network metadata'' []]
      else localnet_mapping_findings mappings st port @ localnet_marker_findings markers port)"

definition marker_findings :: "OwnershipAuditOptions \<Rightarrow> string list \<Rightarrow> string_map \<Rightarrow> OwnershipAuditFinding list" where
  "marker_findings opts providers markers =
     map (\<lambda>key. finding DoctorWarning ''provider_network_marker_without_localnet'' dbOpenVSwitch tableOpenVSwitch key
            ''provider bridge mapping marker has no matching owned localnet port'' [(''provider'', go_get markers key)])
       (filter (\<lambda>key. let provider = go_get markers key in
            provider \<noteq> [] \<and> auditProviderMarkerInScope provider opts \<and> provider \<notin> set providers) (range_keys markers))"

definition checkProviderNetworks :: "auditState \<Rightarrow> OwnershipAuditOptions \<Rightarrow> OwnershipAuditFinding list" where
  "checkProviderNetworks st opts =
     (case foldl read_root (fmempty, fmempty, []) (ovsRoots st) of (mappings, markers, fs) \<Rightarrow>
      let ports = filter (localnet_in_scope opts) (range_values (nbPorts st)) in
      fs @ concat (map (localnet_findings mappings markers st) ports)
         @ marker_findings opts (map (\<lambda>port. go_get (lsp_ExternalIDs port) ExternalIDNameKey) ports) markers)"

definition marked_workload :: "string_map \<Rightarrow> string \<Rightarrow> OwnershipAuditOptions \<Rightarrow> bool" where
  "marked_workload ids name opts \<longleftrightarrow>
     ovsResourceOwnedBy ids ''WorkloadAttachment'' (go_get ids ExternalIDNameKey) \<and> auditExternalIDsInScope ids name opts"

definition ownedNB :: "auditState \<Rightarrow> OwnershipAuditOptions \<Rightarrow> (string, LogicalSwitchPort) fmap" where
  "ownedNB st opts =
     foldl (\<lambda>out port. fmupd (go_get (lsp_ExternalIDs port) ExternalIDNameKey) port out) fmempty
       (filter (\<lambda>port. marked_workload (lsp_ExternalIDs port) (lsp_Name port) opts) (range_values (nbPorts st)))"

definition workload_interface_findings :: "auditState \<Rightarrow> string \<Rightarrow> OVSPort \<Rightarrow> string \<Rightarrow> OwnershipAuditFinding list" where
  "workload_interface_findings st name port ifaceUUID =
     (case fmlookup (ovsInterfaces st) ifaceUUID of
        None \<Rightarrow> [finding DoctorError ''workload_interface_missing'' dbOpenVSwitch tablePort (vp_Name port)
                  ''workload OVS port references a missing interface'' [(''attachment'', name), (''interface_uuid'', ifaceUUID)]]
      | Some iface \<Rightarrow>
          (if \<not> ovsResourceOwnedBy (oi_ExternalIDs iface) ''WorkloadAttachment'' name
           then [finding DoctorWarning ''workload_interface_unowned'' dbOpenVSwitch tableInterface (oi_Name iface)
                   ''workload OVS port references an interface without matching ovnflow ownership'' [(''attachment'', name)]] else [])
        @ (let iface_id = go_get (oi_ExternalIDs iface) ''iface-id'' in
           if iface_id \<noteq> [] \<and> iface_id \<noteq> name
           then [finding DoctorError ''workload_iface_id_mismatch'' dbOpenVSwitch tableInterface (oi_Name iface)
                   ''workload OVS interface iface-id does not match logical switch port'' [(''attachment'', name), (''iface_id'', iface_id)]] else []))"

definition workload_local_ports :: "auditState \<Rightarrow> string \<Rightarrow> OVSPort list" where
  "workload_local_ports st name = filter (\<lambda>port. ovsResourceOwnedBy (vp_ExternalIDs port) ''WorkloadAttachment'' name) (range_values (ovsPorts st))"

definition workload_network :: "LogicalSwitchPort \<Rightarrow> string" where
  "workload_network lsp = go_get (lsp_ExternalIDs lsp) (ExternalIDPrefix @ ''network'')"

definition workload_findings :: "auditState \<Rightarrow> string \<Rightarrow> LogicalSwitchPort \<Rightarrow> OwnershipAuditFinding list" where
  "workload_findings st name lsp =
     concat (map (\<lambda>port. concat (map (workload_interface_findings st name port) (vp_Interfaces port))) (workload_local_ports st name))
   @ (if workload_network lsp \<noteq> [] \<and> \<not> list_ex (\<lambda>ls. ls_Name ls = workload_network lsp) (range_values (nbLogicalSwitches st))
      then [finding DoctorError ''workload_network_missing'' dbOVNNorthbound tableLogicalSwitchPort (lsp_Name lsp)
              ''workload attachment references a missing virtual network'' [(''network'', workload_network lsp)]] else [])
   @ (if range_values (ovsPorts st) \<noteq> [] \<and> workload_local_ports st name = []
      then [finding DoctorWarning ''workload_local_ovs_missing'' dbOpenVSwitch tablePort name
              ''workload attachment has no matching local OVS port'' []] else [])"

definition orphan_port_findings :: "auditState \<Rightarrow> OwnershipAuditOptions \<Rightarrow> OwnershipAuditFinding list" where
  "orphan_port_findings st opts =
     map (\<lambda>port. finding DoctorWarning ''workload_local_port_without_lsp'' dbOpenVSwitch tablePort (vp_Name port)
            ''owned local OVS port has no matching logical switch port'' [(''attachment'', go_get (vp_ExternalIDs port) ExternalIDNameKey)])
       (filter (\<lambda>port. marked_workload (vp_ExternalIDs port) (vp_Name port) opts
            \<and> fmlookup (ownedNB st opts) (go_get (vp_ExternalIDs port) ExternalIDNameKey) = None) (range_values (ovsPorts st)))"

definition orphan_interface_findings :: "auditState \<Rightarrow> OwnershipAuditOptions \<Rightarrow> OwnershipAuditFinding list" where
  "orphan_interface_findings st opts =
     map (\<lambda>iface. finding DoctorWarning ''workload_interface_without_port'' dbOpenVSwitch tableInterface (oi_Name iface)
            ''owned local OVS interface is not referenced by a matching owned port''
            [(''attachment'', go_get (oi_ExternalIDs iface) ExternalIDNameKey)])
       (filter (\<lambda>iface. marked_workload (oi_ExternalIDs iface) (oi_Name iface) opts
            \<and> \<not> list_ex (\<lambda>port. containsString (vp_Interfaces port) (oi_UUID iface))
                  (workload_local_ports st (go_get (oi_ExternalIDs iface) ExternalIDNameKey))) (range_values (ovsInterfaces st)))"

definition checkWorkloadAttachments :: "auditState \<Rightarrow> OwnershipAuditOptions \<Rightarrow> OwnershipAuditFinding list" where
  "checkWorkloadAttachments st opts =
     concat (map (\<lambda>name. workload_findings st name (the (fmlookup (ownedNB st opts) name))) (range_keys (ownedNB st opts)))
   @ orphan_port_findings st opts @ orphan_interface_findings st opts"

definition policy_in_scope :: "OwnershipAuditOptions \<Rightarrow> PortGroup \<Rightarrow> bool" where
  "policy_in_scope opts pg \<longleftrightarrow>
     ovsResourceOwnedBy (pg_ExternalIDs pg) ''SecurityPolicy'' (pg_Name pg) \<and> auditExternalIDsInScope (pg_ExternalIDs pg) (pg_Name pg) opts"

definition policy_acl_findings :: "auditState \<Rightarrow> PortGroup \<Rightarrow> string \<Rightarrow> OwnershipAuditFinding list" where
  "policy_acl_findings st pg aclUUID =
     (case fmlookup (nbACLs st) aclUUID of
        None \<Rightarrow> [finding DoctorError ''security_policy_acl_missing'' dbOVNNorthbound tablePortGroup (pg_Name pg)
                  ''security policy references a missing ACL'' [(''acl_uuid'', aclUUID)]]
      | Some acl \<Rightarrow>
          if ovsResourceOwnedBy (acl_ExternalIDs acl) ''SecurityPolicy'' (pg_Name pg) then []
          else [finding DoctorWarning ''security_policy_acl_unowned'' dbOVNNorthbound tableACL aclUUID
                  ''security policy references an ACL without matching ovnflow ownership'' [(''policy'', pg_Name pg)]])"

definition owned_acl_ref :: "auditState \<Rightarrow> PortGroup \<Rightarrow> string \<Rightarrow> bool" where
  "owned_acl_ref st pg aclUUID =
     (case fmlookup (nbACLs st) aclUUID of None \<Rightarrow> False | Some acl \<Rightarrow> ovsResourceOwnedBy (acl_ExternalIDs acl) ''SecurityPolicy'' (pg_Name pg))"

definition checkSecurityPolicies :: "auditState \<Rightarrow> OwnershipAuditOptions \<Rightarrow> OwnershipAuditFinding list" where
  "checkSecurityPolicies st opts =
     (let groups = filter (policy_in_scope opts) (range_values (nbPortGroups st));
          ownedACLRefs = concat (map (\<lambda>pg. filter (owned_acl_ref st pg) (pg_ACLs pg)) groups) in
      concat (map (\<lambda>pg. concat (map (policy_acl_findings st pg) (pg_ACLs pg))) groups)
    @ map (\<lambda>uuid. finding DoctorWarning ''security_policy_acl_without_port_group'' dbOVNNorthbound tableACL uuid
            ''owned security policy ACL is not referenced by its Port_Group''
            [(''policy'', go_get (acl_ExternalIDs (the (fmlookup (nbACLs st) uuid))) ExternalIDNameKey)])
        (filter (\<lambda>uuid. let ids = acl_ExternalIDs (the (fmlookup (nbACLs st) uuid)) in
             ovsResourceOwnedBy ids ''SecurityPolicy'' (go_get ids ExternalIDNameKey)
             \<and> auditExternalIDsInScope ids (auditObjectName ids) opts \<and> uuid \<notin> set ownedACLRefs) (range_keys (nbACLs st))))"

definition checkOVSReferences :: "auditState \<Rightarrow> OwnershipAuditOptions \<Rightarrow> OwnershipAuditFinding list" where
  "checkOVSReferences st opts =
     concat (map (\<lambda>root. if \<not> auditExternalIDsInScope (vs_ExternalIDs root) [] opts then []
       else missing_refs (ovsBridges st) (\<lambda>u. finding DoctorError ''ovs_bridge_missing'' dbOpenVSwitch tableOpenVSwitch (vs_UUID root)
              ''Open_vSwitch root references a missing bridge'' [(''bridge_uuid'', u)]) (vs_Bridges root)) (ovsRoots st))
   @ concat (map (\<lambda>bridge. if \<not> auditExternalIDsInScope (br_ExternalIDs bridge) (br_Name bridge) opts then []
       else missing_refs (ovsPorts st) (\<lambda>u. finding DoctorError ''ovs_port_missing'' dbOpenVSwitch tableBridge (br_Name bridge)
              ''OVS bridge references a missing port'' [(''port_uuid'', u)]) (br_Ports bridge)) (range_values (ovsBridges st)))
   @ concat (map (\<lambda>port. if \<not> auditExternalIDsInScope (vp_ExternalIDs port) (vp_Name port) opts then []
       else missing_refs (ovsInterfaces st) (\<lambda>u. finding DoctorError ''ovs_interface_missing'' dbOpenVSwitch tablePort (vp_Name port)
              ''OVS port references a missing interface'' [(''interface_uuid'', u)]) (vp_Interfaces port)) (range_values (ovsPorts st)))"

section \<open>The audit\<close>

text \<open>
  \<open>finalize\<close>: both lists are sorted stably by the fields the comparison looks at, one after the
  other, findings with the most severe ones first; then they are counted.
\<close>

definition resource_key :: "OwnershipAuditResource \<Rightarrow> string \<times> string \<times> string \<times> string" where
  "resource_key r = (ar_Database r, ar_Table r, ar_Kind r, ar_Name r)"

definition finding_key :: "OwnershipAuditFinding \<Rightarrow> int \<times> string \<times> string \<times> string \<times> string" where
  "finding_key f = (- severityRank (af_Severity f), af_Code f, af_Database f, af_Table f, af_Object f)"

definition count_severity :: "string \<Rightarrow> OwnershipAuditFinding list \<Rightarrow> nat" where
  "count_severity severity fs = length (filter (\<lambda>f. af_Severity f = severity) fs)"

definition finalize :: "OwnershipAuditReport \<Rightarrow> OwnershipAuditReport" where
  "finalize r =
     (let resources = sort_key resource_key (rp_Resources r); findings = sort_key finding_key (rp_Findings r) in
      \<lparr>rp_Summary = \<lparr>as_OwnedResources = length resources, as_Findings = length findings,
         as_Errors = count_severity DoctorError findings, as_Warnings = count_severity DoctorWarning findings\<rparr>,
       rp_Resources = resources, rp_Findings = findings\<rparr>)"

definition reference_findings :: "auditState \<Rightarrow> OwnershipAuditOptions \<Rightarrow> OwnershipAuditFinding list" where
  "reference_findings st opts = checkNorthboundReferences st opts @ checkProviderNetworks st opts @ checkWorkloadAttachments st opts
     @ checkSecurityPolicies st opts @ checkOVSReferences st opts"

definition AuditOwnership :: "'w Client option \<Rightarrow> 'w \<Rightarrow> OwnershipAuditOptions \<Rightarrow> OwnershipAuditReport res \<times> 'w" where
  "AuditOwnership client w opts =
     io_guard (if ownerFilterSet (ao_Owner opts) then OwnerRef_Validate (ao_Owner opts) else None) w (\<lambda>w.
       case client of
         None \<Rightarrow> (Inr (finalize (add_findings [finding DoctorError ''client_unavailable'' [] [] [] ''ovnflow client is nil'' []] empty_report)), w)
       | Some cl \<Rightarrow>
           io_bind (collectNorthbound (cl_nb cl) opts (empty_report, newAuditState) w) (\<lambda>c w.
           io_bind (collectOVS (cl_ovs cl) opts c w) (\<lambda>(r, st) w.
             (Inr (finalize (add_findings (reference_findings st opts) r)), w))))"

end
