(* ===== verification/Cleanup.thy ===== *)
theory Cleanup
  imports Ownership_Audit
begin

text \<open>
  The clean-up and adopt plans of \<^verbatim>\<open>src/cleanup.go\<close>. Both are built from an ownership audit, given
  by the caller or made with the filter of the plan.
\<close>

section \<open>Plans\<close>

datatype CleanupAction = CleanupActionKeep | CleanupActionReview | CleanupActionDeleteOwned | AdoptActionImport | AdoptActionCompleteMarker

datatype CleanupRisk = CleanupRiskLow | CleanupRiskMedium | CleanupRiskHigh

record CleanupPlanOptions =
  co_Audit :: "OwnershipAuditReport option"
  co_Owner :: OwnerRef
  co_Kinds :: "string list"
  co_Names :: "string list"

text \<open>\<open>CleanupCandidate\<close> and \<open>AdoptCandidate\<close> have the same fields, as have the two plans and their options.\<close>

record CleanupCandidate =
  cc_Database :: string
  cc_Table :: string
  cc_UUID :: string
  cc_Kind :: string
  cc_Name :: string
  cc_Owner :: OwnerRef
  cc_Owned :: bool
  cc_MarkerComplete :: bool
  cc_Risk :: CleanupRisk
  cc_RecommendedAction :: CleanupAction
  cc_Reasons :: "string list"
  cc_Resource :: OwnershipAuditResource

record CleanupPlan =
  cp_Candidates :: "CleanupCandidate list"
  cp_Findings :: "OwnershipAuditFinding list"
  cp_ReadOnly :: bool

definition completeOwnedMarker :: "string_map \<Rightarrow> string \<Rightarrow> string \<Rightarrow> bool" where
  "completeOwnedMarker ids kind name \<longleftrightarrow>
     go_get ids ExternalIDManagedByKey = ''ovnflow'' \<and> go_get ids ExternalIDAPIVersionKey = ''v2'' \<and> kind \<noteq> [] \<and> name \<noteq> []
     \<and> go_get ids ExternalIDKindKey = kind \<and> go_get ids ExternalIDNameKey = name
     \<and> go_get ids ExternalIDOwnerKindKey \<noteq> [] \<and> (go_get ids ExternalIDOwnerNameKey \<noteq> [] \<or> go_get ids ExternalIDOwnerIDKey \<noteq> [])"

definition cleanupMarkerReasons :: "string_map \<Rightarrow> string \<Rightarrow> string \<Rightarrow> string list" where
  "cleanupMarkerReasons ids kind name =
     (if go_get ids ExternalIDManagedByKey \<noteq> ''ovnflow'' then [''missing ovnflow managed-by marker''] else [])
   @ (if go_get ids ExternalIDAPIVersionKey \<noteq> ''v2'' then [''missing ovnflow v2 api-version marker''] else [])
   @ (if kind = [] \<or> go_get ids ExternalIDKindKey \<noteq> kind then [''missing or mismatched kind marker''] else [])
   @ (if name = [] \<or> go_get ids ExternalIDNameKey \<noteq> name then [''missing or mismatched name marker''] else [])
   @ (if go_get ids ExternalIDOwnerKindKey = [] \<or> go_get ids ExternalIDOwnerNameKey = [] \<and> go_get ids ExternalIDOwnerIDKey = []
      then [''missing complete owner marker''] else [])"

definition cleanupResourceInScope :: "OwnershipAuditResource \<Rightarrow> OwnerRef \<Rightarrow> string list \<Rightarrow> string list \<Rightarrow> bool" where
  "cleanupResourceInScope resource owner kinds names =
     (if ownerFilterSet owner \<and> \<not> OwnershipMatches (ar_ExternalIDs resource) owner then False
      else if kinds \<noteq> [] \<and> \<not> stringInSet (ar_Kind resource) kinds then False
      else if names \<noteq> [] \<and> \<not> stringInSet (ar_Name resource) names
              \<and> \<not> stringInSet (go_get (ar_ExternalIDs resource) ExternalIDNameKey) names then False
      else True)"

text \<open>The candidate of a resource with the given risk, action and reasons.\<close>

definition candidate_of :: "OwnershipAuditResource \<Rightarrow> CleanupRisk \<Rightarrow> CleanupAction \<Rightarrow> string list \<Rightarrow> CleanupCandidate" where
  "candidate_of resource risk action reasons =
     \<lparr>cc_Database = ar_Database resource, cc_Table = ar_Table resource, cc_UUID = ar_UUID resource, cc_Kind = ar_Kind resource,
      cc_Name = ar_Name resource, cc_Owner = ar_Owner resource,
      cc_Owned = (go_get (ar_ExternalIDs resource) ExternalIDManagedByKey = ''ovnflow''),
      cc_MarkerComplete = completeOwnedMarker (ar_ExternalIDs resource) (ar_Kind resource) (ar_Name resource),
      cc_Risk = risk, cc_RecommendedAction = action, cc_Reasons = reasons, cc_Resource = resource\<rparr>"

definition marker_reasons :: "OwnershipAuditResource \<Rightarrow> string list" where
  "marker_reasons resource = cleanupMarkerReasons (ar_ExternalIDs resource) (ar_Kind resource) (ar_Name resource)"

definition cleanupCandidateFromResource :: "OwnershipAuditResource \<Rightarrow> CleanupCandidate" where
  "cleanupCandidateFromResource resource =
     (let owned = (go_get (ar_ExternalIDs resource) ExternalIDManagedByKey = ''ovnflow'');
          complete = completeOwnedMarker (ar_ExternalIDs resource) (ar_Kind resource) (ar_Name resource) in
      if owned \<and> complete then candidate_of resource CleanupRiskLow CleanupActionDeleteOwned [''owned v2 marker is complete'']
      else candidate_of resource CleanupRiskHigh CleanupActionReview (marker_reasons resource))"

definition adoptCandidateFromResource :: "OwnershipAuditResource \<Rightarrow> CleanupCandidate" where
  "adoptCandidateFromResource resource =
     (let owned = (go_get (ar_ExternalIDs resource) ExternalIDManagedByKey = ''ovnflow'');
          complete = completeOwnedMarker (ar_ExternalIDs resource) (ar_Kind resource) (ar_Name resource) in
      if owned \<and> complete then candidate_of resource CleanupRiskLow AdoptActionImport [''owned v2 marker is complete'']
      else if owned then candidate_of resource CleanupRiskMedium AdoptActionCompleteMarker (marker_reasons resource)
      else candidate_of resource CleanupRiskHigh CleanupActionReview [''resource is not marked as ovnflow-managed''])"

text \<open>\<open>NewCleanupPlanFromAudit\<close> and \<open>NewAdoptPlanFromAudit\<close> differ in the candidate they make of a resource.\<close>

definition plan_from_audit :: "(OwnershipAuditResource \<Rightarrow> CleanupCandidate) \<Rightarrow> OwnershipAuditReport option \<Rightarrow> CleanupPlanOptions \<Rightarrow> CleanupPlan" where
  "plan_from_audit candidate audit opts =
     (case audit of
        None \<Rightarrow> \<lparr>cp_Candidates = [],
                 cp_Findings = [\<lparr>af_Severity = DoctorWarning, af_Code = ''audit_unavailable'', af_Database = [], af_Table = [], af_Object = [],
                    af_Message = ''ownership audit report is nil'', af_Details = fmempty\<rparr>],
                 cp_ReadOnly = True\<rparr>
      | Some report \<Rightarrow>
          \<lparr>cp_Candidates = map candidate (filter (\<lambda>resource. cleanupResourceInScope resource (co_Owner opts) (co_Kinds opts) (co_Names opts))
             (rp_Resources report)),
           cp_Findings = rp_Findings report, cp_ReadOnly = True\<rparr>)"

definition NewCleanupPlanFromAudit :: "OwnershipAuditReport option \<Rightarrow> CleanupPlanOptions \<Rightarrow> CleanupPlan" where
  "NewCleanupPlanFromAudit = plan_from_audit cleanupCandidateFromResource"

definition NewAdoptPlanFromAudit :: "OwnershipAuditReport option \<Rightarrow> CleanupPlanOptions \<Rightarrow> CleanupPlan" where
  "NewAdoptPlanFromAudit = plan_from_audit adoptCandidateFromResource"

definition audit_for :: "'w Client option \<Rightarrow> 'w \<Rightarrow> CleanupPlanOptions \<Rightarrow> OwnershipAuditReport res \<times> 'w" where
  "audit_for c w opts =
     (case co_Audit opts of
        Some report \<Rightarrow> (Inr report, w)
      | None \<Rightarrow> AuditOwnership c w \<lparr>ao_Owner = co_Owner opts, ao_Kinds = co_Kinds opts, ao_Names = co_Names opts\<rparr>)"

definition Client_CleanupPlan :: "'w Client option \<Rightarrow> 'w \<Rightarrow> CleanupPlanOptions \<Rightarrow> CleanupPlan res \<times> 'w" where
  "Client_CleanupPlan c w opts = io_bind (audit_for c w opts) (\<lambda>audit w. (Inr (NewCleanupPlanFromAudit (Some audit) opts), w))"

definition Client_AdoptPlan :: "'w Client option \<Rightarrow> 'w \<Rightarrow> CleanupPlanOptions \<Rightarrow> CleanupPlan res \<times> 'w" where
  "Client_AdoptPlan c w opts = io_bind (audit_for c w opts) (\<lambda>audit w. (Inr (NewAdoptPlanFromAudit (Some audit) opts), w))"

text \<open>The candidates of a plan (nil: none) that may be acted on without a review.\<close>

definition executable_with :: "CleanupAction \<Rightarrow> CleanupPlan option \<Rightarrow> CleanupCandidate list" where
  "executable_with action p =
     (case p of None \<Rightarrow> []
      | Some plan \<Rightarrow> filter (\<lambda>c. cc_Owned c \<and> cc_MarkerComplete c \<and> cc_RecommendedAction c = action) (cp_Candidates plan))"

definition CleanupPlan_ExecutableCandidates :: "CleanupPlan option \<Rightarrow> CleanupCandidate list" where
  "CleanupPlan_ExecutableCandidates = executable_with CleanupActionDeleteOwned"

definition AdoptPlan_ExecutableCandidates :: "CleanupPlan option \<Rightarrow> CleanupCandidate list" where
  "AdoptPlan_ExecutableCandidates = executable_with AdoptActionImport"

end
