(* ===== verification/Cleanup_Props.thy ===== *)
theory Cleanup_Props
  imports Cleanup
begin

text \<open>
  What the audit collects and finds, and which rows a clean-up plan offers for deletion.
\<close>

section \<open>The resources of a database\<close>

text \<open>
  \<open>answers d R\<close>: whenever the client reads a table \<open>t\<close>, it gets the rows \<open>R t\<close> (nobody else
  writes to the database meanwhile).
\<close>

definition answers :: "'w dbClient \<Rightarrow> (string \<Rightarrow> row list) \<Rightarrow> bool" where
  "answers d R \<longleftrightarrow> (\<forall>w t. \<exists>w'. auditListRows d w t = (Inr (R t), w'))"

definition switch_resource :: "row \<Rightarrow> OwnershipAuditResource" where
  "switch_resource row = (let ls = logicalSwitchFromRow row in
     audit_resource dbOVNNorthbound tableLogicalSwitch (ls_UUID ls) (ls_Name ls) (ls_ExternalIDs ls))"

definition lsp_resource :: "row \<Rightarrow> OwnershipAuditResource" where
  "lsp_resource row = (let lsp = logicalSwitchPortFromRow row in
     audit_resource dbOVNNorthbound tableLogicalSwitchPort (lsp_UUID lsp) (lsp_Name lsp) (lsp_ExternalIDs lsp))"

definition dns_resource :: "row \<Rightarrow> OwnershipAuditResource" where
  "dns_resource row = (let dns = dnsFromAuditRow row in
     audit_resource dbOVNNorthbound tableDNS (dns_UUID dns) (go_get (dns_ExternalIDs dns) dnsNameExternalID) (dns_ExternalIDs dns))"

definition portGroup_resource :: "row \<Rightarrow> OwnershipAuditResource" where
  "portGroup_resource row = (let pg = portGroupFromAuditRow row in
     audit_resource dbOVNNorthbound tablePortGroup (pg_UUID pg) (pg_Name pg) (pg_ExternalIDs pg))"

definition acl_resource :: "row \<Rightarrow> OwnershipAuditResource" where
  "acl_resource row = (let acl = aclFromAuditRow row in
     audit_resource dbOVNNorthbound tableACL (acl_UUID acl) (auditObjectName (acl_ExternalIDs acl)) (acl_ExternalIDs acl))"

definition root_resource :: "row \<Rightarrow> OwnershipAuditResource" where
  "root_resource row = (let root = openVSwitchFromAuditRow row in
     audit_resource dbOpenVSwitch tableOpenVSwitch (vs_UUID root) [] (vs_ExternalIDs root))"

definition bridge_resource :: "row \<Rightarrow> OwnershipAuditResource" where
  "bridge_resource row = (let bridge = ovsBridgeFromAuditRow row in
     audit_resource dbOpenVSwitch tableBridge (br_UUID bridge) (br_Name bridge) (br_ExternalIDs bridge))"

definition port_resource :: "row \<Rightarrow> OwnershipAuditResource" where
  "port_resource row = (let port = ovsPortFromAuditRow row in
     audit_resource dbOpenVSwitch tablePort (vp_UUID port) (vp_Name port) (vp_ExternalIDs port))"

definition interface_resource :: "row \<Rightarrow> OwnershipAuditResource" where
  "interface_resource row = (let iface = ovsInterfaceFromAuditRow row in
     audit_resource dbOpenVSwitch tableInterface (oi_UUID iface) (oi_Name iface) (oi_ExternalIDs iface))"

definition nb_resources :: "(string \<Rightarrow> row list) \<Rightarrow> OwnershipAuditResource list" where
  "nb_resources R = map switch_resource (R tableLogicalSwitch) @ map lsp_resource (R tableLogicalSwitchPort) @ map dns_resource (R tableDNS)
     @ map portGroup_resource (R tablePortGroup) @ map acl_resource (R tableACL)"

definition ovs_resources :: "(string \<Rightarrow> row list) \<Rightarrow> OwnershipAuditResource list" where
  "ovs_resources R = map root_resource (R tableOpenVSwitch) @ map bridge_resource (R tableBridge) @ map port_resource (R tablePort)
     @ map interface_resource (R tableInterface)"

definition reported :: "OwnershipAuditOptions \<Rightarrow> OwnershipAuditResource \<Rightarrow> bool" where
  "reported opts res \<longleftrightarrow> auditIsManaged (ar_ExternalIDs res) \<and> auditResourceMatches res opts"

text \<open>What is specified for deletion: the complete v2 mark of kind and name, and the filter of the plan.\<close>

definition deletable :: "CleanupPlanOptions \<Rightarrow> OwnershipAuditResource \<Rightarrow> bool" where
  "deletable opts res \<longleftrightarrow>
     v2ResourceOwnedBy (ar_ExternalIDs res) (ar_Kind res) (ar_Name res) \<and> ar_Kind res \<noteq> [] \<and> ar_Name res \<noteq> []
     \<and> (ownerFilterSet (co_Owner opts) \<longrightarrow> OwnershipMatches (ar_ExternalIDs res) (co_Owner opts))
     \<and> (co_Kinds opts \<noteq> [] \<longrightarrow> ar_Kind res \<in> set (co_Kinds opts)) \<and> (co_Names opts \<noteq> [] \<longrightarrow> ar_Name res \<in> set (co_Names opts))"

lemma stringInSet_iff [simp]: "stringInSet v vs \<longleftrightarrow> v \<in> set vs"
  by (auto simp: stringInSet_def list_ex_iff)

lemma audit_resource_ids [simp]: "ar_ExternalIDs (audit_resource database tab uuid name ids) = ids"
  by (simp add: audit_resource_def ownerAndLabelsFromExternalIDs_def)

lemma addOwnedResource_resources [simp]:
  "rp_Resources (addOwnedResource database tab uuid name ids opts r)
   = rp_Resources r @ filter (reported opts) [audit_resource database tab uuid name ids]"
  by (simp add: addOwnedResource_def reported_def add_findings_def Let_def)

text \<open>A block that adds the resource \<open>f row\<close> of each row adds those within the filter.\<close>

lemma foldl_resources:
  assumes "\<And>c row. rp_Resources (fst (step c row)) = rp_Resources (fst c) @ filter (reported opts) [f row]"
  shows "rp_Resources (fst (foldl step c rows)) = rp_Resources (fst c) @ filter (reported opts) (map f rows)"
  using assms by (induction rows arbitrary: c) auto

lemmas collect_defs = collect_switch_def collect_lsp_def collect_dns_def collect_portGroup_def collect_acl_def collect_root_def
  collect_bridge_def collect_port_def collect_interface_def switch_resource_def lsp_resource_def dns_resource_def
  portGroup_resource_def acl_resource_def root_resource_def bridge_resource_def port_resource_def interface_resource_def

lemma collect_resources:
  "rp_Resources (fst (foldl (collect_switch opts) c rows)) = rp_Resources (fst c) @ filter (reported opts) (map switch_resource rows)"
  "rp_Resources (fst (foldl (collect_lsp opts) c rows)) = rp_Resources (fst c) @ filter (reported opts) (map lsp_resource rows)"
  "rp_Resources (fst (foldl (collect_dns opts) c rows)) = rp_Resources (fst c) @ filter (reported opts) (map dns_resource rows)"
  "rp_Resources (fst (foldl (collect_portGroup opts) c rows)) = rp_Resources (fst c) @ filter (reported opts) (map portGroup_resource rows)"
  "rp_Resources (fst (foldl (collect_acl opts) c rows)) = rp_Resources (fst c) @ filter (reported opts) (map acl_resource rows)"
  "rp_Resources (fst (foldl (collect_root opts) c rows)) = rp_Resources (fst c) @ filter (reported opts) (map root_resource rows)"
  "rp_Resources (fst (foldl (collect_bridge opts) c rows)) = rp_Resources (fst c) @ filter (reported opts) (map bridge_resource rows)"
  "rp_Resources (fst (foldl (collect_port opts) c rows)) = rp_Resources (fst c) @ filter (reported opts) (map port_resource rows)"
  "rp_Resources (fst (foldl (collect_interface opts) c rows)) = rp_Resources (fst c) @ filter (reported opts) (map interface_resource rows)"
  by (rule foldl_resources, simp add: collect_defs Let_def split: prod.split)+

text \<open>With a quiet database every block gets its rows.\<close>

lemma collect_tables_answers:
  assumes "answers d R"
  shows "\<exists>w'. collect_tables d blocks c w = (Inr (foldl (\<lambda>c b. foldl (snd b) c (R (fst b))) c blocks), w')"
proof (induction blocks arbitrary: c w)
  case (Cons b blocks)
  obtain tab step where b: "b = (tab, step)" by fastforce
  obtain w1 where "auditListRows d w tab = (Inr (R tab), w1)" using assms unfolding answers_def by blast
  then show ?case using Cons.IH [of "foldl step c (R tab)" w1] by (simp add: b)
qed simp

definition collected_from :: "OwnershipAuditOptions \<Rightarrow> (string \<Rightarrow> row list) \<Rightarrow> (string \<Rightarrow> row list) \<Rightarrow> collected" where
  "collected_from opts N V = foldl (\<lambda>c b. foldl (snd b) c (V (fst b)))
     (foldl (\<lambda>c b. foldl (snd b) c (N (fst b))) (empty_report, newAuditState) (nb_blocks opts)) (ovs_blocks opts)"

lemma collected_resources:
  "rp_Resources (fst (collected_from opts N V)) = filter (reported opts) (nb_resources N @ ovs_resources V)"
  by (simp add: collected_from_def nb_blocks_def ovs_blocks_def collect_resources nb_resources_def ovs_resources_def empty_report_def)

lemma AuditOwnership_quiet:
  assumes "cl_nb cl = Some dn" "cl_ovs cl = Some dv" "answers dn N" "answers dv V"
    and "ownerFilterSet (ao_Owner opts) \<Longrightarrow> OwnerRef_Validate (ao_Owner opts) = None"
  shows "\<exists>w'. AuditOwnership (Some cl) w opts = (Inr (finalize (add_findings (reference_findings (snd (collected_from opts N V)) opts)
      (fst (collected_from opts N V)))), w')"
proof -
  obtain w1 where nb: "collectNorthbound (cl_nb cl) opts (empty_report, newAuditState) w
      = (Inr (foldl (\<lambda>c b. foldl (snd b) c (N (fst b))) (empty_report, newAuditState) (nb_blocks opts)), w1)"
    using collect_tables_answers [OF assms(3)] unfolding collectNorthbound_def assms(1) option.case by blast
  obtain w2 where "collectOVS (cl_ovs cl) opts (foldl (\<lambda>c b. foldl (snd b) c (N (fst b))) (empty_report, newAuditState) (nb_blocks opts)) w1
      = (Inr (collected_from opts N V), w2)"
    using collect_tables_answers [OF assms(4)] unfolding collectOVS_def assms(2) option.case collected_from_def by blast
  then show ?thesis using nb assms(5) by (auto simp: AuditOwnership_def split: prod.split)
qed

section \<open>Clean-up\<close>

lemma finalize_resources [simp]: "mset (rp_Resources (finalize r)) = mset (rp_Resources r)"
  by (simp add: finalize_def Let_def)

lemma add_findings_resources [simp]: "rp_Resources (add_findings fs r) = rp_Resources r"
  by (simp add: add_findings_def)

lemma executable_resource:
  "cc_Owned (cleanupCandidateFromResource res) \<and> cc_MarkerComplete (cleanupCandidateFromResource res)
     \<and> cc_RecommendedAction (cleanupCandidateFromResource res) = CleanupActionDeleteOwned
   \<longleftrightarrow> completeOwnedMarker (ar_ExternalIDs res) (ar_Kind res) (ar_Name res)"
  "cc_Owned (adoptCandidateFromResource res) \<and> cc_MarkerComplete (adoptCandidateFromResource res)
     \<and> cc_RecommendedAction (adoptCandidateFromResource res) = AdoptActionImport
   \<longleftrightarrow> completeOwnedMarker (ar_ExternalIDs res) (ar_Kind res) (ar_Name res)"
  "cc_Resource (cleanupCandidateFromResource res) = res" "cc_Resource (adoptCandidateFromResource res) = res"
  by (auto simp: cleanupCandidateFromResource_def adoptCandidateFromResource_def candidate_of_def completeOwnedMarker_def Let_def)

lemma completeOwnedMarker_iff:
  "completeOwnedMarker ids kind name \<longleftrightarrow> v2ResourceOwnedBy ids kind name \<and> kind \<noteq> [] \<and> name \<noteq> []"
  by (auto simp: completeOwnedMarker_def v2ResourceOwnedBy_def complete_owner_def)

lemma deletable_iff:
  "deletable opts res \<longleftrightarrow> completeOwnedMarker (ar_ExternalIDs res) (ar_Kind res) (ar_Name res)
     \<and> cleanupResourceInScope res (co_Owner opts) (co_Kinds opts) (co_Names opts)"
  by (auto simp: deletable_def completeOwnedMarker_iff cleanupResourceInScope_def v2ResourceOwnedBy_def)

lemma deletable_fun: "deletable opts = (\<lambda>res. completeOwnedMarker (ar_ExternalIDs res) (ar_Kind res) (ar_Name res)
     \<and> cleanupResourceInScope res (co_Owner opts) (co_Kinds opts) (co_Names opts))"
  "deletable opts = (\<lambda>res. cleanupResourceInScope res (co_Owner opts) (co_Kinds opts) (co_Names opts)
     \<and> completeOwnedMarker (ar_ExternalIDs res) (ar_Kind res) (ar_Name res))"
  by (auto simp: fun_eq_iff deletable_iff)

lemma cleanupResourceInScope_iff:
  "cleanupResourceInScope res owner kinds names = auditResourceMatches res \<lparr>ao_Owner = owner, ao_Kinds = kinds, ao_Names = names\<rparr>"
  by (simp add: cleanupResourceInScope_def auditResourceMatches_def)

lemma executable_candidates:
  "map cc_Resource (CleanupPlan_ExecutableCandidates (Some (NewCleanupPlanFromAudit (Some report) opts)))
   = filter (deletable opts) (rp_Resources report)"
  "map cc_Resource (AdoptPlan_ExecutableCandidates (Some (NewAdoptPlanFromAudit (Some report) opts)))
   = filter (deletable opts) (rp_Resources report)"
  by (simp_all add: CleanupPlan_ExecutableCandidates_def AdoptPlan_ExecutableCandidates_def executable_with_def NewCleanupPlanFromAudit_def
      NewAdoptPlanFromAudit_def plan_from_audit_def filter_map comp_def executable_resource deletable_fun(2))


text \<open>
  The localnet port of a provider network bears the mark of the network under a name of its own
  (by default the name of the network with \<open>-localnet\<close>), so it is never offered for deletion.
\<close>

lemma localnet_never_executable:
  assumes "lsp_Name (logicalSwitchPortFromRow row) = go_get (lsp_ExternalIDs (logicalSwitchPortFromRow row)) ExternalIDNameKey @ ''-localnet''"
  shows "\<not> deletable opts (lsp_resource row)"
  using assms
  by (auto simp: deletable_def v2ResourceOwnedBy_def lsp_resource_def Let_def audit_resource_def ownerAndLabelsFromExternalIDs_def)

text \<open>
  Without an Open vSwitch connection no root row is collected; every localnet port with a physical
  network is then reported as an error, although its mapping could not be looked up.
\<close>

lemma mapping_error_without_ovs:
  assumes "ovsRoots st = []" "port \<in> set (range_values (nbPorts st))" "localnet_in_scope opts port" "localnet_physical port \<noteq> []"
  shows "\<exists>f\<in>set (checkProviderNetworks st opts). af_Severity f = DoctorError \<and> af_Code f = ''provider_network_mapping_missing''"
proof -
  have "go_get fmempty (localnet_physical port) = []" by (simp add: go_get_def)
  then obtain f where f: "f \<in> set (localnet_findings fmempty fmempty st port)" "af_Severity f = DoctorError"
    "af_Code f = ''provider_network_mapping_missing''"
    using assms(4) by (fastforce simp: localnet_findings_def localnet_mapping_findings_def finding_def Let_def)
  have "f \<in> set (checkProviderNetworks st opts)"
    using f(1) assms(1-3) by (auto simp: checkProviderNetworks_def Let_def)
  then show ?thesis using f by blast
qed

section \<open>Example\<close>

text \<open>A Northbound database with two port groups, one of them marked, and an empty Open vSwitch database.\<close>

definition marked_group :: row where
  "marked_group = fmap_of_list [(''_uuid'', AUUID ''u1''), (''name'', AString ''web''), (''external_ids'', AStringMap (fmap_of_list
     [(ExternalIDManagedByKey, ''ovnflow''), (ExternalIDAPIVersionKey, ''v2''), (ExternalIDKindKey, ''SecurityPolicy''), (ExternalIDNameKey, ''web''),
      (ExternalIDOwnerKindKey, ''tenant''), (ExternalIDOwnerNameKey, ''blue'')]))]"

definition plain_group :: row where
  "plain_group = fmap_of_list [(''_uuid'', AUUID ''u2''), (''name'', AString ''other'')]"

definition group_rows :: "string \<Rightarrow> row list" where
  "group_rows t = (if t = ''Port_Group'' then [marked_group, plain_group] else [])"

definition group_registry :: registry where
  "group_registry = newSchemaRegistry ''OVN_Northbound'' \<lparr>ds_Name = ''OVN_Northbound'', ds_Version = ''1.0.0'',
     ds_Tables = fmap_of_list [(''Port_Group'', \<lparr>ts_Columns = fmap_of_list [(''name'', None)], ts_Column = (\<lambda>c. c \<in> {''_uuid'', ''name''})\<rparr>)]\<rparr>"

definition group_db :: "unit dbClient" where
  "group_db = \<lparr>db_database = ''OVN_Northbound'', db_schema = group_registry, db_hasExecutor = (\<lambda>_. True),
     db_Transact = (\<lambda>w ops. (Inr (map (\<lambda>p. \<lparr>Count = 0, ErrorField = [], Details = [], res_Rows = group_rows (op_Table p)\<rparr>) ops), w)),
     db_reconnect = None, db_backoff = (\<lambda>w. (None, w)), db_NewString = (\<lambda>w. (''0-0'', w)), db_rawRow = (\<lambda>r. r)\<rparr>"

definition group_client :: "unit Client" where
  "group_client = \<lparr>cl_nb = Some group_db, cl_sb = None, cl_ovs = Some group_db\<rparr>"

definition group_opts :: CleanupPlanOptions where
  "group_opts = \<lparr>co_Audit = None, co_Owner = \<lparr>owner_Kind = ''tenant'', owner_Name = ''blue'', owner_ID = []\<rparr>, co_Kinds = [], co_Names = []\<rparr>"

lemma group_db_answers: "answers group_db group_rows"
proof -
  have "HasTable group_registry t \<longleftrightarrow> t = ''Port_Group''" for t
    by (simp add: HasTable_def group_registry_def newSchemaRegistry_def schema_table_def)
  moreover have "auditListRows group_db () ''Port_Group'' = (Inr [marked_group, plain_group], ())"
    by code_simp
  ultimately have "auditListRows group_db w t = (Inr (group_rows t), ())" for w t
    by (cases "t = ''Port_Group''") (auto simp: auditListRows_def group_db_def group_rows_def)
  then show ?thesis by (auto simp: answers_def)
qed


end
