(* ===== verification/Ownership_Audit_Props.thy ===== *)
theory Ownership_Audit_Props
  imports Cleanup_Props
begin

text \<open>
  The errors of an ownership audit: none are reported exactly when the references between the
  rows are intact. Integrity is stated over the rows of the two databases.
\<close>

section \<open>The state that is collected\<close>

definition by_key :: "('a \<Rightarrow> string) \<Rightarrow> 'a list \<Rightarrow> (string, 'a) fmap" where
  "by_key k xs = foldl (\<lambda>m x. fmupd (k x) x m) fmempty xs"

lemma foldl_fmupd_key: "fmlookup (foldl (\<lambda>m x. fmupd (k x) x m) base xs) u
    = (case find (\<lambda>x. k x = u) (rev xs) of Some x \<Rightarrow> Some x | None \<Rightarrow> fmlookup base u)"
proof (induction xs arbitrary: base)
  case (Cons x xs)
  have "find P (ys @ [y]) = (case find P ys of Some z \<Rightarrow> Some z | None \<Rightarrow> if P y then Some y else None)" for P and y :: 'a and ys
    by (induction ys) auto
  then show ?case using Cons.IH by (auto split: option.splits)
qed simp

lemma by_key_dom: "fmlookup (by_key k xs) u = None \<longleftrightarrow> u \<notin> k ` set xs"
proof (cases "find (\<lambda>x. k x = u) (rev xs)")
  case None
  then have "u \<notin> k ` set xs" by (auto simp: find_None_iff)
  then show ?thesis using None by (simp add: by_key_def foldl_fmupd_key)
next
  case (Some x)
  then have "x \<in> set xs \<and> k x = u" unfolding find_Some_iff by (metis nth_mem set_rev)
  then show ?thesis using Some by (auto simp: by_key_def foldl_fmupd_key)
qed

lemma by_key_lookup:
  assumes "inj_on k (set xs)"
  shows "fmlookup (by_key k xs) u = Some x \<longleftrightarrow> x \<in> set xs \<and> k x = u"
proof
  assume "fmlookup (by_key k xs) u = Some x"
  then have "find (\<lambda>x. k x = u) (rev xs) = Some x" by (auto simp: by_key_def foldl_fmupd_key split: option.splits)
  then show "x \<in> set xs \<and> k x = u" unfolding find_Some_iff by (metis nth_mem set_rev)
next
  assume x: "x \<in> set xs \<and> k x = u"
  then obtain y where y: "fmlookup (by_key k xs) u = Some y" using by_key_dom [of k xs u] by fastforce
  then have "find (\<lambda>x. k x = u) (rev xs) = Some y" by (auto simp: by_key_def foldl_fmupd_key split: option.splits)
  then have "y \<in> set xs \<and> k y = u" unfolding find_Some_iff by (metis nth_mem set_rev)
  then show "fmlookup (by_key k xs) u = Some x" using x y assms by (auto dest: inj_onD)
qed

lemma range_values_by_key:
  assumes "inj_on k (set xs)"
  shows "set (range_values (by_key k xs)) = set xs"
proof -
  have "set (range_values m) = {x. \<exists>u. fmlookup m u = Some x}" for m :: "(string, 'a) fmap"
    by (force simp: range_values_def range_keys_def fmlookup_dom_iff image_iff)
  then show ?thesis using by_key_lookup [OF assms] by auto
qed

lemma foldl_state:
  assumes "\<And>c row. snd (step c row) = upd (f row) (snd c)"
  shows "snd (foldl step c rows) = foldl (\<lambda>st x. upd x st) (snd c) (map f rows)"
  using assms by (induction rows arbitrary: c) auto

lemma collect_states:
  "snd (foldl (collect_switch opts) c rows) = foldl (\<lambda>st ls. st\<lparr>nbLogicalSwitches := fmupd (ls_UUID ls) ls (nbLogicalSwitches st)\<rparr>)
     (snd c) (map logicalSwitchFromRow rows)"
  "snd (foldl (collect_lsp opts) c rows) = foldl (\<lambda>st lsp. st\<lparr>nbPorts := fmupd (lsp_UUID lsp) lsp (nbPorts st),
     nbPortsByName := fmupd (lsp_Name lsp) lsp (nbPortsByName st)\<rparr>) (snd c) (map logicalSwitchPortFromRow rows)"
  "snd (foldl (collect_dns opts) c rows) = foldl (\<lambda>st dns. st\<lparr>nbDNS := fmupd (dns_UUID dns) dns (nbDNS st)\<rparr>)
     (snd c) (map dnsFromAuditRow rows)"
  "snd (foldl (collect_portGroup opts) c rows) = foldl (\<lambda>st pg. st\<lparr>nbPortGroups := fmupd (pg_UUID pg) pg (nbPortGroups st)\<rparr>)
     (snd c) (map portGroupFromAuditRow rows)"
  "snd (foldl (collect_acl opts) c rows) = foldl (\<lambda>st acl. st\<lparr>nbACLs := fmupd (acl_UUID acl) acl (nbACLs st)\<rparr>)
     (snd c) (map aclFromAuditRow rows)"
  "snd (foldl (collect_root opts) c rows) = foldl (\<lambda>st root. st\<lparr>ovsRoots := ovsRoots st @ [root]\<rparr>)
     (snd c) (map openVSwitchFromAuditRow rows)"
  "snd (foldl (collect_bridge opts) c rows) = foldl (\<lambda>st bridge. st\<lparr>ovsBridges := fmupd (br_UUID bridge) bridge (ovsBridges st),
     ovsBridgesByName := fmupd (br_Name bridge) bridge (ovsBridgesByName st)\<rparr>) (snd c) (map ovsBridgeFromAuditRow rows)"
  "snd (foldl (collect_port opts) c rows) = foldl (\<lambda>st port. st\<lparr>ovsPorts := fmupd (vp_UUID port) port (ovsPorts st),
     ovsPortsByName := fmupd (vp_Name port) port (ovsPortsByName st)\<rparr>) (snd c) (map ovsPortFromAuditRow rows)"
  "snd (foldl (collect_interface opts) c rows) = foldl (\<lambda>st iface. st\<lparr>ovsInterfaces := fmupd (oi_UUID iface) iface (ovsInterfaces st),
     ovsIfacesByName := fmupd (oi_Name iface) iface (ovsIfacesByName st)\<rparr>) (snd c) (map ovsInterfaceFromAuditRow rows)"
  by (rule foldl_state, simp add: collect_defs Let_def split: prod.split)+

definition state_of :: "(string \<Rightarrow> row list) \<Rightarrow> (string \<Rightarrow> row list) \<Rightarrow> auditState" where
  "state_of N V =
     \<lparr>nbLogicalSwitches = by_key ls_UUID (map logicalSwitchFromRow (N tableLogicalSwitch)),
      nbPorts = by_key lsp_UUID (map logicalSwitchPortFromRow (N tableLogicalSwitchPort)),
      nbPortsByName = by_key lsp_Name (map logicalSwitchPortFromRow (N tableLogicalSwitchPort)),
      nbDNS = by_key dns_UUID (map dnsFromAuditRow (N tableDNS)),
      nbPortGroups = by_key pg_UUID (map portGroupFromAuditRow (N tablePortGroup)),
      nbACLs = by_key acl_UUID (map aclFromAuditRow (N tableACL)),
      ovsRoots = map openVSwitchFromAuditRow (V tableOpenVSwitch),
      ovsBridges = by_key br_UUID (map ovsBridgeFromAuditRow (V tableBridge)),
      ovsBridgesByName = by_key br_Name (map ovsBridgeFromAuditRow (V tableBridge)),
      ovsPorts = by_key vp_UUID (map ovsPortFromAuditRow (V tablePort)),
      ovsPortsByName = by_key vp_Name (map ovsPortFromAuditRow (V tablePort)),
      ovsInterfaces = by_key oi_UUID (map ovsInterfaceFromAuditRow (V tableInterface)),
      ovsIfacesByName = by_key oi_Name (map ovsInterfaceFromAuditRow (V tableInterface))\<rparr>"

lemma foldl_records:
  "foldl (\<lambda>st ls. st\<lparr>nbLogicalSwitches := fmupd (ls_UUID ls) ls (nbLogicalSwitches st)\<rparr>) st xs1
   = st\<lparr>nbLogicalSwitches := foldl (\<lambda>m x. fmupd (ls_UUID x) x m) (nbLogicalSwitches st) xs1\<rparr>"
  "foldl (\<lambda>st lsp. st\<lparr>nbPorts := fmupd (lsp_UUID lsp) lsp (nbPorts st), nbPortsByName := fmupd (lsp_Name lsp) lsp (nbPortsByName st)\<rparr>) st xs2
   = st\<lparr>nbPorts := foldl (\<lambda>m x. fmupd (lsp_UUID x) x m) (nbPorts st) xs2,
        nbPortsByName := foldl (\<lambda>m x. fmupd (lsp_Name x) x m) (nbPortsByName st) xs2\<rparr>"
  "foldl (\<lambda>st dns. st\<lparr>nbDNS := fmupd (dns_UUID dns) dns (nbDNS st)\<rparr>) st xs3
   = st\<lparr>nbDNS := foldl (\<lambda>m x. fmupd (dns_UUID x) x m) (nbDNS st) xs3\<rparr>"
  "foldl (\<lambda>st pg. st\<lparr>nbPortGroups := fmupd (pg_UUID pg) pg (nbPortGroups st)\<rparr>) st xs4
   = st\<lparr>nbPortGroups := foldl (\<lambda>m x. fmupd (pg_UUID x) x m) (nbPortGroups st) xs4\<rparr>"
  "foldl (\<lambda>st acl. st\<lparr>nbACLs := fmupd (acl_UUID acl) acl (nbACLs st)\<rparr>) st xs5
   = st\<lparr>nbACLs := foldl (\<lambda>m x. fmupd (acl_UUID x) x m) (nbACLs st) xs5\<rparr>"
  "foldl (\<lambda>st root. st\<lparr>ovsRoots := ovsRoots st @ [root]\<rparr>) st xs6 = st\<lparr>ovsRoots := ovsRoots st @ xs6\<rparr>"
  "foldl (\<lambda>st bridge. st\<lparr>ovsBridges := fmupd (br_UUID bridge) bridge (ovsBridges st),
      ovsBridgesByName := fmupd (br_Name bridge) bridge (ovsBridgesByName st)\<rparr>) st xs7
   = st\<lparr>ovsBridges := foldl (\<lambda>m x. fmupd (br_UUID x) x m) (ovsBridges st) xs7,
        ovsBridgesByName := foldl (\<lambda>m x. fmupd (br_Name x) x m) (ovsBridgesByName st) xs7\<rparr>"
  "foldl (\<lambda>st port. st\<lparr>ovsPorts := fmupd (vp_UUID port) port (ovsPorts st),
      ovsPortsByName := fmupd (vp_Name port) port (ovsPortsByName st)\<rparr>) st xs8
   = st\<lparr>ovsPorts := foldl (\<lambda>m x. fmupd (vp_UUID x) x m) (ovsPorts st) xs8,
        ovsPortsByName := foldl (\<lambda>m x. fmupd (vp_Name x) x m) (ovsPortsByName st) xs8\<rparr>"
  "foldl (\<lambda>st iface. st\<lparr>ovsInterfaces := fmupd (oi_UUID iface) iface (ovsInterfaces st),
      ovsIfacesByName := fmupd (oi_Name iface) iface (ovsIfacesByName st)\<rparr>) st xs9
   = st\<lparr>ovsInterfaces := foldl (\<lambda>m x. fmupd (oi_UUID x) x m) (ovsInterfaces st) xs9,
        ovsIfacesByName := foldl (\<lambda>m x. fmupd (oi_Name x) x m) (ovsIfacesByName st) xs9\<rparr>"
  by (induction xs1 arbitrary: st, simp_all)
     (induction xs2 arbitrary: st, simp_all, induction xs3 arbitrary: st, simp_all, induction xs4 arbitrary: st, simp_all,
      induction xs5 arbitrary: st, simp_all, induction xs6 arbitrary: st, simp_all, induction xs7 arbitrary: st, simp_all,
      induction xs8 arbitrary: st, simp_all, induction xs9 arbitrary: st, simp_all)

lemma collected_state: "snd (collected_from opts N V) = state_of N V"
  by (simp add: collected_from_def nb_blocks_def ovs_blocks_def collect_states foldl_records state_of_def by_key_def newAuditState_def)

section \<open>Errors\<close>

definition no_errors :: "OwnershipAuditFinding list \<Rightarrow> bool" where
  "no_errors fs \<longleftrightarrow> (\<forall>f\<in>set fs. af_Severity f \<noteq> DoctorError)"

lemma no_errors_simps [simp]:
  "no_errors []" "no_errors (f # fs) \<longleftrightarrow> af_Severity f \<noteq> DoctorError \<and> no_errors fs"
  "no_errors (fs @ gs) \<longleftrightarrow> no_errors fs \<and> no_errors gs"
  by (auto simp: no_errors_def)

lemma no_errors_concat: "no_errors (concat (map g xs)) \<longleftrightarrow> (\<forall>x\<in>set xs. no_errors (g x))"
  by (auto simp: no_errors_def)

lemma finding_severity [simp]: "af_Severity (finding severity code database tab object message details) = severity"
  by (simp add: finding_def)

lemma severities [simp]: "DoctorWarning \<noteq> DoctorError"
  by (simp add: DoctorWarning_def DoctorError_def)

lemma no_errors_map: "(\<And>x. af_Severity (g x) = severity) \<Longrightarrow> no_errors (map g xs) \<longleftrightarrow> severity \<noteq> DoctorError \<or> xs = []"
  by (cases xs) (auto simp: no_errors_def)

lemma no_errors_missing:
  "(\<And>u. af_Severity (report u) = DoctorError) \<Longrightarrow> no_errors (missing_refs (by_key k xs) report refs) \<longleftrightarrow> set refs \<subseteq> k ` set xs"
  by (auto simp: missing_refs_def no_errors_map filter_empty_conv by_key_dom simp del: not_None_eq)

lemma finalize_errors: "as_Errors (rp_Summary (finalize r)) = 0 \<longleftrightarrow> no_errors (rp_Findings r)"
  by (auto simp: finalize_def Let_def count_severity_def no_errors_def filter_empty_conv)

text \<open>Collecting reports warnings only.\<close>

lemma addOwnedResource_errors: "no_errors (rp_Findings (addOwnedResource database tab uuid name ids opts r)) \<longleftrightarrow> no_errors (rp_Findings r)"
  by (auto simp: addOwnedResource_def add_findings_def checkOwnershipMarker_def invalid_label_findings_def no_errors_map Let_def)

lemma foldl_errors:
  assumes "\<And>c row. no_errors (rp_Findings (fst (step c row))) \<longleftrightarrow> no_errors (rp_Findings (fst c))"
  shows "no_errors (rp_Findings (fst (foldl step c rows))) \<longleftrightarrow> no_errors (rp_Findings (fst c))"
  using assms by (induction rows arbitrary: c) auto

lemma collected_errors: "no_errors (rp_Findings (fst (collected_from opts N V)))"
proof -
  have step: "no_errors (rp_Findings (fst (foldl step c rows))) \<longleftrightarrow> no_errors (rp_Findings (fst c))"
    if "step \<in> set (map snd (nb_blocks opts @ ovs_blocks opts))" for step c rows
    by (rule foldl_errors, insert that) (auto simp: nb_blocks_def ovs_blocks_def collect_defs Let_def addOwnedResource_errors split: prod.split)
  have block: "no_errors (rp_Findings (fst (foldl (snd b) c rows))) \<longleftrightarrow> no_errors (rp_Findings (fst c))"
    if "b \<in> set (nb_blocks opts) \<union> set (ovs_blocks opts)" for b c rows
    by (rule step) (use that in auto)
  have "no_errors (rp_Findings (fst (foldl (\<lambda>c b. foldl (snd b) c (R (fst b))) c bs))) \<longleftrightarrow> no_errors (rp_Findings (fst c))"
    if "set bs \<subseteq> set (nb_blocks opts) \<union> set (ovs_blocks opts)" for bs R c
    using that by (induction bs arbitrary: c) (auto simp: block)
  then show ?thesis by (simp add: collected_from_def empty_report_def)
qed

section \<open>Integrity\<close>

definition unique_uuids :: "(string \<Rightarrow> row list) \<Rightarrow> bool" where
  "unique_uuids R \<longleftrightarrow> (\<forall>t. distinct (map (\<lambda>row. anyString (row_get row colUUID)) (R t)))"

definition localnet_intact :: "string_map \<Rightarrow> string_map \<Rightarrow> string set \<Rightarrow> LogicalSwitchPort \<Rightarrow> bool" where
  "localnet_intact mappings markers bridges port \<longleftrightarrow>
     (let physical = localnet_physical port; bridge = go_get mappings physical;
          expected = go_get (lsp_ExternalIDs port) (ExternalIDPrefix @ ''bridge'');
          marker = go_get markers (providerNetworkMappingOwnerKey physical) in
      physical \<noteq> [] \<and> bridge \<noteq> [] \<and> bridge \<in> bridges \<and> (expected = [] \<or> expected = bridge)
      \<and> (marker = [] \<or> marker = go_get (lsp_ExternalIDs port) ExternalIDNameKey))"

definition interface_intact :: "OVSInterface list \<Rightarrow> string \<Rightarrow> string \<Rightarrow> bool" where
  "interface_intact ifaces name u \<longleftrightarrow>
     (\<exists>iface\<in>set ifaces. oi_UUID iface = u \<and> go_get (oi_ExternalIDs iface) ''iface-id'' \<in> {[], name})"

text \<open>
  The references of the rows within the filter: the ports of logical switches, the provider
  networks of localnet ports, the local ports, interfaces and networks of workloads, the ACLs of
  security policies, the bridges, ports and interfaces of Open vSwitch.
\<close>

definition nb_intact :: "OwnershipAuditOptions \<Rightarrow> LogicalSwitch list \<Rightarrow> LogicalSwitchPort list \<Rightarrow> bool" where
  "nb_intact opts switches ports \<longleftrightarrow>
     (\<forall>ls\<in>set switches. auditExternalIDsInScope (ls_ExternalIDs ls) (ls_Name ls) opts \<longrightarrow> set (ls_Ports ls) \<subseteq> lsp_UUID ` set ports)"

definition provider_intact :: "OwnershipAuditOptions \<Rightarrow> LogicalSwitchPort list \<Rightarrow> OpenVSwitch list \<Rightarrow> OVSBridge list \<Rightarrow> bool" where
  "provider_intact opts ports roots bridges \<longleftrightarrow>
     (case foldl read_root (fmempty, fmempty, []) roots of (mappings, markers, _) \<Rightarrow>
      \<forall>port\<in>set ports. localnet_in_scope opts port \<longrightarrow> localnet_intact mappings markers (br_Name ` set bridges) port)"

definition workload_intact :: "OwnershipAuditOptions \<Rightarrow> LogicalSwitch list \<Rightarrow> LogicalSwitchPort list \<Rightarrow> OVSPort list \<Rightarrow> OVSInterface list \<Rightarrow> bool" where
  "workload_intact opts switches ports vports ifaces \<longleftrightarrow>
     (\<forall>lsp\<in>set ports. marked_workload (lsp_ExternalIDs lsp) (lsp_Name lsp) opts \<longrightarrow>
        (let name = go_get (lsp_ExternalIDs lsp) ExternalIDNameKey in
         (workload_network lsp = [] \<or> workload_network lsp \<in> ls_Name ` set switches)
         \<and> (\<forall>port\<in>set vports. ovsResourceOwnedBy (vp_ExternalIDs port) ''WorkloadAttachment'' name
              \<longrightarrow> (\<forall>u\<in>set (vp_Interfaces port). interface_intact ifaces name u))))"

definition policy_intact :: "OwnershipAuditOptions \<Rightarrow> PortGroup list \<Rightarrow> ACL list \<Rightarrow> bool" where
  "policy_intact opts groups acls \<longleftrightarrow> (\<forall>pg\<in>set groups. policy_in_scope opts pg \<longrightarrow> set (pg_ACLs pg) \<subseteq> acl_UUID ` set acls)"

definition ovs_intact :: "OwnershipAuditOptions \<Rightarrow> OpenVSwitch list \<Rightarrow> OVSBridge list \<Rightarrow> OVSPort list \<Rightarrow> OVSInterface list \<Rightarrow> bool" where
  "ovs_intact opts roots bridges vports ifaces \<longleftrightarrow>
     (\<forall>root\<in>set roots. auditExternalIDsInScope (vs_ExternalIDs root) [] opts \<longrightarrow> set (vs_Bridges root) \<subseteq> br_UUID ` set bridges)
   \<and> (\<forall>bridge\<in>set bridges. auditExternalIDsInScope (br_ExternalIDs bridge) (br_Name bridge) opts \<longrightarrow> set (br_Ports bridge) \<subseteq> vp_UUID ` set vports)
   \<and> (\<forall>port\<in>set vports. auditExternalIDsInScope (vp_ExternalIDs port) (vp_Name port) opts \<longrightarrow> set (vp_Interfaces port) \<subseteq> oi_UUID ` set ifaces)"

definition references_intact :: "OwnershipAuditOptions \<Rightarrow> (string \<Rightarrow> row list) \<Rightarrow> (string \<Rightarrow> row list) \<Rightarrow> bool" where
  "references_intact opts N V \<longleftrightarrow>
     (let switches = map logicalSwitchFromRow (N tableLogicalSwitch); ports = map logicalSwitchPortFromRow (N tableLogicalSwitchPort);
          roots = map openVSwitchFromAuditRow (V tableOpenVSwitch); bridges = map ovsBridgeFromAuditRow (V tableBridge);
          vports = map ovsPortFromAuditRow (V tablePort); ifaces = map ovsInterfaceFromAuditRow (V tableInterface) in
      nb_intact opts switches ports \<and> provider_intact opts ports roots bridges \<and> workload_intact opts switches ports vports ifaces
      \<and> policy_intact opts (map portGroupFromAuditRow (N tablePortGroup)) (map aclFromAuditRow (N tableACL))
      \<and> ovs_intact opts roots bridges vports ifaces)"

text \<open>No two ports within the filter carry the mark of the same workload.\<close>

definition unique_workloads :: "OwnershipAuditOptions \<Rightarrow> LogicalSwitchPort list \<Rightarrow> bool" where
  "unique_workloads opts ports \<longleftrightarrow>
     inj_on (\<lambda>lsp. go_get (lsp_ExternalIDs lsp) ExternalIDNameKey) {lsp \<in> set ports. marked_workload (lsp_ExternalIDs lsp) (lsp_Name lsp) opts}"

lemma unique_inj:
  "unique_uuids R \<Longrightarrow> (\<And>row. k (f row) = anyString (row_get row colUUID)) \<Longrightarrow> inj_on k (set (map f (R t)))"
  by (auto simp: unique_uuids_def distinct_map inj_on_def)

lemma unique_injs:
  assumes "unique_uuids R"
  shows "inj_on ls_UUID (set (map logicalSwitchFromRow (R t)))" "inj_on lsp_UUID (set (map logicalSwitchPortFromRow (R t)))"
    "inj_on pg_UUID (set (map portGroupFromAuditRow (R t)))" "inj_on acl_UUID (set (map aclFromAuditRow (R t)))"
    "inj_on br_UUID (set (map ovsBridgeFromAuditRow (R t)))" "inj_on vp_UUID (set (map ovsPortFromAuditRow (R t)))"
    "inj_on oi_UUID (set (map ovsInterfaceFromAuditRow (R t)))"
  by (rule unique_inj [OF assms], simp add: logicalSwitchFromRow_def logicalSwitchPortFromRow_def portGroupFromAuditRow_def aclFromAuditRow_def
      ovsBridgeFromAuditRow_def ovsPortFromAuditRow_def ovsInterfaceFromAuditRow_def)+

section \<open>Each check\<close>

lemma not_missing: "fmlookup (by_key k xs) u \<noteq> None \<longleftrightarrow> u \<in> k ` set xs"
  by (simp add: by_key_dom)

lemma checkNorthboundReferences_errors:
  assumes "nbLogicalSwitches st = by_key ls_UUID switches" "nbPorts st = by_key lsp_UUID ports" "inj_on ls_UUID (set switches)"
  shows "no_errors (checkNorthboundReferences st opts) \<longleftrightarrow> nb_intact opts switches ports"
  by (auto simp: checkNorthboundReferences_def no_errors_concat assms(1,2) range_values_by_key [OF assms(3)] no_errors_missing
      nb_intact_def)

lemma read_root_errors: "no_errors fs \<Longrightarrow> no_errors (snd (snd (foldl read_root (mappings, markers, fs) roots)))"
  by (induction roots arbitrary: mappings markers fs) (auto simp: read_root_def split: sum.splits)

lemma localnet_findings_errors:
  assumes "ovsBridgesByName st = by_key br_Name bridges"
  shows "no_errors (localnet_findings mappings markers st port) \<longleftrightarrow> localnet_intact mappings markers (br_Name ` set bridges) port"
  by (auto simp: localnet_findings_def localnet_mapping_findings_def localnet_marker_findings_def localnet_intact_def Let_def assms by_key_dom)

lemma checkProviderNetworks_errors:
  assumes "nbPorts st = by_key lsp_UUID ports" "ovsBridgesByName st = by_key br_Name bridges" "inj_on lsp_UUID (set ports)"
  shows "no_errors (checkProviderNetworks st opts) \<longleftrightarrow> provider_intact opts ports (ovsRoots st) bridges"
proof -
  obtain mappings markers fs where read: "foldl read_root (fmempty, fmempty, []) (ovsRoots st) = (mappings, markers, fs)" by (metis surj_pair)
  have "no_errors fs" using read_root_errors [of "[]" fmempty fmempty "ovsRoots st"] read by simp
  then show ?thesis
    by (auto simp: checkProviderNetworks_def provider_intact_def read Let_def no_errors_concat marker_findings_def no_errors_map
        localnet_findings_errors [OF assms(2)] assms(1) range_values_by_key [OF assms(3)])
qed

lemma workload_interface_errors:
  assumes "ovsInterfaces st = by_key oi_UUID ifaces" "inj_on oi_UUID (set ifaces)"
  shows "no_errors (workload_interface_findings st name port u) \<longleftrightarrow> interface_intact ifaces name u"
proof (cases "fmlookup (ovsInterfaces st) u")
  case None
  then have "u \<notin> oi_UUID ` set ifaces" unfolding assms(1) by_key_dom .
  then show ?thesis using None by (auto simp: workload_interface_findings_def interface_intact_def)
next
  case (Some iface)
  then have "iface \<in> set ifaces \<and> oi_UUID iface = u" unfolding assms(1) by_key_lookup [OF assms(2)] .
  then have "interface_intact ifaces name u \<longleftrightarrow> go_get (oi_ExternalIDs iface) ''iface-id'' \<in> {[], name}"
    using assms(2) by (auto simp: interface_intact_def dest: inj_onD)
  then show ?thesis using Some by (auto simp: workload_interface_findings_def Let_def)
qed

lemma no_errors_if: "no_errors (if b then fs else []) \<longleftrightarrow> \<not> b \<or> no_errors fs"
  by simp

lemma workload_findings_errors:
  assumes "nbLogicalSwitches st = by_key ls_UUID switches" "ovsPorts st = by_key vp_UUID vports" "ovsInterfaces st = by_key oi_UUID ifaces"
    and "inj_on ls_UUID (set switches)" "inj_on vp_UUID (set vports)" "inj_on oi_UUID (set ifaces)"
  shows "no_errors (workload_findings st name lsp) \<longleftrightarrow>
    (workload_network lsp = [] \<or> workload_network lsp \<in> ls_Name ` set switches)
    \<and> (\<forall>port\<in>set vports. ovsResourceOwnedBy (vp_ExternalIDs port) ''WorkloadAttachment'' name
         \<longrightarrow> (\<forall>u\<in>set (vp_Interfaces port). interface_intact ifaces name u))"
  unfolding workload_findings_def no_errors_simps no_errors_if no_errors_concat workload_interface_errors [OF assms(3,6)]
  by (auto simp: workload_local_ports_def assms(1,2) range_values_by_key [OF assms(4)] range_values_by_key [OF assms(5)] list_ex_iff eq_commute [of "ls_Name _"])

lemma ownedNB_by_key:
  "ownedNB st opts = by_key (\<lambda>lsp. go_get (lsp_ExternalIDs lsp) ExternalIDNameKey)
     (filter (\<lambda>port. marked_workload (lsp_ExternalIDs port) (lsp_Name port) opts) (range_values (nbPorts st)))"
  by (simp add: ownedNB_def by_key_def)

lemma checkWorkload_errors:
  assumes "nbLogicalSwitches st = by_key ls_UUID switches" "nbPorts st = by_key lsp_UUID ports" "ovsPorts st = by_key vp_UUID vports"
    "ovsInterfaces st = by_key oi_UUID ifaces"
    and "inj_on ls_UUID (set switches)" "inj_on lsp_UUID (set ports)" "inj_on vp_UUID (set vports)" "inj_on oi_UUID (set ifaces)"
    and unique: "unique_workloads opts ports"
  shows "no_errors (checkWorkloadAttachments st opts) \<longleftrightarrow> workload_intact opts switches ports vports ifaces"
proof -
  let ?k = "\<lambda>lsp. go_get (lsp_ExternalIDs lsp) ExternalIDNameKey"
  let ?marked = "\<lambda>port. marked_workload (lsp_ExternalIDs port) (lsp_Name port) opts"
  have sets: "set (filter ?marked (range_values (nbPorts st))) = {lsp \<in> set ports. ?marked lsp}"
    by (auto simp: assms(2) range_values_by_key [OF assms(6)])
  have look: "fmlookup (ownedNB st opts) name = Some lsp \<longleftrightarrow> lsp \<in> set ports \<and> ?marked lsp \<and> ?k lsp = name" for name lsp
    unfolding ownedNB_by_key using by_key_lookup [of ?k "filter ?marked (range_values (nbPorts st))"] unique
    by (simp only: sets unique_workloads_def) auto
  have "no_errors (checkWorkloadAttachments st opts)
      \<longleftrightarrow> (\<forall>name lsp. fmlookup (ownedNB st opts) name = Some lsp \<longrightarrow> no_errors (workload_findings st name lsp))"
    by (auto simp: checkWorkloadAttachments_def no_errors_concat orphan_port_findings_def orphan_interface_findings_def no_errors_map
        range_keys_def fmlookup_dom_iff) (metis fmdomI option.sel)
  also have "\<dots> \<longleftrightarrow> (\<forall>lsp\<in>set ports. ?marked lsp \<longrightarrow> no_errors (workload_findings st (?k lsp) lsp))"
    unfolding look by blast
  also have "\<dots> \<longleftrightarrow> workload_intact opts switches ports vports ifaces"
    unfolding workload_findings_errors [OF assms(1,3,4,5,7,8)] workload_intact_def Let_def ..
  finally show ?thesis .
qed

lemma checkSecurityPolicies_errors:
  assumes "nbPortGroups st = by_key pg_UUID groups" "nbACLs st = by_key acl_UUID acls" "inj_on pg_UUID (set groups)"
  shows "no_errors (checkSecurityPolicies st opts) \<longleftrightarrow> policy_intact opts groups acls"
proof -
  have "no_errors (policy_acl_findings st pg u) \<longleftrightarrow> u \<in> acl_UUID ` set acls" for pg u
    using not_missing [of acl_UUID acls u] by (auto simp: policy_acl_findings_def assms(2) split: option.split)
  then show ?thesis
    by (auto simp: checkSecurityPolicies_def Let_def no_errors_concat no_errors_map assms(1) range_values_by_key [OF assms(3)] policy_intact_def)
qed

lemma checkOVSReferences_errors:
  assumes "ovsBridges st = by_key br_UUID bridges" "ovsPorts st = by_key vp_UUID vports" "ovsInterfaces st = by_key oi_UUID ifaces"
    "inj_on br_UUID (set bridges)" "inj_on vp_UUID (set vports)"
  shows "no_errors (checkOVSReferences st opts) \<longleftrightarrow> ovs_intact opts (ovsRoots st) bridges vports ifaces"
  by (auto simp: checkOVSReferences_def no_errors_concat no_errors_missing assms(1-3) range_values_by_key [OF assms(4)]
      range_values_by_key [OF assms(5)] ovs_intact_def)


definition group_audit :: OwnershipAuditOptions where
  "group_audit = \<lparr>ao_Owner = no_owner, ao_Kinds = [], ao_Names = []\<rparr>"


end
