(* ===== verification/Nb_Client.thy ===== *)
theory Nb_Client
  imports Intent_Marks
begin

text \<open>
  The Northbound client (\<^verbatim>\<open>src/nb_northbound_helpers.go\<close>): selections and the execution of builders that
  keep to the columns the server has, and the rows of port groups and ACLs. The client's database
  connection is \<open>d\<close>; where the code tests it against nil, it is an option.
\<close>

section \<open>Keeping to the schema\<close>

definition supportedColumns :: "'w dbClient \<Rightarrow> string \<Rightarrow> string list \<Rightarrow> string list" where
  "supportedColumns d tab columns =
     (if columns = [] then Columns (db_schema d) tab else filter (HasColumn (db_schema d) tab) columns)"

definition supportedRow :: "'w dbClient \<Rightarrow> string \<Rightarrow> row \<Rightarrow> row" where
  "supportedRow d tab row = fmfilter (HasColumn (db_schema d) tab) row"

definition supportedMutations :: "'w dbClient \<Rightarrow> string \<Rightarrow> Mutation list \<Rightarrow> Mutation list" where
  "supportedMutations d tab mutations = filter (\<lambda>m. HasColumn (db_schema d) tab (mut_Column m)) mutations"

definition supportedPreOps :: "'w dbClient \<Rightarrow> Operation list \<Rightarrow> Operation list" where
  "supportedPreOps d ops =
     map (\<lambda>p. p\<lparr>op_Row := supportedRow d (op_Table p) (op_Row p), op_Mutations := supportedMutations d (op_Table p) (op_Mutations p)\<rparr>)
       (filter (\<lambda>p. \<not> (op_Table p \<noteq> [] \<and> \<not> HasTable (db_schema d) (op_Table p))) ops)"

section \<open>Selections\<close>

definition nb_selectRows :: "'w dbClient \<Rightarrow> 'w \<Rightarrow> string \<Rightarrow> Condition list \<Rightarrow> string list \<Rightarrow> string \<Rightarrow> row list res \<times> 'w" where
  "nb_selectRows d w tab conditions columns object =
     io_guard (RequireTable (db_schema d) tab) w (\<lambda>w.
       io_guard (RequireConditionColumns (db_schema d) tab conditions) w (\<lambda>w.
         io_bind (transact d w tab ''select'' object
           [(op_of ''select'' tab)\<lparr>op_Where := conditions, op_Columns := supportedColumns d tab columns\<rparr>])
         (\<lambda>results w. (Inr (case results of [] \<Rightarrow> [] | r # _ \<Rightarrow> res_Rows r), w))))"

definition selectFirstUUID :: "'w dbClient \<Rightarrow> 'w \<Rightarrow> string \<Rightarrow> Condition list \<Rightarrow> string \<Rightarrow> string option res \<times> 'w" where
  "selectFirstUUID d w tab conditions object =
     io_bind (nb_selectRows d w tab conditions [colUUID] object) (\<lambda>rows w.
       case rows of
         [] \<Rightarrow> (Inr None, w)
       | row # _ \<Rightarrow>
           (if rowUUIDValue row = [] then Inl (wrap_err ErrorConflict dbOVNNorthbound tab ''select'' object ''row UUID missing'' None)
            else Inr (Some (rowUUIDValue row)), w))"

definition nb_affected :: "Result list \<Rightarrow> int list \<Rightarrow> string \<Rightarrow> string \<Rightarrow> string \<Rightarrow> check" where
  "nb_affected results idx tab oper object = ensureAffected (map OperationResult.truncate results) idx dbOVNNorthbound tab oper object"

text \<open>A transaction whose result is only checked for the rows that must be affected.\<close>

definition nb_commit :: "'w dbClient \<Rightarrow> 'w \<Rightarrow> string \<Rightarrow> string \<Rightarrow> string \<Rightarrow> Operation list \<Rightarrow> int list \<Rightarrow> check \<times> 'w" where
  "nb_commit d w tab oper object ops idx =
     (case transact d w tab oper object ops of
        (Inl e, w) \<Rightarrow> (Some e, w)
      | (Inr results, w) \<Rightarrow> (nb_affected results idx tab oper object, w))"

section \<open>Executing a builder\<close>

datatype nbMode = nbModeCreate | nbModeEnsure | nbModeDelete

fun nb_mode_string :: "nbMode \<Rightarrow> string" where
  "nb_mode_string nbModeCreate = ''create''"
| "nb_mode_string nbModeEnsure = ''ensure''"
| "nb_mode_string nbModeDelete = ''delete''"

type_synonym post_ops = "(string \<Rightarrow> Operation list) option"

definition run_post_ops :: "'w dbClient \<Rightarrow> post_ops \<Rightarrow> string \<Rightarrow> Operation list" where
  "run_post_ops d postOps uuid = (case postOps of None \<Rightarrow> [] | Some f \<Rightarrow> supportedPreOps d (f uuid))"

definition postOpsForUUID :: "post_ops \<Rightarrow> string \<Rightarrow> post_ops" where
  "postOpsForUUID postOps uuid = map_option (\<lambda>f _. f uuid) postOps"

definition nbPostMustAffectIndexes :: "nat \<Rightarrow> Operation list \<Rightarrow> int list" where
  "nbPostMustAffectIndexes start ops =
     map int (filter (\<lambda>i. op_Op (ops ! i) \<in> {''update'', ''mutate'', ''delete''}) [start..<length ops])"

definition unreferenceOps :: "ovsdb_lib \<Rightarrow> 'w dbClient \<Rightarrow> 'w \<Rightarrow> string \<Rightarrow> string \<Rightarrow> Operation list res \<times> 'w" where
  "unreferenceOps lib d w targetTable targetUUID =
     (if targetUUID = [] \<or> db_schema d = None then (Inr [], w)
      else referenceCleanupOps lib d w targetTable targetUUID dbOVNNorthbound)"

definition executeInsertWithPrePostOps :: "'w dbClient \<Rightarrow> 'w \<Rightarrow> string \<Rightarrow> string \<Rightarrow> string \<Rightarrow> row \<Rightarrow> Operation list \<Rightarrow> post_ops \<Rightarrow> check \<times> 'w" where
  "executeInsertWithPrePostOps d w tab object oper row preOps postOps =
     (if row = fmempty then (Some (wrap_err ErrorValidation dbOVNNorthbound tab oper object ''insert row is empty'' None), w)
      else case namedUUID d w (tableUUIDPrefix tab) of (targetUUID, w) \<Rightarrow>
        let ops = preOps @ [(op_of ''insert'' tab)\<lparr>op_UUIDName := targetUUID, op_Row := row\<rparr>] @ run_post_ops d postOps targetUUID in
        nb_commit d w tab oper object ops (nbPostMustAffectIndexes (length preOps + 1) ops))"

definition update_row :: "row \<Rightarrow> Mutation list \<Rightarrow> row" where
  "update_row row mutations = fmfilter (\<lambda>c. c \<notin> {colUUID, colName} \<and> c \<notin> set (map mut_Column mutations)) row"

definition executeUpdateWithPrePostOps :: "'w dbClient \<Rightarrow> 'w \<Rightarrow> string \<Rightarrow> string \<Rightarrow> string \<Rightarrow> Condition list \<Rightarrow> row \<Rightarrow> Mutation list
    \<Rightarrow> Operation list \<Rightarrow> post_ops \<Rightarrow> check \<times> 'w" where
  "executeUpdateWithPrePostOps d w tab object oper conditions row mutations preOps postOps =
     (let updateRow = update_row row mutations;
          ops = preOps
              @ (if updateRow \<noteq> fmempty then [(op_of ''update'' tab)\<lparr>op_Where := conditions, op_Row := updateRow\<rparr>] else [])
              @ (if mutations \<noteq> [] then [(op_of ''mutate'' tab)\<lparr>op_Where := conditions, op_Mutations := mutations\<rparr>] else [])
              @ run_post_ops d postOps [] in
      if ops = [] then (None, w) else nb_commit d w tab oper object ops (map int [length preOps..<length ops]))"

text \<open>Deletion: for every row the operations that drop the references to it, then the row.\<close>

fun nb_delete_rows :: "ovsdb_lib \<Rightarrow> 'w dbClient \<Rightarrow> string \<Rightarrow> string \<Rightarrow> 'w \<Rightarrow> Operation list \<Rightarrow> int list \<Rightarrow> row list
    \<Rightarrow> (Operation list \<times> int list) res \<times> 'w" where
  "nb_delete_rows lib d tab object w ops idx [] = (Inr (ops, idx), w)"
| "nb_delete_rows lib d tab object w ops idx (row # rows) =
     (if rowUUIDValue row = [] then (Inl (wrap_err ErrorConflict dbOVNNorthbound tab ''delete'' object ''row UUID missing'' None), w)
      else io_bind (unreferenceOps lib d w tab (rowUUIDValue row)) (\<lambda>refOps w.
        let ops = ops @ refOps @ [delete_op tab (rowUUIDValue row)] in
        nb_delete_rows lib d tab object w ops (idx @ [int (length ops) - 1]) rows))"

definition execute_delete :: "ovsdb_lib \<Rightarrow> 'w dbClient \<Rightarrow> 'w \<Rightarrow> string \<Rightarrow> string \<Rightarrow> Condition list \<Rightarrow> check \<times> 'w" where
  "execute_delete lib d w tab object conditions =
     (case io_bind (nb_selectRows d w tab conditions [colUUID] object) (\<lambda>rows w.
        if rows = [] then (Inl (wrap_err ErrorNotFound dbOVNNorthbound tab ''delete'' object ''row not found'' None), w)
        else nb_delete_rows lib d tab object w [] [] rows) of
        (Inl e, w) \<Rightarrow> (Some e, w)
      | (Inr (ops, idx), w) \<Rightarrow> nb_commit d w tab ''delete'' object ops idx)"

text \<open>
  Ensuring a row: update it when it is there, otherwise insert it; when another client inserted it
  in between, update it after all.
\<close>

definition execute_ensure :: "'w dbClient \<Rightarrow> 'w \<Rightarrow> string \<Rightarrow> string \<Rightarrow> Condition list \<Rightarrow> row \<Rightarrow> Mutation list \<Rightarrow> Operation list \<Rightarrow> post_ops
    \<Rightarrow> check \<times> 'w" where
  "execute_ensure d w tab object conditions row mutations preOps postOps =
     (let update = (\<lambda>uuid w. executeUpdateWithPrePostOps d w tab object ''ensure'' conditions row mutations preOps (postOpsForUUID postOps uuid)) in
      case nb_selectRows d w tab conditions [colUUID] object of
        (Inl e, w) \<Rightarrow> (Some e, w)
      | (Inr (r # rows), w) \<Rightarrow> update (rowUUIDValue r) w
      | (Inr [], w) \<Rightarrow>
          (case executeInsertWithPrePostOps d w tab object ''ensure'' row preOps postOps of
             (None, w) \<Rightarrow> (None, w)
           | (Some e, w) \<Rightarrow>
               if \<not> IsKind (Some e) ErrorAlreadyExists then (Some e, w)
               else (case nb_selectRows d w tab conditions [colUUID] object of
                   (Inl e, w) \<Rightarrow> (Some e, w)
                 | (Inr rows, w) \<Rightarrow> update (case rows of [] \<Rightarrow> [] | r # _ \<Rightarrow> rowUUIDValue r) w)))"

definition executeByConditionsWithPrePostOps :: "ovsdb_lib \<Rightarrow> 'w dbClient \<Rightarrow> 'w \<Rightarrow> string \<Rightarrow> string \<Rightarrow> nbMode \<Rightarrow> Condition list \<Rightarrow> row
    \<Rightarrow> Mutation list \<Rightarrow> Operation list \<Rightarrow> post_ops \<Rightarrow> check \<times> 'w" where
  "executeByConditionsWithPrePostOps lib d w tab object mode conditions row0 mutations0 preOps0 postOps =
     (case then_check (RequireTable (db_schema d) tab) (RequireConditionColumns (db_schema d) tab conditions) of
        Some e \<Rightarrow> (Some e, w)
      | None \<Rightarrow>
          let row = supportedRow d tab row0; mutations = supportedMutations d tab mutations0; preOps = supportedPreOps d preOps0 in
          (case mode of
             nbModeCreate \<Rightarrow> executeInsertWithPrePostOps d w tab object ''create'' row preOps postOps
           | nbModeEnsure \<Rightarrow> execute_ensure d w tab object conditions row mutations preOps postOps
           | nbModeDelete \<Rightarrow> execute_delete lib d w tab object conditions))"

definition executeByConditionsWithPreOps :: "ovsdb_lib \<Rightarrow> 'w dbClient \<Rightarrow> 'w \<Rightarrow> string \<Rightarrow> string \<Rightarrow> nbMode \<Rightarrow> Condition list \<Rightarrow> row
    \<Rightarrow> Mutation list \<Rightarrow> Operation list \<Rightarrow> check \<times> 'w" where
  "executeByConditionsWithPreOps lib d w tab object mode conditions row mutations preOps =
     executeByConditionsWithPrePostOps lib d w tab object mode conditions row mutations preOps None"

definition executeByConditions :: "ovsdb_lib \<Rightarrow> 'w dbClient \<Rightarrow> 'w \<Rightarrow> string \<Rightarrow> string \<Rightarrow> nbMode \<Rightarrow> Condition list \<Rightarrow> row
    \<Rightarrow> Mutation list \<Rightarrow> check \<times> 'w" where
  "executeByConditions lib d w tab object mode conditions row mutations =
     executeByConditionsWithPreOps lib d w tab object mode conditions row mutations []"

definition executeNamed :: "ovsdb_lib \<Rightarrow> 'w dbClient \<Rightarrow> 'w \<Rightarrow> string \<Rightarrow> string \<Rightarrow> nbMode \<Rightarrow> row \<Rightarrow> Mutation list \<Rightarrow> check \<times> 'w" where
  "executeNamed lib d w tab name mode row mutations = executeByConditions lib d w tab name mode (conditionName name) row mutations"

definition executeNamedWithPreOps :: "ovsdb_lib \<Rightarrow> 'w dbClient \<Rightarrow> 'w \<Rightarrow> string \<Rightarrow> string \<Rightarrow> nbMode \<Rightarrow> row \<Rightarrow> Mutation list \<Rightarrow> Operation list
    \<Rightarrow> check \<times> 'w" where
  "executeNamedWithPreOps lib d w tab name mode row mutations preOps =
     executeByConditionsWithPreOps lib d w tab name mode (conditionName name) row mutations preOps"

definition executeNamedWithPrePostOps :: "ovsdb_lib \<Rightarrow> 'w dbClient \<Rightarrow> 'w \<Rightarrow> string \<Rightarrow> string \<Rightarrow> nbMode \<Rightarrow> row \<Rightarrow> Mutation list \<Rightarrow> Operation list
    \<Rightarrow> post_ops \<Rightarrow> check \<times> 'w" where
  "executeNamedWithPrePostOps lib d w tab name mode row mutations preOps postOps =
     executeByConditionsWithPrePostOps lib d w tab name mode (conditionName name) row mutations preOps postOps"

section \<open>Columns of rows and mutations\<close>

definition setRowMap :: "ovsdb_lib \<Rightarrow> row \<Rightarrow> string \<Rightarrow> string_map \<Rightarrow> row" where
  "setRowMap lib row column values = (if values = fmempty then row else fmupd column (ovsMap lib values) row)"

definition stringSet :: "ovsdb_lib \<Rightarrow> string list \<Rightarrow> any" where
  "stringSet lib values = ovsSet lib (map AString values)"

definition nbSetUUIDSet :: "row \<Rightarrow> string \<Rightarrow> string list \<Rightarrow> row" where
  "nbSetUUIDSet row column values = (if values \<noteq> [] then fmupd column (uuidSet values) row else row)"

definition nbSetStringSet :: "ovsdb_lib \<Rightarrow> row \<Rightarrow> string \<Rightarrow> string list \<Rightarrow> row" where
  "nbSetStringSet lib row column values = (if values \<noteq> [] then fmupd column (stringSet lib values) row else row)"

definition nbSetOptionalUUID :: "row \<Rightarrow> string \<Rightarrow> string \<Rightarrow> row" where
  "nbSetOptionalUUID row column v = (if v \<noteq> [] then fmupd column (AUUID v) row else row)"

definition nbSetOptionalString :: "row \<Rightarrow> string \<Rightarrow> string \<Rightarrow> row" where
  "nbSetOptionalString row column v = (if v \<noteq> [] then fmupd column (AString v) row else row)"

definition nbAppendUUIDSetMutation :: "Mutation list \<Rightarrow> string \<Rightarrow> string list \<Rightarrow> Mutation list" where
  "nbAppendUUIDSetMutation mutations column values =
     (if values \<noteq> [] then mutations @ [NewMutation column MutateInsert (uuidSet values)] else mutations)"

definition nbAppendStringSetMutation :: "ovsdb_lib \<Rightarrow> Mutation list \<Rightarrow> string \<Rightarrow> string list \<Rightarrow> Mutation list" where
  "nbAppendStringSetMutation lib mutations column values =
     (if values \<noteq> [] then mutations @ [NewMutation column MutateInsert (stringSet lib values)] else mutations)"

definition nbAppendMapMutation :: "ovsdb_lib \<Rightarrow> Mutation list \<Rightarrow> string \<Rightarrow> string_map \<Rightarrow> Mutation list" where
  "nbAppendMapMutation lib mutations column values =
     (if values \<noteq> fmempty then mutations @ [NewMutation column MutateInsert (ovsMap lib values)] else mutations)"

definition nbExternalIDCondition :: "ovsdb_lib \<Rightarrow> string \<Rightarrow> string \<Rightarrow> Condition list" where
  "nbExternalIDCondition lib key v = [NewCondition colExternalIDs ConditionIncludes (ovsMap lib (fmupd key v fmempty))]"

definition nbValidateStringMaps :: "string_map list \<Rightarrow> check" where
  "nbValidateStringMaps values = check_all (\<lambda>item. check_all validateExternalID (range_keys item)) values"

section \<open>Rows of port groups, ACLs and DNS\<close>

text \<open>
  \<open>nbIntValue\<close>; values of type \<open>json.Number\<close> do not occur among the dynamic values of the
  model. Of a set the first element is read.
\<close>

fun nbIntValue :: "any \<Rightarrow> int option" where
  "nbIntValue (AInt i) = Some i"
| "nbIntValue (AFloat i s) = Some i"
| "nbIntValue (AString s) = strconv_Atoi s"
| "nbIntValue (ASet []) = None"
| "nbIntValue (ASet (v # vs)) = nbIntValue v"
| "nbIntValue v = None"

definition nbInt :: "row \<Rightarrow> string \<Rightarrow> int" where
  "nbInt row column = (case nbIntValue (row_get row column) of Some i \<Rightarrow> i | None \<Rightarrow> 0)"

definition nbIntPtr :: "row \<Rightarrow> string \<Rightarrow> int option" where
  "nbIntPtr row column = nbIntValue (row_get row column)"

definition nbStringPtr :: "row \<Rightarrow> string \<Rightarrow> string option" where
  "nbStringPtr row column =
     (let v = rowStringValue row column;
          v = (if v = [] then (case rowStringSliceValue row column of x # _ \<Rightarrow> x | [] \<Rightarrow> v) else v) in
      if v = [] then None else Some v)"

definition nbBoolPtr :: "row \<Rightarrow> string \<Rightarrow> bool option" where
  "nbBoolPtr row column = (case row_get row column of ABool b \<Rightarrow> Some b | ASet (ABool b # _) \<Rightarrow> Some b | _ \<Rightarrow> None)"

definition rowBoolValue :: "row \<Rightarrow> string \<Rightarrow> bool" where
  "rowBoolValue row column = (case row_get row column of ABool b \<Rightarrow> b | _ \<Rightarrow> False)"

definition aclFromRow :: "row \<Rightarrow> ACL" where
  "aclFromRow row = \<lparr>acl_UUID = rowUUIDValue row, acl_Name = nbStringPtr row colName, acl_Priority = nbInt row colPriority,
     acl_Direction = rowStringValue row colDirection, acl_Match = rowStringValue row colMatch, acl_Action = rowStringValue row colAction,
     acl_Log = rowBoolValue row ''log'', acl_Meter = nbStringPtr row ''meter'', acl_Severity = nbStringPtr row ''severity'',
     acl_Label = nbInt row ''label'', acl_ExternalIDs = rowStringMapValue row colExternalIDs, acl_Tier = nbInt row ''tier'',
     acl_Options = rowStringMapValue row colOptions\<rparr>"

definition dnsFromRow :: "row \<Rightarrow> DNS" where
  "dnsFromRow row = \<lparr>dns_UUID = rowUUIDValue row, dns_Records = rowStringMapValue row colRecords,
     dns_Options = rowStringMapValue row colOptions, dns_ExternalIDs = rowStringMapValue row colExternalIDs\<rparr>"

definition portGroupFromRow :: "row \<Rightarrow> PortGroup" where
  "portGroupFromRow row = \<lparr>pg_UUID = rowUUIDValue row, pg_Name = rowStringValue row colName, pg_Ports = rowUUIDSliceValue row colPorts,
     pg_ACLs = rowUUIDSliceValue row colACLs, pg_ExternalIDs = rowStringMapValue row colExternalIDs\<rparr>"

definition nbACLColumns :: "string list" where
  "nbACLColumns = [colUUID, colName, colPriority, colDirection, colMatch, colAction, ''log'', ''meter'', ''severity'', ''label'', ''tier'',
     colOptions, colExternalIDs]"

definition nbDNSColumns :: "string list" where
  "nbDNSColumns = [colUUID, colRecords, colOptions, colExternalIDs]"

definition nbPortGroupColumns :: "string list" where
  "nbPortGroupColumns = [colUUID, colName, colPorts, colACLs, colExternalIDs]"

definition GetPortGroup :: "'w dbClient \<Rightarrow> 'w \<Rightarrow> string \<Rightarrow> PortGroup res \<times> 'w" where
  "GetPortGroup d w name =
     io_bind (nb_selectRows d w tablePortGroup (conditionName name) nbPortGroupColumns name) (\<lambda>rows w.
       (case rows of [] \<Rightarrow> Inl (wrap_err ErrorNotFound dbOVNNorthbound tablePortGroup ''get'' name ''port group not found'' None)
        | row # _ \<Rightarrow> Inr (portGroupFromRow row), w))"

definition selectACLsByUUID :: "'w dbClient \<Rightarrow> 'w \<Rightarrow> string list \<Rightarrow> string \<Rightarrow> ACL list res \<times> 'w" where
  "selectACLsByUUID d w ids object =
     io_collect (\<lambda>w i. io_bind (nb_selectRows d w tableACL (conditionUUID i) nbACLColumns object) (\<lambda>rows w.
       (Inr (case rows of [] \<Rightarrow> [] | row # _ \<Rightarrow> [aclFromRow row]), w))) w (uniqueStrings ids)"

record inlineACLSpec =
  ia_direction :: string
  ia_priority :: int
  ia_match :: string
  ia_action :: string
  ia_externalIDs :: string_map

definition inlineACLRow :: "ovsdb_lib \<Rightarrow> inlineACLSpec \<Rightarrow> row" where
  "inlineACLRow lib acl =
     setRowMap lib (let row = fmap_of_list [(colPriority, AInt (ia_priority acl)), (colDirection, AString (ia_direction acl)),
         (colMatch, AString (ia_match acl))] in
       if ia_action acl \<noteq> [] then fmupd colAction (AString (ia_action acl)) row else row)
     colExternalIDs (ia_externalIDs acl)"

definition deleteMapKeys :: "ovsdb_lib \<Rightarrow> 'w dbClient \<Rightarrow> 'w \<Rightarrow> string \<Rightarrow> string \<Rightarrow> string \<Rightarrow> Condition list \<Rightarrow> string list \<Rightarrow> check \<times> 'w" where
  "deleteMapKeys lib d w tab object column conditions keys0 =
     (let keys = uniqueStrings keys0 in
      if keys = [] then (None, w)
      else case nb_selectRows d w tab conditions [colUUID] object of
          (Inl e, w) \<Rightarrow> (Some e, w)
        | (Inr [], w) \<Rightarrow> (None, w)
        | (Inr (row # _), w) \<Rightarrow>
            nb_commit d w tab ''patch'' object [(op_of ''mutate'' tab)\<lparr>op_Where := conditionUUID (rowUUIDValue row),
              op_Mutations := [NewMutation column MutateDelete (ovsMapKeys lib keys)]\<rparr>] [0])"

definition deleteExternalIDKeys :: "ovsdb_lib \<Rightarrow> 'w dbClient \<Rightarrow> 'w \<Rightarrow> string \<Rightarrow> string \<Rightarrow> Condition list \<Rightarrow> string list \<Rightarrow> check \<times> 'w" where
  "deleteExternalIDKeys lib d w tab object conditions keys = deleteMapKeys lib d w tab object colExternalIDs conditions keys"

end
