(* ===== verification/Security_Rules.thy ===== *)
theory Security_Rules
  imports Nb_Client Fluent_Props
begin

text \<open>
  Security rules and the match expressions of ACLs (\<^verbatim>\<open>src/intent.go\<close>): how a rule is written into an
  ACL and how it is read back.
\<close>

section \<open>Writing\<close>

definition ruleDirection :: "SecurityRule \<Rightarrow> string" where
  "ruleDirection r = (if sr_Direction r \<noteq> [] then sr_Direction r else ''to-lport'')"

definition rulePriority :: "SecurityRule \<Rightarrow> int" where
  "rulePriority r = (if sr_Established r then 1002 else 1001)"

definition ruleAction :: "SecurityRule \<Rightarrow> string" where
  "ruleAction r = (if sr_Action r = [] then ''allow'' else sr_Action r)"

definition rule_clauses :: "string \<Rightarrow> SecurityRule \<Rightarrow> string list" where
  "rule_clauses subject r =
     (if subject \<noteq> [] then [''outport == @'' @ subject] else [])
   @ (if sr_Protocol r \<noteq> [] then [strings_ToLower (sr_Protocol r)] else [])
   @ map (\<lambda>cidr. ''ip4.src == '' @ cidr) (sr_CIDRs r)
   @ map (\<lambda>port. ''tcp.dst == '' @ strconv_Itoa port) (sr_Ports r)
   @ (if sr_Established r then [''ct.est''] else [])"

definition ruleMatch :: "string \<Rightarrow> SecurityRule \<Rightarrow> string" where
  "ruleMatch subject r =
     (let clauses = rule_clauses subject r in if clauses = [] then ''1 == 1'' else strings_Join clauses '' && '')"

section \<open>Reading\<close>

text \<open>\<open>strings.Split(s, "&&")\<close>; the first argument collects the current part backwards.\<close>

fun split_and :: "string \<Rightarrow> string \<Rightarrow> string list" where
  "split_and acc [] = [rev acc]"
| "split_and acc (c # s) =
     (if c = CHR ''&'' \<and> s \<noteq> [] \<and> hd s = CHR ''&'' then rev acc # split_and [] (tl s) else split_and (c # acc) s)"

definition protocolFromACLMatch :: "string \<Rightarrow> string" where
  "protocolFromACLMatch m =
     (case find (\<lambda>protocol. list_ex (\<lambda>clause. strings_TrimSpace clause = protocol) (split_and [] m)) [''tcp'', ''udp'', ''icmp''] of
        Some protocol \<Rightarrow> protocol | None \<Rightarrow> [])"

definition cidrsFromACLMatch :: "string \<Rightarrow> string list" where
  "cidrsFromACLMatch m =
     map (\<lambda>clause. strings_TrimPrefix clause ''ip4.src == '')
       (filter (\<lambda>clause. strings_HasPrefix clause ''ip4.src == '') (map strings_TrimSpace (split_and [] m)))"

definition portsFromACLMatch :: "string \<Rightarrow> int list" where
  "portsFromACLMatch m =
     List.map_filter (\<lambda>clause. strconv_Atoi (strings_TrimPrefix clause ''tcp.dst == ''))
       (filter (\<lambda>clause. strings_HasPrefix clause ''tcp.dst == '') (map strings_TrimSpace (split_and [] m)))"

definition securityRuleFromACL :: "ACL \<Rightarrow> SecurityRule" where
  "securityRuleFromACL acl =
     \<lparr>sr_Name = go_get (acl_ExternalIDs acl) (ExternalIDPrefix @ ''rule-name''), sr_Action = acl_Action acl, sr_Direction = acl_Direction acl,
      sr_Protocol = protocolFromACLMatch (acl_Match acl), sr_CIDRs = cidrsFromACLMatch (acl_Match acl),
      sr_Ports = portsFromACLMatch (acl_Match acl), sr_Established = strings_Contains (acl_Match acl) ''ct.est''\<rparr>"

section \<open>Matches read back\<close>

lemma split_and_plain: "CHR ''&'' \<notin> set s \<Longrightarrow> split_and acc s = [rev acc @ s]"
  by (induction s arbitrary: acc) auto

lemma split_and_sep: "CHR ''&'' \<notin> set s \<Longrightarrow> split_and acc (s @ ''&&'' @ t) = (rev acc @ s) # split_and [] t"
  by (induction s arbitrary: acc) auto

text \<open>A clause begins and ends with a byte that is not trimmed, and has no ampersand.\<close>

definition solid :: "string \<Rightarrow> bool" where
  "solid s \<longleftrightarrow> s \<noteq> [] \<and> plain_byte (hd s) \<and> plain_byte (last s) \<and> CHR ''&'' \<notin> set s"

lemma strip_space: "lead_len qs ('' '' @ s) = 1 \<Longrightarrow> strip_lead qs ('' '' @ s) = strip_lead qs s"
  by (subst strip_lead_go) auto

lemma lead_space: "lead_len space_runes ('' '' @ s) = 1" "lead_len (map rev space_runes) ('' '' @ s) = 1"
  by (simp_all add: lead_len_def space_runes_def strings_HasPrefix_def)

lemma TrimSpace_padded:
  assumes "solid s"
  shows "strings_TrimSpace s = s" "strings_TrimSpace ('' '' @ s) = s" "strings_TrimSpace (s @ '' '') = s" "strings_TrimSpace ('' '' @ s @ '' '') = s"
proof -
  have "lead_len space_runes (hd s # tl s @ t) = 0" for t
    using assms by (intro lead_len_plain space_runes_not_plain) (simp_all add: solid_def)
  moreover have "s @ t = hd s # tl s @ t" for t using assms by (simp add: solid_def)
  ultimately have l: "strip_lead space_runes (s @ t) = s @ t" for t by (metis strip_lead_stop)
  have rev_s: "rev s = last s # rev (butlast s)" using assms by (metis append_butlast_last_id rev.simps(2) rev_rev_ident rev_swap solid_def)
  have "lead_len (map rev space_runes) (last s # rev (butlast s)) = 0"
    using assms by (intro lead_len_plain rev_space_runes_not_plain) (simp_all add: solid_def)
  then have r: "strip_lead (map rev space_runes) (rev s) = rev s" by (simp add: rev_s strip_lead_stop)
  then have rs: "strip_lead (map rev space_runes) ('' '' @ rev s) = rev s" using strip_space [OF lead_space(2)] by metis
  show "strings_TrimSpace s = s" "strings_TrimSpace ('' '' @ s) = s" "strings_TrimSpace (s @ '' '') = s" "strings_TrimSpace ('' '' @ s @ '' '') = s"
    using l [of "[]"] l [of "'' ''"] r rs strip_space [OF lead_space(1), of s] strip_space [OF lead_space(1), of "s @ '' ''"]
    by (simp_all add: strings_TrimSpace_def)
qed

lemma split_and_Join:
  assumes "cs \<noteq> []" "\<And>c. c \<in> set cs \<Longrightarrow> solid c"
  shows "map strings_TrimSpace (split_and [] (strings_Join cs '' && '')) = cs"
proof -
  have "map strings_TrimSpace (split_and pre (strings_Join cs '' && '')) = cs" if "pre = [] \<or> pre = '' ''" for pre
    using assms that
  proof (induction cs "'' && ''" arbitrary: pre rule: strings_Join.induct)
    case (2 c)
    then show ?case using TrimSpace_padded [of c] by (auto simp: split_and_plain solid_def)
  next
    case (3 c c' cs)
    define rest where "rest = strings_Join (c' # cs) '' && ''"
    have amp: "CHR ''&'' \<notin> set (c @ '' '')" using "3.prems"(2) [of c] by (simp add: solid_def)
    have "strings_Join (c # c' # cs) '' && '' = (c @ '' '') @ ''&&'' @ '' '' @ rest" by (simp add: rest_def)
    then have "split_and pre (strings_Join (c # c' # cs) '' && '') = (rev pre @ c @ '' '') # split_and [] ('' '' @ rest)"
      by (simp only: split_and_sep [OF amp])
    also have "split_and [] ('' '' @ rest) = split_and '' '' rest" by simp
    finally have "map strings_TrimSpace (split_and pre (strings_Join (c # c' # cs) '' && ''))
        = strings_TrimSpace (rev pre @ c @ '' '') # map strings_TrimSpace (split_and '' '' rest)" by simp
    moreover have "strings_TrimSpace (rev pre @ c @ '' '') = c"
      using TrimSpace_padded(3,4) [of c] "3.prems"(2) [of c] "3.prems"(3) by auto
    moreover have "map strings_TrimSpace (split_and '' '' rest) = c' # cs"
      unfolding rest_def by (rule "3.hyps") (use "3.prems"(2) in simp_all)
    ultimately show ?case by simp
  qed simp
  then show ?thesis by blast
qed

section \<open>Rules read back\<close>

definition word_text :: "string \<Rightarrow> bool" where
  "word_text s \<longleftrightarrow> list_all (\<lambda>c. plain_byte c \<and> c \<noteq> CHR ''&'') s"

definition cidr_text :: "string \<Rightarrow> bool" where
  "cidr_text s \<longleftrightarrow> s \<noteq> [] \<and> list_all (\<lambda>c. c \<in> set ''0123456789abcdefABCDEF.:/'') s"

text \<open>
  The rules that survive being written into an ACL: a known protocol in lower case, CIDRs in their
  usual alphabet, ports within the range of \<open>int\<close>, and a subject (the name of a port group) in printable characters that does not look
  like the test for established connections.
\<close>

definition readable_rule :: "string \<Rightarrow> SecurityRule \<Rightarrow> bool" where
  "readable_rule subject r \<longleftrightarrow>
     word_text subject \<and> \<not> strings_Contains subject ''ct.est'' \<and> sr_Protocol r \<in> {[], ''tcp'', ''udp'', ''icmp''}
     \<and> list_all cidr_text (sr_CIDRs r) \<and> list_all (\<lambda>p. - (2 ^ 63) \<le> p \<and> p < 2 ^ 63) (sr_Ports r)"

lemma Itoa_chars: "c \<in> set (strconv_Itoa p) \<Longrightarrow> is_digit c \<or> c = CHR ''-''"
  using nat_dec_all_digits by (auto simp: strconv_Itoa_def list_all_iff split: if_splits)

lemma Itoa_ne: "strconv_Itoa p \<noteq> []"
  by (simp add: strconv_Itoa_def)

lemma is_digit_plain: "is_digit c \<Longrightarrow> plain_byte c \<and> c \<notin> set ''&ct.es-+''"
  by (auto simp: is_digit_def plain_byte_def)

lemma HasPrefix_hd: "strings_HasPrefix s [c] \<Longrightarrow> hd s = c"
  by (cases s) (auto simp: strings_HasPrefix_def)

lemma Atoi_Itoa: "- (2 ^ 63) \<le> p \<Longrightarrow> p < 2 ^ 63 \<Longrightarrow> strconv_Atoi (strconv_Itoa p) = Some p"
proof -
  assume p: "- (2 ^ 63) \<le> p" "p < 2 ^ 63"
  have ne: "nat_dec n \<noteq> []" for n by (subst nat_dec.simps) simp
  have "hd (nat_dec n) \<in> set (nat_dec n)" for n using ne by simp
  then have "is_digit (hd (nat_dec n))" for n using nat_dec_all_digits [of n] by (auto simp: list_all_iff)
  then have "hd (nat_dec n) \<noteq> CHR ''-''" "hd (nat_dec n) \<noteq> CHR ''+''" for n using is_digit_plain by force+
  then have sign: "\<not> strings_HasPrefix (nat_dec n) ''-''" "\<not> strings_HasPrefix (nat_dec n) ''+''" for n
    by (metis HasPrefix_hd)+
  show ?thesis
  proof (cases "p < 0")
    case True
    then show ?thesis using p ne by (simp add: strconv_Itoa_def strconv_Atoi_def Let_def strings_HasPrefix_def)
  next
    case False
    then show ?thesis using p ne sign by (simp add: strconv_Itoa_def strconv_Atoi_def Let_def)
  qed
qed

text \<open>A text is found on one side of a byte it does not have.\<close>

lemma Contains_sep:
  assumes "c \<notin> set p" "p \<noteq> []"
  shows "strings_Contains (a @ c # b) p \<longleftrightarrow> strings_Contains a p \<or> strings_Contains b p"
proof
  assume "strings_Contains (a @ c # b) p"
  then obtain u v where uv: "a @ c # b = u @ p @ v" unfolding strings_Contains_iff by blast
  show "strings_Contains a p \<or> strings_Contains b p"
  proof (cases "length a < length u")
    case True
    then have "drop (Suc (length a)) (u @ p @ v) = drop (Suc (length a)) u @ p @ v" by simp
    moreover have "drop (Suc (length a)) (a @ c # b) = b" by simp
    ultimately have "b = drop (Suc (length a)) u @ p @ v" using uv by metis
    then show ?thesis unfolding strings_Contains_iff by blast
  next
    case False
    have "length u + length p \<le> length a"
    proof (rule ccontr)
      assume "\<not> length u + length p \<le> length a"
      then have "length a - length u < length p" using False by linarith
      then have "(u @ p @ v) ! length a \<in> set p" using False by (simp add: nth_append)
      moreover have "(u @ p @ v) ! length a = c" unfolding uv [symmetric] by simp
      ultimately show False using assms(1) by simp
    qed
    then have "take (length a) (u @ p @ v) = u @ p @ take (length a - (length u + length p)) v" using False by simp
    moreover have "take (length a) (a @ c # b) = a" by simp
    ultimately have "a = u @ p @ take (length a - (length u + length p)) v" using uv by metis
    then show ?thesis unfolding strings_Contains_iff by blast
  qed
next
  assume "strings_Contains a p \<or> strings_Contains b p"
  then show "strings_Contains (a @ c # b) p"
    unfolding strings_Contains_iff by (metis append.assoc append_Cons)
qed

lemma Contains_chars: "strings_Contains s p \<Longrightarrow> set p \<subseteq> set s"
  by (auto simp: strings_Contains_iff)

lemma Contains_Join:
  assumes "p \<noteq> []" "CHR '' '' \<notin> set p" "CHR ''&'' \<notin> set p" "cs \<noteq> []"
  shows "strings_Contains (strings_Join cs '' && '') p \<longleftrightarrow> list_ex (\<lambda>c. strings_Contains c p) cs"
  using assms(4)
proof (induction cs "'' && ''" rule: strings_Join.induct)
  case (3 x y ys)
  have "strings_Contains (x @ '' && '' @ t) p \<longleftrightarrow> strings_Contains x p \<or> strings_Contains t p" for t
    using Contains_sep [of "CHR '' ''" p x "''&& '' @ t"] Contains_sep [of "CHR ''&''" p "[]" "''& '' @ t"]
      Contains_sep [of "CHR ''&''" p "[]" "'' '' @ t"] Contains_sep [of "CHR '' ''" p "[]" t] assms(1-3)
    by simp
  then show ?case using 3 by simp
qed simp_all

lemma solid_append: "u \<noteq> [] \<Longrightarrow> plain_byte (hd u) \<Longrightarrow> CHR ''&'' \<notin> set u \<Longrightarrow> word_text v \<Longrightarrow> v \<noteq> [] \<Longrightarrow> solid (u @ v)"
  by (auto simp: solid_def word_text_def list_all_iff)

lemma cidr_plain: "cidr_text s \<Longrightarrow> word_text s \<and> s \<noteq> [] \<and> CHR ''t'' \<notin> set s"
proof -
  have "list_all (\<lambda>c. plain_byte c \<and> c \<noteq> CHR ''&'' \<and> c \<noteq> CHR ''t'') ''0123456789abcdefABCDEF.:/''" by code_simp
  then have "c \<in> set ''0123456789abcdefABCDEF.:/'' \<Longrightarrow> plain_byte c \<and> c \<noteq> CHR ''&'' \<and> c \<noteq> CHR ''t''" for c
    unfolding list_all_iff by blast
  then show "cidr_text s \<Longrightarrow> ?thesis" unfolding cidr_text_def word_text_def list_all_iff by blast
qed

lemma Itoa_plain: "word_text (strconv_Itoa p) \<and> strconv_Itoa p \<noteq> [] \<and> CHR ''t'' \<notin> set (strconv_Itoa p)"
proof -
  have "plain_byte c \<and> c \<noteq> CHR ''&'' \<and> c \<noteq> CHR ''t''" if "c \<in> set (strconv_Itoa p)" for c
    using Itoa_chars [OF that] is_digit_plain [of c] by (auto simp: plain_byte_def)
  then show ?thesis using Itoa_ne [of p] by (auto simp: word_text_def list_all_iff)
qed

lemma rule_clause_cases:
  assumes "readable_rule subject r" "c \<in> set (rule_clauses subject r)"
  obtains "c = ''outport == @'' @ subject" "subject \<noteq> []" | "c = sr_Protocol r" "c \<in> {''tcp'', ''udp'', ''icmp''}"
  | cidr where "c = ''ip4.src == '' @ cidr" "cidr_text cidr" | port where "c = ''tcp.dst == '' @ strconv_Itoa port"
  | "c = ''ct.est''" "sr_Established r"
proof -
  have "list_all (\<lambda>p. strings_ToLower p = p) [[], ''tcp'', ''udp'', ''icmp'']" by code_simp
  moreover have "sr_Protocol r \<in> set [[], ''tcp'', ''udp'', ''icmp'']" using assms(1) by (simp add: readable_rule_def)
  ultimately have lower: "strings_ToLower (sr_Protocol r) = sr_Protocol r" unfolding list_all_iff by blast
  have known: "sr_Protocol r \<noteq> [] \<Longrightarrow> sr_Protocol r \<in> {''tcp'', ''udp'', ''icmp''}" using assms(1) by (simp add: readable_rule_def)
  have cidrs: "cidr \<in> set (sr_CIDRs r) \<Longrightarrow> cidr_text cidr" for cidr using assms(1) by (simp add: readable_rule_def list_all_iff)
  have one: "y \<in> set (if b then [x] else []) \<Longrightarrow> y = x \<and> b" for b and x y :: string by (cases b) simp_all
  have "c \<in> set (if subject \<noteq> [] then [''outport == @'' @ subject] else []) \<or> c \<in> set (if sr_Protocol r \<noteq> [] then [sr_Protocol r] else [])
      \<or> c \<in> (\<lambda>cidr. ''ip4.src == '' @ cidr) ` set (sr_CIDRs r) \<or> c \<in> (\<lambda>port. ''tcp.dst == '' @ strconv_Itoa port) ` set (sr_Ports r)
      \<or> c \<in> set (if sr_Established r then [''ct.est''] else [])"
    using assms(2) by (simp only: rule_clauses_def lower set_append set_map Un_iff)
  then show thesis
  proof (elim disjE)
    assume "c \<in> set (if subject \<noteq> [] then [''outport == @'' @ subject] else [])"
    from one [OF this] show thesis by (intro that(1)) simp_all
  next
    assume "c \<in> set (if sr_Protocol r \<noteq> [] then [sr_Protocol r] else [])"
    from one [OF this] known show thesis by (intro that(2)) simp_all
  next
    assume "c \<in> (\<lambda>cidr. ''ip4.src == '' @ cidr) ` set (sr_CIDRs r)"
    then obtain cidr where "c = ''ip4.src == '' @ cidr" "cidr \<in> set (sr_CIDRs r)" by (rule imageE)
    then show thesis by (intro that(3) cidrs)
  next
    assume "c \<in> (\<lambda>port. ''tcp.dst == '' @ strconv_Itoa port) ` set (sr_Ports r)"
    then obtain port where "c = ''tcp.dst == '' @ strconv_Itoa port" by (rule imageE)
    then show thesis by (rule that(4))
  next
    assume "c \<in> set (if sr_Established r then [''ct.est''] else [])"
    from one [OF this] show thesis by (intro that(5)) simp_all
  qed
qed

lemma rule_clauses_solid:
  assumes "readable_rule subject r" "c \<in> set (rule_clauses subject r)"
  shows "solid c"
  using assms
proof (cases rule: rule_clause_cases)
  case 1
  then show ?thesis using assms(1) solid_append [of "''outport == @''" subject] by (simp add: readable_rule_def plain_byte_def)
next
  case (3 cidr)
  then show ?thesis using cidr_plain [of cidr] solid_append [of "''ip4.src == ''" cidr] by (simp add: plain_byte_def)
next
  case (4 port)
  then show ?thesis using Itoa_plain [of port] solid_append [of "''tcp.dst == ''" "strconv_Itoa port"] by (simp add: plain_byte_def)
qed (auto simp: solid_def plain_byte_def)

lemma rule_clause_established:
  assumes "readable_rule subject r" "c \<in> set (rule_clauses subject r)" "strings_Contains c ''ct.est''"
  shows "sr_Established r"
  using assms(1,2)
proof (cases rule: rule_clause_cases)
  case 1
  then show ?thesis
    using assms(1,3) Contains_sep [of "CHR ''@''" "''ct.est''" "''outport == ''" subject] by (simp add: readable_rule_def strings_HasPrefix_def)
next
  case (3 cidr)
  then show ?thesis
    using assms(3) Contains_sep [of "CHR '' ''" "''ct.est''" "''ip4.src ==''" cidr] cidr_plain [of cidr] Contains_chars [of cidr "''ct.est''"]
    by (auto simp: strings_HasPrefix_def)
next
  case (4 port)
  then show ?thesis
    using assms(3) Contains_sep [of "CHR '' ''" "''ct.est''" "''tcp.dst ==''" "strconv_Itoa port"] Itoa_plain [of port]
      Contains_chars [of "strconv_Itoa port" "''ct.est''"]
    by (auto simp: strings_HasPrefix_def)
next
  case 2
  then show ?thesis using assms(3) by (auto simp: strings_HasPrefix_def)
qed

lemma rule_match_clauses:
  assumes "readable_rule subject r"
  shows "map strings_TrimSpace (split_and [] (ruleMatch subject r))
    = (if rule_clauses subject r = [] then [''1 == 1''] else rule_clauses subject r)"
proof (cases "rule_clauses subject r = []")
  case True
  have "strings_TrimSpace ''1 == 1'' = ''1 == 1''" by (rule TrimSpace_plain) (simp_all add: plain_byte_def)
  then show ?thesis using True by (simp add: ruleMatch_def)
next
  case False
  then show ?thesis using split_and_Join [OF False rule_clauses_solid [OF assms]] by (simp add: ruleMatch_def)
qed

lemma protocol_read_back:
  assumes "readable_rule subject r"
  shows "protocolFromACLMatch (ruleMatch subject r) = sr_Protocol r"
proof -
  have ex: "list_ex (\<lambda>clause. strings_TrimSpace clause = p) cs \<longleftrightarrow> p \<in> set (map strings_TrimSpace cs)" for p cs
    by (auto simp: list_ex_iff)
  have known: "sr_Protocol r \<in> {[], ''tcp'', ''udp'', ''icmp''}" using assms by (simp add: readable_rule_def)
  have "p \<in> set (rule_clauses subject r) \<longleftrightarrow> p = sr_Protocol r" if p: "p \<in> {''tcp'', ''udp'', ''icmp''}" for p
  proof
    assume "p \<in> set (rule_clauses subject r)"
    with assms show "p = sr_Protocol r" by (rule rule_clause_cases) (use p in \<open>simp_all\<close>)
  next
    assume "p = sr_Protocol r"
    moreover have "list_all (\<lambda>p. strings_ToLower p = p) [''tcp'', ''udp'', ''icmp'']" by code_simp
    ultimately have "strings_ToLower (sr_Protocol r) = p" "sr_Protocol r \<noteq> []" using p by auto
    then show "p \<in> set (rule_clauses subject r)" by (simp add: rule_clauses_def)
  qed
  then have mem: "p \<in> set (map strings_TrimSpace (split_and [] (ruleMatch subject r))) \<longleftrightarrow> p = sr_Protocol r"
    if "p \<in> {''tcp'', ''udp'', ''icmp''}" for p
    unfolding rule_match_clauses [OF assms] using that by (cases "rule_clauses subject r = []") auto
  have "protocolFromACLMatch (ruleMatch subject r)
      = (case find (\<lambda>p. p = sr_Protocol r) [''tcp'', ''udp'', ''icmp''] of Some protocol \<Rightarrow> protocol | None \<Rightarrow> [])"
    unfolding protocolFromACLMatch_def ex by (intro arg_cong [where f = "case_option [] (\<lambda>p. p)"] find_cong refl mem) simp
  then show ?thesis using known by (elim insertE emptyE) simp_all
qed

lemma protocol_no_prefix:
  assumes "readable_rule subject r"
  shows "\<not> strings_HasPrefix (strings_ToLower (sr_Protocol r)) ''ip4.src == ''" "\<not> strings_HasPrefix (strings_ToLower (sr_Protocol r)) ''tcp.dst == ''"
proof -
  have "list_all (\<lambda>p. \<not> strings_HasPrefix (strings_ToLower p) ''ip4.src == '' \<and> \<not> strings_HasPrefix (strings_ToLower p) ''tcp.dst == '')
      [[], ''tcp'', ''udp'', ''icmp'']" by code_simp
  moreover have "sr_Protocol r \<in> set [[], ''tcp'', ''udp'', ''icmp'']" using assms by (simp add: readable_rule_def)
  ultimately show "\<not> strings_HasPrefix (strings_ToLower (sr_Protocol r)) ''ip4.src == ''"
    "\<not> strings_HasPrefix (strings_ToLower (sr_Protocol r)) ''tcp.dst == ''" unfolding list_all_iff by blast+
qed

lemma clause_filters:
  assumes "readable_rule subject r"
  shows "filter (\<lambda>c. strings_HasPrefix c ''ip4.src == '') (rule_clauses subject r) = map (\<lambda>cidr. ''ip4.src == '' @ cidr) (sr_CIDRs r)"
    "filter (\<lambda>c. strings_HasPrefix c ''tcp.dst == '') (rule_clauses subject r) = map (\<lambda>port. ''tcp.dst == '' @ strconv_Itoa port) (sr_Ports r)"
proof -
  note p = protocol_no_prefix [OF assms, unfolded strings_HasPrefix_def]
  show "filter (\<lambda>c. strings_HasPrefix c ''ip4.src == '') (rule_clauses subject r) = map (\<lambda>cidr. ''ip4.src == '' @ cidr) (sr_CIDRs r)"
    using p(1) by (simp add: rule_clauses_def filter_map comp_def strings_HasPrefix_def)
  show "filter (\<lambda>c. strings_HasPrefix c ''tcp.dst == '') (rule_clauses subject r) = map (\<lambda>port. ''tcp.dst == '' @ strconv_Itoa port) (sr_Ports r)"
    using p(2) by (simp add: rule_clauses_def filter_map comp_def strings_HasPrefix_def)
qed

lemma established_read_back:
  assumes "readable_rule subject r"
  shows "strings_Contains (ruleMatch subject r) ''ct.est'' \<longleftrightarrow> sr_Established r"
proof (cases "rule_clauses subject r = []")
  case True
  then have "\<not> sr_Established r" by (simp add: rule_clauses_def split: if_splits)
  then show ?thesis using True by (simp add: ruleMatch_def strings_HasPrefix_def)
next
  case False
  have "strings_Contains (ruleMatch subject r) ''ct.est'' \<longleftrightarrow> list_ex (\<lambda>c. strings_Contains c ''ct.est'') (rule_clauses subject r)"
    using Contains_Join [of "''ct.est''", OF _ _ _ False] False by (simp add: ruleMatch_def)
  moreover have "strings_Contains ''ct.est'' ''ct.est''" by (simp add: strings_HasPrefix_def)
  ultimately show ?thesis
    using rule_clause_established [OF assms] by (auto simp: list_ex_iff) (auto simp: rule_clauses_def)
qed

lemma cidrs_read_back: "readable_rule subject r \<Longrightarrow> cidrsFromACLMatch (ruleMatch subject r) = sr_CIDRs r"
proof (cases "rule_clauses subject r = []")
  case True
  assume "readable_rule subject r"
  moreover have "sr_CIDRs r = []" using True by (simp add: rule_clauses_def)
  ultimately show ?thesis using True by (simp add: cidrsFromACLMatch_def rule_match_clauses strings_HasPrefix_def)
next
  case False
  assume r: "readable_rule subject r"
  show ?thesis using False
    by (simp only: cidrsFromACLMatch_def rule_match_clauses [OF r] if_False clause_filters(1) [OF r] map_map comp_def
        strings_TrimPrefix_append list.map_ident)
qed

lemma map_filter_Some: "(\<And>x. x \<in> set xs \<Longrightarrow> f (g x) = Some x) \<Longrightarrow> List.map_filter f (map g xs) = xs"
  by (induction xs) (auto simp: List.map_filter_def)

lemma ports_read_back: "readable_rule subject r \<Longrightarrow> portsFromACLMatch (ruleMatch subject r) = sr_Ports r"
proof (cases "rule_clauses subject r = []")
  case True
  assume "readable_rule subject r"
  moreover have "sr_Ports r = []" using True by (simp add: rule_clauses_def)
  ultimately show ?thesis using True by (simp add: portsFromACLMatch_def rule_match_clauses strings_HasPrefix_def List.map_filter_def)
next
  case False
  assume r: "readable_rule subject r"
  have "strings_TrimPrefix (''tcp.dst == '' @ s) ''tcp.dst == '' = s" for s by (simp add: strings_TrimPrefix_def strings_HasPrefix_def)
  moreover have "port \<in> set (sr_Ports r) \<Longrightarrow> strconv_Atoi (strconv_Itoa port) = Some port" for port
    using r by (intro Atoi_Itoa) (simp_all add: readable_rule_def list_all_iff)
  ultimately have "List.map_filter (\<lambda>clause. strconv_Atoi (strings_TrimPrefix clause ''tcp.dst == ''))
      (map (\<lambda>port. ''tcp.dst == '' @ strconv_Itoa port) (sr_Ports r)) = sr_Ports r"
    by (intro map_filter_Some) simp
  then show ?thesis using False r
    by (simp only: portsFromACLMatch_def rule_match_clauses [OF r] if_False clause_filters(2) [OF r])
qed

text \<open>What the code relies on of the library's maps: the map that is written is the map that is read.\<close>

definition faithful_lib :: "ovsdb_lib \<Rightarrow> bool" where
  "faithful_lib lib \<longleftrightarrow> (\<forall>row column m. rowStringMapValue (fmupd column (ovsMap lib m) row) column = m)"

definition rule_acl_spec :: "string \<Rightarrow> SecurityRule \<Rightarrow> string_map \<Rightarrow> inlineACLSpec" where
  "rule_acl_spec subject r ids = \<lparr>ia_direction = ruleDirection r, ia_priority = rulePriority r, ia_match = ruleMatch subject r,
     ia_action = ruleAction r, ia_externalIDs = ids\<rparr>"

text \<open>
  C22: A readable security rule that is written into the row of an ACL, with its name in the external
  ids, is read back from that row unchanged, except that a missing action and direction have got their
  defaults.
\<close>

theorem security_rule_roundtrip:
  assumes "readable_rule subject r" "faithful_lib lib" "go_get ids (ExternalIDPrefix @ ''rule-name'') = sr_Name r"
  shows "securityRuleFromACL (aclFromRow (inlineACLRow lib (rule_acl_spec subject r ids)))
    = r\<lparr>sr_Action := ruleAction r, sr_Direction := ruleDirection r\<rparr>"
proof -
  let ?row = "inlineACLRow lib (rule_acl_spec subject r ids)"
  have action: "ruleAction r \<noteq> []" by (simp add: ruleAction_def)
  have "rowStringMapValue ?row colExternalIDs = ids"
    using assms(2) by (cases "ids = fmempty")
      (auto simp: inlineACLRow_def setRowMap_def rule_acl_spec_def faithful_lib_def Let_def rowStringMapValue_def row_get_def
        colPriority_def colDirection_def colMatch_def colAction_def colExternalIDs_def)
  moreover have "rowStringValue ?row colDirection = ruleDirection r" "rowStringValue ?row colMatch = ruleMatch subject r"
    "rowStringValue ?row colAction = ruleAction r"
    using action by (simp_all add: inlineACLRow_def setRowMap_def rule_acl_spec_def Let_def rowStringValue_def row_get_def
        colPriority_def colDirection_def colMatch_def colAction_def colExternalIDs_def)
  ultimately show ?thesis
    using assms by (simp add: securityRuleFromACL_def aclFromRow_def protocol_read_back cidrs_read_back ports_read_back established_read_back)
qed

lemma demo_lib_faithful: "faithful_lib demo_lib"
proof -
  have "foldl (\<lambda>out (k, v). case (as_string k, as_string v) of (Some k, Some v) \<Rightarrow> fmupd k v out | _ \<Rightarrow> out) base
      (map (\<lambda>k. (AString k, AString (f k))) ks) = foldl (\<lambda>out k. fmupd k (f k) out) base ks" for f base ks
    by (induction ks arbitrary: base) (simp_all add: as_string_def)
  moreover have "foldl (\<lambda>out k. fmupd k (go_get m k) out) fmempty (range_keys m) = m" for m :: string_map
  proof -
    have "foldl (\<lambda>out k. fmupd k (go_get m k) out) fmempty (range_keys m) = cloneStringMap m"
      unfolding cloneStringMap_def by (rule foldl_cong) (auto simp: go_get_def fmlookup_dom'_iff)
    then show ?thesis by simp
  qed
  ultimately show ?thesis
    by (simp add: faithful_lib_def rowStringMapValue_def row_get_def ovsMap_def demo_lib_def)
qed

definition web_rule :: SecurityRule where
  "web_rule = \<lparr>sr_Name = ''web'', sr_Action = ''allow-related'', sr_Direction = ''to-lport'', sr_Protocol = ''tcp'', sr_CIDRs = [''10.0.0.0/24''],
     sr_Ports = [443], sr_Established = False\<rparr>"

theorem security_rule_roundtrip_witness:
  "securityRuleFromACL (aclFromRow (inlineACLRow demo_lib (rule_acl_spec ''pg'' web_rule (fmupd (ExternalIDPrefix @ ''rule-name'') ''web'' fmempty))))
   = web_rule"
proof -
  have "readable_rule ''pg'' web_rule" by code_simp
  moreover have "go_get (fmupd (ExternalIDPrefix @ ''rule-name'') ''web'' fmempty) (ExternalIDPrefix @ ''rule-name'') = sr_Name web_rule" by code_simp
  moreover have "web_rule\<lparr>sr_Action := ruleAction web_rule, sr_Direction := ruleDirection web_rule\<rparr> = web_rule"
    by (simp add: web_rule_def ruleAction_def ruleDirection_def)
  ultimately show ?thesis using security_rule_roundtrip [OF _ demo_lib_faithful] by metis
qed

text \<open>
  What does not survive: a rule without a direction, and a protocol that is not written in lower
  case, come back different, so that reconciling such a policy never settles.
\<close>

lemma direction_never_settles: "sr_Direction r = [] \<Longrightarrow> acl_Direction acl = ruleDirection r \<Longrightarrow> securityRuleFromACL acl \<noteq> r"
  by (auto simp: securityRuleFromACL_def ruleDirection_def)

lemma protocol_never_settles:
  assumes "strings_ToLower (sr_Protocol r) \<noteq> sr_Protocol r"
  shows "securityRuleFromACL acl \<noteq> r"
proof -
  have "protocolFromACLMatch m \<in> set [[], ''tcp'', ''udp'', ''icmp'']" for m
    unfolding protocolFromACLMatch_def by (auto simp: find_Some_iff split: option.split)
  moreover have "list_all (\<lambda>p. strings_ToLower p = p) [[], ''tcp'', ''udp'', ''icmp'']" by code_simp
  ultimately have "strings_ToLower (protocolFromACLMatch m) = protocolFromACLMatch m" for m unfolding list_all_iff by blast
  then show ?thesis using assms by (metis SecurityRule.select_convs(4) securityRuleFromACL_def)
qed

text \<open>All clauses are joined by a conjunction: two source prefixes, or two ports, never match together.\<close>

lemma prefixes_conjoined:
  "ruleMatch [] (web_rule\<lparr>sr_Protocol := ''udp'', sr_CIDRs := [''10.0.0.0/24'', ''10.1.0.0/24''], sr_Ports := [53]\<rparr>)
   = ''udp && ip4.src == 10.0.0.0/24 && ip4.src == 10.1.0.0/24 && tcp.dst == 53''"
  by code_simp

end
