(* ===== verification/Intent_Plans.thy ===== *)
theory Intent_Plans
  imports Nb_Client
begin

text \<open>
  What the intents of \<^verbatim>\<open>src/intent.go\<close> share: plans, differences between the present and the desired state,
  and the early returns of their operations.
\<close>

section \<open>Diffs of intents\<close>

text \<open>The values compared in the diffs of intents. All of them are in normal form, where a list is never sometimes nil and sometimes empty.\<close>

datatype intent_value =
  IString string | IStrings "string list" | IOwner OwnerRef | ILabels Labels | IRules "SecurityRule list" | IPolicy SecurityPolicy
| IDns LogicalSwitchDNS | IRecords "(string, string list) fmap" | INetwork VirtualNetwork | ILocal WorkloadLocalOVS | IWorkload WorkloadAttachment
| IProvider ProviderNetwork

definition appendFieldDiff :: "intent_value Diff \<Rightarrow> string \<Rightarrow> intent_value \<Rightarrow> intent_value \<Rightarrow> intent_value Diff" where
  "appendFieldDiff diff path before after =
     (if before = after then diff
      else diff\<lparr>diff_Changes := diff_Changes diff @ [\<lparr>ch_Path = path, ch_Before = Some before, ch_After = Some after\<rparr>]\<rparr>)"

definition new_diff :: "string \<Rightarrow> string \<Rightarrow> intent_value Diff" where
  "new_diff resource name = \<lparr>diff_Resource = resource, diff_Name = name, diff_Changes = []\<rparr>"

definition create_diff :: "string \<Rightarrow> string \<Rightarrow> intent_value \<Rightarrow> intent_value Diff" where
  "create_diff resource name desired = (new_diff resource name)\<lparr>diff_Changes := [\<lparr>ch_Path = ''/'', ch_Before = None, ch_After = Some desired\<rparr>]\<rparr>"

definition ensure_plan :: "string \<Rightarrow> string \<Rightarrow> string \<Rightarrow> Plan" where
  "ensure_plan resource name description =
     \<lparr>plan_Operations = [\<lparr>op_Action = IntentActionEnsure, op_Resource = resource, op_Name = name, op_Description = description\<rparr>],
      plan_Warnings = []\<rparr>"

text \<open>A read that treats a missing row as absence.\<close>

definition found :: "'a res \<times> 'w \<Rightarrow> 'a option res \<times> 'w" where
  "found m = (case m of (Inr x, w) \<Rightarrow> (Inr (Some x), w) | (Inl e, w) \<Rightarrow> (if IsKind (Some e) ErrorNotFound then Inr None else Inl e, w))"

text \<open>The error of a step ends the operation.\<close>

definition after_check :: "check \<times> 'w \<Rightarrow> ('w \<Rightarrow> 'a res \<times> 'w) \<Rightarrow> 'a res \<times> 'w" where
  "after_check m k = (case m of (Some e, w) \<Rightarrow> (Inl e, w) | (None, w) \<Rightarrow> k w)"

text \<open>What the intents do with a diff: nothing without a client or without changes, otherwise apply it.\<close>

definition apply_diff :: "'w dbClient option \<Rightarrow> Plan \<Rightarrow> intent_value Diff \<Rightarrow> ('w dbClient \<Rightarrow> 'w \<Rightarrow> check \<times> 'w) \<Rightarrow> 'w
    \<Rightarrow> intent_value ReconcileResult res \<times> 'w" where
  "apply_diff client plan diff run w =
     (case client of
        None \<Rightarrow> (Inr \<lparr>rec_Plan = plan, rec_Diff = diff, rec_Applied = False\<rparr>, w)
      | Some d \<Rightarrow>
          if Diff_Empty diff then (Inr \<lparr>rec_Plan = plan, rec_Diff = diff, rec_Applied = False\<rparr>, w)
          else after_check (run d w) (\<lambda>w. (Inr \<lparr>rec_Plan = plan, rec_Diff = diff, rec_Applied = \<not> Diff_Empty diff\<rparr>, w)))"

end
