(* ===== verification/Policy_Intent.thy ===== *)
theory Policy_Intent
  imports Security_Rules Intent_Plans
begin

text \<open>
  Security policies of \<^verbatim>\<open>src/intent.go\<close>: reading, deleting, reconciling and patching a policy, which is a
  port group with its ACLs. A nil client is \<open>None\<close>.
\<close>

section \<open>Reading\<close>

datatype policy_call = PolicyForSubject string | PolicyAddRule SecurityRule | PolicyWithOwner string string | PolicyWithLabel string string

fun policy_call_step :: "SecurityPolicy \<Rightarrow> policy_call \<Rightarrow> SecurityPolicy" where
  "policy_call_step s (PolicyForSubject subject) = s\<lparr>sp_Subject := subject\<rparr>"
| "policy_call_step s (PolicyAddRule r) = s\<lparr>sp_Rules := sp_Rules s @ [r]\<rparr>"
| "policy_call_step s (PolicyWithOwner kind name) = s\<lparr>sp_Owner := \<lparr>owner_Kind = kind, owner_Name = name, owner_ID = []\<rparr>\<rparr>"
| "policy_call_step s (PolicyWithLabel key v) = s\<lparr>sp_Labels := fmupd key v (sp_Labels s)\<rparr>"

definition Policy_Ensure :: "string \<Rightarrow> SecurityPolicy" where
  "Policy_Ensure name = \<lparr>sp_Name = name, sp_Subject = [], sp_Rules = [], sp_Owner = no_owner, sp_Labels = fmempty\<rparr>"

definition Policy_Get :: "'w dbClient option \<Rightarrow> 'w \<Rightarrow> string \<Rightarrow> SecurityPolicy res \<times> 'w" where
  "Policy_Get client w name =
     io_guard (validateName ''security policy'' name) w (\<lambda>w.
       case client of
         None \<Rightarrow> (Inl ErrBackendUnavailable, w)
       | Some d \<Rightarrow>
           io_bind (GetPortGroup d w name) (\<lambda>pg w.
           io_bind (selectACLsByUUID d w (pg_ACLs pg) name) (\<lambda>acls w.
             (Inr (normalizeSecurityPolicy ((securityPolicyFromPortGroup pg)\<lparr>sp_Rules := map securityRuleFromACL
                (filter (\<lambda>acl. go_get (acl_ExternalIDs acl) ExternalIDKindKey = ''SecurityPolicy''
                   \<and> go_get (acl_ExternalIDs acl) ExternalIDNameKey = name) acls)\<rparr>)), w))))"

definition Policy_Inspect :: "'w dbClient option \<Rightarrow> 'w \<Rightarrow> string \<Rightarrow> (string \<times> string \<times> SecurityPolicy) res \<times> 'w" where
  "Policy_Inspect client w name = io_bind (Policy_Get client w name) (\<lambda>policy w. (Inr (''SecurityPolicy'', name, policy), w))"

section \<open>Deleting\<close>

definition mutate_acls :: "string \<Rightarrow> Mutator \<Rightarrow> string list \<Rightarrow> Operation" where
  "mutate_acls pgUUID mutator uuids =
     (op_of ''mutate'' tablePortGroup)\<lparr>op_Where := conditionUUID pgUUID, op_Mutations := [NewMutation colACLs mutator (uuidSet uuids)]\<rparr>"

text \<open>The ACLs of the policy among those of the group; one that claims the policy without a complete mark is an error.\<close>

definition owned_acls :: "string \<Rightarrow> ACL list \<Rightarrow> ACL list res" where
  "owned_acls name acls =
     res_fold (\<lambda>owned acl.
       if \<not> ovsResourceOwnedBy (acl_ExternalIDs acl) ''SecurityPolicy'' name then Inr owned
       else guard_res (requireV2OwnedExternalIDs (acl_ExternalIDs acl) ''SecurityPolicy'' name dbOVNNorthbound tableACL ''delete'' (acl_UUID acl))
              (Inr (owned @ [acl]))) [] acls"

definition policy_delete_ops :: "PortGroup \<Rightarrow> string \<Rightarrow> ACL list \<Rightarrow> string list \<Rightarrow> Operation list" where
  "policy_delete_ops pg name acls ownedACLs =
     map (\<lambda>acl. mutate_acls (pg_UUID pg) MutateDelete [acl_UUID acl])
       (filter (\<lambda>acl. \<not> ovsResourceOwnedBy (acl_ExternalIDs acl) ''SecurityPolicy'' name) acls)
   @ (if ownedACLs \<noteq> [] then [mutate_acls (pg_UUID pg) MutateDelete ownedACLs] else [])
   @ map (delete_op tableACL) ownedACLs @ [delete_op tablePortGroup (pg_UUID pg)]"

definition Policy_Delete :: "'w dbClient option \<Rightarrow> 'w \<Rightarrow> string \<Rightarrow> check \<times> 'w" where
  "Policy_Delete client w name =
     (case validateName ''security policy'' name of
        Some e \<Rightarrow> (Some e, w)
      | None \<Rightarrow>
          (case client of
             None \<Rightarrow> (Some ErrBackendUnavailable, w)
           | Some d \<Rightarrow>
               (case io_bind (GetPortGroup d w name) (\<lambda>pg w.
                  io_guard (requireV2OwnedExternalIDs (pg_ExternalIDs pg) ''SecurityPolicy'' name dbOVNNorthbound tablePortGroup ''delete'' name) w (\<lambda>w.
                  io_bind (selectACLsByUUID d w (pg_ACLs pg) name) (\<lambda>acls w.
                    (res_bind (owned_acls name acls) (\<lambda>owned. Inr (policy_delete_ops pg name acls (map acl_UUID owned))), w)))) of
                  (Inl e, w) \<Rightarrow> (Some e, w)
                | (Inr ops, w) \<Rightarrow> nb_commit d w tablePortGroup ''delete'' name ops (map int [0..<length ops]))))"

section \<open>Reconciling\<close>

definition requireExistingPortGroupOwned :: "'w dbClient option \<Rightarrow> 'w \<Rightarrow> string \<Rightarrow> string \<Rightarrow> check \<times> 'w" where
  "requireExistingPortGroupOwned client w name oper =
     (case client of
        None \<Rightarrow> (None, w)
      | Some d \<Rightarrow>
          (case nb_selectRows d w tablePortGroup (conditionName name) nbPortGroupColumns name of
             (Inl e, w) \<Rightarrow> (Some e, w)
           | (Inr [], w) \<Rightarrow> (None, w)
           | (Inr (row # _), w) \<Rightarrow>
               (requireV2OwnedExternalIDs (rowStringMapValue row colExternalIDs) ''SecurityPolicy'' name dbOVNNorthbound tablePortGroup oper name, w)))"

definition Policy_current :: "'w dbClient option \<Rightarrow> 'w \<Rightarrow> string \<Rightarrow> SecurityPolicy option res \<times> 'w" where
  "Policy_current client w name =
     (if Option.is_none client then (Inr None, w)
      else io_bind (found (Policy_Get client w name)) (\<lambda>p w. (Inr (map_option normalizeSecurityPolicy p), w)))"

definition Policy_diff :: "'w dbClient option \<Rightarrow> 'w \<Rightarrow> string \<Rightarrow> SecurityPolicy \<Rightarrow> intent_value Diff res \<times> 'w" where
  "Policy_diff client w name spec =
     (let desired = normalizeSecurityPolicy spec in
      io_bind (Policy_current client w name) (\<lambda>current w.
        (Inr (case current of
           None \<Rightarrow> create_diff ''SecurityPolicy'' (sp_Name desired) (IPolicy desired)
         | Some c \<Rightarrow>
             appendFieldDiff (appendFieldDiff (appendFieldDiff (appendFieldDiff (new_diff ''SecurityPolicy'' (sp_Name desired))
               ''subject'' (IString (sp_Subject c)) (IString (sp_Subject desired)))
               ''rules'' (IRules (sp_Rules c)) (IRules (sp_Rules desired)))
               ''owner'' (IOwner (sp_Owner c)) (IOwner (sp_Owner desired)))
               ''labels'' (ILabels (sp_Labels c)) (ILabels (sp_Labels desired))), w)))"

definition with_subject :: "string \<Rightarrow> string_map \<Rightarrow> string_map" where
  "with_subject subject ids = (if subject \<noteq> [] then fmupd (ExternalIDPrefix @ ''subject'') subject ids else ids)"

text \<open>The operations that drop the present ACLs of the policy: their references, and those with a complete mark.\<close>

definition acl_remove_ops :: "string \<Rightarrow> PortGroup \<Rightarrow> ACL list \<Rightarrow> Operation list" where
  "acl_remove_ops name current acls =
     (let mine = filter (\<lambda>acl. go_get (acl_ExternalIDs acl) ExternalIDKindKey = ''SecurityPolicy'' \<and> go_get (acl_ExternalIDs acl) ExternalIDNameKey = name) acls;
          complete = filter (\<lambda>acl. requireV2OwnedExternalIDs (acl_ExternalIDs acl) ''SecurityPolicy'' name dbOVNNorthbound tableACL ''ensure''
                       (acl_UUID acl) = None) mine in
      (if mine \<noteq> [] then [mutate_acls (pg_UUID current) MutateDelete (map acl_UUID mine)] else []) @ map (\<lambda>acl. delete_op tableACL (acl_UUID acl)) complete)"

definition rule_external_ids :: "SecurityPolicy \<Rightarrow> nat \<Rightarrow> SecurityRule \<Rightarrow> string_map res" where
  "rule_external_ids spec i r =
     res_bind (intentExternalIDs ''SecurityPolicy'' (sp_Name spec) (sp_Owner spec) (sp_Labels spec)) (\<lambda>ids.
       let ids = fmupd (ExternalIDPrefix @ ''rule-index'') (strconv_Itoa (int i)) (with_subject (sp_Subject spec) ids) in
       Inr (if sr_Name r \<noteq> [] then fmupd (ExternalIDPrefix @ ''rule-name'') (sr_Name r) ids else ids))"

definition insert_acl :: "ovsdb_lib \<Rightarrow> string \<Rightarrow> string \<Rightarrow> SecurityRule \<Rightarrow> string_map \<Rightarrow> Operation" where
  "insert_acl lib uuid subject r ids =
     (op_of ''insert'' tableACL)\<lparr>op_UUIDName := uuid, op_Row := inlineACLRow lib (rule_acl_spec subject r ids)\<rparr>"

fun insert_acls :: "ovsdb_lib \<Rightarrow> 'w dbClient \<Rightarrow> SecurityPolicy \<Rightarrow> nat \<Rightarrow> SecurityRule list \<Rightarrow> 'w \<Rightarrow> (Operation list \<times> string list) res \<times> 'w" where
  "insert_acls lib d spec i [] w = (Inr ([], []), w)"
| "insert_acls lib d spec i (r # rs) w =
     (case rule_external_ids spec i r of
        Inl e \<Rightarrow> (Inl e, w)
      | Inr ids \<Rightarrow>
          (case namedUUID d w ''acl'' of (uuid, w) \<Rightarrow>
           io_bind (insert_acls lib d spec (Suc i) rs w) (\<lambda>(ops, refs) w.
             (Inr (insert_acl lib uuid (sp_Subject spec) r ids # ops, uuid # refs), w))))"

definition securityPolicyACLOps :: "ovsdb_lib \<Rightarrow> 'w dbClient \<Rightarrow> 'w \<Rightarrow> SecurityPolicy \<Rightarrow> (Operation list \<times> string list) res \<times> 'w" where
  "securityPolicyACLOps lib d w spec =
     io_bind (found (GetPortGroup d w (sp_Name spec))) (\<lambda>current w.
     io_bind (case current of
         None \<Rightarrow> (Inr [], w)
       | Some pg \<Rightarrow> io_bind (selectACLsByUUID d w (pg_ACLs pg) (sp_Name spec)) (\<lambda>acls w. (Inr (acl_remove_ops (sp_Name spec) pg acls), w)))
     (\<lambda>removeOps w.
     io_bind (insert_acls lib d spec 0 (sp_Rules spec) w) (\<lambda>(insertOps, aclRefs) w.
       (Inr (removeOps @ insertOps
           @ (case current of Some pg \<Rightarrow> if aclRefs \<noteq> [] then [mutate_acls (pg_UUID pg) MutateInsert aclRefs] else [] | None \<Rightarrow> []), aclRefs), w))))"

definition ensurePortGroupIntent :: "ovsdb_lib \<Rightarrow> 'w dbClient \<Rightarrow> 'w \<Rightarrow> string \<Rightarrow> string_map \<Rightarrow> string list \<Rightarrow> Operation list \<Rightarrow> check \<times> 'w" where
  "ensurePortGroupIntent lib d w name ids aclRefs preOps =
     (case nb_selectRows d w tablePortGroup (conditionName name) [colUUID] name of
        (Inl e, w) \<Rightarrow> (Some e, w)
      | (Inr rows, w) \<Rightarrow>
          let ops = preOps @ (case rows of
              [] \<Rightarrow> [(op_of ''insert'' tablePortGroup)\<lparr>op_Row :=
                       nbSetUUIDSet (setRowMap lib (fmupd colName (AString name) fmempty) colExternalIDs ids) colACLs aclRefs\<rparr>]
            | row # _ \<Rightarrow>
                let mutations = nbAppendMapMutation lib [] colExternalIDs ids in
                if mutations = [] then []
                else [(op_of ''mutate'' tablePortGroup)\<lparr>op_Where := conditionUUID (rowUUIDValue row), op_Mutations := mutations\<rparr>]) in
          if ops = [] then (None, w)
          else nb_commit d w tablePortGroup ''ensure'' name ops (mustAffectNonInsertOps (map op_Op ops)))"

definition Policy_reconcileOVSDB :: "ovsdb_lib \<Rightarrow> 'w dbClient \<Rightarrow> 'w \<Rightarrow> SecurityPolicy \<Rightarrow> check \<times> 'w" where
  "Policy_reconcileOVSDB lib d w spec =
     (case after_check (requireExistingPortGroupOwned (Some d) w (sp_Name spec) ''ensure'') (\<lambda>w.
        case intentExternalIDs ''SecurityPolicy'' (sp_Name spec) (sp_Owner spec) (sp_Labels spec) of
          Inl e \<Rightarrow> (Inl e, w)
        | Inr ids \<Rightarrow> io_bind (securityPolicyACLOps lib d w spec) (\<lambda>(preOps, aclRefs) w. (Inr (ids, preOps, aclRefs), w))) of
        (Inl e, w) \<Rightarrow> (Some e, w)
      | (Inr (ids, preOps, aclRefs), w) \<Rightarrow>
          ensurePortGroupIntent lib d w (sp_Name spec) (with_subject (sp_Subject spec) ids) aclRefs preOps)"

definition Policy_Plan :: "SecurityPolicy \<Rightarrow> Plan res" where
  "Policy_Plan spec = guard_res (SecurityPolicy_Validate spec) (Inr (ensure_plan ''SecurityPolicy'' (sp_Name spec) ''validate and plan ACL or group policy intent''))"

text \<open>The name of the reference is \<open>name\<close>; the builder's specification has its own.\<close>

definition Policy_DryRun :: "'w dbClient option \<Rightarrow> 'w \<Rightarrow> string \<Rightarrow> SecurityPolicy \<Rightarrow> intent_value DryRunResult res \<times> 'w" where
  "Policy_DryRun client w name spec =
     (case Policy_Plan spec of
        Inl e \<Rightarrow> (Inl e, w)
      | Inr plan \<Rightarrow> io_bind (Policy_diff client w name spec) (\<lambda>diff w. (Inr \<lparr>dry_Plan = plan, dry_Diff = diff\<rparr>, w)))"

definition Policy_Reconcile :: "ovsdb_lib \<Rightarrow> 'w dbClient option \<Rightarrow> 'w \<Rightarrow> string \<Rightarrow> SecurityPolicy \<Rightarrow> intent_value ReconcileResult res \<times> 'w" where
  "Policy_Reconcile lib client w name spec =
     (case Policy_Plan spec of
        Inl e \<Rightarrow> (Inl e, w)
      | Inr plan \<Rightarrow>
          after_check (requireExistingPortGroupOwned client w (sp_Name spec) ''ensure'') (\<lambda>w.
          io_bind (Policy_diff client w name spec) (\<lambda>diff w. apply_diff client plan diff (\<lambda>d w. Policy_reconcileOVSDB lib d w spec) w)))"

definition Policy_Apply :: "ovsdb_lib \<Rightarrow> 'w dbClient option \<Rightarrow> 'w \<Rightarrow> string \<Rightarrow> SecurityPolicy \<Rightarrow> check \<times> 'w" where
  "Policy_Apply lib client w name policy0 =
     (if Option.is_none client then (Some ErrBackendUnavailable, w)
      else let policy = (if sp_Name policy0 = [] then policy0\<lparr>sp_Name := name\<rparr> else policy0) in
        if sp_Name policy \<noteq> name
        then (Some (wrap_err ErrorConflict dbOVNNorthbound tablePortGroup ''apply'' (sp_Name policy) ''security policy name does not match reference'' None), w)
        else io_check (Policy_Reconcile lib client w name policy))"

definition Policy_Execute :: "ovsdb_lib \<Rightarrow> 'w dbClient option \<Rightarrow> 'w \<Rightarrow> string \<Rightarrow> SecurityPolicy \<Rightarrow> check \<times> 'w" where
  "Policy_Execute lib client w name spec = io_check (Policy_Reconcile lib client w name spec)"

section \<open>Patching\<close>

record SecurityPolicyPatch =
  spp_Subject :: "string option"
  spp_ReplaceRules :: bool
  spp_Rules :: "SecurityRule list"
  spp_AddRules :: "SecurityRule list"
  spp_RemoveRules :: "string list"
  spp_Owner :: "OwnerRef option"
  spp_Labels :: Labels
  spp_RemoveLabels :: "string list"

definition patched_policy :: "SecurityPolicy \<Rightarrow> SecurityPolicyPatch \<Rightarrow> SecurityPolicy" where
  "patched_policy current patch =
     current\<lparr>sp_Subject := (case spp_Subject patch of Some s \<Rightarrow> s | None \<Rightarrow> sp_Subject current),
       sp_Rules := removeSecurityRules ((if spp_ReplaceRules patch then spp_Rules patch else sp_Rules current) @ spp_AddRules patch) (spp_RemoveRules patch),
       sp_Owner := (case spp_Owner patch of Some ow \<Rightarrow> ow | None \<Rightarrow> sp_Owner current),
       sp_Labels := patchLabels (sp_Labels current) (spp_Labels patch) (spp_RemoveLabels patch)\<rparr>"

definition Policy_Patch :: "ovsdb_lib \<Rightarrow> 'w dbClient option \<Rightarrow> 'w \<Rightarrow> string \<Rightarrow> SecurityPolicyPatch \<Rightarrow> SecurityPolicy res \<times> 'w" where
  "Policy_Patch lib client w name patch =
     io_bind (Policy_Get client w name) (\<lambda>current w.
       let nxt = patched_policy current patch in
       after_check (Policy_Apply lib client w name nxt) (\<lambda>w.
         let removeKeys = labelDeleteKeys (spp_RemoveLabels patch) (spp_Labels patch)
               @ (if spp_Subject patch = Some [] then [ExternalIDPrefix @ ''subject''] else []) in
         after_check (case client of None \<Rightarrow> (None, w) | Some d \<Rightarrow> deleteExternalIDKeys lib d w tablePortGroup name (conditionName name) removeKeys)
           (\<lambda>w. (Inr nxt, w))))"

end
