(* ===== verification/Careful_Client.thy ===== *)
theory Careful_Client
  imports Intent_Plans Fluent_Props
begin

text \<open>
  What the intents may delete. The locale \<open>careful_client\<close> states what it takes to send deletions
  that are justified by rows the server returned before, and carries the rules for the steps of the
  Northbound client; its interpretation is a client that records every exchange with the server.
\<close>

section \<open>Justified deletions\<close>

text \<open>
  What the server has answered so far is a relation between selections and the rows returned for them. A deletion
  selects by UUID a row that was returned before for the same table and that is ours: \<open>ours row i\<close> says that the row
  is ours and its UUID is \<open>i\<close>.
\<close>

type_synonym answered = "Operation \<Rightarrow> row list \<Rightarrow> bool"

definition shown :: "answered \<Rightarrow> string \<Rightarrow> row \<Rightarrow> bool" where
  "shown S tab row \<longleftrightarrow> (\<exists>p rows. S p rows \<and> op_Table p = tab \<and> row \<in> set rows)"

lemma shownI: "S p rows \<Longrightarrow> op_Table p = tab \<Longrightarrow> row \<in> set rows \<Longrightarrow> shown S tab row"
  by (auto simp: shown_def)

lemma shown_mono: "shown S tab row \<Longrightarrow> S \<le> S' \<Longrightarrow> shown S' tab row"
  by (auto simp: shown_def le_fun_def)

definition justified :: "(row \<Rightarrow> string \<Rightarrow> bool) \<Rightarrow> answered \<Rightarrow> Operation \<Rightarrow> bool" where
  "justified ours S p \<longleftrightarrow>
     (op_Op p = ''delete'' \<longrightarrow> (\<exists>row i. shown S (op_Table p) row \<and> op_Where p = conditionUUID i \<and> ours row i))"

lemma justified_mono: "justified ours S p \<Longrightarrow> S \<le> S' \<Longrightarrow> justified ours S' p"
  by (auto simp: justified_def dest: shown_mono)

lemma justified_other [simp]: "op_Op p \<noteq> ''delete'' \<Longrightarrow> justified ours S p"
  by (simp add: justified_def)

lemma justified_delete: "shown S tab row \<Longrightarrow> ours row i \<Longrightarrow> justified ours S (delete_op tab i)"
  by (auto simp: justified_def delete_op_def op_of_def)

text \<open>The row carries the complete mark of a kind and name.\<close>

definition owned_row :: "string \<Rightarrow> string \<Rightarrow> row \<Rightarrow> string \<Rightarrow> bool" where
  "owned_row kind name row i \<longleftrightarrow> i = rowUUIDValue row \<and> v2ResourceOwnedBy (rowStringMapValue row colExternalIDs) kind name"

lemma require_marks: "requireV2OwnedExternalIDs ids kind name db tab oper object = None \<Longrightarrow> \<not> blank name \<or> go_get ids ExternalIDNameKey = name \<Longrightarrow>
    v2ResourceOwnedBy ids kind name"
  by (auto simp: requireV2OwnedExternalIDs_def v2ResourceOwnedBy_def Let_def split: if_splits)

section \<open>Outcomes\<close>

text \<open>
  From a good state a computation ends in a good state, where all that was seen before is still
  seen, and a result satisfies \<open>Q\<close>.
\<close>

definition ensures :: "('w \<Rightarrow> bool) \<Rightarrow> ('w \<Rightarrow> answered) \<Rightarrow> 'w \<Rightarrow> 'a res \<times> 'w \<Rightarrow> ('a \<Rightarrow> 'w \<Rightarrow> bool) \<Rightarrow> bool" where
  "ensures good seen u m Q \<longleftrightarrow>
     (good u \<longrightarrow> good (snd m) \<and> seen u \<le> seen (snd m) \<and> (\<forall>x. fst m = Inr x \<longrightarrow> Q x (snd m)))"

definition keeps :: "('w \<Rightarrow> bool) \<Rightarrow> ('w \<Rightarrow> answered) \<Rightarrow> 'w \<Rightarrow> 'w \<Rightarrow> bool" where
  "keeps good seen u v \<longleftrightarrow> (good u \<longrightarrow> good v \<and> seen u \<le> seen v)"

lemma keeps_refl [simp]: "keeps good seen u u"
  by (simp add: keeps_def)

lemma keeps_trans: "keeps good seen u v \<Longrightarrow> keeps good seen v w \<Longrightarrow> keeps good seen u w"
  by (auto simp: keeps_def)

lemma ensures_keeps: "ensures good seen u m Q \<Longrightarrow> keeps good seen u (snd m)"
  by (auto simp: ensures_def keeps_def)

lemma ensures_pure [simp]: "ensures good seen u (r, u) Q \<longleftrightarrow> (good u \<longrightarrow> (\<forall>x. r = Inr x \<longrightarrow> Q x u))"
  by (auto simp: ensures_def)

lemma ensures_weaken: "ensures good seen u m P \<Longrightarrow> (\<And>x v. P x v \<Longrightarrow> Q x v) \<Longrightarrow> ensures good seen u m Q"
  by (auto simp: ensures_def)

lemma ensures_bind:
  assumes "ensures good seen u m P" "\<And>x v. P x v \<Longrightarrow> seen u \<le> seen v \<Longrightarrow> ensures good seen v (k x v) Q"
  shows "ensures good seen u (io_bind m k) Q"
proof (cases m)
  case (Pair r v)
  show ?thesis
  proof (cases r)
    case (Inr x)
    then show ?thesis using assms(1) assms(2) [of x v] by (auto simp: ensures_def Pair)
  qed (use assms(1) in \<open>auto simp: ensures_def Pair\<close>)
qed

lemma ensures_guard: "(c = None \<Longrightarrow> ensures good seen u (k u) Q) \<Longrightarrow> ensures good seen u (io_guard c u k) Q"
  by (cases c) (auto simp: ensures_def)

lemma ensures_collect:
  assumes "\<And>u x. ensures good seen u (f u x) (\<lambda>ys v. \<forall>y\<in>set ys. Q y v)" "\<And>y u v. Q y u \<Longrightarrow> seen u \<le> seen v \<Longrightarrow> Q y v"
  shows "ensures good seen u (io_collect f u xs) (\<lambda>ys v. \<forall>y\<in>set ys. Q y v)"
proof (induction xs arbitrary: u)
  case (Cons x xs)
  show ?case unfolding io_collect.simps
    by (rule ensures_bind [OF assms(1)], rule ensures_bind [OF Cons]) (auto intro: assms(2))
qed simp

lemma ensures_found: "ensures good seen u m Q \<Longrightarrow> ensures good seen u (found m) (\<lambda>x v. case x of None \<Rightarrow> True | Some y \<Rightarrow> Q y v)"
  by (cases m; cases "fst m") (auto simp: ensures_def found_def split: if_splits)

lemma ensures_after_check:
  assumes "keeps good seen u (snd m)" "\<And>v. m = (None, v) \<Longrightarrow> seen u \<le> seen v \<Longrightarrow> ensures good seen v (k v) Q"
  shows "ensures good seen u (after_check m k) Q"
proof (cases m)
  case (Pair c v)
  show ?thesis
  proof (cases c)
    case None
    show ?thesis
    proof (cases "good u")
      case True
      then have "good v" "seen u \<le> seen v" using assms(1) by (auto simp: Pair keeps_def)
      then show ?thesis using assms(2) [of v] by (auto simp: Pair None after_check_def ensures_def)
    qed (simp add: ensures_def)
  qed (use assms(1) in \<open>auto simp: Pair after_check_def ensures_def keeps_def\<close>)
qed

lemma ensures_apply_diff:
  assumes "\<And>d u. client = Some d \<Longrightarrow> keeps good seen u (snd (run d u))"
  shows "ensures good seen u (apply_diff client plan diff run u) (\<lambda>_ _. True)"
  using assms by (cases client) (auto simp: apply_diff_def intro!: ensures_after_check)

lemma ensures_True: "keeps good seen u (snd m) \<Longrightarrow> ensures good seen u m (\<lambda>_ _. True)"
  by (auto simp: ensures_def keeps_def)

definition no_delete :: "Operation list \<Rightarrow> bool" where
  "no_delete ops \<longleftrightarrow> list_all (\<lambda>p. op_Op p \<noteq> ''delete'') ops"

lemma no_delete_simps [simp]: "no_delete []" "no_delete (xs @ ys) \<longleftrightarrow> no_delete xs \<and> no_delete ys"
  "no_delete (p # ps) \<longleftrightarrow> op_Op p \<noteq> ''delete'' \<and> no_delete ps"
  by (simp_all add: no_delete_def)

lemma op_of_kind [simp]: "op_Op (op_of kind tab) = kind"
  by (simp add: op_of_def)

section \<open>Careful clients\<close>

locale careful_client =
  fixes d :: "'w dbClient"
    and good :: "'w \<Rightarrow> bool"
    and seen :: "'w \<Rightarrow> answered"
    and okay :: "answered \<Rightarrow> Operation \<Rightarrow> bool"
  assumes okay_mono: "okay S p \<Longrightarrow> S \<le> S' \<Longrightarrow> okay S' p"
    and okay_other: "op_Op p \<noteq> ''delete'' \<Longrightarrow> okay S p"
    and sends: "list_all (okay (seen u)) ops \<Longrightarrow> db_Transact d u ops = (r, v) \<Longrightarrow> keeps good seen u v"
    and answers: "db_Transact d u [p] = (Inr (x # xs), v) \<Longrightarrow> op_Op p = ''select'' \<Longrightarrow> seen v p (res_Rows x)"
    and reconnects: "db_reconnect d = Some f \<Longrightarrow> f u = (c, v) \<Longrightarrow> keeps good seen u v"
    and waits: "db_backoff d u = (c, v) \<Longrightarrow> keeps good seen u v"
    and draws: "db_NewString d u = (s, v) \<Longrightarrow> keeps good seen u v"
begin

lemmas okay_quiet [simp] = okay_other

lemma okay_all_mono: "list_all (okay S) ops \<Longrightarrow> S \<le> S' \<Longrightarrow> list_all (okay S') ops"
  by (auto simp: list_all_iff intro: okay_mono)

lemma no_delete_okay: "no_delete ops \<Longrightarrow> list_all (okay S) ops"
  by (auto simp: no_delete_def list_all_iff intro: okay_other)

lemma reconnect_keeps: "reconnectAfterDisconnect d u tab oper object = (c, v) \<Longrightarrow> keeps good seen u v"
proof (cases "db_reconnect d")
  case (Some f)
  obtain c1 u1 where b: "db_backoff d u = (c1, u1)" by (cases "db_backoff d u")
  obtain c2 u2 where f: "f u1 = (c2, u2)" by (cases "f u1")
  assume "reconnectAfterDisconnect d u tab oper object = (c, v)"
  then have "v = u1 \<or> v = u2"
    by (auto simp: reconnectAfterDisconnect_def Some b f split: option.splits if_splits)
  then show ?thesis using waits [OF b] keeps_trans [OF waits [OF b] reconnects [OF Some f]] by blast
qed (auto simp: reconnectAfterDisconnect_def)

text \<open>A transaction is sent at most twice; what justifies it the first time also does the second time.\<close>

lemma transact_sent:
  "transact d u tab oper object ops = (r, v) \<Longrightarrow>
     v = u \<and> (\<exists>e. r = Inl e)
   \<or> (\<exists>r1. db_Transact d u ops = (r1, v) \<and> (r = transact_result d tab oper object r1 \<or> (\<exists>e. r = Inl e)))
   \<or> (\<exists>r1 u1 c u2. db_Transact d u ops = (r1, u1) \<and> reconnectAfterDisconnect d u1 tab oper object = (c, u2)
        \<and> (v = u2 \<and> (\<exists>e. r = Inl e) \<or> (\<exists>r3. db_Transact d u2 ops = (r3, v) \<and> r = transact_result d tab oper object r3)))"
  unfolding transact_def
  by (cases "check_all (validate_operation d) ops"; cases "db_Transact d u ops"; cases "fst (db_Transact d u ops)")
    (auto split: if_splits option.splits prod.splits)

lemma transact_keeps:
  assumes ops: "list_all (okay (seen u)) ops" and t: "transact d u tab oper object ops = (r, v)"
  shows "keeps good seen u v"
proof -
  have s: "keeps good seen u w" if "db_Transact d u ops = (r1, w)" for r1 w by (rule sends [OF ops that])
  have again: "keeps good seen u w" if "db_Transact d u ops = (r1, u1)" "reconnectAfterDisconnect d u1 tab oper object = (c, u2)"
    "db_Transact d u2 ops = (r3, w)" for r1 u1 c u2 r3 w
  proof -
    have k: "keeps good seen u u2" by (rule keeps_trans [OF s [OF that(1)] reconnect_keeps [OF that(2)]])
    show ?thesis
    proof (cases "good u")
      case True
      then have "seen u \<le> seen u2" using k by (simp add: keeps_def)
      then have "list_all (okay (seen u2)) ops" by (rule okay_all_mono [OF ops])
      then show ?thesis using keeps_trans [OF k sends [OF _ that(3)]] by blast
    qed (simp add: keeps_def)
  qed
  from transact_sent [OF t] show ?thesis
    using s again keeps_trans [OF s reconnect_keeps] by (elim disjE exE conjE) (simp, blast+)
qed

lemma transact_result_Inr: "Inr y = transact_result d tab oper object r \<Longrightarrow> r = Inr y"
  by (cases r) (auto simp: transact_result_def guard_res_def split: option.splits)

lemma transact_answers:
  assumes "transact d u tab oper object [p] = (Inr (x # xs), v)" "op_Op p = ''select''"
  shows "seen v p (res_Rows x)"
proof -
  have "\<exists>u'. db_Transact d u' [p] = (Inr (x # xs), v)"
    using transact_sent [OF assms(1)] by (auto dest!: transact_result_Inr)
  then show ?thesis using answers assms(2) by blast
qed

lemma transact_select_ensures:
  assumes "op_Op p = ''select''"
  shows "ensures good seen u (transact d u tab oper object [p]) (\<lambda>results v. \<forall>x xs. results = x # xs \<longrightarrow> seen v p (res_Rows x))"
proof (cases "transact d u tab oper object [p]")
  case (Pair r v)
  have "keeps good seen u v" by (rule transact_keeps [OF _ Pair]) (simp add: assms okay_other)
  then show ?thesis using transact_answers [of u tab oper object p _ _ v] Pair assms by (auto simp: ensures_def keeps_def)
qed

lemma selectRows_ensures: "ensures good seen u (nb_selectRows d u tab c cols object) (\<lambda>rows v. \<forall>row\<in>set rows. shown (seen v) tab row)"
proof -
  let ?p = "(op_of ''select'' tab)\<lparr>op_Where := c, op_Columns := supportedColumns d tab cols\<rparr>"
  have "ensures good seen v (transact d v tab ''select'' object [?p]) (\<lambda>results v. \<forall>x xs. results = x # xs \<longrightarrow> seen v ?p (res_Rows x))" for v
    by (rule transact_select_ensures) (simp add: op_of_def)
  then show ?thesis unfolding nb_selectRows_def
    by (intro ensures_guard, rule ensures_bind) (auto simp: op_of_def split: list.splits intro: shownI)
qed

lemma commit_keeps:
  assumes "list_all (okay (seen u)) ops"
  shows "keeps good seen u (snd (nb_commit d u tab oper object ops idx))"
  using transact_keeps [OF assms, of tab oper object]
  by (cases "transact d u tab oper object ops"; cases "fst (transact d u tab oper object ops)") (auto simp: nb_commit_def)

lemma quiet_commit_keeps: "no_delete ops \<Longrightarrow> keeps good seen u (snd (nb_commit d u tab oper object ops idx))"
  by (rule commit_keeps) (rule no_delete_okay)

lemma GetPortGroup_ensures:
  "ensures good seen u (GetPortGroup d u name) (\<lambda>pg v. \<exists>row. shown (seen v) tablePortGroup row \<and> pg = portGroupFromRow row)"
  unfolding GetPortGroup_def by (rule ensures_bind [OF selectRows_ensures]) (auto split: list.splits)

lemma selectACLs_ensures:
  "ensures good seen u (selectACLsByUUID d u ids object) (\<lambda>acls v. \<forall>acl\<in>set acls. \<exists>row. shown (seen v) tableACL row \<and> acl = aclFromRow row)"
  unfolding selectACLsByUUID_def
  by (rule ensures_collect, rule ensures_bind [OF selectRows_ensures]) (auto dest: shown_mono split: list.splits)

lemma deleteMapKeys_keeps: "keeps good seen u (snd (deleteMapKeys lib d u tab object col c ks))"
proof -
  obtain r v where s: "nb_selectRows d u tab c [colUUID] object = (r, v)" by (cases "nb_selectRows d u tab c [colUUID] object")
  have k: "keeps good seen u v" using ensures_keeps [OF selectRows_ensures, of u tab c "[colUUID]" object] by (simp add: s)
  have "keeps good seen v (snd (nb_commit d v tab ''patch'' object [(op_of ''mutate'' tab)\<lparr>op_Where := x, op_Mutations := ms\<rparr>] idx))" for x ms idx
    by (rule quiet_commit_keeps) (simp add: op_of_def)
  then show ?thesis using k keeps_trans [OF k]
    by (auto simp: deleteMapKeys_def Let_def s split: sum.splits list.splits)
qed

text \<open>A computation that prepares operations, followed by their transaction.\<close>

lemma prepared_keeps:
  assumes m: "ensures good seen u m (\<lambda>x v. list_all (okay (seen v)) (ops x))"
  shows "keeps good seen u (snd (case m of (Inl e, w) \<Rightarrow> (Some e, w) | (Inr x, w) \<Rightarrow> nb_commit d w tab oper object (ops x) (idx x)))"
proof (cases m)
  case (Pair r v)
  have k: "keeps good seen u v" using ensures_keeps [OF m] by (simp add: Pair)
  show ?thesis
  proof (cases r)
    case (Inr x)
    show ?thesis
    proof (cases "good u")
      case True
      then have "list_all (okay (seen v)) (ops x)" using m by (simp add: ensures_def Pair Inr)
      then show ?thesis using keeps_trans [OF k commit_keeps] by (simp add: Pair Inr)
    qed (simp add: keeps_def)
  qed (simp add: Pair k)
qed

lemma select_keeps: "nb_selectRows d u tab c cols object = (r, v) \<Longrightarrow> keeps good seen u v"
  using ensures_keeps [OF selectRows_ensures, of u tab c cols object] by simp

lemma ref_select_ensures:
  assumes "tr_db r = Some d" "op_Op p = ''select''"
  shows "ensures good seen u (ref_transact r u tab oper object [p]) (\<lambda>_ _. True)"
proof -
  have "keeps good seen u (snd (transact d u tab oper object [p]))"
    by (rule transact_keeps [OF _ prod.collapse [symmetric]]) (simp add: assms(2))
  then show ?thesis by (simp add: ref_transact_def assms(1) ensures_True)
qed

lemma fluent_select_ensures: "tr_db r = Some d \<Longrightarrow> ensures good seen u (selectRows r u c cols) (\<lambda>_ _. True)"
  unfolding selectRows_def Let_def
  by (intro ensures_guard, rule ensures_bind, rule ref_select_ensures) simp_all

lemma root_ensures: "tr_db r = Some d \<Longrightarrow> ensures good seen u (openVSwitchUUID r u) (\<lambda>_ _. True)"
  unfolding openVSwitchUUID_def
  by (rule ensures_bind, rule ref_select_ensures) (auto split: list.splits)

lemma named_keeps: "namedUUID d u p = (s, v) \<Longrightarrow> keeps good seen u v"
  by (auto simp: namedUUID_def split: prod.splits dest: draws)

end

section \<open>Recorded exchanges\<close>

type_synonym exchange = "Operation list \<times> Result list res"

definition recorded :: "'w dbClient \<Rightarrow> ('w \<times> exchange list) dbClient" where
  "recorded d = \<lparr>db_database = db_database d, db_schema = db_schema d, db_hasExecutor = (\<lambda>w. db_hasExecutor d (fst w)),
     db_Transact = (\<lambda>(w, log) ops. case db_Transact d w ops of (r, w) \<Rightarrow> (r, w, log @ [(ops, r)])),
     db_reconnect = map_option (\<lambda>f (w, log). case f w of (c, w) \<Rightarrow> (c, w, log)) (db_reconnect d),
     db_backoff = (\<lambda>(w, log). case db_backoff d w of (c, w) \<Rightarrow> (c, w, log)),
     db_NewString = (\<lambda>(w, log). case db_NewString d w of (s, w) \<Rightarrow> (s, w, log)),
     db_rawRow = db_rawRow d\<rparr>"

text \<open>The rows returned by a selection.\<close>

fun returned :: "exchange \<Rightarrow> answered" where
  "returned ([p], Inr (x # xs)) q rows \<longleftrightarrow> op_Op p = ''select'' \<and> q = p \<and> rows = res_Rows x"
| "returned _ q rows \<longleftrightarrow> False"

definition returned_in :: "exchange list \<Rightarrow> answered" where
  "returned_in log q rows \<longleftrightarrow> (\<exists>x\<in>set log. returned x q rows)"

text \<open>Every operation of the log is allowed by the exchanges before it.\<close>

definition allowed :: "(answered \<Rightarrow> Operation \<Rightarrow> bool) \<Rightarrow> exchange list \<Rightarrow> bool" where
  "allowed okay log \<longleftrightarrow> (\<forall>i < length log. list_all (okay (returned_in (take i log))) (fst (log ! i)))"

abbreviation deletes_only :: "(row \<Rightarrow> string \<Rightarrow> bool) \<Rightarrow> exchange list \<Rightarrow> bool" where
  "deletes_only ours \<equiv> allowed (justified ours)"

lemma allowed_Nil [simp]: "allowed okay []"
  by (simp add: allowed_def)

lemma allowed_snoc [simp]:
  "allowed okay (log @ [x]) \<longleftrightarrow> allowed okay log \<and> list_all (okay (returned_in log)) (fst x)"
  by (auto simp: allowed_def nth_append less_Suc_eq)

lemma recorded_careful:
  fixes d :: "'w dbClient"
  assumes "\<And>S S' p. okay S p \<Longrightarrow> S \<le> S' \<Longrightarrow> okay S' p" "\<And>S p. op_Op p \<noteq> ''delete'' \<Longrightarrow> okay S p"
  shows "careful_client (recorded d) (\<lambda>w. allowed okay (snd w)) (\<lambda>w. returned_in (snd w)) okay"
proof unfold_locales
  fix u v :: "'w \<times> exchange list" and ops r
  assume "list_all (okay (returned_in (snd u))) ops" "db_Transact (recorded d) u ops = (r, v)"
  then show "keeps (\<lambda>w. allowed okay (snd w)) (\<lambda>w. returned_in (snd w)) u v"
    by (cases u) (auto simp: recorded_def keeps_def returned_in_def le_fun_def split: prod.splits)
next
  fix u v :: "'w \<times> exchange list" and p x xs
  assume "db_Transact (recorded d) u [p] = (Inr (x # xs), v)" "op_Op p = ''select''"
  then show "returned_in (snd v) p (res_Rows x)"
    by (cases u) (auto simp: recorded_def returned_in_def split: prod.splits)
qed (use assms in \<open>auto simp: recorded_def keeps_def split: prod.splits\<close>)

interpretation rec: careful_client "recorded d" "\<lambda>w. deletes_only ours (snd w)" "\<lambda>w. returned_in (snd w)" "justified ours" for d :: "'w dbClient" and ours
  by (rule recorded_careful) (auto intro: justified_mono)

end
