(* ===== verification/Policy_Props.thy ===== *)
theory Policy_Props
  imports Policy_Intent Careful_Client
begin

text \<open>
  What the operations of security policies delete: rows that the server showed before with the
  complete mark of the policy, whatever the connection does in between.
\<close>

section \<open>Steps of the operations\<close>

lemma owned_acls_sound:
  "owned_acls name acls = Inr owned \<Longrightarrow>
     \<forall>acl\<in>set owned. acl \<in> set acls \<and> ovsResourceOwnedBy (acl_ExternalIDs acl) ''SecurityPolicy'' name
        \<and> requireV2OwnedExternalIDs (acl_ExternalIDs acl) ''SecurityPolicy'' name dbOVNNorthbound tableACL ''delete'' (acl_UUID acl) = None"
proof -
  let ?f = "\<lambda>owned acl. if \<not> ovsResourceOwnedBy (acl_ExternalIDs acl) ''SecurityPolicy'' name then Inr owned
       else guard_res (requireV2OwnedExternalIDs (acl_ExternalIDs acl) ''SecurityPolicy'' name dbOVNNorthbound tableACL ''delete'' (acl_UUID acl))
              (Inr (owned @ [acl]))"
  let ?ok = "\<lambda>acl. ovsResourceOwnedBy (acl_ExternalIDs acl) ''SecurityPolicy'' name
        \<and> requireV2OwnedExternalIDs (acl_ExternalIDs acl) ''SecurityPolicy'' name dbOVNNorthbound tableACL ''delete'' (acl_UUID acl) = None"
  have "\<forall>acl\<in>set owned. acl \<in> set acc \<or> acl \<in> set acls \<and> ?ok acl" if "res_fold ?f acc acls = Inr owned" for acc owned
    using that
  proof (induction acls arbitrary: acc)
    case (Cons acl acls)
    then show ?case
      by (cases "ovsResourceOwnedBy (acl_ExternalIDs acl) ''SecurityPolicy'' name";
          cases "requireV2OwnedExternalIDs (acl_ExternalIDs acl) ''SecurityPolicy'' name dbOVNNorthbound tableACL ''delete'' (acl_UUID acl)")
        fastforce+
  qed simp
  then show "owned_acls name acls = Inr owned \<Longrightarrow> \<forall>acl\<in>set owned. acl \<in> set acls \<and> ?ok acl"
    unfolding owned_acls_def by fastforce
qed

lemma mutate_acls_Op [simp]: "op_Op (mutate_acls i m us) = ''mutate''"
  by (simp add: mutate_acls_def op_of_def)

text \<open>Rows of ACLs and of the group that are ours.\<close>

lemma acl_row: "acl_UUID (aclFromRow row) = rowUUIDValue row" "acl_ExternalIDs (aclFromRow row) = rowStringMapValue row colExternalIDs"
  by (simp_all add: aclFromRow_def)

lemma group_row: "pg_UUID (portGroupFromRow row) = rowUUIDValue row" "pg_ExternalIDs (portGroupFromRow row) = rowStringMapValue row colExternalIDs"
  by (simp_all add: portGroupFromRow_def)

lemma justified_acl:
  assumes "shown S tableACL row" "acl = aclFromRow row" "v2ResourceOwnedBy (acl_ExternalIDs acl) kind name"
  shows "justified (owned_row kind name) S (delete_op tableACL (acl_UUID acl))"
proof -
  have "owned_row kind name row (acl_UUID acl)" using assms(2,3) by (simp add: owned_row_def acl_row)
  then show ?thesis using justified_delete [where row = row and S = S and tab = tableACL, OF assms(1)] by blast
qed

lemma justified_acls:
  assumes "\<forall>acl\<in>set acls. \<exists>row. shown S tableACL row \<and> acl = aclFromRow row" "\<And>acl. P acl \<Longrightarrow> v2ResourceOwnedBy (acl_ExternalIDs acl) kind name"
  shows "list_all (justified (owned_row kind name) S) (map (\<lambda>acl. delete_op tableACL (acl_UUID acl)) (filter P acls))"
  using assms justified_acl by (fastforce simp: list_all_iff)

lemma acl_remove_justified:
  assumes "\<forall>acl\<in>set acls. \<exists>row. shown S tableACL row \<and> acl = aclFromRow row"
  shows "list_all (justified (owned_row ''SecurityPolicy'' name) S) (acl_remove_ops name pg acls)"
  unfolding acl_remove_ops_def Let_def filter_filter list_all_append
proof
  show "list_all (justified (owned_row ''SecurityPolicy'' name) S) (map (\<lambda>acl. delete_op tableACL (acl_UUID acl))
      (filter (\<lambda>acl. (go_get (acl_ExternalIDs acl) ExternalIDKindKey = ''SecurityPolicy'' \<and> go_get (acl_ExternalIDs acl) ExternalIDNameKey = name)
         \<and> requireV2OwnedExternalIDs (acl_ExternalIDs acl) ''SecurityPolicy'' name dbOVNNorthbound tableACL ''ensure'' (acl_UUID acl) = None) acls))"
    by (rule justified_acls [where S = S, OF assms]) (erule conjE, erule require_marks, erule conjE, erule disjI2)
qed simp

lemma policy_delete_justified:
  assumes acls: "\<forall>acl\<in>set acls. \<exists>row. shown S tableACL row \<and> acl = aclFromRow row" and pg: "shown S tablePortGroup row" "pg = portGroupFromRow row"
    and marked: "requireV2OwnedExternalIDs (pg_ExternalIDs pg) ''SecurityPolicy'' name dbOVNNorthbound tablePortGroup oper object = None" "\<not> blank name"
    and owned: "owned_acls name acls = Inr owned"
  shows "list_all (justified (owned_row ''SecurityPolicy'' name) S) (policy_delete_ops pg name acls (map acl_UUID owned))"
proof -
  have "justified (owned_row ''SecurityPolicy'' name) S (delete_op tableACL (acl_UUID acl))" if acl: "acl \<in> set owned" for acl
  proof -
    obtain r where r: "shown S tableACL r" "acl = aclFromRow r" using acls owned_acls_sound [OF owned] acl by blast
    have "requireV2OwnedExternalIDs (acl_ExternalIDs acl) ''SecurityPolicy'' name dbOVNNorthbound tableACL ''delete'' (acl_UUID acl) = None"
      using owned_acls_sound [OF owned] acl by blast
    from require_marks [OF this] marked(2) show ?thesis by (intro justified_acl [where S = S, OF r]) simp
  qed
  moreover have "justified (owned_row ''SecurityPolicy'' name) S (delete_op tablePortGroup (pg_UUID pg))"
    by (rule justified_delete [where row = row])
      (use require_marks [OF marked(1)] marked(2) pg in \<open>simp_all add: owned_row_def group_row\<close>)
  ultimately show ?thesis by (auto simp: policy_delete_ops_def list_all_iff)
qed

context careful_client
begin

lemma policy_get_keeps: "keeps good seen u (snd (Policy_Get (Some d) u name))"
proof -
  have "ensures good seen u (Policy_Get (Some d) u name) (\<lambda>_ _. True)"
    unfolding Policy_Get_def option.case
    by (rule ensures_guard, rule ensures_bind [OF GetPortGroup_ensures], rule ensures_bind [OF selectACLs_ensures]) simp
  then show ?thesis by (rule ensures_keeps)
qed

lemma policy_delete_keeps:
  assumes ours: "okay = justified (owned_row ''SecurityPolicy'' name)"
  shows "keeps good seen u (snd (Policy_Delete (Some d) u name))"
proof (cases "blank name")
  case False
  let ?m = "io_bind (GetPortGroup d u name) (\<lambda>pg w.
      io_guard (requireV2OwnedExternalIDs (pg_ExternalIDs pg) ''SecurityPolicy'' name dbOVNNorthbound tablePortGroup ''delete'' name) w (\<lambda>w.
      io_bind (selectACLsByUUID d w (pg_ACLs pg) name) (\<lambda>acls w.
        (res_bind (owned_acls name acls) (\<lambda>owned. Inr (policy_delete_ops pg name acls (map acl_UUID owned))), w))))"
  have m: "ensures good seen u ?m (\<lambda>ops v. list_all (okay (seen v)) ops)"
  proof (rule ensures_bind [OF GetPortGroup_ensures], rule ensures_guard, rule ensures_bind [OF selectACLs_ensures])
    fix pg v acls w
    assume pg: "\<exists>row. shown (seen v) tablePortGroup row \<and> pg = portGroupFromRow row" and le: "seen v \<le> seen w"
      and marked: "requireV2OwnedExternalIDs (pg_ExternalIDs pg) ''SecurityPolicy'' name dbOVNNorthbound tablePortGroup ''delete'' name = None"
      and acls: "\<forall>acl\<in>set acls. \<exists>row. shown (seen w) tableACL row \<and> acl = aclFromRow row"
    obtain row where row: "shown (seen w) tablePortGroup row" "pg = portGroupFromRow row" using pg le by (auto dest: shown_mono)
    show "ensures good seen w (res_bind (owned_acls name acls) (\<lambda>owned. Inr (policy_delete_ops pg name acls (map acl_UUID owned))), w)
        (\<lambda>ops v. list_all (okay (seen v)) ops)"
      using policy_delete_justified [OF acls row marked False] by (cases "owned_acls name acls") (auto simp: ours)
  qed
  from prepared_keeps [OF m] show ?thesis using False by (simp add: Policy_Delete_def validateName_def)
qed (simp add: Policy_Delete_def validateName_def)

lemma require_group_keeps: "keeps good seen u (snd (requireExistingPortGroupOwned (Some d) u name oper))"
proof -
  obtain r v where s: "nb_selectRows d u tablePortGroup (conditionName name) nbPortGroupColumns name = (r, v)"
    by (cases "nb_selectRows d u tablePortGroup (conditionName name) nbPortGroupColumns name")
  have "keeps good seen u v"
    using ensures_keeps [OF selectRows_ensures, of u tablePortGroup "conditionName name" nbPortGroupColumns name] by (simp add: s)
  then show ?thesis by (auto simp: requireExistingPortGroupOwned_def s split: sum.splits list.splits)
qed

lemma insert_acls_ensures:
  "ensures good seen u (insert_acls lib d spec i rs u) (\<lambda>(ops, refs) v. list_all (okay (seen v)) ops)"
proof (induction rs arbitrary: i u)
  case (Cons r rs)
  show ?case
  proof (cases "rule_external_ids spec i r")
    case (Inr ids)
    obtain s v where n: "namedUUID d u ''acl'' = (s, v)" by (cases "namedUUID d u ''acl''")
    have "ensures good seen v (insert_acls lib d spec i (r # rs) u) (\<lambda>(ops, refs) v. list_all (okay (seen v)) ops)"
      unfolding insert_acls.simps Inr sum.case n prod.case
      by (rule ensures_bind [OF Cons]) (auto simp: insert_acl_def op_of_def)
    then show ?thesis using named_keeps [OF n] by (auto simp: ensures_def keeps_def)
  qed simp
qed simp

lemma acl_ops_ensures:
  assumes ours: "okay = justified (owned_row ''SecurityPolicy'' (sp_Name spec))"
  shows "ensures good seen u (securityPolicyACLOps lib d u spec) (\<lambda>(ops, refs) v. list_all (okay (seen v)) ops)"
  unfolding securityPolicyACLOps_def
proof (rule ensures_bind [OF ensures_found [OF GetPortGroup_ensures]])
  fix current v
  let ?remove = "case current of None \<Rightarrow> (Inr [], v)
    | Some pg \<Rightarrow> io_bind (selectACLsByUUID d v (pg_ACLs pg) (sp_Name spec)) (\<lambda>acls w. (Inr (acl_remove_ops (sp_Name spec) pg acls), w))"
  let ?last = "\<lambda>aclRefs. case current of Some pg \<Rightarrow> if aclRefs \<noteq> [] then [mutate_acls (pg_UUID pg) MutateInsert aclRefs] else [] | None \<Rightarrow> []"
  have remove: "ensures good seen v ?remove (\<lambda>ops v. list_all (okay (seen v)) ops)"
    using acl_remove_justified
    by (cases current) (auto simp: ours intro!: ensures_bind [OF selectACLs_ensures])
  have close: "list_all (okay S) (?last refs)" for S refs by (simp split: option.splits)
  show "ensures good seen v (io_bind ?remove (\<lambda>removeOps w. io_bind (insert_acls lib d spec 0 (sp_Rules spec) w) (\<lambda>(insertOps, aclRefs) w.
      (Inr (removeOps @ insertOps @ ?last aclRefs, aclRefs), w)))) (\<lambda>(ops, refs) v. list_all (okay (seen v)) ops)"
    by (rule ensures_bind [OF remove], rule ensures_bind [OF insert_acls_ensures]) (auto simp: close intro: okay_all_mono)
qed

lemma ensure_group_keeps:
  assumes "list_all (okay (seen u)) preOps"
  shows "keeps good seen u (snd (ensurePortGroupIntent lib d u name ids refs preOps))"
proof -
  obtain r v where s: "nb_selectRows d u tablePortGroup (conditionName name) [colUUID] name = (r, v)"
    by (cases "nb_selectRows d u tablePortGroup (conditionName name) [colUUID] name")
  have k: "keeps good seen u v"
    using ensures_keeps [OF selectRows_ensures, of u tablePortGroup "conditionName name" "[colUUID]" name] by (simp add: s)
  show ?thesis
  proof (cases "good u")
    case True
    have "keeps good seen u (snd (nb_commit d v tablePortGroup ''ensure'' name (preOps @ ops) idx))" if "list_all (\<lambda>p. op_Op p \<noteq> ''delete'') ops" for ops idx
    proof (rule keeps_trans [OF k commit_keeps])
      have "list_all (okay (seen v)) preOps" using okay_all_mono [OF assms] k True by (simp add: keeps_def)
      then show "list_all (okay (seen v)) (preOps @ ops)" using that by (auto simp: list_all_iff)
    qed
    note commit = this
    show ?thesis using k commit [of "[]"] commit
      by (auto simp: ensurePortGroupIntent_def s Let_def op_of_def split: sum.splits list.splits)
  qed (simp add: keeps_def)
qed

lemma reconcile_ovsdb_keeps:
  assumes ours: "okay = justified (owned_row ''SecurityPolicy'' (sp_Name spec))"
  shows "keeps good seen u (snd (Policy_reconcileOVSDB lib d u spec))"
proof -
  let ?m = "after_check (requireExistingPortGroupOwned (Some d) u (sp_Name spec) ''ensure'') (\<lambda>w.
        case intentExternalIDs ''SecurityPolicy'' (sp_Name spec) (sp_Owner spec) (sp_Labels spec) of
          Inl e \<Rightarrow> (Inl e, w)
        | Inr ids \<Rightarrow> io_bind (securityPolicyACLOps lib d w spec) (\<lambda>(preOps, aclRefs) w. (Inr (ids, preOps, aclRefs), w)))"
  have m: "ensures good seen u ?m (\<lambda>(ids, ops, refs) v. list_all (okay (seen v)) ops)"
    by (rule ensures_after_check [OF require_group_keeps])
      (auto split: sum.splits intro!: ensures_bind [OF acl_ops_ensures [OF ours]])
  obtain r v where rv: "?m = (r, v)" by (cases ?m)
  show ?thesis
  proof (cases r)
    case (Inr x)
    obtain ids ops refs where x: "x = (ids, ops, refs)" by (cases x)
    show ?thesis
    proof (cases "good u")
      case True
      then have "list_all (okay (seen v)) ops" using m by (simp add: ensures_def rv Inr x)
      then show ?thesis using keeps_trans [OF _ ensure_group_keeps] ensures_keeps [OF m] by (simp add: Policy_reconcileOVSDB_def rv Inr x)
    qed (simp add: keeps_def)
  qed (use ensures_keeps [OF m] in \<open>simp add: Policy_reconcileOVSDB_def rv\<close>)
qed

lemma policy_diff_ensures: "ensures good seen u (Policy_diff (Some d) u name spec) (\<lambda>_ _. True)"
proof -
  have "ensures good seen u (Policy_Get (Some d) u name) (\<lambda>_ _. True)"
    using policy_get_keeps by (auto simp: ensures_def keeps_def)
  then have "ensures good seen u (Policy_current (Some d) u name) (\<lambda>_ _. True)"
    unfolding Policy_current_def by (simp) (rule ensures_bind [OF ensures_found], assumption, simp)
  then show ?thesis unfolding Policy_diff_def Let_def by (rule ensures_bind) simp
qed

lemma policy_reconcile_ensures:
  assumes ours: "okay = justified (owned_row ''SecurityPolicy'' (sp_Name spec))"
  shows "ensures good seen u (Policy_Reconcile lib (Some d) u name spec) (\<lambda>_ _. True)"
proof (cases "Policy_Plan spec")
  case (Inr plan)
  show ?thesis unfolding Policy_Reconcile_def Inr sum.case option.case
    by (rule ensures_after_check [OF require_group_keeps], rule ensures_bind [OF policy_diff_ensures], rule ensures_apply_diff)
      (auto intro: reconcile_ovsdb_keeps [OF ours])
qed (simp add: Policy_Reconcile_def)

lemma policy_apply_keeps:
  assumes ours: "okay = justified (owned_row ''SecurityPolicy'' name)"
  shows "keeps good seen u (snd (Policy_Apply lib (Some d) u name spec))"
proof (cases "sp_Name spec = [] \<or> sp_Name spec = name")
  case True
  let ?spec = "if sp_Name spec = [] then spec\<lparr>sp_Name := name\<rparr> else spec"
  have n: "sp_Name ?spec = name" using True by auto
  have "keeps good seen u (snd (Policy_Reconcile lib (Some d) u name ?spec))"
    using ensures_keeps [OF policy_reconcile_ensures] ours n by metis
  then show ?thesis using n by (simp add: Policy_Apply_def Let_def io_check_def)
qed (auto simp: Policy_Apply_def)

lemma policy_patch_ensures:
  assumes ours: "okay = justified (owned_row ''SecurityPolicy'' name)"
  shows "ensures good seen u (Policy_Patch lib (Some d) u name patch) (\<lambda>_ _. True)"
proof -
  have get: "ensures good seen u (Policy_Get (Some d) u name) (\<lambda>_ _. True)"
    using policy_get_keeps by (auto simp: ensures_def keeps_def)
  show ?thesis unfolding Policy_Patch_def Let_def option.case
    by (rule ensures_bind [OF get], rule ensures_after_check [OF policy_apply_keeps [OF ours]], rule ensures_after_check)
      (auto simp: deleteExternalIDKeys_def intro: deleteMapKeys_keeps)
qed

end

section \<open>Deletions of security policies\<close>

text \<open>
  C15: Whatever the server answers and however often the connection is lost, deleting, reconciling and patching a
  security policy only delete rows that the server returned before, by their UUID and from the table
  they were returned for, with the complete mark of this policy: managed by the library, of this
  version, kind and name, and with an owner.
\<close>

theorem policy_deletes_only_its_own:
  "deletes_only (owned_row ''SecurityPolicy'' name) (snd (snd (Policy_Delete (Some (recorded d)) (w, []) name)))
 \<and> deletes_only (owned_row ''SecurityPolicy'' (sp_Name spec)) (snd (snd (Policy_Reconcile lib (Some (recorded d)) (w, []) name spec)))
 \<and> deletes_only (owned_row ''SecurityPolicy'' name) (snd (snd (Policy_Patch lib (Some (recorded d)) (w, []) name patch)))"
  using rec.policy_delete_keeps [where name = name and d = d and u = "(w, [])", OF refl]
    ensures_keeps [OF rec.policy_reconcile_ensures [where spec = spec and d = d and u = "(w, [])" and lib = lib and name = name, OF refl]]
    ensures_keeps [OF rec.policy_patch_ensures [where name = name and d = d and u = "(w, [])" and lib = lib and patch = patch, OF refl]]
  by (simp add: keeps_def)

text \<open>A server with the group of a policy: its deletion reads the group and then deletes it.\<close>

definition group_row_demo :: row where
  "group_row_demo = fmap_of_list [(colUUID, AUUID ''g1''), (colName, AString ''web''), (colExternalIDs, AMap [(AString ExternalIDManagedByKey, AString ''ovnflow''),
     (AString ExternalIDAPIVersionKey, AString ''v2''), (AString ExternalIDKindKey, AString ''SecurityPolicy''), (AString ExternalIDNameKey, AString ''web''),
     (AString ExternalIDOwnerKindKey, AString ''project''), (AString ExternalIDOwnerNameKey, AString ''alpha'')])]"

definition policy_registry :: registry where
  "policy_registry = newSchemaRegistry dbOVNNorthbound \<lparr>ds_Name = dbOVNNorthbound, ds_Version = ''1.0.0'',
     ds_Tables = fmap_of_list [(tablePortGroup, \<lparr>ts_Columns = fmap_of_list (map (\<lambda>c. (c, None)) nbPortGroupColumns), ts_Column = (\<lambda>c. c \<in> set nbPortGroupColumns)\<rparr>)]\<rparr>"

definition group_server :: "unit dbClient" where
  "group_server = \<lparr>db_database = dbOVNNorthbound, db_schema = policy_registry, db_hasExecutor = (\<lambda>_. True),
     db_Transact = (\<lambda>w ops. (Inr (map (\<lambda>p. \<lparr>Count = 1, ErrorField = [], Details = [], res_Rows = (if op_Op p = ''select'' then [group_row_demo] else [])\<rparr>) ops), w)),
     db_reconnect = None, db_backoff = Pair None, db_NewString = Pair [], db_rawRow = id\<rparr>"

lemma policy_delete_demo:
  "case Policy_Delete (Some (recorded group_server)) ((), []) ''web'' of (c, _, log) \<Rightarrow>
     Option.is_none c \<and> map (map op_Op \<circ> fst) log = [[''select''], [''delete'']]"
  by code_simp

end
