(* ===== verification/Network_Intent.thy ===== *)
theory Network_Intent
  imports Intent_Plans
begin

text \<open>
  Virtual networks and their DNS records (\<^verbatim>\<open>src/intent.go\<close>): a virtual network is a logical switch, and DNS records
  are a row of their own that is found by the name in its external ids. A nil client is \<open>None\<close>.
\<close>

section \<open>DNS records\<close>

datatype dns_call = DnsAddRecord string "string list" | DnsWithOwner string string | DnsWithLabel string string

fun dns_call_step :: "LogicalSwitchDNS \<Rightarrow> dns_call \<Rightarrow> LogicalSwitchDNS" where
  "dns_call_step s (DnsAddRecord domain ips) = s\<lparr>dn_Records := dn_Records s @ [\<lparr>dr_Domain = domain, dr_IPs = ips\<rparr>]\<rparr>"
| "dns_call_step s (DnsWithOwner kind name) = s\<lparr>dn_Owner := \<lparr>owner_Kind = kind, owner_Name = name, owner_ID = []\<rparr>\<rparr>"
| "dns_call_step s (DnsWithLabel key v) = s\<lparr>dn_Labels := fmupd key v (dn_Labels s)\<rparr>"

definition Dns_Ensure :: "string \<Rightarrow> LogicalSwitchDNS" where
  "Dns_Ensure name = no_dns\<lparr>dn_Name := name\<rparr>"

definition GetDNS :: "ovsdb_lib \<Rightarrow> 'w dbClient \<Rightarrow> 'w \<Rightarrow> string \<Rightarrow> DNS res \<times> 'w" where
  "GetDNS lib d w name =
     io_bind (nb_selectRows d w tableDNS (nbExternalIDCondition lib dnsNameExternalID name) nbDNSColumns name) (\<lambda>rows w.
       (case rows of [] \<Rightarrow> Inl (wrap_err ErrorNotFound dbOVNNorthbound tableDNS ''get'' name ''dns row not found'' None)
        | row # _ \<Rightarrow> Inr (dnsFromRow row), w))"

definition Dns_Get :: "ovsdb_lib \<Rightarrow> 'w dbClient option \<Rightarrow> 'w \<Rightarrow> string \<Rightarrow> LogicalSwitchDNS res \<times> 'w" where
  "Dns_Get lib client w name =
     io_guard (validateName ''logical switch dns'' name) w (\<lambda>w.
       case client of
         None \<Rightarrow> (Inl ErrBackendUnavailable, w)
       | Some d \<Rightarrow> io_bind (GetDNS lib d w name) (\<lambda>dns w. (Inr (logicalSwitchDNSFromDNS name dns), w)))"

definition Dns_Inspect :: "ovsdb_lib \<Rightarrow> 'w dbClient option \<Rightarrow> 'w \<Rightarrow> string \<Rightarrow> (string \<times> string \<times> LogicalSwitchDNS) res \<times> 'w" where
  "Dns_Inspect lib client w name = io_bind (Dns_Get lib client w name) (\<lambda>dns w. (Inr (''LogicalSwitchDNS'', name, dns), w))"

definition Dns_Delete :: "ovsdb_lib \<Rightarrow> 'w dbClient option \<Rightarrow> 'w \<Rightarrow> string \<Rightarrow> check \<times> 'w" where
  "Dns_Delete lib client w name =
     (case validateName ''logical switch dns'' name of
        Some e \<Rightarrow> (Some e, w)
      | None \<Rightarrow>
          (case client of
             None \<Rightarrow> (Some ErrBackendUnavailable, w)
           | Some d \<Rightarrow>
               (case io_bind (GetDNS lib d w name) (\<lambda>dns w.
                  io_guard (requireV2OwnedExternalIDs (dns_ExternalIDs dns) ''LogicalSwitchDNS'' name dbOVNNorthbound tableDNS ''delete'' name) w (\<lambda>w.
                  io_bind (unreferenceOps lib d w tableDNS (dns_UUID dns)) (\<lambda>refOps w. (Inr (refOps @ [delete_op tableDNS (dns_UUID dns)]), w)))) of
                  (Inl e, w) \<Rightarrow> (Some e, w)
                | (Inr ops, w) \<Rightarrow> nb_commit d w tableDNS ''delete'' name ops [int (length ops) - 1])))"

definition requireExistingDNSOwned :: "ovsdb_lib \<Rightarrow> 'w dbClient option \<Rightarrow> 'w \<Rightarrow> string \<Rightarrow> string \<Rightarrow> check \<times> 'w" where
  "requireExistingDNSOwned lib client w name oper =
     (case client of
        None \<Rightarrow> (None, w)
      | Some d \<Rightarrow>
          (case nb_selectRows d w tableDNS (nbExternalIDCondition lib dnsNameExternalID name) nbDNSColumns name of
             (Inl e, w) \<Rightarrow> (Some e, w)
           | (Inr [], w) \<Rightarrow> (None, w)
           | (Inr (row # _), w) \<Rightarrow>
               (requireV2OwnedExternalIDs (rowStringMapValue row colExternalIDs) ''LogicalSwitchDNS'' name dbOVNNorthbound tableDNS oper name, w)))"

definition dns_record_values :: "LogicalSwitchDNS \<Rightarrow> string_map" where
  "dns_record_values spec = fmmap (\<lambda>ips. strings_Join ips '' '') (RecordMap spec)"

text \<open>Writing the records under the given owner: an insert, or mutations of the first row found.\<close>

definition reconcileOVSDBWithOwner :: "ovsdb_lib \<Rightarrow> 'w dbClient \<Rightarrow> 'w \<Rightarrow> LogicalSwitchDNS \<Rightarrow> OwnerRef \<Rightarrow> Labels \<Rightarrow> check \<times> 'w" where
  "reconcileOVSDBWithOwner lib d w spec owner labels =
     (let name = dn_Name spec in
      case after_check (requireExistingDNSOwned lib (Some d) w name ''ensure'') (\<lambda>w.
        case intentExternalIDs ''LogicalSwitchDNS'' name owner labels of
          Inl e \<Rightarrow> (Inl e, w)
        | Inr ids \<Rightarrow> io_bind (nb_selectRows d w tableDNS (nbExternalIDCondition lib dnsNameExternalID name) [colUUID] name) (\<lambda>rows w.
            (Inr (fmupd dnsNameExternalID name ids, rows), w))) of
        (Inl e, w) \<Rightarrow> (Some e, w)
      | (Inr (ids, []), w) \<Rightarrow>
          (case namedUUID d w (tableUUIDPrefix tableDNS) of (uuid, w) \<Rightarrow>
             nb_commit d w tableDNS ''ensure'' name [(op_of ''insert'' tableDNS)\<lparr>op_UUIDName := uuid,
               op_Row := setRowMap lib (setRowMap lib fmempty colRecords (dns_record_values spec)) colExternalIDs ids\<rparr>] [])
      | (Inr (ids, row # _), w) \<Rightarrow>
          let mutations = nbAppendMapMutation lib (nbAppendMapMutation lib [] colRecords (dns_record_values spec)) colExternalIDs ids in
          if mutations = [] then (None, w)
          else nb_commit d w tableDNS ''ensure'' name
            [(op_of ''mutate'' tableDNS)\<lparr>op_Where := conditionUUID (rowUUIDValue row), op_Mutations := mutations\<rparr>] [0])"

definition Dns_reconcileOVSDB :: "ovsdb_lib \<Rightarrow> 'w dbClient \<Rightarrow> 'w \<Rightarrow> LogicalSwitchDNS \<Rightarrow> check \<times> 'w" where
  "Dns_reconcileOVSDB lib d w spec = reconcileOVSDBWithOwner lib d w spec (dn_Owner spec) (dn_Labels spec)"

definition Dns_current :: "ovsdb_lib \<Rightarrow> 'w dbClient option \<Rightarrow> 'w \<Rightarrow> string \<Rightarrow> LogicalSwitchDNS option res \<times> 'w" where
  "Dns_current lib client w name =
     (if Option.is_none client then (Inr None, w)
      else io_bind (found (Dns_Get lib client w name)) (\<lambda>x w. (Inr (map_option normalizeLogicalSwitchDNS x), w)))"

definition dns_diff_with :: "LogicalSwitchDNS \<Rightarrow> LogicalSwitchDNS \<Rightarrow> intent_value Diff" where
  "dns_diff_with c desired =
     appendFieldDiff (appendFieldDiff (appendFieldDiff (new_diff ''LogicalSwitchDNS'' (dn_Name desired))
       ''records'' (IRecords (dnsRecordComparable (dn_Records c))) (IRecords (dnsRecordComparable (dn_Records desired))))
       ''owner'' (IOwner (dn_Owner c)) (IOwner (dn_Owner desired)))
       ''labels'' (ILabels (dn_Labels c)) (ILabels (dn_Labels desired))"

definition Dns_diff :: "ovsdb_lib \<Rightarrow> 'w dbClient option \<Rightarrow> 'w \<Rightarrow> string \<Rightarrow> LogicalSwitchDNS \<Rightarrow> intent_value Diff res \<times> 'w" where
  "Dns_diff lib client w name spec =
     (let desired = normalizeLogicalSwitchDNS spec in
      io_bind (Dns_current lib client w name) (\<lambda>current w.
        (Inr (case current of
           None \<Rightarrow> create_diff ''LogicalSwitchDNS'' (dn_Name desired) (IDns desired)
         | Some c \<Rightarrow> dns_diff_with c desired), w)))"

definition Dns_Plan :: "LogicalSwitchDNS \<Rightarrow> Plan res" where
  "Dns_Plan spec = guard_res (DNS_Validate spec) (Inr (ensure_plan ''LogicalSwitchDNS'' (dn_Name spec) ''validate and plan logical switch DNS records''))"

definition Dns_DryRun :: "ovsdb_lib \<Rightarrow> 'w dbClient option \<Rightarrow> 'w \<Rightarrow> string \<Rightarrow> LogicalSwitchDNS \<Rightarrow> intent_value DryRunResult res \<times> 'w" where
  "Dns_DryRun lib client w name spec =
     (case Dns_Plan spec of
        Inl e \<Rightarrow> (Inl e, w)
      | Inr plan \<Rightarrow> io_bind (Dns_diff lib client w name spec) (\<lambda>diff w. (Inr \<lparr>dry_Plan = plan, dry_Diff = diff\<rparr>, w)))"

definition Dns_Reconcile :: "ovsdb_lib \<Rightarrow> 'w dbClient option \<Rightarrow> 'w \<Rightarrow> string \<Rightarrow> LogicalSwitchDNS \<Rightarrow> intent_value ReconcileResult res \<times> 'w" where
  "Dns_Reconcile lib client w name spec =
     (case Dns_Plan spec of
        Inl e \<Rightarrow> (Inl e, w)
      | Inr plan \<Rightarrow>
          after_check (requireExistingDNSOwned lib client w (dn_Name spec) ''ensure'') (\<lambda>w.
          io_bind (Dns_diff lib client w name spec) (\<lambda>diff w. apply_diff client plan diff (\<lambda>d w. Dns_reconcileOVSDB lib d w spec) w)))"

definition Dns_Apply :: "ovsdb_lib \<Rightarrow> 'w dbClient option \<Rightarrow> 'w \<Rightarrow> string \<Rightarrow> LogicalSwitchDNS \<Rightarrow> check \<times> 'w" where
  "Dns_Apply lib client w name dns0 =
     (if Option.is_none client then (Some ErrBackendUnavailable, w)
      else let dns = (if dn_Name dns0 = [] then dns0\<lparr>dn_Name := name\<rparr> else dns0) in
        if dn_Name dns \<noteq> name
        then (Some (wrap_err ErrorConflict dbOVNNorthbound tableDNS ''apply'' (dn_Name dns) ''logical switch dns name does not match reference'' None), w)
        else io_check (Dns_Reconcile lib client w name dns))"

record LogicalSwitchDNSPatch =
  dnp_ReplaceRecords :: bool
  dnp_Records :: "DNSRecord list"
  dnp_AddRecords :: "DNSRecord list"
  dnp_RemoveDomains :: "string list"
  dnp_Owner :: "OwnerRef option"
  dnp_Labels :: Labels
  dnp_RemoveLabels :: "string list"

definition patched_dns :: "LogicalSwitchDNS \<Rightarrow> LogicalSwitchDNSPatch \<Rightarrow> LogicalSwitchDNS" where
  "patched_dns current patch =
     current\<lparr>dn_Records := removeDNSRecordDomains
         (mergeDNSRecords (if dnp_ReplaceRecords patch then dnp_Records patch else dn_Records current) (dnp_AddRecords patch)) (dnp_RemoveDomains patch),
       dn_Owner := (case dnp_Owner patch of Some ow \<Rightarrow> ow | None \<Rightarrow> dn_Owner current),
       dn_Labels := patchLabels (dn_Labels current) (dnp_Labels patch) (dnp_RemoveLabels patch)\<rparr>"

definition deleteRecords :: "ovsdb_lib \<Rightarrow> 'w dbClient \<Rightarrow> 'w \<Rightarrow> string \<Rightarrow> string list \<Rightarrow> check \<times> 'w" where
  "deleteRecords lib d w name domains0 =
     (let domains = uniqueStrings domains0 in
      if domains = [] then (None, w)
      else case nb_selectRows d w tableDNS (nbExternalIDCondition lib dnsNameExternalID name) [colUUID] name of
          (Inl e, w) \<Rightarrow> (Some e, w)
        | (Inr [], w) \<Rightarrow> (None, w)
        | (Inr (row # _), w) \<Rightarrow>
            nb_commit d w tableDNS ''patch'' name [(op_of ''mutate'' tableDNS)\<lparr>op_Where := conditionUUID (rowUUIDValue row),
              op_Mutations := [NewMutation colRecords MutateDelete (ovsMapKeys lib domains)]\<rparr>] [0])"

definition Dns_Patch :: "ovsdb_lib \<Rightarrow> 'w dbClient option \<Rightarrow> 'w \<Rightarrow> string \<Rightarrow> LogicalSwitchDNSPatch \<Rightarrow> LogicalSwitchDNS res \<times> 'w" where
  "Dns_Patch lib client w name patch =
     io_bind (Dns_Get lib client w name) (\<lambda>current w.
       let nxt = patched_dns current patch in
       after_check (Dns_Apply lib client w name nxt) (\<lambda>w.
       after_check (case client of None \<Rightarrow> (None, w) | Some d \<Rightarrow> deleteRecords lib d w name (dnsDomainsAbsent (dn_Records current) (dn_Records nxt))) (\<lambda>w.
       after_check (case client of None \<Rightarrow> (None, w) | Some d \<Rightarrow>
           deleteExternalIDKeys lib d w tableDNS name (nbExternalIDCondition lib dnsNameExternalID name) (labelDeleteKeys (dnp_RemoveLabels patch) (dnp_Labels patch)))
         (\<lambda>w. (Inr nxt, w)))))"

section \<open>Virtual networks\<close>

datatype vnet_call = NetWithCIDR string | NetWithGateway string | NetWithOwner string string | NetWithLabel string string
| NetWithDNS string "dns_call list"

fun vnet_call_step :: "VirtualNetwork \<Rightarrow> vnet_call \<Rightarrow> VirtualNetwork" where
  "vnet_call_step s (NetWithCIDR cidr) = s\<lparr>vn_CIDRs := vn_CIDRs s @ [cidr]\<rparr>"
| "vnet_call_step s (NetWithGateway ip) = s\<lparr>vn_Gateway := ip\<rparr>"
| "vnet_call_step s (NetWithOwner kind name) = s\<lparr>vn_Owner := \<lparr>owner_Kind = kind, owner_Name = name, owner_ID = []\<rparr>\<rparr>"
| "vnet_call_step s (NetWithLabel key v) = s\<lparr>vn_Labels := fmupd key v (vn_Labels s)\<rparr>"
| "vnet_call_step s (NetWithDNS name calls) = s\<lparr>vn_DNS := foldl dns_call_step (Dns_Ensure name) calls\<rparr>"

definition VNet_Ensure :: "string \<Rightarrow> VirtualNetwork" where
  "VNet_Ensure name = \<lparr>vn_Name = name, vn_CIDRs = [], vn_Gateway = [], vn_DNS = no_dns, vn_Owner = no_owner, vn_Labels = fmempty\<rparr>"

definition logical_switch_of :: "row \<Rightarrow> LogicalSwitch" where
  "logical_switch_of row = \<lparr>ls_UUID = rowUUIDValue row, ls_Name = rowStringValue row colName, ls_Ports = rowUUIDSliceValue row colPorts,
     ls_ExternalIDs = rowStringMapValue row colExternalIDs, ls_OtherConfig = rowStringMapValue row colOtherConfig\<rparr>"

definition selectLogicalSwitches :: "'w dbClient \<Rightarrow> 'w \<Rightarrow> string \<Rightarrow> LogicalSwitch list res \<times> 'w" where
  "selectLogicalSwitches d w name =
     io_bind (transact d w tableLogicalSwitch ''select'' name
       [(op_of ''select'' tableLogicalSwitch)\<lparr>op_Where := conditionName name,
          op_Columns := [colUUID, colName, colPorts, colExternalIDs, colOtherConfig]\<rparr>])
     (\<lambda>results w. (Inr (case results of [] \<Rightarrow> [] | r # _ \<Rightarrow> map logical_switch_of (res_Rows r)), w))"

definition GetLogicalSwitch :: "'w dbClient \<Rightarrow> 'w \<Rightarrow> string \<Rightarrow> LogicalSwitch res \<times> 'w" where
  "GetLogicalSwitch d w name =
     io_guard (validateName ''logical switch'' name) w (\<lambda>w.
     io_bind (selectLogicalSwitches d w name) (\<lambda>rows w.
       (case rows of [] \<Rightarrow> Inl (wrap_err ErrorNotFound dbOVNNorthbound tableLogicalSwitch ''get'' name [] None) | ls # _ \<Rightarrow> Inr ls, w)))"

definition getLogicalSwitchPortByUUID :: "'w dbClient \<Rightarrow> 'w \<Rightarrow> string \<Rightarrow> LogicalSwitchPort res \<times> 'w" where
  "getLogicalSwitchPortByUUID d w i =
     io_bind (nb_selectRows d w tableLogicalSwitchPort (conditionUUID i) [colUUID, colName, ''addresses'', colExternalIDs, colOptions, ''type''] i) (\<lambda>rows w.
       (case rows of [] \<Rightarrow> Inl (wrap_err ErrorNotFound dbOVNNorthbound tableLogicalSwitchPort ''get'' i ''logical switch port not found'' None)
        | row # _ \<Rightarrow> Inr (logicalSwitchPortFromRow (db_rawRow d row)), w))"

definition VNet_Get :: "'w dbClient option \<Rightarrow> 'w \<Rightarrow> string \<Rightarrow> VirtualNetwork res \<times> 'w" where
  "VNet_Get client w name =
     io_guard (validateName ''virtual network'' name) w (\<lambda>w.
       case client of
         None \<Rightarrow> (Inl ErrBackendUnavailable, w)
       | Some d \<Rightarrow> io_bind (GetLogicalSwitch d w name) (\<lambda>ls w. (Inr (virtualNetworkFromLogicalSwitch ls), w)))"

text \<open>The status is \<open>None\<close> for the stub that is returned without a client.\<close>

definition VNet_Inspect :: "'w dbClient option \<Rightarrow> 'w \<Rightarrow> string \<Rightarrow> (string \<times> string \<times> VirtualNetwork option) res \<times> 'w" where
  "VNet_Inspect client w name =
     io_guard (validateName ''virtual network'' name) w (\<lambda>w.
       if \<not> Option.is_none client then io_bind (VNet_Get client w name) (\<lambda>vn w. (Inr (''VirtualNetwork'', name, Some vn), w))
       else (Inr (''VirtualNetwork'', name, None), w))"

text \<open>The operations for one port of a network: it must be an attachment of this network with a complete mark.\<close>

definition port_delete_ops :: "ovsdb_lib \<Rightarrow> 'w dbClient \<Rightarrow> string \<Rightarrow> 'w \<Rightarrow> string \<Rightarrow> Operation list res \<times> 'w" where
  "port_delete_ops lib d name w portUUID =
     io_bind (getLogicalSwitchPortByUUID d w portUUID) (\<lambda>port w.
       let ids = lsp_ExternalIDs port;
           violation = (\<lambda>message. wrap_err ErrorOwnershipViolation dbOVNNorthbound tableLogicalSwitchPort ''delete'' (lsp_Name port) message None) in
       if go_get ids ExternalIDKindKey \<noteq> ''WorkloadAttachment''
       then (Inl (violation ''virtual network contains a non-owned logical switch port''), w)
       else if go_get ids (ExternalIDPrefix @ ''network'') \<noteq> name
       then (Inl (violation ''workload attachment belongs to another virtual network''), w)
       else io_guard (requireV2OwnedExternalIDs ids ''WorkloadAttachment'' (go_get ids ExternalIDNameKey) dbOVNNorthbound tableLogicalSwitchPort
              ''delete'' (lsp_Name port)) w (\<lambda>w.
            io_bind (unreferenceOps lib d w tableLogicalSwitchPort (lsp_UUID port)) (\<lambda>refOps w.
              (Inr (refOps @ [delete_op tableLogicalSwitchPort (lsp_UUID port)]), w))))"

text \<open>The deletions must each affect a row, the operations that drop references need not.\<close>

fun ports_delete_ops :: "ovsdb_lib \<Rightarrow> 'w dbClient \<Rightarrow> string \<Rightarrow> 'w \<Rightarrow> string list \<Rightarrow> Operation list \<Rightarrow> int list \<Rightarrow> (Operation list \<times> int list) res \<times> 'w" where
  "ports_delete_ops lib d name w [] ops mustAffect = (Inr (ops, mustAffect), w)"
| "ports_delete_ops lib d name w (p # ps) ops mustAffect =
     io_bind (port_delete_ops lib d name w p) (\<lambda>new w.
       ports_delete_ops lib d name w ps (ops @ new) (mustAffect @ [int (length (ops @ new)) - 1]))"

definition VNet_Delete :: "ovsdb_lib \<Rightarrow> 'w dbClient option \<Rightarrow> 'w \<Rightarrow> string \<Rightarrow> check \<times> 'w" where
  "VNet_Delete lib client w name =
     (case validateName ''virtual network'' name of
        Some e \<Rightarrow> (Some e, w)
      | None \<Rightarrow>
          (case client of
             None \<Rightarrow> (Some ErrBackendUnavailable, w)
           | Some d \<Rightarrow>
               (case io_bind (selectLogicalSwitches d w name) (\<lambda>switches w.
                  case switches of
                    [] \<Rightarrow> (Inl (wrap_err ErrorNotFound dbOVNNorthbound tableLogicalSwitch ''delete'' name ''virtual network not found'' None), w)
                  | ls # _ \<Rightarrow>
                      io_guard (requireV2OwnedExternalIDs (ls_ExternalIDs ls) ''VirtualNetwork'' name dbOVNNorthbound tableLogicalSwitch ''delete'' name) w (\<lambda>w.
                      io_bind (ports_delete_ops lib d name w (uniqueStrings (ls_Ports ls)) [] []) (\<lambda>(ops, mustAffect) w.
                        (Inr (ops @ [delete_op tableLogicalSwitch (ls_UUID ls)], mustAffect @ [int (length ops)]), w)))) of
                  (Inl e, w) \<Rightarrow> (Some e, w)
                | (Inr (ops, mustAffect), w) \<Rightarrow> nb_commit d w tableLogicalSwitch ''delete'' name ops mustAffect)))"

definition requireExistingLogicalSwitchOwned :: "'w dbClient option \<Rightarrow> 'w \<Rightarrow> string \<Rightarrow> string \<Rightarrow> string \<Rightarrow> check \<times> 'w" where
  "requireExistingLogicalSwitchOwned client w kind name oper =
     (case client of
        None \<Rightarrow> (None, w)
      | Some d \<Rightarrow>
          (case selectLogicalSwitches d w name of
             (Inl e, w) \<Rightarrow> (Some e, w)
           | (Inr [], w) \<Rightarrow> (None, w)
           | (Inr (ls # _), w) \<Rightarrow>
               (requireV2OwnedExternalIDs (ls_ExternalIDs ls) kind name dbOVNNorthbound tableLogicalSwitch oper name, w)))"

definition subnet_config :: "string list \<Rightarrow> string_map" where
  "subnet_config cidrs = (case cidrs of [] \<Rightarrow> fmempty | cidr # _ \<Rightarrow> fmupd ''subnet'' cidr fmempty)"

definition ensureLogicalSwitchIntent :: "ovsdb_lib \<Rightarrow> 'w dbClient \<Rightarrow> 'w \<Rightarrow> string \<Rightarrow> string_map \<Rightarrow> string list \<Rightarrow> check \<times> 'w" where
  "ensureLogicalSwitchIntent lib d w name ids cidrs =
     (case selectLogicalSwitches d w name of
        (Inl e, w) \<Rightarrow> (Some e, w)
      | (Inr [], w) \<Rightarrow>
          nb_commit d w tableLogicalSwitch ''ensure'' name [(op_of ''insert'' tableLogicalSwitch)\<lparr>op_Row :=
            setRowMap lib (setRowMap lib (fmupd colName (AString name) fmempty) colExternalIDs ids) colOtherConfig (subnet_config cidrs)\<rparr>] []
      | (Inr (ls # _), w) \<Rightarrow>
          let mutations = nbAppendMapMutation lib (nbAppendMapMutation lib [] colExternalIDs ids) colOtherConfig (subnet_config cidrs) in
          if mutations = [] then (None, w)
          else nb_commit d w tableLogicalSwitch ''ensure'' name
            [(op_of ''mutate'' tableLogicalSwitch)\<lparr>op_Where := conditionUUID (ls_UUID ls), op_Mutations := mutations\<rparr>] [0])"

definition logicalSwitchPatchOps :: "ovsdb_lib \<Rightarrow> 'w dbClient \<Rightarrow> 'w \<Rightarrow> string \<Rightarrow> string \<Rightarrow> string list \<Rightarrow> string list \<Rightarrow> Operation list res \<times> 'w" where
  "logicalSwitchPatchOps lib d w name gateway removeOtherConfig removeExternalIDs =
     io_bind (found (selectLogicalSwitches d w name)) (\<lambda>rows w.
       (Inr (case rows of
          Some (ls # _) \<Rightarrow>
            let mutations = (if gateway \<noteq> [] then [NewMutation colOtherConfig MutateInsert (ovsMap lib (fmupd ''gateway'' gateway fmempty))] else [])
              @ (if removeOtherConfig \<noteq> [] then [NewMutation colOtherConfig MutateDelete (ovsMapKeys lib removeOtherConfig)] else [])
              @ (if removeExternalIDs \<noteq> [] then [NewMutation colExternalIDs MutateDelete (ovsMapKeys lib removeExternalIDs)] else []) in
            if mutations = [] then []
            else [(op_of ''mutate'' tableLogicalSwitch)\<lparr>op_Where := conditionUUID (ls_UUID ls), op_Mutations := mutations\<rparr>]
        | _ \<Rightarrow> []), w))"

definition VNet_reconcileOVSDB :: "ovsdb_lib \<Rightarrow> 'w dbClient \<Rightarrow> 'w \<Rightarrow> VirtualNetwork \<Rightarrow> check \<times> 'w" where
  "VNet_reconcileOVSDB lib d w spec =
     (let name = vn_Name spec; dns = vn_DNS spec in
      case after_check (requireExistingLogicalSwitchOwned (Some d) w ''VirtualNetwork'' name ''ensure'') (\<lambda>w.
        case intentExternalIDs ''VirtualNetwork'' name (vn_Owner spec) (vn_Labels spec) of
          Inl e \<Rightarrow> (Inl e, w)
        | Inr ids \<Rightarrow>
            after_check (ensureLogicalSwitchIntent lib d w name ids (vn_CIDRs spec)) (\<lambda>w.
            after_check (if dn_Records dns = [] then (None, w)
                else reconcileOVSDBWithOwner lib d w (if dn_Name dns = [] then dns\<lparr>dn_Name := name\<rparr> else dns) (vn_Owner spec) (vn_Labels spec)) (\<lambda>w.
              logicalSwitchPatchOps lib d w name (vn_Gateway spec) [] []))) of
        (Inl e, w) \<Rightarrow> (Some e, w)
      | (Inr ops, w) \<Rightarrow>
          if ops = [] then (None, w) else nb_commit d w tableLogicalSwitch ''patch'' name ops (mustAffectNonInsertOps (map op_Op ops)))"

definition VNet_current :: "'w dbClient option \<Rightarrow> 'w \<Rightarrow> string \<Rightarrow> VirtualNetwork option res \<times> 'w" where
  "VNet_current client w name =
     (if Option.is_none client then (Inr None, w)
      else io_bind (found (VNet_Get client w name)) (\<lambda>x w. (Inr (map_option normalizeVirtualNetwork x), w)))"

definition vnet_diff_with :: "VirtualNetwork \<Rightarrow> VirtualNetwork \<Rightarrow> intent_value Diff" where
  "vnet_diff_with c desired =
     (let diff = appendFieldDiff (appendFieldDiff (appendFieldDiff (appendFieldDiff (new_diff ''VirtualNetwork'' (vn_Name desired))
          ''cidrs'' (IStrings (vn_CIDRs c)) (IStrings (vn_CIDRs desired)))
          ''gateway'' (IString (vn_Gateway c)) (IString (vn_Gateway desired)))
          ''owner'' (IOwner (vn_Owner c)) (IOwner (vn_Owner desired)))
          ''labels'' (ILabels (vn_Labels c)) (ILabels (vn_Labels desired)) in
      if dn_Name (vn_DNS desired) \<noteq> [] \<or> dn_Records (vn_DNS desired) \<noteq> []
      then appendFieldDiff diff ''dns'' (IDns (normalizeLogicalSwitchDNS (vn_DNS c))) (IDns (normalizeLogicalSwitchDNS (vn_DNS desired)))
      else diff)"

definition VNet_diff :: "'w dbClient option \<Rightarrow> 'w \<Rightarrow> string \<Rightarrow> VirtualNetwork \<Rightarrow> intent_value Diff res \<times> 'w" where
  "VNet_diff client w name spec =
     (let desired = normalizeVirtualNetwork spec in
      io_bind (VNet_current client w name) (\<lambda>current w.
        (Inr (case current of
           None \<Rightarrow> create_diff ''VirtualNetwork'' (vn_Name desired) (INetwork desired)
         | Some c \<Rightarrow> vnet_diff_with c desired), w)))"

definition VNet_Plan :: "VirtualNetwork \<Rightarrow> Plan res" where
  "VNet_Plan spec = guard_res (VirtualNetwork_Validate spec) (Inr (ensure_plan ''VirtualNetwork'' (vn_Name spec) ''validate and plan logical switch intent''))"

definition VNet_DryRun :: "'w dbClient option \<Rightarrow> 'w \<Rightarrow> string \<Rightarrow> VirtualNetwork \<Rightarrow> intent_value DryRunResult res \<times> 'w" where
  "VNet_DryRun client w name spec =
     (case VNet_Plan spec of
        Inl e \<Rightarrow> (Inl e, w)
      | Inr plan \<Rightarrow> io_bind (VNet_diff client w name spec) (\<lambda>diff w. (Inr \<lparr>dry_Plan = plan, dry_Diff = diff\<rparr>, w)))"

definition VNet_Reconcile :: "ovsdb_lib \<Rightarrow> 'w dbClient option \<Rightarrow> 'w \<Rightarrow> string \<Rightarrow> VirtualNetwork \<Rightarrow> intent_value ReconcileResult res \<times> 'w" where
  "VNet_Reconcile lib client w name spec =
     (case VNet_Plan spec of
        Inl e \<Rightarrow> (Inl e, w)
      | Inr plan \<Rightarrow>
          after_check (requireExistingLogicalSwitchOwned client w ''VirtualNetwork'' (vn_Name spec) ''ensure'') (\<lambda>w.
          io_bind (VNet_diff client w name spec) (\<lambda>diff w. apply_diff client plan diff (\<lambda>d w. VNet_reconcileOVSDB lib d w spec) w)))"

definition VNet_Execute :: "ovsdb_lib \<Rightarrow> 'w dbClient option \<Rightarrow> 'w \<Rightarrow> string \<Rightarrow> VirtualNetwork \<Rightarrow> check \<times> 'w" where
  "VNet_Execute lib client w name spec = io_check (VNet_Reconcile lib client w name spec)"

definition VNet_Apply :: "ovsdb_lib \<Rightarrow> 'w dbClient option \<Rightarrow> 'w \<Rightarrow> string \<Rightarrow> VirtualNetwork \<Rightarrow> check \<times> 'w" where
  "VNet_Apply lib client w name network0 =
     (if Option.is_none client then (Some ErrBackendUnavailable, w)
      else let network = (if vn_Name network0 = [] then network0\<lparr>vn_Name := name\<rparr> else network0) in
        if vn_Name network \<noteq> name
        then (Some (wrap_err ErrorConflict dbOVNNorthbound tableLogicalSwitch ''apply'' (vn_Name network) ''virtual network name does not match reference'' None), w)
        else io_check (VNet_Reconcile lib client w name network))"

record VirtualNetworkPatch =
  vnp_AddCIDRs :: "string list"
  vnp_RemoveCIDRs :: "string list"
  vnp_Gateway :: "string option"
  vnp_DNS :: "LogicalSwitchDNS option"
  vnp_Owner :: "OwnerRef option"
  vnp_Labels :: Labels
  vnp_RemoveLabels :: "string list"

definition patched_network :: "VirtualNetwork \<Rightarrow> VirtualNetworkPatch \<Rightarrow> VirtualNetwork" where
  "patched_network current patch =
     current\<lparr>vn_CIDRs := removeStrings (uniqueStrings (vn_CIDRs current @ vnp_AddCIDRs patch)) (vnp_RemoveCIDRs patch),
       vn_Gateway := (case vnp_Gateway patch of Some g \<Rightarrow> g | None \<Rightarrow> vn_Gateway current),
       vn_DNS := (case vnp_DNS patch of Some dns \<Rightarrow> dns | None \<Rightarrow> vn_DNS current),
       vn_Owner := (case vnp_Owner patch of Some ow \<Rightarrow> ow | None \<Rightarrow> vn_Owner current),
       vn_Labels := patchLabels (vn_Labels current) (vnp_Labels patch) (vnp_RemoveLabels patch)\<rparr>"

definition removed_config :: "VirtualNetwork \<Rightarrow> VirtualNetwork \<Rightarrow> VirtualNetworkPatch \<Rightarrow> string list" where
  "removed_config current nxt patch =
     (if vn_CIDRs nxt = [] \<and> vn_CIDRs current \<noteq> [] then [''subnet''] else [])
   @ (if vnp_Gateway patch \<noteq> None \<and> vn_Gateway nxt = [] \<and> vn_Gateway current \<noteq> [] then [''gateway''] else [])"

definition VNet_Patch :: "ovsdb_lib \<Rightarrow> 'w dbClient option \<Rightarrow> 'w \<Rightarrow> string \<Rightarrow> VirtualNetworkPatch \<Rightarrow> VirtualNetwork res \<times> 'w" where
  "VNet_Patch lib client w name patch =
     io_bind (VNet_Get client w name) (\<lambda>current w.
       let nxt = patched_network current patch in
       after_check (VNet_Apply lib client w name nxt) (\<lambda>w.
       after_check (case client of None \<Rightarrow> (None, w) | Some d \<Rightarrow>
           deleteMapKeys lib d w tableLogicalSwitch name colOtherConfig (conditionName name) (removed_config current nxt patch)) (\<lambda>w.
       after_check (case client of None \<Rightarrow> (None, w) | Some d \<Rightarrow>
           deleteExternalIDKeys lib d w tableLogicalSwitch name (conditionName name) (labelDeleteKeys (vnp_RemoveLabels patch) (vnp_Labels patch)))
         (\<lambda>w. (Inr nxt, w)))))"

end
