(* ===== verification/Network_Props.thy ===== *)
theory Network_Props
  imports Network_Intent Careful_Client
begin

text \<open>
  What the operations of virtual networks and DNS records delete, and when a reconciled virtual network
  is settled.
\<close>

section \<open>Steps of the operations\<close>

text \<open>
  A row of a virtual network: the switch with the mark of the network, or a port that, read after the JSON
  round trip, has the complete mark of an attachment to this network.
\<close>

definition network_row :: "(row \<Rightarrow> row) \<Rightarrow> string \<Rightarrow> row \<Rightarrow> string \<Rightarrow> bool" where
  "network_row raw name row i \<longleftrightarrow>
     owned_row ''VirtualNetwork'' name row i
   \<or> (let port = logicalSwitchPortFromRow (raw row); ids = lsp_ExternalIDs port in
        i = lsp_UUID port \<and> v2ResourceOwnedBy ids ''WorkloadAttachment'' (go_get ids ExternalIDNameKey)
        \<and> go_get ids (ExternalIDPrefix @ ''network'') = name)"

lemma prepared_pair:
  "(case m of (Inl e, w) \<Rightarrow> f e w | (Inr (a, b), w) \<Rightarrow> g a b w) = (case m of (Inl e, w) \<Rightarrow> f e w | (Inr x, w) \<Rightarrow> g (fst x) (snd x) w)"
  by (cases m; cases "fst m") auto

context careful_client
begin

lemma column_cleanup_ensures: "ensures good seen u (column_cleanup lib d tt tu db u p) (\<lambda>ops v. \<forall>q\<in>set ops. op_Op q \<noteq> ''delete'')"
proof -
  have "ensures good seen u (io_bind (selectRows (newTableRef (Some d) t [] []) u c cols) (\<lambda>x w. (f x, w))) (\<lambda>ops v. \<forall>q\<in>set ops. op_Op q \<noteq> ''delete'')"
    if "\<And>x ops. f x = Inr ops \<Longrightarrow> \<forall>q\<in>set ops. op_Op q \<noteq> ''delete''" for t c cols and f :: "row list \<Rightarrow> Operation list res"
    by (rule ensures_bind [OF fluent_select_ensures]) (use that in \<open>auto simp: newTableRef_def\<close>)
  note select = this
  show ?thesis
    by (cases p; cases "rc_Kind (snd p)"; cases "rc_Reference (snd p) = RefWeak")
      (auto simp: column_cleanup_def Let_def ovsUnreferenceMapOp_def ovsUnreferenceUUIDSetOp_def intro!: select split: if_splits)
qed

lemma unreference_ensures: "ensures good seen u (unreferenceOps lib d u t i) (\<lambda>ops v. no_delete ops)"
proof -
  have "ensures good seen u (io_collect (column_cleanup lib d t i db) u ps) (\<lambda>ops v. \<forall>q\<in>set ops. op_Op q \<noteq> ''delete'')" for ps db
    by (rule ensures_collect [OF column_cleanup_ensures])
  then show ?thesis by (simp add: unreferenceOps_def referenceCleanupOps_def no_delete_def list_all_iff)
qed

lemma GetDNS_ensures: "ensures good seen u (GetDNS lib d u name) (\<lambda>dns v. \<exists>row. shown (seen v) tableDNS row \<and> dns = dnsFromRow row)"
  unfolding GetDNS_def by (rule ensures_bind [OF selectRows_ensures]) (auto split: list.splits)

lemma dns_delete_keeps:
  assumes ours: "okay = justified (owned_row ''LogicalSwitchDNS'' name)"
  shows "keeps good seen u (snd (Dns_Delete lib (Some d) u name))"
proof (cases "blank name")
  case False
  let ?m = "io_bind (GetDNS lib d u name) (\<lambda>dns w.
      io_guard (requireV2OwnedExternalIDs (dns_ExternalIDs dns) ''LogicalSwitchDNS'' name dbOVNNorthbound tableDNS ''delete'' name) w (\<lambda>w.
      io_bind (unreferenceOps lib d w tableDNS (dns_UUID dns)) (\<lambda>refOps w. (Inr (refOps @ [delete_op tableDNS (dns_UUID dns)]), w))))"
  have "ensures good seen u ?m (\<lambda>ops v. list_all (okay (seen v)) ops)"
  proof (rule ensures_bind [OF GetDNS_ensures], rule ensures_guard, rule ensures_bind [OF unreference_ensures])
    fix dns v refOps w
    assume dns: "\<exists>row. shown (seen v) tableDNS row \<and> dns = dnsFromRow row" and le: "seen v \<le> seen w" and ops: "no_delete refOps"
      and marked: "requireV2OwnedExternalIDs (dns_ExternalIDs dns) ''LogicalSwitchDNS'' name dbOVNNorthbound tableDNS ''delete'' name = None"
    obtain row where row: "shown (seen w) tableDNS row" "dns = dnsFromRow row" using dns le by (auto dest: shown_mono)
    have "owned_row ''LogicalSwitchDNS'' name row (dns_UUID dns)"
      using require_marks [OF marked] False by (simp add: owned_row_def row(2) dnsFromRow_def)
    then have "okay (seen w) (delete_op tableDNS (dns_UUID dns))"
      unfolding ours by (rule justified_delete [where S = "seen w", OF row(1)])
    then show "ensures good seen w (Inr (refOps @ [delete_op tableDNS (dns_UUID dns)]), w) (\<lambda>ops v. list_all (okay (seen v)) ops)"
      using no_delete_okay [OF ops] by simp
  qed
  from prepared_keeps [OF this] show ?thesis using False by (simp add: Dns_Delete_def validateName_def)
qed (simp add: Dns_Delete_def validateName_def)

lemma require_dns_keeps: "keeps good seen u (snd (requireExistingDNSOwned lib (Some d) u name oper))"
  by (cases "nb_selectRows d u tableDNS (nbExternalIDCondition lib dnsNameExternalID name) nbDNSColumns name")
    (auto simp: requireExistingDNSOwned_def dest: select_keeps split: sum.splits list.splits)

lemma dns_reconcile_keeps: "keeps good seen u (snd (reconcileOVSDBWithOwner lib d u spec owner labels))"
proof -
  let ?name = "dn_Name spec"
  let ?m = "after_check (requireExistingDNSOwned lib (Some d) u ?name ''ensure'') (\<lambda>w.
      case intentExternalIDs ''LogicalSwitchDNS'' ?name owner labels of
        Inl e \<Rightarrow> (Inl e, w)
      | Inr ids \<Rightarrow> io_bind (nb_selectRows d w tableDNS (nbExternalIDCondition lib dnsNameExternalID ?name) [colUUID] ?name) (\<lambda>rows w.
          (Inr (fmupd dnsNameExternalID ?name ids, rows), w)))"
  have "ensures good seen u ?m (\<lambda>_ _. True)"
    by (rule ensures_after_check [OF require_dns_keeps]) (auto split: sum.splits intro!: ensures_bind [OF selectRows_ensures])
  then have k: "keeps good seen u (snd ?m)" by (rule ensures_keeps)
  obtain r v where m: "?m = (r, v)" by (cases ?m)
  obtain s v' where n: "namedUUID d v (tableUUIDPrefix tableDNS) = (s, v')" by (cases "namedUUID d v (tableUUIDPrefix tableDNS)")
  have uv: "keeps good seen u v" and uv': "keeps good seen u v'"
    using k keeps_trans [OF _ named_keeps [OF n]] by (simp_all add: m)
  show ?thesis unfolding reconcileOVSDBWithOwner_def Let_def m
    using uv keeps_trans [OF uv quiet_commit_keeps] keeps_trans [OF uv' quiet_commit_keeps]
    by (auto simp: n split: sum.splits list.splits)
qed

lemma dns_get_ensures: "ensures good seen u (Dns_Get lib (Some d) u name) (\<lambda>_ _. True)"
  unfolding Dns_Get_def option.case by (rule ensures_guard, rule ensures_bind [OF GetDNS_ensures]) simp

lemma dns_diff_ensures: "ensures good seen u (Dns_diff lib (Some d) u name spec) (\<lambda>_ _. True)"
proof -
  have "ensures good seen u (Dns_current lib (Some d) u name) (\<lambda>_ _. True)"
    unfolding Dns_current_def by simp (rule ensures_bind [OF ensures_found [OF dns_get_ensures]], simp)
  then show ?thesis unfolding Dns_diff_def Let_def by (rule ensures_bind) simp
qed

lemma dns_reconcile_ensures: "ensures good seen u (Dns_Reconcile lib (Some d) u name spec) (\<lambda>_ _. True)"
proof (cases "Dns_Plan spec")
  case (Inr plan)
  show ?thesis unfolding Dns_Reconcile_def Inr sum.case
    by (rule ensures_after_check [OF require_dns_keeps], rule ensures_bind [OF dns_diff_ensures], rule ensures_apply_diff)
      (auto simp: Dns_reconcileOVSDB_def intro: dns_reconcile_keeps)
qed (simp add: Dns_Reconcile_def)

lemma dns_apply_keeps: "keeps good seen u (snd (Dns_Apply lib (Some d) u name spec))"
  using ensures_keeps [OF dns_reconcile_ensures] by (simp add: Dns_Apply_def Let_def io_check_def)

lemma deleteRecords_keeps: "keeps good seen u (snd (deleteRecords lib d u name domains))"
proof -
  obtain r v where s: "nb_selectRows d u tableDNS (nbExternalIDCondition lib dnsNameExternalID name) [colUUID] name = (r, v)"
    by (cases "nb_selectRows d u tableDNS (nbExternalIDCondition lib dnsNameExternalID name) [colUUID] name")
  show ?thesis using select_keeps [OF s] keeps_trans [OF select_keeps [OF s] quiet_commit_keeps]
    by (auto simp: deleteRecords_def Let_def s split: sum.splits list.splits)
qed

lemma dns_patch_ensures: "ensures good seen u (Dns_Patch lib (Some d) u name patch) (\<lambda>_ _. True)"
  unfolding Dns_Patch_def Let_def option.case
  by (rule ensures_bind [OF dns_get_ensures], rule ensures_after_check [OF dns_apply_keeps],
      rule ensures_after_check [OF deleteRecords_keeps], rule ensures_after_check)
    (auto simp: deleteExternalIDKeys_def intro: deleteMapKeys_keeps)

lemma switches_ensures: "ensures good seen u (selectLogicalSwitches d u name) (\<lambda>lss v. \<forall>ls\<in>set lss. \<exists>row. shown (seen v) tableLogicalSwitch row \<and> ls = logical_switch_of row)"
proof -
  let ?p = "(op_of ''select'' tableLogicalSwitch)\<lparr>op_Where := conditionName name, op_Columns := [colUUID, colName, colPorts, colExternalIDs, colOtherConfig]\<rparr>"
  have "ensures good seen u (transact d u tableLogicalSwitch ''select'' name [?p]) (\<lambda>results v. \<forall>x xs. results = x # xs \<longrightarrow> seen v ?p (res_Rows x))"
    by (rule transact_select_ensures) (simp add: op_of_def)
  then show ?thesis unfolding selectLogicalSwitches_def
    by (rule ensures_bind) (fastforce simp: op_of_def split: list.splits intro: shownI)
qed

lemma port_ensures: "ensures good seen u (getLogicalSwitchPortByUUID d u i)
    (\<lambda>port v. \<exists>row. shown (seen v) tableLogicalSwitchPort row \<and> port = logicalSwitchPortFromRow (db_rawRow d row))"
  unfolding getLogicalSwitchPortByUUID_def by (rule ensures_bind [OF selectRows_ensures]) (auto split: list.splits)

lemma port_delete_ensures:
  assumes ours: "okay = justified (network_row (db_rawRow d) name)"
  shows "ensures good seen u (port_delete_ops lib d name u i) (\<lambda>ops v. list_all (okay (seen v)) ops)"
proof -
  have "ensures good seen w (Inr (refOps @ [delete_op tableLogicalSwitchPort (lsp_UUID port)]), w) (\<lambda>ops v. list_all (okay (seen v)) ops)"
    if port: "\<exists>row. shown (seen v) tableLogicalSwitchPort row \<and> port = logicalSwitchPortFromRow (db_rawRow d row)" and le: "seen v \<le> seen w"
      and ops: "no_delete refOps" and net: "go_get (lsp_ExternalIDs port) (ExternalIDPrefix @ ''network'') = name"
      and marked: "requireV2OwnedExternalIDs (lsp_ExternalIDs port) ''WorkloadAttachment'' (go_get (lsp_ExternalIDs port) ExternalIDNameKey)
        dbOVNNorthbound tableLogicalSwitchPort ''delete'' (lsp_Name port) = None" for port v w refOps
  proof -
    obtain row where row: "shown (seen w) tableLogicalSwitchPort row" "port = logicalSwitchPortFromRow (db_rawRow d row)" using port le by (auto dest: shown_mono)
    have "network_row (db_rawRow d) name row (lsp_UUID port)"
      using require_marks [OF marked] net by (simp add: network_row_def row(2) Let_def)
    then have "okay (seen w) (delete_op tableLogicalSwitchPort (lsp_UUID port))"
      unfolding ours by (rule justified_delete [where S = "seen w", OF row(1)])
    then show ?thesis using no_delete_okay [OF ops] by simp
  qed
  note last = this
  show ?thesis unfolding port_delete_ops_def Let_def
  proof (rule ensures_bind [OF port_ensures])
    fix port v
    assume port: "\<exists>row. shown (seen v) tableLogicalSwitchPort row \<and> port = logicalSwitchPortFromRow (db_rawRow d row)"
    have "ensures good seen v (io_guard (requireV2OwnedExternalIDs (lsp_ExternalIDs port) ''WorkloadAttachment'' (go_get (lsp_ExternalIDs port) ExternalIDNameKey)
        dbOVNNorthbound tableLogicalSwitchPort ''delete'' (lsp_Name port)) v (\<lambda>w.
            io_bind (unreferenceOps lib d w tableLogicalSwitchPort (lsp_UUID port)) (\<lambda>refOps w.
              (Inr (refOps @ [delete_op tableLogicalSwitchPort (lsp_UUID port)]), w)))) (\<lambda>ops v. list_all (okay (seen v)) ops)"
      if "go_get (lsp_ExternalIDs port) (ExternalIDPrefix @ ''network'') = name"
      by (rule ensures_guard, rule ensures_bind [OF unreference_ensures], rule last [OF port]) (use that in simp_all)
    then show "ensures good seen v (if go_get (lsp_ExternalIDs port) ExternalIDKindKey \<noteq> ''WorkloadAttachment''
       then (Inl (wrap_err ErrorOwnershipViolation dbOVNNorthbound tableLogicalSwitchPort ''delete'' (lsp_Name port) ''virtual network contains a non-owned logical switch port'' None), v)
       else if go_get (lsp_ExternalIDs port) (ExternalIDPrefix @ ''network'') \<noteq> name
       then (Inl (wrap_err ErrorOwnershipViolation dbOVNNorthbound tableLogicalSwitchPort ''delete'' (lsp_Name port) ''workload attachment belongs to another virtual network'' None), v)
       else io_guard (requireV2OwnedExternalIDs (lsp_ExternalIDs port) ''WorkloadAttachment'' (go_get (lsp_ExternalIDs port) ExternalIDNameKey) dbOVNNorthbound tableLogicalSwitchPort
              ''delete'' (lsp_Name port)) v (\<lambda>w.
            io_bind (unreferenceOps lib d w tableLogicalSwitchPort (lsp_UUID port)) (\<lambda>refOps w.
              (Inr (refOps @ [delete_op tableLogicalSwitchPort (lsp_UUID port)]), w)))) (\<lambda>ops v. list_all (okay (seen v)) ops)"
      by (simp split: if_split)
  qed
qed

lemma ports_delete_ensures:
  assumes ours: "okay = justified (network_row (db_rawRow d) name)"
  shows "list_all (okay (seen u)) ops \<Longrightarrow>
    ensures good seen u (ports_delete_ops lib d name u ps ops idx) (\<lambda>(ops, idx) v. list_all (okay (seen v)) ops)"
proof (induction ps arbitrary: u ops idx)
  case (Cons p ps)
  show ?case unfolding ports_delete_ops.simps
    by (rule ensures_bind [OF port_delete_ensures [OF ours]], rule Cons.IH) (use Cons.prems okay_all_mono in auto)
qed simp

lemma vnet_delete_keeps:
  assumes ours: "okay = justified (network_row (db_rawRow d) name)"
  shows "keeps good seen u (snd (VNet_Delete lib (Some d) u name))"
proof (cases "blank name")
  case False
  let ?m = "io_bind (selectLogicalSwitches d u name) (\<lambda>switches w.
      case switches of
        [] \<Rightarrow> (Inl (wrap_err ErrorNotFound dbOVNNorthbound tableLogicalSwitch ''delete'' name ''virtual network not found'' None), w)
      | ls # _ \<Rightarrow>
          io_guard (requireV2OwnedExternalIDs (ls_ExternalIDs ls) ''VirtualNetwork'' name dbOVNNorthbound tableLogicalSwitch ''delete'' name) w (\<lambda>w.
          io_bind (ports_delete_ops lib d name w (uniqueStrings (ls_Ports ls)) [] []) (\<lambda>(ops, mustAffect) w.
            (Inr (ops @ [delete_op tableLogicalSwitch (ls_UUID ls)], mustAffect @ [int (length ops)]), w))))"
  have "ensures good seen u ?m (\<lambda>x v. list_all (okay (seen v)) (fst x))"
  proof (rule ensures_bind [OF switches_ensures])
    fix lss v
    assume lss: "\<forall>ls\<in>set lss. \<exists>row. shown (seen v) tableLogicalSwitch row \<and> ls = logical_switch_of row"
    have "ensures good seen v (io_guard (requireV2OwnedExternalIDs (ls_ExternalIDs ls) ''VirtualNetwork'' name dbOVNNorthbound tableLogicalSwitch ''delete'' name) v (\<lambda>w.
          io_bind (ports_delete_ops lib d name w (uniqueStrings (ls_Ports ls)) [] []) (\<lambda>(ops, mustAffect) w.
            (Inr (ops @ [delete_op tableLogicalSwitch (ls_UUID ls)], mustAffect @ [int (length ops)]), w)))) (\<lambda>x v. list_all (okay (seen v)) (fst x))"
      if ls: "ls \<in> set lss" for ls
    proof (rule ensures_guard, rule ensures_bind [OF ports_delete_ensures [OF ours]])
      fix x :: "Operation list \<times> int list" and w
      assume marked: "requireV2OwnedExternalIDs (ls_ExternalIDs ls) ''VirtualNetwork'' name dbOVNNorthbound tableLogicalSwitch ''delete'' name = None"
        and x: "(case x of (ops, idx) \<Rightarrow> \<lambda>v. list_all (okay (seen v)) ops) w" and le: "seen v \<le> seen w"
      obtain row where row: "shown (seen w) tableLogicalSwitch row" "ls = logical_switch_of row" using bspec [OF lss ls] le by (auto dest: shown_mono)
      have "network_row (db_rawRow d) name row (ls_UUID ls)"
        using require_marks [OF marked] False by (simp add: network_row_def owned_row_def row(2) logical_switch_of_def)
      then have "okay (seen w) (delete_op tableLogicalSwitch (ls_UUID ls))"
        unfolding ours by (rule justified_delete [where S = "seen w", OF row(1)])
      then show "ensures good seen w ((case x of (ops, mustAffect) \<Rightarrow> \<lambda>w. (Inr (ops @ [delete_op tableLogicalSwitch (ls_UUID ls)], mustAffect @ [int (length ops)]), w)) w)
          (\<lambda>x v. list_all (okay (seen v)) (fst x))" using x by (auto split: prod.splits)
    qed simp
    then show "ensures good seen v (case lss of [] \<Rightarrow> (Inl (wrap_err ErrorNotFound dbOVNNorthbound tableLogicalSwitch ''delete'' name ''virtual network not found'' None), v)
      | ls # _ \<Rightarrow> io_guard (requireV2OwnedExternalIDs (ls_ExternalIDs ls) ''VirtualNetwork'' name dbOVNNorthbound tableLogicalSwitch ''delete'' name) v (\<lambda>w.
          io_bind (ports_delete_ops lib d name w (uniqueStrings (ls_Ports ls)) [] []) (\<lambda>(ops, mustAffect) w.
            (Inr (ops @ [delete_op tableLogicalSwitch (ls_UUID ls)], mustAffect @ [int (length ops)]), w)))) (\<lambda>x v. list_all (okay (seen v)) (fst x))"
      by (cases lss) simp_all
  qed
  from prepared_keeps [OF this, of tableLogicalSwitch "''delete''" name snd] show ?thesis
    unfolding VNet_Delete_def validateName_def if_not_P [OF False] option.case prepared_pair .
qed (simp add: VNet_Delete_def validateName_def)

lemma switches_keep: "selectLogicalSwitches d u name = (r, v) \<Longrightarrow> keeps good seen u v"
  using ensures_keeps [OF switches_ensures, of u name] by simp

lemma require_switch_keeps: "keeps good seen u (snd (requireExistingLogicalSwitchOwned (Some d) u kind name oper))"
  by (cases "selectLogicalSwitches d u name")
    (auto simp: requireExistingLogicalSwitchOwned_def dest: switches_keep split: sum.splits list.splits)

lemma ensure_switch_keeps: "keeps good seen u (snd (ensureLogicalSwitchIntent lib d u name ids cidrs))"
proof -
  obtain r v where s: "selectLogicalSwitches d u name = (r, v)" by (cases "selectLogicalSwitches d u name")
  show ?thesis using switches_keep [OF s] keeps_trans [OF switches_keep [OF s] quiet_commit_keeps]
    by (auto simp: ensureLogicalSwitchIntent_def s Let_def split: sum.splits list.splits)
qed

lemma patch_ops_ensures: "ensures good seen u (logicalSwitchPatchOps lib d u name gateway oc ids) (\<lambda>ops v. no_delete ops)"
  unfolding logicalSwitchPatchOps_def
  by (rule ensures_bind [OF ensures_found [OF switches_ensures]]) (auto simp: Let_def split: option.splits list.splits)

lemma vnet_reconcile_ovsdb_keeps: "keeps good seen u (snd (VNet_reconcileOVSDB lib d u spec))"
proof -
  let ?name = "vn_Name spec" and ?dns = "vn_DNS spec"
  let ?m = "after_check (requireExistingLogicalSwitchOwned (Some d) u ''VirtualNetwork'' ?name ''ensure'') (\<lambda>w.
        case intentExternalIDs ''VirtualNetwork'' ?name (vn_Owner spec) (vn_Labels spec) of
          Inl e \<Rightarrow> (Inl e, w)
        | Inr ids \<Rightarrow>
            after_check (ensureLogicalSwitchIntent lib d w ?name ids (vn_CIDRs spec)) (\<lambda>w.
            after_check (if dn_Records ?dns = [] then (None, w)
                else reconcileOVSDBWithOwner lib d w (if dn_Name ?dns = [] then ?dns\<lparr>dn_Name := ?name\<rparr> else ?dns) (vn_Owner spec) (vn_Labels spec)) (\<lambda>w.
              logicalSwitchPatchOps lib d w ?name (vn_Gateway spec) [] [])))"
  have "keeps good seen v (snd (if c then (None, v) else reconcileOVSDBWithOwner lib d v x y z))" for v c x y z
    using dns_reconcile_keeps by simp
  then have m: "ensures good seen u ?m (\<lambda>ops v. no_delete ops)"
    by (intro ensures_after_check [OF require_switch_keeps])
      (auto split: sum.splits intro!: ensures_after_check ensure_switch_keeps patch_ops_ensures simp del: if_split)
  obtain r v where rv: "?m = (r, v)" by (cases ?m)
  have k: "keeps good seen u v" using ensures_keeps [OF m] by (simp add: rv)
  show ?thesis
  proof (cases "good u")
    case True
    have "no_delete ops" if "r = Inr ops" for ops using m True that by (simp add: ensures_def rv)
    then show ?thesis unfolding VNet_reconcileOVSDB_def Let_def rv
      using k keeps_trans [OF k quiet_commit_keeps] by (auto split: sum.splits)
  qed (simp add: keeps_def)
qed

lemma vnet_get_ensures: "ensures good seen u (VNet_Get (Some d) u name) (\<lambda>_ _. True)"
proof -
  have "ensures good seen v (GetLogicalSwitch d v name) (\<lambda>_ _. True)" for v
    unfolding GetLogicalSwitch_def by (rule ensures_guard, rule ensures_bind [OF switches_ensures]) simp
  then show ?thesis unfolding VNet_Get_def option.case by (intro ensures_guard, rule ensures_bind) simp
qed

lemma vnet_diff_ensures: "ensures good seen u (VNet_diff (Some d) u name spec) (\<lambda>_ _. True)"
proof -
  have "ensures good seen u (VNet_current (Some d) u name) (\<lambda>_ _. True)"
    unfolding VNet_current_def by simp (rule ensures_bind [OF ensures_found [OF vnet_get_ensures]], simp)
  then show ?thesis unfolding VNet_diff_def Let_def by (rule ensures_bind) simp
qed

lemma vnet_reconcile_ensures: "ensures good seen u (VNet_Reconcile lib (Some d) u name spec) (\<lambda>_ _. True)"
proof (cases "VNet_Plan spec")
  case (Inr plan)
  show ?thesis unfolding VNet_Reconcile_def Inr sum.case
    by (rule ensures_after_check [OF require_switch_keeps], rule ensures_bind [OF vnet_diff_ensures], rule ensures_apply_diff)
      (auto intro: vnet_reconcile_ovsdb_keeps)
qed (simp add: VNet_Reconcile_def)

lemma vnet_apply_keeps: "keeps good seen u (snd (VNet_Apply lib (Some d) u name spec))"
  using ensures_keeps [OF vnet_reconcile_ensures] by (simp add: VNet_Apply_def Let_def io_check_def)

lemma vnet_patch_ensures: "ensures good seen u (VNet_Patch lib (Some d) u name patch) (\<lambda>_ _. True)"
  unfolding VNet_Patch_def Let_def option.case
  by (rule ensures_bind [OF vnet_get_ensures], rule ensures_after_check [OF vnet_apply_keeps],
      rule ensures_after_check [OF deleteMapKeys_keeps], rule ensures_after_check)
    (auto simp: deleteExternalIDKeys_def intro: deleteMapKeys_keeps)

end

section \<open>Deletions of virtual networks and DNS records\<close>

text \<open>
  C16: Whatever the server answers and however often the connection is lost, deleting a virtual network
  only deletes the switch that the server returned before with the complete mark of this network and ports returned with
  the complete mark of an attachment to it, deleting DNS records only a row returned with their complete
  mark, and reconciling and patching them delete nothing.
\<close>

theorem network_deletes_only_its_own:
  "deletes_only (network_row (db_rawRow d) name) (snd (snd (VNet_Delete lib (Some (recorded d)) (w, []) name)))
 \<and> deletes_only (owned_row ''LogicalSwitchDNS'' name) (snd (snd (Dns_Delete lib (Some (recorded d)) (w, []) name)))
 \<and> deletes_only (\<lambda>_ _. False) (snd (snd (VNet_Reconcile lib (Some (recorded d)) (w, []) name spec)))
 \<and> deletes_only (\<lambda>_ _. False) (snd (snd (VNet_Patch lib (Some (recorded d)) (w, []) name patch)))
 \<and> deletes_only (\<lambda>_ _. False) (snd (snd (Dns_Reconcile lib (Some (recorded d)) (w, []) name dns)))
 \<and> deletes_only (\<lambda>_ _. False) (snd (snd (Dns_Patch lib (Some (recorded d)) (w, []) name dns_patch)))"
proof (intro conjI)
  have raw: "db_rawRow (recorded d) = db_rawRow d" by (simp add: recorded_def)
  show "deletes_only (network_row (db_rawRow d) name) (snd (snd (VNet_Delete lib (Some (recorded d)) (w, []) name)))"
    using rec.vnet_delete_keeps [where name = name and d = d and u = "(w, [])" and lib = lib, OF refl] by (simp add: keeps_def raw)
  show "deletes_only (owned_row ''LogicalSwitchDNS'' name) (snd (snd (Dns_Delete lib (Some (recorded d)) (w, []) name)))"
    using rec.dns_delete_keeps [where name = name and d = d and u = "(w, [])" and lib = lib, OF refl] by (simp add: keeps_def)
qed (use ensures_keeps [OF rec.vnet_reconcile_ensures [where ours = "\<lambda>_ _. False" and d = d and u = "(w, [])" and lib = lib and name = name and spec = spec]]
     ensures_keeps [OF rec.vnet_patch_ensures [where ours = "\<lambda>_ _. False" and d = d and u = "(w, [])" and lib = lib and name = name and patch = patch]]
     ensures_keeps [OF rec.dns_reconcile_ensures [where ours = "\<lambda>_ _. False" and d = d and u = "(w, [])" and lib = lib and name = name and spec = dns]]
     ensures_keeps [OF rec.dns_patch_ensures [where ours = "\<lambda>_ _. False" and d = d and u = "(w, [])" and lib = lib and name = name and patch = dns_patch]]
   in \<open>simp_all add: keeps_def\<close>)

end
