(* ===== verification/Network_Settle.thy ===== *)
theory Network_Settle
  imports Network_Intent
begin

text \<open>
  When a virtual network that has been written reads back as desired, so that a further reconciliation changes
  nothing, and the changes that are never applied.
\<close>

section \<open>Empty diffs\<close>

lemma append_empty [simp]: "Diff_Empty (appendFieldDiff diff path a b) \<longleftrightarrow> Diff_Empty diff \<and> a = b"
  by (simp add: appendFieldDiff_def Diff_Empty_def)

lemma new_diff_empty [simp]: "Diff_Empty (new_diff resource name)"
  by (simp add: new_diff_def Diff_Empty_def)

lemma fold_dom: "fmdom' (foldl (\<lambda>out k. fmupd k (f k) out) m ks) = fmdom' m \<union> set ks"
  by (induction ks arbitrary: m) auto

lemma normal_records_Nil [simp]: "dn_Records (normalizeLogicalSwitchDNS d) = [] \<longleftrightarrow> dn_Records d = []"
proof -
  have "dn_Records (normalizeLogicalSwitchDNS d) = [] \<longleftrightarrow> set (range_keys (RecordMap d)) = {}"
    by (simp add: normalizeLogicalSwitchDNS_def records_of_def del: set_range_keys)
  also have "\<dots> \<longleftrightarrow> dn_Records d = []" by (simp add: RecordMap_def fold_dom)
  finally show ?thesis .
qed

lemma normal_dns_name [simp]: "dn_Name (normalizeLogicalSwitchDNS d) = dn_Name d"
  by (simp add: normalizeLogicalSwitchDNS_def)

lemma diff_with_empty:
  "Diff_Empty (vnet_diff_with c v) \<longleftrightarrow> vn_CIDRs c = vn_CIDRs v \<and> vn_Gateway c = vn_Gateway v \<and> vn_Owner c = vn_Owner v \<and> vn_Labels c = vn_Labels v
    \<and> (dn_Name (vn_DNS v) = [] \<and> dn_Records (vn_DNS v) = [] \<or> normalizeLogicalSwitchDNS (vn_DNS c) = normalizeLogicalSwitchDNS (vn_DNS v))"
  by (auto simp: vnet_diff_with_def Let_def)

lemma empty_cidr_refused: "check_cidr tab object message [] \<noteq> None"
proof -
  have "case net_ParseCIDR [] of Inl e \<Rightarrow> True | Inr _ \<Rightarrow> False" by code_simp
  then show ?thesis by (simp add: check_cidr_def split: sum.splits)
qed

text \<open>The normal form of prefixes is a single one exactly when there is no other.\<close>

lemma sorted_single: "[] \<notin> set cs \<Longrightarrow> sort (uniqueStrings (c # cs)) = [c] \<longleftrightarrow> set cs \<subseteq> {c}" if "c \<noteq> []"
proof
  assume s: "sort (uniqueStrings (c # cs)) = [c]" "[] \<notin> set cs"
  have "set (sort (uniqueStrings (c # cs))) = insert c (set cs) - {[]}" by simp
  then show "set cs \<subseteq> {c}" using s that by auto
next
  assume s: "[] \<notin> set cs" "set cs \<subseteq> {c}"
  have "set (sort (uniqueStrings (c # cs))) = {c}" "distinct (sort (uniqueStrings (c # cs)))" using s that by auto
  then show "sort (uniqueStrings (c # cs)) = [c]"
    by (metis card_1_singleton_iff distinct_card length_0_conv length_Suc_conv One_nat_def list.set_intros(1) singletonD card.empty card.insert finite.emptyI insert_absorb insert_not_empty)
qed

section \<open>Settled networks\<close>

text \<open>The configuration of a switch that has been written for a network: the first prefix and the gateway.\<close>

definition written_config :: "VirtualNetwork \<Rightarrow> string_map" where
  "written_config spec = (let config = subnet_config (vn_CIDRs spec) in if vn_Gateway spec = [] then config else fmupd ''gateway'' (vn_Gateway spec) config)"

lemma written_lookup:
  "go_get (written_config spec) ''subnet'' = (case vn_CIDRs spec of [] \<Rightarrow> [] | c # _ \<Rightarrow> c)"
  "go_get (written_config spec) ''gateway'' = vn_Gateway spec"
  by (simp_all add: written_config_def subnet_config_def go_get_def Let_def split: list.split)

lemma unique_single: "c \<noteq> [] \<Longrightarrow> uniqueStrings [c] = [c]"
  by (simp add: uniqueStrings_def)

lemma switch_read_back:
  assumes "intentExternalIDs ''VirtualNetwork'' (vn_Name spec) (vn_Owner spec) (vn_Labels spec) = Inr (ls_ExternalIDs ls)"
    "ls_OtherConfig ls = written_config spec" "[] \<notin> set (vn_CIDRs spec)"
  shows "vn_CIDRs (normalizeVirtualNetwork (virtualNetworkFromLogicalSwitch ls)) = take 1 (vn_CIDRs spec)"
    "vn_Gateway (normalizeVirtualNetwork (virtualNetworkFromLogicalSwitch ls)) = vn_Gateway spec"
    "vn_Owner (normalizeVirtualNetwork (virtualNetworkFromLogicalSwitch ls)) = vn_Owner spec"
    "vn_Labels (normalizeVirtualNetwork (virtualNetworkFromLogicalSwitch ls)) = vn_Labels spec"
    "vn_DNS (normalizeVirtualNetwork (virtualNetworkFromLogicalSwitch ls)) = normalizeLogicalSwitchDNS no_dns"
proof -
  define cidr where "cidr = (case vn_CIDRs spec of [] \<Rightarrow> [] | c # _ \<Rightarrow> c)"
  have e: "virtualNetworkFromLogicalSwitch ls = \<lparr>vn_Name = ls_Name ls, vn_CIDRs = (if cidr \<noteq> [] then [cidr] else []), vn_Gateway = vn_Gateway spec,
      vn_DNS = no_dns, vn_Owner = vn_Owner spec, vn_Labels = vn_Labels spec\<rparr>"
    unfolding virtualNetworkFromLogicalSwitch_def intent_read_back [OF assms(1)] assms(2) written_lookup Let_def cidr_def by simp
  have "(if cidr \<noteq> [] then [cidr] else []) = take 1 (vn_CIDRs spec)" using assms(3) by (cases "vn_CIDRs spec") (auto simp: cidr_def)
  moreover have "sort (uniqueStrings (if cidr \<noteq> [] then [cidr] else [])) = (if cidr \<noteq> [] then [cidr] else [])"
    by (simp add: unique_single) (simp add: uniqueStrings_def)
  ultimately show "vn_CIDRs (normalizeVirtualNetwork (virtualNetworkFromLogicalSwitch ls)) = take 1 (vn_CIDRs spec)"
    unfolding normalizeVirtualNetwork_def e by simp
qed (unfold normalizeVirtualNetwork_def virtualNetworkFromLogicalSwitch_def intent_read_back [OF assms(1)] assms(2) written_lookup Let_def, simp_all)


definition example_network :: VirtualNetwork where
  "example_network = \<lparr>vn_Name = ''blue'', vn_CIDRs = [''10.0.0.0/24''], vn_Gateway = ''10.0.0.1'', vn_DNS = no_dns, vn_Owner = example_owner,
     vn_Labels = example_labels\<rparr>"

lemma example_network_ids: "\<exists>ids. intentExternalIDs ''VirtualNetwork'' ''blue'' example_owner example_labels = Inr ids"
proof -
  obtain m where m: "ExternalIDs example_owner example_labels = Inr m" using example_owner_ids by blast
  then show ?thesis using ExternalIDs_Inr [OF m] by (simp add: intentExternalIDs_def)
qed


section \<open>Changes that are lost\<close>

text \<open>
  The server's mutator \<open>insert\<close> adds the pairs whose key is not there yet and leaves the others as they are (RFC
  7047, 5.1). Gateway, prefix and marks of an existing network are written by it alone, without deleting the old keys first, so a
  new gateway is never stored and every reconciliation reports it again.
\<close>

definition inserts_absent :: "(string_map \<Rightarrow> string_map \<Rightarrow> string_map) \<Rightarrow> bool" where
  "inserts_absent ins \<longleftrightarrow> (\<forall>old new k. fmlookup (ins old new) k = (case fmlookup old k of None \<Rightarrow> fmlookup new k | Some v \<Rightarrow> Some v))"

lemma gateway_never_changes:
  assumes "inserts_absent ins" "go_get old ''gateway'' \<notin> {[], vn_Gateway spec}"
    "ls_OtherConfig ls = ins (ins old (subnet_config (vn_CIDRs spec))) (fmupd ''gateway'' (vn_Gateway spec) fmempty)"
  shows "\<not> Diff_Empty (vnet_diff_with (normalizeVirtualNetwork (virtualNetworkFromLogicalSwitch ls)) (normalizeVirtualNetwork spec))"
proof -
  have "go_get (ls_OtherConfig ls) ''gateway'' = go_get old ''gateway''"
    using assms(1,2) unfolding assms(3) by (auto simp: inserts_absent_def go_get_def split: option.splits)
  then have "vn_Gateway (normalizeVirtualNetwork (virtualNetworkFromLogicalSwitch ls)) \<noteq> vn_Gateway (normalizeVirtualNetwork spec)"
    using assms(2) by (simp add: normalizeVirtualNetwork_def virtualNetworkFromLogicalSwitch_def Let_def split: prod.split)
  then show ?thesis by (simp add: diff_with_empty)
qed

end
