(* ===== verification/Ovs_Bridge.thy ===== *)
theory Ovs_Bridge
  imports Ownership_Audit Nb_Client
begin

text \<open>
  Bridges and ports of Open_vSwitch (\<^verbatim>\<open>src/ovs.go\<close>, the readers and bridge setters of \<^verbatim>\<open>src/ovs_runtime.go\<close>): the builder that ensures a
  bridge with a port, controllers and further configuration, and the deletion of bridges and ports. The client's
  database connection is \<open>d\<close>.
\<close>

section \<open>Rows\<close>

definition tableMirror :: string where "tableMirror = ''Mirror''"
definition tableController :: string where "tableController = ''Controller''"
definition tableFlowTable :: string where "tableFlowTable = ''Flow_Table''"
definition tableNetFlow :: string where "tableNetFlow = ''NetFlow''"
definition tableSFlow :: string where "tableSFlow = ''sFlow''"
definition tableIPFIX :: string where "tableIPFIX = ''IPFIX''"
definition tableAutoAttach :: string where "tableAutoAttach = ''AutoAttach''"
definition colInterfaces :: string where "colInterfaces = ''interfaces''"
definition colType :: string where "colType = ''type''"
definition colBridges :: string where "colBridges = ''bridges''"
definition colTarget :: string where "colTarget = ''target''"
definition colController :: string where "colController = ''controller''"
definition colMirrors :: string where "colMirrors = ''mirrors''"
definition colQoS :: string where "colQoS = ''qos''"
definition colFlowTables :: string where "colFlowTables = ''flow_tables''"
definition colAutoAttach :: string where "colAutoAttach = ''auto_attach''"
definition colNetFlow :: string where "colNetFlow = ''netflow''"
definition colSFlow :: string where "colSFlow = ''sflow''"
definition colIPFIX :: string where "colIPFIX = ''ipfix''"
definition colFailMode :: string where "colFailMode = ''fail_mode''"
definition colDatapathType :: string where "colDatapathType = ''datapath_type''"
definition colSelectSrcPort :: string where "colSelectSrcPort = ''select_src_port''"
definition colSelectDstPort :: string where "colSelectDstPort = ''select_dst_port''"
definition colOutputPort :: string where "colOutputPort = ''output_port''"

record OVSController =
  oc_UUID :: string
  oc_Target :: string
  oc_ExternalIDs :: string_map
  oc_OtherConfig :: string_map

definition ovs_bridge_of :: "row \<Rightarrow> OVSBridge" where
  "ovs_bridge_of row = \<lparr>br_UUID = rowUUIDValue row, br_Name = rowStringValue row colName, br_Ports = rowUUIDSliceValue row colPorts,
     br_Controllers = rowUUIDSliceValue row colController, br_Mirrors = rowUUIDSliceValue row colMirrors,
     br_NetFlow = rowOptionalUUIDValue row colNetFlow, br_SFlow = rowOptionalUUIDValue row colSFlow, br_IPFIX = rowOptionalUUIDValue row colIPFIX,
     br_FlowTables = rowIntUUIDMapValue row colFlowTables, br_AutoAttach = rowOptionalUUIDValue row colAutoAttach, br_FailMode = None,
     br_DatapathType = [], br_ExternalIDs = rowStringMapValue row colExternalIDs, br_OtherConfig = rowStringMapValue row colOtherConfig\<rparr>"

definition ovs_port_of :: "row \<Rightarrow> OVSPort" where
  "ovs_port_of row = \<lparr>vp_UUID = rowUUIDValue row, vp_Name = rowStringValue row colName, vp_Interfaces = rowUUIDSliceValue row colInterfaces,
     vp_QoS = rowOptionalUUIDValue row colQoS, vp_ExternalIDs = rowStringMapValue row colExternalIDs, vp_OtherConfig = rowStringMapValue row colOtherConfig\<rparr>"

definition ovs_controller_of :: "row \<Rightarrow> OVSController" where
  "ovs_controller_of row = \<lparr>oc_UUID = rowUUIDValue row, oc_Target = rowStringValue row colTarget,
     oc_ExternalIDs = rowStringMapValue row colExternalIDs, oc_OtherConfig = rowStringMapValue row colOtherConfig\<rparr>"

definition first_rows :: "Result list \<Rightarrow> row list" where
  "first_rows results = (case results of [] \<Rightarrow> [] | r # _ \<Rightarrow> res_Rows r)"

definition decodeOVSBridges :: "Result list \<Rightarrow> OVSBridge list" where
  "decodeOVSBridges results = map ovs_bridge_of (first_rows results)"

definition decodeOVSPorts :: "Result list \<Rightarrow> OVSPort list" where
  "decodeOVSPorts results = map ovs_port_of (first_rows results)"

definition decodeOVSControllers :: "Result list \<Rightarrow> OVSController list" where
  "decodeOVSControllers results = map ovs_controller_of (first_rows results)"

definition select_op :: "'w dbClient \<Rightarrow> string \<Rightarrow> Condition list \<Rightarrow> string list \<Rightarrow> Operation" where
  "select_op d tab conditions columns =
     (op_of ''select'' tab)\<lparr>op_Where := conditions, op_Columns := existingColumns (db_schema d) tab columns\<rparr>"

definition ovs_select :: "'w dbClient \<Rightarrow> 'w \<Rightarrow> string \<Rightarrow> string \<Rightarrow> Condition list \<Rightarrow> string list \<Rightarrow> Result list res \<times> 'w" where
  "ovs_select d w tab object conditions columns = transact d w tab ''select'' object [select_op d tab conditions columns]"

definition bridge_columns :: "string list" where
  "bridge_columns = [colUUID, colName, colPorts, colController, colMirrors, colNetFlow, colSFlow, colIPFIX, colFlowTables, colAutoAttach,
     colExternalIDs, colOtherConfig]"

definition port_columns :: "string list" where
  "port_columns = [colUUID, colName, colInterfaces, colQoS, colExternalIDs, colOtherConfig]"

definition selectBridges :: "'w dbClient \<Rightarrow> 'w \<Rightarrow> string \<Rightarrow> OVSBridge list res \<times> 'w" where
  "selectBridges d w name =
     io_bind (ovs_select d w tableBridge name (conditionName name) bridge_columns) (\<lambda>results w. (Inr (decodeOVSBridges results), w))"

definition selectAllBridges :: "'w dbClient \<Rightarrow> 'w \<Rightarrow> OVSBridge list res \<times> 'w" where
  "selectAllBridges d w =
     io_bind (ovs_select d w tableBridge [] [] bridge_columns) (\<lambda>results w. (Inr (decodeOVSBridges results), w))"

definition selectPorts :: "'w dbClient \<Rightarrow> 'w \<Rightarrow> string \<Rightarrow> OVSPort list res \<times> 'w" where
  "selectPorts d w name =
     io_bind (ovs_select d w tablePort name (conditionName name) port_columns) (\<lambda>results w. (Inr (decodeOVSPorts results), w))"

definition selectAllPorts :: "'w dbClient \<Rightarrow> 'w \<Rightarrow> OVSPort list res \<times> 'w" where
  "selectAllPorts d w =
     io_bind (ovs_select d w tablePort [] [] port_columns) (\<lambda>results w. (Inr (decodeOVSPorts results), w))"

definition selectPortsByUUID :: "'w dbClient \<Rightarrow> 'w \<Rightarrow> string list \<Rightarrow> OVSPort list res \<times> 'w" where
  "selectPortsByUUID d w ids =
     io_collect (\<lambda>w i. io_bind (ovs_select d w tablePort i (conditionUUID i) port_columns) (\<lambda>results w. (Inr (decodeOVSPorts results), w)))
       w (uniqueStrings ids)"

definition selectControllers :: "'w dbClient \<Rightarrow> 'w \<Rightarrow> string \<Rightarrow> OVSController list res \<times> 'w" where
  "selectControllers d w target =
     io_bind (ovs_select d w tableController target [NewCondition colTarget ConditionEqual (AString target)]
       [colUUID, colTarget, colExternalIDs, colOtherConfig]) (\<lambda>results w. (Inr (decodeOVSControllers results), w))"

definition selectBridgeMirrorsForPort :: "'w dbClient \<Rightarrow> 'w \<Rightarrow> OVSBridge \<Rightarrow> string \<Rightarrow> string list res \<times> 'w" where
  "selectBridgeMirrorsForPort d w bridge portUUID =
     (if br_Mirrors bridge = [] \<or> \<not> HasTable (db_schema d) tableMirror then (Inr [], w)
      else io_bind (io_collect (\<lambda>w i.
          io_bind (ovs_select d w tableMirror i (conditionUUID i) [colUUID, colSelectSrcPort, colSelectDstPort, colOutputPort]) (\<lambda>results w.
            (Inr (case first_rows results of
               [] \<Rightarrow> []
             | row # _ \<Rightarrow>
                 if list_ex (\<lambda>c. containsString (rowUUIDSliceValue row c) portUUID) [colSelectSrcPort, colSelectDstPort, colOutputPort] then [i] else []), w)))
        w (uniqueStrings (br_Mirrors bridge))) (\<lambda>out w. (Inr (uniqueStrings out), w)))"

definition portUsedByOtherBridges :: "OVSBridge list \<Rightarrow> string \<Rightarrow> string \<Rightarrow> bool" where
  "portUsedByOtherBridges bridges deletedBridgeUUID portUUID \<longleftrightarrow>
     list_ex (\<lambda>b. br_UUID b \<noteq> deletedBridgeUUID \<and> containsString (br_Ports b) portUUID) bridges"

definition interfaceUsedByOtherPorts :: "OVSPort list \<Rightarrow> string \<Rightarrow> string \<Rightarrow> bool" where
  "interfaceUsedByOtherPorts ports deletedPortUUID ifaceUUID \<longleftrightarrow>
     list_ex (\<lambda>p. vp_UUID p \<noteq> deletedPortUUID \<and> containsString (vp_Interfaces p) ifaceUUID) ports"

section \<open>Builders\<close>

datatype ovsMode = ovsModeEnsure | ovsModeDelete | ovsModeDeletePort

fun ovs_mode_string :: "ovsMode \<Rightarrow> string" where
  "ovs_mode_string ovsModeEnsure = ''ensure''"
| "ovs_mode_string ovsModeDelete = ''delete''"
| "ovs_mode_string ovsModeDeletePort = ''delete_port''"

record ovsPortSpec =
  ps_name :: string
  ps_interfaceName :: string
  ps_interfaceType :: string
  ps_externalIDs :: string_map
  ps_options :: string_map
  ps_interfaceOptions :: string_map
  ps_interfaceExternalIDs :: string_map

text \<open>The key of a flow table is an integer; the other kinds of configuration have none.\<close>

record 'w ovsBridgeConfigSpec =
  bc_table :: string
  bc_column :: string
  bc_bridgeKey :: "int option"
  bc_ref :: "'w TableRef option"
  bc_row :: row
  bc_mutations :: "Mutation list"
  bc_optionalRef :: bool

record ovsBridgeConfigUUID =
  cu_table :: string
  cu_column :: string
  cu_bridgeKey :: "int option"
  cu_uuid :: string

record 'w BridgeBuilder =
  bb_used :: bool
  bb_name :: string
  bb_mode :: ovsMode
  bb_port :: "ovsPortSpec option"
  bb_deletePort :: string
  bb_externalIDs :: string_map
  bb_controllerTargets :: "string list"
  bb_failMode :: string
  bb_datapathType :: string
  bb_advancedConfigs :: "'w ovsBridgeConfigSpec list"

definition newBridgeBuilder :: "string \<Rightarrow> ovsMode \<Rightarrow> 'w BridgeBuilder" where
  "newBridgeBuilder name mode = \<lparr>bb_used = False, bb_name = name, bb_mode = mode, bb_port = None, bb_deletePort = [], bb_externalIDs = fmempty,
     bb_controllerTargets = [], bb_failMode = [], bb_datapathType = [], bb_advancedConfigs = []\<rparr>"

definition Bridge_AddPort :: "'w BridgeBuilder \<Rightarrow> string \<Rightarrow> 'w BridgeBuilder" where
  "Bridge_AddPort b name = b\<lparr>bb_port := Some \<lparr>ps_name = name, ps_interfaceName = name, ps_interfaceType = [], ps_externalIDs = fmempty,
     ps_options = fmempty, ps_interfaceOptions = fmempty, ps_interfaceExternalIDs = fmempty\<rparr>\<rparr>"

definition Bridge_DeletePort :: "string \<Rightarrow> string \<Rightarrow> 'w BridgeBuilder" where
  "Bridge_DeletePort bridge port = (newBridgeBuilder bridge ovsModeDeletePort)\<lparr>bb_deletePort := port\<rparr>"

definition namedByExternalID :: "ovsdb_lib \<Rightarrow> 'w dbClient \<Rightarrow> string \<Rightarrow> string \<Rightarrow> 'w TableRef" where
  "namedByExternalID lib d tab name =
     (let ids = fmupd ''name'' name fmempty in
      withDefaultMap lib (WhereCondition (newTableRef (Some d) tab [] []) colExternalIDs ConditionIncludes (ovsMap lib ids)) colExternalIDs ids)"

text \<open>
  The calls that configure a builder. Of what a \<open>configure\<close> callback does to the builder of the further row only the row and the
  mutations are kept.
\<close>

datatype 'w bridge_call =
  BridgeWithExternalID string string | BridgeAddPort string | BridgeWithControllerTarget string | BridgeWithFailMode string
| BridgeWithDatapathType string | BridgeWithMirror string "'w TableBuilder \<Rightarrow> 'w TableBuilder"
| BridgeWithFlowTable int string "'w TableBuilder \<Rightarrow> 'w TableBuilder" | BridgeWithNetFlow string "'w TableBuilder \<Rightarrow> 'w TableBuilder"
| BridgeWithSFlow string "'w TableBuilder \<Rightarrow> 'w TableBuilder" | BridgeWithIPFIX string "'w TableBuilder \<Rightarrow> 'w TableBuilder"
| BridgeWithAutoAttach string "'w TableBuilder \<Rightarrow> 'w TableBuilder"
| PortWithInterfaceName string | PortWithInterfaceType string | PortWithExternalID string string | PortWithOption string string
| PortWithInterfaceOption string string | PortWithInterfaceExternalID string string

definition add_config :: "'w BridgeBuilder \<Rightarrow> string \<Rightarrow> string \<Rightarrow> int option \<Rightarrow> bool \<Rightarrow> 'w TableRef \<Rightarrow> ('w TableBuilder \<Rightarrow> 'w TableBuilder) \<Rightarrow> 'w BridgeBuilder" where
  "add_config b tab column key opt ref configure =
     (let builder = configure (newTableBuilder ref tableModeEnsure) in
      b\<lparr>bb_advancedConfigs := bb_advancedConfigs b @ [\<lparr>bc_table = tab, bc_column = column, bc_bridgeKey = key, bc_ref = Some ref,
          bc_row = tb_row builder, bc_mutations = tb_mutations builder, bc_optionalRef = opt\<rparr>]\<rparr>)"

definition on_port :: "'w BridgeBuilder \<Rightarrow> (ovsPortSpec \<Rightarrow> ovsPortSpec) \<Rightarrow> 'w BridgeBuilder" where
  "on_port b f = b\<lparr>bb_port := map_option f (bb_port b)\<rparr>"

fun bridge_call_step :: "ovsdb_lib \<Rightarrow> 'w dbClient \<Rightarrow> 'w BridgeBuilder \<Rightarrow> 'w bridge_call \<Rightarrow> 'w BridgeBuilder" where
  "bridge_call_step lib d b (BridgeWithExternalID key v) = b\<lparr>bb_externalIDs := fmupd key v (bb_externalIDs b)\<rparr>"
| "bridge_call_step lib d b (BridgeAddPort name) = Bridge_AddPort b name"
| "bridge_call_step lib d b (BridgeWithControllerTarget target) = b\<lparr>bb_controllerTargets := bb_controllerTargets b @ [target]\<rparr>"
| "bridge_call_step lib d b (BridgeWithFailMode mode) = b\<lparr>bb_failMode := mode\<rparr>"
| "bridge_call_step lib d b (BridgeWithDatapathType kind) = b\<lparr>bb_datapathType := kind\<rparr>"
| "bridge_call_step lib d b (BridgeWithMirror name configure) =
     add_config b tableMirror colMirrors None False (newTableRef (Some d) tableMirror colName name) configure"
| "bridge_call_step lib d b (BridgeWithFlowTable tableID name configure) =
     add_config b tableFlowTable colFlowTables (Some tableID) False (newTableRef (Some d) tableFlowTable colName name) configure"
| "bridge_call_step lib d b (BridgeWithNetFlow name configure) =
     add_config b tableNetFlow colNetFlow None True (namedByExternalID lib d tableNetFlow name) configure"
| "bridge_call_step lib d b (BridgeWithSFlow name configure) =
     add_config b tableSFlow colSFlow None True (namedByExternalID lib d tableSFlow name) configure"
| "bridge_call_step lib d b (BridgeWithIPFIX name configure) =
     add_config b tableIPFIX colIPFIX None True (namedByExternalID lib d tableIPFIX name) configure"
| "bridge_call_step lib d b (BridgeWithAutoAttach systemName configure) =
     add_config b tableAutoAttach colAutoAttach None True (newTableRef (Some d) tableAutoAttach ''system_name'' systemName) configure"
| "bridge_call_step lib d b (PortWithInterfaceName name) = on_port b (\<lambda>p. p\<lparr>ps_interfaceName := name\<rparr>)"
| "bridge_call_step lib d b (PortWithInterfaceType kind) = on_port b (\<lambda>p. p\<lparr>ps_interfaceType := kind\<rparr>)"
| "bridge_call_step lib d b (PortWithExternalID key v) = on_port b (\<lambda>p. p\<lparr>ps_externalIDs := fmupd key v (ps_externalIDs p)\<rparr>)"
| "bridge_call_step lib d b (PortWithOption key v) = on_port b (\<lambda>p. p\<lparr>ps_options := fmupd key v (ps_options p)\<rparr>)"
| "bridge_call_step lib d b (PortWithInterfaceOption key v) = on_port b (\<lambda>p. p\<lparr>ps_interfaceOptions := fmupd key v (ps_interfaceOptions p)\<rparr>)"
| "bridge_call_step lib d b (PortWithInterfaceExternalID key v) =
     on_port b (\<lambda>p. p\<lparr>ps_interfaceExternalIDs := fmupd key v (ps_interfaceExternalIDs p)\<rparr>)"

definition check_keys :: "string_map \<Rightarrow> check" where
  "check_keys m = check_all validateExternalID (range_keys m)"

definition Bridge_validate :: "'w BridgeBuilder \<Rightarrow> check" where
  "Bridge_validate b =
     then_check (validateName ''bridge'' (bb_name b))
     (then_check (check_keys (bb_externalIDs b))
     (then_check (case bb_port b of
          None \<Rightarrow> None
        | Some p \<Rightarrow>
            then_check (validateName ''port'' (ps_name p))
            (then_check (validateName ''interface'' (ps_interfaceName p))
            (then_check (check_keys (ps_externalIDs p))
            (then_check (check_keys (ps_options p))
            (then_check (check_keys (ps_interfaceExternalIDs p)) (check_keys (ps_interfaceOptions p)))))))
     (then_check (if bb_deletePort b \<noteq> [] then validateName ''port'' (bb_deletePort b) else None)
       (check_all (validateName ''controller target'') (bb_controllerTargets b)))))"

definition ovs_commit :: "'w dbClient \<Rightarrow> 'w \<Rightarrow> string \<Rightarrow> string \<Rightarrow> string \<Rightarrow> Operation list \<Rightarrow> int list \<Rightarrow> check \<times> 'w" where
  "ovs_commit d w tab oper object ops idx =
     (case transact d w tab oper object ops of
        (Inl e, w) \<Rightarrow> (Some e, w)
      | (Inr results, w) \<Rightarrow> (ensureAffected (map OperationResult.truncate results) idx dbOpenVSwitch tab oper object, w))"

definition mutate_op :: "string \<Rightarrow> string \<Rightarrow> Mutation list \<Rightarrow> Operation" where
  "mutate_op tab i mutations = (op_of ''mutate'' tab)\<lparr>op_Where := conditionUUID i, op_Mutations := mutations\<rparr>"

definition update_op :: "string \<Rightarrow> string \<Rightarrow> row \<Rightarrow> Operation" where
  "update_op tab i row = (op_of ''update'' tab)\<lparr>op_Where := conditionUUID i, op_Row := row\<rparr>"

definition insert_op :: "string \<Rightarrow> string \<Rightarrow> row \<Rightarrow> Operation" where
  "insert_op tab uuid row = (op_of ''insert'' tab)\<lparr>op_UUIDName := uuid, op_Row := row\<rparr>"

definition map_mutation :: "ovsdb_lib \<Rightarrow> bool \<Rightarrow> string \<Rightarrow> string_map \<Rightarrow> Mutation list" where
  "map_mutation lib c column values = (if values \<noteq> fmempty \<and> c then [NewMutation column MutateInsert (ovsMap lib values)] else [])"

section \<open>Ensuring\<close>

fun controllerOps :: "'w dbClient \<Rightarrow> 'w \<Rightarrow> string list \<Rightarrow> (string list \<times> Operation list) res \<times> 'w" where
  "controllerOps d w [] = (Inr ([], []), w)"
| "controllerOps d w (target # targets) =
     io_bind (selectControllers d w target) (\<lambda>existing w.
       case existing of
         c # _ \<Rightarrow> io_bind (controllerOps d w targets) (\<lambda>(uuids, ops) w. (Inr (oc_UUID c # uuids, ops), w))
       | [] \<Rightarrow>
           (case namedUUID d w ''controller'' of (uuid, w) \<Rightarrow>
            io_bind (controllerOps d w targets) (\<lambda>(uuids, ops) w.
              (Inr (uuid # uuids, insert_op tableController uuid (fmupd colTarget (AString target) fmempty) # ops), w))))"

definition validateBridgeConfigSpec :: "registry \<Rightarrow> 'w ovsBridgeConfigSpec \<Rightarrow> check" where
  "validateBridgeConfigSpec schema spec =
     then_check (check_all (\<lambda>column. RequireColumns schema (bc_table spec) [column]) (range_keys (bc_row spec)))
       (check_all (\<lambda>m. RequireColumns schema (bc_table spec) [mut_Column m]) (bc_mutations spec))"

definition bridgeConfigUpdateOps :: "'w ovsBridgeConfigSpec \<Rightarrow> string \<Rightarrow> row \<Rightarrow> Operation list" where
  "bridgeConfigUpdateOps spec i row0 =
     (let row = fmfilter (\<lambda>c. c \<noteq> colUUID \<and> (case bc_ref spec of None \<Rightarrow> True | Some r \<Rightarrow> c \<noteq> tr_identityColumn r)
            \<and> c \<notin> set (map mut_Column (bc_mutations spec))) row0 in
      (if row \<noteq> fmempty then [update_op (bc_table spec) i row] else [])
    @ (if bc_mutations spec \<noteq> [] then [mutate_op (bc_table spec) i (bc_mutations spec)] else []))"

text \<open>
  Merging the mutations into the row to insert writes into the maps of the configuration, as for table builders; the
  configuration that the next attempt sees is returned too.
\<close>

definition config_insert_row :: "'w ovsBridgeConfigSpec \<Rightarrow> row" where
  "config_insert_row spec = foldl mergeMutationIntoInsertRow (bc_row spec) (bc_mutations spec)"

definition config_shared :: "'w ovsBridgeConfigSpec \<Rightarrow> 'w ovsBridgeConfigSpec" where
  "config_shared spec =
     spec\<lparr>bc_row := fmmap_keys (shared_value (config_insert_row spec)) (bc_row spec),
       bc_mutations := share_mutations (config_insert_row spec) (range_keys (bc_row spec)) (bc_mutations spec)\<rparr>"

definition config_uuid :: "'w ovsBridgeConfigSpec \<Rightarrow> string \<Rightarrow> ovsBridgeConfigUUID" where
  "config_uuid spec i = \<lparr>cu_table = bc_table spec, cu_column = bc_column spec, cu_bridgeKey = bc_bridgeKey spec, cu_uuid = i\<rparr>"

definition config_ops :: "'w dbClient \<Rightarrow> string \<Rightarrow> 'w \<Rightarrow> 'w ovsBridgeConfigSpec
    \<Rightarrow> (ovsBridgeConfigUUID list \<times> Operation list) res \<times> 'w ovsBridgeConfigSpec \<times> 'w" where
  "config_ops d mode w spec =
     (case bc_ref spec of
        None \<Rightarrow> (Inr ([], []), spec, w)
      | Some ref \<Rightarrow>
          if \<not> HasTable (db_schema d) (bc_table spec) \<or> \<not> HasColumn (db_schema d) tableBridge (bc_column spec) then (Inr ([], []), spec, w)
          else case then_check (validateIdentity ref mode) (validateBridgeConfigSpec (db_schema d) spec) of
              Some e \<Rightarrow> (Inl e, spec, w)
            | None \<Rightarrow>
                (case selectRows ref w (identityConditions ref) [colUUID] of
                   (Inl e, w) \<Rightarrow> (Inl e, spec, w)
                 | (Inr rows, w) \<Rightarrow>
                     let insertRow = (if tr_identityValue ref \<noteq> [] \<and> tr_identityColumn ref \<noteq> colUUID
                           then fmupd (tr_identityColumn ref) (AString (tr_identityValue ref)) (config_insert_row spec) else config_insert_row spec);
                         spec = config_shared spec in
                     (case rows of
                        row # _ \<Rightarrow>
                          let i = anyString (row_get row colUUID) in
                          (if i = [] then Inl (wrap_err ErrorConflict dbOpenVSwitch (bc_table spec) mode (tr_identityValue ref) ''row UUID missing'' None)
                           else Inr ([config_uuid spec i], bridgeConfigUpdateOps spec i (bc_row spec)), spec, w)
                      | [] \<Rightarrow>
                          (case namedUUID d w (tableUUIDPrefix (bc_table spec)) of (uuid, w) \<Rightarrow>
                             (Inr ([config_uuid spec uuid], [insert_op (bc_table spec) uuid insertRow]), spec, w)))))"

fun bridgeConfigOps :: "'w dbClient \<Rightarrow> string \<Rightarrow> 'w \<Rightarrow> 'w ovsBridgeConfigSpec list
    \<Rightarrow> (ovsBridgeConfigUUID list \<times> Operation list) res \<times> 'w ovsBridgeConfigSpec list \<times> 'w" where
  "bridgeConfigOps d mode w [] = (Inr ([], []), [], w)"
| "bridgeConfigOps d mode w (spec # specs) =
     (case config_ops d mode w spec of
        (Inl e, spec, w) \<Rightarrow> (Inl e, spec # specs, w)
      | (Inr (configs, ops), spec, w) \<Rightarrow>
          (case bridgeConfigOps d mode w specs of
             (Inl e, specs, w) \<Rightarrow> (Inl e, spec # specs, w)
           | (Inr (configs', ops'), specs, w) \<Rightarrow> (Inr (configs @ configs', ops @ ops'), spec # specs, w)))"

definition ovsIntUUIDMap :: "(int, string) fmap \<Rightarrow> any" where
  "ovsIntUUIDMap values = AMap (map (\<lambda>k. (AInt k, AUUID (the (fmlookup values k)))) (range_keys values))"

definition bridgeConfigReferenceOp :: "string \<Rightarrow> ovsBridgeConfigUUID \<Rightarrow> Operation" where
  "bridgeConfigReferenceOp bridgeUUID config =
     (if cu_column config = colFlowTables then
        (case cu_bridgeKey config of
           None \<Rightarrow> op_of [] []
         | Some key \<Rightarrow> mutate_op tableBridge bridgeUUID [NewMutation (cu_column config) MutateInsert (ovsIntUUIDMap (fmupd key (cu_uuid config) fmempty))])
      else if cu_column config = colMirrors
      then mutate_op tableBridge bridgeUUID [NewMutation (cu_column config) MutateInsert (uuidSet [cu_uuid config])]
      else update_op tableBridge bridgeUUID (fmupd (cu_column config) (AUUID (cu_uuid config)) fmempty))"

definition bridgeConfigReferenceOps :: "string \<Rightarrow> ovsBridgeConfigUUID list \<Rightarrow> Operation list" where
  "bridgeConfigReferenceOps bridgeUUID configs = map (bridgeConfigReferenceOp bridgeUUID) configs"

definition addBridgeConfigRef :: "row \<Rightarrow> ovsBridgeConfigUUID \<Rightarrow> row" where
  "addBridgeConfigRef row config =
     (if cu_column config = colFlowTables then
        (case cu_bridgeKey config of
           None \<Rightarrow> row
         | Some key \<Rightarrow> fmupd (cu_column config) (ovsIntUUIDMap (fmupd key (cu_uuid config) (rowIntUUIDMapValue row (cu_column config)))) row)
      else if cu_column config = colMirrors
      then fmupd (cu_column config) (uuidSet (uniqueStrings (rowUUIDSliceValue row (cu_column config) @ [cu_uuid config]))) row
      else fmupd (cu_column config) (AUUID (cu_uuid config)) row)"

text \<open>Fail mode and datapath type, for the columns the server has.\<close>

definition bridge_modes :: "'w dbClient \<Rightarrow> 'w BridgeBuilder \<Rightarrow> row \<Rightarrow> row" where
  "bridge_modes d b row =
     (let row = (if bb_failMode b \<noteq> [] \<and> HasColumn (db_schema d) tableBridge colFailMode then fmupd colFailMode (AString (bb_failMode b)) row else row) in
      if bb_datapathType b \<noteq> [] \<and> HasColumn (db_schema d) tableBridge colDatapathType then fmupd colDatapathType (AString (bb_datapathType b)) row else row)"

definition insertBridgeOp :: "ovsdb_lib \<Rightarrow> 'w dbClient \<Rightarrow> 'w BridgeBuilder \<Rightarrow> string \<Rightarrow> string list \<Rightarrow> string list \<Rightarrow> ovsBridgeConfigUUID list \<Rightarrow> Operation" where
  "insertBridgeOp lib d b bridgeUUID controllers ports configs =
     (let row = bridge_modes d b (setRowMap lib (fmupd colName (AString (bb_name b)) fmempty) colExternalIDs (bb_externalIDs b));
          row = (if ports \<noteq> [] then fmupd colPorts (uuidSet ports) row else row);
          row = (if controllers \<noteq> [] then fmupd colController (uuidSet controllers) row else row) in
      insert_op tableBridge bridgeUUID (foldl addBridgeConfigRef row configs))"

definition iface_external_ids :: "ovsPortSpec \<Rightarrow> string_map" where
  "iface_external_ids p = (if ps_interfaceExternalIDs p = fmempty then ps_externalIDs p else ps_interfaceExternalIDs p)"

definition existing_iface_ops :: "ovsdb_lib \<Rightarrow> 'w dbClient \<Rightarrow> ovsPortSpec \<Rightarrow> string \<Rightarrow> Operation list" where
  "existing_iface_ops lib d p iface =
     (let mutations = map_mutation lib (HasColumn (db_schema d) tableInterface colOptions) colOptions (ps_interfaceOptions p)
          @ map_mutation lib True colExternalIDs (iface_external_ids p) in
      (if ps_interfaceType p \<noteq> [] then [update_op tableInterface iface (fmupd colType (AString (ps_interfaceType p)) fmempty)] else [])
    @ (if mutations \<noteq> [] then [mutate_op tableInterface iface mutations] else []))"

text \<open>The operations on a port that is there already; without a bridge the port is given to the new one.\<close>

definition existing_port_ops :: "ovsdb_lib \<Rightarrow> 'w dbClient \<Rightarrow> OVSBridge option \<Rightarrow> ovsPortSpec \<Rightarrow> OVSPort \<Rightarrow> string list \<times> Operation list" where
  "existing_port_ops lib d bridge p port =
     (let mutations = map_mutation lib True colExternalIDs (ps_externalIDs p)
            @ map_mutation lib (HasColumn (db_schema d) tablePort colOptions) colOptions (ps_options p);
          attach = (case bridge of
             None \<Rightarrow> []
           | Some br \<Rightarrow> if containsString (br_Ports br) (vp_UUID port) then []
                else [mutate_op tableBridge (br_UUID br) [NewMutation colPorts MutateInsert (uuidSet [vp_UUID port])]]) in
      (if Option.is_none bridge then [vp_UUID port] else [],
       attach
     @ (if mutations \<noteq> [] then [mutate_op tablePort (vp_UUID port) mutations] else [])
     @ (if ps_interfaceType p \<noteq> [] \<or> ps_interfaceOptions p \<noteq> fmempty \<or> ps_interfaceExternalIDs p \<noteq> fmempty
        then concat (map (existing_iface_ops lib d p) (vp_Interfaces port)) else [])))"

definition new_port_ops :: "ovsdb_lib \<Rightarrow> 'w dbClient \<Rightarrow> OVSBridge option \<Rightarrow> ovsPortSpec \<Rightarrow> string \<Rightarrow> string \<Rightarrow> string list \<times> Operation list" where
  "new_port_ops lib d bridge p ifaceUUID portUUID =
     (let ifaceRow = setRowMap lib (fmupd colName (AString (ps_interfaceName p)) fmempty) colExternalIDs (iface_external_ids p);
          ifaceRow = (if HasColumn (db_schema d) tableInterface colOptions then setRowMap lib ifaceRow colOptions (ps_interfaceOptions p) else ifaceRow);
          ifaceRow = (if ps_interfaceType p \<noteq> [] then fmupd colType (AString (ps_interfaceType p)) ifaceRow else ifaceRow);
          portRow = setRowMap lib (fmupd colInterfaces (uuidSet [ifaceUUID]) (fmupd colName (AString (ps_name p)) fmempty)) colExternalIDs (ps_externalIDs p);
          portRow = (if HasColumn (db_schema d) tablePort colOptions then setRowMap lib portRow colOptions (ps_options p) else portRow) in
      (if Option.is_none bridge then [portUUID] else [],
       [insert_op tableInterface ifaceUUID ifaceRow, insert_op tablePort portUUID portRow]
     @ (case bridge of None \<Rightarrow> [] | Some br \<Rightarrow> [mutate_op tableBridge (br_UUID br) [NewMutation colPorts MutateInsert (uuidSet [portUUID])]])))"

definition port_ops :: "ovsdb_lib \<Rightarrow> 'w dbClient \<Rightarrow> 'w \<Rightarrow> OVSBridge option \<Rightarrow> ovsPortSpec option \<Rightarrow> (string list \<times> Operation list) res \<times> 'w" where
  "port_ops lib d w bridge port =
     (case port of
        None \<Rightarrow> (Inr ([], []), w)
      | Some p \<Rightarrow>
          io_bind (selectPorts d w (ps_name p)) (\<lambda>existing w.
            case existing of
              e # _ \<Rightarrow> (Inr (existing_port_ops lib d bridge p e), w)
            | [] \<Rightarrow>
                (case namedUUID d w ''iface'' of (iface, w) \<Rightarrow>
                 (case namedUUID d w ''port'' of (uuid, w) \<Rightarrow> (Inr (new_port_ops lib d bridge p iface uuid), w)))))"

text \<open>The operations on a bridge that is there already.\<close>

definition existing_bridge_ops :: "ovsdb_lib \<Rightarrow> 'w dbClient \<Rightarrow> 'w BridgeBuilder \<Rightarrow> OVSBridge \<Rightarrow> string list \<Rightarrow> ovsBridgeConfigUUID list \<Rightarrow> Operation list" where
  "existing_bridge_ops lib d b br controllers configs =
     (if controllers \<noteq> [] then [mutate_op tableBridge (br_UUID br) [NewMutation colController MutateInsert (uuidSet controllers)]] else [])
   @ bridgeConfigReferenceOps (br_UUID br) configs
   @ (if bb_externalIDs b \<noteq> fmempty then [mutate_op tableBridge (br_UUID br) (map_mutation lib True colExternalIDs (bb_externalIDs b))] else [])
   @ (let updateRow = bridge_modes d b fmempty in if updateRow \<noteq> fmempty then [update_op tableBridge (br_UUID br) updateRow] else [])"

definition opsBridgeUUID :: "Operation list \<Rightarrow> string" where
  "opsBridgeUUID ops = (case find (\<lambda>p. op_Table p = tableBridge \<and> op_Op p = ''insert'') ops of Some p \<Rightarrow> op_UUIDName p | None \<Rightarrow> [])"

text \<open>A new bridge is also referenced from the root row.\<close>

definition new_bridge_ops :: "ovsdb_lib \<Rightarrow> 'w dbClient \<Rightarrow> 'w \<Rightarrow> 'w BridgeBuilder \<Rightarrow> Operation list \<Rightarrow> string list \<Rightarrow> string list \<Rightarrow> ovsBridgeConfigUUID list
    \<Rightarrow> Operation list res \<times> 'w" where
  "new_bridge_ops lib d w b ops0 controllers ports configs =
     (case namedUUID d w ''bridge'' of (uuid, w) \<Rightarrow>
      let ops = ops0 @ [insertBridgeOp lib d b uuid controllers ports configs]; bridgeUUID = opsBridgeUUID ops in
      if bridgeUUID = []
      then (Inl (wrap_err ErrorConflict dbOpenVSwitch tableBridge (ovs_mode_string (bb_mode b)) (bb_name b) ''bridge insert operation missing UUID'' None), w)
      else io_bind (openVSwitchUUID (newTableRef (Some d) tableOpenVSwitch [] []) w) (\<lambda>rootUUID w.
        (Inr (ops @ [mutate_op tableOpenVSwitch rootUUID [NewMutation colBridges MutateInsert (uuidSet [bridgeUUID])]]), w)))"

definition ensure_ops :: "ovsdb_lib \<Rightarrow> 'w dbClient \<Rightarrow> 'w \<Rightarrow> 'w BridgeBuilder \<Rightarrow> OVSBridge option \<Rightarrow> string list \<times> Operation list
    \<Rightarrow> ovsBridgeConfigUUID list \<times> Operation list \<Rightarrow> Operation list res \<times> 'w" where
  "ensure_ops lib d w b bridge controllers configs =
     io_bind (port_ops lib d w bridge (bb_port b)) (\<lambda>(ports, portOps) w.
       let ops = portOps @ snd controllers @ snd configs in
       case bridge of
         Some br \<Rightarrow> (Inr (ops @ existing_bridge_ops lib d b br (fst controllers) (fst configs)), w)
       | None \<Rightarrow> new_bridge_ops lib d w b ops (fst controllers) ports (fst configs))"

definition executeEnsureOnce :: "ovsdb_lib \<Rightarrow> 'w dbClient \<Rightarrow> 'w \<Rightarrow> 'w BridgeBuilder \<Rightarrow> check \<times> 'w BridgeBuilder \<times> 'w" where
  "executeEnsureOnce lib d w b =
     (let mode = ovs_mode_string (bb_mode b) in
      case io_bind (selectBridges d w (bb_name b)) (\<lambda>bridges w.
        io_bind (if HasTable (db_schema d) tableController \<and> HasColumn (db_schema d) tableBridge colController
            then controllerOps d w (uniqueStrings (bb_controllerTargets b)) else (Inr ([], []), w)) (\<lambda>controllers w.
          (Inr (case bridges of [] \<Rightarrow> None | br # _ \<Rightarrow> Some br, controllers), w))) of
        (Inl e, w) \<Rightarrow> (Some e, b, w)
      | (Inr (bridge, controllers), w) \<Rightarrow>
          (case bridgeConfigOps d mode w (bb_advancedConfigs b) of
             (Inl e, specs, w) \<Rightarrow> (Some e, b\<lparr>bb_advancedConfigs := specs\<rparr>, w)
           | (Inr configs, specs, w) \<Rightarrow>
               let b = b\<lparr>bb_advancedConfigs := specs\<rparr> in
               (case ensure_ops lib d w b bridge controllers configs of
                  (Inl e, w) \<Rightarrow> (Some e, b, w)
                | (Inr ops, w) \<Rightarrow>
                    if ops = [] then (None, b, w)
                    else (case ovs_commit d w tableBridge mode (bb_name b) ops (mustAffectNonInsertOps (map op_Op ops)) of (c, w) \<Rightarrow> (c, b, w)))))"

text \<open>A second attempt when somebody else created a row in between.\<close>

definition executeEnsure :: "ovsdb_lib \<Rightarrow> 'w dbClient \<Rightarrow> 'w \<Rightarrow> 'w BridgeBuilder \<Rightarrow> check \<times> 'w BridgeBuilder \<times> 'w" where
  "executeEnsure lib d w b =
     (case executeEnsureOnce lib d w b of
        (Some e, b, w) \<Rightarrow> if IsKind (Some e) ErrorAlreadyExists then executeEnsureOnce lib d w b else (Some e, b, w)
      | (None, b, w) \<Rightarrow> (None, b, w))"

section \<open>Deleting\<close>

definition port_rows_delete_ops :: "OVSBridge list \<Rightarrow> OVSPort list \<Rightarrow> string \<Rightarrow> OVSPort \<Rightarrow> Operation list" where
  "port_rows_delete_ops allBridges allPorts bridgeUUID port =
     (if portUsedByOtherBridges allBridges bridgeUUID (vp_UUID port) then []
      else delete_op tablePort (vp_UUID port)
        # map (delete_op tableInterface) (filter (\<lambda>i. \<not> interfaceUsedByOtherPorts allPorts (vp_UUID port) i) (vp_Interfaces port)))"

definition bridge_delete_ops :: "string \<Rightarrow> OVSBridge \<Rightarrow> OVSPort list \<Rightarrow> OVSBridge list \<Rightarrow> OVSPort list \<Rightarrow> Operation list" where
  "bridge_delete_ops rootUUID bridge ports allBridges allPorts =
     [mutate_op tableOpenVSwitch rootUUID [NewMutation colBridges MutateDelete (uuidSet [br_UUID bridge])], delete_op tableBridge (br_UUID bridge)]
   @ concat (map (port_rows_delete_ops allBridges allPorts (br_UUID bridge)) ports)"

definition Bridge_executeDelete :: "'w dbClient \<Rightarrow> 'w \<Rightarrow> 'w BridgeBuilder \<Rightarrow> check \<times> 'w" where
  "Bridge_executeDelete d w b =
     (case io_bind (selectBridges d w (bb_name b)) (\<lambda>bridges w.
        case bridges of
          [] \<Rightarrow> (Inl (wrap_err ErrorNotFound dbOpenVSwitch tableBridge ''delete'' (bb_name b) ''bridge not found'' None), w)
        | bridge # _ \<Rightarrow>
            io_bind (openVSwitchUUID (newTableRef (Some d) tableOpenVSwitch [] []) w) (\<lambda>rootUUID w.
            io_bind (selectPortsByUUID d w (br_Ports bridge)) (\<lambda>ports w.
            io_bind (selectAllBridges d w) (\<lambda>allBridges w.
            io_bind (selectAllPorts d w) (\<lambda>allPorts w.
              (Inr (bridge_delete_ops rootUUID bridge ports allBridges allPorts), w)))))) of
        (Inl e, w) \<Rightarrow> (Some e, w)
      | (Inr ops, w) \<Rightarrow> ovs_commit d w tableBridge ''delete'' (bb_name b) ops [0, 1])"

definition delete_port_ops :: "OVSBridge \<Rightarrow> OVSPort \<Rightarrow> OVSBridge list \<Rightarrow> OVSPort list \<Rightarrow> string list \<Rightarrow> Operation list" where
  "delete_port_ops bridge port allBridges allPorts mirrors =
     (let shared = portUsedByOtherBridges allBridges (br_UUID bridge) (vp_UUID port) in
      [mutate_op tableBridge (br_UUID bridge) [NewMutation colPorts MutateDelete (uuidSet [vp_UUID port])]]
    @ (if shared then [] else [delete_op tablePort (vp_UUID port)])
    @ map (\<lambda>m. mutate_op tableBridge (br_UUID bridge) [NewMutation colMirrors MutateDelete (uuidSet [m])]) mirrors
    @ (if shared then [] else map (delete_op tableInterface) (filter (\<lambda>i. \<not> interfaceUsedByOtherPorts allPorts (vp_UUID port) i) (vp_Interfaces port))))"

definition executeDeletePort :: "'w dbClient \<Rightarrow> 'w \<Rightarrow> 'w BridgeBuilder \<Rightarrow> check \<times> 'w" where
  "executeDeletePort d w b =
     (case io_bind (selectBridges d w (bb_name b)) (\<lambda>bridges w.
        case bridges of
          [] \<Rightarrow> (Inl (wrap_err ErrorNotFound dbOpenVSwitch tableBridge ''delete_port'' (bb_name b) ''bridge not found'' None), w)
        | bridge # _ \<Rightarrow>
            io_bind (selectPorts d w (bb_deletePort b)) (\<lambda>ports w.
            case ports of
              [] \<Rightarrow> (Inl (wrap_err ErrorNotFound dbOpenVSwitch tablePort ''delete'' (bb_deletePort b) ''port not found'' None), w)
            | port # _ \<Rightarrow>
                if \<not> containsString (br_Ports bridge) (vp_UUID port)
                then (Inl (wrap_err ErrorNotFound dbOpenVSwitch tablePort ''delete'' (bb_deletePort b) ''port is not attached to bridge'' None), w)
                else io_bind (selectAllBridges d w) (\<lambda>allBridges w.
                  io_bind (selectAllPorts d w) (\<lambda>allPorts w.
                  io_bind (selectBridgeMirrorsForPort d w bridge (vp_UUID port)) (\<lambda>mirrors w.
                    (Inr (delete_port_ops bridge port allBridges allPorts mirrors,
                       if portUsedByOtherBridges allBridges (br_UUID bridge) (vp_UUID port) then [0] else [0, 1]), w)))))) of
        (Inl e, w) \<Rightarrow> (Some e, w)
      | (Inr (ops, mustAffect), w) \<Rightarrow> ovs_commit d w tablePort ''delete'' (bb_deletePort b) ops mustAffect)"

section \<open>Executing\<close>

definition Bridge_Execute :: "ovsdb_lib \<Rightarrow> 'w dbClient \<Rightarrow> 'w \<Rightarrow> 'w BridgeBuilder \<Rightarrow> check \<times> 'w BridgeBuilder \<times> 'w" where
  "Bridge_Execute lib d w b0 =
     (if bb_used b0
      then (Some (wrap_err ErrorValidation dbOpenVSwitch tableBridge (ovs_mode_string (bb_mode b0)) (bb_name b0) ''builder already executed'' None), b0, w)
      else let b = b0\<lparr>bb_used := True\<rparr> in
        case Bridge_validate b of
          Some e \<Rightarrow> (Some e, b, w)
        | None \<Rightarrow>
            (case bb_mode b of
               ovsModeEnsure \<Rightarrow> executeEnsure lib d w b
             | ovsModeDelete \<Rightarrow> (case Bridge_executeDelete d w b of (c, w) \<Rightarrow> (c, b, w))
             | ovsModeDeletePort \<Rightarrow> (case executeDeletePort d w b of (c, w) \<Rightarrow> (c, b, w))))"

section \<open>Reading\<close>

definition OVS_GetBridge :: "'w dbClient \<Rightarrow> 'w \<Rightarrow> string \<Rightarrow> OVSBridge res \<times> 'w" where
  "OVS_GetBridge d w name =
     io_bind (selectBridges d w name) (\<lambda>rows w.
       (case rows of [] \<Rightarrow> Inl (wrap_err ErrorNotFound dbOpenVSwitch tableBridge ''get'' name ''bridge not found'' None) | b # _ \<Rightarrow> Inr b, w))"

definition OVS_GetPort :: "'w dbClient \<Rightarrow> 'w \<Rightarrow> string \<Rightarrow> OVSPort res \<times> 'w" where
  "OVS_GetPort d w name =
     io_bind (selectPorts d w name) (\<lambda>rows w.
       (case rows of [] \<Rightarrow> Inl (wrap_err ErrorNotFound dbOpenVSwitch tablePort ''get'' name ''port not found'' None) | p # _ \<Rightarrow> Inr p, w))"

definition ListBridges :: "'w dbClient \<Rightarrow> 'w \<Rightarrow> OVSBridge list res \<times> 'w" where
  "ListBridges d w = io_bind (List_rows (newTableRef (Some d) tableBridge [] []) w) (\<lambda>rows w. (Inr (map ovsBridgeFromAuditRow rows), w))"

definition ListPorts :: "'w dbClient \<Rightarrow> 'w \<Rightarrow> OVSPort list res \<times> 'w" where
  "ListPorts d w = io_bind (List_rows (newTableRef (Some d) tablePort [] []) w) (\<lambda>rows w. (Inr (map ovsPortFromAuditRow rows), w))"

definition ListInterfaces :: "'w dbClient \<Rightarrow> 'w \<Rightarrow> OVSInterface list res \<times> 'w" where
  "ListInterfaces d w = io_bind (List_rows (newTableRef (Some d) tableInterface [] []) w) (\<lambda>rows w. (Inr (map ovsInterfaceFromAuditRow rows), w))"

definition GetInterface :: "'w dbClient \<Rightarrow> 'w \<Rightarrow> string \<Rightarrow> OVSInterface res \<times> 'w" where
  "GetInterface d w name = io_bind (Get (newTableRef (Some d) tableInterface colName name) w) (\<lambda>row w. (Inr (ovsInterfaceFromAuditRow row), w))"

definition getInterfaceByUUID :: "'w dbClient \<Rightarrow> 'w \<Rightarrow> string \<Rightarrow> OVSInterface res \<times> 'w" where
  "getInterfaceByUUID d w i =
     io_bind (Get (WhereCondition (newTableRef (Some d) tableInterface [] []) colUUID ConditionEqual (AUUID i)) w)
       (\<lambda>row w. (Inr (ovsInterfaceFromAuditRow row), w))"

end
