(* ===== verification/Ovs_Bridge_Props.thy ===== *)
theory Ovs_Bridge_Props
  imports Ovs_Bridge Careful_Client
begin

text \<open>
  What the bridge builder deletes: ensuring a bridge deletes nothing, and deleting a bridge or a port spares the ports other bridges
  use and the interfaces other ports use.
\<close>

section \<open>Deletions that spare shared rows\<close>

text \<open>The rows of a listing of a table under some conditions; an empty listing needs no answer.\<close>

definition listed :: "answered \<Rightarrow> string \<Rightarrow> Condition list \<Rightarrow> row list \<Rightarrow> bool" where
  "listed S tab c rows \<longleftrightarrow> rows = [] \<or> (\<exists>p. S p rows \<and> op_Table p = tab \<and> op_Where p = c)"

lemma listed_mono: "listed S tab c rows \<Longrightarrow> S \<le> S' \<Longrightarrow> listed S' tab c rows"
  by (auto simp: listed_def le_fun_def)

lemma listed_shown: "listed S tab c rows \<Longrightarrow> row \<in> set rows \<Longrightarrow> shown S tab row"
  by (auto simp: listed_def intro: shownI)

text \<open>
  A port of the bridge: one that was returned for a UUID that the row of the bridge lists or, if a port is selected by name, the one that was
  returned under this name and that the bridge lists.
\<close>

definition attached :: "string option \<Rightarrow> answered \<Rightarrow> row \<Rightarrow> row \<Rightarrow> bool" where
  "attached sel S bridge port \<longleftrightarrow>
     (\<exists>c rows. listed S tablePort c rows \<and> port \<in> set rows \<and>
       (case sel of
          None \<Rightarrow> \<exists>i\<in>set (rowUUIDSliceValue bridge colPorts). c = conditionUUID i
        | Some n \<Rightarrow> c = conditionName n \<and> rowUUIDValue port \<in> set (rowUUIDSliceValue bridge colPorts)))"

text \<open>
  Of a bridge returned under its name, a deletion may take the row itself (if no port is selected), an attached port that no other
  bridge of a listing of all bridges uses, and an interface of such a port that no other port of a listing of all ports
  uses.
\<close>

definition unshared :: "string option \<Rightarrow> string \<Rightarrow> answered \<Rightarrow> Operation \<Rightarrow> bool" where
  "unshared sel name S p \<longleftrightarrow> (op_Op p = ''delete'' \<longrightarrow>
     (\<exists>bridge rows. listed S tableBridge (conditionName name) (bridge # rows) \<and>
       (sel = None \<and> p = delete_op tableBridge (rowUUIDValue bridge)
      \<or> (\<exists>port bridges ports. attached sel S bridge port \<and> listed S tableBridge [] bridges \<and> listed S tablePort [] ports
          \<and> (\<forall>b\<in>set bridges. rowUUIDValue b \<noteq> rowUUIDValue bridge \<longrightarrow> rowUUIDValue port \<notin> set (rowUUIDSliceValue b colPorts))
          \<and> (p = delete_op tablePort (rowUUIDValue port)
           \<or> (\<exists>i\<in>set (rowUUIDSliceValue port colInterfaces). p = delete_op tableInterface i
               \<and> (\<forall>q\<in>set ports. rowUUIDValue q \<noteq> rowUUIDValue port \<longrightarrow> i \<notin> set (rowUUIDSliceValue q colInterfaces))))))))"

lemma attached_mono: "attached sel S b p \<Longrightarrow> S \<le> S' \<Longrightarrow> attached sel S' b p"
  unfolding attached_def by (blast intro: listed_mono)

lemma unshared_mono:
  assumes "unshared sel name S p" "S \<le> S'"
  shows "unshared sel name S' p"
proof -
  have l: "listed S tab c rows \<Longrightarrow> listed S' tab c rows" "attached sel S b q \<Longrightarrow> attached sel S' b q" for tab c rows b q
    using listed_mono attached_mono assms(2) by blast+
  show ?thesis using assms(1) unfolding unshared_def by (elim impE imp_forward exE conjE ex_forward conj_forward) (blast intro: l)+
qed

lemma unshared_other: "op_Op p \<noteq> ''delete'' \<Longrightarrow> unshared sel name S p"
  by (simp add: unshared_def)

lemma op_kinds [simp]: "op_Op (mutate_op tab i ms) = ''mutate''" "op_Op (update_op tab i row) = ''update''" "op_Op (insert_op tab u row) = ''insert''"
  by (simp_all add: mutate_op_def update_op_def insert_op_def op_of_def)

text \<open>The decoded rows.\<close>

lemma decoded [simp]: "br_UUID (ovs_bridge_of row) = rowUUIDValue row" "br_Ports (ovs_bridge_of row) = rowUUIDSliceValue row colPorts"
  "vp_UUID (ovs_port_of row) = rowUUIDValue row" "vp_Interfaces (ovs_port_of row) = rowUUIDSliceValue row colInterfaces"
  by (simp_all add: ovs_bridge_of_def ovs_port_of_def)

lemma not_used_elsewhere:
  "\<not> portUsedByOtherBridges (map ovs_bridge_of bridges) b p \<longleftrightarrow>
     (\<forall>row\<in>set bridges. rowUUIDValue row \<noteq> b \<longrightarrow> p \<notin> set (rowUUIDSliceValue row colPorts))"
  "\<not> interfaceUsedByOtherPorts (map ovs_port_of ports) p i \<longleftrightarrow>
     (\<forall>row\<in>set ports. rowUUIDValue row \<noteq> p \<longrightarrow> i \<notin> set (rowUUIDSliceValue row colInterfaces))"
  by (auto simp: portUsedByOtherBridges_def interfaceUsedByOtherPorts_def list_ex_iff containsString_def)

lemma unshared_port:
  assumes "listed S tableBridge (conditionName name) (bridge # rows)" "attached sel S bridge port"
    "listed S tableBridge [] bridges" "listed S tablePort [] ports"
    "\<not> portUsedByOtherBridges (map ovs_bridge_of bridges) (rowUUIDValue bridge) (rowUUIDValue port)"
  shows "unshared sel name S (delete_op tablePort (rowUUIDValue port))"
    "i \<in> set (rowUUIDSliceValue port colInterfaces) \<Longrightarrow> \<not> interfaceUsedByOtherPorts (map ovs_port_of ports) (rowUUIDValue port) i \<Longrightarrow>
       unshared sel name S (delete_op tableInterface i)"
  using assms unfolding unshared_def not_used_elsewhere by blast+

lemma unshared_bridge:
  assumes "listed S tableBridge (conditionName name) (bridge # rows)"
  shows "unshared None name S (delete_op tableBridge (rowUUIDValue bridge))"
  using assms unfolding unshared_def by blast

section \<open>Steps of the builder\<close>

text \<open>The configurations of a builder refer to rows of its own client.\<close>

definition own_configs :: "'w dbClient \<Rightarrow> 'w ovsBridgeConfigSpec list \<Rightarrow> bool" where
  "own_configs d specs \<longleftrightarrow> (\<forall>spec\<in>set specs. \<forall>r. bc_ref spec = Some r \<longrightarrow> tr_db r = Some d)"

lemma own_configs_simps [simp]: "own_configs d []" "own_configs d (spec # specs) \<longleftrightarrow> (\<forall>r. bc_ref spec = Some r \<longrightarrow> tr_db r = Some d) \<and> own_configs d specs"
  "own_configs d (specs @ specs') \<longleftrightarrow> own_configs d specs \<and> own_configs d specs'"
  by (auto simp: own_configs_def)

lemma calls_own: "own_configs d (bb_advancedConfigs b) \<Longrightarrow> own_configs d (bb_advancedConfigs (foldl (bridge_call_step lib d) b calls))"
proof (induction calls arbitrary: b)
  case (Cons call calls)
  have "own_configs d (bb_advancedConfigs (bridge_call_step lib d b call))"
    using Cons.prems by (cases call)
      (simp_all add: Bridge_AddPort_def add_config_def on_port_def Let_def newTableRef_def namedByExternalID_def withDefaultMap_def WhereCondition_def)
  then show ?case using Cons.IH by simp
qed simp

lemma calls_mode: "bb_mode (foldl (bridge_call_step lib d) b calls) = bb_mode b" "bb_name (foldl (bridge_call_step lib d) b calls) = bb_name b"
  "bb_deletePort (foldl (bridge_call_step lib d) b calls) = bb_deletePort b"
proof -
  have "bb_mode (bridge_call_step lib d b call) = bb_mode b \<and> bb_name (bridge_call_step lib d b call) = bb_name b
      \<and> bb_deletePort (bridge_call_step lib d b call) = bb_deletePort b" for b call
    by (cases call) (simp_all add: Bridge_AddPort_def add_config_def on_port_def Let_def)
  then show "bb_mode (foldl (bridge_call_step lib d) b calls) = bb_mode b" "bb_name (foldl (bridge_call_step lib d) b calls) = bb_name b"
    "bb_deletePort (foldl (bridge_call_step lib d) b calls) = bb_deletePort b"
    by (induction calls arbitrary: b) simp_all
qed

lemma config_shared_ref [simp]: "bc_ref (config_shared spec) = bc_ref spec"
  by (simp add: config_shared_def)

lemma quiet_ref [simp]: "op_Op (bridgeConfigReferenceOp i config) \<noteq> ''delete''"
  by (cases "cu_bridgeKey config") (simp_all add: bridgeConfigReferenceOp_def)

lemma quiet_refs [simp]: "no_delete (bridgeConfigReferenceOps i configs)"
  unfolding bridgeConfigReferenceOps_def by (induction configs) simp_all

lemma quiet_ops [simp]:
  "no_delete (bridgeConfigUpdateOps spec i row)" "no_delete (existing_iface_ops lib d p i)"
  "no_delete (snd (existing_port_ops lib d bridge p port))" "no_delete (snd (new_port_ops lib d bridge p iface uuid))"
  "no_delete (existing_bridge_ops lib d b br controllers configs)" "op_Op (insertBridgeOp lib d b uuid cs ps configs) \<noteq> ''delete''"
proof -
  have iface: "no_delete (existing_iface_ops lib d p i)" for i by (simp add: existing_iface_ops_def Let_def)
  show "no_delete (bridgeConfigUpdateOps spec i row)" by (simp add: bridgeConfigUpdateOps_def Let_def)
  show "no_delete (existing_iface_ops lib d p i)" by (rule iface)
  have "no_delete (concat (map (existing_iface_ops lib d p) is))" for "is" by (induction "is") (simp_all add: iface)
  then show "no_delete (snd (existing_port_ops lib d bridge p port))" by (simp add: existing_port_ops_def Let_def split: option.split)
  show "no_delete (snd (new_port_ops lib d bridge p iface uuid))" by (simp add: new_port_ops_def Let_def split: option.split)
  show "op_Op (insertBridgeOp lib d b uuid cs ps configs) \<noteq> ''delete''" by (simp add: insertBridgeOp_def Let_def)
  show "no_delete (existing_bridge_ops lib d b br controllers configs)" by (simp add: existing_bridge_ops_def Let_def)
qed

lemma ensures_started: "keeps good seen u v \<Longrightarrow> ensures good seen v m Q \<Longrightarrow> ensures good seen u m Q"
  by (auto simp: keeps_def ensures_def)

context careful_client
begin

lemma ovs_select_ensures: "ensures good seen u (ovs_select d u tab object c cols) (\<lambda>results v. listed (seen v) tab c (first_rows results))"
proof -
  have "ensures good seen u (ovs_select d u tab object c cols) (\<lambda>results v. \<forall>x xs. results = x # xs \<longrightarrow> seen v (select_op d tab c cols) (res_Rows x))"
    unfolding ovs_select_def by (rule transact_select_ensures) (simp add: select_op_def op_of_def)
  then show ?thesis
    by (rule ensures_weaken) (auto simp: listed_def first_rows_def select_op_def op_of_def split: list.splits)
qed

lemma selectBridges_ensures: "ensures good seen u (selectBridges d u name) (\<lambda>bs v. \<exists>rows. bs = map ovs_bridge_of rows \<and> listed (seen v) tableBridge (conditionName name) rows)"
  unfolding selectBridges_def by (rule ensures_bind [OF ovs_select_ensures]) (auto simp: decodeOVSBridges_def)

lemma selectAllBridges_ensures: "ensures good seen u (selectAllBridges d u) (\<lambda>bs v. \<exists>rows. bs = map ovs_bridge_of rows \<and> listed (seen v) tableBridge [] rows)"
  unfolding selectAllBridges_def by (rule ensures_bind [OF ovs_select_ensures]) (auto simp: decodeOVSBridges_def)

lemma selectPorts_ensures: "ensures good seen u (selectPorts d u name) (\<lambda>ps v. \<exists>rows. ps = map ovs_port_of rows \<and> listed (seen v) tablePort (conditionName name) rows)"
  unfolding selectPorts_def by (rule ensures_bind [OF ovs_select_ensures]) (auto simp: decodeOVSPorts_def)

lemma selectAllPorts_ensures: "ensures good seen u (selectAllPorts d u) (\<lambda>ps v. \<exists>rows. ps = map ovs_port_of rows \<and> listed (seen v) tablePort [] rows)"
  unfolding selectAllPorts_def by (rule ensures_bind [OF ovs_select_ensures]) (auto simp: decodeOVSPorts_def)

lemma selectPortsByUUID_ensures:
  "ensures good seen u (selectPortsByUUID d u ids)
     (\<lambda>ps v. \<forall>p\<in>set ps. \<exists>i\<in>set ids. \<exists>rows row. listed (seen v) tablePort (conditionUUID i) rows \<and> row \<in> set rows \<and> p = ovs_port_of row)"
proof -
  let ?f = "\<lambda>w i. io_bind (ovs_select d w tablePort i (conditionUUID i) port_columns) (\<lambda>results w. (Inr (decodeOVSPorts results), w))"
  let ?Q = "\<lambda>i p v. \<exists>rows row. listed (seen v) tablePort (conditionUUID i) rows \<and> row \<in> set rows \<and> p = ovs_port_of row"
  have f: "ensures good seen u (?f u i) (\<lambda>ps v. \<forall>p\<in>set ps. ?Q i p v)" for u i
    by (rule ensures_bind [OF ovs_select_ensures]) (auto simp: decodeOVSPorts_def)
  have "ensures good seen u (io_collect ?f u is) (\<lambda>ps v. \<forall>p\<in>set ps. \<exists>i\<in>set is. ?Q i p v)" for u "is"
  proof (induction "is" arbitrary: u)
    case (Cons i "is")
    show ?case unfolding io_collect.simps
      by (rule ensures_bind [OF f], rule ensures_bind [OF Cons]) (auto, (blast intro: listed_mono)+)
  qed simp
  from this [of u "uniqueStrings ids"] show ?thesis unfolding selectPortsByUUID_def
    by (rule ensures_weaken) (fastforce simp: set_uniqueStrings)
qed

lemma mirrors_ensures: "ensures good seen u (selectBridgeMirrorsForPort d u bridge i) (\<lambda>_ _. True)"
proof -
  have "ensures good seen u (io_bind (ovs_select d u tableMirror j (conditionUUID j) cols) (\<lambda>results w. (Inr (f results), w))) (\<lambda>ps v. \<forall>p\<in>set ps. True)" for u j cols and f :: "Result list \<Rightarrow> string list"
    by (rule ensures_bind [OF ovs_select_ensures]) simp
  note one = this
  show ?thesis unfolding selectBridgeMirrorsForPort_def
    by (simp, intro impI, rule ensures_bind, rule ensures_collect [where Q = "\<lambda>_ _. True"], rule one) simp_all
qed

lemma ovs_commit_keeps: "list_all (okay (seen u)) ops \<Longrightarrow> keeps good seen u (snd (ovs_commit d u tab oper object ops idx))"
  using transact_keeps [of u ops tab oper object]
  by (cases "transact d u tab oper object ops"; cases "fst (transact d u tab oper object ops)") (auto simp: ovs_commit_def)

lemma prepared_ovs_keeps:
  assumes m: "ensures good seen u m (\<lambda>x v. list_all (okay (seen v)) (ops x))"
  shows "keeps good seen u (snd (case m of (Inl e, w) \<Rightarrow> (Some e, w) | (Inr x, w) \<Rightarrow> ovs_commit d w tab oper object (ops x) (idx x)))"
proof (cases m)
  case (Pair r v)
  have k: "keeps good seen u v" using ensures_keeps [OF m] by (simp add: Pair)
  show ?thesis
  proof (cases r)
    case (Inr x)
    have "good u \<Longrightarrow> list_all (okay (seen v)) (ops x)" using m by (simp add: ensures_def Pair Inr)
    then show ?thesis using keeps_trans [OF k ovs_commit_keeps] by (cases "good u") (auto simp: Pair Inr keeps_def)
  qed (simp add: Pair k)
qed

lemma prepared_ovs_pair:
  assumes "ensures good seen u m (\<lambda>r v. list_all (okay (seen v)) (fst r))"
  shows "keeps good seen u (snd (case m of (Inl e, w) \<Rightarrow> (Some e, w) | (Inr (ops, idx), w) \<Rightarrow> ovs_commit d w tab oper object ops idx))"
  using prepared_ovs_keeps [OF assms, of tab oper object snd] by (cases m; cases "fst m") (auto split: prod.splits)

lemma controllerOps_ensures: "ensures good seen u (controllerOps d u targets) (\<lambda>r _. no_delete (snd r))"
proof (induction targets arbitrary: u)
  case (Cons target targets)
  have tail: "ensures good seen v (io_bind (controllerOps d v targets) (\<lambda>(uuids, ops) w. (Inr (f uuids, ps @ ops), w))) (\<lambda>r _. no_delete (snd r))"
    if "no_delete ps" for v ps and f :: "string list \<Rightarrow> string list"
    by (rule ensures_bind [OF Cons]) (use that in auto)
  have sel: "ensures good seen u (selectControllers d u target) (\<lambda>_ _. True)"
    unfolding selectControllers_def by (rule ensures_bind [OF ovs_select_ensures]) simp
  show ?case unfolding controllerOps.simps
  proof (rule ensures_bind [OF sel])
    fix existing v
    obtain uuid v' where n: "namedUUID d v ''controller'' = (uuid, v')" by (cases "namedUUID d v ''controller''")
    show "ensures good seen v (case existing of
        c # _ \<Rightarrow> io_bind (controllerOps d v targets) (\<lambda>(uuids, ops) w. (Inr (oc_UUID c # uuids, ops), w))
      | [] \<Rightarrow> (case namedUUID d v ''controller'' of (uuid, w) \<Rightarrow> io_bind (controllerOps d w targets) (\<lambda>(uuids, ops) w.
          (Inr (uuid # uuids, insert_op tableController uuid (fmupd colTarget (AString target) fmempty) # ops), w)))) (\<lambda>r _. no_delete (snd r))"
      using tail [of "[]" v] tail [of "[insert_op tableController uuid (fmupd colTarget (AString target) fmempty)]" v'] named_keeps [OF n]
      by (cases existing) (simp_all add: n ensures_started)
  qed
qed simp

lemma config_ops_keeps:
  assumes "\<forall>r. bc_ref spec = Some r \<longrightarrow> tr_db r = Some d" "config_ops d mode u spec = (r, spec', v)"
  shows "keeps good seen u v \<and> bc_ref spec' = bc_ref spec \<and> (\<forall>cs ops. r = Inr (cs, ops) \<longrightarrow> no_delete ops)"
proof (cases "bc_ref spec")
  case (Some ref)
  obtain r1 w where sel: "selectRows ref u (identityConditions ref) [colUUID] = (r1, w)" by (cases "selectRows ref u (identityConditions ref) [colUUID]")
  have k: "keeps good seen u w"
    using ensures_keeps [OF fluent_select_ensures, of ref u "identityConditions ref" "[colUUID]"] assms(1) by (simp add: Some sel)
  obtain uuid w' where n: "namedUUID d w (tableUUIDPrefix (bc_table spec)) = (uuid, w')" by (cases "namedUUID d w (tableUUIDPrefix (bc_table spec))")
  have n': "namedUUID d w (tableUUIDPrefix (bc_table (config_shared spec))) = (uuid, w')" using n by (simp add: config_shared_def)
  show ?thesis using assms(2) k keeps_trans [OF k named_keeps [OF n]] Some
    by (auto simp: config_ops_def sel n' Let_def split: if_splits option.splits sum.splits list.splits)
qed (use assms(2) in \<open>auto simp: config_ops_def\<close>)

lemma bridgeConfigOps_keeps:
  "own_configs d specs \<Longrightarrow> bridgeConfigOps d mode u specs = (r, specs', v) \<Longrightarrow>
     keeps good seen u v \<and> own_configs d specs' \<and> (\<forall>cs ops. r = Inr (cs, ops) \<longrightarrow> no_delete ops)"
proof (induction specs arbitrary: u r specs' v)
  case (Cons spec specs)
  obtain r1 spec1 w where c: "config_ops d mode u spec = (r1, spec1, w)" by (cases "config_ops d mode u spec") auto
  obtain r2 specs2 w2 where cs: "bridgeConfigOps d mode w specs = (r2, specs2, w2)" by (cases "bridgeConfigOps d mode w specs") auto
  have one: "keeps good seen u w \<and> bc_ref spec1 = bc_ref spec \<and> (\<forall>cs ops. r1 = Inr (cs, ops) \<longrightarrow> no_delete ops)"
    using config_ops_keeps [OF _ c] Cons.prems(1) by simp
  have rest: "keeps good seen w w2 \<and> own_configs d specs2 \<and> (\<forall>cs ops. r2 = Inr (cs, ops) \<longrightarrow> no_delete ops)"
    using Cons.IH [OF _ cs] Cons.prems(1) by simp
  show ?case using Cons.prems one rest keeps_trans [of good seen u w w2]
    by (auto simp: c cs split: sum.splits)
qed auto

lemma port_ops_ensures: "ensures good seen u (port_ops lib d u bridge port) (\<lambda>r _. no_delete (snd r))"
proof (cases port)
  case (Some p)
  have sel: "ensures good seen u (selectPorts d u name) (\<lambda>_ _. True)" for name
    by (rule ensures_weaken [OF selectPorts_ensures]) simp
  have "ensures good seen v (case existing of e # _ \<Rightarrow> (Inr (existing_port_ops lib d bridge p e), v)
     | [] \<Rightarrow> (case namedUUID d v ''iface'' of (iface, w) \<Rightarrow>
         (case namedUUID d w ''port'' of (uuid, w) \<Rightarrow> (Inr (new_port_ops lib d bridge p iface uuid), w)))) (\<lambda>r _. no_delete (snd r))" for existing v
  proof (cases existing)
    case Nil
    obtain iface v1 where i: "namedUUID d v ''iface'' = (iface, v1)" by (cases "namedUUID d v ''iface''")
    obtain uuid v2 where p: "namedUUID d v1 ''port'' = (uuid, v2)" by (cases "namedUUID d v1 ''port''")
    show ?thesis by (simp add: Nil i p) (rule ensures_started [OF keeps_trans [OF named_keeps [OF i] named_keeps [OF p]]], simp)
  qed simp
  then show ?thesis unfolding port_ops_def by (simp add: Some) (rule ensures_bind [OF sel])
qed (simp add: port_ops_def)

lemma new_bridge_ops_ensures: "no_delete ops \<Longrightarrow> ensures good seen u (new_bridge_ops lib d u b ops controllers ports configs) (\<lambda>ops _. no_delete ops)"
proof -
  assume ops: "no_delete ops"
  obtain uuid v where n: "namedUUID d u ''bridge'' = (uuid, v)" by (cases "namedUUID d u ''bridge''")
  have "tr_db (newTableRef (Some d) tableOpenVSwitch [] []) = Some d" by (simp add: newTableRef_def)
  note root = root_ensures [OF this]
  show ?thesis unfolding new_bridge_ops_def n Let_def
    by (rule ensures_started [OF named_keeps [OF n]], simp, intro impI, rule ensures_bind [OF root]) (simp add: ops)
qed

lemma ensure_ops_ensures:
  assumes "no_delete (snd controllers)" "no_delete (snd configs)"
  shows "ensures good seen u (ensure_ops lib d u b bridge controllers configs) (\<lambda>ops _. no_delete ops)"
  unfolding ensure_ops_def Let_def
  by (rule ensures_bind [OF port_ops_ensures]) (use assms in \<open>auto split: option.split intro!: new_bridge_ops_ensures\<close>)

lemma ensure_prepared:
  "ensures good seen u (io_bind (selectBridges d u name) (\<lambda>bridges w.
     io_bind (if c then controllerOps d w targets else (Inr ([], []), w)) (\<lambda>controllers w.
       (Inr (case bridges of [] \<Rightarrow> None | br # _ \<Rightarrow> Some br, controllers), w)))) (\<lambda>r _. no_delete (snd (snd r)))"
proof -
  have "ensures good seen w (if c then controllerOps d w targets else (Inr ([], []), w)) (\<lambda>r _. no_delete (snd r))" for w
    by (simp add: controllerOps_ensures)
  then show ?thesis by (intro ensures_bind [OF selectBridges_ensures] ensures_bind [where P = "\<lambda>r _. no_delete (snd r)"]) simp_all
qed

lemma ensure_committed:
  assumes q: "no_delete (snd controllers)" "no_delete (snd configs)"
    and x: "(case ensure_ops lib d u b bridge controllers configs of
        (Inl e, w) \<Rightarrow> (Some e, b, w)
      | (Inr ops, w) \<Rightarrow> if ops = [] then (None, b, w)
          else (case ovs_commit d w tab oper object ops (idx ops) of (c, w) \<Rightarrow> (c, b, w))) = (c, b', v)"
  shows "keeps good seen u v \<and> b' = b"
proof -
  obtain r w where e: "ensure_ops lib d u b bridge controllers configs = (r, w)" by (cases "ensure_ops lib d u b bridge controllers configs")
  note ens = ensure_ops_ensures [OF q, of u lib b bridge, unfolded e]
  have k: "keeps good seen u w" using ensures_keeps [OF ens] by simp
  show ?thesis
  proof (cases r)
    case (Inr ops)
    have "keeps good seen u (snd (ovs_commit d w tab oper object ops (idx ops)))"
    proof (cases "good u")
      case True
      then have "no_delete ops" using ens by (simp add: ensures_def Inr)
      then show ?thesis by (rule keeps_trans [OF k ovs_commit_keeps [OF no_delete_okay]])
    qed (simp add: keeps_def)
    then show ?thesis using x k by (auto simp: e Inr split: if_splits prod.splits)
  qed (use x k in \<open>simp add: e\<close>)
qed

lemma executeEnsureOnce_keeps:
  assumes own: "own_configs d (bb_advancedConfigs b)" and x: "executeEnsureOnce lib d u b = (c, b', v)"
  shows "keeps good seen u v \<and> own_configs d (bb_advancedConfigs b')"
proof -
  let ?prep = "io_bind (selectBridges d u (bb_name b)) (\<lambda>bridges w.
        io_bind (if HasTable (db_schema d) tableController \<and> HasColumn (db_schema d) tableBridge colController
            then controllerOps d w (uniqueStrings (bb_controllerTargets b)) else (Inr ([], []), w)) (\<lambda>controllers w.
          (Inr (case bridges of [] \<Rightarrow> None | br # _ \<Rightarrow> Some br, controllers), w)))"
  obtain r1 w1 where p: "?prep = (r1, w1)" by (cases ?prep)
  note prep = ensure_prepared [of u "bb_name b" "HasTable (db_schema d) tableController \<and> HasColumn (db_schema d) tableBridge colController"
      "uniqueStrings (bb_controllerTargets b)", unfolded p]
  have k1: "keeps good seen u w1" using ensures_keeps [OF prep] by simp
  obtain r2 specs w2 where cfg: "bridgeConfigOps d (ovs_mode_string (bb_mode b)) w1 (bb_advancedConfigs b) = (r2, specs, w2)"
    by (cases "bridgeConfigOps d (ovs_mode_string (bb_mode b)) w1 (bb_advancedConfigs b)") auto
  note k2 = bridgeConfigOps_keeps [OF own cfg]
  note x = x [unfolded executeEnsureOnce_def Let_def p]
  show ?thesis
  proof (cases r1)
    case (Inr y)
    obtain bridge cs where y: "y = (bridge, cs)" by (cases y)
    show ?thesis
    proof (cases r2)
      case configs: (Inr cfgs)
      have q: "no_delete (snd cfgs)" using k2 configs by (cases cfgs) simp
      have "no_delete (snd cs)" if "good u" using prep that by (simp add: ensures_def Inr y)
      then have "good u \<Longrightarrow> keeps good seen w2 v \<and> b' = b\<lparr>bb_advancedConfigs := specs\<rparr>"
        using x ensure_committed [OF _ q] by (simp add: Inr y cfg configs)
      moreover have "b' = b\<lparr>bb_advancedConfigs := specs\<rparr>"
        using x by (auto simp: Inr y cfg configs split: prod.splits sum.splits if_splits)
      moreover have "good u \<Longrightarrow> keeps good seen w2 v \<Longrightarrow> keeps good seen u v" using keeps_trans [OF keeps_trans [OF k1]] k2 by blast
      ultimately show ?thesis using k2 by (cases "good u") (auto simp: keeps_def)
    qed (use x k1 k2 keeps_trans [OF k1] in \<open>auto simp: Inr y cfg\<close>)
  qed (use x k1 own in simp)
qed

lemma executeEnsure_keeps:
  assumes own: "own_configs d (bb_advancedConfigs b)"
  shows "keeps good seen u (snd (snd (executeEnsure lib d u b)))"
proof -
  obtain c1 b1 w1 where one: "executeEnsureOnce lib d u b = (c1, b1, w1)" by (cases "executeEnsureOnce lib d u b") auto
  obtain c2 b2 w2 where two: "executeEnsureOnce lib d w1 b1 = (c2, b2, w2)" by (cases "executeEnsureOnce lib d w1 b1") auto
  note k1 = executeEnsureOnce_keeps [OF own one]
  have "keeps good seen w1 w2" using executeEnsureOnce_keeps [OF _ two] k1 by blast
  then show ?thesis using k1 keeps_trans [of good seen u w1 w2] by (simp add: executeEnsure_def one two split: option.split)
qed

end

section \<open>Deleting bridges and ports\<close>

lemma port_rows_unshared:
  assumes "listed S tableBridge (conditionName name) (bridge # rows)" "attached sel S bridge port"
    "listed S tableBridge [] bridges" "listed S tablePort [] ports"
  shows "list_all (unshared sel name S) (port_rows_delete_ops (map ovs_bridge_of bridges) (map ovs_port_of ports) (rowUUIDValue bridge) (ovs_port_of port))"
  using unshared_port [OF assms] by (auto simp: port_rows_delete_ops_def list_all_iff)

lemma bridge_delete_unshared:
  assumes "listed S tableBridge (conditionName name) (bridge # rows)"
    "\<forall>p\<in>set members. \<exists>port. attached None S bridge port \<and> p = ovs_port_of port"
    "listed S tableBridge [] bridges" "listed S tablePort [] ports"
  shows "list_all (unshared None name S) (bridge_delete_ops root (ovs_bridge_of bridge) members (map ovs_bridge_of bridges) (map ovs_port_of ports))"
proof -
  have "list_all (unshared None name S) (port_rows_delete_ops (map ovs_bridge_of bridges) (map ovs_port_of ports) (rowUUIDValue bridge) p)"
    if p: "p \<in> set members" for p
  proof -
    obtain port where "attached None S bridge port" "p = ovs_port_of port" using assms(2) p by blast
    then show ?thesis using port_rows_unshared [OF assms(1) _ assms(3,4)] by simp
  qed
  then show ?thesis using unshared_bridge [OF assms(1)]
    by (auto simp: bridge_delete_ops_def list_all_iff unshared_other)
qed

lemma delete_port_unshared:
  assumes "listed S tableBridge (conditionName name) (bridge # rows)" "attached sel S bridge port"
    "listed S tableBridge [] bridges" "listed S tablePort [] ports"
  shows "list_all (unshared sel name S) (delete_port_ops (ovs_bridge_of bridge) (ovs_port_of port) (map ovs_bridge_of bridges) (map ovs_port_of ports) mirrors)"
  using unshared_port [OF assms] by (auto simp: delete_port_ops_def Let_def list_all_iff unshared_other)

lemma ports_attached:
  assumes "\<forall>p\<in>set members. \<exists>i\<in>set (rowUUIDSliceValue bridge colPorts). \<exists>rows row. listed S tablePort (conditionUUID i) rows \<and> row \<in> set rows \<and> p = ovs_port_of row"
  shows "\<forall>p\<in>set members. \<exists>port. attached None S bridge port \<and> p = ovs_port_of port"
proof
  fix p assume "p \<in> set members"
  then obtain i rows row where "i \<in> set (rowUUIDSliceValue bridge colPorts)" "listed S tablePort (conditionUUID i) rows" "row \<in> set rows" "p = ovs_port_of row"
    using assms by blast
  then have "attached None S bridge row \<and> p = ovs_port_of row" by (auto simp: attached_def)
  then show "\<exists>port. attached None S bridge port \<and> p = ovs_port_of port" by blast
qed

context careful_client
begin

text \<open>Deleting a bridge is safe with a client that may delete what is not shared, given all that was seen before.\<close>

lemma bridge_delete_step:
  assumes spares: "\<And>S p. seen u \<le> S \<Longrightarrow> unshared None name S p \<Longrightarrow> okay S p" and u: "seen u \<le> seen v"
    and l: "listed (seen v) tableBridge (conditionName name) (bridge # rows)"
    and m: "\<forall>p\<in>set members. \<exists>port. attached None (seen v) bridge port \<and> p = ovs_port_of port"
  shows "ensures good seen v (io_bind (selectAllBridges d v) (\<lambda>bs w. io_bind (selectAllPorts d w) (\<lambda>ps w.
      (Inr (bridge_delete_ops root (ovs_bridge_of bridge) members bs ps), w)))) (\<lambda>ops w. list_all (okay (seen w)) ops)"
proof (rule ensures_bind [OF selectAllBridges_ensures], rule ensures_bind [OF selectAllPorts_ensures])
  fix bs w1 ps w2
  assume "\<exists>rows. bs = map ovs_bridge_of rows \<and> listed (seen w1) tableBridge [] rows" "seen v \<le> seen w1"
    "\<exists>rows. ps = map ovs_port_of rows \<and> listed (seen w2) tablePort [] rows" "seen w1 \<le> seen w2"
  then obtain bridges ports where b: "bs = map ovs_bridge_of bridges" "listed (seen w2) tableBridge [] bridges"
    and p: "ps = map ovs_port_of ports" "listed (seen w2) tablePort [] ports" and s: "seen v \<le> seen w2"
    using listed_mono by (blast intro: order_trans)
  have "\<forall>p\<in>set members. \<exists>port. attached None (seen w2) bridge port \<and> p = ovs_port_of port" using m attached_mono [OF _ s] by blast
  then have "list_all (unshared None name (seen w2)) (bridge_delete_ops root (ovs_bridge_of bridge) members bs ps)"
    unfolding b(1) p(1) by (rule bridge_delete_unshared [OF listed_mono [OF l s] _ b(2) p(2)])
  then show "ensures good seen w2 (Inr (bridge_delete_ops root (ovs_bridge_of bridge) members bs ps), w2) (\<lambda>ops w. list_all (okay (seen w)) ops)"
    using spares [OF order_trans [OF u s]] by (auto simp: list_all_iff)
qed

lemma bridge_delete_keeps:
  assumes spares: "\<And>S p. seen u \<le> S \<Longrightarrow> unshared None (bb_name b) S p \<Longrightarrow> okay S p"
  shows "keeps good seen u (snd (Bridge_executeDelete d u b))"
proof -
  have root: "ensures good seen v (openVSwitchUUID (newTableRef (Some d) tableOpenVSwitch [] []) v) (\<lambda>_ _. True)" for v
    by (rule root_ensures) (simp add: newTableRef_def)
  have step: "ensures good seen v (io_bind (openVSwitchUUID (newTableRef (Some d) tableOpenVSwitch [] []) v) (\<lambda>root w.
      io_bind (selectPortsByUUID d w (br_Ports (ovs_bridge_of bridge))) (\<lambda>members w.
      io_bind (selectAllBridges d w) (\<lambda>bs w. io_bind (selectAllPorts d w) (\<lambda>ps w.
        (Inr (bridge_delete_ops root (ovs_bridge_of bridge) members bs ps), w)))))) (\<lambda>ops w. list_all (okay (seen w)) ops)"
    if l: "listed (seen v) tableBridge (conditionName (bb_name b)) (bridge # rows)" and u: "seen u \<le> seen v" for v bridge rows
  proof (rule ensures_bind [OF root], rule ensures_bind [OF selectPortsByUUID_ensures], rule bridge_delete_step [where rows = rows and u = u and name = "bb_name b"], goal_cases)
    case (1 root w1 members w2)
    show ?case by (rule spares [OF 1(5,6)])
  next
    case (2 root w1 members w2)
    show ?case by (rule order_trans [OF u order_trans [OF 2(2,4)]])
  next
    case (3 root w1 members w2)
    show ?case by (rule listed_mono [OF l order_trans [OF 3(2,4)]])
  next
    case (4 root w1 members w2)
    show ?case by (rule ports_attached [OF 4(3) [unfolded decoded]])
  qed
  show ?thesis unfolding Bridge_executeDelete_def
  proof (rule prepared_ovs_keeps, rule ensures_bind [OF selectBridges_ensures], goal_cases)
    case (1 bs v)
    then obtain rows where r: "bs = map ovs_bridge_of rows" "listed (seen v) tableBridge (conditionName (bb_name b)) rows" "seen u \<le> seen v" by auto
    then show ?case using step by (cases rows) auto
  qed
qed

text \<open>Likewise for the deletion of a port.\<close>

lemma port_delete_step:
  assumes spares: "\<And>S p. seen u \<le> S \<Longrightarrow> unshared sel name S p \<Longrightarrow> okay S p" and u: "seen u \<le> seen v"
    and l: "listed (seen v) tableBridge (conditionName name) (bridge # rows)" and m: "attached sel (seen v) bridge port"
  shows "ensures good seen v (io_bind (selectAllBridges d v) (\<lambda>bs w. io_bind (selectAllPorts d w) (\<lambda>ps w.
      io_bind (selectBridgeMirrorsForPort d w (ovs_bridge_of bridge) (rowUUIDValue port)) (\<lambda>ms w.
        (Inr (delete_port_ops (ovs_bridge_of bridge) (ovs_port_of port) bs ps ms,
          if portUsedByOtherBridges bs (rowUUIDValue bridge) (rowUUIDValue port) then [0] else [0, 1 :: int]), w)))))
    (\<lambda>r w. list_all (okay (seen w)) (fst r))"
proof (rule ensures_bind [OF selectAllBridges_ensures], rule ensures_bind [OF selectAllPorts_ensures], rule ensures_bind [OF mirrors_ensures], goal_cases)
  case (1 bs w1 ps w2 ms w3)
  then obtain bridges ports where b: "bs = map ovs_bridge_of bridges" "listed (seen w1) tableBridge [] bridges"
    and p: "ps = map ovs_port_of ports" "listed (seen w2) tablePort [] ports" by blast
  have s: "seen v \<le> seen w3" "seen w1 \<le> seen w3" using 1 by (blast intro: order_trans)+
  have "list_all (unshared sel name (seen w3)) (delete_port_ops (ovs_bridge_of bridge) (ovs_port_of port) bs ps ms)"
    unfolding b(1) p(1)
    by (rule delete_port_unshared [OF listed_mono [OF l s(1)] attached_mono [OF m s(1)] listed_mono [OF b(2) s(2)] listed_mono [OF p(2) 1(6)]])
  then show ?case using spares [OF order_trans [OF u s(1)]] by (auto simp: list_all_iff)
qed

lemma port_delete_keeps:
  assumes spares: "\<And>S p. seen u \<le> S \<Longrightarrow> unshared (Some (bb_deletePort b)) (bb_name b) S p \<Longrightarrow> okay S p"
  shows "keeps good seen u (snd (executeDeletePort d u b))"
proof -
  have chosen: "ensures good seen v (case ps of [] \<Rightarrow> (Inl e, v) | p # _ \<Rightarrow> if \<not> containsString (br_Ports (ovs_bridge_of bridge)) (vp_UUID p) then (Inl e', v)
      else io_bind (selectAllBridges d v) (\<lambda>bs w. io_bind (selectAllPorts d w) (\<lambda>qs w.
        io_bind (selectBridgeMirrorsForPort d w (ovs_bridge_of bridge) (vp_UUID p)) (\<lambda>ms w.
        (Inr (delete_port_ops (ovs_bridge_of bridge) p bs qs ms,
           if portUsedByOtherBridges bs (br_UUID (ovs_bridge_of bridge)) (vp_UUID p) then [0] else [0, 1 :: int]), w)))))
      (\<lambda>r w. list_all (okay (seen w)) (fst r))"
    if l: "listed (seen v) tableBridge (conditionName (bb_name b)) (bridge # rows)" and u: "seen u \<le> seen v"
      and ps: "\<exists>rows. ps = map ovs_port_of rows \<and> listed (seen v) tablePort (conditionName (bb_deletePort b)) rows" for v bridge rows ps e e'
  proof (cases ps)
    case (Cons p ps')
    then obtain row rows' where r: "p = ovs_port_of row" "listed (seen v) tablePort (conditionName (bb_deletePort b)) (row # rows')"
      using ps by (auto simp: Cons_eq_map_conv)
    have "attached (Some (bb_deletePort b)) (seen v) bridge row" if "containsString (rowUUIDSliceValue bridge colPorts) (rowUUIDValue row)"
      using that r(2) by (auto simp: attached_def containsString_def)
    then show ?thesis using port_delete_step [OF spares u l] by (simp add: Cons r(1))
  qed simp
  show ?thesis unfolding executeDeletePort_def
  proof (rule prepared_ovs_pair, rule ensures_bind [OF selectBridges_ensures], goal_cases)
    case (1 bs v)
    then obtain rows where r: "bs = map ovs_bridge_of rows" "listed (seen v) tableBridge (conditionName (bb_name b)) rows" by auto
    show ?case
    proof (cases rows)
      case (Cons bridge rows')
      have chosen': "ensures good seen w (case ps of [] \<Rightarrow> (Inl e, w) | p # _ \<Rightarrow> if \<not> containsString (br_Ports (ovs_bridge_of bridge)) (vp_UUID p) then (Inl e', w)
          else io_bind (selectAllBridges d w) (\<lambda>bs w. io_bind (selectAllPorts d w) (\<lambda>qs w.
            io_bind (selectBridgeMirrorsForPort d w (ovs_bridge_of bridge) (vp_UUID p)) (\<lambda>ms w.
            (Inr (delete_port_ops (ovs_bridge_of bridge) p bs qs ms,
               if portUsedByOtherBridges bs (br_UUID (ovs_bridge_of bridge)) (vp_UUID p) then [0] else [0, 1 :: int]), w)))))
          (\<lambda>r w. list_all (okay (seen w)) (fst r))"
        if "\<exists>rows. ps = map ovs_port_of rows \<and> listed (seen w) tablePort (conditionName (bb_deletePort b)) rows" "seen v \<le> seen w" for ps w e e'
        by (rule chosen [OF listed_mono [OF r(2) [unfolded Cons] that(2)] order_trans [OF 1(2) that(2)] that(1)])
      show ?thesis unfolding r(1) Cons list.map list.case by (rule ensures_bind [OF selectPorts_ensures chosen'])
    qed (simp add: r)
  qed
qed

text \<open>Executing a builder.\<close>

lemma Bridge_Execute_keeps:
  assumes "own_configs d (bb_advancedConfigs b)"
    "\<And>S p. bb_mode b = ovsModeDelete \<Longrightarrow> seen u \<le> S \<Longrightarrow> unshared None (bb_name b) S p \<Longrightarrow> okay S p"
    "\<And>S p. bb_mode b = ovsModeDeletePort \<Longrightarrow> seen u \<le> S \<Longrightarrow> unshared (Some (bb_deletePort b)) (bb_name b) S p \<Longrightarrow> okay S p"
  shows "keeps good seen u (snd (snd (Bridge_Execute lib d u b)))"
  using executeEnsure_keeps [of "b\<lparr>bb_used := True\<rparr>" u lib] bridge_delete_keeps [of u "b\<lparr>bb_used := True\<rparr>"] port_delete_keeps [of u "b\<lparr>bb_used := True\<rparr>"] assms
  by (cases "bb_mode b") (auto simp: Bridge_Execute_def Let_def split: option.split prod.split)

end

section \<open>Recorded runs\<close>

definition deletes_none :: "answered \<Rightarrow> Operation \<Rightarrow> bool" where
  "deletes_none S p \<longleftrightarrow> op_Op p \<noteq> ''delete''"

interpretation adding: careful_client "recorded d" "\<lambda>w. allowed deletes_none (snd w)" "\<lambda>w. returned_in (snd w)" deletes_none for d :: "'w dbClient"
  by (rule recorded_careful) (simp_all add: deletes_none_def)

interpretation sparing: careful_client "recorded d" "\<lambda>w. allowed (unshared sel name) (snd w)" "\<lambda>w. returned_in (snd w)" "unshared sel name"
  for d :: "'w dbClient" and sel name
  by (rule recorded_careful) (auto intro: unshared_mono unshared_other)


end
