(* ===== verification/Workload_Intent.thy ===== *)
theory Workload_Intent
  imports Network_Intent Ovs_Bridge
begin

text \<open>
  Workload attachments (\<^verbatim>\<open>src/intent.go\<close>): a logical switch port of a virtual network and, if asked for, a port of a local bridge.
  The Northbound client and the Open_vSwitch client act on one world; a nil client is \<open>None\<close>.
\<close>

section \<open>Logical switch ports\<close>

definition GetLogicalSwitchPort :: "'w dbClient \<Rightarrow> 'w \<Rightarrow> string \<Rightarrow> LogicalSwitchPort res \<times> 'w" where
  "GetLogicalSwitchPort d w name =
     io_bind (Get (newTableRef (Some d) tableLogicalSwitchPort colName name) w) (\<lambda>row w. (Inr (logicalSwitchPortFromRow row), w))"

definition ListLogicalSwitchPorts :: "'w dbClient \<Rightarrow> 'w \<Rightarrow> LogicalSwitchPort list res \<times> 'w" where
  "ListLogicalSwitchPorts d w =
     io_bind (List_rows (newTableRef (Some d) tableLogicalSwitchPort [] []) w) (\<lambda>rows w. (Inr (map logicalSwitchPortFromRow rows), w))"

definition logical_switch_port_of :: "row \<Rightarrow> LogicalSwitchPort" where
  "logical_switch_port_of row = \<lparr>lsp_UUID = rowUUIDValue row, lsp_Name = rowStringValue row colName,
     lsp_Addresses = rowStringSliceValue row ''addresses'', lsp_ExternalIDs = rowStringMapValue row colExternalIDs,
     lsp_Options = rowStringMapValue row colOptions, lsp_Type = rowStringValue row colType\<rparr>"

text \<open>The first result is read without checking that there is one: an empty answer is an index panic, which ends the operation like an error.\<close>

definition index_panic :: go_error where
  "index_panic = ForeignError ''runtime error: index out of range [0] with length 0''"

definition selectLogicalSwitchPorts :: "'w dbClient \<Rightarrow> 'w \<Rightarrow> string \<Rightarrow> LogicalSwitchPort list res \<times> 'w" where
  "selectLogicalSwitchPorts d w name =
     io_bind (transact d w tableLogicalSwitchPort ''select'' name
       [(op_of ''select'' tableLogicalSwitchPort)\<lparr>op_Where := conditionName name,
          op_Columns := [colUUID, colName, ''addresses'', colExternalIDs, colOptions, colType]\<rparr>])
     (\<lambda>results w. (case results of [] \<Rightarrow> Inl index_panic | r # _ \<Rightarrow> Inr (map logical_switch_port_of (res_Rows r)), w))"

definition port_columns_row :: "ovsdb_lib \<Rightarrow> string list \<Rightarrow> string \<Rightarrow> row \<Rightarrow> row" where
  "port_columns_row lib addresses portType row0 =
     (let row = (if portType \<noteq> [] then fmupd colType (AString portType) row0 else row0) in
      if addresses \<noteq> [] then fmupd ''addresses'' (stringSet lib addresses) row else row)"

definition new_switch_port_ops :: "ovsdb_lib \<Rightarrow> string \<Rightarrow> string \<Rightarrow> string \<Rightarrow> string list \<Rightarrow> string \<Rightarrow> string_map \<Rightarrow> string_map \<Rightarrow> Operation list" where
  "new_switch_port_ops lib switchUUID portUUID portName addresses portType options ids =
     [insert_op tableLogicalSwitchPort portUUID (port_columns_row lib addresses portType
        (setRowMap lib (setRowMap lib (fmupd colName (AString portName) fmempty) colExternalIDs ids) colOptions options)),
      mutate_op tableLogicalSwitch switchUUID [NewMutation colPorts MutateInsert (uuidSet [portUUID])]]"

definition existing_switch_port_ops :: "ovsdb_lib \<Rightarrow> LogicalSwitch \<Rightarrow> LogicalSwitchPort \<Rightarrow> string list \<Rightarrow> string \<Rightarrow> string_map \<Rightarrow> string_map \<Rightarrow> Operation list" where
  "existing_switch_port_ops lib ls port addresses portType options ids =
     (let row = port_columns_row lib addresses portType fmempty;
          mutations = nbAppendMapMutation lib (nbAppendMapMutation lib [] colExternalIDs ids) colOptions options in
      (if row \<noteq> fmempty then [update_op tableLogicalSwitchPort (lsp_UUID port) row] else [])
    @ (if mutations \<noteq> [] then [mutate_op tableLogicalSwitchPort (lsp_UUID port) mutations] else [])
    @ (if \<not> containsString (ls_Ports ls) (lsp_UUID port)
       then [mutate_op tableLogicalSwitch (ls_UUID ls) [NewMutation colPorts MutateInsert (uuidSet [lsp_UUID port])]] else []))"

definition ensureLogicalSwitchPortIntent :: "ovsdb_lib \<Rightarrow> 'w dbClient \<Rightarrow> 'w \<Rightarrow> string \<Rightarrow> string \<Rightarrow> string list \<Rightarrow> string \<Rightarrow> string_map \<Rightarrow> string_map \<Rightarrow> check \<times> 'w" where
  "ensureLogicalSwitchPortIntent lib d w switchName portName addresses portType options ids =
     (case io_bind (selectLogicalSwitches d w switchName) (\<lambda>switches w.
        case switches of
          [] \<Rightarrow> (Inl (wrap_err ErrorNotFound dbOVNNorthbound tableLogicalSwitch ''ensure'' switchName ''logical switch not found'' None), w)
        | ls # _ \<Rightarrow> io_bind (selectLogicalSwitchPorts d w portName) (\<lambda>ports w. (Inr (ls, ports), w))) of
        (Inl e, w) \<Rightarrow> (Some e, w)
      | (Inr (ls, ports), w) \<Rightarrow>
          (case ports of
             [] \<Rightarrow>
               (case namedUUID d w ''lsp'' of (portUUID, w) \<Rightarrow>
                (case transact d w tableLogicalSwitchPort ''ensure'' portName
                    (new_switch_port_ops lib (ls_UUID ls) portUUID portName addresses portType options ids) of
                   (Inl e, w) \<Rightarrow> (Some e, w)
                 | (Inr results, w) \<Rightarrow> (nb_affected results [1] tableLogicalSwitch ''ensure'' switchName, w)))
           | port # _ \<Rightarrow>
               (let ops = existing_switch_port_ops lib ls port addresses portType options ids in
                if ops = [] then (None, w)
                else nb_commit d w tableLogicalSwitchPort ''ensure'' portName ops (mustAffectNonInsertOps (map op_Op ops)))))"

definition deleteLogicalSwitchPortByUUID :: "ovsdb_lib \<Rightarrow> 'w dbClient \<Rightarrow> 'w \<Rightarrow> string \<Rightarrow> string \<Rightarrow> check \<times> 'w" where
  "deleteLogicalSwitchPortByUUID lib d w uuid object =
     (if blank uuid
      then (Some (wrap_err ErrorConflict dbOVNNorthbound tableLogicalSwitchPort ''delete'' object ''logical switch port UUID missing'' None), w)
      else case unreferenceOps lib d w tableLogicalSwitchPort uuid of
          (Inl e, w) \<Rightarrow> (Some e, w)
        | (Inr refOps, w) \<Rightarrow>
            nb_commit d w tableLogicalSwitchPort ''delete'' object (refOps @ [delete_op tableLogicalSwitchPort uuid]) [int (length refOps)])"

text \<open>An error that only says that something is missing is passed over.\<close>

definition unless_missing :: "check \<times> 'w \<Rightarrow> ('w \<Rightarrow> check \<times> 'w) \<Rightarrow> check \<times> 'w" where
  "unless_missing m k =
     (case m of (Some e, w) \<Rightarrow> if IsKind (Some e) ErrorNotFound then k w else (Some e, w) | (None, w) \<Rightarrow> k w)"

section \<open>Local ports\<close>

definition first_interface :: "'w dbClient \<Rightarrow> 'w \<Rightarrow> OVSPort \<Rightarrow> WorkloadLocalOVS \<Rightarrow> WorkloadLocalOVS res \<times> 'w" where
  "first_interface d w port local =
     (case vp_Interfaces port of
        [] \<Rightarrow> (Inr local, w)
      | i # _ \<Rightarrow> io_bind (getInterfaceByUUID d w i) (\<lambda>iface w.
          (Inr (local\<lparr>lo_InterfaceName := oi_Name iface, lo_InterfaceType := oi_Type iface, lo_Options := oi_Options iface\<rparr>), w)))"

definition getLocalOVS :: "'w dbClient \<Rightarrow> 'w \<Rightarrow> string \<Rightarrow> WorkloadLocalOVS res \<times> 'w" where
  "getLocalOVS d w name =
     io_bind (ListPorts d w) (\<lambda>ports w.
       case find (\<lambda>p. ovsResourceOwnedBy (vp_ExternalIDs p) ''WorkloadAttachment'' name) ports of
         None \<Rightarrow> (Inl (wrap_err ErrorNotFound dbOpenVSwitch tablePort ''get'' name ''local OVS workload port not found'' None), w)
       | Some port \<Rightarrow>
           io_bind (first_interface d w port (no_local\<lparr>lo_PortName := vp_Name port\<rparr>)) (\<lambda>local w.
           io_bind (ListBridges d w) (\<lambda>bridges w.
             (Inr (case find (\<lambda>b. containsString (br_Ports b) (vp_UUID port)) bridges of
                None \<Rightarrow> local | Some b \<Rightarrow> local\<lparr>lo_Bridge := br_Name b\<rparr>), w))))"

fun check_interfaces :: "'w dbClient \<Rightarrow> 'w \<Rightarrow> string \<Rightarrow> string list \<Rightarrow> check \<times> 'w" where
  "check_interfaces d w name [] = (None, w)"
| "check_interfaces d w name (i # ifaces) =
     (case getInterfaceByUUID d w i of
        (Inl e, w) \<Rightarrow> (Some e, w)
      | (Inr iface, w) \<Rightarrow>
          if \<not> v2ResourceOwnedBy (oi_ExternalIDs iface) ''WorkloadAttachment'' name
          then (Some (wrap_err ErrorOwnershipViolation dbOpenVSwitch tableInterface ''detach'' (oi_Name iface)
             ''workload port references an interface not owned by this attachment'' None), w)
          else check_interfaces d w name ifaces)"

definition detachLocalOVS :: "ovsdb_lib \<Rightarrow> 'w dbClient \<Rightarrow> 'w \<Rightarrow> string \<Rightarrow> bool \<Rightarrow> check \<times> 'w" where
  "detachLocalOVS lib d w name allowMissing =
     (case ListPorts d w of
        (Inl e, w) \<Rightarrow> (Some e, w)
      | (Inr ports, w) \<Rightarrow>
          (case find (\<lambda>p. v2ResourceOwnedBy (vp_ExternalIDs p) ''WorkloadAttachment'' name) ports of
             None \<Rightarrow>
               (if allowMissing then None
                else Some (wrap_err ErrorNotFound dbOpenVSwitch tablePort ''detach'' name ''local OVS workload port not found'' None), w)
           | Some port \<Rightarrow>
               (case check_interfaces d w name (vp_Interfaces port) of
                  (Some e, w) \<Rightarrow> (Some e, w)
                | (None, w) \<Rightarrow>
                    (case ListBridges d w of
                       (Inl e, w) \<Rightarrow> (Some e, w)
                     | (Inr bridges, w) \<Rightarrow>
                         (case find (\<lambda>b. containsString (br_Ports b) (vp_UUID port)) bridges of
                            None \<Rightarrow> (Some (wrap_err ErrorNotFound dbOpenVSwitch tableBridge ''detach'' (vp_Name port) ''owning bridge not found'' None), w)
                          | Some b \<Rightarrow> (case Bridge_Execute lib d w (Bridge_DeletePort (br_Name b) (vp_Name port)) of (c, _, w) \<Rightarrow> (c, w)))))))"

definition DetachLocalOVS :: "ovsdb_lib \<Rightarrow> 'w dbClient option \<Rightarrow> 'w \<Rightarrow> string \<Rightarrow> check \<times> 'w" where
  "DetachLocalOVS lib ovs w name =
     (case validateName ''workload attachment'' name of
        Some e \<Rightarrow> (Some e, w)
      | None \<Rightarrow> (case ovs of None \<Rightarrow> (Some ErrBackendUnavailable, w) | Some d \<Rightarrow> detachLocalOVS lib d w name False))"

definition localOVSPortName :: "WorkloadAttachment \<Rightarrow> string" where
  "localOVSPortName spec = (if lo_PortName (wa_LocalOVS spec) \<noteq> [] then lo_PortName (wa_LocalOVS spec) else wa_Name spec)"

definition localOVSInterfaceName :: "WorkloadAttachment \<Rightarrow> string" where
  "localOVSInterfaceName spec =
     (if lo_InterfaceName (wa_LocalOVS spec) \<noteq> [] then lo_InterfaceName (wa_LocalOVS spec) else localOVSPortName spec)"

definition interface_target_check :: "WorkloadAttachment \<Rightarrow> OVSInterface option \<Rightarrow> check" where
  "interface_target_check spec found_iface =
     (let violation = (\<lambda>message. Some (wrap_err ErrorOwnershipViolation dbOpenVSwitch tableInterface ''ensure'' (localOVSInterfaceName spec) message None)) in
      case found_iface of
        None \<Rightarrow> None
      | Some iface \<Rightarrow>
          if \<not> ovsResourceOwnedBy (oi_ExternalIDs iface) ''WorkloadAttachment'' (wa_Name spec) then violation ''interface is already managed by another owner''
          else if go_get (oi_ExternalIDs iface) ''iface-id'' \<noteq> [] \<and> go_get (oi_ExternalIDs iface) ''iface-id'' \<noteq> wa_Name spec
          then violation ''interface iface-id does not match workload attachment''
          else None)"

definition validateLocalOVSTarget :: "'w dbClient option \<Rightarrow> 'w \<Rightarrow> WorkloadAttachment \<Rightarrow> check \<times> 'w" where
  "validateLocalOVSTarget ovs w spec =
     (if Local_Empty (wa_LocalOVS spec) then (None, w)
      else case ovs of
          None \<Rightarrow> (Some ErrBackendUnavailable, w)
        | Some d \<Rightarrow>
            (case io_bind (OVS_GetBridge d w (lo_Bridge (wa_LocalOVS spec))) (\<lambda>_ w.
               io_bind (selectPorts d w (localOVSPortName spec)) (\<lambda>ports w.
               io_guard (case ports of
                    [] \<Rightarrow> None
                  | p # _ \<Rightarrow> if ovsResourceOwnedBy (vp_ExternalIDs p) ''WorkloadAttachment'' (wa_Name spec) then None
                      else Some (wrap_err ErrorOwnershipViolation dbOpenVSwitch tablePort ''ensure'' (localOVSPortName spec) ''port is already managed by another owner'' None)) w
                 (\<lambda>w. found (GetInterface d w (localOVSInterfaceName spec))))) of
               (Inl e, w) \<Rightarrow> (Some e, w)
             | (Inr iface, w) \<Rightarrow> (interface_target_check spec iface, w)))"

definition local_calls :: "WorkloadAttachment \<Rightarrow> string_map \<Rightarrow> 'w bridge_call list" where
  "local_calls spec ids =
     [BridgeAddPort (localOVSPortName spec), PortWithInterfaceName (localOVSInterfaceName spec), PortWithInterfaceExternalID ''iface-id'' (wa_Name spec)]
   @ concat (map (\<lambda>k. [PortWithExternalID k (go_get ids k), PortWithInterfaceExternalID k (go_get ids k)]) (range_keys ids))
   @ (if lo_InterfaceType (wa_LocalOVS spec) \<noteq> [] then [PortWithInterfaceType (lo_InterfaceType (wa_LocalOVS spec))] else [])
   @ map (\<lambda>k. PortWithInterfaceOption k (go_get (lo_Options (wa_LocalOVS spec)) k)) (range_keys (lo_Options (wa_LocalOVS spec)))"

definition local_marks :: "WorkloadAttachment \<Rightarrow> string_map \<Rightarrow> string_map" where
  "local_marks spec ids0 =
     (let ids = fmupd (ExternalIDPrefix @ ''network'') (wa_Network spec) ids0;
          ids = (if wa_Workload spec \<noteq> [] then fmupd (ExternalIDPrefix @ ''workload'') (wa_Workload spec) ids else ids) in
      if wa_InterfaceName spec \<noteq> [] then fmupd (ExternalIDPrefix @ ''logical-interface'') (wa_InterfaceName spec) ids else ids)"

definition reconcileLocalOVS :: "ovsdb_lib \<Rightarrow> 'w dbClient option \<Rightarrow> 'w \<Rightarrow> WorkloadAttachment \<Rightarrow> check \<times> 'w" where
  "reconcileLocalOVS lib ovs w spec =
     (if Local_Empty (wa_LocalOVS spec) then (None, w)
      else case intentExternalIDs ''WorkloadAttachment'' (wa_Name spec) (wa_Owner spec) (wa_Labels spec) of
          Inl e \<Rightarrow> (Some e, w)
        | Inr ids \<Rightarrow>
            (case validateLocalOVSTarget ovs w spec of
               (Some e, w) \<Rightarrow> (Some e, w)
             | (None, w) \<Rightarrow>
                 (case ovs of
                    None \<Rightarrow> (None, w)
                  | Some d \<Rightarrow>
                      (case Bridge_Execute lib d w (foldl (bridge_call_step lib d) (newBridgeBuilder (lo_Bridge (wa_LocalOVS spec)) ovsModeEnsure)
                         (local_calls spec (local_marks spec ids))) of (c, _, w) \<Rightarrow> (c, w)))))"

section \<open>Reading and deleting\<close>

datatype attachment_call = AttOnNetwork string | AttWithWorkload string | AttWithInterface string | AttWithMAC string | AttWithIP string
| AttSyncLocalOVS string | AttWithOVSPort string | AttWithOVSInterface string | AttWithOVSInterfaceType string | AttWithOVSOption string string
| AttWithOwner string string | AttWithLabel string string

definition on_local :: "WorkloadAttachment \<Rightarrow> (WorkloadLocalOVS \<Rightarrow> WorkloadLocalOVS) \<Rightarrow> WorkloadAttachment" where
  "on_local s f = s\<lparr>wa_LocalOVS := f (wa_LocalOVS s)\<rparr>"

fun attachment_call_step :: "WorkloadAttachment \<Rightarrow> attachment_call \<Rightarrow> WorkloadAttachment" where
  "attachment_call_step s (AttOnNetwork name) = s\<lparr>wa_Network := name\<rparr>"
| "attachment_call_step s (AttWithWorkload name) = s\<lparr>wa_Workload := name\<rparr>"
| "attachment_call_step s (AttWithInterface name) = s\<lparr>wa_InterfaceName := name\<rparr>"
| "attachment_call_step s (AttWithMAC mac) = s\<lparr>wa_MAC := mac\<rparr>"
| "attachment_call_step s (AttWithIP ip) = s\<lparr>wa_IPs := wa_IPs s @ [ip]\<rparr>"
| "attachment_call_step s (AttSyncLocalOVS bridge) = on_local s (\<lambda>l. l\<lparr>lo_Bridge := bridge\<rparr>)"
| "attachment_call_step s (AttWithOVSPort name) = on_local s (\<lambda>l. l\<lparr>lo_PortName := name\<rparr>)"
| "attachment_call_step s (AttWithOVSInterface name) = on_local s (\<lambda>l. l\<lparr>lo_InterfaceName := name\<rparr>)"
| "attachment_call_step s (AttWithOVSInterfaceType kind) = on_local s (\<lambda>l. l\<lparr>lo_InterfaceType := kind\<rparr>)"
| "attachment_call_step s (AttWithOVSOption key v) = on_local s (\<lambda>l. l\<lparr>lo_Options := fmupd key v (lo_Options l)\<rparr>)"
| "attachment_call_step s (AttWithOwner kind name) = s\<lparr>wa_Owner := \<lparr>owner_Kind = kind, owner_Name = name, owner_ID = []\<rparr>\<rparr>"
| "attachment_call_step s (AttWithLabel key v) = s\<lparr>wa_Labels := fmupd key v (wa_Labels s)\<rparr>"

definition Attachment_Ensure :: "string \<Rightarrow> WorkloadAttachment" where
  "Attachment_Ensure name = \<lparr>wa_Name = name, wa_Network = [], wa_Workload = [], wa_InterfaceName = [], wa_MAC = [], wa_IPs = [],
     wa_LocalOVS = no_local, wa_Owner = no_owner, wa_Labels = fmempty\<rparr>"

definition Attachment_Get :: "'w dbClient option \<Rightarrow> 'w dbClient option \<Rightarrow> 'w \<Rightarrow> string \<Rightarrow> WorkloadAttachment res \<times> 'w" where
  "Attachment_Get nb ovs w name =
     io_guard (validateName ''workload attachment'' name) w (\<lambda>w.
       case nb of
         None \<Rightarrow> (Inl ErrBackendUnavailable, w)
       | Some d \<Rightarrow>
           io_bind (GetLogicalSwitchPort d w name) (\<lambda>lsp w.
             let attachment = workloadAttachmentFromLogicalSwitchPort lsp in
             case ovs of
               None \<Rightarrow> (Inr attachment, w)
             | Some d \<Rightarrow> io_bind (found (getLocalOVS d w name)) (\<lambda>local w.
                 (Inr (case local of None \<Rightarrow> attachment | Some l \<Rightarrow> attachment\<lparr>wa_LocalOVS := l\<rparr>), w))))"

definition Attachment_Inspect :: "'w dbClient option \<Rightarrow> 'w dbClient option \<Rightarrow> 'w \<Rightarrow> string \<Rightarrow> (string \<times> string \<times> WorkloadAttachment) res \<times> 'w" where
  "Attachment_Inspect nb ovs w name = io_bind (Attachment_Get nb ovs w name) (\<lambda>a w. (Inr (''WorkloadAttachment'', name, a), w))"

definition Attachment_Delete :: "ovsdb_lib \<Rightarrow> 'w dbClient option \<Rightarrow> 'w dbClient option \<Rightarrow> 'w \<Rightarrow> string \<Rightarrow> check \<times> 'w" where
  "Attachment_Delete lib nb ovs w name =
     (case validateName ''workload attachment'' name of
        Some e \<Rightarrow> (Some e, w)
      | None \<Rightarrow>
          (case nb of
             None \<Rightarrow> (Some ErrBackendUnavailable, w)
           | Some d \<Rightarrow>
               (case io_bind (GetLogicalSwitchPort d w name) (\<lambda>lsp w.
                  io_guard (requireV2OwnedExternalIDs (lsp_ExternalIDs lsp) ''WorkloadAttachment'' name dbOVNNorthbound tableLogicalSwitchPort ''delete'' name) w
                    (\<lambda>w. (Inr lsp, w))) of
                  (Inl e, w) \<Rightarrow> (Some e, w)
                | (Inr lsp, w) \<Rightarrow>
                    unless_missing (case ovs of None \<Rightarrow> (None, w) | Some d \<Rightarrow> detachLocalOVS lib d w name True)
                      (\<lambda>w. deleteLogicalSwitchPortByUUID lib d w (lsp_UUID lsp) name))))"

section \<open>Reconciling\<close>

definition requireNetworkOwned :: "'w dbClient option \<Rightarrow> 'w \<Rightarrow> string \<Rightarrow> string \<Rightarrow> check \<times> 'w" where
  "requireNetworkOwned nb w name oper =
     (case nb of
        None \<Rightarrow> (None, w)
      | Some d \<Rightarrow>
          (case selectLogicalSwitches d w name of
             (Inl e, w) \<Rightarrow> (Some e, w)
           | (Inr [], w) \<Rightarrow>
               (Some (wrap_err ErrorNotFound dbOVNNorthbound tableLogicalSwitch oper name ''workload attachment network not found'' None), w)
           | (Inr (ls # _), w) \<Rightarrow>
               (requireV2OwnedExternalIDs (ls_ExternalIDs ls) ''VirtualNetwork'' name dbOVNNorthbound tableLogicalSwitch oper name, w)))"

definition requireExistingLogicalSwitchPortOwned :: "'w dbClient option \<Rightarrow> 'w \<Rightarrow> string \<Rightarrow> string \<Rightarrow> check \<times> 'w" where
  "requireExistingLogicalSwitchPortOwned nb w name oper =
     (case nb of
        None \<Rightarrow> (None, w)
      | Some d \<Rightarrow>
          (case selectLogicalSwitchPorts d w name of
             (Inl e, w) \<Rightarrow> (Some e, w)
           | (Inr [], w) \<Rightarrow> (None, w)
           | (Inr (port # _), w) \<Rightarrow>
               (requireV2OwnedExternalIDs (lsp_ExternalIDs port) ''WorkloadAttachment'' name dbOVNNorthbound tableLogicalSwitchPort oper name, w)))"

definition attachment_marks :: "WorkloadAttachment \<Rightarrow> string_map \<Rightarrow> string_map" where
  "attachment_marks spec ids0 =
     (let ids = (if wa_Workload spec \<noteq> [] then fmupd (ExternalIDPrefix @ ''workload'') (wa_Workload spec) ids0 else ids0);
          ids = (if wa_InterfaceName spec \<noteq> [] then fmupd (ExternalIDPrefix @ ''interface'') (wa_InterfaceName spec) ids else ids) in
      if wa_Network spec \<noteq> [] then fmupd (ExternalIDPrefix @ ''network'') (wa_Network spec) ids else ids)"

text \<open>A step that returns only an error, followed by the next one.\<close>

definition io_then :: "check \<times> 'w \<Rightarrow> ('w \<Rightarrow> check \<times> 'w) \<Rightarrow> check \<times> 'w" where
  "io_then m k = (case m of (Some e, w) \<Rightarrow> (Some e, w) | (None, w) \<Rightarrow> k w)"

definition Attachment_reconcileOVSDB :: "ovsdb_lib \<Rightarrow> 'w dbClient \<Rightarrow> 'w \<Rightarrow> WorkloadAttachment \<Rightarrow> check \<times> 'w" where
  "Attachment_reconcileOVSDB lib d w spec =
     io_then (requireNetworkOwned (Some d) w (wa_Network spec) ''ensure'') (\<lambda>w.
     io_then (requireExistingLogicalSwitchPortOwned (Some d) w (wa_Name spec) ''ensure'') (\<lambda>w.
       case intentExternalIDs ''WorkloadAttachment'' (wa_Name spec) (wa_Owner spec) (wa_Labels spec) of
         Inl e \<Rightarrow> (Some e, w)
       | Inr ids \<Rightarrow> ensureLogicalSwitchPortIntent lib d w (wa_Network spec) (wa_Name spec) (workloadAddresses (wa_MAC spec) (wa_IPs spec)) [] fmempty
           (attachment_marks spec ids)))"

definition Attachment_current :: "'w dbClient option \<Rightarrow> 'w dbClient option \<Rightarrow> 'w \<Rightarrow> string \<Rightarrow> WorkloadAttachment option res \<times> 'w" where
  "Attachment_current nb ovs w name =
     (if Option.is_none nb then (Inr None, w)
      else io_bind (found (Attachment_Get nb ovs w name)) (\<lambda>x w. (Inr (map_option normalizeWorkloadAttachment x), w)))"

definition attachment_diff_with :: "WorkloadAttachment \<Rightarrow> WorkloadAttachment \<Rightarrow> intent_value Diff" where
  "attachment_diff_with c desired =
     appendFieldDiff (appendFieldDiff (appendFieldDiff (appendFieldDiff (appendFieldDiff (appendFieldDiff (appendFieldDiff (appendFieldDiff
       (new_diff ''WorkloadAttachment'' (wa_Name desired))
       ''network'' (IString (wa_Network c)) (IString (wa_Network desired)))
       ''workload'' (IString (wa_Workload c)) (IString (wa_Workload desired)))
       ''interface'' (IString (wa_InterfaceName c)) (IString (wa_InterfaceName desired)))
       ''mac'' (IString (wa_MAC c)) (IString (wa_MAC desired)))
       ''ips'' (IStrings (wa_IPs c)) (IStrings (wa_IPs desired)))
       ''localOVS'' (ILocal (wa_LocalOVS c)) (ILocal (wa_LocalOVS desired)))
       ''owner'' (IOwner (wa_Owner c)) (IOwner (wa_Owner desired)))
       ''labels'' (ILabels (wa_Labels c)) (ILabels (wa_Labels desired))"

definition Attachment_diff :: "'w dbClient option \<Rightarrow> 'w dbClient option \<Rightarrow> 'w \<Rightarrow> string \<Rightarrow> WorkloadAttachment \<Rightarrow> intent_value Diff res \<times> 'w" where
  "Attachment_diff nb ovs w name spec =
     (let desired = normalizeWorkloadAttachment spec in
      io_bind (Attachment_current nb ovs w name) (\<lambda>current w.
        (Inr (case current of
           None \<Rightarrow> create_diff ''WorkloadAttachment'' (wa_Name desired) (IWorkload desired)
         | Some c \<Rightarrow> attachment_diff_with c desired), w)))"

definition Attachment_Plan :: "WorkloadAttachment \<Rightarrow> Plan res" where
  "Attachment_Plan spec =
     guard_res (WorkloadAttachment_Validate spec)
       (Inr (ensure_plan ''WorkloadAttachment'' (wa_Name spec) ''validate and plan logical switch port attachment intent''))"

definition Attachment_DryRun :: "'w dbClient option \<Rightarrow> 'w dbClient option \<Rightarrow> 'w \<Rightarrow> string \<Rightarrow> WorkloadAttachment \<Rightarrow> intent_value DryRunResult res \<times> 'w" where
  "Attachment_DryRun nb ovs w name spec =
     (case Attachment_Plan spec of
        Inl e \<Rightarrow> (Inl e, w)
      | Inr plan \<Rightarrow> io_bind (Attachment_diff nb ovs w name spec) (\<lambda>diff w. (Inr \<lparr>dry_Plan = plan, dry_Diff = diff\<rparr>, w)))"

definition Attachment_Reconcile :: "ovsdb_lib \<Rightarrow> 'w dbClient option \<Rightarrow> 'w dbClient option \<Rightarrow> 'w \<Rightarrow> string \<Rightarrow> WorkloadAttachment
    \<Rightarrow> intent_value ReconcileResult res \<times> 'w" where
  "Attachment_Reconcile lib nb ovs w name spec =
     (case Attachment_Plan spec of
        Inl e \<Rightarrow> (Inl e, w)
      | Inr plan \<Rightarrow>
          after_check (validateLocalOVSTarget ovs w spec) (\<lambda>w.
          after_check (requireNetworkOwned nb w (wa_Network spec) ''ensure'') (\<lambda>w.
          after_check (requireExistingLogicalSwitchPortOwned nb w (wa_Name spec) ''ensure'') (\<lambda>w.
          io_bind (Attachment_diff nb ovs w name spec) (\<lambda>diff w.
            apply_diff nb plan diff (\<lambda>d w. io_then (Attachment_reconcileOVSDB lib d w spec) (\<lambda>w. reconcileLocalOVS lib ovs w spec)) w)))))"

definition Attachment_Execute :: "ovsdb_lib \<Rightarrow> 'w dbClient option \<Rightarrow> 'w dbClient option \<Rightarrow> 'w \<Rightarrow> string \<Rightarrow> WorkloadAttachment \<Rightarrow> check \<times> 'w" where
  "Attachment_Execute lib nb ovs w name spec = io_check (Attachment_Reconcile lib nb ovs w name spec)"

definition Attachment_Apply :: "ovsdb_lib \<Rightarrow> 'w dbClient option \<Rightarrow> 'w dbClient option \<Rightarrow> 'w \<Rightarrow> string \<Rightarrow> WorkloadAttachment \<Rightarrow> check \<times> 'w" where
  "Attachment_Apply lib nb ovs w name a0 =
     (if Option.is_none nb then (Some ErrBackendUnavailable, w)
      else let a = (if wa_Name a0 = [] then a0\<lparr>wa_Name := name\<rparr> else a0) in
        if wa_Name a \<noteq> name
        then (Some (wrap_err ErrorConflict dbOVNNorthbound tableLogicalSwitchPort ''apply'' (wa_Name a)
          ''workload attachment name does not match reference'' None), w)
        else io_check (Attachment_Reconcile lib nb ovs w name a))"

record WorkloadAttachmentPatch =
  wap_Network :: "string option"
  wap_Workload :: "string option"
  wap_InterfaceName :: "string option"
  wap_MAC :: "string option"
  wap_AddIPs :: "string list"
  wap_RemoveIPs :: "string list"
  wap_Owner :: "OwnerRef option"
  wap_Labels :: Labels
  wap_RemoveLabels :: "string list"

definition patched_attachment :: "WorkloadAttachment \<Rightarrow> WorkloadAttachmentPatch \<Rightarrow> WorkloadAttachment" where
  "patched_attachment current patch =
     current\<lparr>wa_Network := (case wap_Network patch of Some x \<Rightarrow> x | None \<Rightarrow> wa_Network current),
       wa_Workload := (case wap_Workload patch of Some x \<Rightarrow> x | None \<Rightarrow> wa_Workload current),
       wa_InterfaceName := (case wap_InterfaceName patch of Some x \<Rightarrow> x | None \<Rightarrow> wa_InterfaceName current),
       wa_MAC := (case wap_MAC patch of Some x \<Rightarrow> x | None \<Rightarrow> wa_MAC current),
       wa_IPs := removeStrings (uniqueStrings (wa_IPs current @ wap_AddIPs patch)) (wap_RemoveIPs patch),
       wa_Owner := (case wap_Owner patch of Some ow \<Rightarrow> ow | None \<Rightarrow> wa_Owner current),
       wa_Labels := patchLabels (wa_Labels current) (wap_Labels patch) (wap_RemoveLabels patch)\<rparr>"

definition attachment_removed_keys :: "WorkloadAttachmentPatch \<Rightarrow> string list" where
  "attachment_removed_keys patch =
     labelDeleteKeys (wap_RemoveLabels patch) (wap_Labels patch)
   @ (if wap_Workload patch = Some [] then [ExternalIDPrefix @ ''workload''] else [])
   @ (if wap_InterfaceName patch = Some [] then [ExternalIDPrefix @ ''interface''] else [])"

definition Attachment_Patch :: "ovsdb_lib \<Rightarrow> 'w dbClient option \<Rightarrow> 'w dbClient option \<Rightarrow> 'w \<Rightarrow> string \<Rightarrow> WorkloadAttachmentPatch \<Rightarrow> WorkloadAttachment res \<times> 'w" where
  "Attachment_Patch lib nb ovs w name patch =
     io_bind (Attachment_Get nb ovs w name) (\<lambda>current w.
       let nxt = patched_attachment current patch in
       after_check (Attachment_Apply lib nb ovs w name nxt) (\<lambda>w.
       after_check (case nb of None \<Rightarrow> (None, w) | Some d \<Rightarrow>
           deleteExternalIDKeys lib d w tableLogicalSwitchPort name (conditionName name) (attachment_removed_keys patch))
         (\<lambda>w. (Inr nxt, w))))"

end
