(* ===== verification/Provider_Intent.thy ===== *)
theory Provider_Intent
  imports Workload_Intent
begin

text \<open>
  Provider networks (\<^verbatim>\<open>src/intent.go\<close>): a logical switch with a localnet port, and the bridge mapping of its physical network in the
  root row of the local Open_vSwitch database. A marker beside the mapping names the provider network it belongs to.
\<close>

section \<open>Bridge mappings with an owner\<close>

definition provider_error :: "string \<Rightarrow> string \<Rightarrow> string \<Rightarrow> go_error" where
  "provider_error oper physical message = mapping_error ErrorOwnershipViolation oper physical message"

definition mapping_owner :: "OpenVSwitch \<Rightarrow> string \<Rightarrow> string" where
  "mapping_owner root physical = go_get (vs_ExternalIDs root) (providerNetworkMappingOwnerKey physical)"

definition root_with_mappings :: "'w dbClient \<Rightarrow> 'w \<Rightarrow> (OpenVSwitch \<times> string_map) res \<times> 'w" where
  "root_with_mappings d w = io_bind (GetOpenVSwitch (Some d) w) (\<lambda>root w. (map_sum id (Pair root) (root_mappings root), w))"

definition detach_check :: "ProviderNetwork \<Rightarrow> string \<Rightarrow> OpenVSwitch \<Rightarrow> string_map \<Rightarrow> check" where
  "detach_check network name root mappings =
     (let physical = pn_PhysicalNetwork network; owner = mapping_owner root physical; current = go_get mappings physical in
      if owner \<noteq> [] \<and> owner \<noteq> name then Some (provider_error ''delete'' physical ''bridge mapping is managed by another provider network'')
      else if owner = [] then Some (provider_error ''delete'' physical ''bridge mapping is not managed by ovnflow'')
      else if current \<noteq> [] \<and> pn_Bridge network \<noteq> [] \<and> current \<noteq> pn_Bridge network
      then Some (provider_error ''delete'' physical ''bridge mapping points at another bridge'')
      else None)"

definition detach_mutations :: "ovsdb_lib \<Rightarrow> string \<Rightarrow> string_map \<Rightarrow> Mutation list" where
  "detach_mutations lib physical mappings =
     (let formatted = FormatBridgeMappings (fmdrop physical mappings) in
      [NewMutation colExternalIDs MutateDelete (ovsMapKeys lib [ovsBridgeMappingsKey, providerNetworkMappingOwnerKey physical])]
    @ (if formatted \<noteq> [] then [NewMutation colExternalIDs MutateInsert (ovsMap lib (fmupd ovsBridgeMappingsKey formatted fmempty))] else []))"

definition detachBridgeMapping :: "ovsdb_lib \<Rightarrow> 'w dbClient \<Rightarrow> 'w \<Rightarrow> string \<Rightarrow> ProviderNetwork \<Rightarrow> check \<times> 'w" where
  "detachBridgeMapping lib d w name network =
     (let physical = pn_PhysicalNetwork network in
      if physical = [] then (Some (mapping_error ErrorValidation ''delete'' name ''physical network is required''), w)
      else case root_with_mappings d w of
          (Inl e, w) \<Rightarrow> (Some e, w)
        | (Inr (root, mappings), w) \<Rightarrow>
            (case detach_check network name root mappings of
               Some e \<Rightarrow> (Some e, w)
             | None \<Rightarrow> mutateOpenVSwitchExternalIDsCAS lib (Some d) w root ''delete'' physical (detach_mutations lib physical mappings)))"

definition attach_check :: "ProviderNetwork \<Rightarrow> OpenVSwitch \<Rightarrow> string_map \<Rightarrow> check" where
  "attach_check desired root mappings =
     (let physical = pn_PhysicalNetwork desired; owner = mapping_owner root physical;
          foreign = Some (provider_error ''ensure'' physical ''bridge mapping marker belongs to another provider network'') in
      if owner \<noteq> [] \<and> owner \<noteq> pn_Name desired then foreign
      else if go_get mappings physical \<noteq> [] then
        (if owner = [] then Some (provider_error ''ensure'' physical ''bridge mapping is not managed by ovnflow'')
         else if owner \<noteq> pn_Name desired then foreign else None)
      else None)"

definition attach_mutations :: "ovsdb_lib \<Rightarrow> ProviderNetwork \<Rightarrow> string_map \<Rightarrow> Mutation list" where
  "attach_mutations lib desired mappings =
     (let physical = pn_PhysicalNetwork desired; key = providerNetworkMappingOwnerKey physical;
          formatted = FormatBridgeMappings (fmupd physical (pn_Bridge desired) mappings);
          values = (if formatted \<noteq> [] then fmupd ovsBridgeMappingsKey formatted else id) (fmupd key (pn_Name desired) fmempty) in
      [NewMutation colExternalIDs MutateDelete (ovsMapKeys lib [ovsBridgeMappingsKey, key]),
       NewMutation colExternalIDs MutateInsert (ovsMap lib (fmupd ovsBridgeMappingsKey (go_get values ovsBridgeMappingsKey)
         (fmupd key (go_get values key) fmempty)))])"

definition setOwnedBridgeMapping :: "ovsdb_lib \<Rightarrow> 'w dbClient \<Rightarrow> 'w \<Rightarrow> ProviderNetwork \<Rightarrow> check \<times> 'w" where
  "setOwnedBridgeMapping lib d w desired =
     (case root_with_mappings d w of
        (Inl e, w) \<Rightarrow> (Some e, w)
      | (Inr (root, mappings), w) \<Rightarrow>
          (case attach_check desired root mappings of
             Some e \<Rightarrow> (Some e, w)
           | None \<Rightarrow> mutateOpenVSwitchExternalIDsCAS lib (Some d) w root ''ensure'' (pn_PhysicalNetwork desired) (attach_mutations lib desired mappings)))"

section \<open>Reading and deleting\<close>

datatype provider_call = ProvWithPhysicalNetwork string | ProvOnLogicalSwitch string | ProvWithLocalnetPort string | ProvUseBridge string
| ProvWithOwner string string | ProvWithLabel string string

fun provider_call_step :: "ProviderNetwork \<Rightarrow> provider_call \<Rightarrow> ProviderNetwork" where
  "provider_call_step s (ProvWithPhysicalNetwork name) = s\<lparr>pn_PhysicalNetwork := name\<rparr>"
| "provider_call_step s (ProvOnLogicalSwitch name) = s\<lparr>pn_LogicalSwitch := name\<rparr>"
| "provider_call_step s (ProvWithLocalnetPort name) = s\<lparr>pn_LocalnetPort := name\<rparr>"
| "provider_call_step s (ProvUseBridge name) = s\<lparr>pn_Bridge := name\<rparr>"
| "provider_call_step s (ProvWithOwner kind name) = s\<lparr>pn_Owner := \<lparr>owner_Kind = kind, owner_Name = name, owner_ID = []\<rparr>\<rparr>"
| "provider_call_step s (ProvWithLabel key v) = s\<lparr>pn_Labels := fmupd key v (pn_Labels s)\<rparr>"

definition Provider_Ensure :: "string \<Rightarrow> ProviderNetwork" where
  "Provider_Ensure name = \<lparr>pn_Name = name, pn_PhysicalNetwork = [], pn_LogicalSwitch = [], pn_LocalnetPort = [], pn_Bridge = [],
     pn_Owner = no_owner, pn_Labels = fmempty\<rparr>"

definition providerLocalnetPort :: "'w dbClient \<Rightarrow> 'w \<Rightarrow> string \<Rightarrow> LogicalSwitchPort res \<times> 'w" where
  "providerLocalnetPort d w name =
     io_bind (ListLogicalSwitchPorts d w) (\<lambda>ports w.
       (case find (\<lambda>p. lsp_Type p = ''localnet'' \<and> go_get (lsp_ExternalIDs p) ExternalIDKindKey = ''ProviderNetwork''
            \<and> go_get (lsp_ExternalIDs p) ExternalIDNameKey = name) ports of
          None \<Rightarrow> Inl (wrap_err ErrorNotFound dbOVNNorthbound tableLogicalSwitchPort ''get'' name ''provider localnet port not found'' None)
        | Some p \<Rightarrow> Inr p, w))"

definition provider_of_port :: "string \<Rightarrow> LogicalSwitchPort \<Rightarrow> ProviderNetwork" where
  "provider_of_port name port =
     (let network = providerNetworkFromLocalnetPort port in if pn_Name network = [] then network\<lparr>pn_Name := name\<rparr> else network)"

definition Provider_Get :: "'w dbClient option \<Rightarrow> 'w dbClient option \<Rightarrow> 'w \<Rightarrow> string \<Rightarrow> ProviderNetwork res \<times> 'w" where
  "Provider_Get nb ovs w name =
     io_guard (validateName ''provider network'' name) w (\<lambda>w.
       case nb of
         None \<Rightarrow> (Inl ErrBackendUnavailable, w)
       | Some d \<Rightarrow>
           io_bind (providerLocalnetPort d w name) (\<lambda>port w.
             let network = provider_of_port name port in
             case ovs of
               None \<Rightarrow> (Inr network, w)
             | Some d \<Rightarrow> io_bind (GetBridgeMappings (Some d) w) (\<lambda>mappings w.
                 (Inr (network\<lparr>pn_Bridge := go_get mappings (pn_PhysicalNetwork network)\<rparr>), w))))"

definition Provider_Inspect :: "'w dbClient option \<Rightarrow> 'w dbClient option \<Rightarrow> 'w \<Rightarrow> string \<Rightarrow> (string \<times> string \<times> ProviderNetwork) res \<times> 'w" where
  "Provider_Inspect nb ovs w name = io_bind (Provider_Get nb ovs w name) (\<lambda>p w. (Inr (''ProviderNetwork'', name, p), w))"

definition requireOwnedLocalnetPort :: "'w dbClient \<Rightarrow> 'w \<Rightarrow> string \<Rightarrow> string \<Rightarrow> string \<Rightarrow> LogicalSwitchPort res \<times> 'w" where
  "requireOwnedLocalnetPort d w owner name oper =
     (if blank name
      then (Inl (wrap_err ErrorValidation dbOVNNorthbound tableLogicalSwitchPort oper owner ''provider localnet port is required'' None), w)
      else io_bind (GetLogicalSwitchPort d w name) (\<lambda>port w.
        io_guard (if lsp_Type port \<noteq> ''localnet''
            then Some (wrap_err ErrorOwnershipViolation dbOVNNorthbound tableLogicalSwitchPort oper name ''provider port is not a localnet port'' None)
            else requireV2OwnedExternalIDs (lsp_ExternalIDs port) ''ProviderNetwork'' owner dbOVNNorthbound tableLogicalSwitchPort oper name) w
          (\<lambda>w. (Inr port, w))))"

definition Provider_Delete :: "ovsdb_lib \<Rightarrow> 'w dbClient option \<Rightarrow> 'w dbClient option \<Rightarrow> 'w \<Rightarrow> string \<Rightarrow> check \<times> 'w" where
  "Provider_Delete lib nb ovs w name =
     (case validateName ''provider network'' name of
        Some e \<Rightarrow> (Some e, w)
      | None \<Rightarrow>
          (case (nb, ovs) of
             (Some d, Some o') \<Rightarrow>
               (case io_bind (providerLocalnetPort d w name) (\<lambda>localnet w.
                  let network = provider_of_port name localnet in
                  io_bind (requireOwnedLocalnetPort d w name (pn_LocalnetPort network) ''delete'') (\<lambda>port w. (Inr (network, port), w))) of
                  (Inl e, w) \<Rightarrow> (Some e, w)
                | (Inr (network, port), w) \<Rightarrow>
                    unless_missing (detachBridgeMapping lib o' w name network)
                      (\<lambda>w. deleteLogicalSwitchPortByUUID lib d w (lsp_UUID port) (pn_LocalnetPort network)))
           | _ \<Rightarrow> (Some ErrBackendUnavailable, w)))"

section \<open>Reconciling\<close>

definition requireExistingLogicalSwitchAllowed :: "'w dbClient \<Rightarrow> 'w \<Rightarrow> string \<Rightarrow> string \<Rightarrow> string \<Rightarrow> check \<times> 'w" where
  "requireExistingLogicalSwitchAllowed d w owner name oper =
     (case selectLogicalSwitches d w name of
        (Inl e, w) \<Rightarrow> (Some e, w)
      | (Inr [], w) \<Rightarrow> (None, w)
      | (Inr (ls # _), w) \<Rightarrow>
          (if v2ResourceOwnedBy (ls_ExternalIDs ls) ''VirtualNetwork'' name \<or> providerNetworkSwitchMarker (ls_ExternalIDs ls) owner then None
           else Some (wrap_err ErrorOwnershipViolation dbOVNNorthbound tableLogicalSwitch oper name
             ''provider network logical switch is not owned by ovnflow v2'' None), w))"

definition mapping_target_check :: "ProviderNetwork \<Rightarrow> OpenVSwitch \<Rightarrow> string_map \<Rightarrow> check" where
  "mapping_target_check desired root mappings =
     (let physical = pn_PhysicalNetwork desired; owner = mapping_owner root physical;
          foreign = Some (provider_error ''ensure'' physical ''bridge mapping marker belongs to another provider network'') in
      then_check (if go_get mappings physical \<noteq> []
          then (if owner = [] then Some (provider_error ''ensure'' physical ''bridge mapping is not managed by ovnflow'')
            else if owner \<noteq> pn_Name desired then foreign else None) else None)
        (if owner \<noteq> [] \<and> owner \<noteq> pn_Name desired then foreign else None))"

definition localnet_target_check :: "ProviderNetwork \<Rightarrow> LogicalSwitchPort list \<Rightarrow> check" where
  "localnet_target_check desired ports =
     check_all (\<lambda>port.
       if lsp_Name port \<noteq> pn_LocalnetPort desired then None
       else if \<not> providerNetworkLocalnetOwnedBy (lsp_ExternalIDs port) (pn_Name desired)
       then Some (wrap_err ErrorOwnershipViolation dbOVNNorthbound tableLogicalSwitchPort ''ensure'' (pn_LocalnetPort desired)
         ''localnet port is already managed by another owner'' None)
       else requireV2OwnedExternalIDs (lsp_ExternalIDs port) ''ProviderNetwork'' (pn_Name desired) dbOVNNorthbound tableLogicalSwitchPort ''ensure''
         (pn_LocalnetPort desired)) ports"

definition validateTargets :: "'w dbClient option \<Rightarrow> 'w dbClient option \<Rightarrow> 'w \<Rightarrow> ProviderNetwork \<Rightarrow> check \<times> 'w" where
  "validateTargets nb ovs w spec =
     (let desired = normalizeProviderNetwork spec in
      case (nb, ovs) of
        (Some d, Some o') \<Rightarrow>
          (case io_bind (OVS_GetBridge o' w (pn_Bridge desired)) (\<lambda>_ w.
             io_bind (GetBridgeMappings (Some o') w) (\<lambda>mappings w.
             io_bind (GetOpenVSwitch (Some o') w) (\<lambda>root w.
             io_guard (mapping_target_check desired root mappings) w (\<lambda>w. ListLogicalSwitchPorts d w)))) of
             (Inl e, w) \<Rightarrow> (Some e, w)
           | (Inr ports, w) \<Rightarrow>
               io_then (localnet_target_check desired ports, w) (\<lambda>w.
                 requireExistingLogicalSwitchAllowed d w (pn_Name spec) (pn_LogicalSwitch desired) ''ensure''))
      | _ \<Rightarrow> (Some ErrBackendUnavailable, w))"

definition provider_marks :: "ProviderNetwork \<Rightarrow> (string_map \<times> string_map) res" where
  "provider_marks desired =
     res_bind (intentExternalIDs ''ProviderNetwork'' (pn_Name desired) (pn_Owner desired) (pn_Labels desired)) (\<lambda>ids.
     res_bind (intentExternalIDs ''ProviderNetworkSwitch'' (pn_Name desired) (pn_Owner desired) (pn_Labels desired)) (\<lambda>switch_ids.
       Inr (fmupd (ExternalIDPrefix @ ''bridge'') (pn_Bridge desired)
              (fmupd (ExternalIDPrefix @ ''logical-switch'') (pn_LogicalSwitch desired)
              (fmupd (ExternalIDPrefix @ ''physical-network'') (pn_PhysicalNetwork desired) ids)),
            fmupd (ExternalIDPrefix @ ''logical-switch'') (pn_LogicalSwitch desired) switch_ids)))"

definition Provider_reconcileOVSDB :: "ovsdb_lib \<Rightarrow> 'w dbClient \<Rightarrow> 'w dbClient \<Rightarrow> 'w \<Rightarrow> ProviderNetwork \<Rightarrow> check \<times> 'w" where
  "Provider_reconcileOVSDB lib d o' w spec =
     (let desired = normalizeProviderNetwork spec in
      case provider_marks desired of
        Inl e \<Rightarrow> (Some e, w)
      | Inr (ids, switch_ids) \<Rightarrow>
          io_then (ensureLogicalSwitchIntent lib d w (pn_LogicalSwitch desired) switch_ids []) (\<lambda>w.
          io_then (ensureLogicalSwitchPortIntent lib d w (pn_LogicalSwitch desired) (pn_LocalnetPort desired) [''unknown''] ''localnet''
              (fmupd ''network_name'' (pn_PhysicalNetwork desired) fmempty) ids) (\<lambda>w.
            setOwnedBridgeMapping lib o' w desired)))"

definition Provider_current :: "'w dbClient option \<Rightarrow> 'w dbClient option \<Rightarrow> 'w \<Rightarrow> string \<Rightarrow> ProviderNetwork option res \<times> 'w" where
  "Provider_current nb ovs w name =
     (if Option.is_none nb \<or> Option.is_none ovs then (Inr None, w)
      else io_bind (found (Provider_Get nb ovs w name)) (\<lambda>x w. (Inr (map_option normalizeProviderNetwork x), w)))"

definition provider_diff_with :: "ProviderNetwork \<Rightarrow> ProviderNetwork \<Rightarrow> intent_value Diff" where
  "provider_diff_with c desired =
     appendFieldDiff (appendFieldDiff (appendFieldDiff (appendFieldDiff (appendFieldDiff (appendFieldDiff
       (new_diff ''ProviderNetwork'' (pn_Name desired))
       ''physicalNetwork'' (IString (pn_PhysicalNetwork c)) (IString (pn_PhysicalNetwork desired)))
       ''logicalSwitch'' (IString (pn_LogicalSwitch c)) (IString (pn_LogicalSwitch desired)))
       ''localnetPort'' (IString (pn_LocalnetPort c)) (IString (pn_LocalnetPort desired)))
       ''bridge'' (IString (pn_Bridge c)) (IString (pn_Bridge desired)))
       ''owner'' (IOwner (pn_Owner c)) (IOwner (pn_Owner desired)))
       ''labels'' (ILabels (pn_Labels c)) (ILabels (pn_Labels desired))"

definition Provider_diff :: "'w dbClient option \<Rightarrow> 'w dbClient option \<Rightarrow> 'w \<Rightarrow> string \<Rightarrow> ProviderNetwork \<Rightarrow> intent_value Diff res \<times> 'w" where
  "Provider_diff nb ovs w name spec =
     (let desired = normalizeProviderNetwork spec in
      io_bind (Provider_current nb ovs w name) (\<lambda>current w.
        (Inr (case current of
           None \<Rightarrow> create_diff ''ProviderNetwork'' (pn_Name desired) (IProvider desired)
         | Some c \<Rightarrow> provider_diff_with c desired), w)))"

definition Provider_Plan :: "ProviderNetwork \<Rightarrow> Plan res" where
  "Provider_Plan spec =
     (let desired = normalizeProviderNetwork spec in
      guard_res (ProviderNetwork_Validate desired)
        (Inr (ensure_plan ''ProviderNetwork'' (pn_Name desired) ''validate and plan localnet port and OVS bridge mapping intent'')))"

definition Provider_DryRun :: "'w dbClient option \<Rightarrow> 'w dbClient option \<Rightarrow> 'w \<Rightarrow> string \<Rightarrow> ProviderNetwork \<Rightarrow> intent_value DryRunResult res \<times> 'w" where
  "Provider_DryRun nb ovs w name spec =
     (case Provider_Plan spec of
        Inl e \<Rightarrow> (Inl e, w)
      | Inr plan \<Rightarrow> io_bind (Provider_diff nb ovs w name spec) (\<lambda>diff w. (Inr \<lparr>dry_Plan = plan, dry_Diff = diff\<rparr>, w)))"

definition Provider_Reconcile :: "ovsdb_lib \<Rightarrow> 'w dbClient option \<Rightarrow> 'w dbClient option \<Rightarrow> 'w \<Rightarrow> string \<Rightarrow> ProviderNetwork
    \<Rightarrow> intent_value ReconcileResult res \<times> 'w" where
  "Provider_Reconcile lib nb ovs w name spec =
     (case Provider_Plan spec of
        Inl e \<Rightarrow> (Inl e, w)
      | Inr plan \<Rightarrow>
          after_check (validateTargets nb ovs w spec) (\<lambda>w.
          io_bind (Provider_diff nb ovs w name spec) (\<lambda>diff w.
            case ovs of
              None \<Rightarrow> (Inr \<lparr>rec_Plan = plan, rec_Diff = diff, rec_Applied = False\<rparr>, w)
            | Some o' \<Rightarrow> apply_diff nb plan diff (\<lambda>d w. Provider_reconcileOVSDB lib d o' w spec) w)))"

definition Provider_Execute :: "ovsdb_lib \<Rightarrow> 'w dbClient option \<Rightarrow> 'w dbClient option \<Rightarrow> 'w \<Rightarrow> string \<Rightarrow> ProviderNetwork \<Rightarrow> check \<times> 'w" where
  "Provider_Execute lib nb ovs w name spec = io_check (Provider_Reconcile lib nb ovs w name spec)"

definition Provider_Apply :: "ovsdb_lib \<Rightarrow> 'w dbClient option \<Rightarrow> 'w dbClient option \<Rightarrow> 'w \<Rightarrow> string \<Rightarrow> ProviderNetwork \<Rightarrow> check \<times> 'w" where
  "Provider_Apply lib nb ovs w name p0 =
     (if Option.is_none nb \<or> Option.is_none ovs then (Some ErrBackendUnavailable, w)
      else let p = (if pn_Name p0 = [] then p0\<lparr>pn_Name := name\<rparr> else p0) in
        if pn_Name p \<noteq> name
        then (Some (wrap_err ErrorConflict dbOVNNorthbound tableLogicalSwitchPort ''apply'' (pn_Name p)
          ''provider network name does not match reference'' None), w)
        else io_check (Provider_Reconcile lib nb ovs w name p))"

record ProviderNetworkPatch =
  pnp_PhysicalNetwork :: "string option"
  pnp_LogicalSwitch :: "string option"
  pnp_LocalnetPort :: "string option"
  pnp_Bridge :: "string option"
  pnp_Owner :: "OwnerRef option"
  pnp_Labels :: Labels
  pnp_RemoveLabels :: "string list"

definition patched_provider :: "ProviderNetwork \<Rightarrow> ProviderNetworkPatch \<Rightarrow> ProviderNetwork" where
  "patched_provider current patch =
     current\<lparr>pn_PhysicalNetwork := (case pnp_PhysicalNetwork patch of Some x \<Rightarrow> x | None \<Rightarrow> pn_PhysicalNetwork current),
       pn_LogicalSwitch := (case pnp_LogicalSwitch patch of Some x \<Rightarrow> x | None \<Rightarrow> pn_LogicalSwitch current),
       pn_LocalnetPort := (case pnp_LocalnetPort patch of Some x \<Rightarrow> x | None \<Rightarrow> pn_LocalnetPort current),
       pn_Bridge := (case pnp_Bridge patch of Some x \<Rightarrow> x | None \<Rightarrow> pn_Bridge current),
       pn_Owner := (case pnp_Owner patch of Some ow \<Rightarrow> ow | None \<Rightarrow> pn_Owner current),
       pn_Labels := patchLabels (pn_Labels current) (pnp_Labels patch) (pnp_RemoveLabels patch)\<rparr>"

text \<open>After a patch the mapping and the port that the network no longer uses are removed.\<close>

definition drop_old_mapping :: "ovsdb_lib \<Rightarrow> 'w dbClient \<Rightarrow> 'w \<Rightarrow> string \<Rightarrow> ProviderNetwork \<Rightarrow> ProviderNetwork \<Rightarrow> check \<times> 'w" where
  "drop_old_mapping lib o' w name current nxt =
     (if pn_PhysicalNetwork current \<noteq> [] \<and> pn_PhysicalNetwork current \<noteq> pn_PhysicalNetwork nxt
      then unless_missing (detachBridgeMapping lib o' w name current) (\<lambda>w. (None, w)) else (None, w))"

definition drop_old_port :: "ovsdb_lib \<Rightarrow> 'w dbClient \<Rightarrow> 'w \<Rightarrow> string \<Rightarrow> ProviderNetwork \<Rightarrow> ProviderNetwork \<Rightarrow> check \<times> 'w" where
  "drop_old_port lib d w name current nxt =
     (if pn_LocalnetPort current \<noteq> [] \<and> pn_LocalnetPort current \<noteq> pn_LocalnetPort nxt
      then (case requireOwnedLocalnetPort d w name (pn_LocalnetPort current) ''delete'' of
          (Inl e, w) \<Rightarrow> (Some e, w)
        | (Inr port, w) \<Rightarrow> unless_missing (deleteLogicalSwitchPortByUUID lib d w (lsp_UUID port) (pn_LocalnetPort current)) (\<lambda>w. (None, w)))
      else (None, w))"

definition Provider_Patch :: "ovsdb_lib \<Rightarrow> 'w dbClient option \<Rightarrow> 'w dbClient option \<Rightarrow> 'w \<Rightarrow> string \<Rightarrow> ProviderNetworkPatch \<Rightarrow> ProviderNetwork res \<times> 'w" where
  "Provider_Patch lib nb ovs w name patch =
     io_bind (Provider_Get nb ovs w name) (\<lambda>current w.
       let nxt = patched_provider current patch in
       after_check (Provider_Apply lib nb ovs w name nxt) (\<lambda>w.
       after_check (case ovs of None \<Rightarrow> (None, w) | Some o' \<Rightarrow> drop_old_mapping lib o' w name current nxt) (\<lambda>w.
       after_check (case nb of None \<Rightarrow> (None, w) | Some d \<Rightarrow> drop_old_port lib d w name current nxt) (\<lambda>w.
       after_check (case nb of None \<Rightarrow> (None, w) | Some d \<Rightarrow>
           deleteExternalIDKeys lib d w tableLogicalSwitchPort (pn_LocalnetPort nxt) (conditionName (pn_LocalnetPort nxt))
             (labelDeleteKeys (pnp_RemoveLabels patch) (pnp_Labels patch)))
         (\<lambda>w. (Inr nxt, w))))))"

end
