(* ===== verification/Workload_Props.thy ===== *)
theory Workload_Props
  imports Workload_Intent Network_Props Ovs_Bridge_Props
begin

text \<open>
  What the operations of workload attachments delete, in both databases.
\<close>

section \<open>Rules for steps that return only an error\<close>

lemma keeps_case:
  assumes "ensures good seen u m P" "\<And>x v. P x v \<Longrightarrow> seen u \<le> seen v \<Longrightarrow> keeps good seen v (snd (k x v))"
  shows "keeps good seen u (snd (case m of (Inl e, w) \<Rightarrow> (Some e, w) | (Inr x, w) \<Rightarrow> k x w))"
proof (cases m)
  case (Pair r v)
  show ?thesis
  proof (cases r)
    case (Inr x)
    show ?thesis
    proof (cases "good u")
      case True
      then have "P x v" "seen u \<le> seen v" using assms(1) by (simp_all add: ensures_def Pair Inr)
      then show ?thesis using keeps_trans [OF ensures_keeps [OF assms(1)] assms(2), of x] by (simp add: Pair Inr)
    qed (simp add: keeps_def)
  qed (use ensures_keeps [OF assms(1)] in \<open>simp add: Pair\<close>)
qed

lemma keeps_then:
  assumes "keeps good seen u (snd m)" "\<And>v. seen u \<le> seen v \<Longrightarrow> keeps good seen v (snd (k v))"
  shows "keeps good seen u (snd (io_then m k))"
  using assms(1) keeps_trans [OF assms(1) assms(2) [of "snd m"]]
  by (cases m; cases "good u") (auto simp: io_then_def keeps_def split: option.split)

lemma keeps_unless_missing:
  assumes "keeps good seen u (snd m)" "\<And>v. seen u \<le> seen v \<Longrightarrow> keeps good seen v (snd (k v))"
  shows "keeps good seen u (snd (unless_missing m k))"
  using assms(1) keeps_trans [OF assms(1) assms(2) [of "snd m"]]
  by (cases m; cases "good u") (auto simp: unless_missing_def keeps_def split: option.split)

context careful_client
begin

lemma fluent_rows_ensures:
  assumes "tr_db r = Some d"
  shows "ensures good seen u (selectRows r u c cols) (\<lambda>rows v. \<forall>row\<in>set rows. \<exists>row0. shown (seen v) (tr_table r) row0 \<and> row = db_rawRow d row0)"
proof -
  have "ensures good seen v (ref_transact r v (tr_table r) oper object [(op_of ''select'' (tr_table r))\<lparr>op_Where := c, op_Columns := cs\<rparr>])
     (\<lambda>results v. \<forall>x xs. results = x # xs \<longrightarrow> (\<forall>row\<in>set (res_Rows x). shown (seen v) (tr_table r) row))" for v oper object cs
    unfolding ref_transact_def assms option.case
    by (rule ensures_weaken [OF transact_select_ensures]) (auto simp: op_of_def intro: shownI)
  note sel = this
  show ?thesis unfolding selectRows_def Let_def
    by (intro ensures_guard, rule ensures_bind [OF sel]) (auto simp: assms split: list.splits)
qed

lemma Get_ensures: "tr_db r = Some d \<Longrightarrow> ensures good seen u (Get r u) (\<lambda>row v. \<exists>row0. shown (seen v) (tr_table r) row0 \<and> row = db_rawRow d row0)"
  unfolding Get_def by (intro ensures_guard, rule ensures_bind [OF fluent_rows_ensures]) (auto split: list.splits)

lemma List_ensures:
  "tr_db r = Some d \<Longrightarrow> ensures good seen u (List_rows r u) (\<lambda>rows v. \<forall>row\<in>set rows. \<exists>row0. shown (seen v) (tr_table r) row0 \<and> row = db_rawRow d row0)"
  unfolding List_rows_def by (intro ensures_guard) (rule fluent_rows_ensures)

lemma ref_db [simp]: "tr_db (newTableRef (Some d) tab col v) = Some d" "tr_table (newTableRef (Some d) tab col v) = tab"
  "tr_db (WhereCondition r c f x) = tr_db r" "tr_table (WhereCondition r c f x) = tr_table r"
  by (simp_all add: newTableRef_def WhereCondition_def)

lemma GetLogicalSwitchPort_ensures:
  "ensures good seen u (GetLogicalSwitchPort d u name) (\<lambda>port v. \<exists>row. shown (seen v) tableLogicalSwitchPort row \<and> port = logicalSwitchPortFromRow (db_rawRow d row))"
  unfolding GetLogicalSwitchPort_def by (rule ensures_bind [OF Get_ensures]) auto

lemma ListLogicalSwitchPorts_ensures:
  "ensures good seen u (ListLogicalSwitchPorts d u) (\<lambda>ports v. \<forall>port\<in>set ports. \<exists>row. shown (seen v) tableLogicalSwitchPort row \<and> port = logicalSwitchPortFromRow (db_rawRow d row))"
  unfolding ListLogicalSwitchPorts_def by (rule ensures_bind [OF List_ensures]) auto

lemma ListPorts_ensures:
  "ensures good seen u (ListPorts d u) (\<lambda>ports v. \<forall>port\<in>set ports. \<exists>row. shown (seen v) tablePort row \<and> port = ovsPortFromAuditRow (db_rawRow d row))"
  unfolding ListPorts_def by (rule ensures_bind [OF List_ensures]) auto

lemma ListBridges_ensures: "ensures good seen u (ListBridges d u) (\<lambda>_ _. True)"
  unfolding ListBridges_def by (rule ensures_bind [OF List_ensures]) auto

lemma interface_ensures: "ensures good seen u (getInterfaceByUUID d u i) (\<lambda>_ _. True)" "ensures good seen u (GetInterface d u name) (\<lambda>_ _. True)"
  unfolding getInterfaceByUUID_def GetInterface_def by (rule ensures_bind [OF Get_ensures]; simp)+

lemma GetBridge_ensures: "ensures good seen u (OVS_GetBridge d u name) (\<lambda>_ _. True)"
  unfolding OVS_GetBridge_def by (rule ensures_bind [OF selectBridges_ensures]) simp

lemma switch_ports_ensures: "ensures good seen u (selectLogicalSwitchPorts d u name) (\<lambda>_ _. True)"
proof -
  have "ensures good seen u (transact d u tab oper object [(op_of ''select'' t)\<lparr>op_Where := c, op_Columns := cs\<rparr>]) (\<lambda>_ _. True)" for tab oper object t c cs
    by (rule ensures_weaken [OF transact_select_ensures]) simp_all
  then show ?thesis unfolding selectLogicalSwitchPorts_def by (rule ensures_bind) simp
qed

lemma quiet_transact_keeps: "no_delete ops \<Longrightarrow> keeps good seen u (snd (transact d u tab oper object ops))"
  by (rule transact_keeps [OF no_delete_okay prod.collapse [symmetric]])

lemma ensure_port_keeps: "keeps good seen u (snd (ensureLogicalSwitchPortIntent lib d u switch port addresses kind options ids))"
proof -
  have quiet: "no_delete (existing_switch_port_ops lib ls p addresses kind options ids)" "no_delete (new_switch_port_ops lib i j port addresses kind options ids)" for ls p i j
    by (simp_all add: existing_switch_port_ops_def new_switch_port_ops_def Let_def)
  have "ensures good seen u (io_bind (selectLogicalSwitches d u switch) (\<lambda>switches w.
        case switches of
          [] \<Rightarrow> (Inl (wrap_err ErrorNotFound dbOVNNorthbound tableLogicalSwitch ''ensure'' switch ''logical switch not found'' None), w)
        | ls # _ \<Rightarrow> io_bind (selectLogicalSwitchPorts d w port) (\<lambda>ports w. (Inr (ls, ports), w)))) (\<lambda>_ _. True)"
    by (rule ensures_bind [OF switches_ensures]) (auto split: list.split intro!: ensures_bind [OF switch_ports_ensures])
  note sel = this
  have new: "keeps good seen v (snd (case namedUUID d v ''lsp'' of (i, w) \<Rightarrow>
      (case transact d w tableLogicalSwitchPort ''ensure'' port (new_switch_port_ops lib (ls_UUID ls) i port addresses kind options ids) of
         (Inl e, w) \<Rightarrow> (Some e, w) | (Inr results, w) \<Rightarrow> (nb_affected results [1] tableLogicalSwitch ''ensure'' switch, w))))" for v ls
  proof -
    obtain i w where n: "namedUUID d v ''lsp'' = (i, w)" by (cases "namedUUID d v ''lsp''")
    show ?thesis using keeps_trans [OF named_keeps [OF n] quiet_transact_keeps [OF quiet(2)]]
      by (auto simp: n split: prod.split sum.split) (metis snd_conv)+
  qed
  show ?thesis unfolding ensureLogicalSwitchPortIntent_def prepared_pair
    by (rule keeps_case [OF sel]) (auto simp: Let_def new quiet quiet_commit_keeps split: list.split)
qed

lemma delete_port_by_uuid_keeps:
  assumes "\<And>S. seen u \<le> S \<Longrightarrow> okay S (delete_op tableLogicalSwitchPort i)"
  shows "keeps good seen u (snd (deleteLogicalSwitchPortByUUID lib d u i object))"
proof -
  have "keeps good seen v (snd (nb_commit d v tableLogicalSwitchPort ''delete'' object (refOps @ [delete_op tableLogicalSwitchPort i]) idx))"
    if "no_delete refOps" "seen u \<le> seen v" for v refOps idx
    by (rule commit_keeps) (use that no_delete_okay assms in simp)
  then show ?thesis unfolding deleteLogicalSwitchPortByUUID_def
    by (simp, intro impI, intro keeps_case [OF unreference_ensures]) simp_all
qed

text \<open>Local ports.\<close>

lemma first_interface_ensures: "ensures good seen u (first_interface d u port local) (\<lambda>_ _. True)"
proof (cases "vp_Interfaces port")
  case (Cons i "is")
  show ?thesis unfolding first_interface_def Cons list.case by (rule ensures_bind [OF interface_ensures(1)]) simp
qed (simp add: first_interface_def)

lemma getLocalOVS_ensures: "ensures good seen u (getLocalOVS d u name) (\<lambda>_ _. True)"
  unfolding getLocalOVS_def
  by (rule ensures_bind [OF ListPorts_ensures])
    (auto split: option.split intro!: ensures_bind [OF first_interface_ensures] ensures_bind [OF ListBridges_ensures])

lemma check_interfaces_keeps: "keeps good seen u (snd (check_interfaces d u name ifaces))"
proof (induction ifaces arbitrary: u)
  case (Cons i ifaces)
  show ?case unfolding check_interfaces.simps by (rule keeps_case [OF interface_ensures(1)]) (simp add: Cons)
qed simp

lemma keeps_checked:
  fixes m :: "check \<times> 'w"
  assumes "keeps good seen u (snd m)" "\<And>v. seen u \<le> seen v \<Longrightarrow> keeps good seen v (snd (k v))"
  shows "keeps good seen u (snd (case m of (Some e, w) \<Rightarrow> (Some e, w) | (None, w) \<Rightarrow> k w))"
  using keeps_then [of good seen u m k, OF assms] by (simp add: io_then_def)

lemma Bridge_Execute_port_keeps:
  assumes "\<And>S p. seen u \<le> S \<Longrightarrow> unshared (Some port) bridge S p \<Longrightarrow> okay S p"
  shows "keeps good seen u (snd (case Bridge_Execute lib d u (Bridge_DeletePort bridge port) of (c, _, w) \<Rightarrow> (c, w)))"
proof -
  have "keeps good seen u (snd (snd (Bridge_Execute lib d u (Bridge_DeletePort bridge port))))"
    by (rule Bridge_Execute_keeps) (use assms in \<open>simp_all add: Bridge_DeletePort_def newBridgeBuilder_def\<close>)
  then show ?thesis by (simp add: case_prod_beta)
qed

lemma Bridge_Execute_ensure_keeps:
  "keeps good seen u (snd (case Bridge_Execute lib d u (foldl (bridge_call_step lib d) (newBridgeBuilder name ovsModeEnsure) calls) of (c, _, w) \<Rightarrow> (c, w)))"
proof -
  have "keeps good seen u (snd (snd (Bridge_Execute lib d u (foldl (bridge_call_step lib d) (newBridgeBuilder name ovsModeEnsure) calls))))"
    by (rule Bridge_Execute_keeps, rule calls_own) (simp_all add: calls_mode newBridgeBuilder_def)
  then show ?thesis by (simp add: case_prod_beta)
qed

lemma detach_keeps:
  assumes okay: "\<And>S row bridge p. shown S tablePort row \<Longrightarrow> v2ResourceOwnedBy (vp_ExternalIDs (ovsPortFromAuditRow (db_rawRow d row))) ''WorkloadAttachment'' name \<Longrightarrow>
    unshared (Some (vp_Name (ovsPortFromAuditRow (db_rawRow d row)))) bridge S p \<Longrightarrow> okay S p"
  shows "keeps good seen u (snd (detachLocalOVS lib d u name allowMissing))"
  unfolding detachLocalOVS_def
proof (rule keeps_case [OF ListPorts_ensures], goal_cases)
  case (1 ports v)
  show ?case
  proof (cases "find (\<lambda>p. v2ResourceOwnedBy (vp_ExternalIDs p) ''WorkloadAttachment'' name) ports")
    case (Some port)
    then have "port \<in> set ports" and owned: "v2ResourceOwnedBy (vp_ExternalIDs port) ''WorkloadAttachment'' name"
      by (auto simp: find_Some_iff)
    then obtain row where row: "shown (seen v) tablePort row" "port = ovsPortFromAuditRow (db_rawRow d row)" using 1(1) by blast
    have okay': "okay S p" if "seen v \<le> S" "unshared (Some (vp_Name port)) bridge S p" for S bridge p
      using okay [OF shown_mono [OF row(1) that(1)]] owned that(2) by (simp add: row(2))
    have "keeps good seen w (snd (case ListBridges d w of (Inl e, w) \<Rightarrow> (Some e, w)
       | (Inr bridges, w) \<Rightarrow> (case find (\<lambda>b. containsString (br_Ports b) (vp_UUID port)) bridges of
            None \<Rightarrow> (Some (wrap_err ErrorNotFound dbOpenVSwitch tableBridge ''detach'' (vp_Name port) ''owning bridge not found'' None), w)
          | Some b \<Rightarrow> (case Bridge_Execute lib d w (Bridge_DeletePort (br_Name b) (vp_Name port)) of (c, _, w) \<Rightarrow> (c, w)))))"
      if "seen v \<le> seen w" for w
    proof (rule keeps_case [OF ListBridges_ensures], goal_cases)
      case (1 bridges w')
      have "keeps good seen w' (snd (case Bridge_Execute lib d w' (Bridge_DeletePort (br_Name b) (vp_Name port)) of (c, _, w) \<Rightarrow> (c, w)))" for b
        by (rule Bridge_Execute_port_keeps) (use okay' that 1(2) in \<open>blast intro: order_trans\<close>)
      then show ?case by (cases "find (\<lambda>b. containsString (br_Ports b) (vp_UUID port)) bridges") (simp_all only: option.case snd_conv keeps_refl)
    qed
    then show ?thesis unfolding Some option.case by (rule keeps_checked [OF check_interfaces_keeps])
  qed simp
qed

lemma validate_target_keeps: "keeps good seen u (snd (validateLocalOVSTarget (Some d) u spec))"
proof -
  have "ensures good seen u (io_bind (OVS_GetBridge d u b) (\<lambda>_ w. io_bind (selectPorts d w n) (\<lambda>ports w.
      io_guard (g ports) w (\<lambda>w. found (GetInterface d w i))))) (\<lambda>_ _. True)" for b n g i
    by (rule ensures_bind [OF GetBridge_ensures], rule ensures_bind [OF selectPorts_ensures], rule ensures_guard,
        rule ensures_weaken [OF ensures_found [OF interface_ensures(2)]]) simp
  then show ?thesis unfolding validateLocalOVSTarget_def option.case by (simp, intro impI keeps_case) simp_all
qed

lemma reconcileLocal_keeps: "keeps good seen u (snd (reconcileLocalOVS lib (Some d) u spec))"
proof (cases "intentExternalIDs ''WorkloadAttachment'' (wa_Name spec) (wa_Owner spec) (wa_Labels spec)")
  case (Inr ids)
  show ?thesis unfolding reconcileLocalOVS_def Inr sum.case option.case
    using keeps_checked [OF validate_target_keeps Bridge_Execute_ensure_keeps,
        of u "\<lambda>_. lib" "\<lambda>_. lo_Bridge (wa_LocalOVS spec)" "\<lambda>_. local_calls spec (local_marks spec ids)" spec]
    by (cases "Local_Empty (wa_LocalOVS spec)") simp_all
qed (simp add: reconcileLocalOVS_def)

text \<open>The Northbound side.\<close>

lemma require_network_keeps: "keeps good seen u (snd (requireNetworkOwned (Some d) u name oper))"
  by (cases "selectLogicalSwitches d u name") (auto simp: requireNetworkOwned_def dest: switches_keep split: sum.splits list.splits)

lemma require_port_keeps: "keeps good seen u (snd (requireExistingLogicalSwitchPortOwned (Some d) u name oper))"
  using ensures_keeps [OF switch_ports_ensures, of u name]
  by (cases "selectLogicalSwitchPorts d u name") (auto simp: requireExistingLogicalSwitchPortOwned_def split: sum.splits list.splits)

lemma attachment_ovsdb_keeps: "keeps good seen u (snd (Attachment_reconcileOVSDB lib d u spec))"
  unfolding Attachment_reconcileOVSDB_def
  by (rule keeps_then [OF require_network_keeps], rule keeps_then [OF require_port_keeps]) (simp add: ensure_port_keeps split: sum.split)

end

section \<open>Two clients\<close>

text \<open>A Northbound and an Open_vSwitch client on one world, both careful.\<close>

locale careful_pair = nb: careful_client dn good seen okay + ovs: careful_client dv good seen okay
  for dn dv :: "'w dbClient" and good seen okay
begin

lemma attachment_get_ensures: "ensures good seen u (Attachment_Get (Some dn) (Some dv) u name) (\<lambda>_ _. True)"
  unfolding Attachment_Get_def option.case Let_def
  by (rule ensures_guard, rule ensures_bind [OF nb.GetLogicalSwitchPort_ensures], rule ensures_bind [OF ensures_found [OF ovs.getLocalOVS_ensures]]) simp

lemma attachment_diff_ensures: "ensures good seen u (Attachment_diff (Some dn) (Some dv) u name spec) (\<lambda>_ _. True)"
proof -
  have "ensures good seen u (Attachment_current (Some dn) (Some dv) u name) (\<lambda>_ _. True)"
    unfolding Attachment_current_def by simp (rule ensures_bind [OF ensures_found [OF attachment_get_ensures]], simp)
  then show ?thesis unfolding Attachment_diff_def Let_def by (rule ensures_bind) simp
qed

lemma attachment_reconcile_ensures: "ensures good seen u (Attachment_Reconcile lib (Some dn) (Some dv) u name spec) (\<lambda>_ _. True)"
proof (cases "Attachment_Plan spec")
  case (Inr plan)
  have "keeps good seen v (snd (io_then (Attachment_reconcileOVSDB lib dn v spec) (\<lambda>w. reconcileLocalOVS lib (Some dv) w spec)))" for v
    by (rule keeps_then [OF nb.attachment_ovsdb_keeps ovs.reconcileLocal_keeps])
  then show ?thesis unfolding Attachment_Reconcile_def Inr sum.case
    by (intro ensures_after_check [OF ovs.validate_target_keeps] ensures_after_check [OF nb.require_network_keeps]
        ensures_after_check [OF nb.require_port_keeps] ensures_bind [OF attachment_diff_ensures] ensures_apply_diff) simp
qed (simp add: Attachment_Reconcile_def)

lemma attachment_apply_keeps: "keeps good seen u (snd (Attachment_Apply lib (Some dn) (Some dv) u name spec))"
  using ensures_keeps [OF attachment_reconcile_ensures] by (simp add: Attachment_Apply_def Let_def io_check_def)

lemma attachment_patch_ensures: "ensures good seen u (Attachment_Patch lib (Some dn) (Some dv) u name patch) (\<lambda>_ _. True)"
  unfolding Attachment_Patch_def Let_def option.case
  by (rule ensures_bind [OF attachment_get_ensures], rule ensures_after_check [OF attachment_apply_keeps], rule ensures_after_check)
    (auto simp: deleteExternalIDKeys_def intro: nb.deleteMapKeys_keeps)

lemma attachment_delete_keeps:
  assumes port: "\<And>S row. shown S tableLogicalSwitchPort row \<Longrightarrow> v2ResourceOwnedBy (lsp_ExternalIDs (logicalSwitchPortFromRow (db_rawRow dn row))) ''WorkloadAttachment'' name \<Longrightarrow>
      okay S (delete_op tableLogicalSwitchPort (lsp_UUID (logicalSwitchPortFromRow (db_rawRow dn row))))"
    and local: "\<And>S row bridge p. shown S tablePort row \<Longrightarrow> v2ResourceOwnedBy (vp_ExternalIDs (ovsPortFromAuditRow (db_rawRow dv row))) ''WorkloadAttachment'' name \<Longrightarrow>
      unshared (Some (vp_Name (ovsPortFromAuditRow (db_rawRow dv row)))) bridge S p \<Longrightarrow> okay S p"
  shows "keeps good seen u (snd (Attachment_Delete lib (Some dn) (Some dv) u name))"
proof (cases "blank name")
  case False
  have m: "ensures good seen u (io_bind (GetLogicalSwitchPort dn u name) (\<lambda>lsp w.
      io_guard (requireV2OwnedExternalIDs (lsp_ExternalIDs lsp) ''WorkloadAttachment'' name dbOVNNorthbound tableLogicalSwitchPort ''delete'' name) w
        (\<lambda>w. (Inr lsp, w)))) (\<lambda>lsp v. \<exists>row. shown (seen v) tableLogicalSwitchPort row \<and> lsp = logicalSwitchPortFromRow (db_rawRow dn row)
           \<and> v2ResourceOwnedBy (lsp_ExternalIDs lsp) ''WorkloadAttachment'' name)"
    by (rule ensures_bind [OF nb.GetLogicalSwitchPort_ensures], rule ensures_guard) (use require_marks False in auto)
  have del: "keeps good seen v (snd (unless_missing (detachLocalOVS lib dv v name True) (\<lambda>w. deleteLogicalSwitchPortByUUID lib dn w (lsp_UUID lsp) name)))"
    if marked: "\<exists>row. shown (seen v) tableLogicalSwitchPort row \<and> lsp = logicalSwitchPortFromRow (db_rawRow dn row)
           \<and> v2ResourceOwnedBy (lsp_ExternalIDs lsp) ''WorkloadAttachment'' name" for lsp v
  proof (rule keeps_unless_missing [OF ovs.detach_keeps [OF local]], assumption, assumption, assumption, rule nb.delete_port_by_uuid_keeps)
    fix w S assume s: "seen v \<le> seen w" "seen w \<le> S"
    obtain row where row: "shown (seen v) tableLogicalSwitchPort row" "lsp = logicalSwitchPortFromRow (db_rawRow dn row)"
      "v2ResourceOwnedBy (lsp_ExternalIDs lsp) ''WorkloadAttachment'' name" using marked by blast
    show "okay S (delete_op tableLogicalSwitchPort (lsp_UUID lsp))"
      using port [OF shown_mono [OF row(1) order_trans [OF s]]] row(2,3) by simp
  qed
  show ?thesis unfolding Attachment_Delete_def validateName_def if_not_P [OF False] option.case by (rule keeps_case [OF m del])
qed (simp add: Attachment_Delete_def validateName_def)

lemma detach_local_keeps:
  assumes "\<And>S row bridge p. shown S tablePort row \<Longrightarrow> v2ResourceOwnedBy (vp_ExternalIDs (ovsPortFromAuditRow (db_rawRow dv row))) ''WorkloadAttachment'' name \<Longrightarrow>
      unshared (Some (vp_Name (ovsPortFromAuditRow (db_rawRow dv row)))) bridge S p \<Longrightarrow> okay S p"
  shows "keeps good seen u (snd (DetachLocalOVS lib (Some dv) u name))"
proof -
  have "keeps good seen u (snd (detachLocalOVS lib dv u name False))" by (rule ovs.detach_keeps [OF assms])
  then show ?thesis by (simp add: DetachLocalOVS_def split: option.split)
qed

end

section \<open>Deletions of workload attachments\<close>

text \<open>
  A deletion on behalf of an attachment: a logical switch port that was returned with its complete mark; or, once a local port
  with its complete mark was listed, what deleting the port of this name from a bridge may delete.
\<close>

definition of_attachment :: "(row \<Rightarrow> row) \<Rightarrow> (row \<Rightarrow> row) \<Rightarrow> string \<Rightarrow> answered \<Rightarrow> Operation \<Rightarrow> bool" where
  "of_attachment rawn rawv name S p \<longleftrightarrow> (op_Op p = ''delete'' \<longrightarrow>
     (\<exists>row. shown S tableLogicalSwitchPort row \<and> (let port = logicalSwitchPortFromRow (rawn row) in
        v2ResourceOwnedBy (lsp_ExternalIDs port) ''WorkloadAttachment'' name \<and> p = delete_op tableLogicalSwitchPort (lsp_UUID port)))
   \<or> (\<exists>row bridge. shown S tablePort row \<and> (let port = ovsPortFromAuditRow (rawv row) in
        v2ResourceOwnedBy (vp_ExternalIDs port) ''WorkloadAttachment'' name \<and> unshared (Some (vp_Name port)) bridge S p)))"

lemma of_attachment_port:
  "shown S tableLogicalSwitchPort row \<Longrightarrow> v2ResourceOwnedBy (lsp_ExternalIDs (logicalSwitchPortFromRow (rawn row))) ''WorkloadAttachment'' name \<Longrightarrow>
     of_attachment rawn rawv name S (delete_op tableLogicalSwitchPort (lsp_UUID (logicalSwitchPortFromRow (rawn row))))"
  unfolding of_attachment_def Let_def by blast

lemma of_attachment_local:
  "shown S tablePort row \<Longrightarrow> v2ResourceOwnedBy (vp_ExternalIDs (ovsPortFromAuditRow (rawv row))) ''WorkloadAttachment'' name \<Longrightarrow>
     unshared (Some (vp_Name (ovsPortFromAuditRow (rawv row)))) bridge S p \<Longrightarrow> of_attachment rawn rawv name S p"
  unfolding of_attachment_def Let_def by blast

lemma of_attachment_other: "op_Op p \<noteq> ''delete'' \<Longrightarrow> of_attachment rawn rawv name S p"
  by (simp add: of_attachment_def)

lemma of_attachment_mono:
  assumes "of_attachment rawn rawv name S p" "S \<le> S'"
  shows "of_attachment rawn rawv name S' p"
proof (cases "op_Op p = ''delete''")
  case True
  from assms(1) [unfolded of_attachment_def Let_def, THEN mp, OF True] show ?thesis
  proof (elim disjE exE conjE)
    fix row
    assume "shown S tableLogicalSwitchPort row" "v2ResourceOwnedBy (lsp_ExternalIDs (logicalSwitchPortFromRow (rawn row))) ''WorkloadAttachment'' name"
      "p = delete_op tableLogicalSwitchPort (lsp_UUID (logicalSwitchPortFromRow (rawn row)))"
    then show ?thesis using of_attachment_port [OF shown_mono [OF _ assms(2)], where rawn = rawn] by simp
  next
    fix row bridge
    assume "shown S tablePort row" "v2ResourceOwnedBy (vp_ExternalIDs (ovsPortFromAuditRow (rawv row))) ''WorkloadAttachment'' name"
      "unshared (Some (vp_Name (ovsPortFromAuditRow (rawv row)))) bridge S p"
    then show ?thesis using of_attachment_local [OF shown_mono [OF _ assms(2)] _ unshared_mono [OF _ assms(2)]] by blast
  qed
qed (simp add: of_attachment_other)

interpretation quiet_pair: careful_pair "recorded dn" "recorded dv" "\<lambda>w. allowed deletes_none (snd w)" "\<lambda>w. returned_in (snd w)" deletes_none
  for dn dv :: "'w dbClient"
  unfolding careful_pair_def by (intro conjI recorded_careful) (simp_all add: deletes_none_def)

interpretation attaching: careful_pair "recorded dn" "recorded dv" "\<lambda>w. allowed (of_attachment rawn rawv name) (snd w)" "\<lambda>w. returned_in (snd w)"
  "of_attachment rawn rawv name" for dn dv :: "'w dbClient" and rawn rawv name
  unfolding careful_pair_def by (intro conjI recorded_careful) (auto intro: of_attachment_mono of_attachment_other)


section \<open>Local ports that are no longer asked for\<close>

text \<open>
  When an attachment no longer asks for its local port, the difference is reported each time, while reconciling leaves the local port alone.
\<close>

lemma normalized_local_empty:
  assumes eq: "normalizeWorkloadLocalOVS l name = no_local"
  shows "Local_Empty l"
proof (rule ccontr)
  assume ne: "\<not> Local_Empty l"
  let ?port = "if lo_PortName l = [] then name else lo_PortName l"
  have n: "normalizeWorkloadLocalOVS l name = l\<lparr>lo_PortName := ?port, lo_InterfaceName := (if lo_InterfaceName l = [] then ?port else lo_InterfaceName l)\<rparr>"
    unfolding normalizeWorkloadLocalOVS_def Let_def by (rule if_not_P [OF ne])
  have "lo_Bridge l = []" using arg_cong [OF eq, of lo_Bridge] unfolding n by (simp add: no_local_def)
  moreover have "lo_PortName l = []" using arg_cong [OF eq, of lo_PortName] unfolding n by (simp add: no_local_def split: if_split_asm)
  moreover have "lo_InterfaceName l = []" using arg_cong [OF eq, of lo_InterfaceName] unfolding n by (simp add: no_local_def split: if_split_asm)
  moreover have "lo_InterfaceType l = []" using arg_cong [OF eq, of lo_InterfaceType] unfolding n by (simp add: no_local_def)
  moreover have "lo_Options l = fmempty" using arg_cong [OF eq, of lo_Options] unfolding n by (simp add: no_local_def)
  ultimately show False using ne by (simp add: Local_Empty_def)
qed

lemma dropped_local_never_settles:
  assumes "\<not> Local_Empty (wa_LocalOVS c)" "Local_Empty (wa_LocalOVS spec)"
  shows "\<not> Diff_Empty (attachment_diff_with (normalizeWorkloadAttachment c) (normalizeWorkloadAttachment spec)) \<and> reconcileLocalOVS lib ovs w spec = (None, w)"
proof -
  have "wa_LocalOVS (normalizeWorkloadAttachment spec) = no_local"
    using assms(2) by (simp add: normalizeWorkloadAttachment_def normalizeWorkloadLocalOVS_def)
  moreover have "wa_LocalOVS (normalizeWorkloadAttachment c) \<noteq> no_local"
    using assms(1) normalized_local_empty by (auto simp: normalizeWorkloadAttachment_def)
  ultimately show ?thesis using assms(2)
    by (auto simp: attachment_diff_with_def appendFieldDiff_def new_diff_def Diff_Empty_def reconcileLocalOVS_def)
qed

end
