(* ===== verification/Provider_Props.thy ===== *)
theory Provider_Props
  imports Provider_Intent Workload_Props
begin

text \<open>
  What the operations of provider networks delete, and that they only rewrite bridge mappings that are theirs.
\<close>

section \<open>Steps\<close>

context careful_client
begin

lemma GetOpenVSwitch_ensures: "ensures good seen u (GetOpenVSwitch (Some d) u) (\<lambda>_ _. True)"
proof -
  have "ensures good seen u (transact d u tab oper object [(op_of ''select'' t)\<lparr>op_Columns := cs\<rparr>]) (\<lambda>_ _. True)" for tab oper object t cs
    by (rule ensures_weaken [OF transact_select_ensures]) simp_all
  then show ?thesis unfolding GetOpenVSwitch_def option.case by (rule ensures_bind) (simp split: list.split)
qed

lemma mappings_ensures: "ensures good seen u (GetBridgeMappings (Some d) u) (\<lambda>_ _. True)" "ensures good seen u (root_with_mappings d u) (\<lambda>_ _. True)"
  unfolding GetBridgeMappings_def root_with_mappings_def by (rule ensures_bind [OF GetOpenVSwitch_ensures]; simp)+

lemma cas_keeps: "keeps good seen u (snd (mutateOpenVSwitchExternalIDsCAS lib (Some d) u root oper object mutations))"
proof -
  have "keeps good seen u (snd (transact d u tableOpenVSwitch oper object (cas_ops lib root mutations)))"
    by (rule quiet_transact_keeps) (simp add: cas_ops_def op_of_def)
  then show ?thesis by (auto simp: mutateOpenVSwitchExternalIDsCAS_def split: prod.split sum.split)
qed

lemma mapping_keeps: "keeps good seen u (snd (detachBridgeMapping lib d u name network))" "keeps good seen u (snd (setOwnedBridgeMapping lib d u desired))"
proof -
  have k: "keeps good seen v (snd (case c x of Some e \<Rightarrow> (Some e, v) | None \<Rightarrow> mutateOpenVSwitchExternalIDsCAS lib (Some d) v (fst x) oper object (m x)))"
    for v c oper object m and x :: "OpenVSwitch \<times> string_map" by (simp add: cas_keeps split: option.split)
  show "keeps good seen u (snd (detachBridgeMapping lib d u name network))"
    unfolding detachBridgeMapping_def Let_def prepared_pair by (simp, intro impI keeps_case [OF mappings_ensures(2)]) (rule k)
  show "keeps good seen u (snd (setOwnedBridgeMapping lib d u desired))"
    unfolding setOwnedBridgeMapping_def prepared_pair by (rule keeps_case [OF mappings_ensures(2)]) (rule k)
qed

lemma localnet_ensures: "ensures good seen u (providerLocalnetPort d u name) (\<lambda>_ _. True)"
  unfolding providerLocalnetPort_def by (rule ensures_bind [OF ListLogicalSwitchPorts_ensures]) simp

lemma owned_localnet_ensures:
  assumes "\<not> blank owner"
  shows "ensures good seen u (requireOwnedLocalnetPort d u owner name oper) (\<lambda>port v. \<exists>row. shown (seen v) tableLogicalSwitchPort row
     \<and> port = logicalSwitchPortFromRow (db_rawRow d row) \<and> lsp_Type port = ''localnet'' \<and> v2ResourceOwnedBy (lsp_ExternalIDs port) ''ProviderNetwork'' owner)"
proof -
  have "ensures good seen v (io_guard (if lsp_Type port \<noteq> ''localnet'' then Some e
        else requireV2OwnedExternalIDs (lsp_ExternalIDs port) ''ProviderNetwork'' owner dbOVNNorthbound tableLogicalSwitchPort oper name) v (\<lambda>w. (Inr port, w)))
      (\<lambda>port v. \<exists>row. shown (seen v) tableLogicalSwitchPort row \<and> port = logicalSwitchPortFromRow (db_rawRow d row) \<and> lsp_Type port = ''localnet''
         \<and> v2ResourceOwnedBy (lsp_ExternalIDs port) ''ProviderNetwork'' owner)"
    if "\<exists>row. shown (seen v) tableLogicalSwitchPort row \<and> port = logicalSwitchPortFromRow (db_rawRow d row)" for v port e
    by (rule ensures_guard) (use that require_marks assms in \<open>auto split: if_splits\<close>)
  then show ?thesis unfolding requireOwnedLocalnetPort_def by (simp, intro impI ensures_bind [OF GetLogicalSwitchPort_ensures]) simp
qed

lemma allowed_switch_keeps: "keeps good seen u (snd (requireExistingLogicalSwitchAllowed d u owner name oper))"
  by (cases "selectLogicalSwitches d u name") (auto simp: requireExistingLogicalSwitchAllowed_def dest: switches_keep split: sum.splits list.splits)

lemma drop_old_keeps:
  assumes "\<not> blank name"
    and "\<And>S row. shown S tableLogicalSwitchPort row \<Longrightarrow> lsp_Type (logicalSwitchPortFromRow (db_rawRow d row)) = ''localnet'' \<Longrightarrow>
      v2ResourceOwnedBy (lsp_ExternalIDs (logicalSwitchPortFromRow (db_rawRow d row))) ''ProviderNetwork'' name \<Longrightarrow>
      okay S (delete_op tableLogicalSwitchPort (lsp_UUID (logicalSwitchPortFromRow (db_rawRow d row))))"
  shows "keeps good seen u (snd (drop_old_port lib d u name current nxt))"
proof -
  have "keeps good seen v (snd (unless_missing (deleteLogicalSwitchPortByUUID lib d v (lsp_UUID port) object) (\<lambda>w. (None, w))))"
    if "\<exists>row. shown (seen v) tableLogicalSwitchPort row \<and> port = logicalSwitchPortFromRow (db_rawRow d row) \<and> lsp_Type port = ''localnet''
      \<and> v2ResourceOwnedBy (lsp_ExternalIDs port) ''ProviderNetwork'' name" for v port object
    by (rule keeps_unless_missing [OF delete_port_by_uuid_keeps]) (use that assms(2) shown_mono in auto)
  then show ?thesis unfolding drop_old_port_def by (simp, intro impI keeps_case [OF owned_localnet_ensures [OF assms(1)]]) simp
qed

end

context careful_pair
begin

lemma provider_get_ensures: "ensures good seen u (Provider_Get (Some dn) (Some dv) u name) (\<lambda>_ _. True)"
  unfolding Provider_Get_def option.case Let_def
  by (rule ensures_guard, rule ensures_bind [OF nb.localnet_ensures], rule ensures_bind [OF ovs.mappings_ensures(1)]) simp

lemma provider_diff_ensures: "ensures good seen u (Provider_diff (Some dn) (Some dv) u name spec) (\<lambda>_ _. True)"
proof -
  have "ensures good seen u (Provider_current (Some dn) (Some dv) u name) (\<lambda>_ _. True)"
    unfolding Provider_current_def by simp (rule ensures_bind [OF ensures_found [OF provider_get_ensures]], simp)
  then show ?thesis unfolding Provider_diff_def Let_def by (rule ensures_bind) simp
qed

lemma validate_targets_keeps: "keeps good seen u (snd (validateTargets (Some dn) (Some dv) u spec))"
proof -
  have "ensures good seen u (io_bind (OVS_GetBridge dv u b) (\<lambda>_ w. io_bind (GetBridgeMappings (Some dv) w) (\<lambda>mappings w.
      io_bind (GetOpenVSwitch (Some dv) w) (\<lambda>root w. io_guard (g root mappings) w (\<lambda>w. ListLogicalSwitchPorts dn w))))) (\<lambda>_ _. True)" for b g
    by (rule ensures_bind [OF ovs.GetBridge_ensures], rule ensures_bind [OF ovs.mappings_ensures(1)], rule ensures_bind [OF ovs.GetOpenVSwitch_ensures],
        rule ensures_guard, rule ensures_weaken [OF nb.ListLogicalSwitchPorts_ensures]) simp
  then show ?thesis unfolding validateTargets_def Let_def option.case prod.case
    by (rule keeps_case) (intro keeps_then, simp_all add: nb.allowed_switch_keeps)
qed

lemma provider_ovsdb_keeps: "keeps good seen u (snd (Provider_reconcileOVSDB lib dn dv u spec))"
proof (cases "provider_marks (normalizeProviderNetwork spec)")
  case (Inr ids)
  show ?thesis unfolding Provider_reconcileOVSDB_def Let_def Inr sum.case case_prod_beta
    by (rule keeps_then [OF nb.ensure_switch_keeps], rule keeps_then [OF nb.ensure_port_keeps], rule ovs.mapping_keeps(2))
qed (simp add: Provider_reconcileOVSDB_def Let_def)

lemma provider_reconcile_ensures: "ensures good seen u (Provider_Reconcile lib (Some dn) (Some dv) u name spec) (\<lambda>_ _. True)"
proof (cases "Provider_Plan spec")
  case (Inr plan)
  show ?thesis unfolding Provider_Reconcile_def Inr sum.case option.case
    by (rule ensures_after_check [OF validate_targets_keeps], rule ensures_bind [OF provider_diff_ensures], rule ensures_apply_diff)
      (auto intro: provider_ovsdb_keeps)
qed (simp add: Provider_Reconcile_def)

lemma provider_apply_keeps: "keeps good seen u (snd (Provider_Apply lib (Some dn) (Some dv) u name spec))"
  using ensures_keeps [OF provider_reconcile_ensures] by (simp add: Provider_Apply_def Let_def io_check_def)

lemma provider_delete_keeps:
  assumes okay: "\<And>S row. shown S tableLogicalSwitchPort row \<Longrightarrow> lsp_Type (logicalSwitchPortFromRow (db_rawRow dn row)) = ''localnet'' \<Longrightarrow>
      v2ResourceOwnedBy (lsp_ExternalIDs (logicalSwitchPortFromRow (db_rawRow dn row))) ''ProviderNetwork'' name \<Longrightarrow>
      okay S (delete_op tableLogicalSwitchPort (lsp_UUID (logicalSwitchPortFromRow (db_rawRow dn row))))"
  shows "keeps good seen u (snd (Provider_Delete lib (Some dn) (Some dv) u name))"
proof (cases "blank name")
  case False
  let ?owned = "\<lambda>port v. \<exists>row. shown (seen v) tableLogicalSwitchPort row \<and> port = logicalSwitchPortFromRow (db_rawRow dn row)
     \<and> lsp_Type port = ''localnet'' \<and> v2ResourceOwnedBy (lsp_ExternalIDs port) ''ProviderNetwork'' name"
  have m: "ensures good seen u (io_bind (providerLocalnetPort dn u name) (\<lambda>localnet w.
      let network = provider_of_port name localnet in
      io_bind (requireOwnedLocalnetPort dn w name (pn_LocalnetPort network) ''delete'') (\<lambda>port w. (Inr (network, port), w)))) (\<lambda>x v. ?owned (snd x) v)"
    unfolding Let_def by (rule ensures_bind [OF nb.localnet_ensures], rule ensures_bind [OF nb.owned_localnet_ensures [OF False]]) simp
  have del: "keeps good seen v (snd (unless_missing (detachBridgeMapping lib dv v name network) (\<lambda>w. deleteLogicalSwitchPortByUUID lib dn w (lsp_UUID port) object)))"
    if "?owned port v" for network port object v
    by (rule keeps_unless_missing [OF ovs.mapping_keeps(1)], rule nb.delete_port_by_uuid_keeps) (use that okay shown_mono in \<open>auto intro: order_trans\<close>)
  show ?thesis unfolding Provider_Delete_def validateName_def if_not_P [OF False] option.case prod.case prepared_pair
    by (rule keeps_case [OF m]) (rule del)
qed (simp add: Provider_Delete_def validateName_def)

lemma provider_patch_ensures:
  assumes okay: "\<And>S row. shown S tableLogicalSwitchPort row \<Longrightarrow> lsp_Type (logicalSwitchPortFromRow (db_rawRow dn row)) = ''localnet'' \<Longrightarrow>
      v2ResourceOwnedBy (lsp_ExternalIDs (logicalSwitchPortFromRow (db_rawRow dn row))) ''ProviderNetwork'' name \<Longrightarrow>
      okay S (delete_op tableLogicalSwitchPort (lsp_UUID (logicalSwitchPortFromRow (db_rawRow dn row))))"
  shows "ensures good seen u (Provider_Patch lib (Some dn) (Some dv) u name patch) (\<lambda>_ _. True)"
proof (cases "blank name")
  case False
  have mapping: "keeps good seen v (snd (drop_old_mapping lib dv v name current nxt))" for v current nxt
    unfolding drop_old_mapping_def using keeps_unless_missing [OF ovs.mapping_keeps(1)] by simp
  show ?thesis unfolding Provider_Patch_def Let_def option.case
    by (rule ensures_bind [OF provider_get_ensures], rule ensures_after_check [OF provider_apply_keeps], rule ensures_after_check [OF mapping],
        rule ensures_after_check [OF nb.drop_old_keeps [OF False okay]], assumption, assumption, assumption, rule ensures_after_check)
      (auto simp: deleteExternalIDKeys_def intro: nb.deleteMapKeys_keeps)
qed (simp add: Provider_Patch_def Provider_Get_def validateName_def)

end

section \<open>Deletions of provider networks\<close>

definition of_provider :: "(row \<Rightarrow> row) \<Rightarrow> string \<Rightarrow> answered \<Rightarrow> Operation \<Rightarrow> bool" where
  "of_provider raw name S p \<longleftrightarrow> (op_Op p = ''delete'' \<longrightarrow>
     (\<exists>row. shown S tableLogicalSwitchPort row \<and> (let port = logicalSwitchPortFromRow (raw row) in
        lsp_Type port = ''localnet'' \<and> v2ResourceOwnedBy (lsp_ExternalIDs port) ''ProviderNetwork'' name
        \<and> p = delete_op tableLogicalSwitchPort (lsp_UUID port))))"

lemma of_provider_port:
  "shown S tableLogicalSwitchPort row \<Longrightarrow> lsp_Type (logicalSwitchPortFromRow (raw row)) = ''localnet'' \<Longrightarrow>
     v2ResourceOwnedBy (lsp_ExternalIDs (logicalSwitchPortFromRow (raw row))) ''ProviderNetwork'' name \<Longrightarrow>
     of_provider raw name S (delete_op tableLogicalSwitchPort (lsp_UUID (logicalSwitchPortFromRow (raw row))))"
  unfolding of_provider_def Let_def by blast

lemma of_provider_mono: "of_provider raw name S p \<Longrightarrow> S \<le> S' \<Longrightarrow> of_provider raw name S' p"
  unfolding of_provider_def Let_def using shown_mono by blast

lemma of_provider_other: "op_Op p \<noteq> ''delete'' \<Longrightarrow> of_provider raw name S p"
  by (simp add: of_provider_def)

interpretation providing: careful_pair "recorded dn" "recorded dv" "\<lambda>w. allowed (of_provider raw name) (snd w)" "\<lambda>w. returned_in (snd w)"
  "of_provider raw name" for dn dv :: "'w dbClient" and raw name
  unfolding careful_pair_def by (intro conjI recorded_careful) (auto intro: of_provider_mono of_provider_other)

text \<open>
  C19: Whatever the two servers answer, deleting a provider network and patching it only delete localnet ports that were returned with the complete
  mark of this provider network, and reconciling it deletes nothing.
\<close>

theorem provider_deletes_only_its_own:
  "allowed (of_provider (db_rawRow dn) name) (snd (snd (Provider_Delete lib (Some (recorded dn)) (Some (recorded dv)) (w, []) name)))
 \<and> allowed (of_provider (db_rawRow dn) name) (snd (snd (Provider_Patch lib (Some (recorded dn)) (Some (recorded dv)) (w, []) name patch)))
 \<and> allowed deletes_none (snd (snd (Provider_Reconcile lib (Some (recorded dn)) (Some (recorded dv)) (w, []) name spec)))"
proof -
  let ?P = "of_provider (db_rawRow dn) name"
  have raw: "db_rawRow (recorded d) = db_rawRow d" for d :: "'w dbClient" by (simp add: recorded_def)
  have "keeps (\<lambda>w. allowed ?P (snd w)) (\<lambda>w. returned_in (snd w)) (w, []) (snd (Provider_Delete lib (Some (recorded dn)) (Some (recorded dv)) (w, []) name))"
    by (rule providing.provider_delete_keeps; simp only: raw) (erule (2) of_provider_port)
  moreover have "ensures (\<lambda>w. allowed ?P (snd w)) (\<lambda>w. returned_in (snd w)) (w, [])
      (Provider_Patch lib (Some (recorded dn)) (Some (recorded dv)) (w, []) name patch) (\<lambda>_ _. True)"
    by (rule providing.provider_patch_ensures; simp only: raw) (erule (2) of_provider_port)
  ultimately show ?thesis
    using ensures_keeps [OF quiet_pair.provider_reconcile_ensures [where dn = dn and dv = dv and u = "(w, [])" and lib = lib and name = name and spec = spec]]
    by (simp add: keeps_def ensures_def)
qed

section \<open>Writes to bridge mappings\<close>

text \<open>What a transaction of a recorded client adds to the log: the operations themselves, once or twice.\<close>

lemma reconnect_log: "reconnectAfterDisconnect (recorded d) u tab oper object = (c, v) \<Longrightarrow> snd v = snd u"
  by (cases u; cases "db_reconnect d")
    (auto simp: reconnectAfterDisconnect_def recorded_def split: prod.splits option.splits if_splits)

lemma transact_log:
  assumes "transact (recorded d) u tab oper object ops = (r, v)"
  shows "\<forall>x\<in>set (snd v). x \<in> set (snd u) \<or> fst x = ops"
proof -
  have send: "\<forall>x\<in>set (snd w). x \<in> set (snd u) \<or> fst x = ops" if "db_Transact (recorded d) u ops = (r', w)" for u r' w
    using that by (cases u) (auto simp: recorded_def split: prod.splits)
  from rec.transact_sent [OF assms] show ?thesis
  proof (elim disjE exE conjE)
    fix r1 u1 c u2
    assume s: "db_Transact (recorded d) u ops = (r1, u1)" "reconnectAfterDisconnect (recorded d) u1 tab oper object = (c, u2)" "v = u2"
    show ?thesis using send [OF s(1)] reconnect_log [OF s(2)] by (simp add: s(3))
  next
    fix r1 u1 c u2 r3
    assume s: "db_Transact (recorded d) u ops = (r1, u1)" "reconnectAfterDisconnect (recorded d) u1 tab oper object = (c, u2)" "db_Transact (recorded d) u2 ops = (r3, v)"
    have "snd u2 = snd u1" by (rule reconnect_log [OF s(2)])
    then show ?thesis using send [OF s(1)] send [OF s(3)] by auto
  qed (use send in \<open>simp, blast, blast\<close>)
qed

lemma root_log:
  assumes "root_with_mappings (recorded d) (w, []) = (r, v)" "x \<in> set (snd v)"
  shows "\<forall>p\<in>set (fst x). op_Op p = ''select''"
proof -
  obtain r' v' where t: "transact (recorded d) (w, []) tableOpenVSwitch ''get'' [] [(op_of ''select'' tableOpenVSwitch)\<lparr>op_Columns :=
      existingColumns (db_schema (recorded d)) tableOpenVSwitch [colUUID, ''bridges'', colManagerOptions, ''ssl'', colExternalIDs, ''other_config'']\<rparr>] = (r', v')"
    (is "?t = _") by (cases ?t)
  have "v = v'" using assms(1) by (cases r') (auto simp: root_with_mappings_def GetOpenVSwitch_def t split: list.splits)
  then show ?thesis using transact_log [OF t] assms(2) by auto
qed

lemma root_with_mappings_Inr: "root_with_mappings d w = (Inr (root, mappings), v) \<Longrightarrow> root_mappings root = Inr mappings"
  unfolding root_with_mappings_def by (cases "GetOpenVSwitch (Some d) w"; cases "fst (GetOpenVSwitch (Some d) w)") (auto simp: sum.map_id0 map_sum_def split: sum.splits)

lemma cas_log:
  assumes "x \<in> set (snd (snd (mutateOpenVSwitchExternalIDsCAS lib (Some (recorded d)) u root oper object mutations)))"
  shows "x \<in> set (snd u) \<or> fst x = cas_ops lib root mutations"
proof -
  obtain r v where t: "transact (recorded d) u tableOpenVSwitch oper object (cas_ops lib root mutations) = (r, v)"
    by (cases "transact (recorded d) u tableOpenVSwitch oper object (cas_ops lib root mutations)")
  show ?thesis using assms transact_log [OF t]
    by (auto simp: mutateOpenVSwitchExternalIDsCAS_def t split: if_splits sum.splits)
qed

text \<open>
  The transactions that may write the bridge mapping of a provider network: only reads, or a transaction that first waits for the root row to be
  as it was read, where the marker of the physical network was absent or its own, and was its own if there was a mapping.
\<close>

definition attach_guarded :: "ovsdb_lib \<Rightarrow> ProviderNetwork \<Rightarrow> Operation list \<Rightarrow> bool" where
  "attach_guarded lib desired ops \<longleftrightarrow>
     list_all (\<lambda>p. op_Op p = ''select'') ops
   \<or> (\<exists>root mappings. root_mappings root = Inr mappings \<and> ops = cas_ops lib root (attach_mutations lib desired mappings)
        \<and> mapping_owner root (pn_PhysicalNetwork desired) \<in> {[], pn_Name desired}
        \<and> (go_get mappings (pn_PhysicalNetwork desired) \<noteq> [] \<longrightarrow> mapping_owner root (pn_PhysicalNetwork desired) = pn_Name desired))"

text \<open>Those that may remove it: the marker was its own.\<close>

definition detach_guarded :: "ovsdb_lib \<Rightarrow> string \<Rightarrow> ProviderNetwork \<Rightarrow> Operation list \<Rightarrow> bool" where
  "detach_guarded lib name network ops \<longleftrightarrow>
     list_all (\<lambda>p. op_Op p = ''select'') ops
   \<or> (\<exists>root mappings. root_mappings root = Inr mappings \<and> ops = cas_ops lib root (detach_mutations lib (pn_PhysicalNetwork network) mappings)
        \<and> mapping_owner root (pn_PhysicalNetwork network) = name)"

lemma attach_guard: "attach_check desired root mappings = None \<Longrightarrow> root_mappings root = Inr mappings \<Longrightarrow>
    attach_guarded lib desired (cas_ops lib root (attach_mutations lib desired mappings))"
  unfolding attach_guarded_def attach_check_def Let_def by (rule disjI2, rule exI [of _ root]) (auto split: if_splits)

lemma detach_guard: "detach_check network name root mappings = None \<Longrightarrow> root_mappings root = Inr mappings \<Longrightarrow>
    detach_guarded lib name network (cas_ops lib root (detach_mutations lib (pn_PhysicalNetwork network) mappings))"
  unfolding detach_guarded_def detach_check_def Let_def by (rule disjI2, rule exI [of _ root]) (auto split: if_splits)

lemma checked_write_log:
  assumes v: "\<And>x. x \<in> set (snd v) \<Longrightarrow> P (fst x)" and c: "c = None \<Longrightarrow> P (cas_ops lib root ms)"
  shows "list_all (\<lambda>x. P (fst x)) (snd (snd (case c of Some e \<Rightarrow> (Some e, v)
      | None \<Rightarrow> mutateOpenVSwitchExternalIDsCAS lib (Some (recorded d)) v root oper object ms)))"
proof (cases c)
  case None
  show ?thesis unfolding None option.case list_all_iff
  proof
    fix x assume "x \<in> set (snd (snd (mutateOpenVSwitchExternalIDsCAS lib (Some (recorded d)) v root oper object ms)))"
    from cas_log [OF this] show "P (fst x)" using v [of x] c [OF None] by (elim disjE) simp_all
  qed
qed (simp add: list_all_iff v)


section \<open>Patching back to the default names\<close>

text \<open>
  A patch that resets the name of the localnet port to its default still treats the port as replaced when it has the default name already: the patch
  ends by deleting the port that it has just ensured. The same holds for the physical network and its mapping.
\<close>

lemma patch_default_port_dropped:
  assumes "pnp_LocalnetPort patch = Some []" "pn_LocalnetPort current = pn_Name current @ ''-localnet''"
  shows "pn_LocalnetPort (normalizeProviderNetwork (patched_provider current patch)) = pn_LocalnetPort current
    \<and> drop_old_port lib d w name current (patched_provider current patch) =
      (case requireOwnedLocalnetPort d w name (pn_LocalnetPort current) ''delete'' of
         (Inl e, w) \<Rightarrow> (Some e, w)
       | (Inr port, w) \<Rightarrow> unless_missing (deleteLogicalSwitchPortByUUID lib d w (lsp_UUID port) (pn_LocalnetPort current)) (\<lambda>w. (None, w)))"
  using assms by (simp add: normalizeProviderNetwork_def patched_provider_def drop_old_port_def)

end
