(* ===== verification/Spec2Isabelle.thy ===== *)
theory Spec2Isabelle
  imports Ipam_Props Openflow_Props Sdwan_Agent_Props Sdwan_Routes Router_Linux_Props Fluent_Props Bridge_Mappings Watch_Converge Ownership_Audit_Props Policy_Props Network_Props Network_Settle Ovs_Bridge_Props Provider_Props
begin

text \<open>
  \<^bold>\<open>A verification development for ovnflow\<close>

  \<^verbatim>\<open>ovnflow\<close> is a Go SDK for Open vSwitch, OVN, OpenFlow and software-defined WANs. This
  development translates its own logic into HOL, function by function, and proves what makes
  each part correct. The sources are under \<^verbatim>\<open>src/\<close>.

  \<^bold>\<open>Conventions.\<close> A Go function that returns a value and an error is a function into
  \<^typ>\<open>'e + 'a\<close> (\<^const>\<open>Inl\<close> the error), one that returns only an error is a function into an option
  (\<^const>\<open>None\<close> is \<open>nil\<close>). Strings are byte strings. Fixed-width integers are words wherever wrapping can
  be observed. A Go map is a finite map; iterating it visits keys in increasing order, the
  model's choice among the orders Go allows. \<open>sort.Slice\<close> is the stable sort. A nil slice or map and an
  empty one are the same value except in \<open>Router\<close>, where the JSON text tells them apart. Case
  folding is that of ASCII, and \<open>strconv.Quote\<close> takes valid runes outside ASCII as printable. The
  clock, the executor of commands, the OVS and OpenFlow connections and the database library are
  parameters; effects act on an arbitrary state of the outside world.

  \<^bold>\<open>Parts and theories.\<close>
  \<^item> \<open>Prelude\<close>: fallible computations, early-return checks, loops, deduplication, and the generic
    interfaces (normal forms, invariants of step functions) as locales.
  \<^item> \<open>Go_Strings\<close>, \<open>Go_Binary\<close>, \<open>Go_Net\<close>, \<open>Netip\<close>, \<open>Go_Strconv\<close>, \<open>Go_Json\<close>: what the sources use of Go's
    standard library, with the lemmas the components need.
  \<^item> \<open>Errors\<close> (\<^verbatim>\<open>errors.go\<close>, part of \<^verbatim>\<open>util.go\<close>), \<open>Util\<close> (\<^verbatim>\<open>util.go\<close>), \<open>Ownership\<close> (\<^verbatim>\<open>ownership.go\<close>), \<open>Planning\<close>
    (\<^verbatim>\<open>planning.go\<close>, \<^verbatim>\<open>gates.go\<close>): error kinds and their classification, owner marks in external ids
    and that they identify one owner.
  \<^item> \<open>Ipam\<close>, \<open>Ipam_Ranges\<close>, \<open>Ipam_Pool\<close>, \<open>Ipam_Ops\<close>, \<open>Ipam_Props\<close> (\<^verbatim>\<open>ipam.go\<close>): address pools on 32-bit
    words. The abstract view of a pool is its set of free and of held addresses; allocation
    returns the least free address, counting by merged ranges is counting the free set, and no
    sequence of calls loses or duplicates an address.
  \<^item> \<open>Openflow_Protocol\<close>, \<open>Openflow_Codec\<close>, \<open>Openflow_Match\<close>, \<open>Openflow_FlowMod\<close> (\<^verbatim>\<open>openflow_protocol.go\<close>): the
    wire format in both directions; a reference receiver decodes what the SDK encodes.
  \<^item> \<open>Openflow_Client\<close>, \<open>Openflow_Session\<close>, \<open>Openflow_Intent\<close>, \<open>Openflow_Props\<close> (\<^verbatim>\<open>openflow_client.go\<close>,
    \<^verbatim>\<open>openflow_intent.go\<close>): sessions over a byte stream with the context observed at every call,
    version negotiation, reply collection (the fuel of the reply loop is the length of the
    stream: every message consumes at least its header), and rule builders with their cookies.
  \<^item> \<open>Sdwan\<close>, \<open>Sdwan_Norm\<close>, \<open>Sdwan_Valid\<close>, \<open>Sdwan_Topology\<close>, \<open>Sdwan_Backend\<close> (\<^verbatim>\<open>sdwan.go\<close>): networks, their
    validation and normal form, topologies, and reconciliation over any backend (locales
    \<open>sdwan_backend\<close> and \<open>sdwan_store\<close>, interpreted on the in-memory backend).
  \<^item> \<open>Sdwan_Agent\<close>, \<open>Sdwan_Agent_Props\<close> (\<^verbatim>\<open>sdwan_agent.go\<close>): the control plane as a step function with
    its invariant.
  \<^item> \<open>Exec\<close>, \<open>Sdwan_Linux\<close>, \<open>Sdwan_Linux_Props\<close>, \<open>Sdwan_Routes\<close> (\<^verbatim>\<open>sdwanlinux/backend.go\<close>,
    \<^verbatim>\<open>sdwanlinux/executor_linux.go\<close>): what one site installs for a network, and that a spoke gets a
    route to every prefix of every other site.
  \<^item> \<open>Router\<close>, \<open>Router_Props\<close> (\<^verbatim>\<open>linuxrouter/router.go\<close>), \<open>Router_Linux\<close>, \<open>Router_Linux_Props\<close>
    (\<^verbatim>\<open>linuxrouter/linux_backend.go\<close>, \<^verbatim>\<open>linuxrouter/ovs_linux.go\<close>): routers with NAT, firewall and DHCP,
    inference of interfaces (locale \<open>inferring_renderer\<close>, interpreted on both renderers), patches,
    the client's store, rendering into commands, and ownership in OVS.
  \<^item> \<open>Ovsdb\<close> (\<^verbatim>\<open>nb_runtime.go\<close>, \<^verbatim>\<open>util.go\<close>), \<open>Schema\<close> (\<^verbatim>\<open>schema.go\<close>), \<open>Db_Client\<close> (\<^verbatim>\<open>config.go\<close>, the transaction layer of
    \<^verbatim>\<open>fluent.go\<close>): dynamic values and operations of OVSDB, the registry of tables and columns, and
    transactions with their single retry after a lost connection. The connection is a parameter.
  \<^item> \<open>Fluent\<close>, \<open>Fluent_Props\<close> (\<^verbatim>\<open>fluent.go\<close>, \<^verbatim>\<open>ovs_runtime.go\<close>): table references and builders. The locale
    \<open>observed_client\<close> states what every operation may do to the connection, interpreted on a client
    that logs its transactions: builders stay within the schema and never repeat an insert.
  \<^item> \<open>Bridge_Mappings\<close> (\<^verbatim>\<open>ovs_runtime.go\<close>): the text of bridge mappings reads back, and updating them is
    a compare-and-swap that only extends or shrinks what was read.
  \<^item> \<open>Watch_Match\<close>, \<open>Watch\<close>, \<open>Watch_Props\<close>, \<open>Watch_Delivery\<close>, \<open>Watch_Converge\<close> (\<^verbatim>\<open>watch.go\<close>): the watch manager with its
    goroutines as a step function (every critical section or channel operation is a step, a run is
    any sequence of steps; how often the forwarder drains a queue while the snapshot is sent is a
    schedule given with the step). Bookkeeping invariant, in-order delivery, and convergence of a
    client's view to the polled table; three races in which it does not converge are exhibited.
  \<^item> \<open>Intent\<close>, \<open>Intent_Marks\<close> (\<^verbatim>\<open>intent.go\<close>): the specifications of the declarative intents with their
    validation, normal forms and patches, and the marks they leave in external ids; marks read back as the
    owner and labels they were made from.
  \<^item> \<open>Nb_Client\<close> (\<^verbatim>\<open>nb_northbound_helpers.go\<close>, parts of \<^verbatim>\<open>nb.go\<close>, \<^verbatim>\<open>nb_northbound_groups.go\<close>), \<open>Intent_Plans\<close>: the execution all
    Northbound builders share, and the plans and differences of intents.
  \<^item> \<open>Security_Rules\<close>, \<open>Policy_Intent\<close>, \<open>Network_Intent\<close> (\<^verbatim>\<open>intent.go\<close>): every operation of security policies, virtual networks
    and DNS records over the database client.
  \<^item> \<open>Careful_Client\<close>, \<open>Policy_Props\<close>, \<open>Network_Props\<close>, \<open>Network_Settle\<close>: the locale \<open>careful_client\<close> carries the rules for
    computations that only delete what the server showed before, interpreted on a client that records its
    exchanges; the intents only delete rows with their own complete mark. Rules and networks read back as
    written, under the exact conditions for which they do.
  \<^item> \<open>Ovs_Bridge\<close>, \<open>Ovs_Bridge_Props\<close> (\<^verbatim>\<open>ovs.go\<close>, the bridge setters and readers of \<^verbatim>\<open>ovs_runtime.go\<close>): ensuring and deleting bridges
    and ports; a deletion spares ports that other bridges use and interfaces that other ports use.
  \<^item> \<open>Workload_Intent\<close>, \<open>Workload_Props\<close>, \<open>Provider_Intent\<close>, \<open>Provider_Props\<close> (\<^verbatim>\<open>intent.go\<close>): every operation of workload attachments and
    provider networks over a Northbound and an Open_vSwitch client on one world (locale \<open>careful_pair\<close>); they only delete ports
    with their own complete mark, and write a bridge mapping only where its marker allows it.
  \<^item> \<open>Ownership_Audit\<close>, \<open>Ownership_Audit_Props\<close> (\<^verbatim>\<open>ownership_audit.go\<close>): the audit over both databases; it counts
    no error exactly when the references between the rows are intact.
  \<^item> \<open>Cleanup\<close>, \<open>Cleanup_Props\<close> (\<^verbatim>\<open>cleanup.go\<close>): clean-up and adopt plans offer exactly the rows with a
    complete mark within the filter.

  \<^bold>\<open>Not modelled.\<close> The setters of the individual builders of the Northbound and Southbound
  databases (\<^verbatim>\<open>nb*.go\<close>, \<^verbatim>\<open>sb*.go\<close>), \<^verbatim>\<open>qos_intent.go\<close>, \<^verbatim>\<open>service_intent.go\<close>, the doctor (\<^verbatim>\<open>doctor.go\<close>), the integration
  harness and the command-line tools, the observer that parses the output of system tools
  (\<^verbatim>\<open>linuxrouter/observer_linux.go\<close>), and stubs for other platforms. Aliasing of Go slices is not
  observable in the modelled code except that rendering a router writes the inferred interfaces
  into the caller's NAT slices, which the model returns as the rendered router.
\<close>

end
